(* ===== verification/Indexer_Prelude.thy ===== *)
theory Indexer_Prelude
  imports Main "HOL-Library.Word" "HOL-Library.Char_ord" "HOL-Library.List_Lexorder"
    "HOL-Library.Multiset"
begin

text \<open>
  Shared vocabulary of the development: Go's integer, byte and string types, the error values of
  the program with Go's wrapping (\<open>fmt.Errorf\<close> with \<open>%w\<close>) and its two ways of comparing errors
  (\<open>==\<close> and \<open>errors.Is\<close>/\<open>errors.As\<close>), results that are either an error or a value, and the generic
  lemmas on lists, options, maps and words that the components share.
\<close>

section \<open>Go types\<close>

text \<open>
  \<open>uint64\<close> and \<open>uint\<close> are 64 bit words, so \<open>+\<close> and \<open>-\<close> wrap around as in Go. A byte is a HOL
  character (eight bits); a Go string and a byte slice are both byte sequences, so the conversions
  \<open>[]byte(s)\<close> and \<open>string(b)\<close> are the identity. Lists of characters carry the lexicographic order of
  Postgres' \<open>bytea\<close>. A pointer, or a slice whose being nil matters, is an option.
\<close>

type_synonym uint64 = "64 word"
type_synonym uint32 = "32 word"
type_synonym bytes = "char list"
type_synonym Address = bytes
type_synonym Digest = bytes
type_synonym Round = uint64

definition MaxInt64 :: uint64 where
  "MaxInt64 = 9223372036854775807"

text \<open>The zero value of a \<open>[n]byte\<close> array, and the copy of a slice into such an array.\<close>

definition zero_bytes :: "nat \<Rightarrow> bytes" where
  "zero_bytes n = replicate n (CHR 0x00)"

definition copy_array :: "nat \<Rightarrow> bytes \<Rightarrow> bytes" where
  "copy_array n b = take n b @ zero_bytes (n - length b)"

abbreviation zero_Address :: Address where
  "zero_Address \<equiv> zero_bytes 32"

section \<open>Errors\<close>

text \<open>
  The errors the code tells apart are constructors of their own; any other error is
  \<open>ErrMsg\<close> with its (constant) text. \<open>Wrap\<close> is \<open>fmt.Errorf\<close> with a \<open>%w\<close> verb. An error made by
  \<open>fmt.Errorf\<close> with \<open>%v\<close> keeps only the text, so it is an \<open>ErrMsg\<close>.
\<close>

datatype err =
    ErrMsg string
  | Wrap string err
  | ErrorNotInitialized
  | ErrorBlockNotFound
  | PgSerializationFailure
  | PgUniqueViolation
  | PgOther string
  | SqlErrNoRows
  | ConsistencyError
  | SpecialAccountRewindError string
  | MaxAPIResourcesPerAccountError Address uint64 uint64 uint64 uint64
  | MaxTransactionsError
  | ErrTimeout

type_synonym 'a result = "err + 'a"

text \<open>\<open>errors.Is\<close> and \<open>errors.As\<close> look through every \<open>Wrap\<close>; \<open>==\<close> does not.\<close>

fun err_cause :: "err \<Rightarrow> err" where
  "err_cause (Wrap _ e) = err_cause e"
| "err_cause e = e"

definition errors_Is :: "err \<Rightarrow> err \<Rightarrow> bool" where
  "errors_Is e target \<longleftrightarrow> err_cause e = target"

definition res_bind :: "'a result \<Rightarrow> ('a \<Rightarrow> 'b result) \<Rightarrow> 'b result" where
  "res_bind r f = (case r of Inl e \<Rightarrow> Inl e | Inr x \<Rightarrow> f x)"

definition res_wrap :: "string \<Rightarrow> 'a result \<Rightarrow> 'a result" where
  "res_wrap msg r = (case r of Inl e \<Rightarrow> Inl (Wrap msg e) | Inr x \<Rightarrow> Inr x)"

definition res_msg :: "string \<Rightarrow> 'a result \<Rightarrow> 'a result" where
  "res_msg msg r = (case r of Inl _ \<Rightarrow> Inl (ErrMsg msg) | Inr x \<Rightarrow> Inr x)"

text \<open>A loop that stops at the first error: the values produced so far are dropped, as the code's
  early return does.\<close>

fun res_map :: "('a \<Rightarrow> 'b result) \<Rightarrow> 'a list \<Rightarrow> 'b list result" where
  "res_map f [] = Inr []"
| "res_map f (x # xs) = res_bind (f x) (\<lambda>y. res_bind (res_map f xs) (\<lambda>ys. Inr (y # ys)))"

fun res_fold :: "('a \<Rightarrow> 's \<Rightarrow> 's result) \<Rightarrow> 'a list \<Rightarrow> 's \<Rightarrow> 's result" where
  "res_fold f [] s = Inr s"
| "res_fold f (x # xs) s = res_bind (f x s) (res_fold f xs)"

named_theorems result_simps \<open>unfolding of the result combinators\<close>

lemma res_bind_simps [simp]:
  "res_bind (Inl e) f = Inl e"
  "res_bind (Inr x) f = f x"
  by (simp_all add: res_bind_def)

lemma res_wrap_simps [simp]:
  "res_wrap m (Inl e) = Inl (Wrap m e)"
  "res_wrap m (Inr x) = Inr x"
  by (simp_all add: res_wrap_def)

lemma res_msg_simps [simp]:
  "res_msg m (Inl e) = Inl (ErrMsg m)"
  "res_msg m (Inr x) = Inr x"
  by (simp_all add: res_msg_def)

lemma res_bind_Inr_iff [result_simps]:
  "res_bind r f = Inr y \<longleftrightarrow> (\<exists>x. r = Inr x \<and> f x = Inr y)"
  by (cases r) simp_all

lemma res_bind_Inl_iff [result_simps]:
  "res_bind r f = Inl e \<longleftrightarrow> r = Inl e \<or> (\<exists>x. r = Inr x \<and> f x = Inl e)"
  by (cases r) simp_all

lemma res_wrap_Inr_iff [result_simps]: "res_wrap m r = Inr x \<longleftrightarrow> r = Inr x"
  by (cases r) simp_all

lemma res_wrap_Inl_iff [result_simps]: "res_wrap m r = Inl e \<longleftrightarrow> (\<exists>e'. r = Inl e' \<and> e = Wrap m e')"
  by (cases r) auto

lemma res_msg_Inr_iff [result_simps]: "res_msg m r = Inr x \<longleftrightarrow> r = Inr x"
  by (cases r) simp_all

lemma res_map_Inr_iff: "res_map f xs = Inr ys \<longleftrightarrow> list_all2 (\<lambda>x y. f x = Inr y) xs ys"
  by (induction xs arbitrary: ys) (auto simp: result_simps list_all2_Cons1)

lemma res_map_total: "(\<And>x. x \<in> set xs \<Longrightarrow> f x = Inr (g x)) \<Longrightarrow> res_map f xs = Inr (map g xs)"
  by (induction xs) simp_all

lemma res_fold_append: "res_fold f (xs @ ys) s = res_bind (res_fold f xs s) (res_fold f ys)"
proof (induction xs arbitrary: s)
  case Nil
  then show ?case by simp
next
  case (Cons x xs)
  then show ?case by (cases "f x s") simp_all
qed

lemma err_cause_Wrap [simp]: "errors_Is (Wrap m e) t = errors_Is e t"
  by (simp add: errors_Is_def)

section \<open>Producers\<close>

text \<open>A function that sends values to a channel and may stop with an error: the values sent, and its
  result. \<open>producer_bind\<close> is sequencing with an early return.\<close>

type_synonym ('r, 'a) producer = "'r list \<times> 'a result"

definition producer_bind :: "('r, 'a) producer \<Rightarrow> ('a \<Rightarrow> ('r, 'b) producer) \<Rightarrow> ('r, 'b) producer" where
  "producer_bind p f =
     (case p of
        (sent, Inl e) \<Rightarrow> (sent, Inl e)
      | (sent, Inr x) \<Rightarrow> (case f x of (sent', r) \<Rightarrow> (sent @ sent', r)))"

definition send_row :: "'r result \<Rightarrow> ('r, 'r) producer" where
  "send_row r = (case r of Inl e \<Rightarrow> ([], Inl e) | Inr x \<Rightarrow> ([x], Inr x))"

definition producer_wrap :: "string \<Rightarrow> ('r, 'a) producer \<Rightarrow> ('r, 'a) producer" where
  "producer_wrap m p = (fst p, res_wrap m (snd p))"

lemma producer_bind_simps [simp]:
  "producer_bind (sent, Inl e) f = (sent, Inl e)"
  "producer_bind ([], Inr x) f = f x"
  "producer_bind (y # ys, Inr x) f = (case f x of (sent', r) \<Rightarrow> (y # ys @ sent', r))"
  by (simp_all add: producer_bind_def split: prod.split)

lemma producer_bind_assoc:
  "producer_bind (producer_bind p f) g = producer_bind p (\<lambda>x. producer_bind (f x) g)"
  by (simp add: producer_bind_def split: prod.split sum.split)

lemma producer_bind_Inr:
  "producer_bind p f = (sent, Inr y) \<longleftrightarrow>
     (\<exists>x s1 s2. p = (s1, Inr x) \<and> f x = (s2, Inr y) \<and> sent = s1 @ s2)"
  by (auto simp: producer_bind_def split: prod.splits sum.splits)

lemma send_row_simps [simp]: "send_row (Inl e) = ([], Inl e)" "send_row (Inr x) = ([x], Inr x)"
  by (simp_all add: send_row_def)

lemma producer_wrap_bind:
  "producer_wrap m (producer_bind p f) = producer_bind (producer_wrap m p) (\<lambda>x. producer_wrap m (f x))"
  by (simp add: producer_bind_def producer_wrap_def split: prod.split sum.split)

lemma producer_wrap_send: "producer_wrap m (send_row r) = send_row (res_wrap m r)"
  by (cases r) (simp_all add: producer_wrap_def)

section \<open>Pointers\<close>

text \<open>
  The pointer helpers of the API (\<^verbatim>\<open>api/pointer_utils.go\<close>) and of the Postgres backend
  (\<^verbatim>\<open>idb/postgres/postgres.go\<close>).
\<close>

definition uintOrDefault :: "uint64 option \<Rightarrow> uint64" where
  "uintOrDefault x = (case x of None \<Rightarrow> 0 | Some v \<Rightarrow> v)"

definition uintOrDefaultValue :: "uint64 option \<Rightarrow> uint64 \<Rightarrow> uint64" where
  "uintOrDefaultValue x value = (case x of None \<Rightarrow> value | Some v \<Rightarrow> v)"

definition strOrDefault :: "string option \<Rightarrow> string" where
  "strOrDefault str = (case str of None \<Rightarrow> '''' | Some s \<Rightarrow> s)"

definition boolOrDefault :: "bool option \<Rightarrow> bool" where
  "boolOrDefault b = (case b of None \<Rightarrow> False | Some v \<Rightarrow> v)"

definition uint64PtrOrNil :: "uint64 \<Rightarrow> uint64 option" where
  "uint64PtrOrNil x = (if x = 0 then None else Some x)"

definition byteSlicePtr :: "bytes \<Rightarrow> bytes option" where
  "byteSlicePtr x = (if length x = 0 then None else Some x)"

fun byteSliceOmitZeroPtr_loop :: "bytes \<Rightarrow> bytes \<Rightarrow> bytes option" where
  "byteSliceOmitZeroPtr_loop x [] = None"
| "byteSliceOmitZeroPtr_loop x (v # vs) =
     (if v \<noteq> CHR 0x00 then Some x else byteSliceOmitZeroPtr_loop x vs)"

definition byteSliceOmitZeroPtr :: "bytes \<Rightarrow> bytes option" where
  "byteSliceOmitZeroPtr x = byteSliceOmitZeroPtr_loop x x"

definition strPtr :: "string \<Rightarrow> string option" where
  "strPtr x = (if length x = 0 then None else Some x)"

definition strArrayPtr :: "string list \<Rightarrow> string list option" where
  "strArrayPtr x = (if length x = 0 then None else Some x)"

definition omitEmpty :: "'a \<Rightarrow> 'a \<Rightarrow> 'a option" where
  "omitEmpty defaultVal val = (if val = defaultVal then None else Some val)"

fun allZero :: "bytes \<Rightarrow> bool" where
  "allZero [] = True"
| "allZero (v # x) = (if v \<noteq> CHR 0x00 then False else allZero x)"

lemma allZero_iff: "allZero x \<longleftrightarrow> x = zero_bytes (length x)"
  by (induction x) (auto simp: zero_bytes_def)

lemma byteSliceOmitZeroPtr_eq: "byteSliceOmitZeroPtr x = (if allZero x then None else Some x)"
proof -
  have "byteSliceOmitZeroPtr_loop y x = (if allZero x then None else Some y)" for y
    by (induction x) simp_all
  then show ?thesis by (simp add: byteSliceOmitZeroPtr_def)
qed

definition min_u64 :: "uint64 \<Rightarrow> uint64 \<Rightarrow> uint64" where
  "min_u64 x y = (if x < y then x else y)"

lemma min_u64_le [simp]: "min_u64 x y \<le> x" "min_u64 x y \<le> y"
  by (auto simp: min_u64_def)

section \<open>Decimal numerals\<close>

text \<open>\<open>strings.Join\<close>, with the separator first.\<close>

fun join_strings :: "string \<Rightarrow> string list \<Rightarrow> string" where
  "join_strings sep [] = []"
| "join_strings sep [s] = s"
| "join_strings sep (s # t # ts) = s @ sep @ join_strings sep (t # ts)"

text \<open>\<open>strconv.FormatUint(x, 10)\<close>, \<open>fmt\<close>'s \<open>%d\<close> and \<open>strconv.ParseUint(s, 10, 64)\<close>.\<close>

definition digit_char :: "nat \<Rightarrow> char" where
  "digit_char d = char_of (48 + d)"

fun format_nat :: "nat \<Rightarrow> string" where
  "format_nat n = (if n < 10 then [digit_char n] else format_nat (n div 10) @ [digit_char (n mod 10)])"

declare format_nat.simps [simp del]

definition FormatUint :: "uint64 \<Rightarrow> string" where
  "FormatUint x = format_nat (unat x)"

definition digit_value :: "char \<Rightarrow> nat option" where
  "digit_value c = (let n = of_char c :: nat in if 48 \<le> n \<and> n \<le> 57 then Some (n - 48) else None)"

fun parse_digits :: "nat \<Rightarrow> string \<Rightarrow> nat option" where
  "parse_digits acc [] = Some acc"
| "parse_digits acc (c # cs) =
     (case digit_value c of
        None \<Rightarrow> None
      | Some d \<Rightarrow> if acc * 10 + d < 2 ^ 64 then parse_digits (acc * 10 + d) cs else None)"

definition ParseUint :: "string \<Rightarrow> uint64 result" where
  "ParseUint s =
     (if s = [] then Inl (ErrMsg ''invalid syntax'')
      else case parse_digits 0 s of
             None \<Rightarrow> Inl (ErrMsg ''invalid syntax'')
           | Some n \<Rightarrow> Inr (of_nat n))"

lemma digit_value_digit_char [simp]: "d < 10 \<Longrightarrow> digit_value (digit_char d) = Some d"
  by (simp add: digit_value_def digit_char_def)

lemma parse_digits_append:
  "parse_digits acc (s @ t) = Option.bind (parse_digits acc s) (\<lambda>n. parse_digits n t)"
  by (induction s arbitrary: acc) (auto split: option.split)

lemma parse_digits_format_nat: "n < 2 ^ 64 \<Longrightarrow> parse_digits 0 (format_nat n) = Some n"
proof (induction n rule: less_induct)
  case (less n)
  show ?case
  proof (cases "n < 10")
    case True
    then show ?thesis by (subst format_nat.simps) simp
  next
    case False
    with less have "parse_digits 0 (format_nat (n div 10)) = Some (n div 10)" by simp
    with False less.prems show ?thesis
      by (subst format_nat.simps) (simp add: parse_digits_append)
  qed
qed

lemma format_nat_nonempty [simp]: "format_nat n \<noteq> []"
  by (subst format_nat.simps) simp

lemma unat_less_2_64: "unat (x :: uint64) < 2 ^ 64"
  using unsigned_less [of x] by simp

lemma unat_of_nat64: "n < 2 ^ 64 \<Longrightarrow> unat (of_nat n :: uint64) = n"
  by (simp add: unat_of_nat)

lemma inj_of_nat64: "inj_on (of_nat :: nat \<Rightarrow> uint64) {..<2 ^ 64}"
  by (rule inj_on_inverseI [where g = unat]) (simp only: lessThan_iff unat_of_nat64)

lemma of_nat64_eq: "x < 2 ^ 64 \<Longrightarrow> y < 2 ^ 64 \<Longrightarrow> (of_nat x :: uint64) = of_nat y \<Longrightarrow> x = y"
  using inj_of_nat64 by (simp only: inj_on_def lessThan_iff)

lemma ParseUint_FormatUint: "ParseUint (FormatUint x) = Inr x"
proof -
  have "unat x < 2 ^ 64" by (rule unat_less_2_64)
  then show ?thesis
    by (simp add: ParseUint_def FormatUint_def parse_digits_format_nat)
qed

section \<open>Lists\<close>

lemma find_map_Some: "find P xs = Some x \<Longrightarrow> x \<in> set xs \<and> P x"
  by (auto simp: find_Some_iff in_set_conv_nth)

text \<open>A Go map that is iterated is an association list with distinct keys, in any order.\<close>

definition go_map :: "('k \<times> 'v) list \<Rightarrow> bool" where
  "go_map m \<longleftrightarrow> distinct (map fst m)"

lemma sorted_key_take_prefix:
  "sorted (map k xs) \<Longrightarrow> x \<in> set (take n xs) \<Longrightarrow> y \<in> set (drop n xs) \<Longrightarrow> k x \<le> k y"
proof -
  assume s: "sorted (map k xs)" and x: "x \<in> set (take n xs)" and y: "y \<in> set (drop n xs)"
  from s have "sorted (map k (take n xs) @ map k (drop n xs))"
    by (metis append_take_drop_id map_append)
  with x y show ?thesis by (auto simp: sorted_append)
qed

end
