(* ===== verification/SdkTypes.thy ===== *)
theory SdkTypes
  imports Indexer_Prelude "HOL-Library.Finite_Map"
begin

text \<open>
  The data of the Algorand SDK that the indexer stores and serves: transactions with their embedded
  field groups, apply data with the recursive tree of inner transactions, block headers, account,
  asset and application state, and the ledger's state delta. The SDK is a third-party package, so
  only its data appears here, one record per Go struct and embedded struct, with the fields the
  indexer uses. Its functions are the fields of the record \<open>sdk\<close>, which every definition that calls
  one takes as an argument. Go maps that the program only converts, looks up or sorts are finite
  maps (a nil map and an empty map are the same value); slices are lists (nil is the empty list)
  except where the code tells nil apart.
\<close>

section \<open>Asset and application state\<close>

record StateSchema =
  NumUint :: uint64
  NumByteSlice :: uint64

record AssetParams =
  Total :: uint64
  Decimals :: uint32
  DefaultFrozen :: bool
  UnitName :: string
  AssetName :: string
  URL :: string
  MetadataHash :: bytes
  Manager :: Address
  Reserve :: Address
  Freeze :: Address
  Clawback :: Address

record AssetHolding =
  Amount :: uint64
  Frozen :: bool

record TealValue =
  tv_Type :: uint64
  tv_Bytes :: string
  tv_Uint :: uint64

type_synonym TealKeyValue = "(string, TealValue) fmap"

record AppLocalState =
  als_Schema :: StateSchema
  als_KeyValue :: TealKeyValue

record AppParams =
  ap_ApprovalProgram :: bytes
  ap_ClearStateProgram :: bytes
  ap_GlobalState :: TealKeyValue
  ap_LocalStateSchema :: StateSchema
  ap_GlobalStateSchema :: StateSchema
  ap_ExtraProgramPages :: uint32
  ap_Version :: uint64

section \<open>Account data\<close>

text \<open>\<open>sdk.AccountData\<close> embeds \<open>AccountBaseData\<close> and \<open>VotingData\<close>; their fields are promoted, so
  they are the fields of one record.\<close>

record AccountData =
  Status :: uint64
  MicroAlgos :: uint64
  RewardsBase :: uint64
  RewardedMicroAlgos :: uint64
  ad_AuthAddr :: Address
  IncentiveEligible :: bool
  TotalAppSchema :: StateSchema
  TotalExtraAppPages :: uint32
  TotalAppParams :: uint64
  TotalAppLocalStates :: uint64
  TotalAssetParams :: uint64
  TotalAssets :: uint64
  TotalBoxes :: uint64
  TotalBoxBytes :: uint64
  LastProposed :: Round
  LastHeartbeat :: Round
  VoteID :: bytes
  SelectionID :: bytes
  StateProofID :: bytes
  VoteFirstValid :: Round
  VoteLastValid :: Round
  VoteKeyDilution :: uint64

section \<open>Transactions\<close>

definition PaymentTx :: string where "PaymentTx = ''pay''"
definition KeyRegistrationTx :: string where "KeyRegistrationTx = ''keyreg''"
definition AssetConfigTx :: string where "AssetConfigTx = ''acfg''"
definition AssetTransferTx :: string where "AssetTransferTx = ''axfer''"
definition AssetFreezeTx :: string where "AssetFreezeTx = ''afrz''"
definition ApplicationCallTx :: string where "ApplicationCallTx = ''appl''"
definition StateProofTx :: string where "StateProofTx = ''stpf''"
definition HeartbeatTx :: string where "HeartbeatTx = ''hb''"

lemmas TxType_defs = PaymentTx_def KeyRegistrationTx_def AssetConfigTx_def AssetTransferTx_def
  AssetFreezeTx_def ApplicationCallTx_def StateProofTx_def HeartbeatTx_def

record Header =
  Sender :: Address
  Fee :: uint64
  FirstValid :: Round
  LastValid :: Round
  Note :: bytes
  GenesisID :: string
  GenesisHash :: Digest
  Group :: Digest
  Lease :: bytes
  RekeyTo :: Address

record PaymentTxnFields =
  Receiver :: Address
  pay_Amount :: uint64
  CloseRemainderTo :: Address

record KeyregTxnFields =
  VotePK :: bytes
  SelectionPK :: bytes
  StateProofPK :: bytes
  VoteFirst :: Round
  VoteLast :: Round
  kr_VoteKeyDilution :: uint64
  Nonparticipation :: bool

record AssetConfigTxnFields =
  ConfigAsset :: uint64
  acfg_AssetParams :: AssetParams

record AssetTransferTxnFields =
  XferAsset :: uint64
  AssetAmount :: uint64
  AssetSender :: Address
  AssetReceiver :: Address
  AssetCloseTo :: Address

record AssetFreezeTxnFields =
  FreezeAccount :: Address
  FreezeAsset :: uint64
  AssetFrozen :: bool

text \<open>References of an application call to other resources; their indices count from 1 in the list
  they refer to, 0 stands for the call itself.\<close>

record BoxReference =
  ForeignAppIdx :: uint64
  bref_Name :: bytes

record HoldingRef =
  href_Address :: uint64
  href_Asset :: uint64

record LocalsRef =
  lref_Address :: uint64
  lref_App :: uint64

record ResourceRef =
  rref_Address :: Address
  rref_Asset :: uint64
  rref_App :: uint64
  rref_Holding :: HoldingRef
  rref_Locals :: LocalsRef
  rref_Box :: BoxReference

record ApplicationCallTxnFields =
  ApplicationID :: uint64
  OnCompletion :: uint64
  ApplicationArgs :: "bytes list"
  Accounts :: "Address list"
  ForeignApps :: "uint64 list"
  ForeignAssets :: "uint64 list"
  BoxReferences :: "BoxReference list"
  Access :: "ResourceRef list"
  ac_LocalStateSchema :: StateSchema
  ac_GlobalStateSchema :: StateSchema
  ac_ApprovalProgram :: bytes
  ac_ClearStateProgram :: bytes
  ac_ExtraProgramPages :: uint32
  RejectVersion :: uint64

text \<open>State proofs. The leaf proof of a signature embeds a proof; the verifying key of a signature is its
  public key.\<close>

record HashFactory =
  HashType :: "16 word"

record Proof =
  prf_Path :: "bytes list"
  prf_HashFactory :: HashFactory
  prf_TreeDepth :: "8 word"

record MerkleSignature =
  mksig_Signature :: bytes
  VectorCommitmentIndex :: uint64
  mksig_Proof :: Proof
  VerifyingKey_PublicKey :: bytes

record SigSlotCommit =
  slot_Sig :: MerkleSignature
  slot_L :: uint64

record MerkleVerifier =
  vrf_Commitment :: bytes
  vrf_KeyLifetime :: uint64

record Participant =
  prt_PK :: MerkleVerifier
  prt_Weight :: uint64

record Reveal =
  rvl_SigSlot :: SigSlotCommit
  rvl_Part :: Participant

record StateProof =
  sprf_SigCommit :: bytes
  sprf_SignedWeight :: uint64
  sprf_SigProofs :: Proof
  sprf_PartProofs :: Proof
  MerkleSignatureSaltVersion :: "8 word"
  sprf_Reveals :: "(uint64, Reveal) fmap"
  sprf_PositionsToReveal :: "uint64 list"

record StateProofMessage =
  spm_BlockHeadersCommitment :: bytes
  spm_VotersCommitment :: bytes
  spm_LnProvenWeight :: uint64
  spm_FirstAttestedRound :: uint64
  spm_LastAttestedRound :: uint64

record StateProofTxnFields =
  stpf_StateProofType :: uint64
  stpf_StateProof :: StateProof
  stpf_Message :: StateProofMessage

record HeartbeatProof =
  hbp_Sig :: bytes
  hbp_PK :: bytes
  hbp_PK2 :: bytes
  hbp_PK1Sig :: bytes
  hbp_PK2Sig :: bytes

record HeartbeatTxnFields =
  HbAddress :: Address
  HbProof :: HeartbeatProof
  HbSeed :: bytes
  HbVoteID :: bytes
  HbKeyDilution :: uint64

record Transaction =
  txn_Type :: string
  Header :: Header
  PaymentTxnFields :: PaymentTxnFields
  KeyregTxnFields :: KeyregTxnFields
  AssetConfigTxnFields :: AssetConfigTxnFields
  AssetTransferTxnFields :: AssetTransferTxnFields
  AssetFreezeTxnFields :: AssetFreezeTxnFields
  ApplicationCallTxnFields :: ApplicationCallTxnFields
  StateProofTxnFields :: StateProofTxnFields
  HeartbeatTxnFields :: HeartbeatTxnFields

record MultisigSubsig =
  Key :: bytes
  subsig_Sig :: bytes

record MultisigSig =
  msig_Version :: "8 word"
  msig_Threshold :: "8 word"
  Subsigs :: "MultisigSubsig list"

record LogicSig =
  Logic :: bytes
  lsig_Args :: "bytes list"
  lsig_Sig :: bytes
  lsig_Msig :: MultisigSig
  lsig_LMsig :: MultisigSig

record SignedTxn =
  Sig :: bytes
  Msig :: MultisigSig
  Lsig :: LogicSig
  Txn :: Transaction
  AuthAddr :: Address

section \<open>Apply data and inner transactions\<close>

record ValueDelta =
  vd_Action :: uint64
  vd_Bytes :: string
  vd_Uint :: uint64

type_synonym StateDelta = "(string, ValueDelta) fmap"

text \<open>\<open>SignedTxnWithAD\<close>, \<open>ApplyData\<close> and \<open>EvalDelta\<close> are mutually recursive through the inner
  transactions of an application call.\<close>

datatype SignedTxnWithAD = MkSignedTxnWithAD (SignedTxn: SignedTxn) (ApplyData: ApplyData)
and ApplyData = MkApplyData
  (ClosingAmount: uint64) (AssetClosingAmount: uint64) (SenderRewards: uint64)
  (ReceiverRewards: uint64) (CloseRewards: uint64) (EvalDelta: EvalDelta)
  (ad_ConfigAsset: uint64) (ad_ApplicationID: uint64)
and EvalDelta = MkEvalDelta
  (GlobalDelta: StateDelta) (LocalDeltas: "(uint64, StateDelta) fmap")
  (SharedAccts: "Address list") (Logs: "string list") (InnerTxns: "SignedTxnWithAD list")

text \<open>\<open>stxn.Txn\<close> and \<open>stxn.EvalDelta.InnerTxns\<close>, through the embedded structs.\<close>

abbreviation stxn_Txn :: "SignedTxnWithAD \<Rightarrow> Transaction" where
  "stxn_Txn stxn \<equiv> Txn (SignedTxn stxn)"

abbreviation inners :: "SignedTxnWithAD \<Rightarrow> SignedTxnWithAD list" where
  "inners stxn \<equiv> InnerTxns (EvalDelta (ApplyData stxn))"

text \<open>Assignments to a field of the embedded structs.\<close>

definition set_InnerTxns :: "SignedTxnWithAD list \<Rightarrow> SignedTxnWithAD \<Rightarrow> SignedTxnWithAD" where
  "set_InnerTxns its stxn =
     (case stxn of MkSignedTxnWithAD st (MkApplyData ca aca sr rr cr (MkEvalDelta gd ld sa lg _) cfg app) \<Rightarrow>
        MkSignedTxnWithAD st (MkApplyData ca aca sr rr cr (MkEvalDelta gd ld sa lg its) cfg app))"

record SignedTxnInBlock =
  stib_SignedTxnWithAD :: SignedTxnWithAD
  HasGenesisID :: bool
  HasGenesisHash :: bool

lemma set_InnerTxns_sel [simp]:
  "SignedTxn (set_InnerTxns its stxn) = SignedTxn stxn"
  "inners (set_InnerTxns its stxn) = its"
  "AssetClosingAmount (ApplyData (set_InnerTxns its stxn)) = AssetClosingAmount (ApplyData stxn)"
  by (simp_all add: set_InnerTxns_def split: SignedTxnWithAD.split ApplyData.split EvalDelta.split)

section \<open>Blocks\<close>

record StateProofTrackingData =
  StateProofVotersCommitment :: bytes
  StateProofOnlineTotalWeight :: uint64
  StateProofNextRound :: Round

record BlockHeader =
  bh_Round :: Round
  Branch :: bytes
  Branch512 :: bytes
  Seed :: bytes
  NativeSha512_256Commitment :: bytes
  Sha256Commitment :: bytes
  Sha512Commitment :: bytes
  TimeStamp :: "64 word"
  bh_GenesisID :: string
  bh_GenesisHash :: Digest
  Proposer :: Address
  FeesCollected :: uint64
  Bonus :: uint64
  ProposerPayout :: uint64
  FeeSink :: Address
  RewardsPool :: Address
  RewardsLevel :: uint64
  RewardsRate :: uint64
  RewardsResidue :: uint64
  RewardsRecalculationRound :: Round
  CurrentProtocol :: string
  NextProtocol :: string
  NextProtocolApprovals :: uint64
  NextProtocolVoteBefore :: Round
  NextProtocolSwitchOn :: Round
  UpgradePropose :: string
  UpgradeDelay :: Round
  UpgradeApprove :: bool
  TxnCounter :: uint64
  StateProofTracking :: "(uint64, StateProofTrackingData) fmap"
  ExpiredParticipationAccounts :: "Address list"
  AbsentParticipationAccounts :: "Address list"

record Block =
  BlockHeader :: BlockHeader
  Payset :: "SignedTxnInBlock list"

section \<open>Ledger state deltas\<close>

record BalanceRecord =
  br_Addr :: Address
  br_AccountData :: AccountData

record AssetParamsDelta =
  apd_Params :: "AssetParams option"
  apd_Deleted :: bool

record AssetHoldingDelta =
  ahd_Holding :: "AssetHolding option"
  ahd_Deleted :: bool

record AssetResourceRecord =
  arr_Aidx :: uint64
  arr_Addr :: Address
  arr_Params :: AssetParamsDelta
  arr_Holding :: AssetHoldingDelta

record AppParamsDelta =
  appd_Params :: "AppParams option"
  appd_Deleted :: bool

record AppLocalStateDelta =
  alsd_LocalState :: "AppLocalState option"
  alsd_Deleted :: bool

record AppResourceRecord =
  aprr_Aidx :: uint64
  aprr_Addr :: Address
  aprr_Params :: AppParamsDelta
  aprr_State :: AppLocalStateDelta

record AccountDeltas =
  Accts :: "BalanceRecord list"
  AssetResources :: "AssetResourceRecord list"
  AppResources :: "AppResourceRecord list"

text \<open>A key-value modification carries the new value, or nil when the key is deleted. The map of
  modifications is iterated by the writer, so it is an association list in any iteration order.\<close>

record KvValueDelta =
  kv_Data :: "bytes option"

record LedgerStateDelta =
  lsd_Accts :: AccountDeltas
  KvMods :: "(string \<times> KvValueDelta) list"

record ValidatedBlock =
  vb_Block :: Block
  vb_Delta :: LedgerStateDelta

record SpecialAddresses =
  sa_FeeSink :: Address
  sa_RewardsPool :: Address

section \<open>SDK functions\<close>

text \<open>
  The functions of the SDK (and of \<open>avm-abi\<close>) the program calls. \<open>ConsensusParams\<close> is the
  protocol table: the parameters the indexer reads of a consensus version, if the version is known.
\<close>

record ConsensusParams =
  MinBalance :: uint64
  AppFlatParamsMinBalance :: uint64
  AppFlatOptInMinBalance :: uint64
  SchemaMinBalancePerEntry :: uint64
  SchemaUintMinBalance :: uint64
  SchemaBytesMinBalance :: uint64
  BoxFlatMinBalance :: uint64
  BoxByteMinBalance :: uint64
  SupportSignedTxnInBlock :: bool
  RequireGenesisHash :: bool
  RewardUnit :: uint64

record sdk =
  DecodeAddress :: "string \<Rightarrow> Address result"
  AddressString :: "Address \<Rightarrow> string"
  TransactionIDString :: "Transaction \<Rightarrow> string"
  Msig_Blank :: "MultisigSig \<Rightarrow> bool"
  Lsig_Blank :: "LogicSig \<Rightarrow> bool"
  AssetParams_IsZero :: "AssetParams \<Rightarrow> bool"
  SplitBoxKey :: "string \<Rightarrow> (uint64 \<times> string) result"
  Consensus :: "string \<Rightarrow> ConsensusParams option"

text \<open>\<open>Address.IsZero\<close> compares with the zero array.\<close>

definition IsZero :: "Address \<Rightarrow> bool" where
  "IsZero a \<longleftrightarrow> a = zero_Address"

section \<open>Zero values\<close>

definition zero_StateSchema :: StateSchema where
  "zero_StateSchema = \<lparr>NumUint = 0, NumByteSlice = 0\<rparr>"

definition zero_AssetParams :: AssetParams where
  "zero_AssetParams =
     \<lparr>Total = 0, Decimals = 0, DefaultFrozen = False, UnitName = [], AssetName = [], URL = [],
      MetadataHash = zero_bytes 32, Manager = zero_Address, Reserve = zero_Address,
      Freeze = zero_Address, Clawback = zero_Address\<rparr>"

definition zero_AppLocalState :: AppLocalState where
  "zero_AppLocalState = \<lparr>als_Schema = zero_StateSchema, als_KeyValue = fmempty\<rparr>"

definition zero_AppParams :: AppParams where
  "zero_AppParams =
     \<lparr>ap_ApprovalProgram = [], ap_ClearStateProgram = [], ap_GlobalState = fmempty,
      ap_LocalStateSchema = zero_StateSchema, ap_GlobalStateSchema = zero_StateSchema,
      ap_ExtraProgramPages = 0, ap_Version = 0\<rparr>"

definition zero_AccountData :: AccountData where
  "zero_AccountData =
     \<lparr>Status = 0, MicroAlgos = 0, RewardsBase = 0, RewardedMicroAlgos = 0,
      ad_AuthAddr = zero_Address, IncentiveEligible = False, TotalAppSchema = zero_StateSchema,
      TotalExtraAppPages = 0, TotalAppParams = 0, TotalAppLocalStates = 0, TotalAssetParams = 0,
      TotalAssets = 0, TotalBoxes = 0, TotalBoxBytes = 0, LastProposed = 0, LastHeartbeat = 0,
      VoteID = zero_bytes 32, SelectionID = zero_bytes 32, StateProofID = zero_bytes 64,
      VoteFirstValid = 0, VoteLastValid = 0, VoteKeyDilution = 0\<rparr>"

definition zero_Header :: Header where
  "zero_Header =
     \<lparr>Sender = zero_Address, Fee = 0, FirstValid = 0, LastValid = 0, Note = [], GenesisID = [],
      GenesisHash = zero_bytes 32, Group = zero_bytes 32, Lease = zero_bytes 32,
      RekeyTo = zero_Address\<rparr>"

definition zero_PaymentTxnFields :: PaymentTxnFields where
  "zero_PaymentTxnFields =
     \<lparr>Receiver = zero_Address, pay_Amount = 0, CloseRemainderTo = zero_Address\<rparr>"

definition zero_AssetTransferTxnFields :: AssetTransferTxnFields where
  "zero_AssetTransferTxnFields =
     \<lparr>XferAsset = 0, AssetAmount = 0, AssetSender = zero_Address, AssetReceiver = zero_Address,
      AssetCloseTo = zero_Address\<rparr>"

definition zero_ApplicationCallTxnFields :: ApplicationCallTxnFields where
  "zero_ApplicationCallTxnFields =
     \<lparr>ApplicationID = 0, OnCompletion = 0, ApplicationArgs = [], Accounts = [], ForeignApps = [],
      ForeignAssets = [], BoxReferences = [], Access = [], ac_LocalStateSchema = zero_StateSchema,
      ac_GlobalStateSchema = zero_StateSchema, ac_ApprovalProgram = [],
      ac_ClearStateProgram = [], ac_ExtraProgramPages = 0, RejectVersion = 0\<rparr>"

definition zero_Proof :: Proof where
  "zero_Proof = \<lparr>prf_Path = [], prf_HashFactory = \<lparr>HashType = 0\<rparr>, prf_TreeDepth = 0\<rparr>"

definition zero_StateProofTxnFields :: StateProofTxnFields where
  "zero_StateProofTxnFields =
     \<lparr>stpf_StateProofType = 0,
      stpf_StateProof =
        \<lparr>sprf_SigCommit = [], sprf_SignedWeight = 0, sprf_SigProofs = zero_Proof, sprf_PartProofs = zero_Proof,
         MerkleSignatureSaltVersion = 0, sprf_Reveals = fmempty, sprf_PositionsToReveal = []\<rparr>,
      stpf_Message =
        \<lparr>spm_BlockHeadersCommitment = [], spm_VotersCommitment = [], spm_LnProvenWeight = 0, spm_FirstAttestedRound = 0,
         spm_LastAttestedRound = 0\<rparr>\<rparr>"

definition zero_HeartbeatTxnFields :: HeartbeatTxnFields where
  "zero_HeartbeatTxnFields =
     \<lparr>HbAddress = zero_Address,
      HbProof = \<lparr>hbp_Sig = zero_bytes 64, hbp_PK = zero_bytes 32, hbp_PK2 = zero_bytes 32, hbp_PK1Sig = zero_bytes 64,
        hbp_PK2Sig = zero_bytes 64\<rparr>,
      HbSeed = zero_bytes 32, HbVoteID = zero_bytes 32, HbKeyDilution = 0\<rparr>"

definition zero_Transaction :: Transaction where
  "zero_Transaction =
     \<lparr>txn_Type = [],
      Header = zero_Header,
      PaymentTxnFields = zero_PaymentTxnFields,
      KeyregTxnFields =
        \<lparr>VotePK = zero_bytes 32, SelectionPK = zero_bytes 32, StateProofPK = zero_bytes 64,
         VoteFirst = 0, VoteLast = 0, kr_VoteKeyDilution = 0, Nonparticipation = False\<rparr>,
      AssetConfigTxnFields = \<lparr>ConfigAsset = 0, acfg_AssetParams = zero_AssetParams\<rparr>,
      AssetTransferTxnFields = zero_AssetTransferTxnFields,
      AssetFreezeTxnFields =
        \<lparr>FreezeAccount = zero_Address, FreezeAsset = 0, AssetFrozen = False\<rparr>,
      ApplicationCallTxnFields = zero_ApplicationCallTxnFields,
      StateProofTxnFields = zero_StateProofTxnFields,
      HeartbeatTxnFields = zero_HeartbeatTxnFields\<rparr>"

definition zero_MultisigSig :: MultisigSig where
  "zero_MultisigSig = \<lparr>msig_Version = 0, msig_Threshold = 0, Subsigs = []\<rparr>"

definition zero_LogicSig :: LogicSig where
  "zero_LogicSig =
     \<lparr>Logic = [], lsig_Args = [], lsig_Sig = zero_bytes 64, lsig_Msig = zero_MultisigSig,
      lsig_LMsig = zero_MultisigSig\<rparr>"

definition zero_SignedTxn :: SignedTxn where
  "zero_SignedTxn =
     \<lparr>Sig = zero_bytes 64, Msig = zero_MultisigSig, Lsig = zero_LogicSig, Txn = zero_Transaction,
      AuthAddr = zero_Address\<rparr>"

definition zero_EvalDelta :: EvalDelta where
  "zero_EvalDelta = MkEvalDelta fmempty fmempty [] [] []"

definition zero_ApplyData :: ApplyData where
  "zero_ApplyData = MkApplyData 0 0 0 0 0 zero_EvalDelta 0 0"

definition zero_SignedTxnWithAD :: SignedTxnWithAD where
  "zero_SignedTxnWithAD = MkSignedTxnWithAD zero_SignedTxn zero_ApplyData"

definition zero_BlockHeader :: BlockHeader where
  "zero_BlockHeader =
     \<lparr>bh_Round = 0, Branch = zero_bytes 32, Branch512 = zero_bytes 64, Seed = zero_bytes 32,
      NativeSha512_256Commitment = zero_bytes 32, Sha256Commitment = zero_bytes 32,
      Sha512Commitment = zero_bytes 64, TimeStamp = 0, bh_GenesisID = [],
      bh_GenesisHash = zero_bytes 32, Proposer = zero_Address, FeesCollected = 0, Bonus = 0,
      ProposerPayout = 0, FeeSink = zero_Address, RewardsPool = zero_Address, RewardsLevel = 0,
      RewardsRate = 0, RewardsResidue = 0, RewardsRecalculationRound = 0, CurrentProtocol = [],
      NextProtocol = [], NextProtocolApprovals = 0, NextProtocolVoteBefore = 0,
      NextProtocolSwitchOn = 0, UpgradePropose = [], UpgradeDelay = 0, UpgradeApprove = False,
      TxnCounter = 0, StateProofTracking = fmempty, ExpiredParticipationAccounts = [], AbsentParticipationAccounts = []\<rparr>"

definition zero_SpecialAddresses :: SpecialAddresses where
  "zero_SpecialAddresses = \<lparr>sa_FeeSink = zero_Address, sa_RewardsPool = zero_Address\<rparr>"

end
