(* ===== verification/MinBal.thy ===== *)
theory MinBal
  imports SdkTypes
begin

text \<open>
  The minimum balance computation of \<^verbatim>\<open>types/min_balance.go\<close>, with Go's 64 bit wrap-around, and
  the mathematical requirement it computes. The theorems show that the program's value is the exact
  requirement modulo \<open>2 ^ 64\<close>, that it is exact whenever the requirement fits into 64 bits, and
  that within that range an account that holds more never has a smaller requirement.
\<close>

section \<open>The program\<close>

definition stateSchemaMinBalance :: "StateSchema \<Rightarrow> ConsensusParams \<Rightarrow> uint64" where
  "stateSchemaMinBalance sm proto =
     (let flatCost = SchemaMinBalancePerEntry proto * (NumUint sm + NumByteSlice sm);
          uintCost = SchemaUintMinBalance proto * NumUint sm;
          bytesCost = SchemaBytesMinBalance proto * NumByteSlice sm
      in flatCost + uintCost + bytesCost)"

definition minBalance ::
  "ConsensusParams \<Rightarrow> uint64 \<Rightarrow> StateSchema \<Rightarrow> uint64 \<Rightarrow> uint64 \<Rightarrow> uint64 \<Rightarrow> uint64 \<Rightarrow> uint64 \<Rightarrow> uint64"
where
  "minBalance proto totalAssets totalAppSchema totalAppParams totalAppLocalStates
     totalExtraAppPages totalBoxes totalBoxBytes =
     (let minBal = MinBalance proto;
          assetCost = MinBalance proto * totalAssets;
          minBal = minBal + assetCost;
          appCreationCost = AppFlatParamsMinBalance proto * totalAppParams;
          minBal = minBal + appCreationCost;
          appOptInCost = AppFlatOptInMinBalance proto * totalAppLocalStates;
          minBal = minBal + appOptInCost;
          schemaCost = stateSchemaMinBalance totalAppSchema proto;
          minBal = minBal + schemaCost;
          extraAppProgramLenCost = AppFlatParamsMinBalance proto * totalExtraAppPages;
          minBal = minBal + extraAppProgramLenCost;
          boxBaseCost = BoxFlatMinBalance proto * totalBoxes;
          minBal = minBal + boxBaseCost;
          boxByteCost = BoxByteMinBalance proto * totalBoxBytes;
          minBal = minBal + boxByteCost
      in minBal)"

definition AccountMinBalance :: "AccountData \<Rightarrow> ConsensusParams \<Rightarrow> uint64" where
  "AccountMinBalance account proto =
     minBalance proto (TotalAssets account) (TotalAppSchema account) (TotalAppParams account)
       (TotalAppLocalStates account) (ucast (TotalExtraAppPages account)) (TotalBoxes account)
       (TotalBoxBytes account)"

section \<open>The requirement\<close>

text \<open>The requirement as a natural number: what an account holds, priced by the protocol.\<close>

definition schema_cost :: "ConsensusParams \<Rightarrow> StateSchema \<Rightarrow> nat" where
  "schema_cost proto sm =
     unat (NumUint sm) * (unat (SchemaMinBalancePerEntry proto) + unat (SchemaUintMinBalance proto)) +
     unat (NumByteSlice sm) * (unat (SchemaMinBalancePerEntry proto) + unat (SchemaBytesMinBalance proto))"

definition balance_requirement :: "ConsensusParams \<Rightarrow> AccountData \<Rightarrow> nat" where
  "balance_requirement proto account =
     unat (MinBalance proto) * (1 + unat (TotalAssets account)) +
     unat (AppFlatParamsMinBalance proto) *
       (unat (TotalAppParams account) + unat (TotalExtraAppPages account)) +
     unat (AppFlatOptInMinBalance proto) * unat (TotalAppLocalStates account) +
     schema_cost proto (TotalAppSchema account) +
     unat (BoxFlatMinBalance proto) * unat (TotalBoxes account) +
     unat (BoxByteMinBalance proto) * unat (TotalBoxBytes account)"

text \<open>The account \<open>b\<close> holds at least what \<open>a\<close> holds.\<close>

definition holds_at_least :: "AccountData \<Rightarrow> AccountData \<Rightarrow> bool" where
  "holds_at_least b a \<longleftrightarrow>
     TotalAssets a \<le> TotalAssets b \<and> TotalAppParams a \<le> TotalAppParams b \<and>
     TotalExtraAppPages a \<le> TotalExtraAppPages b \<and>
     TotalAppLocalStates a \<le> TotalAppLocalStates b \<and>
     NumUint (TotalAppSchema a) \<le> NumUint (TotalAppSchema b) \<and>
     NumByteSlice (TotalAppSchema a) \<le> NumByteSlice (TotalAppSchema b) \<and>
     TotalBoxes a \<le> TotalBoxes b \<and> TotalBoxBytes a \<le> TotalBoxBytes b"

lemma of_nat_schema_cost: "of_nat (schema_cost proto sm) = stateSchemaMinBalance sm proto"
  by (simp add: schema_cost_def stateSchemaMinBalance_def algebra_simps)

lemma of_nat_balance_requirement:
  "of_nat (balance_requirement proto account) = AccountMinBalance account proto"
  by (simp add: balance_requirement_def AccountMinBalance_def minBalance_def of_nat_schema_cost
      algebra_simps Let_def)

lemma unat_AccountMinBalance:
  "unat (AccountMinBalance account proto) = balance_requirement proto account mod 2 ^ 64"
  by (simp flip: of_nat_balance_requirement add: unat_of_nat)

lemma balance_requirement_mono:
  assumes "holds_at_least b a"
  shows "balance_requirement proto a \<le> balance_requirement proto b"
  using assms
  by (auto simp: balance_requirement_def schema_cost_def holds_at_least_def word_le_nat_alt
      intro!: add_mono mult_le_mono)

text \<open>C40: AccountMinBalance is the account's priced requirement whenever that requirement fits into
  64 bits, so in that range no intermediate product or sum wraps around visibly.\<close>

theorem AccountMinBalance_exact:
  assumes "balance_requirement proto account < 2 ^ 64"
  shows "unat (AccountMinBalance account proto) = balance_requirement proto account"
  using assms by (simp add: unat_AccountMinBalance)

definition example_proto :: ConsensusParams where
  "example_proto =
     \<lparr>MinBalance = 100000, AppFlatParamsMinBalance = 100000, AppFlatOptInMinBalance = 100000,
      SchemaMinBalancePerEntry = 25000, SchemaUintMinBalance = 3500, SchemaBytesMinBalance = 25000,
      BoxFlatMinBalance = 2500, BoxByteMinBalance = 400, SupportSignedTxnInBlock = True,
      RequireGenesisHash = True, RewardUnit = 1000000\<rparr>"

definition example_account :: AccountData where
  "example_account =
     zero_AccountData\<lparr>MicroAlgos := 5000000, TotalAssets := 2, TotalAppParams := 1,
       TotalExtraAppPages := 1, TotalAppSchema := \<lparr>NumUint = 2, NumByteSlice = 1\<rparr>, TotalBoxes := 1,
       TotalBoxBytes := 10\<rparr>"

theorem AccountMinBalance_exact_witness:
  "balance_requirement example_proto example_account < 2 ^ 64 \<and>
   unat (AccountMinBalance example_account example_proto) = 613500"
  using AccountMinBalance_exact [of example_proto example_account]
  by (simp add: balance_requirement_def schema_cost_def example_proto_def example_account_def
      zero_AccountData_def)

text \<open>While the larger requirement fits into 64 bits, an account that holds at least as many
  assets, applications, schema entries, pages and boxes needs at least as large a balance.\<close>

theorem AccountMinBalance_mono:
  assumes "holds_at_least b a" "balance_requirement proto b < 2 ^ 64"
  shows "AccountMinBalance a proto \<le> AccountMinBalance b proto"
  using balance_requirement_mono [OF assms(1), of proto] assms(2)
  by (simp add: word_le_nat_alt unat_AccountMinBalance)

theorem AccountMinBalance_mono_witness:
  "holds_at_least example_account zero_AccountData \<and>
   balance_requirement example_proto example_account < 2 ^ 64 \<and>
   AccountMinBalance zero_AccountData example_proto \<le> AccountMinBalance example_account example_proto"
proof -
  have h: "holds_at_least example_account zero_AccountData"
    by (simp add: holds_at_least_def example_account_def zero_AccountData_def zero_StateSchema_def)
  have r: "balance_requirement example_proto example_account < 2 ^ 64"
    by (simp add: balance_requirement_def schema_cost_def example_proto_def example_account_def
        zero_AccountData_def)
  show ?thesis using h r AccountMinBalance_mono [OF h r] by simp
qed

end
