(* ===== verification/GoBytes.thy ===== *)
theory GoBytes
  imports Indexer_Prelude
begin

text \<open>
  What the program uses of Go's \<open>encoding/base64\<close>, \<open>encoding/binary\<close> and of the decoding of strings
  as UTF-8 (the \<open>range\<close> loop over a string), with the round trips the paging tokens and the stored
  JSON documents rest on, and \<^verbatim>\<open>PrintableUTF8OrEmpty\<close> of \<^verbatim>\<open>util/util.go\<close>.
\<close>

section \<open>Little endian integers\<close>

primrec le_bytes :: "nat \<Rightarrow> nat \<Rightarrow> bytes" where
  "le_bytes 0 x = []"
| "le_bytes (Suc n) x = char_of (x mod 256) # le_bytes n (x div 256)"

primrec le_val :: "bytes \<Rightarrow> nat" where
  "le_val [] = 0"
| "le_val (c # cs) = of_char c + 256 * le_val cs"

definition PutUint64 :: "uint64 \<Rightarrow> bytes" where
  "PutUint64 x = le_bytes 8 (unat x)"

definition PutUint32 :: "uint32 \<Rightarrow> bytes" where
  "PutUint32 x = le_bytes 4 (unat x)"

text \<open>\<open>Uint64\<close> and \<open>Uint32\<close> are only called on slices of eight and four bytes.\<close>

definition Uint64 :: "bytes \<Rightarrow> uint64" where
  "Uint64 b = of_nat (le_val b)"

definition Uint32 :: "bytes \<Rightarrow> uint32" where
  "Uint32 b = of_nat (le_val b)"

lemma length_le_bytes [simp]: "length (le_bytes n x) = n"
  by (induction n arbitrary: x) simp_all

lemma le_val_le_bytes: "le_val (le_bytes n x) = x mod 256 ^ n"
proof (induction n arbitrary: x)
  case 0
  then show ?case by simp
next
  case (Suc n)
  have "x mod 256 + 256 * (x div 256 mod 256 ^ n) = x mod 256 ^ Suc n"
    by (simp add: mod_mult2_eq)
  with Suc show ?case by simp
qed

lemma PutUint64_length [simp]: "length (PutUint64 x) = 8"
  by (simp add: PutUint64_def)

lemma PutUint32_length [simp]: "length (PutUint32 x) = 4"
  by (simp add: PutUint32_def)

lemma Uint64_PutUint64 [simp]: "Uint64 (PutUint64 x) = x"
proof -
  have "unat x < 256 ^ 8" using unat_less_2_64 [of x] by simp
  then show ?thesis by (simp add: Uint64_def PutUint64_def le_val_le_bytes)
qed

lemma Uint32_PutUint32 [simp]: "Uint32 (PutUint32 x) = x"
proof -
  have "unat x < 256 ^ 4" using unsigned_less [of x] by simp
  then show ?thesis by (simp add: Uint32_def PutUint32_def le_val_le_bytes)
qed

section \<open>Base64\<close>

definition std_alphabet :: string where
  "std_alphabet = ''ABCDEFGHIJKLMNOPQRSTUVWXYZabcdefghijklmnopqrstuvwxyz0123456789+/''"

definition url_alphabet :: string where
  "url_alphabet = ''ABCDEFGHIJKLMNOPQRSTUVWXYZabcdefghijklmnopqrstuvwxyz0123456789-_''"

fun index_of :: "'a \<Rightarrow> 'a list \<Rightarrow> nat option" where
  "index_of x [] = None"
| "index_of x (y # ys) = (if x = y then Some 0 else map_option Suc (index_of x ys))"

text \<open>\<open>EncodeToString\<close> with padding: three bytes give four digits.\<close>

fun b64_encode :: "string \<Rightarrow> bytes \<Rightarrow> string" where
  "b64_encode al [] = []"
| "b64_encode al [a] =
     (let x = of_char a :: nat in [al ! (x div 4), al ! (x mod 4 * 16), CHR ''='', CHR ''=''])"
| "b64_encode al [a, b] =
     (let x = of_char a :: nat; y = of_char b :: nat in
      [al ! (x div 4), al ! (x mod 4 * 16 + y div 16), al ! (y mod 16 * 4), CHR ''=''])"
| "b64_encode al (a # b # c # rest) =
     (let x = of_char a :: nat; y = of_char b :: nat; z = of_char c :: nat in
      [al ! (x div 4), al ! (x mod 4 * 16 + y div 16), al ! (y mod 16 * 4 + z div 64), al ! (z mod 64)]
      @ b64_encode al rest)"

text \<open>\<open>DecodeString\<close>: carriage returns and line feeds are skipped, padding may only end the input,
  and the unused low bits of a padded group are ignored.\<close>

fun b64_decode_groups :: "string \<Rightarrow> string \<Rightarrow> bytes option" where
  "b64_decode_groups al [] = Some []"
| "b64_decode_groups al (a # b # c # d # rest) =
     (case (index_of a al, index_of b al) of
        (Some i, Some j) \<Rightarrow>
          (if c = CHR ''='' then
             (if d = CHR ''='' \<and> rest = [] then Some [char_of (i * 4 + j div 16)] else None)
           else case index_of c al of
             None \<Rightarrow> None
           | Some k \<Rightarrow>
               if d = CHR ''='' then
                 (if rest = [] then Some [char_of (i * 4 + j div 16), char_of (j mod 16 * 16 + k div 4)]
                  else None)
               else case (index_of d al, b64_decode_groups al rest) of
                 (Some l, Some bs) \<Rightarrow>
                   Some (char_of (i * 4 + j div 16) # char_of (j mod 16 * 16 + k div 4) #
                         char_of (k mod 4 * 64 + l) # bs)
               | _ \<Rightarrow> None)
      | _ \<Rightarrow> None)"
| "b64_decode_groups al _ = None"

definition b64_decode :: "string \<Rightarrow> string \<Rightarrow> bytes result" where
  "b64_decode al s =
     (case b64_decode_groups al (filter (\<lambda>c. c \<noteq> CHR 0x0A \<and> c \<noteq> CHR 0x0D) s) of
        None \<Rightarrow> Inl (ErrMsg ''illegal base64 data'')
      | Some b \<Rightarrow> Inr b)"

definition good_alphabet :: "string \<Rightarrow> bool" where
  "good_alphabet al \<longleftrightarrow>
     length al = 64 \<and> distinct al \<and> CHR ''='' \<notin> set al \<and> CHR 0x0A \<notin> set al \<and> CHR 0x0D \<notin> set al"

lemma good_std_alphabet [simp]: "good_alphabet std_alphabet"
  by (simp add: good_alphabet_def std_alphabet_def)

lemma good_url_alphabet [simp]: "good_alphabet url_alphabet"
  by (simp add: good_alphabet_def url_alphabet_def)

lemma index_of_nth: "distinct xs \<Longrightarrow> i < length xs \<Longrightarrow> index_of (xs ! i) xs = Some i"
proof (induction xs arbitrary: i)
  case (Cons y ys)
  then show ?case by (cases i) auto
qed simp

lemma char_byte_lt [simp]: "(of_char (c :: char) :: nat) < 256"
  using nat_of_char_less_256 by simp

lemma digit_bounds [simp]:
  fixes x y :: nat
  shows "x < 256 \<Longrightarrow> x div 4 < 64" "y < 256 \<Longrightarrow> x mod 4 * 16 + y div 16 < 64"
    "y < 256 \<Longrightarrow> x mod 16 * 4 + y div 64 < 64" "x mod 4 * 16 < 64" "x mod 16 * 4 < 64" "x mod 64 < 64"
proof -
  have "x mod 4 \<le> 3" "x mod 16 \<le> 15" by simp_all
  moreover have "y < 256 \<Longrightarrow> y div 16 < 16" "y < 256 \<Longrightarrow> y div 64 < 4" "x < 256 \<Longrightarrow> x div 4 < 64"
    by (simp_all add: div_less_iff_less_mult)
  ultimately show "x < 256 \<Longrightarrow> x div 4 < 64" "y < 256 \<Longrightarrow> x mod 4 * 16 + y div 16 < 64"
    "y < 256 \<Longrightarrow> x mod 16 * 4 + y div 64 < 64" "x mod 4 * 16 < 64" "x mod 16 * 4 < 64" "x mod 64 < 64"
    by linarith+
qed

lemma char_digit [simp]:
  "(of_char (c :: char) :: nat) div 16 < 16" "(of_char c :: nat) div 64 < 4"
  by (simp_all add: div_less_iff_less_mult)

lemma good_alphabet_digit:
  assumes "good_alphabet al" "i < 64"
  shows "index_of (al ! i) al = Some i" "al ! i \<noteq> CHR ''=''"
  using assms by (auto simp: good_alphabet_def index_of_nth in_set_conv_nth)

lemma good_alphabet_nth: "good_alphabet al \<Longrightarrow> i < 64 \<Longrightarrow> al ! i \<in> set al"
  by (simp add: good_alphabet_def)

lemma b64_decode_groups_encode: "good_alphabet al \<Longrightarrow> b64_decode_groups al (b64_encode al b) = Some b"
  by (induction al b rule: b64_encode.induct) (simp_all add: Let_def good_alphabet_digit)

lemma set_b64_encode: "good_alphabet al \<Longrightarrow> set (b64_encode al b) \<subseteq> insert (CHR ''='') (set al)"
proof (induction al b rule: b64_encode.induct)
  case (4 al a b c rest)
  then show ?case by (simp add: Let_def good_alphabet_nth)
qed (simp_all add: Let_def good_alphabet_nth)

lemma b64_decode_encode [simp]:
  assumes "good_alphabet al"
  shows "b64_decode al (b64_encode al b) = Inr b"
proof -
  have "\<forall>c \<in> set (b64_encode al b). c \<noteq> CHR 0x0A \<and> c \<noteq> CHR 0x0D"
    using set_b64_encode [OF assms, of b] assms by (auto simp: good_alphabet_def)
  then have "filter (\<lambda>c. c \<noteq> CHR 0x0A \<and> c \<noteq> CHR 0x0D) (b64_encode al b) = b64_encode al b"
    by simp
  then show ?thesis using assms by (simp add: b64_decode_def b64_decode_groups_encode)
qed

section \<open>UTF-8\<close>

text \<open>
  The rune decoded at the head of a byte string and its width, as Go's \<open>range\<close> loop decodes it: an
  invalid or truncated sequence, an overlong form, a surrogate or a value above \<open>0x10FFFF\<close> gives the
  rune \<open>0xFFFD\<close> (\<open>utf8.RuneError\<close>) with width one.
\<close>

definition RuneError :: nat where
  "RuneError = 0xFFFD"

definition is_cont :: "char \<Rightarrow> bool" where
  "is_cont c \<longleftrightarrow> (of_char c :: nat) div 64 = 2"

definition cont_bits :: "char \<Rightarrow> nat" where
  "cont_bits c = of_char c mod 64"

definition decode_rune :: "bytes \<Rightarrow> nat \<times> nat" where
  "decode_rune s =
     (case s of
        [] \<Rightarrow> (RuneError, 0)
      | c0 # rest \<Rightarrow>
          let b0 = of_char c0 :: nat in
          if b0 < 0x80 then (b0, 1)
          else if 0xC2 \<le> b0 \<and> b0 < 0xE0 then
            (case rest of
               c1 # _ \<Rightarrow> if is_cont c1 then ((b0 - 0xC0) * 64 + cont_bits c1, 2) else (RuneError, 1)
             | _ \<Rightarrow> (RuneError, 1))
          else if 0xE0 \<le> b0 \<and> b0 < 0xF0 then
            (case rest of
               c1 # c2 # _ \<Rightarrow>
                 let r = ((b0 - 0xE0) * 64 + cont_bits c1) * 64 + cont_bits c2 in
                 if is_cont c1 \<and> is_cont c2 \<and> 0x800 \<le> r \<and> \<not> (0xD800 \<le> r \<and> r < 0xE000)
                 then (r, 3) else (RuneError, 1)
             | _ \<Rightarrow> (RuneError, 1))
          else if 0xF0 \<le> b0 \<and> b0 < 0xF5 then
            (case rest of
               c1 # c2 # c3 # _ \<Rightarrow>
                 let r = (((b0 - 0xF0) * 64 + cont_bits c1) * 64 + cont_bits c2) * 64 + cont_bits c3 in
                 if is_cont c1 \<and> is_cont c2 \<and> is_cont c3 \<and> 0x10000 \<le> r \<and> r \<le> 0x10FFFF
                 then (r, 4) else (RuneError, 1)
             | _ \<Rightarrow> (RuneError, 1))
          else (RuneError, 1))"

lemma decode_rune_width: "s \<noteq> [] \<Longrightarrow> 0 < snd (decode_rune s)"
  by (cases s) (auto simp: decode_rune_def Let_def split: list.split)

text \<open>The runes a \<open>range\<close> loop over the string visits.\<close>

function runes :: "bytes \<Rightarrow> nat list" where
  "runes s = (if s = [] then [] else fst (decode_rune s) # runes (drop (snd (decode_rune s)) s))"
  by pat_completeness auto
termination
  by (relation "measure length") (use decode_rune_width in auto)

declare runes.simps [simp del]

lemma runes_Nil [simp]: "runes [] = []"
  by (simp add: runes.simps)

text \<open>\<open>PrintableUTF8OrEmpty\<close>; \<open>unicode.IsPrint\<close> reads the tables of the Unicode standard, so it is the
  argument \<open>isPrint\<close>.\<close>

definition PrintableUTF8OrEmpty :: "(nat \<Rightarrow> bool) \<Rightarrow> string \<Rightarrow> string" where
  "PrintableUTF8OrEmpty isPrint s =
     (if list_ex (\<lambda>c. c = RuneError \<or> \<not> isPrint c) (runes s) then [] else s)"

lemma PrintableUTF8OrEmpty_cases:
  "PrintableUTF8OrEmpty isPrint s = s \<or> PrintableUTF8OrEmpty isPrint s = []"
  by (simp add: PrintableUTF8OrEmpty_def)

end
