(* ===== verification/Idb.thy ===== *)
theory Idb
  imports SdkTypes GoBytes MinBal
begin

text \<open>
  The backend independent part of the database interface (\<^verbatim>\<open>idb/\<close>): the transaction type enum,
  signature types, the extra data stored with a transaction, the rows that queries return and the
  opaque paging tokens made of them, and the conversion between a signed transaction and its form in
  a block (\<^verbatim>\<open>util/util.go\<close>). The lemmas show that tokens decode to the position they encode and
  that the two transaction conversions are inverse to each other.
\<close>

section \<open>Transaction types\<close>

type_synonym TxnTypeEnum = nat

definition TypeEnumPay :: TxnTypeEnum where "TypeEnumPay = 1"
definition TypeEnumKeyreg :: TxnTypeEnum where "TypeEnumKeyreg = 2"
definition TypeEnumAssetConfig :: TxnTypeEnum where "TypeEnumAssetConfig = 3"
definition TypeEnumAssetTransfer :: TxnTypeEnum where "TypeEnumAssetTransfer = 4"
definition TypeEnumAssetFreeze :: TxnTypeEnum where "TypeEnumAssetFreeze = 5"
definition TypeEnumApplication :: TxnTypeEnum where "TypeEnumApplication = 6"
definition TypeEnumStateProof :: TxnTypeEnum where "TypeEnumStateProof = 7"
definition TypeEnumHeartbeat :: TxnTypeEnum where "TypeEnumHeartbeat = 8"

lemmas TypeEnum_defs = TypeEnumPay_def TypeEnumKeyreg_def TypeEnumAssetConfig_def
  TypeEnumAssetTransfer_def TypeEnumAssetFreeze_def TypeEnumApplication_def
  TypeEnumStateProof_def TypeEnumHeartbeat_def

definition typeEnumMap :: "(string \<times> TxnTypeEnum) list" where
  "typeEnumMap =
     [(''pay'', TypeEnumPay),
      (''keyreg'', TypeEnumKeyreg),
      (''acfg'', TypeEnumAssetConfig),
      (''axfer'', TypeEnumAssetTransfer),
      (''afrz'', TypeEnumAssetFreeze),
      (''appl'', TypeEnumApplication),
      (''stpf'', TypeEnumStateProof),
      (''hb'', TypeEnumHeartbeat)]"

definition GetTypeEnum :: "string \<Rightarrow> TxnTypeEnum option" where
  "GetTypeEnum t = map_of typeEnumMap t"

lemma GetTypeEnum_inj: "GetTypeEnum s = Some e \<Longrightarrow> GetTypeEnum t = Some e \<Longrightarrow> s = t"
  by (auto simp: GetTypeEnum_def typeEnumMap_def TypeEnum_defs split: if_splits)

lemma GetTypeEnum_range: "GetTypeEnum s = Some e \<Longrightarrow> 1 \<le> e \<and> e \<le> 8"
  by (auto simp: GetTypeEnum_def typeEnumMap_def TypeEnum_defs split: if_splits)

section \<open>Signature types\<close>

type_synonym SigType = string

definition SigT :: SigType where "SigT = ''sig''"
definition MsigT :: SigType where "MsigT = ''msig''"
definition LsigT :: SigType where "LsigT = ''lsig''"

definition sigTypeEnumMap :: "SigType list" where
  "sigTypeEnumMap = [SigT, MsigT, LsigT]"

definition IsSigTypeValid :: "SigType \<Rightarrow> bool" where
  "IsSigTypeValid sigtype \<longleftrightarrow> sigtype \<in> set sigTypeEnumMap"

definition SignatureType :: "sdk \<Rightarrow> SignedTxn \<Rightarrow> SigType result" where
  "SignatureType env stxn =
     (let blankSignature = zero_bytes 64 in
      if Sig stxn \<noteq> blankSignature then Inr SigT
      else if \<not> Msig_Blank env (Msig stxn) then Inr MsigT
      else if \<not> Lsig_Blank env (Lsig stxn) then
        (if lsig_Sig (Lsig stxn) \<noteq> blankSignature then Inr SigT
         else if \<not> Msig_Blank env (lsig_Msig (Lsig stxn)) then Inr MsigT
         else if \<not> Msig_Blank env (lsig_LMsig (Lsig stxn)) then Inr MsigT
         else Inr LsigT)
      else Inl (ErrMsg ''unable to determine the signature type''))"

text \<open>Every signature type that SignatureType returns is one of the valid ones, and it fails
  exactly on a transaction with no signature of any kind.\<close>

theorem SignatureType_valid:
  "case SignatureType env stxn of
     Inl _ \<Rightarrow> Sig stxn = zero_bytes 64 \<and> Msig_Blank env (Msig stxn) \<and> Lsig_Blank env (Lsig stxn)
   | Inr t \<Rightarrow> IsSigTypeValid t \<and>
       \<not> (Sig stxn = zero_bytes 64 \<and> Msig_Blank env (Msig stxn) \<and> Lsig_Blank env (Lsig stxn))"
  by (simp add: SignatureType_def IsSigTypeValid_def sigTypeEnumMap_def Let_def)

section \<open>Address roles\<close>

type_synonym AddressRole = uint64

definition AddressRoleSender :: AddressRole where "AddressRoleSender = 0x01"
definition AddressRoleReceiver :: AddressRole where "AddressRoleReceiver = 0x02"
definition AddressRoleCloseRemainderTo :: AddressRole where "AddressRoleCloseRemainderTo = 0x04"
definition AddressRoleAssetSender :: AddressRole where "AddressRoleAssetSender = 0x08"
definition AddressRoleAssetReceiver :: AddressRole where "AddressRoleAssetReceiver = 0x10"
definition AddressRoleAssetCloseTo :: AddressRole where "AddressRoleAssetCloseTo = 0x20"
definition AddressRoleFreeze :: AddressRole where "AddressRoleFreeze = 0x40"

lemmas AddressRole_defs = AddressRoleSender_def AddressRoleReceiver_def
  AddressRoleCloseRemainderTo_def AddressRoleAssetSender_def AddressRoleAssetReceiver_def
  AddressRoleAssetCloseTo_def AddressRoleFreeze_def

section \<open>Extra transaction data\<close>

record OptionalUint =
  Present :: bool
  Value :: uint64

definition zero_OptionalUint :: OptionalUint where
  "zero_OptionalUint = \<lparr>Present = False, Value = 0\<rparr>"

text \<open>The text of the marshaller; a nil byte slice is \<open>None\<close>.\<close>

definition OptionalUint_MarshalText :: "OptionalUint \<Rightarrow> bytes option" where
  "OptionalUint_MarshalText ou = (if \<not> Present ou then None else Some (FormatUint (Value ou)))"

definition OptionalUint_UnmarshalText :: "bytes option \<Rightarrow> OptionalUint result" where
  "OptionalUint_UnmarshalText txt =
     (case txt of
        None \<Rightarrow> Inr zero_OptionalUint
      | Some t \<Rightarrow> res_bind (ParseUint t) (\<lambda>value. Inr \<lparr>Present = True, Value = value\<rparr>))"

record TxnExtra =
  AssetCloseAmount :: uint64
  RootIntra :: OptionalUint
  RootTxid :: string

definition zero_TxnExtra :: TxnExtra where
  "zero_TxnExtra = \<lparr>AssetCloseAmount = 0, RootIntra = zero_OptionalUint, RootTxid = []\<rparr>"

lemma OptionalUint_present_roundtrip:
  "Present ou \<Longrightarrow> OptionalUint_UnmarshalText (OptionalUint_MarshalText ou) = Inr ou"
  by (cases ou) (simp add: OptionalUint_MarshalText_def OptionalUint_UnmarshalText_def
      ParseUint_FormatUint)

section \<open>Rows and paging tokens\<close>

text \<open>A \<open>time.Time\<close> is the number of nanoseconds since the Unix epoch; Go's zero time is the first
  day of year one.\<close>

type_synonym Time = int

definition zero_time :: Time where
  "zero_time = - 62135596800 * 10 ^ 9"

definition time_IsZero :: "Time \<Rightarrow> bool" where
  "time_IsZero t \<longleftrightarrow> t = zero_time"

text \<open>\<open>time.Unix(sec, 0).UTC()\<close> of a signed 64 bit number of seconds.\<close>

definition time_Unix :: "64 word \<Rightarrow> Time" where
  "time_Unix sec = sint sec * 10 ^ 9"

record BlockRow =
  br_BlockHeader :: BlockHeader
  br_Error :: "err option"

definition BlockRow_Next :: "BlockRow \<Rightarrow> string result" where
  "BlockRow_Next br = Inr (b64_encode url_alphabet (PutUint64 (bh_Round (br_BlockHeader br))))"

record TxnRow =
  tr_Round :: uint64
  tr_RoundTime :: Time
  tr_Intra :: uint64
  tr_Txn :: "SignedTxnWithAD option"
  tr_RootTxn :: "SignedTxnWithAD option"
  tr_AssetID :: uint64
  tr_Extra :: TxnExtra
  tr_Error :: "err option"

text \<open>The number of inner transactions below a transaction; the loop of \<open>countInner\<close> is
  \<open>countInners\<close>. Go's \<open>uint\<close> wraps around at \<open>2 ^ 64\<close>.\<close>

fun countInner :: "SignedTxnWithAD \<Rightarrow> uint64"
and countInners :: "SignedTxnWithAD list \<Rightarrow> uint64" where
  "countInner (MkSignedTxnWithAD st (MkApplyData ca aca sr rr cr (MkEvalDelta gd ld sa lg its) cfg app)) =
     countInners its"
| "countInners [] = 0"
| "countInners (itxn # its) = (1 + countInner itxn) + countInners its"

definition TxnRow_Next :: "TxnRow \<Rightarrow> bool \<Rightarrow> string result" where
  "TxnRow_Next tr ascending =
     (let intra = tr_Intra tr;
          intra = (if Present (RootIntra (tr_Extra tr)) then Value (RootIntra (tr_Extra tr)) else intra);
          token = (\<lambda>i :: uint64. Inr (b64_encode url_alphabet (PutUint64 (tr_Round tr) @ PutUint32 (ucast i))))
      in if ascending then
           (case (case tr_RootTxn tr of Some r \<Rightarrow> Some r | None \<Rightarrow> tr_Txn tr) of
              None \<Rightarrow> Inl (ErrMsg ''Next() was not given transaction'')
            | Some stxn \<Rightarrow> token (intra + countInner stxn))
         else token intra)"

definition DecodeTxnRowNext :: "string \<Rightarrow> (uint64 \<times> uint32) result" where
  "DecodeTxnRowNext s =
     res_bind (res_wrap ''DecodeTxnRowNext() decode err'' (b64_decode url_alphabet s)) (\<lambda>b.
       if length b \<noteq> 12 then Inl (ErrMsg ''DecodeTxnRowNext() bad next token'')
       else Inr (Uint64 (take 8 b), Uint32 (drop 8 b)))"

definition DecodeBlockRowNext :: "string \<Rightarrow> uint64 result" where
  "DecodeBlockRowNext s =
     res_bind (res_wrap ''DecodeBlockRowNext() decode err'' (b64_decode url_alphabet s)) (\<lambda>b.
       if length b \<noteq> 8 then Inl (ErrMsg ''DecodeBlockRowNext() bad next token'')
       else Inr (Uint64 (take 8 b)))"

text \<open>The intra round offset the token of a row carries.\<close>

definition next_intra :: "TxnRow \<Rightarrow> bool \<Rightarrow> uint64 option" where
  "next_intra tr ascending =
     (let intra = (if Present (RootIntra (tr_Extra tr)) then Value (RootIntra (tr_Extra tr)) else tr_Intra tr)
      in if \<not> ascending then Some intra
         else case (tr_RootTxn tr, tr_Txn tr) of
                (Some r, _) \<Rightarrow> Some (intra + countInner r)
              | (None, Some t) \<Rightarrow> Some (intra + countInner t)
              | (None, None) \<Rightarrow> None)"

lemma TxnRow_Next_eq:
  "TxnRow_Next tr ascending =
     (case next_intra tr ascending of
        None \<Rightarrow> Inl (ErrMsg ''Next() was not given transaction'')
      | Some i \<Rightarrow> Inr (b64_encode url_alphabet (PutUint64 (tr_Round tr) @ PutUint32 (ucast i))))"
  by (simp add: TxnRow_Next_def next_intra_def Let_def split: option.split)

text \<open>The token of a transaction row decodes to the row's round and to the intra round offset the
  row determines (truncated to 32 bits), in both directions of paging; no token is produced exactly
  for an ascending row without a transaction.\<close>

theorem DecodeTxnRowNext_Next:
  "res_bind (TxnRow_Next tr ascending) DecodeTxnRowNext =
     (case next_intra tr ascending of
        None \<Rightarrow> Inl (ErrMsg ''Next() was not given transaction'')
      | Some i \<Rightarrow> Inr (tr_Round tr, ucast i))"
  by (simp add: TxnRow_Next_eq DecodeTxnRowNext_def split: option.split)

text \<open>The token of a block row decodes to the block's round.\<close>

theorem DecodeBlockRowNext_Next:
  "res_bind (BlockRow_Next br) DecodeBlockRowNext = Inr (bh_Round (br_BlockHeader br))"
  by (simp add: BlockRow_Next_def DecodeBlockRowNext_def)

section \<open>Signed transactions in a block\<close>

text \<open>Assignments to the promoted header fields \<open>st.Txn.GenesisID\<close> and \<open>st.Txn.GenesisHash\<close>.\<close>

definition set_GenesisID :: "string \<Rightarrow> SignedTxn \<Rightarrow> SignedTxn" where
  "set_GenesisID g st = st\<lparr>Txn := (Txn st)\<lparr>Header := (Header (Txn st))\<lparr>GenesisID := g\<rparr>\<rparr>\<rparr>"

definition set_GenesisHash :: "Digest \<Rightarrow> SignedTxn \<Rightarrow> SignedTxn" where
  "set_GenesisHash g st = st\<lparr>Txn := (Txn st)\<lparr>Header := (Header (Txn st))\<lparr>GenesisHash := g\<rparr>\<rparr>\<rparr>"

abbreviation st_GenesisID :: "SignedTxn \<Rightarrow> string" where
  "st_GenesisID st \<equiv> GenesisID (Header (Txn st))"

abbreviation st_GenesisHash :: "SignedTxn \<Rightarrow> Digest" where
  "st_GenesisHash st \<equiv> GenesisHash (Header (Txn st))"

definition DecodeSignedTxn ::
  "sdk \<Rightarrow> BlockHeader \<Rightarrow> SignedTxnInBlock \<Rightarrow> (SignedTxn \<times> ApplyData) result" where
  "DecodeSignedTxn env bh stb =
     (let st = SignedTxn (stib_SignedTxnWithAD stb); ad = ApplyData (stib_SignedTxnWithAD stb) in
      case Consensus env (CurrentProtocol bh) of
        None \<Rightarrow> Inl (ErrMsg ''consensus protocol not found'')
      | Some proto \<Rightarrow>
          if \<not> SupportSignedTxnInBlock proto then Inr (st, zero_ApplyData)
          else if st_GenesisID st \<noteq> [] then Inl (ErrMsg ''GenesisID not empty'')
          else
            let st = (if HasGenesisID stb then set_GenesisID (bh_GenesisID bh) st else st) in
            if st_GenesisHash st \<noteq> zero_bytes 32 then Inl (ErrMsg ''GenesisHash not empty'')
            else if RequireGenesisHash proto then
              (if HasGenesisHash stb
               then Inl (ErrMsg ''HasGenesisHash set to true but RequireGenesisHash obviates the flag'')
               else Inr (set_GenesisHash (bh_GenesisHash bh) st, ad))
            else if HasGenesisHash stb then Inr (set_GenesisHash (bh_GenesisHash bh) st, ad)
            else Inr (st, ad))"

definition EncodeSignedTxn ::
  "sdk \<Rightarrow> BlockHeader \<Rightarrow> SignedTxn \<Rightarrow> ApplyData \<Rightarrow> SignedTxnInBlock result" where
  "EncodeSignedTxn env bh st ad =
     (case Consensus env (CurrentProtocol bh) of
        None \<Rightarrow> Inl (ErrMsg ''consensus protocol not found'')
      | Some proto \<Rightarrow>
          if \<not> SupportSignedTxnInBlock proto then
            Inr \<lparr>stib_SignedTxnWithAD = MkSignedTxnWithAD st zero_ApplyData,
                 HasGenesisID = False, HasGenesisHash = False\<rparr>
          else
            res_bind
              (if st_GenesisID st \<noteq> [] then
                 (if st_GenesisID st = bh_GenesisID bh then Inr (set_GenesisID [] st, True)
                  else Inl (ErrMsg ''GenesisID mismatch''))
               else Inr (st, False))
              (\<lambda>(st, hasID).
            res_bind
              (if st_GenesisHash st \<noteq> zero_bytes 32 then
                 (if st_GenesisHash st = bh_GenesisHash bh
                  then Inr (set_GenesisHash (zero_bytes 32) st, \<not> RequireGenesisHash proto)
                  else Inl (ErrMsg ''GenesisHash mismatch''))
               else if RequireGenesisHash proto then Inl (ErrMsg ''GenesisHash required but missing'')
               else Inr (st, False))
              (\<lambda>(st, hasHash).
                 Inr \<lparr>stib_SignedTxnWithAD = MkSignedTxnWithAD st ad,
                      HasGenesisID = hasID, HasGenesisHash = hasHash\<rparr>)))"

lemma set_Genesis_simps [simp]:
  "st_GenesisID (set_GenesisID g st) = g"
  "st_GenesisHash (set_GenesisID g st) = st_GenesisHash st"
  "st_GenesisID (set_GenesisHash h st) = st_GenesisID st"
  "st_GenesisHash (set_GenesisHash h st) = h"
  "set_GenesisID g (set_GenesisID g' st) = set_GenesisID g st"
  "set_GenesisHash h (set_GenesisHash h' st) = set_GenesisHash h st"
  "st_GenesisID st = g \<Longrightarrow> set_GenesisID g st = st"
  "st_GenesisHash st = h \<Longrightarrow> set_GenesisHash h st = st"
  by (auto simp: set_GenesisID_def set_GenesisHash_def)

lemma set_GenesisHash_ID_commute [simp]:
  "set_GenesisHash h (set_GenesisID g st) = set_GenesisID g (set_GenesisHash h st)"
  by (simp add: set_GenesisID_def set_GenesisHash_def)

text \<open>A protocol table, header and transactions for the witnesses.\<close>

definition example_sdk :: sdk where
  "example_sdk =
     \<lparr>DecodeAddress = Inr, AddressString = id, TransactionIDString = (\<lambda>_. ''TXID''),
      Msig_Blank = (\<lambda>m. m = zero_MultisigSig), Lsig_Blank = (\<lambda>l. Logic l = []),
      AssetParams_IsZero = (\<lambda>p. p = zero_AssetParams), SplitBoxKey = (\<lambda>k. Inr (7, k)),
      Consensus = (\<lambda>v. if v = ''future'' then Some example_proto else None)\<rparr>"

definition example_header :: BlockHeader where
  "example_header =
     zero_BlockHeader\<lparr>bh_Round := 5, CurrentProtocol := ''future'', bh_GenesisID := ''net'',
       bh_GenesisHash := replicate 32 (CHR 0x01)\<rparr>"

definition example_stib :: SignedTxnInBlock where
  "example_stib =
     \<lparr>stib_SignedTxnWithAD = MkSignedTxnWithAD zero_SignedTxn zero_ApplyData,
      HasGenesisID = True, HasGenesisHash = False\<rparr>"

definition example_st :: SignedTxn where
  "example_st = set_GenesisHash (replicate 32 (CHR 0x01)) (set_GenesisID ''net'' zero_SignedTxn)"

lemma example_codec:
  "EncodeSignedTxn example_sdk example_header example_st zero_ApplyData = Inr example_stib"
  "DecodeSignedTxn example_sdk example_header example_stib = Inr (example_st, zero_ApplyData)"
  "Consensus example_sdk (CurrentProtocol example_header) = Some example_proto"
  "SupportSignedTxnInBlock example_proto"
  "bh_GenesisID example_header \<noteq> []" "bh_GenesisHash example_header \<noteq> zero_bytes 32"
  by (simp_all add: EncodeSignedTxn_def DecodeSignedTxn_def example_sdk_def example_header_def
      example_st_def example_stib_def example_proto_def set_GenesisID_def set_GenesisHash_def
      zero_SignedTxn_def zero_Transaction_def zero_Header_def zero_BlockHeader_def zero_bytes_def
      replicate_eq_replicate)

text \<open>A transaction that EncodeSignedTxn puts into a block is read back unchanged by
  DecodeSignedTxn with the same block header, for every protocol that supports this form; the earlier
  protocols drop the apply data.\<close>

theorem DecodeSignedTxn_EncodeSignedTxn:
  assumes "EncodeSignedTxn env bh st ad = Inr stb"
    and "Consensus env (CurrentProtocol bh) = Some proto"
  shows "DecodeSignedTxn env bh stb =
    Inr (st, if SupportSignedTxnInBlock proto then ad else zero_ApplyData)"
  using assms
  by (auto simp: EncodeSignedTxn_def DecodeSignedTxn_def Let_def split: if_splits)

theorem DecodeSignedTxn_EncodeSignedTxn_witness:
  "EncodeSignedTxn example_sdk example_header example_st zero_ApplyData = Inr example_stib \<and>
   DecodeSignedTxn example_sdk example_header example_stib = Inr (example_st, zero_ApplyData)"
  using DecodeSignedTxn_EncodeSignedTxn [OF example_codec(1) example_codec(3)] example_codec(1,4)
  by simp

text \<open>Conversely a block transaction that DecodeSignedTxn accepts is rebuilt exactly by
  EncodeSignedTxn, when the header names its genesis block and the protocol supports the form.\<close>

theorem EncodeSignedTxn_DecodeSignedTxn:
  assumes "DecodeSignedTxn env bh stb = Inr (st, ad)"
    and "Consensus env (CurrentProtocol bh) = Some proto" "SupportSignedTxnInBlock proto"
    and "bh_GenesisID bh \<noteq> []" "bh_GenesisHash bh \<noteq> zero_bytes 32"
  shows "EncodeSignedTxn env bh st ad = Inr stb"
  using assms
  by (cases stb; cases "stib_SignedTxnWithAD stb")
    (auto simp: EncodeSignedTxn_def DecodeSignedTxn_def Let_def split: if_splits)

theorem EncodeSignedTxn_DecodeSignedTxn_witness:
  "DecodeSignedTxn example_sdk example_header example_stib = Inr (example_st, zero_ApplyData) \<and>
   EncodeSignedTxn example_sdk example_header example_st zero_ApplyData = Inr example_stib"
  using EncodeSignedTxn_DecodeSignedTxn [OF example_codec(2-6)] example_codec(2) by simp

end
