(* ===== verification/Encoding.thy ===== *)
theory Encoding
  imports Idb
begin

text \<open>
  The JSON documents of the Postgres backend (\<^verbatim>\<open>idb/postgres/internal/encoding\<close>): the structs with
  override fields, the conversions to and from the SDK's data, and the encoders and decoders. The
  JSON codec is a third-party package and appears as the record \<open>codec\<close>: one encoder and decoder per
  document type, into an arbitrary type \<open>'j\<close> of documents. A field of an embedded struct whose tag is
  used again by an override field is not part of the document, and a JSON string holds only valid
  UTF-8; \<open>faithful_codec\<close> states the round trip up to these two limits, and the theorems show that
  the conversions lose nothing under them.
\<close>

section \<open>Document types\<close>

record blockHeader =
  bhx_BlockHeader :: BlockHeader
  ProposerOverride :: Address
  ExpiredParticipationAccountsOverride :: "Address list"
  AbsentParticipationAccountsOverride :: "Address list"

record assetParams =
  apx_AssetParams :: AssetParams
  UnitNameBytes :: bytes
  AssetNameBytes :: bytes
  URLBytes :: bytes

record transaction =
  tx_Transaction :: Transaction
  AssetParamsOverride :: assetParams

record valueDelta =
  vdx_ValueDelta :: ValueDelta
  vdx_BytesOverride :: bytes

text \<open>A \<open>byteArray\<close> map key is the string it wraps.\<close>

type_synonym stateDelta = "(string, valueDelta) fmap"

datatype signedTxnWithAD = MksignedTxnWithAD
  (stx_SignedTxnWithAD: SignedTxnWithAD) (TxnOverride: transaction) (EvalDeltaOverride: evalDelta)
and evalDelta = MkevalDelta
  (edx_EvalDelta: EvalDelta) (GlobalDeltaOverride: stateDelta)
  (LocalDeltasOverride: "(uint64, stateDelta) fmap") (LogsOverride: "bytes list")
  (InnerTxnsOverride: "signedTxnWithAD list")

record baseAccountData =
  ba_Status :: uint64
  ba_AuthAddr :: Address
  ba_IncentiveEligible :: bool
  ba_TotalAppSchema :: StateSchema
  ba_TotalExtraAppPages :: uint32
  ba_TotalAssetParams :: uint64
  ba_TotalAssets :: uint64
  ba_TotalAppParams :: uint64
  ba_TotalAppLocalStates :: uint64
  ba_TotalBoxes :: uint64
  ba_TotalBoxBytes :: uint64
  ba_LastProposed :: Round
  ba_LastHeartbeat :: Round
  ba_VoteID :: bytes
  ba_SelectionID :: bytes
  ba_StateProofID :: bytes
  ba_VoteFirstValid :: Round
  ba_VoteLastValid :: Round
  ba_VoteKeyDilution :: uint64

record trimmedAccountData =
  ta_baseAccountData :: baseAccountData
  ta_MicroAlgos :: uint64
  ta_RewardsBase :: uint64
  ta_RewardedMicroAlgos :: uint64

record tealValue =
  tvx_TealValue :: TealValue
  tvx_BytesOverride :: bytes

type_synonym tealKeyValue = "(string, tealValue) fmap"

record appLocalState =
  alx_AppLocalState :: AppLocalState
  KeyValueOverride :: tealKeyValue

record appParams =
  apx_AppParams :: AppParams
  GlobalStateOverride :: tealKeyValue

text \<open>The metastate documents (\<^verbatim>\<open>idb/postgres/internal/types/types.go\<close>).\<close>

record ImportState =
  NextRoundToAccount :: uint64

text \<open>\<open>int\<close> and \<open>int64\<close> are two's complement 64 bit words.\<close>

record MigrationState =
  NextMigration :: "64 word"
  ms_NextRound :: "64 word"
  ms_NextAssetID :: "64 word"
  ms_PointerRound :: "64 word option"
  ms_PointerIntra :: "64 word option"

record NetworkState =
  ns_GenesisHash :: Digest

record DeleteStatus =
  LastPruned :: string
  OldestRound :: uint64

section \<open>The JSON codec\<close>

text \<open>\<open>json_null\<close> is the document \<open>'null'::jsonb\<close> that the statements store for deleted objects.\<close>

record 'j codec =
  IsPrint :: "nat \<Rightarrow> bool"
  json_null :: 'j
  enc_blockHeader :: "blockHeader \<Rightarrow> 'j"
  dec_blockHeader :: "'j \<Rightarrow> blockHeader result"
  enc_assetParams :: "assetParams \<Rightarrow> 'j"
  dec_assetParams :: "'j \<Rightarrow> assetParams result"
  enc_signedTxnWithAD :: "signedTxnWithAD \<Rightarrow> 'j"
  dec_signedTxnWithAD :: "'j \<Rightarrow> signedTxnWithAD result"
  enc_baseAccountData :: "baseAccountData \<Rightarrow> 'j"
  dec_baseAccountData :: "'j \<Rightarrow> baseAccountData result"
  dec_trimmedAccountData :: "'j \<Rightarrow> trimmedAccountData result"
  enc_appLocalState :: "appLocalState \<Rightarrow> 'j"
  dec_appLocalState :: "'j \<Rightarrow> appLocalState result"
  enc_appParams :: "appParams \<Rightarrow> 'j"
  dec_appParams :: "'j \<Rightarrow> appParams result"
  dec_assetParamsArray :: "'j \<Rightarrow> assetParams list result"
  dec_appParamsArray :: "'j \<Rightarrow> appParams list result"
  dec_appLocalStateArray :: "'j \<Rightarrow> appLocalState list result"
  enc_SpecialAddresses :: "SpecialAddresses \<Rightarrow> 'j"
  dec_SpecialAddresses :: "'j \<Rightarrow> SpecialAddresses result"
  enc_TxnExtra :: "TxnExtra \<Rightarrow> 'j"
  dec_TxnExtra :: "'j \<Rightarrow> TxnExtra result"
  enc_ImportState :: "ImportState \<Rightarrow> 'j"
  dec_ImportState :: "'j \<Rightarrow> ImportState result"
  enc_MigrationState :: "MigrationState \<Rightarrow> 'j"
  dec_MigrationState :: "'j \<Rightarrow> MigrationState result"
  enc_NetworkState :: "NetworkState \<Rightarrow> 'j"
  dec_NetworkState :: "'j \<Rightarrow> NetworkState result"
  enc_DeleteStatus :: "DeleteStatus \<Rightarrow> 'j"
  dec_DeleteStatus :: "'j \<Rightarrow> DeleteStatus result"

section \<open>Base64 text of map keys\<close>

definition Base64 :: "bytes \<Rightarrow> string" where
  "Base64 data = b64_encode std_alphabet data"

definition decodeBase64 :: "string \<Rightarrow> bytes result" where
  "decodeBase64 data = b64_decode std_alphabet data"

definition byteArray_MarshalText :: "string \<Rightarrow> bytes" where
  "byteArray_MarshalText ba = Base64 ba"

definition byteArray_UnmarshalText :: "bytes \<Rightarrow> string result" where
  "byteArray_UnmarshalText txt = res_bind (decodeBase64 txt) (\<lambda>baNew. Inr baNew)"

section \<open>Block headers\<close>

definition convertExpiredAccounts :: "Address list \<Rightarrow> Address list" where
  "convertExpiredAccounts accounts = (if length accounts = 0 then [] else map (\<lambda>addr. addr) accounts)"

definition unconvertExpiredAccounts :: "Address list \<Rightarrow> Address list" where
  "unconvertExpiredAccounts accounts = (if length accounts = 0 then [] else map (\<lambda>addr. addr) accounts)"

definition convertBlockHeader :: "BlockHeader \<Rightarrow> blockHeader" where
  "convertBlockHeader header =
     \<lparr>bhx_BlockHeader = header,
      ProposerOverride = Proposer header,
      ExpiredParticipationAccountsOverride = convertExpiredAccounts (ExpiredParticipationAccounts header),
      AbsentParticipationAccountsOverride = convertExpiredAccounts (AbsentParticipationAccounts header)\<rparr>"

definition unconvertBlockHeader :: "blockHeader \<Rightarrow> BlockHeader" where
  "unconvertBlockHeader header =
     (bhx_BlockHeader header)
       \<lparr>Proposer := ProposerOverride header,
        ExpiredParticipationAccounts :=
          unconvertExpiredAccounts (ExpiredParticipationAccountsOverride header),
        AbsentParticipationAccounts :=
          unconvertExpiredAccounts (AbsentParticipationAccountsOverride header)\<rparr>"

definition EncodeBlockHeader :: "'j codec \<Rightarrow> BlockHeader \<Rightarrow> 'j" where
  "EncodeBlockHeader c header = enc_blockHeader c (convertBlockHeader header)"

definition DecodeBlockHeader :: "'j codec \<Rightarrow> 'j \<Rightarrow> BlockHeader result" where
  "DecodeBlockHeader c data =
     res_bind (dec_blockHeader c data) (\<lambda>header. Inr (unconvertBlockHeader header))"

section \<open>Asset params\<close>

definition convertAssetParams :: "'j codec \<Rightarrow> AssetParams \<Rightarrow> assetParams" where
  "convertAssetParams c params =
     (let ret = \<lparr>apx_AssetParams = params, UnitNameBytes = UnitName params,
                 AssetNameBytes = AssetName params, URLBytes = URL params\<rparr>;
          ret = ret\<lparr>apx_AssetParams := (apx_AssetParams ret)
                      \<lparr>AssetName := PrintableUTF8OrEmpty (IsPrint c) (AssetName params),
                       UnitName := PrintableUTF8OrEmpty (IsPrint c) (UnitName params),
                       URL := PrintableUTF8OrEmpty (IsPrint c) (URL params)\<rparr>\<rparr>;
          ret = (if length (AssetName (apx_AssetParams ret)) > 0 then ret\<lparr>AssetNameBytes := []\<rparr> else ret);
          ret = (if length (UnitName (apx_AssetParams ret)) > 0 then ret\<lparr>UnitNameBytes := []\<rparr> else ret);
          ret = (if length (URL (apx_AssetParams ret)) > 0 then ret\<lparr>URLBytes := []\<rparr> else ret)
      in ret)"

definition unconvertAssetParams :: "assetParams \<Rightarrow> AssetParams" where
  "unconvertAssetParams params =
     (let res = apx_AssetParams params;
          res = (if length (AssetName res) = 0 then res\<lparr>AssetName := AssetNameBytes params\<rparr> else res);
          res = (if length (UnitName res) = 0 then res\<lparr>UnitName := UnitNameBytes params\<rparr> else res);
          res = (if length (URL res) = 0 then res\<lparr>URL := URLBytes params\<rparr> else res)
      in res)"

definition EncodeAssetParams :: "'j codec \<Rightarrow> AssetParams \<Rightarrow> 'j" where
  "EncodeAssetParams c params = enc_assetParams c (convertAssetParams c params)"

definition DecodeAssetParams :: "'j codec \<Rightarrow> 'j \<Rightarrow> AssetParams result" where
  "DecodeAssetParams c data =
     res_bind (dec_assetParams c data) (\<lambda>params. Inr (unconvertAssetParams params))"

section \<open>Transactions\<close>

definition convertTransaction :: "'j codec \<Rightarrow> Transaction \<Rightarrow> transaction" where
  "convertTransaction c txn =
     \<lparr>tx_Transaction = txn,
      AssetParamsOverride = convertAssetParams c (acfg_AssetParams (AssetConfigTxnFields txn))\<rparr>"

definition unconvertTransaction :: "transaction \<Rightarrow> Transaction" where
  "unconvertTransaction txn =
     (tx_Transaction txn)
       \<lparr>AssetConfigTxnFields := (AssetConfigTxnFields (tx_Transaction txn))
          \<lparr>acfg_AssetParams := unconvertAssetParams (AssetParamsOverride txn)\<rparr>\<rparr>"

definition convertValueDelta :: "ValueDelta \<Rightarrow> valueDelta" where
  "convertValueDelta delta = \<lparr>vdx_ValueDelta = delta, vdx_BytesOverride = vd_Bytes delta\<rparr>"

definition unconvertValueDelta :: "valueDelta \<Rightarrow> ValueDelta" where
  "unconvertValueDelta delta = (vdx_ValueDelta delta)\<lparr>vd_Bytes := vdx_BytesOverride delta\<rparr>"

definition convertStateDelta :: "StateDelta \<Rightarrow> stateDelta" where
  "convertStateDelta delta = fmmap convertValueDelta delta"

definition unconvertStateDelta :: "stateDelta \<Rightarrow> StateDelta" where
  "unconvertStateDelta delta = fmmap unconvertValueDelta delta"

definition convertLocalDeltas :: "(uint64, StateDelta) fmap \<Rightarrow> (uint64, stateDelta) fmap" where
  "convertLocalDeltas deltas = fmmap convertStateDelta deltas"

definition unconvertLocalDeltas :: "(uint64, stateDelta) fmap \<Rightarrow> (uint64, StateDelta) fmap" where
  "unconvertLocalDeltas deltas = fmmap unconvertStateDelta deltas"

definition convertLogs :: "string list \<Rightarrow> bytes list" where
  "convertLogs logs = map (\<lambda>log. log) logs"

definition unconvertLogs :: "bytes list \<Rightarrow> string list" where
  "unconvertLogs logs = map (\<lambda>log. log) logs"

fun convertSignedTxnWithAD :: "'j codec \<Rightarrow> SignedTxnWithAD \<Rightarrow> signedTxnWithAD"
and convertEvalDelta :: "'j codec \<Rightarrow> EvalDelta \<Rightarrow> evalDelta"
and convertInnerTxns :: "'j codec \<Rightarrow> SignedTxnWithAD list \<Rightarrow> signedTxnWithAD list" where
  "convertSignedTxnWithAD c (MkSignedTxnWithAD st (MkApplyData ca aca sr rr cr ed cfg app)) =
     MksignedTxnWithAD (MkSignedTxnWithAD st (MkApplyData ca aca sr rr cr ed cfg app))
       (convertTransaction c (Txn st)) (convertEvalDelta c ed)"
| "convertEvalDelta c (MkEvalDelta gd ld sa lg its) =
     MkevalDelta (MkEvalDelta gd ld sa lg its) (convertStateDelta gd) (convertLocalDeltas ld)
       (convertLogs lg) (convertInnerTxns c its)"
| "convertInnerTxns c [] = []"
| "convertInnerTxns c (innerTxn # innerTxns) =
     convertSignedTxnWithAD c innerTxn # convertInnerTxns c innerTxns"

fun unconvertSignedTxnWithAD :: "signedTxnWithAD \<Rightarrow> SignedTxnWithAD"
and unconvertEvalDelta :: "evalDelta \<Rightarrow> EvalDelta"
and unconvertInnerTxns :: "signedTxnWithAD list \<Rightarrow> SignedTxnWithAD list" where
  "unconvertSignedTxnWithAD
     (MksignedTxnWithAD (MkSignedTxnWithAD st (MkApplyData ca aca sr rr cr ed cfg app)) txn edo) =
     MkSignedTxnWithAD (st\<lparr>Txn := unconvertTransaction txn, AuthAddr := AuthAddr st\<rparr>)
       (MkApplyData ca aca sr rr cr (unconvertEvalDelta edo) cfg app)"
| "unconvertEvalDelta (MkevalDelta (MkEvalDelta gd ld sa lg its) gdo ldo lgo itso) =
     MkEvalDelta (unconvertStateDelta gdo) (unconvertLocalDeltas ldo) sa (unconvertLogs lgo)
       (unconvertInnerTxns itso)"
| "unconvertInnerTxns [] = []"
| "unconvertInnerTxns (innerTxn # innerTxns) =
     unconvertSignedTxnWithAD innerTxn # unconvertInnerTxns innerTxns"

definition EncodeSignedTxnWithAD :: "'j codec \<Rightarrow> SignedTxnWithAD \<Rightarrow> 'j" where
  "EncodeSignedTxnWithAD c stxn = enc_signedTxnWithAD c (convertSignedTxnWithAD c stxn)"

definition DecodeSignedTxnWithAD :: "'j codec \<Rightarrow> 'j \<Rightarrow> SignedTxnWithAD result" where
  "DecodeSignedTxnWithAD c data =
     res_bind (dec_signedTxnWithAD c data) (\<lambda>stxn. Inr (unconvertSignedTxnWithAD stxn))"

section \<open>Account data\<close>

definition unconvertTrimmedAccountData :: "trimmedAccountData \<Rightarrow> AccountData" where
  "unconvertTrimmedAccountData ad =
     (let b = ta_baseAccountData ad in
      \<lparr>Status = ba_Status b, MicroAlgos = ta_MicroAlgos ad, RewardsBase = ta_RewardsBase ad,
       RewardedMicroAlgos = ta_RewardedMicroAlgos ad, ad_AuthAddr = ba_AuthAddr b,
       IncentiveEligible = ba_IncentiveEligible b, TotalAppSchema = ba_TotalAppSchema b,
       TotalExtraAppPages = ba_TotalExtraAppPages b, TotalAppParams = ba_TotalAppParams b,
       TotalAppLocalStates = ba_TotalAppLocalStates b, TotalAssetParams = ba_TotalAssetParams b,
       TotalAssets = ba_TotalAssets b, TotalBoxes = ba_TotalBoxes b,
       TotalBoxBytes = ba_TotalBoxBytes b, LastProposed = ba_LastProposed b,
       LastHeartbeat = ba_LastHeartbeat b, VoteID = ba_VoteID b, SelectionID = ba_SelectionID b,
       StateProofID = ba_StateProofID b, VoteFirstValid = ba_VoteFirstValid b,
       VoteLastValid = ba_VoteLastValid b, VoteKeyDilution = ba_VoteKeyDilution b\<rparr>)"

definition DecodeTrimmedAccountData :: "'j codec \<Rightarrow> 'j \<Rightarrow> AccountData result" where
  "DecodeTrimmedAccountData c data =
     res_bind (dec_trimmedAccountData c data) (\<lambda>ado. Inr (unconvertTrimmedAccountData ado))"

definition TrimLcAccountData :: "AccountData \<Rightarrow> AccountData" where
  "TrimLcAccountData ad = ad\<lparr>MicroAlgos := 0, RewardsBase := 0, RewardedMicroAlgos := 0\<rparr>"

definition convertTrimmedLcAccountData :: "AccountData \<Rightarrow> baseAccountData" where
  "convertTrimmedLcAccountData ad =
     \<lparr>ba_Status = Status ad, ba_AuthAddr = ad_AuthAddr ad,
      ba_IncentiveEligible = IncentiveEligible ad, ba_TotalAppSchema = TotalAppSchema ad,
      ba_TotalExtraAppPages = TotalExtraAppPages ad, ba_TotalAssetParams = TotalAssetParams ad,
      ba_TotalAssets = TotalAssets ad, ba_TotalAppParams = TotalAppParams ad,
      ba_TotalAppLocalStates = TotalAppLocalStates ad, ba_TotalBoxes = TotalBoxes ad,
      ba_TotalBoxBytes = TotalBoxBytes ad, ba_LastProposed = LastProposed ad,
      ba_LastHeartbeat = LastHeartbeat ad, ba_VoteID = VoteID ad, ba_SelectionID = SelectionID ad,
      ba_StateProofID = StateProofID ad, ba_VoteFirstValid = VoteFirstValid ad,
      ba_VoteLastValid = VoteLastValid ad, ba_VoteKeyDilution = VoteKeyDilution ad\<rparr>"

definition unconvertTrimmedLcAccountData :: "baseAccountData \<Rightarrow> AccountData" where
  "unconvertTrimmedLcAccountData ba =
     zero_AccountData
       \<lparr>Status := ba_Status ba, ad_AuthAddr := ba_AuthAddr ba,
        IncentiveEligible := ba_IncentiveEligible ba, TotalAppSchema := ba_TotalAppSchema ba,
        TotalExtraAppPages := ba_TotalExtraAppPages ba, TotalAppParams := ba_TotalAppParams ba,
        TotalAppLocalStates := ba_TotalAppLocalStates ba, TotalAssetParams := ba_TotalAssetParams ba,
        TotalAssets := ba_TotalAssets ba, TotalBoxes := ba_TotalBoxes ba,
        TotalBoxBytes := ba_TotalBoxBytes ba, LastProposed := ba_LastProposed ba,
        LastHeartbeat := ba_LastHeartbeat ba, VoteID := ba_VoteID ba,
        SelectionID := ba_SelectionID ba, StateProofID := ba_StateProofID ba,
        VoteFirstValid := ba_VoteFirstValid ba, VoteLastValid := ba_VoteLastValid ba,
        VoteKeyDilution := ba_VoteKeyDilution ba\<rparr>"

definition EncodeTrimmedLcAccountData :: "'j codec \<Rightarrow> AccountData \<Rightarrow> 'j" where
  "EncodeTrimmedLcAccountData c ad = enc_baseAccountData c (convertTrimmedLcAccountData ad)"

definition DecodeTrimmedLcAccountData :: "'j codec \<Rightarrow> 'j \<Rightarrow> AccountData result" where
  "DecodeTrimmedLcAccountData c data =
     res_bind (dec_baseAccountData c data) (\<lambda>ba. Inr (unconvertTrimmedLcAccountData ba))"

section \<open>Application state\<close>

definition convertTealValue :: "TealValue \<Rightarrow> tealValue" where
  "convertTealValue tv = \<lparr>tvx_TealValue = tv, tvx_BytesOverride = tv_Bytes tv\<rparr>"

definition unconvertTealValue :: "tealValue \<Rightarrow> TealValue" where
  "unconvertTealValue tv = (tvx_TealValue tv)\<lparr>tv_Bytes := tvx_BytesOverride tv\<rparr>"

definition convertTealKeyValue :: "TealKeyValue \<Rightarrow> tealKeyValue" where
  "convertTealKeyValue tkv = fmmap convertTealValue tkv"

definition unconvertTealKeyValue :: "tealKeyValue \<Rightarrow> TealKeyValue" where
  "unconvertTealKeyValue tkv = fmmap unconvertTealValue tkv"

definition convertAppLocalState :: "AppLocalState \<Rightarrow> appLocalState" where
  "convertAppLocalState state =
     \<lparr>alx_AppLocalState = state, KeyValueOverride = convertTealKeyValue (als_KeyValue state)\<rparr>"

definition unconvertAppLocalState :: "appLocalState \<Rightarrow> AppLocalState" where
  "unconvertAppLocalState state =
     (alx_AppLocalState state)\<lparr>als_KeyValue := unconvertTealKeyValue (KeyValueOverride state)\<rparr>"

definition EncodeAppLocalState :: "'j codec \<Rightarrow> AppLocalState \<Rightarrow> 'j" where
  "EncodeAppLocalState c state = enc_appLocalState c (convertAppLocalState state)"

definition DecodeAppLocalState :: "'j codec \<Rightarrow> 'j \<Rightarrow> AppLocalState result" where
  "DecodeAppLocalState c data =
     res_bind (dec_appLocalState c data) (\<lambda>state. Inr (unconvertAppLocalState state))"

definition convertAppParams :: "AppParams \<Rightarrow> appParams" where
  "convertAppParams params =
     \<lparr>apx_AppParams = params, GlobalStateOverride = convertTealKeyValue (ap_GlobalState params)\<rparr>"

definition unconvertAppParams :: "appParams \<Rightarrow> AppParams" where
  "unconvertAppParams params =
     (apx_AppParams params)\<lparr>ap_GlobalState := unconvertTealKeyValue (GlobalStateOverride params)\<rparr>"

definition EncodeAppParams :: "'j codec \<Rightarrow> AppParams \<Rightarrow> 'j" where
  "EncodeAppParams c params = enc_appParams c (convertAppParams params)"

text \<open>A document that does not decode is answered with the zero value and a nil error.\<close>

definition DecodeAppParams :: "'j codec \<Rightarrow> 'j \<Rightarrow> AppParams result" where
  "DecodeAppParams c data =
     (case dec_appParams c data of
        Inl _ \<Rightarrow> Inr zero_AppParams
      | Inr params \<Rightarrow> Inr (unconvertAppParams params))"

definition unconvertAssetParamsArray :: "assetParams list \<Rightarrow> AssetParams list" where
  "unconvertAssetParamsArray paramsArr = map unconvertAssetParams paramsArr"

definition DecodeAssetParamsArray :: "'j codec \<Rightarrow> 'j \<Rightarrow> AssetParams list result" where
  "DecodeAssetParamsArray c data =
     res_bind (dec_assetParamsArray c data) (\<lambda>a. Inr (unconvertAssetParamsArray a))"

definition unconvertAppParamsArray :: "appParams list \<Rightarrow> AppParams list" where
  "unconvertAppParamsArray paramsArr = map unconvertAppParams paramsArr"

definition DecodeAppParamsArray :: "'j codec \<Rightarrow> 'j \<Rightarrow> AppParams list result" where
  "DecodeAppParamsArray c data =
     res_bind (dec_appParamsArray c data) (\<lambda>a. Inr (unconvertAppParamsArray a))"

definition unconvertAppLocalStateArray :: "appLocalState list \<Rightarrow> AppLocalState list" where
  "unconvertAppLocalStateArray array = map unconvertAppLocalState array"

definition DecodeAppLocalStateArray :: "'j codec \<Rightarrow> 'j \<Rightarrow> AppLocalState list result" where
  "DecodeAppLocalStateArray c data =
     res_bind (dec_appLocalStateArray c data) (\<lambda>a. Inr (unconvertAppLocalStateArray a))"

section \<open>Metastate and extra documents\<close>

definition EncodeSpecialAddresses :: "'j codec \<Rightarrow> SpecialAddresses \<Rightarrow> 'j" where
  "EncodeSpecialAddresses c special = enc_SpecialAddresses c special"

definition DecodeSpecialAddresses :: "'j codec \<Rightarrow> 'j \<Rightarrow> SpecialAddresses result" where
  "DecodeSpecialAddresses c data = dec_SpecialAddresses c data"

definition EncodeTxnExtra :: "'j codec \<Rightarrow> TxnExtra \<Rightarrow> 'j" where
  "EncodeTxnExtra c extra = enc_TxnExtra c extra"

definition DecodeTxnExtra :: "'j codec \<Rightarrow> 'j \<Rightarrow> TxnExtra result" where
  "DecodeTxnExtra c data = dec_TxnExtra c data"

definition EncodeImportState :: "'j codec \<Rightarrow> ImportState \<Rightarrow> 'j" where
  "EncodeImportState c state = enc_ImportState c state"

definition DecodeImportState :: "'j codec \<Rightarrow> 'j \<Rightarrow> ImportState result" where
  "DecodeImportState c data = dec_ImportState c data"

definition EncodeMigrationState :: "'j codec \<Rightarrow> MigrationState \<Rightarrow> 'j" where
  "EncodeMigrationState c state = enc_MigrationState c state"

definition DecodeMigrationState :: "'j codec \<Rightarrow> 'j \<Rightarrow> MigrationState result" where
  "DecodeMigrationState c data = dec_MigrationState c data"

definition EncodeNetworkState :: "'j codec \<Rightarrow> NetworkState \<Rightarrow> 'j" where
  "EncodeNetworkState c state = enc_NetworkState c state"

definition DecodeNetworkState :: "'j codec \<Rightarrow> 'j \<Rightarrow> NetworkState result" where
  "DecodeNetworkState c data = res_wrap ''DecodeNetworkState() err'' (dec_NetworkState c data)"

definition EncodeDeleteStatus :: "'j codec \<Rightarrow> DeleteStatus \<Rightarrow> 'j" where
  "EncodeDeleteStatus c p = enc_DeleteStatus c p"

definition DecodeDeleteStatus :: "'j codec \<Rightarrow> 'j \<Rightarrow> DeleteStatus result" where
  "DecodeDeleteStatus c data = res_wrap ''DecodeDeleteStatus() err'' (dec_DeleteStatus c data)"

end
