(* ===== verification/WriteTxn.thy ===== *)
theory WriteTxn
  imports Encoding
begin

text \<open>
  The rows of the tables \<open>txn\<close> and \<open>txn_participation\<close> that a block gives rise to
  (\<^verbatim>\<open>idb/postgres/internal/writer/write_txn.go\<close> and \<^verbatim>\<open>write_txn_participation.go\<close>). Every
  transaction of a block, inner ones included, gets the position of a preorder traversal as its
  intra round offset. The channel between the producer and the copy is the list of rows sent; the
  producer's context is only cancelled when the copy has failed already, and then its outcome is
  not used.
\<close>

section \<open>Transaction rows\<close>

record 'j txn_row =
  t_round :: uint64
  t_intra :: uint64
  t_typeenum :: TxnTypeEnum
  t_asset :: uint64
  t_txid :: "string option"
  t_txn :: 'j
  t_extra :: 'j

definition transactionAssetID ::
  "SignedTxnWithAD \<Rightarrow> uint64 \<Rightarrow> Block option \<Rightarrow> uint64 result" where
  "transactionAssetID stxnad intra block =
     (let txn = stxn_Txn stxnad in
      if txn_Type txn = ApplicationCallTx then
        let assetid = ApplicationID (ApplicationCallTxnFields txn);
            assetid = (if assetid = 0 then ad_ApplicationID (ApplyData stxnad) else assetid)
        in if assetid = 0 then
             (case block of
                None \<Rightarrow> Inl (ErrMsg ''transactionAssetID(): Missing ApplicationID for transaction'')
              | Some b \<Rightarrow> Inr (TxnCounter (BlockHeader b) - of_nat (length (Payset b)) + intra + 1))
           else Inr assetid
      else if txn_Type txn = AssetConfigTx then
        let assetid = ConfigAsset (AssetConfigTxnFields txn);
            assetid = (if assetid = 0 then ad_ConfigAsset (ApplyData stxnad) else assetid)
        in if assetid = 0 then
             (case block of
                None \<Rightarrow> Inl (ErrMsg ''transactionAssetID(): Missing ConfigAsset for transaction'')
              | Some b \<Rightarrow> Inr (TxnCounter (BlockHeader b) - of_nat (length (Payset b)) + intra + 1))
           else Inr assetid
      else if txn_Type txn = AssetTransferTx then Inr (XferAsset (AssetTransferTxnFields txn))
      else if txn_Type txn = AssetFreezeTx then Inr (FreezeAsset (AssetFreezeTxnFields txn))
      else Inr 0)"

text \<open>The row of one inner transaction, stored without its own inner transactions.\<close>

definition inner_row ::
  "'j codec \<Rightarrow> uint64 \<Rightarrow> uint64 \<Rightarrow> uint64 \<Rightarrow> string \<Rightarrow> SignedTxnWithAD \<Rightarrow> 'j txn_row result" where
  "inner_row c rnd intra rootIntra rootTxid itxn =
     (case GetTypeEnum (txn_Type (stxn_Txn itxn)) of
        None \<Rightarrow> Inl (ErrMsg ''yieldInnerTransactions() get type enum'')
      | Some typeenum \<Rightarrow>
          res_bind (transactionAssetID itxn 0 None) (\<lambda>assetid.
            let extra = \<lparr>AssetCloseAmount = AssetClosingAmount (ApplyData itxn),
                         RootIntra = \<lparr>Present = True, Value = rootIntra\<rparr>, RootTxid = rootTxid\<rparr>;
                txnNoInner = set_InnerTxns [] itxn
            in Inr \<lparr>t_round = rnd, t_intra = intra, t_typeenum = typeenum, t_asset = assetid,
                    t_txid = None, t_txn = EncodeSignedTxnWithAD c txnNoInner,
                    t_extra = EncodeTxnExtra c extra\<rparr>))"

text \<open>The producer returns the offset of the next transaction; the loop over the inner transactions
  is \<open>yieldInnerLoop\<close>.\<close>

fun yieldInnerTransactions ::
  "'j codec \<Rightarrow> uint64 \<Rightarrow> SignedTxnWithAD \<Rightarrow> uint64 \<Rightarrow> uint64 \<Rightarrow> string \<Rightarrow> ('j txn_row, uint64) producer"
and yieldInnerLoop ::
  "'j codec \<Rightarrow> uint64 \<Rightarrow> SignedTxnWithAD list \<Rightarrow> uint64 \<Rightarrow> uint64 \<Rightarrow> string \<Rightarrow> ('j txn_row, uint64) producer"
where
  "yieldInnerTransactions c rnd
     (MkSignedTxnWithAD st (MkApplyData ca aca sr rr cr (MkEvalDelta gd ld sa lg its) cfg app))
     intra rootIntra rootTxid = yieldInnerLoop c rnd its intra rootIntra rootTxid"
| "yieldInnerLoop c rnd [] intra rootIntra rootTxid = ([], Inr intra)"
| "yieldInnerLoop c rnd (itxn # its) intra rootIntra rootTxid =
     producer_bind (send_row (inner_row c rnd intra rootIntra rootTxid itxn)) (\<lambda>_.
     producer_bind (yieldInnerTransactions c rnd itxn (intra + 1) rootIntra rootTxid) (\<lambda>intra.
       yieldInnerLoop c rnd its intra rootIntra rootTxid))"

text \<open>The row of a transaction of the payset. An index beyond the modified transactions panics in
  Go; the caller passes the payset itself.\<close>

definition root_row ::
  "sdk \<Rightarrow> 'j codec \<Rightarrow> Block \<Rightarrow> SignedTxnInBlock list \<Rightarrow> nat \<Rightarrow> uint64 \<Rightarrow> SignedTxnInBlock \<Rightarrow> 'j txn_row result"
where
  "root_row env c block modifiedTxns idx intra stib =
     res_bind (res_wrap ''yieldTransactions() decode signed txn err''
                 (DecodeSignedTxn env (BlockHeader block) stib)) (\<lambda>(st, ad).
       let stxnad = MkSignedTxnWithAD st ad; txn = Txn st in
       case GetTypeEnum (txn_Type txn) of
         None \<Rightarrow> Inl (ErrMsg ''yieldTransactions() get type enum'')
       | Some typeenum \<Rightarrow>
           res_bind (transactionAssetID stxnad intra (Some block)) (\<lambda>assetid.
             let txid = TransactionIDString env txn in
             if idx \<ge> length modifiedTxns then Inl (ErrMsg ''panic: index out of range'')
             else
               let extra = zero_TxnExtra\<lparr>AssetCloseAmount :=
                     AssetClosingAmount (ApplyData (stib_SignedTxnWithAD (modifiedTxns ! idx)))\<rparr>
               in Inr \<lparr>t_round = bh_Round (BlockHeader block), t_intra = intra,
                       t_typeenum = typeenum, t_asset = assetid, t_txid = Some txid,
                       t_txn = EncodeSignedTxnWithAD c stxnad, t_extra = EncodeTxnExtra c extra\<rparr>))"

fun yieldPayset ::
  "sdk \<Rightarrow> 'j codec \<Rightarrow> Block \<Rightarrow> SignedTxnInBlock list \<Rightarrow> nat \<Rightarrow> uint64 \<Rightarrow> SignedTxnInBlock list \<Rightarrow>
   ('j txn_row, uint64) producer" where
  "yieldPayset env c block modifiedTxns idx intra [] = ([], Inr intra)"
| "yieldPayset env c block modifiedTxns idx intra (stib # stibs) =
     producer_bind (send_row (root_row env c block modifiedTxns idx intra stib)) (\<lambda>row.
     producer_bind (producer_wrap ''yieldTransactions() adding inner''
       (yieldInnerTransactions c (bh_Round (BlockHeader block)) (stib_SignedTxnWithAD stib)
          (intra + 1) intra (case t_txid row of Some txid \<Rightarrow> txid | None \<Rightarrow> []))) (\<lambda>intra.
       yieldPayset env c block modifiedTxns (Suc idx) intra stibs))"

definition SignedTransactionFromBlockPayout :: "Block \<Rightarrow> SignedTxnWithAD" where
  "SignedTransactionFromBlockPayout block =
     (let bh = BlockHeader block in
      MkSignedTxnWithAD
        (zero_SignedTxn\<lparr>Txn := zero_Transaction
           \<lparr>txn_Type := PaymentTx,
            Header := zero_Header
              \<lparr>Sender := FeeSink bh,
               Note := ''ProposerPayout for Round '' @ FormatUint (bh_Round bh),
               FirstValid := bh_Round bh, LastValid := bh_Round bh,
               GenesisID := bh_GenesisID bh, GenesisHash := bh_GenesisHash bh\<rparr>,
            PaymentTxnFields := zero_PaymentTxnFields
              \<lparr>Receiver := Proposer bh, pay_Amount := ProposerPayout bh\<rparr>\<rparr>\<rparr>)
        zero_ApplyData)"

definition payout_row :: "sdk \<Rightarrow> 'j codec \<Rightarrow> Block \<Rightarrow> uint64 \<Rightarrow> 'j txn_row result" where
  "payout_row env c block intra =
     (let stxnad = SignedTransactionFromBlockPayout block in
      case GetTypeEnum (txn_Type (stxn_Txn stxnad)) of
        None \<Rightarrow> Inl (ErrMsg ''yieldTransactions() ProposerPayout get type enum - should NEVER happen'')
      | Some typeenum \<Rightarrow>
          Inr \<lparr>t_round = bh_Round (BlockHeader block), t_intra = intra, t_typeenum = typeenum,
               t_asset = 0, t_txid = Some (TransactionIDString env (stxn_Txn stxnad)),
               t_txn = EncodeSignedTxnWithAD c stxnad, t_extra = EncodeTxnExtra c zero_TxnExtra\<rparr>)"

definition yieldTransactions ::
  "sdk \<Rightarrow> 'j codec \<Rightarrow> Block \<Rightarrow> SignedTxnInBlock list \<Rightarrow> ('j txn_row, unit) producer" where
  "yieldTransactions env c block modifiedTxns =
     producer_bind (yieldPayset env c block modifiedTxns 0 0 (Payset block)) (\<lambda>intra.
       if ProposerPayout (BlockHeader block) > 0 then
         producer_bind (send_row (payout_row env c block intra)) (\<lambda>_. ([], Inr ()))
       else ([], Inr ()))"

section \<open>Participation rows\<close>

record txn_participation_row =
  tp_addr :: Address
  tp_round :: uint64
  tp_intra :: uint64

text \<open>The closure \<open>add\<close> changes a captured variable, which is the state \<open>'s\<close> here.\<close>

definition addOwnParticipants :: "Transaction \<Rightarrow> (Address \<Rightarrow> 's \<Rightarrow> 's) \<Rightarrow> 's \<Rightarrow> 's" where
  "addOwnParticipants txn add s =
     (let s = add (Sender (Header txn)) s in
      if txn_Type txn = PaymentTx then
        let p = PaymentTxnFields txn; s = add (Receiver p) s in
        (if \<not> IsZero (CloseRemainderTo p) then add (CloseRemainderTo p) s else s)
      else if txn_Type txn = AssetTransferTx then
        let p = AssetTransferTxnFields txn;
            s = (if \<not> IsZero (AssetSender p) then add (AssetSender p) s else s);
            s = add (AssetReceiver p) s
        in (if \<not> IsZero (AssetCloseTo p) then add (AssetCloseTo p) s else s)
      else if txn_Type txn = AssetFreezeTx then add (FreezeAccount (AssetFreezeTxnFields txn)) s
      else if txn_Type txn = ApplicationCallTx then
        fold add (Accounts (ApplicationCallTxnFields txn)) s
      else if txn_Type txn = HeartbeatTx then add (HbAddress (HeartbeatTxnFields txn)) s
      else s)"

fun addTransactionParticipants :: "SignedTxnWithAD \<Rightarrow> bool \<Rightarrow> (Address \<Rightarrow> 's \<Rightarrow> 's) \<Rightarrow> 's \<Rightarrow> 's"
and addInnerParticipants :: "SignedTxnWithAD list \<Rightarrow> bool \<Rightarrow> (Address \<Rightarrow> 's \<Rightarrow> 's) \<Rightarrow> 's \<Rightarrow> 's" where
  "addTransactionParticipants
     (MkSignedTxnWithAD st (MkApplyData ca aca sr rr cr (MkEvalDelta gd ld sa lg its) cfg app))
     includeInner add s =
     (let s = addOwnParticipants (Txn st) add s in
      if includeInner then addInnerParticipants its includeInner add s else s)"
| "addInnerParticipants [] includeInner add s = s"
| "addInnerParticipants (inner # its) includeInner add s =
     addInnerParticipants its includeInner add (addTransactionParticipants inner includeInner add s)"

text \<open>The slice path appends an address that is not in the slice yet. The map path collects a set,
  whose elements Go enumerates in no specified order; the model enumerates it in ascending order.\<close>

definition slice_add :: "Address \<Rightarrow> Address list \<Rightarrow> Address list" where
  "slice_add address res = (if address \<in> set res then res else res @ [address])"

definition getTransactionParticipants :: "SignedTxnWithAD \<Rightarrow> bool \<Rightarrow> Address list" where
  "getTransactionParticipants stxnad includeInner =
     (if \<not> includeInner \<or> length (inners stxnad) = 0 then
        addTransactionParticipants stxnad includeInner slice_add []
      else sorted_list_of_set (addTransactionParticipants stxnad includeInner insert {}))"

definition participation_rows :: "uint64 \<Rightarrow> uint64 \<Rightarrow> Address list \<Rightarrow> txn_participation_row list" where
  "participation_rows rnd intra participants =
     map (\<lambda>a. \<lparr>tp_addr = a, tp_round = rnd, tp_intra = intra\<rparr>) participants"

fun addInnerTransactionParticipation ::
  "SignedTxnWithAD \<Rightarrow> uint64 \<Rightarrow> uint64 \<Rightarrow> txn_participation_row list \<Rightarrow> uint64 \<times> txn_participation_row list"
and addInnerLoop ::
  "SignedTxnWithAD list \<Rightarrow> uint64 \<Rightarrow> uint64 \<Rightarrow> txn_participation_row list \<Rightarrow> uint64 \<times> txn_participation_row list"
where
  "addInnerTransactionParticipation
     (MkSignedTxnWithAD st (MkApplyData ca aca sr rr cr (MkEvalDelta gd ld sa lg its) cfg app)) rnd intra rows =
     addInnerLoop its rnd intra rows"
| "addInnerLoop [] rnd nxt rows = (nxt, rows)"
| "addInnerLoop (itxn # its) rnd nxt rows =
     (let participants = getTransactionParticipants itxn False;
          rows = rows @ participation_rows rnd nxt participants;
          (nxt, rows) = addInnerTransactionParticipation itxn rnd (nxt + 1) rows
      in addInnerLoop its rnd nxt rows)"

fun participationPayset ::
  "SignedTxnInBlock list \<Rightarrow> uint64 \<Rightarrow> uint64 \<Rightarrow> txn_participation_row list \<Rightarrow> uint64 \<times> txn_participation_row list"
where
  "participationPayset [] rnd nxt rows = (nxt, rows)"
| "participationPayset (stxnib # stxnibs) rnd nxt rows =
     (let participants = getTransactionParticipants (stib_SignedTxnWithAD stxnib) True;
          rows = rows @ participation_rows rnd nxt participants;
          (nxt, rows) = addInnerTransactionParticipation (stib_SignedTxnWithAD stxnib) rnd (nxt + 1) rows
      in participationPayset stxnibs rnd nxt rows)"

text \<open>The rows \<open>AddTransactionParticipation\<close> copies into the table.\<close>

definition transactionParticipation :: "Block \<Rightarrow> txn_participation_row list" where
  "transactionParticipation block =
     (let bh = BlockHeader block;
          (nxt, rows) = participationPayset (Payset block) (bh_Round bh) 0 []
      in if ProposerPayout bh > 0 then
           rows @ participation_rows (bh_Round bh) nxt [FeeSink bh, Proposer bh]
         else rows)"

end
