(* ===== verification/SqlTable.thy ===== *)
theory SqlTable
  imports Indexer_Prelude
begin

text \<open>
  Tables with a primary key, as the SQL statements of the backend use them. A table is the list of
  its rows; \<open>pk\<close> reads the key columns of a row. The operations are the statement forms of the
  source: \<open>INSERT ... ON CONFLICT (pk) DO UPDATE\<close>, \<open>INSERT ... ON CONFLICT DO NOTHING\<close>, plain
  \<open>INSERT\<close> and \<open>COPY\<close> (which fail on a duplicate key), \<open>DELETE ... WHERE\<close> and lookups by key. The
  locale \<open>upsert_statement\<close> is the contract of an upsert whose \<open>SET\<close> list leaves the key alone; the
  writer's prepared statements interpret it.
\<close>

definition lookup_row :: "('r \<Rightarrow> 'k) \<Rightarrow> 'k \<Rightarrow> 'r list \<Rightarrow> 'r option" where
  "lookup_row pk k t = find (\<lambda>r. pk r = k) t"

definition has_key :: "('r \<Rightarrow> 'k) \<Rightarrow> 'k \<Rightarrow> 'r list \<Rightarrow> bool" where
  "has_key pk k t \<longleftrightarrow> k \<in> pk ` set t"

definition upsert :: "('r \<Rightarrow> 'k) \<Rightarrow> ('r \<Rightarrow> 'r \<Rightarrow> 'r) \<Rightarrow> 'r \<Rightarrow> 'r list \<Rightarrow> 'r list" where
  "upsert pk upd excluded t =
     (if has_key pk (pk excluded) t
      then map (\<lambda>r. if pk r = pk excluded then upd r excluded else r) t
      else t @ [excluded])"

definition insert_or_ignore :: "('r \<Rightarrow> 'k) \<Rightarrow> 'r \<Rightarrow> 'r list \<Rightarrow> 'r list" where
  "insert_or_ignore pk r t = (if has_key pk (pk r) t then t else t @ [r])"

definition insert_row :: "('r \<Rightarrow> 'k) \<Rightarrow> 'r \<Rightarrow> 'r list \<Rightarrow> 'r list result" where
  "insert_row pk r t = (if has_key pk (pk r) t then Inl PgUniqueViolation else Inr (t @ [r]))"

definition copy_rows :: "('r \<Rightarrow> 'k) \<Rightarrow> 'r list \<Rightarrow> 'r list \<Rightarrow> 'r list result" where
  "copy_rows pk rows t = res_fold (insert_row pk) rows t"

definition delete_where :: "('r \<Rightarrow> bool) \<Rightarrow> 'r list \<Rightarrow> 'r list" where
  "delete_where P t = filter (\<lambda>r. \<not> P r) t"

definition key_unique :: "('r \<Rightarrow> 'k) \<Rightarrow> 'r list \<Rightarrow> bool" where
  "key_unique pk t \<longleftrightarrow> distinct (map pk t)"

lemma lookup_row_Nil [simp]: "lookup_row pk k [] = None"
  by (simp add: lookup_row_def)

lemma lookup_row_Cons [simp]:
  "lookup_row pk k (r # t) = (if pk r = k then Some r else lookup_row pk k t)"
  by (simp add: lookup_row_def)

lemma lookup_row_None: "lookup_row pk k t = None \<longleftrightarrow> \<not> has_key pk k t"
  by (auto simp: lookup_row_def has_key_def find_None_iff)

lemma not_has_key: "\<not> has_key pk k t \<Longrightarrow> lookup_row pk k t = None"
  by (simp add: lookup_row_None)

lemma lookup_row_Some: "lookup_row pk k t = Some r \<Longrightarrow> r \<in> set t \<and> pk r = k"
  by (auto simp: lookup_row_def dest: find_map_Some)

lemma lookup_row_append:
  "lookup_row pk k (s @ t) = (case lookup_row pk k s of Some r \<Rightarrow> Some r | None \<Rightarrow> lookup_row pk k t)"
  by (induction s) simp_all

lemma lookup_row_unique:
  "key_unique pk t \<Longrightarrow> r \<in> set t \<Longrightarrow> lookup_row pk (pk r) t = Some r"
proof (induction t)
  case (Cons a t)
  then show ?case by (cases "pk a = pk r") (auto simp: key_unique_def)
qed simp

lemma key_unique_filter: "key_unique pk t \<Longrightarrow> key_unique pk (filter P t)"
  by (simp add: key_unique_def distinct_map_filter)

lemma key_unique_delete [simp]: "key_unique pk t \<Longrightarrow> key_unique pk (delete_where P t)"
  by (simp add: delete_where_def key_unique_filter)

lemma lookup_row_delete_key:
  "lookup_row pk k (delete_where (\<lambda>r. pk r = k') t) = (if k = k' then None else lookup_row pk k t)"
  by (induction t) (auto simp: delete_where_def)

lemma insert_or_ignore_unique: "key_unique pk t \<Longrightarrow> key_unique pk (insert_or_ignore pk r t)"
  by (auto simp: insert_or_ignore_def key_unique_def has_key_def)

lemma lookup_insert_or_ignore:
  "lookup_row pk k (insert_or_ignore pk r t) =
     (if k = pk r \<and> \<not> has_key pk k t then Some r else lookup_row pk k t)"
proof (cases "has_key pk (pk r) t")
  case False
  then show ?thesis using not_has_key [OF False]
    by (cases "lookup_row pk k t") (auto simp: insert_or_ignore_def lookup_row_append)
qed (auto simp: insert_or_ignore_def)

lemma copy_rows_iff:
  "copy_rows pk rows t =
     (if distinct (map pk rows) \<and> pk ` set rows \<inter> pk ` set t = {} then Inr (t @ rows)
      else Inl PgUniqueViolation)"
  unfolding copy_rows_def
proof (induction rows arbitrary: t)
  case (Cons r rows)
  show ?case
  proof (cases "pk r \<in> pk ` set t")
    case True
    then show ?thesis by (auto simp: insert_row_def has_key_def)
  next
    case False
    then show ?thesis using Cons [of "t @ [r]"] by (auto simp: insert_row_def has_key_def)
  qed
qed simp

locale upsert_statement =
  fixes pk :: "'r \<Rightarrow> 'k" and upd :: "'r \<Rightarrow> 'r \<Rightarrow> 'r"
  assumes keeps_key: "pk (upd old excluded) = pk old"
begin

lemma unique: "key_unique pk t \<Longrightarrow> key_unique pk (upsert pk upd r t)"
proof -
  assume u: "key_unique pk t"
  have "map pk (map (\<lambda>x. if pk x = pk r then upd x r else x) t) = map pk t"
    by (simp add: keeps_key)
  with u show ?thesis by (auto simp: upsert_def key_unique_def has_key_def simp del: map_map)
qed

lemma lookup_upsert:
  "lookup_row pk k (upsert pk upd r t) =
     (if k = pk r then
        Some (case lookup_row pk k t of None \<Rightarrow> r | Some old \<Rightarrow> upd old r)
      else lookup_row pk k t)"
proof -
  have m: "lookup_row pk k (map (\<lambda>x. if pk x = pk r then upd x r else x) t) =
      map_option (\<lambda>x. if k = pk r then upd x r else x) (lookup_row pk k t)"
    by (induction t) (auto simp: keeps_key)
  show ?thesis
  proof (cases "has_key pk (pk r) t")
    case True
    then show ?thesis using m lookup_row_None [of pk k t]
      by (auto simp: upsert_def split: option.split)
  next
    case False
    then show ?thesis using not_has_key [OF False]
      by (cases "lookup_row pk k t") (auto simp: upsert_def lookup_row_append)
  qed
qed

lemma all_rows:
  assumes "\<forall>x \<in> set t. P x" "P r" "\<And>old. P old \<Longrightarrow> pk old = pk r \<Longrightarrow> P (upd old r)"
  shows "\<forall>x \<in> set (upsert pk upd r t). P x"
  using assms by (auto simp: upsert_def)

end

end
