(* ===== verification/Writer.thy ===== *)
theory Writer
  imports WriteTxn SqlTable
begin

text \<open>
  The writer of accounting state (\<^verbatim>\<open>idb/postgres/internal/writer/writer.go\<close>): the tables of
  \<^verbatim>\<open>schema/setup_postgres.sql\<close> that it writes, its prepared statements with their effect on the
  tables, and the functions that queue them. A batch is the list of queued statements. Columns hold
  the full 64 bits of Go's values; a number column's text form is identified with the number.
\<close>

section \<open>Tables\<close>

record 'j block_header_row =
  bhr_round :: uint64
  bhr_realtime :: Time
  bhr_rewardslevel :: uint64
  bhr_header :: 'j

record 'j metastate_row =
  ms_k :: string
  ms_v :: 'j

record 'j account_row =
  acc_addr :: Address
  acc_microalgos :: uint64
  acc_rewardsbase :: uint64
  acc_rewards_total :: uint64
  acc_deleted :: bool
  acc_created_at :: uint64
  acc_closed_at :: "uint64 option"
  acc_keytype :: "SigType option"
  acc_account_data :: 'j

record 'j asset_row =
  as_index :: uint64
  as_creator_addr :: Address
  as_params :: 'j
  as_deleted :: bool
  as_created_at :: uint64
  as_closed_at :: "uint64 option"

record account_asset_row =
  aa_addr :: Address
  aa_assetid :: uint64
  aa_amount :: uint64
  aa_frozen :: bool
  aa_deleted :: bool
  aa_created_at :: uint64
  aa_closed_at :: "uint64 option"

record 'j app_row =
  app_index :: uint64
  app_creator :: Address
  app_params :: 'j
  app_deleted :: bool
  app_created_at :: uint64
  app_closed_at :: "uint64 option"

record 'j account_app_row =
  al_addr :: Address
  al_app :: uint64
  al_localstate :: 'j
  al_deleted :: bool
  al_created_at :: uint64
  al_closed_at :: "uint64 option"

record app_box_row =
  box_app :: uint64
  box_name :: bytes
  box_value :: bytes

text \<open>The tables the main transaction of an import writes.\<close>

record 'j main_tables =
  tbl_block_header :: "'j block_header_row list"
  tbl_metastate :: "'j metastate_row list"
  tbl_account :: "'j account_row list"
  tbl_asset :: "'j asset_row list"
  tbl_account_asset :: "account_asset_row list"
  tbl_app :: "'j app_row list"
  tbl_account_app :: "'j account_app_row list"
  tbl_app_box :: "app_box_row list"

abbreviation aa_key :: "account_asset_row \<Rightarrow> Address \<times> uint64" where
  "aa_key r \<equiv> (aa_addr r, aa_assetid r)"

abbreviation al_key :: "'j account_app_row \<Rightarrow> Address \<times> uint64" where
  "al_key r \<equiv> (al_addr r, al_app r)"

abbreviation box_key :: "app_box_row \<Rightarrow> uint64 \<times> bytes" where
  "box_key r \<equiv> (box_app r, box_name r)"

section \<open>Metastate keys\<close>

definition StateMetastateKey :: string where "StateMetastateKey = ''state''"
definition MigrationMetastateKey :: string where "MigrationMetastateKey = ''migration''"
definition SpecialAccountsMetastateKey :: string where "SpecialAccountsMetastateKey = ''accounts''"
definition NetworkMetaStateKey :: string where "NetworkMetaStateKey = ''network''"
definition DeleteStatusKey :: string where "DeleteStatusKey = ''pruned''"

lemmas metastate_key_defs = StateMetastateKey_def MigrationMetastateKey_def
  SpecialAccountsMetastateKey_def NetworkMetaStateKey_def DeleteStatusKey_def

definition upsert_metastate :: "string \<Rightarrow> 'j \<Rightarrow> 'j main_tables \<Rightarrow> 'j main_tables" where
  "upsert_metastate k v db =
     db\<lparr>tbl_metastate :=
         upsert ms_k (\<lambda>old ex. old\<lparr>ms_v := ms_v ex\<rparr>) \<lparr>ms_k = k, ms_v = v\<rparr> (tbl_metastate db)\<rparr>"

section \<open>Prepared statements\<close>

text \<open>One constructor per statement of the map \<open>statements\<close>, with the statement's parameters in the
  order of its placeholders.\<close>

datatype 'j stmt =
    add_block_header uint64 Time uint64 'j
  | set_special_accounts 'j
  | upsert_asset uint64 Address 'j uint64
  | upsert_account_asset Address uint64 uint64 bool uint64
  | upsert_app uint64 Address 'j uint64
  | upsert_account_app Address uint64 'j uint64
  | delete_account Address uint64
  | delete_account_update_keytype Address uint64 "SigType option"
  | upsert_account Address uint64 uint64 uint64 uint64 'j
  | upsert_account_with_keytype Address uint64 uint64 uint64 uint64 "SigType option" 'j
  | delete_asset uint64 Address uint64
  | delete_account_asset Address uint64 uint64
  | delete_app uint64 Address uint64
  | delete_account_app Address uint64 uint64
  | upsert_app_box uint64 bytes bytes
  | delete_app_box uint64 bytes

text \<open>The \<open>DO UPDATE SET\<close> lists: \<open>old\<close> is the row in the table, \<open>ex\<close> the excluded row.\<close>

definition set_upsert_asset :: "'j asset_row \<Rightarrow> 'j asset_row \<Rightarrow> 'j asset_row" where
  "set_upsert_asset old ex =
     old\<lparr>as_creator_addr := as_creator_addr ex, as_params := as_params ex, as_deleted := False\<rparr>"

definition set_upsert_account_asset :: "account_asset_row \<Rightarrow> account_asset_row \<Rightarrow> account_asset_row" where
  "set_upsert_account_asset old ex =
     old\<lparr>aa_amount := aa_amount ex, aa_frozen := aa_frozen ex, aa_deleted := False\<rparr>"

definition set_upsert_app :: "'j app_row \<Rightarrow> 'j app_row \<Rightarrow> 'j app_row" where
  "set_upsert_app old ex =
     old\<lparr>app_creator := app_creator ex, app_params := app_params ex, app_deleted := False\<rparr>"

definition set_upsert_account_app :: "'j account_app_row \<Rightarrow> 'j account_app_row \<Rightarrow> 'j account_app_row" where
  "set_upsert_account_app old ex = old\<lparr>al_localstate := al_localstate ex, al_deleted := False\<rparr>"

definition set_delete_account :: "'j account_row \<Rightarrow> 'j account_row \<Rightarrow> 'j account_row" where
  "set_delete_account old ex =
     old\<lparr>acc_microalgos := acc_microalgos ex, acc_rewardsbase := acc_rewardsbase ex,
         acc_rewards_total := acc_rewards_total ex, acc_deleted := True,
         acc_closed_at := acc_closed_at ex, acc_account_data := acc_account_data ex\<rparr>"

definition set_delete_account_update_keytype :: "'j account_row \<Rightarrow> 'j account_row \<Rightarrow> 'j account_row" where
  "set_delete_account_update_keytype old ex =
     old\<lparr>acc_microalgos := acc_microalgos ex, acc_rewardsbase := acc_rewardsbase ex,
         acc_rewards_total := acc_rewards_total ex, acc_deleted := True,
         acc_closed_at := acc_closed_at ex, acc_keytype := acc_keytype ex,
         acc_account_data := acc_account_data ex\<rparr>"

definition set_upsert_account :: "'j account_row \<Rightarrow> 'j account_row \<Rightarrow> 'j account_row" where
  "set_upsert_account old ex =
     old\<lparr>acc_microalgos := acc_microalgos ex, acc_rewardsbase := acc_rewardsbase ex,
         acc_rewards_total := acc_rewards_total ex, acc_deleted := False,
         acc_account_data := acc_account_data ex\<rparr>"

definition set_upsert_account_with_keytype :: "'j account_row \<Rightarrow> 'j account_row \<Rightarrow> 'j account_row" where
  "set_upsert_account_with_keytype old ex =
     old\<lparr>acc_microalgos := acc_microalgos ex, acc_rewardsbase := acc_rewardsbase ex,
         acc_rewards_total := acc_rewards_total ex, acc_deleted := False,
         acc_keytype := acc_keytype ex, acc_account_data := acc_account_data ex\<rparr>"

definition set_delete_asset :: "'j asset_row \<Rightarrow> 'j asset_row \<Rightarrow> 'j asset_row" where
  "set_delete_asset old ex =
     old\<lparr>as_creator_addr := as_creator_addr ex, as_params := as_params ex, as_deleted := True,
         as_closed_at := as_closed_at ex\<rparr>"

definition set_delete_account_asset :: "account_asset_row \<Rightarrow> account_asset_row \<Rightarrow> account_asset_row" where
  "set_delete_account_asset old ex =
     old\<lparr>aa_amount := aa_amount ex, aa_deleted := True, aa_closed_at := aa_closed_at ex\<rparr>"

definition set_delete_app :: "'j app_row \<Rightarrow> 'j app_row \<Rightarrow> 'j app_row" where
  "set_delete_app old ex =
     old\<lparr>app_creator := app_creator ex, app_params := app_params ex, app_deleted := True,
         app_closed_at := app_closed_at ex\<rparr>"

definition set_delete_account_app :: "'j account_app_row \<Rightarrow> 'j account_app_row \<Rightarrow> 'j account_app_row" where
  "set_delete_account_app old ex =
     old\<lparr>al_localstate := al_localstate ex, al_deleted := True, al_closed_at := al_closed_at ex\<rparr>"

definition set_upsert_app_box :: "app_box_row \<Rightarrow> app_box_row \<Rightarrow> app_box_row" where
  "set_upsert_app_box old ex = old\<lparr>box_value := box_value ex\<rparr>"

text \<open>The effect of a statement: the \<open>VALUES\<close> row and the \<open>ON CONFLICT\<close> clause.\<close>

fun exec_stmt :: "'j codec \<Rightarrow> 'j stmt \<Rightarrow> 'j main_tables \<Rightarrow> 'j main_tables" where
  "exec_stmt c (add_block_header rnd realtime rewardslevel header) db =
     db\<lparr>tbl_block_header := insert_or_ignore bhr_round
         \<lparr>bhr_round = rnd, bhr_realtime = realtime, bhr_rewardslevel = rewardslevel,
          bhr_header = header\<rparr> (tbl_block_header db)\<rparr>"
| "exec_stmt c (set_special_accounts j) db = upsert_metastate SpecialAccountsMetastateKey j db"
| "exec_stmt c (upsert_asset idx creator params rnd) db =
     db\<lparr>tbl_asset := upsert as_index set_upsert_asset
         \<lparr>as_index = idx, as_creator_addr = creator, as_params = params, as_deleted = False,
          as_created_at = rnd, as_closed_at = None\<rparr> (tbl_asset db)\<rparr>"
| "exec_stmt c (upsert_account_asset addr assetid amount frozen rnd) db =
     db\<lparr>tbl_account_asset := upsert aa_key set_upsert_account_asset
         \<lparr>aa_addr = addr, aa_assetid = assetid, aa_amount = amount, aa_frozen = frozen,
          aa_deleted = False, aa_created_at = rnd, aa_closed_at = None\<rparr> (tbl_account_asset db)\<rparr>"
| "exec_stmt c (upsert_app idx creator params rnd) db =
     db\<lparr>tbl_app := upsert app_index set_upsert_app
         \<lparr>app_index = idx, app_creator = creator, app_params = params, app_deleted = False,
          app_created_at = rnd, app_closed_at = None\<rparr> (tbl_app db)\<rparr>"
| "exec_stmt c (upsert_account_app addr app localstate rnd) db =
     db\<lparr>tbl_account_app := upsert al_key set_upsert_account_app
         \<lparr>al_addr = addr, al_app = app, al_localstate = localstate, al_deleted = False,
          al_created_at = rnd, al_closed_at = None\<rparr> (tbl_account_app db)\<rparr>"
| "exec_stmt c (delete_account addr rnd) db =
     db\<lparr>tbl_account := upsert acc_addr set_delete_account
         \<lparr>acc_addr = addr, acc_microalgos = 0, acc_rewardsbase = 0, acc_rewards_total = 0,
          acc_deleted = True, acc_created_at = rnd, acc_closed_at = Some rnd, acc_keytype = None,
          acc_account_data = json_null c\<rparr> (tbl_account db)\<rparr>"
| "exec_stmt c (delete_account_update_keytype addr rnd keytype) db =
     db\<lparr>tbl_account := upsert acc_addr set_delete_account_update_keytype
         \<lparr>acc_addr = addr, acc_microalgos = 0, acc_rewardsbase = 0, acc_rewards_total = 0,
          acc_deleted = True, acc_created_at = rnd, acc_closed_at = Some rnd, acc_keytype = keytype,
          acc_account_data = json_null c\<rparr> (tbl_account db)\<rparr>"
| "exec_stmt c (upsert_account addr microalgos rewardsbase rewards_total rnd account_data) db =
     db\<lparr>tbl_account := upsert acc_addr set_upsert_account
         \<lparr>acc_addr = addr, acc_microalgos = microalgos, acc_rewardsbase = rewardsbase,
          acc_rewards_total = rewards_total, acc_deleted = False, acc_created_at = rnd,
          acc_closed_at = None, acc_keytype = None, acc_account_data = account_data\<rparr> (tbl_account db)\<rparr>"
| "exec_stmt c (upsert_account_with_keytype addr microalgos rewardsbase rewards_total rnd keytype account_data) db =
     db\<lparr>tbl_account := upsert acc_addr set_upsert_account_with_keytype
         \<lparr>acc_addr = addr, acc_microalgos = microalgos, acc_rewardsbase = rewardsbase,
          acc_rewards_total = rewards_total, acc_deleted = False, acc_created_at = rnd,
          acc_closed_at = None, acc_keytype = keytype, acc_account_data = account_data\<rparr> (tbl_account db)\<rparr>"
| "exec_stmt c (delete_asset idx creator rnd) db =
     db\<lparr>tbl_asset := upsert as_index set_delete_asset
         \<lparr>as_index = idx, as_creator_addr = creator, as_params = json_null c, as_deleted = True,
          as_created_at = rnd, as_closed_at = Some rnd\<rparr> (tbl_asset db)\<rparr>"
| "exec_stmt c (delete_account_asset addr assetid rnd) db =
     db\<lparr>tbl_account_asset := upsert aa_key set_delete_account_asset
         \<lparr>aa_addr = addr, aa_assetid = assetid, aa_amount = 0, aa_frozen = False, aa_deleted = True,
          aa_created_at = rnd, aa_closed_at = Some rnd\<rparr> (tbl_account_asset db)\<rparr>"
| "exec_stmt c (delete_app idx creator rnd) db =
     db\<lparr>tbl_app := upsert app_index set_delete_app
         \<lparr>app_index = idx, app_creator = creator, app_params = json_null c, app_deleted = True,
          app_created_at = rnd, app_closed_at = Some rnd\<rparr> (tbl_app db)\<rparr>"
| "exec_stmt c (delete_account_app addr app rnd) db =
     db\<lparr>tbl_account_app := upsert al_key set_delete_account_app
         \<lparr>al_addr = addr, al_app = app, al_localstate = json_null c, al_deleted = True,
          al_created_at = rnd, al_closed_at = Some rnd\<rparr> (tbl_account_app db)\<rparr>"
| "exec_stmt c (upsert_app_box app name val) db =
     db\<lparr>tbl_app_box := upsert box_key set_upsert_app_box
         \<lparr>box_app = app, box_name = name, box_value = val\<rparr> (tbl_app_box db)\<rparr>"
| "exec_stmt c (delete_app_box app name) db =
     db\<lparr>tbl_app_box := delete_where (\<lambda>r. box_app r = app \<and> box_name r = name) (tbl_app_box db)\<rparr>"

text \<open>\<open>SendBatch\<close> runs the queued statements in order; the server may answer any of them with an
  error (\<open>outcome\<close>), which the caller returns wrapped in its own text.\<close>

definition send_batch ::
  "'j codec \<Rightarrow> string \<Rightarrow> err option \<Rightarrow> 'j stmt list \<Rightarrow> 'j main_tables \<Rightarrow> 'j main_tables result" where
  "send_batch c who outcome batch db =
     (case outcome of
        Some e \<Rightarrow> Inl (Wrap (who @ '' exec err'') e)
      | None \<Rightarrow> Inr (fold (exec_stmt c) batch db))"

section \<open>Queueing a block\<close>

definition addBlockHeader :: "'j codec \<Rightarrow> BlockHeader \<Rightarrow> 'j stmt list \<Rightarrow> 'j stmt list" where
  "addBlockHeader c bh batch =
     batch @ [add_block_header (bh_Round bh) (time_Unix (TimeStamp bh)) (RewardsLevel bh)
                (EncodeBlockHeader c bh)]"

definition setSpecialAccounts :: "'j codec \<Rightarrow> SpecialAddresses \<Rightarrow> 'j stmt list \<Rightarrow> 'j stmt list" where
  "setSpecialAccounts c addresses batch =
     batch @ [set_special_accounts (EncodeSpecialAddresses c addresses)]"

record sigTypeDelta =
  std_present :: bool
  std_value :: SigType

definition zero_sigTypeDelta :: sigTypeDelta where
  "zero_sigTypeDelta = \<lparr>std_present = False, std_value = []\<rparr>"

fun sigTypeDeltas_loop ::
  "sdk \<Rightarrow> SignedTxnInBlock list \<Rightarrow> (Address \<rightharpoonup> sigTypeDelta) \<Rightarrow> (Address \<rightharpoonup> sigTypeDelta) result" where
  "sigTypeDeltas_loop env [] res = Inr res"
| "sigTypeDeltas_loop env (stib # payset) res =
     (let st = SignedTxn (stib_SignedTxnWithAD stib); h = Header (Txn st) in
      if RekeyTo h = zero_Address \<and> txn_Type (Txn st) \<noteq> StateProofTx then
        res_bind (res_wrap ''getSigTypeDelta() err'' (SignatureType env st)) (\<lambda>sigtype.
          sigTypeDeltas_loop env payset (res(Sender h \<mapsto> \<lparr>std_present = True, std_value = sigtype\<rparr>)))
      else sigTypeDeltas_loop env payset (res(Sender h \<mapsto> zero_sigTypeDelta)))"

definition getSigTypeDeltas ::
  "sdk \<Rightarrow> SignedTxnInBlock list \<Rightarrow> (Address \<rightharpoonup> sigTypeDelta) result" where
  "getSigTypeDeltas env payset = sigTypeDeltas_loop env payset Map.empty"

text \<open>An \<open>optionalSigTypeDelta\<close> is an option of a \<open>sigTypeDelta\<close>.\<close>

type_synonym optionalSigTypeDelta = "sigTypeDelta option"

definition sigtypeFunc :: "sigTypeDelta \<Rightarrow> SigType option" where
  "sigtypeFunc delta = (if \<not> std_present delta then None else Some (std_value delta))"

definition writeAccount ::
  "'j codec \<Rightarrow> uint64 \<Rightarrow> Address \<Rightarrow> AccountData \<Rightarrow> optionalSigTypeDelta \<Rightarrow> 'j stmt list \<Rightarrow> 'j stmt list" where
  "writeAccount c rnd address accountData delta batch =
     (if MicroAlgos accountData = 0 then
        (case delta of
           Some d \<Rightarrow> batch @ [delete_account_update_keytype address rnd (sigtypeFunc d)]
         | None \<Rightarrow> batch @ [delete_account address rnd])
      else
        let accountDataJSON = EncodeTrimmedLcAccountData c (TrimLcAccountData accountData) in
        case delta of
          Some d \<Rightarrow>
            batch @ [upsert_account_with_keytype address (MicroAlgos accountData)
                       (RewardsBase accountData) (RewardedMicroAlgos accountData) rnd
                       (sigtypeFunc d) accountDataJSON]
        | None \<Rightarrow>
            batch @ [upsert_account address (MicroAlgos accountData) (RewardsBase accountData)
                       (RewardedMicroAlgos accountData) rnd accountDataJSON])"

definition writeAssetResource ::
  "'j codec \<Rightarrow> uint64 \<Rightarrow> AssetResourceRecord \<Rightarrow> 'j stmt list \<Rightarrow> 'j stmt list" where
  "writeAssetResource c rnd resource batch =
     (let batch =
        (if apd_Deleted (arr_Params resource) then
           batch @ [delete_asset (arr_Aidx resource) (arr_Addr resource) rnd]
         else case apd_Params (arr_Params resource) of
           Some params \<Rightarrow>
             batch @ [upsert_asset (arr_Aidx resource) (arr_Addr resource) (EncodeAssetParams c params) rnd]
         | None \<Rightarrow> batch)
      in if ahd_Deleted (arr_Holding resource) then
           batch @ [delete_account_asset (arr_Addr resource) (arr_Aidx resource) rnd]
         else case ahd_Holding (arr_Holding resource) of
           Some holding \<Rightarrow>
             batch @ [upsert_account_asset (arr_Addr resource) (arr_Aidx resource) (Amount holding)
                        (Frozen holding) rnd]
         | None \<Rightarrow> batch)"

definition writeAppResource ::
  "'j codec \<Rightarrow> uint64 \<Rightarrow> AppResourceRecord \<Rightarrow> 'j stmt list \<Rightarrow> 'j stmt list" where
  "writeAppResource c rnd resource batch =
     (let batch =
        (if appd_Deleted (aprr_Params resource) then
           batch @ [delete_app (aprr_Aidx resource) (aprr_Addr resource) rnd]
         else case appd_Params (aprr_Params resource) of
           Some params \<Rightarrow>
             batch @ [upsert_app (aprr_Aidx resource) (aprr_Addr resource) (EncodeAppParams c params) rnd]
         | None \<Rightarrow> batch)
      in if alsd_Deleted (aprr_State resource) then
           batch @ [delete_account_app (aprr_Addr resource) (aprr_Aidx resource) rnd]
         else case alsd_LocalState (aprr_State resource) of
           Some state \<Rightarrow>
             batch @ [upsert_account_app (aprr_Addr resource) (aprr_Aidx resource)
                        (EncodeAppLocalState c state) rnd]
         | None \<Rightarrow> batch)"

definition writeAccountDeltas ::
  "'j codec \<Rightarrow> uint64 \<Rightarrow> AccountDeltas \<Rightarrow> (Address \<rightharpoonup> sigTypeDelta) \<Rightarrow> 'j stmt list \<Rightarrow> 'j stmt list" where
  "writeAccountDeltas c rnd accountDeltas sigtypeDeltas batch =
     (let batch = fold (\<lambda>br. writeAccount c rnd (br_Addr br) (br_AccountData br)
                               (sigtypeDeltas (br_Addr br))) (Accts accountDeltas) batch;
          batch = fold (writeAssetResource c rnd) (AssetResources accountDeltas) batch
      in fold (writeAppResource c rnd) (AppResources accountDeltas) batch)"

fun writeBoxMods :: "sdk \<Rightarrow> (string \<times> KvValueDelta) list \<Rightarrow> 'j stmt list \<Rightarrow> 'j stmt list result" where
  "writeBoxMods env [] batch = Inr batch"
| "writeBoxMods env ((key, valueDelta) # kvMods) batch =
     res_bind (res_wrap ''writeBoxMods() err'' (SplitBoxKey env key)) (\<lambda>(app, name).
       case kv_Data valueDelta of
         Some d \<Rightarrow> writeBoxMods env kvMods (batch @ [upsert_app_box app name d])
       | None \<Rightarrow> writeBoxMods env kvMods (batch @ [delete_app_box app name]))"

definition special_addresses :: "Block \<Rightarrow> SpecialAddresses" where
  "special_addresses block =
     \<lparr>sa_FeeSink = FeeSink (BlockHeader block), sa_RewardsPool = RewardsPool (BlockHeader block)\<rparr>"

definition Writer_AddBlock0 ::
  "'j codec \<Rightarrow> err option \<Rightarrow> Block \<Rightarrow> 'j main_tables \<Rightarrow> 'j main_tables result" where
  "Writer_AddBlock0 c outcome block db =
     (let batch = addBlockHeader c (BlockHeader block) [];
          batch = setSpecialAccounts c (special_addresses block) batch
      in send_batch c ''AddBlock0()'' outcome batch db)"

text \<open>The batch of a block, and the whole operation.\<close>

definition block_batch :: "sdk \<Rightarrow> 'j codec \<Rightarrow> Block \<Rightarrow> LedgerStateDelta \<Rightarrow> 'j stmt list result" where
  "block_batch env c block delta =
     (let batch = addBlockHeader c (BlockHeader block) [];
          batch = setSpecialAccounts c (special_addresses block) batch
      in res_bind (res_wrap ''AddBlock() err'' (getSigTypeDeltas env (Payset block))) (\<lambda>sigTypeDeltas.
         let batch = writeAccountDeltas c (bh_Round (BlockHeader block)) (lsd_Accts delta) sigTypeDeltas batch
         in res_wrap ''AddBlock() err on boxes'' (writeBoxMods env (KvMods delta) batch)))"

definition Writer_AddBlock ::
  "sdk \<Rightarrow> 'j codec \<Rightarrow> err option \<Rightarrow> Block \<Rightarrow> LedgerStateDelta \<Rightarrow> 'j main_tables \<Rightarrow> 'j main_tables result"
where
  "Writer_AddBlock env c outcome block delta db =
     res_bind (block_batch env c block delta) (\<lambda>batch. send_batch c ''AddBlock()'' outcome batch db)"

end
