(* ===== verification/IndexerDb.thy ===== *)
theory IndexerDb
  imports Writer
begin

text \<open>
  The write side of the Postgres backend: transactions with retry
  (\<^verbatim>\<open>idb/postgres/internal/util/util.go\<close>), the metastate documents, \<open>AddBlock\<close>, \<open>LoadGenesis\<close>,
  \<open>DeleteTransactions\<close> and the round counters of \<^verbatim>\<open>idb/postgres/postgres.go\<close>, and the genesis check
  of \<^verbatim>\<open>util/util.go\<close>. The database consists of the main tables and of the tables \<open>txn\<close> and
  \<open>txn_participation\<close>, which \<open>AddBlock\<close> writes in a transaction of their own. What the server answers
  is given by the environment: an error when a transaction begins, when a batch runs, or when it
  commits; a commit that reports an error may have been applied (the connection can break after the
  server has committed).
\<close>

section \<open>Transactions with retry\<close>

record tx_env =
  begin_err :: "err option"
  commit_err :: "(err \<times> bool) option"

definition isSerializationError :: "err \<Rightarrow> bool" where
  "isSerializationError e \<longleftrightarrow> errors_Is e PgSerializationFailure"

text \<open>One attempt. The body has been run on the state \<open>s\<close> of the transaction's tables and gave \<open>r\<close>;
  the rollback restores \<open>s\<close> unless the commit was applied.\<close>

definition attemptTx :: "tx_env \<Rightarrow> 's result \<Rightarrow> 's \<Rightarrow> unit result \<times> 's" where
  "attemptTx env r s =
     (case r of
        Inl e \<Rightarrow> (Inl (Wrap ''attemptTx() err'' e), s)
      | Inr s' \<Rightarrow>
          (case commit_err env of
             None \<Rightarrow> (Inr (), s')
           | Some (e, applied) \<Rightarrow> (Inl (Wrap ''attemptTx() commit err'' e), if applied then s' else s)))"

text \<open>The retry loop. The body may also change a state \<open>'t\<close> outside the transaction (that of a nested,
  independent transaction) and is told the number of the attempt. A loop that never stops is \<open>None\<close>.\<close>

partial_function (option) TxWithRetry ::
  "(nat \<Rightarrow> tx_env) \<Rightarrow> (nat \<Rightarrow> 's \<Rightarrow> 't \<Rightarrow> ('s result \<times> 't) option) \<Rightarrow> nat \<Rightarrow> 's \<Rightarrow> 't \<Rightarrow>
   (unit result \<times> 's \<times> 't) option" where
  "TxWithRetry env f cnt s t =
     (case begin_err (env cnt) of
        Some e \<Rightarrow> Some (Inl (Wrap ''TxWithRetry() begin tx err'' e), s, t)
      | None \<Rightarrow>
          Option.bind (f cnt s t) (\<lambda>p.
            let a = attemptTx (env cnt) (fst p) s in
            case fst a of
              Inr u \<Rightarrow> Some (Inr u, snd a, snd p)
            | Inl e \<Rightarrow>
                if isSerializationError e then TxWithRetry env f (Suc cnt) (snd a) (snd p)
                else Some (Inl (Wrap ''TxWithRetry() err'' e), snd a, snd p)))"

text \<open>A body without outside effects.\<close>

definition simple_body :: "('s \<Rightarrow> 's result) \<Rightarrow> nat \<Rightarrow> 's \<Rightarrow> unit \<Rightarrow> ('s result \<times> unit) option" where
  "simple_body f n s t = Some (f s, ())"

section \<open>Metastate\<close>

definition GetMetastate :: "'j main_tables \<Rightarrow> string \<Rightarrow> 'j result" where
  "GetMetastate db key =
     (case lookup_row ms_k key (tbl_metastate db) of
        None \<Rightarrow> Inl ErrorNotInitialized
      | Some r \<Rightarrow> Inr (ms_v r))"

definition SetMetastate :: "string \<Rightarrow> 'j \<Rightarrow> 'j main_tables \<Rightarrow> 'j main_tables" where
  "SetMetastate key val db = upsert_metastate key val db"

definition getImportState :: "'j codec \<Rightarrow> 'j main_tables \<Rightarrow> ImportState result" where
  "getImportState c db =
     (case GetMetastate db StateMetastateKey of
        Inl e \<Rightarrow> if e = ErrorNotInitialized then Inl ErrorNotInitialized
                 else Inl (Wrap ''unable to get import state err'' e)
      | Inr importStateJSON \<Rightarrow>
          res_wrap ''unable to parse import state err'' (DecodeImportState c importStateJSON))"

definition setImportState :: "'j codec \<Rightarrow> ImportState \<Rightarrow> 'j main_tables \<Rightarrow> 'j main_tables" where
  "setImportState c state db = SetMetastate StateMetastateKey (EncodeImportState c state) db"

definition getNetworkState :: "'j codec \<Rightarrow> 'j main_tables \<Rightarrow> NetworkState result" where
  "getNetworkState c db =
     (case GetMetastate db NetworkMetaStateKey of
        Inl e \<Rightarrow> if e = ErrorNotInitialized then Inl ErrorNotInitialized
                 else Inl (Wrap ''unable to get network state err'' e)
      | Inr networkStateJSON \<Rightarrow>
          res_wrap ''unable to parse network state err'' (DecodeNetworkState c networkStateJSON))"

definition setNetworkState :: "'j codec \<Rightarrow> NetworkState \<Rightarrow> 'j main_tables \<Rightarrow> 'j main_tables" where
  "setNetworkState c state db = SetMetastate NetworkMetaStateKey (EncodeNetworkState c state) db"

definition getNextRoundToAccount :: "'j codec \<Rightarrow> 'j main_tables \<Rightarrow> uint64 result" where
  "getNextRoundToAccount c db =
     (case getImportState c db of
        Inl e \<Rightarrow> if e = ErrorNotInitialized then Inl e
                 else Inl (Wrap ''getNextRoundToAccount() err'' e)
      | Inr state \<Rightarrow> Inr (NextRoundToAccount state))"

definition getMaxRoundAccounted :: "'j codec \<Rightarrow> 'j main_tables \<Rightarrow> uint64 result" where
  "getMaxRoundAccounted c db =
     res_bind (getNextRoundToAccount c db) (\<lambda>rnd. Inr (if rnd > 0 then rnd - 1 else rnd))"

definition GetSpecialAccounts :: "'j codec \<Rightarrow> 'j main_tables \<Rightarrow> SpecialAddresses result" where
  "GetSpecialAccounts c db =
     res_bind (res_wrap ''GetSpecialAccounts() err'' (GetMetastate db SpecialAccountsMetastateKey))
       (\<lambda>cache. res_wrap ''GetSpecialAccounts() problem decoding'' (DecodeSpecialAddresses c cache))"

definition GetNetworkState :: "'j codec \<Rightarrow> 'j main_tables \<Rightarrow> NetworkState result" where
  "GetNetworkState c db = res_wrap ''GetNetworkState() err'' (getNetworkState c db)"

section \<open>Adding a block\<close>

record 'j txn_tables =
  tbl_txn :: "'j txn_row list"
  tbl_txn_participation :: "txn_participation_row list"

abbreviation txn_key :: "'j txn_row \<Rightarrow> uint64 \<times> uint64" where
  "txn_key r \<equiv> (t_round r, t_intra r)"

abbreviation tp_key :: "txn_participation_row \<Rightarrow> Address \<times> uint64 \<times> uint64" where
  "tp_key r \<equiv> (tp_addr r, tp_round r, tp_intra r)"

text \<open>The copy consumes the rows the producer sends; the producer's error is looked at when the copy
  has succeeded.\<close>

definition AddTransactions ::
  "sdk \<Rightarrow> 'j codec \<Rightarrow> Block \<Rightarrow> SignedTxnInBlock list \<Rightarrow> 'j txn_tables \<Rightarrow> 'j txn_tables result" where
  "AddTransactions env c block modifiedTxns db =
     (case yieldTransactions env c block modifiedTxns of
        (rows, err0) \<Rightarrow>
          res_bind (res_wrap ''addTransactions() copy from err'' (copy_rows txn_key rows (tbl_txn db)))
            (\<lambda>t. res_bind (res_wrap ''addTransactions() err'' err0) (\<lambda>_. Inr (db\<lparr>tbl_txn := t\<rparr>))))"

definition AddTransactionParticipation :: "Block \<Rightarrow> 'j txn_tables \<Rightarrow> 'j txn_tables result" where
  "AddTransactionParticipation block db =
     res_bind (res_wrap ''addTransactionParticipation() copy from err''
         (copy_rows tp_key (transactionParticipation block) (tbl_txn_participation db)))
       (\<lambda>t. Inr (db\<lparr>tbl_txn_participation := t\<rparr>))"

definition add_txns_body :: "sdk \<Rightarrow> 'j codec \<Rightarrow> Block \<Rightarrow> 'j txn_tables \<Rightarrow> 'j txn_tables result" where
  "add_txns_body env c block db =
     res_bind (AddTransactions env c block (Payset block) db) (AddTransactionParticipation block)"

definition isUniqueViolation :: "err \<Rightarrow> bool" where
  "isUniqueViolation e \<longleftrightarrow> errors_Is e PgUniqueViolation"

text \<open>The environment of one call of \<open>AddBlock\<close>: the attempts of the main transaction, and for each of
  them the answer to its batch and the attempts of the nested transaction.\<close>

record add_env =
  outer_env :: "nat \<Rightarrow> tx_env"
  batch_err :: "nat \<Rightarrow> err option"
  inner_env :: "nat \<Rightarrow> nat \<Rightarrow> tx_env"

definition run_inner ::
  "sdk \<Rightarrow> 'j codec \<Rightarrow> (nat \<Rightarrow> tx_env) \<Rightarrow> Block \<Rightarrow> 'j txn_tables \<Rightarrow> (unit result \<times> 'j txn_tables) option" where
  "run_inner env c ienv block txns =
     map_option (\<lambda>(r, t, _). (r, t)) (TxWithRetry ienv (simple_body (add_txns_body env c block)) 0 txns ())"

text \<open>The function \<open>f\<close> of \<open>AddBlock\<close>. The nested transaction runs concurrently with the writer and is
  waited for on every path after it has been started.\<close>

definition add_block_body ::
  "sdk \<Rightarrow> 'j codec \<Rightarrow> add_env \<Rightarrow> ValidatedBlock \<Rightarrow> nat \<Rightarrow> 'j main_tables \<Rightarrow> 'j txn_tables \<Rightarrow>
   ('j main_tables result \<times> 'j txn_tables) option" where
  "add_block_body env c aenv vb n db txns =
     (let block = vb_Block vb; rnd = bh_Round (BlockHeader block) in
      case getImportState c db of
        Inl e \<Rightarrow> Some (Inl (Wrap ''AddBlock() err'' e), txns)
      | Inr importstate \<Rightarrow>
          if rnd \<noteq> NextRoundToAccount importstate then
            Some (Inl (ErrMsg ''AddBlock() adding block round but next round to account differs''), txns)
          else
            let importstate = importstate\<lparr>NextRoundToAccount := NextRoundToAccount importstate + 1\<rparr>;
                db = setImportState c importstate db
            in if rnd = 0 then
                 Some (res_wrap ''AddBlock() err'' (Writer_AddBlock0 c (batch_err aenv n) block db), txns)
               else
                 Option.bind (run_inner env c (inner_env aenv n) block txns) (\<lambda>(err0, txns).
                   case Writer_AddBlock env c (batch_err aenv n) block (vb_Delta vb) db of
                     Inl e \<Rightarrow> Some (Inl (Wrap ''AddBlock() err'' e), txns)
                   | Inr db \<Rightarrow>
                       (case err0 of
                          Inr _ \<Rightarrow> Some (Inr db, txns)
                        | Inl e \<Rightarrow>
                            if isUniqueViolation e then Some (Inr db, txns)
                            else Some (Inl (Wrap ''AddBlock() err0'' e), txns))))"

definition AddBlock ::
  "sdk \<Rightarrow> 'j codec \<Rightarrow> add_env \<Rightarrow> ValidatedBlock \<Rightarrow> 'j main_tables \<Rightarrow> 'j txn_tables \<Rightarrow>
   (unit result \<times> 'j main_tables \<times> 'j txn_tables) option" where
  "AddBlock env c aenv vb db txns =
     (case Consensus env (CurrentProtocol (BlockHeader (vb_Block vb))) of
        None \<Rightarrow> Some (Inl (ErrMsg ''unknown protocol detected, this usually means you need to upgrade''), db, txns)
      | Some _ \<Rightarrow>
          map_option (\<lambda>(r, s). (res_wrap ''AddBlock() err'' r, s))
            (TxWithRetry (outer_env aenv) (add_block_body env c aenv vb) 0 db txns))"

section \<open>Genesis\<close>

record Account =
  acct_Status :: uint64
  acct_MicroAlgos :: uint64
  acct_VoteID :: bytes
  acct_SelectionID :: bytes
  acct_StateProofID :: bytes
  acct_VoteLastValid :: uint64
  acct_VoteKeyDilution :: uint64

record GenesisAllocation =
  alloc_Address :: string
  alloc_State :: Account

text \<open>\<open>genesis.Hash()\<close> is computed by the SDK; it is a field here.\<close>

record Genesis =
  Allocation :: "GenesisAllocation list"
  gen_Hash :: Digest

definition accountToAccountData :: "Account \<Rightarrow> AccountData" where
  "accountToAccountData acct =
     zero_AccountData\<lparr>Status := acct_Status acct, MicroAlgos := 0, VoteID := acct_VoteID acct,
       SelectionID := acct_SelectionID acct, StateProofID := acct_StateProofID acct,
       VoteLastValid := acct_VoteLastValid acct, VoteKeyDilution := acct_VoteKeyDilution acct\<rparr>"

definition genesis_row :: "'j codec \<Rightarrow> Address \<Rightarrow> Account \<Rightarrow> 'j account_row" where
  "genesis_row c addr acct =
     \<lparr>acc_addr = addr, acc_microalgos = acct_MicroAlgos acct, acc_rewardsbase = 0,
      acc_rewards_total = 0, acc_deleted = False, acc_created_at = 0, acc_closed_at = None,
      acc_keytype = None,
      acc_account_data = EncodeTrimmedLcAccountData c (TrimLcAccountData (accountToAccountData acct))\<rparr>"

definition load_account ::
  "sdk \<Rightarrow> 'j codec \<Rightarrow> GenesisAllocation \<Rightarrow> 'j main_tables \<Rightarrow> 'j main_tables result" where
  "load_account env c alloc db =
     res_bind (res_wrap ''LoadGenesis() decode address err'' (DecodeAddress env (alloc_Address alloc))) (\<lambda>addr.
     res_bind (res_wrap ''LoadGenesis() error setting genesis account''
         (insert_row acc_addr (genesis_row c addr (alloc_State alloc)) (tbl_account db))) (\<lambda>t.
       Inr (db\<lparr>tbl_account := t\<rparr>)))"

definition load_genesis_body ::
  "sdk \<Rightarrow> 'j codec \<Rightarrow> Genesis \<Rightarrow> 'j main_tables \<Rightarrow> 'j main_tables result" where
  "load_genesis_body env c genesis db =
     res_bind
       (case getNetworkState c db of
          Inl e \<Rightarrow>
            if e = ErrorNotInitialized then
              Inr (setNetworkState c \<lparr>ns_GenesisHash = gen_Hash genesis\<rparr> db)
            else Inl (Wrap ''LoadGenesis() err'' e)
        | Inr network \<Rightarrow>
            if ns_GenesisHash network \<noteq> gen_Hash genesis
            then Inl (ErrMsg ''LoadGenesis() genesis hash not matching'') else Inr db) (\<lambda>db.
     res_bind (res_fold (load_account env c) (Allocation genesis) db) (\<lambda>db.
       Inr (setImportState c \<lparr>NextRoundToAccount = 0\<rparr> db)))"

definition LoadGenesis ::
  "sdk \<Rightarrow> 'j codec \<Rightarrow> (nat \<Rightarrow> tx_env) \<Rightarrow> Genesis \<Rightarrow> 'j main_tables \<Rightarrow> (unit result \<times> 'j main_tables) option" where
  "LoadGenesis env c tenv genesis db =
     map_option (\<lambda>(r, db, _). (res_wrap ''LoadGenesis() err'' r, db))
       (TxWithRetry tenv (simple_body (load_genesis_body env c genesis)) 0 db ())"

text \<open>\<open>SetNetworkState\<close> runs outside a transaction.\<close>

definition SetNetworkState :: "'j codec \<Rightarrow> Digest \<Rightarrow> 'j main_tables \<Rightarrow> 'j main_tables" where
  "SetNetworkState c gh db = setNetworkState c \<lparr>ns_GenesisHash = gh\<rparr> db"

definition checkGenesisHash :: "'j codec \<Rightarrow> Digest \<Rightarrow> 'j main_tables \<Rightarrow> unit result \<times> 'j main_tables" where
  "checkGenesisHash c gh db =
     (case GetNetworkState c db of
        Inl e \<Rightarrow>
          if errors_Is e ErrorNotInitialized then (Inr (), SetNetworkState c gh db)
          else (Inl (Wrap ''unable to fetch network state from db'' e), db)
      | Inr network \<Rightarrow>
          if ns_GenesisHash network \<noteq> gh then (Inl (ErrMsg ''genesis hash not matching''), db)
          else (Inr (), db))"

definition EnsureInitialImport ::
  "sdk \<Rightarrow> 'j codec \<Rightarrow> (nat \<Rightarrow> tx_env) \<Rightarrow> Genesis \<Rightarrow> 'j main_tables \<Rightarrow> (bool result \<times> 'j main_tables) option" where
  "EnsureInitialImport env c tenv genesis db =
     (case getNextRoundToAccount c db of
        Inr _ \<Rightarrow>
          (case checkGenesisHash c (gen_Hash genesis) db of
             (Inl e, db) \<Rightarrow> Some (Inl e, db)
           | (Inr _, db) \<Rightarrow> Some (Inr False, db))
      | Inl e \<Rightarrow>
          if e \<noteq> ErrorNotInitialized then Some (Inl (ErrMsg ''getting import state''), db)
          else
            Option.bind (LoadGenesis env c tenv genesis db) (\<lambda>(r, db).
              case r of
                Inl _ \<Rightarrow> Some (Inl (ErrMsg ''could not load genesis json''), db)
              | Inr _ \<Rightarrow> Some (Inr True, db)))"

section \<open>Pruning\<close>

text \<open>\<open>now\<close> is the formatted time of the attempt; the transaction covers all tables.\<close>

definition delete_txns_body ::
  "'j codec \<Rightarrow> string \<Rightarrow> uint64 \<Rightarrow> 'j main_tables \<times> 'j txn_tables \<Rightarrow> ('j main_tables \<times> 'j txn_tables) result" where
  "delete_txns_body c now keep s =
     (case s of (db, txns) \<Rightarrow>
        let txns = txns\<lparr>tbl_txn := delete_where (\<lambda>r. t_round r < keep) (tbl_txn txns)\<rparr>;
            txns = txns\<lparr>tbl_txn_participation :=
                     delete_where (\<lambda>r. tp_round r < keep) (tbl_txn_participation txns)\<rparr>;
            status = \<lparr>LastPruned = now, OldestRound = keep\<rparr>
        in Inr (SetMetastate DeleteStatusKey (EncodeDeleteStatus c status) db, txns))"

definition DeleteTransactions ::
  "'j codec \<Rightarrow> (nat \<Rightarrow> tx_env) \<Rightarrow> string \<Rightarrow> uint64 \<Rightarrow> 'j main_tables \<times> 'j txn_tables \<Rightarrow>
   (unit result \<times> ('j main_tables \<times> 'j txn_tables)) option" where
  "DeleteTransactions c tenv now keep s =
     map_option (\<lambda>(r, s, _). (res_wrap ''DeleteTransactions err'' r, s))
       (TxWithRetry tenv (simple_body (delete_txns_body c now keep)) 0 s ())"

end
