(* ===== verification/EncodingLaws.thy ===== *)
theory EncodingLaws
  imports Encoding
begin

text \<open>
  The round trips of the stored documents. A document loses the embedded fields that an override
  field shadows (the \<open>erase\<close> functions) and can only hold strings that are valid UTF-8 (the
  \<open>storable\<close> predicates); \<open>faithful_codec\<close> says that the codec preserves everything else. The locale
  \<open>stored_document\<close> is the contract between a conversion and the codec, and each document type
  interprets it.
\<close>

section \<open>What a JSON document keeps\<close>

definition valid_utf8 :: "string \<Rightarrow> bool" where
  "valid_utf8 s \<longleftrightarrow> RuneError \<notin> set (runes s)"

definition erase_blockHeader :: "blockHeader \<Rightarrow> blockHeader" where
  "erase_blockHeader h =
     h\<lparr>bhx_BlockHeader := (bhx_BlockHeader h)
        \<lparr>Proposer := zero_Address, ExpiredParticipationAccounts := [],
         AbsentParticipationAccounts := []\<rparr>\<rparr>"

definition storable_blockHeader :: "blockHeader \<Rightarrow> bool" where
  "storable_blockHeader h \<longleftrightarrow>
     (\<forall>s \<in> set [bh_GenesisID (bhx_BlockHeader h), CurrentProtocol (bhx_BlockHeader h),
        NextProtocol (bhx_BlockHeader h), UpgradePropose (bhx_BlockHeader h)]. valid_utf8 s)"

definition storable_assetParams :: "assetParams \<Rightarrow> bool" where
  "storable_assetParams p \<longleftrightarrow>
     valid_utf8 (UnitName (apx_AssetParams p)) \<and> valid_utf8 (AssetName (apx_AssetParams p)) \<and>
     valid_utf8 (URL (apx_AssetParams p))"

definition erase_transaction :: "transaction \<Rightarrow> transaction" where
  "erase_transaction t =
     t\<lparr>tx_Transaction := (tx_Transaction t)
        \<lparr>AssetConfigTxnFields := (AssetConfigTxnFields (tx_Transaction t))
           \<lparr>acfg_AssetParams := zero_AssetParams\<rparr>\<rparr>\<rparr>"

definition storable_transaction :: "transaction \<Rightarrow> bool" where
  "storable_transaction t \<longleftrightarrow>
     valid_utf8 (txn_Type (tx_Transaction t)) \<and> valid_utf8 (GenesisID (Header (tx_Transaction t))) \<and>
     storable_assetParams (AssetParamsOverride t)"

definition erase_valueDelta :: "valueDelta \<Rightarrow> valueDelta" where
  "erase_valueDelta d = d\<lparr>vdx_ValueDelta := (vdx_ValueDelta d)\<lparr>vd_Bytes := []\<rparr>\<rparr>"

fun erase_signedTxnWithAD :: "signedTxnWithAD \<Rightarrow> signedTxnWithAD"
and erase_evalDelta :: "evalDelta \<Rightarrow> evalDelta"
and erase_innerTxns :: "signedTxnWithAD list \<Rightarrow> signedTxnWithAD list" where
  "erase_signedTxnWithAD
     (MksignedTxnWithAD (MkSignedTxnWithAD st (MkApplyData ca aca sr rr cr ed cfg app)) txn edo) =
     MksignedTxnWithAD
       (MkSignedTxnWithAD (st\<lparr>Txn := zero_Transaction\<rparr>)
          (MkApplyData ca aca sr rr cr zero_EvalDelta cfg app))
       (erase_transaction txn) (erase_evalDelta edo)"
| "erase_evalDelta (MkevalDelta (MkEvalDelta gd ld sa lg its) gdo ldo lgo itso) =
     MkevalDelta (MkEvalDelta fmempty fmempty sa [] []) (fmmap erase_valueDelta gdo)
       (fmmap (fmmap erase_valueDelta) ldo) lgo (erase_innerTxns itso)"
| "erase_innerTxns [] = []"
| "erase_innerTxns (i # is) = erase_signedTxnWithAD i # erase_innerTxns is"

fun storable_signedTxnWithAD :: "signedTxnWithAD \<Rightarrow> bool"
and storable_evalDelta :: "evalDelta \<Rightarrow> bool"
and storable_innerTxns :: "signedTxnWithAD list \<Rightarrow> bool" where
  "storable_signedTxnWithAD (MksignedTxnWithAD stxn txn edo) =
     (storable_transaction txn \<and> storable_evalDelta edo)"
| "storable_evalDelta (MkevalDelta ed gdo ldo lgo itso) = storable_innerTxns itso"
| "storable_innerTxns [] = True"
| "storable_innerTxns (i # is) = (storable_signedTxnWithAD i \<and> storable_innerTxns is)"

definition erase_tealValue :: "tealValue \<Rightarrow> tealValue" where
  "erase_tealValue tv = tv\<lparr>tvx_TealValue := (tvx_TealValue tv)\<lparr>tv_Bytes := []\<rparr>\<rparr>"

definition erase_appLocalState :: "appLocalState \<Rightarrow> appLocalState" where
  "erase_appLocalState s =
     s\<lparr>alx_AppLocalState := (alx_AppLocalState s)\<lparr>als_KeyValue := fmempty\<rparr>,
       KeyValueOverride := fmmap erase_tealValue (KeyValueOverride s)\<rparr>"

definition erase_appParams :: "appParams \<Rightarrow> appParams" where
  "erase_appParams p =
     p\<lparr>apx_AppParams := (apx_AppParams p)\<lparr>ap_GlobalState := fmempty\<rparr>,
       GlobalStateOverride := fmmap erase_tealValue (GlobalStateOverride p)\<rparr>"

text \<open>Decoding what was encoded gives the value back, except for the shadowed fields, for every
  value whose strings are valid UTF-8.\<close>

definition faithful_codec :: "'j codec \<Rightarrow> bool" where
  "faithful_codec c \<longleftrightarrow>
     (\<forall>x. storable_blockHeader x \<longrightarrow> dec_blockHeader c (enc_blockHeader c x) = Inr (erase_blockHeader x)) \<and>
     (\<forall>x. storable_assetParams x \<longrightarrow> dec_assetParams c (enc_assetParams c x) = Inr x) \<and>
     (\<forall>x. storable_signedTxnWithAD x \<longrightarrow>
        dec_signedTxnWithAD c (enc_signedTxnWithAD c x) = Inr (erase_signedTxnWithAD x)) \<and>
     (\<forall>x. dec_baseAccountData c (enc_baseAccountData c x) = Inr x) \<and>
     (\<forall>x. dec_appLocalState c (enc_appLocalState c x) = Inr (erase_appLocalState x)) \<and>
     (\<forall>x. dec_appParams c (enc_appParams c x) = Inr (erase_appParams x))"

text \<open>A codec that satisfies the law: a document is the value it encodes, with its shadowed fields
  erased.\<close>

datatype document =
    JBlockHeader blockHeader
  | JAssetParams assetParams
  | JSignedTxn signedTxnWithAD
  | JAccount baseAccountData
  | JTrimmed trimmedAccountData
  | JLocalState appLocalState
  | JAppParams appParams
  | JArray "document list"
  | JNumber uint64
  | JBool bool
  | JSpecial SpecialAddresses
  | JTxnExtra TxnExtra
  | JImport ImportState
  | JMigration MigrationState
  | JNetwork NetworkState
  | JDelete DeleteStatus
  | JNull

definition bad_document :: "'a result" where
  "bad_document = Inl (ErrMsg ''json decode error'')"

definition array_of :: "(document \<Rightarrow> 'a result) \<Rightarrow> document \<Rightarrow> 'a list result" where
  "array_of dec j = (case j of JArray js \<Rightarrow> res_map dec js | _ \<Rightarrow> bad_document)"

definition example_codec :: "document codec" where
  "example_codec =
     \<lparr>IsPrint = (\<lambda>r. 32 \<le> r \<and> r < 127), json_null = JNull,
      enc_blockHeader = (\<lambda>x. JBlockHeader (erase_blockHeader x)),
      dec_blockHeader = (\<lambda>j. case j of JBlockHeader x \<Rightarrow> Inr x | _ \<Rightarrow> bad_document),
      enc_assetParams = JAssetParams,
      dec_assetParams = (\<lambda>j. case j of JAssetParams x \<Rightarrow> Inr x | _ \<Rightarrow> bad_document),
      enc_signedTxnWithAD = (\<lambda>x. JSignedTxn (erase_signedTxnWithAD x)),
      dec_signedTxnWithAD = (\<lambda>j. case j of JSignedTxn x \<Rightarrow> Inr x | _ \<Rightarrow> bad_document),
      enc_baseAccountData = JAccount,
      dec_baseAccountData = (\<lambda>j. case j of JAccount x \<Rightarrow> Inr x | _ \<Rightarrow> bad_document),
      dec_trimmedAccountData = (\<lambda>j. case j of JTrimmed x \<Rightarrow> Inr x | _ \<Rightarrow> bad_document),
      enc_appLocalState = (\<lambda>x. JLocalState (erase_appLocalState x)),
      dec_appLocalState = (\<lambda>j. case j of JLocalState x \<Rightarrow> Inr x | _ \<Rightarrow> bad_document),
      enc_appParams = (\<lambda>x. JAppParams (erase_appParams x)),
      dec_appParams = (\<lambda>j. case j of JAppParams x \<Rightarrow> Inr x | _ \<Rightarrow> bad_document),
      dec_assetParamsArray = array_of (\<lambda>j. case j of JAssetParams x \<Rightarrow> Inr x | _ \<Rightarrow> bad_document),
      dec_appParamsArray = array_of (\<lambda>j. case j of JAppParams x \<Rightarrow> Inr x | _ \<Rightarrow> bad_document),
      dec_appLocalStateArray = array_of (\<lambda>j. case j of JLocalState x \<Rightarrow> Inr x | _ \<Rightarrow> bad_document),
      enc_SpecialAddresses = JSpecial,
      dec_SpecialAddresses = (\<lambda>j. case j of JSpecial x \<Rightarrow> Inr x | _ \<Rightarrow> bad_document),
      enc_TxnExtra = JTxnExtra,
      dec_TxnExtra = (\<lambda>j. case j of JTxnExtra x \<Rightarrow> Inr x | _ \<Rightarrow> bad_document),
      enc_ImportState = JImport,
      dec_ImportState = (\<lambda>j. case j of JImport x \<Rightarrow> Inr x | _ \<Rightarrow> bad_document),
      enc_MigrationState = JMigration,
      dec_MigrationState = (\<lambda>j. case j of JMigration x \<Rightarrow> Inr x | _ \<Rightarrow> bad_document),
      enc_NetworkState = JNetwork,
      dec_NetworkState = (\<lambda>j. case j of JNetwork x \<Rightarrow> Inr x | _ \<Rightarrow> bad_document),
      enc_DeleteStatus = JDelete,
      dec_DeleteStatus = (\<lambda>j. case j of JDelete x \<Rightarrow> Inr x | _ \<Rightarrow> bad_document)\<rparr>"

lemma faithful_example_codec [simp]: "faithful_codec example_codec"
  by (simp add: faithful_codec_def example_codec_def)

section \<open>Conversions as document contracts\<close>

text \<open>A conversion \<open>conv\<close> with its inverse \<open>unconv\<close> fits the codec when nothing it needs is erased
  and its documents are storable for the values satisfying \<open>ok\<close>.\<close>

locale stored_document =
  fixes conv :: "'a \<Rightarrow> 'd" and unconv :: "'d \<Rightarrow> 'a" and erase :: "'d \<Rightarrow> 'd"
    and storable :: "'d \<Rightarrow> bool" and ok :: "'a \<Rightarrow> bool"
  assumes unconv_erase_conv: "unconv (erase (conv x)) = x"
    and storable_conv: "ok x \<Longrightarrow> storable (conv x)"
begin

lemma decode_encode:
  assumes "\<forall>d. storable d \<longrightarrow> dec (enc d) = Inr (erase d)" "ok x"
  shows "res_bind (dec (enc (conv x))) (\<lambda>d. Inr (unconv d)) = Inr x"
  using assms storable_conv [of x] unconv_erase_conv [of x] by simp

lemma encode_inj:
  fixes dec :: "'e \<Rightarrow> 'd result"
  assumes "\<forall>d. storable d \<longrightarrow> dec (enc d) = Inr (erase d)" "ok x" "ok y"
    and "enc (conv x) = enc (conv y)"
  shows "x = y"
  using decode_encode [where dec = dec and enc = enc, OF assms(1,2)]
    decode_encode [where dec = dec and enc = enc, OF assms(1,3)] assms(4)
  by (metis sum.inject(2))

end

lemma PrintableUTF8OrEmpty_valid: "valid_utf8 (PrintableUTF8OrEmpty isPrint s)"
  by (auto simp: valid_utf8_def PrintableUTF8OrEmpty_def list_ex_iff)

lemma valid_utf8_Nil [simp]: "valid_utf8 []"
  by (simp add: valid_utf8_def)

lemma convertAssetParams_storable: "storable_assetParams (convertAssetParams c p)"
  by (simp add: storable_assetParams_def convertAssetParams_def Let_def PrintableUTF8OrEmpty_valid)

lemma unconvert_convertAssetParams: "unconvertAssetParams (convertAssetParams c p) = p"
  using PrintableUTF8OrEmpty_cases [of "IsPrint c" "AssetName p"]
    PrintableUTF8OrEmpty_cases [of "IsPrint c" "UnitName p"]
    PrintableUTF8OrEmpty_cases [of "IsPrint c" "URL p"]
  by (cases p) (auto simp: unconvertAssetParams_def convertAssetParams_def Let_def)

interpretation asset_document:
  stored_document "convertAssetParams c" unconvertAssetParams "\<lambda>x. x" storable_assetParams "\<lambda>_. True"
  by unfold_locales (simp_all add: unconvert_convertAssetParams convertAssetParams_storable)

definition header_utf8 :: "BlockHeader \<Rightarrow> bool" where
  "header_utf8 h \<longleftrightarrow>
     (\<forall>s \<in> set [bh_GenesisID h, CurrentProtocol h, NextProtocol h, UpgradePropose h]. valid_utf8 s)"

interpretation header_document:
  stored_document convertBlockHeader unconvertBlockHeader erase_blockHeader storable_blockHeader
    header_utf8
  by unfold_locales
    (simp_all add: convertBlockHeader_def unconvertBlockHeader_def erase_blockHeader_def
      storable_blockHeader_def header_utf8_def convertExpiredAccounts_def unconvertExpiredAccounts_def)

lemma unconvert_convertTealKeyValue:
  "unconvertTealKeyValue (fmmap erase_tealValue (convertTealKeyValue m)) = m"
proof -
  have "unconvertTealValue \<circ> (erase_tealValue \<circ> convertTealValue) = id"
    by (simp add: fun_eq_iff unconvertTealValue_def erase_tealValue_def convertTealValue_def)
  then show ?thesis
    by (simp add: unconvertTealKeyValue_def convertTealKeyValue_def fmap.map_comp fmap.map_id)
qed

interpretation local_state_document:
  stored_document convertAppLocalState unconvertAppLocalState erase_appLocalState "\<lambda>_. True" "\<lambda>_. True"
  by unfold_locales
    (simp_all add: convertAppLocalState_def unconvertAppLocalState_def erase_appLocalState_def
      unconvert_convertTealKeyValue)

interpretation app_document:
  stored_document convertAppParams unconvertAppParams erase_appParams "\<lambda>_. True" "\<lambda>_. True"
  by unfold_locales
    (simp_all add: convertAppParams_def unconvertAppParams_def erase_appParams_def
      unconvert_convertTealKeyValue)

lemma unconvert_convertStateDelta:
  "unconvertStateDelta (fmmap erase_valueDelta (convertStateDelta m)) = m"
proof -
  have "unconvertValueDelta \<circ> (erase_valueDelta \<circ> convertValueDelta) = id"
    by (simp add: fun_eq_iff unconvertValueDelta_def erase_valueDelta_def convertValueDelta_def)
  then show ?thesis
    by (simp add: unconvertStateDelta_def convertStateDelta_def fmap.map_comp fmap.map_id)
qed

lemma unconvert_convertLocalDeltas:
  "unconvertLocalDeltas (fmmap (fmmap erase_valueDelta) (convertLocalDeltas m)) = m"
proof -
  have "unconvertStateDelta \<circ> (fmmap erase_valueDelta \<circ> convertStateDelta) = id"
    by (simp add: fun_eq_iff unconvert_convertStateDelta)
  then show ?thesis
    by (simp add: unconvertLocalDeltas_def convertLocalDeltas_def fmap.map_comp fmap.map_id)
qed

lemma unconvert_convertTransaction:
  "unconvertTransaction (erase_transaction (convertTransaction c t)) = t"
  by (simp add: unconvertTransaction_def erase_transaction_def convertTransaction_def
      unconvert_convertAssetParams)

lemma unconvert_convertSignedTxnWithAD:
  "unconvertSignedTxnWithAD (erase_signedTxnWithAD (convertSignedTxnWithAD c stxn)) = stxn"
  "unconvertEvalDelta (erase_evalDelta (convertEvalDelta c ed)) = ed"
  "unconvertInnerTxns (erase_innerTxns (convertInnerTxns c its)) = its"
  by (induction c stxn and c ed and c its rule:
      convertSignedTxnWithAD_convertEvalDelta_convertInnerTxns.induct)
    (simp_all add: unconvert_convertTransaction unconvert_convertStateDelta
      unconvert_convertLocalDeltas convertLogs_def unconvertLogs_def zero_EvalDelta_def)

text \<open>Every transaction of the tree has a type and a genesis id that are valid UTF-8.\<close>

fun stxn_utf8 :: "SignedTxnWithAD \<Rightarrow> bool"
and stxns_utf8 :: "SignedTxnWithAD list \<Rightarrow> bool" where
  "stxn_utf8 (MkSignedTxnWithAD st (MkApplyData ca aca sr rr cr (MkEvalDelta gd ld sa lg its) cfg app)) =
     (valid_utf8 (txn_Type (Txn st)) \<and> valid_utf8 (st_GenesisID st) \<and> stxns_utf8 its)"
| "stxns_utf8 [] = True"
| "stxns_utf8 (i # is) = (stxn_utf8 i \<and> stxns_utf8 is)"

lemma convertSignedTxnWithAD_storable:
  "stxn_utf8 stxn \<Longrightarrow> storable_signedTxnWithAD (convertSignedTxnWithAD c stxn)"
  "stxns_utf8 its \<Longrightarrow> storable_innerTxns (convertInnerTxns c its)"
  by (induction stxn and its rule: stxn_utf8_stxns_utf8.induct)
    (simp_all add: storable_transaction_def convertTransaction_def convertAssetParams_storable)

interpretation txn_document:
  stored_document "convertSignedTxnWithAD c" unconvertSignedTxnWithAD erase_signedTxnWithAD
    storable_signedTxnWithAD stxn_utf8
  by unfold_locales (simp_all add: unconvert_convertSignedTxnWithAD convertSignedTxnWithAD_storable)

lemma unconvert_convertTrimmedLc:
  "unconvertTrimmedLcAccountData (convertTrimmedLcAccountData ad) = TrimLcAccountData ad"
  by (cases ad) (simp add: unconvertTrimmedLcAccountData_def convertTrimmedLcAccountData_def
      TrimLcAccountData_def zero_AccountData_def)

section \<open>Round trips\<close>

text \<open>Every asset's parameters survive storage, whatever bytes its names contain: a name that is
  not printable UTF-8 is stored in the byte fields and restored from them.\<close>

theorem DecodeAssetParams_EncodeAssetParams:
  assumes "faithful_codec c"
  shows "DecodeAssetParams c (EncodeAssetParams c params) = Inr params"
  using assms asset_document.decode_encode [of "dec_assetParams c" "enc_assetParams c" _ params]
  by (simp add: faithful_codec_def DecodeAssetParams_def EncodeAssetParams_def)

theorem DecodeAssetParams_EncodeAssetParams_witness:
  "faithful_codec example_codec \<and>
   DecodeAssetParams example_codec
     (EncodeAssetParams example_codec (zero_AssetParams\<lparr>AssetName := [CHR 0xFF, CHR ''a'']\<rparr>)) =
   Inr (zero_AssetParams\<lparr>AssetName := [CHR 0xFF, CHR ''a'']\<rparr>)"
  using DecodeAssetParams_EncodeAssetParams [OF faithful_example_codec] by simp

text \<open>C39: a signed transaction with its whole tree of inner transactions survives storage, with the
  raw bytes of state deltas, logs and asset names, when the types and genesis ids in the tree are
  valid UTF-8.\<close>

theorem DecodeSignedTxnWithAD_EncodeSignedTxnWithAD:
  assumes "faithful_codec c" "stxn_utf8 stxn"
  shows "DecodeSignedTxnWithAD c (EncodeSignedTxnWithAD c stxn) = Inr stxn"
  using assms txn_document.decode_encode [of "dec_signedTxnWithAD c" "enc_signedTxnWithAD c" stxn]
  by (simp add: faithful_codec_def DecodeSignedTxnWithAD_def EncodeSignedTxnWithAD_def)

theorem DecodeSignedTxnWithAD_EncodeSignedTxnWithAD_witness:
  "stxn_utf8 (set_InnerTxns [zero_SignedTxnWithAD] zero_SignedTxnWithAD) \<and>
   DecodeSignedTxnWithAD example_codec
     (EncodeSignedTxnWithAD example_codec (set_InnerTxns [zero_SignedTxnWithAD] zero_SignedTxnWithAD)) =
   Inr (set_InnerTxns [zero_SignedTxnWithAD] zero_SignedTxnWithAD)"
proof -
  have "stxn_utf8 (set_InnerTxns [zero_SignedTxnWithAD] zero_SignedTxnWithAD)"
    by (simp add: set_InnerTxns_def zero_SignedTxnWithAD_def zero_ApplyData_def zero_EvalDelta_def
        zero_SignedTxn_def zero_Transaction_def zero_Header_def)
  then show ?thesis
    using DecodeSignedTxnWithAD_EncodeSignedTxnWithAD [OF faithful_example_codec] by simp
qed

text \<open>A block header survives storage, the overridden address lists included.\<close>

theorem DecodeBlockHeader_EncodeBlockHeader:
  assumes "faithful_codec c" "header_utf8 header"
  shows "DecodeBlockHeader c (EncodeBlockHeader c header) = Inr header"
  using assms header_document.decode_encode [of "dec_blockHeader c" "enc_blockHeader c" header]
  by (simp add: faithful_codec_def DecodeBlockHeader_def EncodeBlockHeader_def)

theorem DecodeBlockHeader_EncodeBlockHeader_witness:
  "header_utf8 (zero_BlockHeader\<lparr>ExpiredParticipationAccounts := [zero_Address]\<rparr>) \<and>
   DecodeBlockHeader example_codec
     (EncodeBlockHeader example_codec (zero_BlockHeader\<lparr>ExpiredParticipationAccounts := [zero_Address]\<rparr>)) =
   Inr (zero_BlockHeader\<lparr>ExpiredParticipationAccounts := [zero_Address]\<rparr>)"
proof -
  have "header_utf8 (zero_BlockHeader\<lparr>ExpiredParticipationAccounts := [zero_Address]\<rparr>)"
    by (simp add: header_utf8_def zero_BlockHeader_def)
  then show ?thesis
    using DecodeBlockHeader_EncodeBlockHeader [OF faithful_example_codec] by simp
qed

text \<open>Application parameters and local states survive storage, with their raw keys and values.\<close>

theorem Decode_Encode_application:
  assumes "faithful_codec c"
  shows "DecodeAppParams c (EncodeAppParams c params) = Inr params \<and>
    DecodeAppLocalState c (EncodeAppLocalState c state) = Inr state"
  using assms local_state_document.decode_encode [of "dec_appLocalState c" "enc_appLocalState c" state]
    app_document.unconv_erase_conv [of params]
  by (simp add: faithful_codec_def DecodeAppParams_def EncodeAppParams_def DecodeAppLocalState_def
      EncodeAppLocalState_def)

theorem Decode_Encode_application_witness:
  "faithful_codec example_codec \<and>
   DecodeAppParams example_codec (EncodeAppParams example_codec zero_AppParams) = Inr zero_AppParams \<and>
   DecodeAppLocalState example_codec (EncodeAppLocalState example_codec zero_AppLocalState) =
     Inr zero_AppLocalState"
  using Decode_Encode_application [OF faithful_example_codec, of zero_AppParams zero_AppLocalState]
  by simp

text \<open>What is stored of account data decodes to the account data with exactly the three amounts
  removed that have columns of their own.\<close>

theorem DecodeTrimmedLcAccountData_Encode:
  assumes "faithful_codec c"
  shows "DecodeTrimmedLcAccountData c (EncodeTrimmedLcAccountData c (TrimLcAccountData ad)) =
    Inr (TrimLcAccountData ad)"
proof -
  have "TrimLcAccountData (TrimLcAccountData ad) = TrimLcAccountData ad"
    by (simp add: TrimLcAccountData_def)
  with assms show ?thesis
    by (simp add: faithful_codec_def DecodeTrimmedLcAccountData_def EncodeTrimmedLcAccountData_def
        unconvert_convertTrimmedLc)
qed

theorem DecodeTrimmedLcAccountData_Encode_witness:
  "faithful_codec example_codec \<and>
   DecodeTrimmedLcAccountData example_codec
     (EncodeTrimmedLcAccountData example_codec (TrimLcAccountData example_account)) =
   Inr (TrimLcAccountData example_account)"
  using DecodeTrimmedLcAccountData_Encode [OF faithful_example_codec] by simp

text \<open>The keys of a stored state delta decode to the raw bytes they encode.\<close>

theorem byteArray_roundtrip: "byteArray_UnmarshalText (byteArray_MarshalText k) = Inr k"
  by (simp add: byteArray_UnmarshalText_def byteArray_MarshalText_def decodeBase64_def Base64_def)

end
