(* ===== verification/WriteTxnLaws.thy ===== *)
theory WriteTxnLaws
  imports WriteTxn EncodingLaws
begin

text \<open>
  Correctness of the rows of a block. The reference definition lists the transactions of a block in
  preorder and numbers them; the traversals of the writer compute exactly that numbering, the
  transaction and the participation rows agree on it, and the paging token of a row skips exactly
  the transaction tree it belongs to.
\<close>

section \<open>Preorder\<close>

fun descendants :: "SignedTxnWithAD \<Rightarrow> SignedTxnWithAD list"
and descendants_of :: "SignedTxnWithAD list \<Rightarrow> SignedTxnWithAD list" where
  "descendants (MkSignedTxnWithAD st (MkApplyData ca aca sr rr cr (MkEvalDelta gd ld sa lg its) cfg app)) =
     descendants_of its"
| "descendants_of [] = []"
| "descendants_of (i # is) = i # descendants i @ descendants_of is"

lemma countInner_descendants:
  "countInner stxn = of_nat (length (descendants stxn))"
  "countInners its = of_nat (length (descendants_of its))"
  by (induction stxn and its rule: countInner_countInners.induct) simp_all

text \<open>Sending a list numbered from an offset, up to the first error of the row function.\<close>

fun number_rows :: "(uint64 \<Rightarrow> 'a \<Rightarrow> 'r result) \<Rightarrow> uint64 \<Rightarrow> 'a list \<Rightarrow> ('r, uint64) producer" where
  "number_rows f i [] = ([], Inr i)"
| "number_rows f i (x # xs) = producer_bind (send_row (f i x)) (\<lambda>_. number_rows f (i + 1) xs)"

lemma number_rows_append:
  "number_rows f i (xs @ ys) = producer_bind (number_rows f i xs) (\<lambda>n. number_rows f n ys)"
  by (induction xs arbitrary: i) (simp_all add: producer_bind_assoc)

lemma number_rows_nth:
  assumes "number_rows f i xs = (rs, Inr n)"
  shows "n = i + of_nat (length xs) \<and> length rs = length xs \<and>
    (\<forall>k < length xs. f (i + of_nat k) (xs ! k) = Inr (rs ! k))"
  using assms
proof (induction xs arbitrary: i rs)
  case (Cons x xs)
  from Cons.prems obtain r rs' where r: "f i x = Inr r" "number_rows f (i + 1) xs = (rs', Inr n)"
    and rs: "rs = r # rs'" by (cases "f i x") (auto split: prod.splits)
  from Cons.IH [OF r(2)] r(1) rs show ?case
    by (auto simp: nth_Cons algebra_simps split: nat.split)
qed simp

lemma number_rows_map: "number_rows f i (map g xs) = number_rows (\<lambda>i x. f i (g x)) i xs"
  by (induction xs arbitrary: i) simp_all

lemma number_rows_wrap:
  "number_rows (\<lambda>i x. res_wrap m (f i x)) i xs = producer_wrap m (number_rows f i xs)"
proof (induction xs arbitrary: i)
  case Nil
  show ?case by (simp add: producer_wrap_def)
next
  case (Cons x xs)
  then show ?case by (simp add: producer_wrap_bind producer_wrap_send)
qed

section \<open>The reference listing of a block\<close>

text \<open>An entry of the listing: a transaction of the payset with its index, or an inner transaction
  with the offset and id of the root of its tree.\<close>

datatype entry = Root nat SignedTxnInBlock | Inner uint64 string SignedTxnWithAD

fun is_Root :: "entry \<Rightarrow> bool" where
  "is_Root (Root _ _) = True"
| "is_Root (Inner _ _ _) = False"

definition root_txid :: "sdk \<Rightarrow> Block \<Rightarrow> SignedTxnInBlock \<Rightarrow> string" where
  "root_txid env block stib =
     (case DecodeSignedTxn env (BlockHeader block) stib of
        Inl _ \<Rightarrow> [] | Inr (st, _) \<Rightarrow> TransactionIDString env (Txn st))"

fun entries :: "sdk \<Rightarrow> Block \<Rightarrow> nat \<Rightarrow> uint64 \<Rightarrow> SignedTxnInBlock list \<Rightarrow> entry list" where
  "entries env block idx intra [] = []"
| "entries env block idx intra (stib # stibs) =
     (let ds = descendants (stib_SignedTxnWithAD stib) in
      Root idx stib # map (Inner intra (root_txid env block stib)) ds
      @ entries env block (Suc idx) (intra + 1 + of_nat (length ds)) stibs)"

definition block_entries :: "sdk \<Rightarrow> Block \<Rightarrow> entry list" where
  "block_entries env block = entries env block 0 0 (Payset block)"

fun entry_row ::
  "sdk \<Rightarrow> 'j codec \<Rightarrow> Block \<Rightarrow> SignedTxnInBlock list \<Rightarrow> uint64 \<Rightarrow> entry \<Rightarrow> 'j txn_row result" where
  "entry_row env c block mods i (Root idx stib) = root_row env c block mods idx i stib"
| "entry_row env c block mods i (Inner root txid itxn) =
     res_wrap ''yieldTransactions() adding inner''
       (inner_row c (bh_Round (BlockHeader block)) i root txid itxn)"

section \<open>The traversals compute the listing\<close>

lemma yieldInner_number_rows:
  "yieldInnerTransactions c rnd stxn intra root txid =
     number_rows (\<lambda>i. inner_row c rnd i root txid) intra (descendants stxn)"
  "yieldInnerLoop c rnd its intra root txid =
     number_rows (\<lambda>i. inner_row c rnd i root txid) intra (descendants_of its)"
  by (induction stxn and its arbitrary: intra and intra rule: descendants_descendants_of.induct)
    (simp_all add: number_rows_append)

lemma root_row_txid:
  "root_row env c block mods idx intra stib = Inr row \<Longrightarrow> t_txid row = Some (root_txid env block stib)"
  by (auto simp: root_row_def root_txid_def result_simps Let_def split: option.splits if_splits)

lemma yieldPayset_number_rows:
  "yieldPayset env c block mods idx intra stibs =
     number_rows (entry_row env c block mods) intra (entries env block idx intra stibs)"
proof (induction stibs arbitrary: idx intra)
  case (Cons stib stibs)
  let ?ds = "descendants (stib_SignedTxnWithAD stib)" and ?t = "root_txid env block stib"
  let ?inner = "number_rows (\<lambda>i. inner_row c (bh_Round (BlockHeader block)) i intra ?t) (intra + 1) ?ds"
  have n: "n = intra + 1 + of_nat (length ?ds)" if "?inner = (rs, Inr n)" for rs n
    using number_rows_nth [OF that] by simp
  show ?case
  proof (cases "root_row env c block mods idx intra stib")
    case root: (Inr row)
    obtain rs r where inner: "?inner = (rs, r)" by (cases ?inner)
    show ?thesis
      using root root_row_txid [OF root] inner n
      by (cases r) (auto simp: number_rows_append number_rows_map number_rows_wrap
          yieldInner_number_rows Let_def Cons producer_wrap_def producer_bind_def)
  qed (simp add: Let_def)
qed simp

lemma yieldTransactions_number_rows:
  "yieldTransactions env c block mods =
     producer_bind (number_rows (entry_row env c block mods) 0 (block_entries env block)) (\<lambda>intra.
       if ProposerPayout (BlockHeader block) > 0 then
         producer_bind (send_row (payout_row env c block intra)) (\<lambda>_. ([], Inr ()))
       else ([], Inr ()))"
  by (simp add: yieldTransactions_def yieldPayset_number_rows flip: block_entries_def)

section \<open>Shape of the listing\<close>

definition has_payout :: "Block \<Rightarrow> bool" where
  "has_payout block \<longleftrightarrow> ProposerPayout (BlockHeader block) > 0"

lemma payout_row_total:
  "payout_row env c block i =
     Inr \<lparr>t_round = bh_Round (BlockHeader block), t_intra = i, t_typeenum = TypeEnumPay, t_asset = 0,
          t_txid = Some (TransactionIDString env (stxn_Txn (SignedTransactionFromBlockPayout block))),
          t_txn = EncodeSignedTxnWithAD c (SignedTransactionFromBlockPayout block),
          t_extra = EncodeTxnExtra c zero_TxnExtra\<rparr>"
  by (simp add: payout_row_def SignedTransactionFromBlockPayout_def GetTypeEnum_def typeEnumMap_def
      PaymentTx_def Let_def)

lemma payout_row_position:
  "payout_row env c block i = Inr row \<Longrightarrow>
     t_intra row = i \<and> t_round row = bh_Round (BlockHeader block) \<and> t_txid row \<noteq> None"
  by (auto simp: payout_row_total)

lemma entry_row_position:
  "entry_row env c block mods i e = Inr row \<Longrightarrow>
     t_intra row = i \<and> t_round row = bh_Round (BlockHeader block) \<and> (t_txid row = None) = (\<not> is_Root e)"
  by (cases e) (auto simp: root_row_def inner_row_def result_simps Let_def split: option.splits if_splits)

lemma inner_row_extra:
  "inner_row c rnd i root txid itxn = Inr row \<Longrightarrow>
     t_extra row = EncodeTxnExtra c
       \<lparr>AssetCloseAmount = AssetClosingAmount (ApplyData itxn),
        RootIntra = \<lparr>Present = True, Value = root\<rparr>, RootTxid = txid\<rparr>"
  by (auto simp: inner_row_def result_simps Let_def split: option.splits)

lemma yieldTransactions_rows:
  assumes "yieldTransactions env c block mods = (rows, Inr ())"
  shows "length rows = length (block_entries env block) + (if has_payout block then 1 else 0)"
    and "\<And>k. k < length (block_entries env block) \<Longrightarrow>
      entry_row env c block mods (of_nat k) (block_entries env block ! k) = Inr (rows ! k)"
    and "has_payout block \<Longrightarrow>
      payout_row env c block (of_nat (length (block_entries env block))) = Inr (last rows)"
proof -
  let ?es = "block_entries env block"
  from assms obtain rs i s2 where rs: "number_rows (entry_row env c block mods) 0 ?es = (rs, Inr i)"
    and pay: "(if ProposerPayout (BlockHeader block) > 0 then
         producer_bind (send_row (payout_row env c block i)) (\<lambda>_. ([], Inr ()))
       else ([], Inr ())) = (s2, Inr ())" and rows: "rows = rs @ s2"
    unfolding yieldTransactions_number_rows producer_bind_Inr by blast
  from number_rows_nth [OF rs] have i: "i = of_nat (length ?es)"
    and n: "length rs = length ?es"
      "\<And>k. k < length ?es \<Longrightarrow> entry_row env c block mods (of_nat k) (?es ! k) = Inr (rs ! k)" by auto
  have s2: "if has_payout block then s2 \<noteq> [] \<and> length s2 = 1 \<and> payout_row env c block i = Inr (last s2)
      else s2 = []"
    using pay by (auto simp: has_payout_def payout_row_total split: if_splits)
  with rows n show "length rows = length ?es + (if has_payout block then 1 else 0)"
    by (auto split: if_splits)
  show "entry_row env c block mods (of_nat k) (?es ! k) = Inr (rows ! k)" if "k < length ?es" for k
    using that rows n by (simp add: nth_append)
  show "payout_row env c block (of_nat (length ?es)) = Inr (last rows)" if "has_payout block"
    using that rows s2 i by simp
qed

lemma yieldTransactions_positions:
  assumes "yieldTransactions env c block mods = (rows, Inr ())"
  shows "map t_intra rows = map of_nat [0..<length rows]"
    and "\<forall>row \<in> set rows. t_round row = bh_Round (BlockHeader block)"
proof -
  let ?es = "block_entries env block"
  note r = yieldTransactions_rows [OF assms]
  have pos: "t_intra (rows ! k) = of_nat k \<and> t_round (rows ! k) = bh_Round (BlockHeader block)"
    if "k < length rows" for k
  proof (cases "k < length ?es")
    case True
    then show ?thesis using entry_row_position [OF r(2)] by blast
  next
    case False
    with that r(1) have h: "has_payout block" and k: "k = length ?es" and "k = length rows - 1"
      by (auto split: if_splits)
    then have "rows ! k = last rows" using that by (metis last_conv_nth list.size(3) not_less_zero)
    with payout_row_position [OF r(3) [OF h]] k show ?thesis by simp
  qed
  show "map t_intra rows = map of_nat [0..<length rows]"
    using pos by (intro nth_equalityI) simp_all
  show "\<forall>row \<in> set rows. t_round row = bh_Round (BlockHeader block)"
    using pos by (auto simp: in_set_conv_nth)
qed

section \<open>An example block\<close>

text \<open>An application call with two inner transactions, the first of which has one of its own, a
  payment, and a proposer payout.\<close>

definition app_call :: "SignedTxnWithAD list \<Rightarrow> SignedTxnWithAD" where
  "app_call its =
     set_InnerTxns its (MkSignedTxnWithAD
       (zero_SignedTxn\<lparr>Txn := zero_Transaction\<lparr>txn_Type := ApplicationCallTx,
          ApplicationCallTxnFields := zero_ApplicationCallTxnFields\<lparr>ApplicationID := 7\<rparr>\<rparr>\<rparr>) zero_ApplyData)"

definition example_payment :: SignedTxnWithAD where
  "example_payment = MkSignedTxnWithAD
     (zero_SignedTxn\<lparr>Txn := zero_Transaction\<lparr>txn_Type := PaymentTx\<rparr>\<rparr>) zero_ApplyData"

definition in_block :: "SignedTxnWithAD \<Rightarrow> SignedTxnInBlock" where
  "in_block t = \<lparr>stib_SignedTxnWithAD = t, HasGenesisID = True, HasGenesisHash = False\<rparr>"

definition example_block :: Block where
  "example_block =
     \<lparr>BlockHeader = example_header\<lparr>ProposerPayout := 10, FeeSink := replicate 32 (CHR 0x02),
        Proposer := replicate 32 (CHR 0x03)\<rparr>,
      Payset = [in_block (app_call [app_call [example_payment], example_payment]), in_block example_payment]\<rparr>"

definition example_rows :: "document txn_row list" where
  "example_rows =
     fst (yieldTransactions example_sdk example_codec example_block (Payset example_block))"

lemmas example_txn_defs = app_call_def example_payment_def in_block_def set_InnerTxns_def
  zero_SignedTxn_def zero_Transaction_def zero_Header_def zero_ApplyData_def zero_EvalDelta_def
  zero_ApplicationCallTxnFields_def TxType_defs

lemma example_yields:
  "yieldTransactions example_sdk example_codec example_block (Payset example_block) = (example_rows, Inr ())"
  "map t_txid example_rows = [Some ''TXID'', None, None, None, Some ''TXID'', Some ''TXID'']"
  by (simp_all add: example_rows_def yieldTransactions_def example_block_def root_row_def
      inner_row_def transactionAssetID_def payout_row_total DecodeSignedTxn_def GetTypeEnum_def
      typeEnumMap_def example_sdk_def example_header_def zero_BlockHeader_def example_proto_def
      set_GenesisID_def set_GenesisHash_def example_txn_defs Let_def producer_wrap_def
      producer_bind_def)

lemma example_block_entries:
  "block_entries example_sdk example_block ! 0 =
     Root 0 (in_block (app_call [app_call [example_payment], example_payment]))"
  "length (block_entries example_sdk example_block) = 5"
  by (simp_all add: block_entries_def example_block_def example_txn_defs Let_def)



text \<open>Every inner entry belongs to the closest root before it, which it names by offset and id.\<close>

lemma entries_inner:
  assumes "k < length (entries env block idx intra stibs)"
    and "entries env block idx intra stibs ! k = Inner off txid itxn"
  shows "\<exists>j < k. off = intra + of_nat j \<and>
    (\<exists>i stib. entries env block idx intra stibs ! j = Root i stib \<and> txid = root_txid env block stib) \<and>
    (\<forall>i. j < i \<and> i \<le> k \<longrightarrow> \<not> is_Root (entries env block idx intra stibs ! i))"
  using assms
proof (induction stibs arbitrary: idx intra k)
  case (Cons stib stibs)
  let ?ds = "descendants (stib_SignedTxnWithAD stib)" and ?t = "root_txid env block stib"
  let ?off = "intra + 1 + of_nat (length ?ds)"
  define head where "head = Root idx stib # map (Inner intra ?t) ?ds"
  define rest where "rest = entries env block (Suc idx) ?off stibs"
  have split: "entries env block idx intra (stib # stibs) = head @ rest"
    by (simp add: Let_def head_def rest_def)
  have head: "length head = Suc (length ?ds)" "head ! 0 = Root idx stib"
    "\<And>i. 0 < i \<Longrightarrow> i < length head \<Longrightarrow> \<exists>d. head ! i = Inner intra ?t d"
    by (auto simp: head_def nth_Cons')
  show ?case
  proof (cases "k < length head")
    case True
    with Cons.prems(2) [unfolded split] have k: "head ! k = Inner off txid itxn"
      by (simp add: nth_append)
    with head(2) have "0 < k" by (cases k) auto
    moreover have "off = intra \<and> txid = ?t" using head(3) [OF \<open>0 < k\<close> True] k by auto
    moreover have "\<not> is_Root ((head @ rest) ! i)" if "0 < i" "i \<le> k" for i
      using that True head(3) [of i] by (auto simp: nth_append)
    ultimately show ?thesis using head True unfolding split by (intro exI [of _ 0]) (simp add: nth_append)
  next
    case False
    define m where "m = k - length head"
    have k: "k = length head + m" using False by (simp add: m_def)
    have "m < length rest" "rest ! m = Inner off txid itxn"
      using Cons.prems [unfolded split] by (simp_all add: k nth_append)
    from Cons.IH [OF this [unfolded rest_def]] obtain j where j: "j < m"
      "off = ?off + of_nat j" "\<exists>i stib. rest ! j = Root i stib \<and> txid = root_txid env block stib"
      "\<And>i. j < i \<Longrightarrow> i \<le> m \<Longrightarrow> \<not> is_Root (rest ! i)" unfolding rest_def by blast
    have "\<not> is_Root ((head @ rest) ! i)" if "length head + j < i" "i \<le> k" for i
      using j(4) [of "i - length head"] that k by (simp add: nth_append)
    moreover have "off = intra + of_nat (length head + j)"
      using j(2) head(1) by (simp add: algebra_simps)
    ultimately show ?thesis using j(1,3) k unfolding split
      by (intro exI [of _ "length head + j"]) (simp add: nth_append)
  qed
qed simp

text \<open>A row without a transaction id is an inner transaction, and its extra data name the closest
  preceding row that has an id: that row's offset as the root's offset and that row's id as the
  root's id.\<close>

theorem yieldTransactions_inner_root:
  assumes "yieldTransactions env c block mods = (rows, Inr ())" "k < length rows"
    and "t_txid (rows ! k) = None"
  shows "\<exists>j < k. \<exists>txid amount.
    t_txid (rows ! j) = Some txid \<and> (\<forall>i. j < i \<and> i \<le> k \<longrightarrow> t_txid (rows ! i) = None) \<and>
    t_extra (rows ! k) = EncodeTxnExtra c
      \<lparr>AssetCloseAmount = amount, RootIntra = \<lparr>Present = True, Value = of_nat j\<rparr>, RootTxid = txid\<rparr>"
proof -
  let ?es = "block_entries env block"
  note r = yieldTransactions_rows [OF assms(1)]
  have k: "k < length ?es"
  proof (rule ccontr)
    assume "\<not> k < length ?es"
    with assms(2) r(1) have h: "has_payout block" and "k = length rows - 1" by (auto split: if_splits)
    then have "rows ! k = last rows" using assms(2) by (metis last_conv_nth list.size(3) not_less_zero)
    with payout_row_position [OF r(3) [OF h]] assms(3) show False by simp
  qed
  note root = entry_row_position [OF r(2)]
  obtain off txid itxn where e: "?es ! k = Inner off txid itxn"
    using root [OF k] assms(3) by (cases "?es ! k") auto
  obtain j i stib where j: "j < k" "off = of_nat j" "?es ! j = Root i stib"
    "txid = root_txid env block stib" "\<And>i. j < i \<Longrightarrow> i \<le> k \<Longrightarrow> \<not> is_Root (?es ! i)"
    using entries_inner [of k env block 0 0 "Payset block"] k e by (auto simp: block_entries_def)
  have "t_txid (rows ! j) = Some txid"
    using r(2) [of j] j k root_row_txid by fastforce
  moreover have "t_txid (rows ! i) = None" if "j < i" "i \<le> k" for i
    using root [of i] j(5) [OF that] that k by simp
  moreover have "t_extra (rows ! k) = EncodeTxnExtra c
      \<lparr>AssetCloseAmount = AssetClosingAmount (ApplyData itxn),
       RootIntra = \<lparr>Present = True, Value = of_nat j\<rparr>, RootTxid = txid\<rparr>"
    using r(2) [OF k] e j(2) inner_row_extra by (fastforce simp: result_simps)
  ultimately show ?thesis using j(1) by blast
qed


theorem yieldTransactions_inner_root_witness:
  "t_txid (example_rows ! 3) = None \<and>
   (\<exists>j < 3. \<exists>txid amount.
      t_txid (example_rows ! j) = Some txid \<and>
      (\<forall>i. j < i \<and> i \<le> 3 \<longrightarrow> t_txid (example_rows ! i) = None) \<and>
      t_extra (example_rows ! 3) = EncodeTxnExtra example_codec
        \<lparr>AssetCloseAmount = amount, RootIntra = \<lparr>Present = True, Value = of_nat j\<rparr>, RootTxid = txid\<rparr>)"
proof -
  have l: "length example_rows = 6" using arg_cong [OF example_yields(2), of length] by simp
  then have k: "3 < length example_rows" by simp
  have n: "t_txid (example_rows ! 3) = None"
    using arg_cong [OF example_yields(2), of "\<lambda>xs. xs ! 3"] l by simp
  show ?thesis using n yieldTransactions_inner_root [OF example_yields(1) k n] by blast
qed

section \<open>Paging over transaction trees\<close>

lemma entries_tree:
  assumes "j < length (entries env block idx intra stibs)"
    and "entries env block idx intra stibs ! j = Root i stib"
  defines "n \<equiv> length (descendants (stib_SignedTxnWithAD stib))"
  shows "(\<forall>k. j < k \<and> k \<le> j + n \<longrightarrow>
      k < length (entries env block idx intra stibs) \<and> \<not> is_Root (entries env block idx intra stibs ! k)) \<and>
    (j + n + 1 < length (entries env block idx intra stibs) \<longrightarrow>
      is_Root (entries env block idx intra stibs ! (j + n + 1)))"
  using assms(1,2)
proof (induction stibs arbitrary: idx intra j)
  case (Cons s stibs)
  let ?ds = "descendants (stib_SignedTxnWithAD s)" and ?t = "root_txid env block s"
  define head where "head = Root idx s # map (Inner intra ?t) ?ds"
  define rest where "rest = entries env block (Suc idx) (intra + 1 + of_nat (length ?ds)) stibs"
  have split: "entries env block idx intra (s # stibs) = head @ rest"
    by (simp add: Let_def head_def rest_def)
  have head: "length head = Suc (length ?ds)" "head ! 0 = Root idx s"
    "\<And>i. 0 < i \<Longrightarrow> i < length head \<Longrightarrow> \<not> is_Root (head ! i)"
    by (auto simp: head_def nth_Cons')
  have rest0: "is_Root (rest ! 0)" if "0 < length rest"
    using that by (cases stibs) (simp_all add: rest_def Let_def)
  show ?case
  proof (cases "j < length head")
    case True
    with Cons.prems(2) [unfolded split] head have "j = 0"
      by (metis is_Root.simps(1) neq0_conv nth_append)
    with Cons.prems(2) [unfolded split] head(1,2) have "stib = s" by (simp add: nth_append)
    then have n: "length head = Suc n" using head(1) by (simp add: n_def)
    show ?thesis unfolding split using \<open>j = 0\<close> n head(3) rest0 by (auto simp: nth_append)
  next
    case False
    define m where "m = j - length head"
    have j: "j = length head + m" using False by (simp add: m_def)
    have "m < length rest" "rest ! m = Root i stib"
      using Cons.prems [unfolded split] by (simp_all add: j nth_append)
    from Cons.IH [OF this [unfolded rest_def], folded rest_def]
    have r: "\<And>k. m < k \<Longrightarrow> k \<le> m + n \<Longrightarrow> k < length rest \<and> \<not> is_Root (rest ! k)"
      "m + n + 1 < length rest \<Longrightarrow> is_Root (rest ! (m + n + 1))" by blast+
    have "k < length (head @ rest) \<and> \<not> is_Root ((head @ rest) ! k)" if "j < k" "k \<le> j + n" for k
    proof -
      have "m < k - length head" "k - length head \<le> m + n" using that j by simp_all
      from r(1) [OF this] show ?thesis using that j by (auto simp: nth_append)
    qed
    then show ?thesis unfolding split using r(2) j by (simp add: nth_append)
  qed
qed simp

text \<open>The ascending paging token of any row of a transaction tree (the root itself, or an inner
  transaction returned with its root) points at the last row of the tree: all rows after the root up
  to the token are inner transactions of the tree, and the row after it, if there is one, is the next
  root. So the next page starts with the next transaction of the payset.\<close>

theorem TxnRow_Next_end_of_tree:
  assumes "j < length (block_entries env block)" "block_entries env block ! j = Root idx stib"
    and "(if Present (RootIntra (tr_Extra tr)) then Value (RootIntra (tr_Extra tr)) else tr_Intra tr) = of_nat j"
    and "(case tr_RootTxn tr of Some r \<Rightarrow> Some r | None \<Rightarrow> tr_Txn tr) = Some (MkSignedTxnWithAD st
           (ApplyData (stib_SignedTxnWithAD stib)))"
  shows "\<exists>n. next_intra tr True = Some (of_nat (j + n)) \<and>
    (\<forall>k. j < k \<and> k \<le> j + n \<longrightarrow>
       k < length (block_entries env block) \<and> \<not> is_Root (block_entries env block ! k)) \<and>
    (j + n + 1 < length (block_entries env block) \<longrightarrow> is_Root (block_entries env block ! (j + n + 1)))"
proof -
  let ?stxn = "stib_SignedTxnWithAD stib"
  let ?n = "length (descendants ?stxn)"
  have "countInner (MkSignedTxnWithAD st (ApplyData ?stxn)) = countInner ?stxn"
    by (cases ?stxn; cases "ApplyData ?stxn"; cases "EvalDelta (ApplyData ?stxn)") simp
  then have "next_intra tr True = Some (of_nat (j + ?n))"
    using assms(3,4)
    by (auto simp: next_intra_def Let_def countInner_descendants split: option.splits if_splits)
  moreover note entries_tree [of j env block 0 0 "Payset block" idx stib]
  ultimately show ?thesis
    using assms(1,2) unfolding block_entries_def by (intro exI [of _ ?n]) simp
qed

definition example_inner_row :: TxnRow where
  "example_inner_row =
     \<lparr>tr_Round = 5, tr_RoundTime = 0, tr_Intra = 2, tr_Txn = None,
      tr_RootTxn = Some (app_call [app_call [example_payment], example_payment]), tr_AssetID = 0,
      tr_Extra = \<lparr>AssetCloseAmount = 0, RootIntra = \<lparr>Present = True, Value = 0\<rparr>, RootTxid = ''TXID''\<rparr>,
      tr_Error = None\<rparr>"

theorem TxnRow_Next_end_of_tree_witness:
  "\<exists>n. next_intra example_inner_row True = Some (of_nat n) \<and>
    (\<forall>k. 0 < k \<and> k \<le> n \<longrightarrow>
       k < length (block_entries example_sdk example_block) \<and>
       \<not> is_Root (block_entries example_sdk example_block ! k)) \<and>
    (n + 1 < length (block_entries example_sdk example_block) \<longrightarrow>
       is_Root (block_entries example_sdk example_block ! (n + 1)))"
proof -
  let ?t = "app_call [app_call [example_payment], example_payment]"
  have "0 < length (block_entries example_sdk example_block)" by (simp add: example_block_entries)
  moreover have "(case tr_RootTxn example_inner_row of Some r \<Rightarrow> Some r | None \<Rightarrow> tr_Txn example_inner_row) =
      Some (MkSignedTxnWithAD (SignedTxn ?t) (ApplyData (stib_SignedTxnWithAD (in_block ?t))))"
    by (simp add: example_inner_row_def in_block_def)
  ultimately show ?thesis
    using TxnRow_Next_end_of_tree [OF _ example_block_entries(1), of example_inner_row "SignedTxn ?t"]
    by (simp add: example_inner_row_def)
qed

section \<open>Participants\<close>

definition own_addresses :: "Transaction \<Rightarrow> Address list" where
  "own_addresses txn =
     Sender (Header txn) #
     (if txn_Type txn = PaymentTx then
        Receiver (PaymentTxnFields txn) #
        filter (\<lambda>a. \<not> IsZero a) [CloseRemainderTo (PaymentTxnFields txn)]
      else if txn_Type txn = AssetTransferTx then
        filter (\<lambda>a. \<not> IsZero a) [AssetSender (AssetTransferTxnFields txn)] @
        AssetReceiver (AssetTransferTxnFields txn) #
        filter (\<lambda>a. \<not> IsZero a) [AssetCloseTo (AssetTransferTxnFields txn)]
      else if txn_Type txn = AssetFreezeTx then [FreezeAccount (AssetFreezeTxnFields txn)]
      else if txn_Type txn = ApplicationCallTx then Accounts (ApplicationCallTxnFields txn)
      else if txn_Type txn = HeartbeatTx then [HbAddress (HeartbeatTxnFields txn)]
      else [])"

lemma addOwnParticipants_fold: "addOwnParticipants txn add s = fold add (own_addresses txn) s"
  by (simp add: addOwnParticipants_def own_addresses_def Let_def TxType_defs)

lemma addTransactionParticipants_fold:
  "addTransactionParticipants stxn b add s =
     fold add (own_addresses (stxn_Txn stxn) @
       (if b then concat (map (\<lambda>t. own_addresses (stxn_Txn t)) (descendants stxn)) else [])) s"
  "b \<Longrightarrow> addInnerParticipants its b add s =
     fold add (concat (map (\<lambda>t. own_addresses (stxn_Txn t)) (descendants_of its))) s"
  by (induction stxn b add s and its b add s rule:
      addTransactionParticipants_addInnerParticipants.induct)
    (simp_all add: addOwnParticipants_fold Let_def)

lemma fold_slice_add:
  "distinct res \<Longrightarrow> distinct (fold slice_add xs res) \<and> set (fold slice_add xs res) = set res \<union> set xs"
  by (induction xs arbitrary: res) (auto simp: slice_add_def)

lemma fold_insert_set: "fold insert xs A = set xs \<union> A"
  by (simp flip: union_set_fold)

lemma participants_set:
  "set (getTransactionParticipants stxn b) =
     (\<Union>t \<in> set (stxn # (if b then descendants stxn else [])). set (own_addresses (stxn_Txn t)))"
  by (cases b) (simp_all add: getTransactionParticipants_def addTransactionParticipants_fold
      fold_insert_set fold_slice_add flip: fold_append)

lemma participants_distinct: "distinct (getTransactionParticipants stxn b)"
  by (simp add: getTransactionParticipants_def addTransactionParticipants_fold fold_slice_add
      flip: fold_append)

lemma getTransactionParticipants_nonempty: "getTransactionParticipants stxn b \<noteq> []"
proof -
  have "Sender (Header (stxn_Txn stxn)) \<in> set (getTransactionParticipants stxn b)"
    by (simp add: participants_set own_addresses_def)
  then show ?thesis by auto
qed



section \<open>Participation rows\<close>

text \<open>The transactions of a payset in preorder; the flag marks the roots, whose participants include
  those of their inner transactions.\<close>

fun block_txns :: "SignedTxnInBlock list \<Rightarrow> (bool \<times> SignedTxnWithAD) list" where
  "block_txns [] = []"
| "block_txns (stib # stibs) =
     (True, stib_SignedTxnWithAD stib) #
     map (Pair False) (descendants (stib_SignedTxnWithAD stib)) @ block_txns stibs"

fun number_participants ::
  "uint64 \<Rightarrow> uint64 \<Rightarrow> (bool \<times> SignedTxnWithAD) list \<Rightarrow> txn_participation_row list" where
  "number_participants rnd i [] = []"
| "number_participants rnd i ((root, t) # ts) =
     participation_rows rnd i (getTransactionParticipants t root) @ number_participants rnd (i + 1) ts"

lemma number_participants_append:
  "number_participants rnd i (xs @ ys) =
     number_participants rnd i xs @ number_participants rnd (i + of_nat (length xs)) ys"
  by (induction rnd i xs rule: number_participants.induct) (simp_all add: algebra_simps)

lemma addInner_number_participants:
  "addInnerTransactionParticipation stxn rnd i rows =
     (i + of_nat (length (descendants stxn)),
      rows @ number_participants rnd i (map (Pair False) (descendants stxn)))"
  "addInnerLoop its rnd i rows =
     (i + of_nat (length (descendants_of its)),
      rows @ number_participants rnd i (map (Pair False) (descendants_of its)))"
proof (induction stxn and its arbitrary: i rows and i rows rule: descendants_descendants_of.induct)
  case (3 itxn its)
  then show ?case by (simp add: Let_def number_participants_append algebra_simps)
qed simp_all

lemma participationPayset_number:
  "participationPayset stibs rnd i rows =
     (i + of_nat (length (block_txns stibs)), rows @ number_participants rnd i (block_txns stibs))"
  by (induction stibs arbitrary: i rows)
    (simp_all add: Let_def addInner_number_participants number_participants_append algebra_simps)

lemma transactionParticipation_number:
  "transactionParticipation block =
     number_participants (bh_Round (BlockHeader block)) 0 (block_txns (Payset block)) @
     (if has_payout block then
        participation_rows (bh_Round (BlockHeader block)) (of_nat (length (block_txns (Payset block))))
          [FeeSink (BlockHeader block), Proposer (BlockHeader block)]
      else [])"
  by (simp add: transactionParticipation_def participationPayset_number has_payout_def Let_def)

lemma length_entries: "length (entries env block i n stibs) = length (block_txns stibs)"
  by (induction stibs arbitrary: i n) (simp_all add: Let_def)

lemma participation_rows_intra: "ps \<noteq> [] \<Longrightarrow> tp_intra ` set (participation_rows rnd i ps) = {i}"
  by (cases ps) (auto simp: participation_rows_def)

lemma number_participants_intras:
  "tp_intra ` set (number_participants rnd i ts) = (\<lambda>k. i + of_nat k) ` {..<length ts}"
proof (induction rnd i ts rule: number_participants.induct)
  case (2 rnd i root t ts)
  have "tp_intra ` set (participation_rows rnd i (getTransactionParticipants t root)) = {i}"
    using participation_rows_intra [OF getTransactionParticipants_nonempty] .
  moreover have "(\<lambda>k. i + of_nat k) ` {..<Suc (length ts)} =
      insert i ((\<lambda>k. i + 1 + of_nat k) ` {..<length ts})"
    by (simp add: lessThan_Suc_eq_insert_0 image_image algebra_simps)
  ultimately show ?case using 2 by (simp add: image_Un)
qed simp

lemma number_participants_round: "r \<in> set (number_participants rnd i ts) \<Longrightarrow> tp_round r = rnd"
  by (induction rnd i ts rule: number_participants.induct) (auto simp: participation_rows_def)

lemma participation_intras:
  "tp_intra ` set (transactionParticipation block) =
     of_nat ` {..<length (block_txns (Payset block)) + (if has_payout block then 1 else 0)}"
  by (simp add: transactionParticipation_number image_Un number_participants_intras
      participation_rows_intra lessThan_Suc)

lemma participation_round:
  "r \<in> set (transactionParticipation block) \<Longrightarrow> tp_round r = bh_Round (BlockHeader block)"
  by (auto simp: transactionParticipation_number participation_rows_def number_participants_round
      split: if_splits)

lemma image_fixed_fst: "(\<And>x. x \<in> A \<Longrightarrow> f x = a) \<Longrightarrow> (\<lambda>x. (f x, g x)) ` A = {a} \<times> g ` A"
  by auto

lemma participation_positions:
  assumes "yieldTransactions env c block mods = (rows, Inr ())"
  shows "(\<lambda>r. (tp_round r, tp_intra r)) ` set (transactionParticipation block) =
    (\<lambda>row. (t_round row, t_intra row)) ` set rows"
proof -
  have r: "map t_intra rows = map of_nat [0..<length rows]"
    "\<And>row. row \<in> set rows \<Longrightarrow> t_round row = bh_Round (BlockHeader block)"
    using yieldTransactions_positions [OF assms] by auto
  have "t_intra ` set rows = of_nat ` {..<length rows}"
    using r(1) by (metis atLeast0LessThan list.set_map set_upt)
  moreover have "length rows = length (block_txns (Payset block)) + (if has_payout block then 1 else 0)"
    using yieldTransactions_rows(1) [OF assms] by (simp add: block_entries_def length_entries)
  ultimately have "tp_intra ` set (transactionParticipation block) = t_intra ` set rows"
    by (simp add: participation_intras)
  then show ?thesis
    using image_fixed_fst [of "set rows" t_round "bh_Round (BlockHeader block)" t_intra, OF r(2)]
      image_fixed_fst [of "set (transactionParticipation block)" tp_round _ tp_intra,
        OF participation_round]
    by simp
qed



lemma of_nat_u64_eq_0: "k < 2 ^ 64 \<Longrightarrow> (of_nat k :: uint64) = 0 \<Longrightarrow> k = 0"
  by (metis unat_0 unat_of_nat64)

lemma number_participants_distinct:
  "length ts < 2 ^ 64 \<Longrightarrow> distinct (number_participants rnd i ts)"
proof (induction rnd i ts rule: number_participants.induct)
  case (2 rnd i root t ts)
  have "distinct (participation_rows rnd i (getTransactionParticipants t root))"
    by (simp add: participation_rows_def distinct_map participants_distinct inj_on_def)
  moreover have "tp_intra r \<noteq> i" if "r \<in> set (number_participants rnd (i + 1) ts)" for r
  proof
    assume i: "tp_intra r = i"
    from imageI [OF that, of tp_intra]
    have "tp_intra r \<in> (\<lambda>k. i + 1 + of_nat k) ` {..<length ts}"
      by (simp only: number_participants_intras)
    then obtain k where k: "k < length ts" "i = i + 1 + of_nat k" unfolding i by blast
    then have "(of_nat (Suc k) :: uint64) = 0" by (simp add: algebra_simps)
    with k(1) 2(2) of_nat_u64_eq_0 [of "Suc k"] show False by simp
  qed
  moreover have "tp_intra r = i" if "r \<in> set (participation_rows rnd i (getTransactionParticipants t root))" for r
    using that by (auto simp: participation_rows_def)
  moreover have "distinct (number_participants rnd (i + 1) ts)" using 2 by simp
  ultimately show ?case by (auto simp only: number_participants.simps distinct_append)
qed simp

lemma participation_distinct:
  assumes "length (block_txns (Payset block)) < 2 ^ 64 - 1"
  shows "distinct (transactionParticipation block) \<longleftrightarrow>
    \<not> (has_payout block \<and> FeeSink (BlockHeader block) = Proposer (BlockHeader block))"
proof -
  let ?n = "length (block_txns (Payset block))" and ?rnd = "bh_Round (BlockHeader block)"
  let ?rows = "number_participants ?rnd 0 (block_txns (Payset block))"
  have "tp_intra r \<noteq> of_nat ?n" if r: "r \<in> set ?rows" for r
  proof
    assume i: "tp_intra r = of_nat ?n"
    from imageI [OF r, of tp_intra] have "tp_intra r \<in> (\<lambda>k. 0 + of_nat k) ` {..<?n}"
      by (simp only: number_participants_intras)
    then obtain k where k: "k < ?n" "(of_nat ?n :: uint64) = of_nat k" unfolding i by auto
    then have "(of_nat (?n - k) :: uint64) = 0" by (simp add: of_nat_diff)
    moreover have "?n - k < 2 ^ 64" using assms by linarith
    ultimately have "?n - k = 0" using of_nat_u64_eq_0 by blast
    with k(1) show False by simp
  qed
  then have "\<lparr>tp_addr = a, tp_round = ?rnd, tp_intra = of_nat ?n\<rparr> \<notin> set ?rows" for a
    by fastforce
  then show ?thesis
    using number_participants_distinct [of "block_txns (Payset block)" ?rnd 0] assms
    by (auto simp: transactionParticipation_number participation_rows_def)
qed

text \<open>The participation rows of a block are distinct, as the unique index on address, round and
  offset demands, unless the block pays its proposer and the proposer is the fee sink: then the
  payout gives the same row twice.\<close>

theorem participation_rows_unique:
  assumes "length (block_txns (Payset block)) < 2 ^ 64 - 1"
  shows "distinct (transactionParticipation block) \<longleftrightarrow>
    \<not> (has_payout block \<and> FeeSink (BlockHeader block) = Proposer (BlockHeader block))"
  by (rule participation_distinct [OF assms])

theorem participation_rows_unique_witness:
  "length (block_txns (Payset example_block)) < 2 ^ 64 - 1 \<and>
   distinct (transactionParticipation example_block)"
proof -
  have "length (block_txns (Payset example_block)) < 2 ^ 64 - 1"
    by (simp add: example_block_def example_txn_defs)
  with participation_rows_unique [OF this] show ?thesis by (simp add: example_block_def)
qed

end
