(* ===== verification/WriterLaws.thy ===== *)
theory WriterLaws
  imports Writer WriteTxnLaws
begin

text \<open>
  What importing a block does to the accounting tables. Every prepared statement keeps its table's
  key and the lifecycle invariant of the schema's comments (a document is null exactly for a deleted
  object, a deleted object has a closing round, rounds are ordered); the effect of a whole block on an
  account row, on a box and on the key type of an account is given in closed form, independently of
  the iteration order of Go's maps.
\<close>

section \<open>The prepared statements as upserts\<close>

interpretation st_meta: upsert_statement ms_k "\<lambda>old ex. old\<lparr>ms_v := ms_v ex\<rparr>"
  by unfold_locales simp

interpretation st_asset: upsert_statement as_index set_upsert_asset
  by unfold_locales (simp add: set_upsert_asset_def)

interpretation st_del_asset: upsert_statement as_index set_delete_asset
  by unfold_locales (simp add: set_delete_asset_def)

interpretation st_holding: upsert_statement aa_key set_upsert_account_asset
  by unfold_locales (simp add: set_upsert_account_asset_def)

interpretation st_del_holding: upsert_statement aa_key set_delete_account_asset
  by unfold_locales (simp add: set_delete_account_asset_def)

interpretation st_app: upsert_statement app_index set_upsert_app
  by unfold_locales (simp add: set_upsert_app_def)

interpretation st_del_app: upsert_statement app_index set_delete_app
  by unfold_locales (simp add: set_delete_app_def)

interpretation st_local: upsert_statement al_key set_upsert_account_app
  by unfold_locales (simp add: set_upsert_account_app_def)

interpretation st_del_local: upsert_statement al_key set_delete_account_app
  by unfold_locales (simp add: set_delete_account_app_def)

interpretation st_account: upsert_statement acc_addr set_upsert_account
  by unfold_locales (simp add: set_upsert_account_def)

interpretation st_account_key: upsert_statement acc_addr set_upsert_account_with_keytype
  by unfold_locales (simp add: set_upsert_account_with_keytype_def)

interpretation st_del_account: upsert_statement acc_addr set_delete_account
  by unfold_locales (simp add: set_delete_account_def)

interpretation st_del_account_key: upsert_statement acc_addr set_delete_account_update_keytype
  by unfold_locales (simp add: set_delete_account_update_keytype_def)

interpretation st_box: upsert_statement box_key set_upsert_app_box
  by unfold_locales (simp add: set_upsert_app_box_def)

section \<open>Lifecycle invariant\<close>

text \<open>The life of an object at round \<open>n\<close>: it was created and closed at rounds not after \<open>n\<close>, closed
  not before it was created; when it is deleted it has been closed, and its document is null exactly
  then.\<close>

definition life_ok :: "uint64 \<Rightarrow> bool \<Rightarrow> uint64 \<Rightarrow> uint64 option \<Rightarrow> bool \<Rightarrow> bool" where
  "life_ok n deleted created closed is_null \<longleftrightarrow>
     created \<le> n \<and> (case closed of None \<Rightarrow> \<not> deleted | Some k \<Rightarrow> created \<le> k \<and> k \<le> n) \<and>
     is_null = deleted"

definition account_ok :: "'j codec \<Rightarrow> uint64 \<Rightarrow> 'j account_row \<Rightarrow> bool" where
  "account_ok c n r \<longleftrightarrow>
     life_ok n (acc_deleted r) (acc_created_at r) (acc_closed_at r) (acc_account_data r = json_null c) \<and>
     (acc_deleted r \<longrightarrow> acc_microalgos r = 0 \<and> acc_rewardsbase r = 0 \<and> acc_rewards_total r = 0)"

definition asset_ok :: "'j codec \<Rightarrow> uint64 \<Rightarrow> 'j asset_row \<Rightarrow> bool" where
  "asset_ok c n r \<longleftrightarrow>
     life_ok n (as_deleted r) (as_created_at r) (as_closed_at r) (as_params r = json_null c)"

definition holding_ok :: "uint64 \<Rightarrow> account_asset_row \<Rightarrow> bool" where
  "holding_ok n r \<longleftrightarrow>
     life_ok n (aa_deleted r) (aa_created_at r) (aa_closed_at r) (aa_deleted r) \<and>
     (aa_deleted r \<longrightarrow> aa_amount r = 0)"

definition app_ok :: "'j codec \<Rightarrow> uint64 \<Rightarrow> 'j app_row \<Rightarrow> bool" where
  "app_ok c n r \<longleftrightarrow>
     life_ok n (app_deleted r) (app_created_at r) (app_closed_at r) (app_params r = json_null c)"

definition local_ok :: "'j codec \<Rightarrow> uint64 \<Rightarrow> 'j account_app_row \<Rightarrow> bool" where
  "local_ok c n r \<longleftrightarrow>
     life_ok n (al_deleted r) (al_created_at r) (al_closed_at r) (al_localstate r = json_null c)"

definition rows_ok :: "'j codec \<Rightarrow> uint64 \<Rightarrow> 'j main_tables \<Rightarrow> bool" where
  "rows_ok c n db \<longleftrightarrow>
     list_all (account_ok c n) (tbl_account db) \<and> list_all (asset_ok c n) (tbl_asset db) \<and>
     list_all (holding_ok n) (tbl_account_asset db) \<and> list_all (app_ok c n) (tbl_app db) \<and>
     list_all (local_ok c n) (tbl_account_app db)"

definition keys_ok :: "'j main_tables \<Rightarrow> bool" where
  "keys_ok db \<longleftrightarrow>
     key_unique bhr_round (tbl_block_header db) \<and> key_unique ms_k (tbl_metastate db) \<and>
     key_unique acc_addr (tbl_account db) \<and> key_unique as_index (tbl_asset db) \<and>
     key_unique aa_key (tbl_account_asset db) \<and> key_unique app_index (tbl_app db) \<and>
     key_unique al_key (tbl_account_app db) \<and> key_unique box_key (tbl_app_box db)"

text \<open>The encoding of a struct is a JSON object, never the document null.\<close>

definition nonnull_codec :: "'j codec \<Rightarrow> bool" where
  "nonnull_codec c \<longleftrightarrow>
     (\<forall>x. enc_assetParams c x \<noteq> json_null c) \<and> (\<forall>x. enc_baseAccountData c x \<noteq> json_null c) \<and>
     (\<forall>x. enc_appLocalState c x \<noteq> json_null c) \<and> (\<forall>x. enc_appParams c x \<noteq> json_null c)"

text \<open>A statement of the import of round \<open>n\<close>: it is stamped with \<open>n\<close> and stores proper documents.\<close>

fun stmt_ok :: "'j codec \<Rightarrow> uint64 \<Rightarrow> 'j stmt \<Rightarrow> bool" where
  "stmt_ok c n (upsert_asset _ _ params rnd) = (rnd = n \<and> params \<noteq> json_null c)"
| "stmt_ok c n (upsert_account_asset _ _ _ _ rnd) = (rnd = n)"
| "stmt_ok c n (upsert_app _ _ params rnd) = (rnd = n \<and> params \<noteq> json_null c)"
| "stmt_ok c n (upsert_account_app _ _ localstate rnd) = (rnd = n \<and> localstate \<noteq> json_null c)"
| "stmt_ok c n (delete_account _ rnd) = (rnd = n)"
| "stmt_ok c n (delete_account_update_keytype _ rnd _) = (rnd = n)"
| "stmt_ok c n (upsert_account _ _ _ _ rnd account_data) = (rnd = n \<and> account_data \<noteq> json_null c)"
| "stmt_ok c n (upsert_account_with_keytype _ _ _ _ rnd _ account_data) =
     (rnd = n \<and> account_data \<noteq> json_null c)"
| "stmt_ok c n (delete_asset _ _ rnd) = (rnd = n)"
| "stmt_ok c n (delete_account_asset _ _ rnd) = (rnd = n)"
| "stmt_ok c n (delete_app _ _ rnd) = (rnd = n)"
| "stmt_ok c n (delete_account_app _ _ rnd) = (rnd = n)"
| "stmt_ok c n _ = True"

lemma exec_stmt_keys: "keys_ok db \<Longrightarrow> keys_ok (exec_stmt c s db)"
  by (cases s)
    (simp_all add: keys_ok_def upsert_metastate_def insert_or_ignore_unique st_meta.unique
      st_asset.unique st_del_asset.unique st_holding.unique st_del_holding.unique st_app.unique
      st_del_app.unique st_local.unique st_del_local.unique st_account.unique st_account_key.unique
      st_del_account.unique st_del_account_key.unique st_box.unique)

lemma list_all_upsert:
  assumes "list_all P t" "P r" "\<And>old. P old \<Longrightarrow> P (upd old r)"
  shows "list_all P (upsert pk upd r t)"
  using assms by (auto simp: upsert_def list_all_iff)

lemmas row_ok_defs = account_ok_def asset_ok_def holding_ok_def app_ok_def local_ok_def
  set_upsert_asset_def set_delete_asset_def set_upsert_account_asset_def
  set_delete_account_asset_def set_upsert_app_def set_delete_app_def set_upsert_account_app_def
  set_delete_account_app_def set_upsert_account_def set_upsert_account_with_keytype_def
  set_delete_account_def set_delete_account_update_keytype_def

lemma life_ok_new [simp]:
  "life_ok n False n None is_null \<longleftrightarrow> \<not> is_null"
  "life_ok n True n (Some n) is_null \<longleftrightarrow> is_null"
  by (auto simp: life_ok_def)

lemma life_ok_delete: "life_ok n d cr cl nul \<Longrightarrow> life_ok n True cr (Some n) True"
  by (auto simp: life_ok_def)

lemma life_ok_upsert: "life_ok n d cr cl nul \<Longrightarrow> \<not> is_null \<Longrightarrow> life_ok n False cr cl is_null"
  by (auto simp: life_ok_def split: option.splits)

lemma life_ok_later: "life_ok n d cr cl nul \<Longrightarrow> n \<le> m \<Longrightarrow> life_ok m d cr cl nul"
  by (auto simp: life_ok_def split: option.splits)

lemma exec_stmt_rows:
  assumes "rows_ok c n db" "stmt_ok c n s"
  shows "rows_ok c n (exec_stmt c s db)"
  using assms
  by (cases s)
    (auto simp: rows_ok_def upsert_metastate_def row_ok_defs
      intro!: list_all_upsert intro: life_ok_delete life_ok_upsert)


section \<open>The batch of a block\<close>

definition account_stmt :: "'j codec \<Rightarrow> uint64 \<Rightarrow> (Address \<rightharpoonup> sigTypeDelta) \<Rightarrow> BalanceRecord \<Rightarrow> 'j stmt" where
  "account_stmt c rnd sigs br = hd (writeAccount c rnd (br_Addr br) (br_AccountData br) (sigs (br_Addr br)) [])"

lemma writeAccount_append:
  "writeAccount c rnd (br_Addr br) (br_AccountData br) (sigs (br_Addr br)) batch =
     batch @ [account_stmt c rnd sigs br]"
  by (simp add: account_stmt_def writeAccount_def Let_def split: option.split)

lemma writeAssetResource_append:
  "writeAssetResource c rnd r batch = batch @ writeAssetResource c rnd r []"
  by (simp add: writeAssetResource_def Let_def split: option.split)

lemma writeAppResource_append: "writeAppResource c rnd r batch = batch @ writeAppResource c rnd r []"
  by (simp add: writeAppResource_def Let_def split: option.split)

lemma fold_queue:
  assumes "\<And>x b. f x b = b @ g x"
  shows "fold f xs b = b @ concat (map g xs)"
  using assms by (induction xs arbitrary: b) simp_all

lemma writeAccountDeltas_eq:
  "writeAccountDeltas c rnd deltas sigs batch =
     batch @ map (account_stmt c rnd sigs) (Accts deltas) @
     concat (map (\<lambda>r. writeAssetResource c rnd r []) (AssetResources deltas)) @
     concat (map (\<lambda>r. writeAppResource c rnd r []) (AppResources deltas))"
proof -
  have a: "fold (\<lambda>br. writeAccount c rnd (br_Addr br) (br_AccountData br) (sigs (br_Addr br))) xs b =
      b @ map (account_stmt c rnd sigs) xs" for xs b
    by (induction xs arbitrary: b) (simp_all add: writeAccount_append)
  show ?thesis
    unfolding writeAccountDeltas_def Let_def a
      fold_queue [where f = "writeAssetResource c rnd", OF writeAssetResource_append]
      fold_queue [where f = "writeAppResource c rnd", OF writeAppResource_append]
    by simp
qed

definition box_stmt :: "uint64 \<times> string \<Rightarrow> KvValueDelta \<Rightarrow> 'j stmt" where
  "box_stmt k v =
     (case kv_Data v of
        Some d \<Rightarrow> upsert_app_box (fst k) (snd k) d
      | None \<Rightarrow> delete_app_box (fst k) (snd k))"

text \<open>The split keys of the modifications.\<close>

definition split_mods :: "sdk \<Rightarrow> (string \<times> KvValueDelta) list \<Rightarrow> ((uint64 \<times> string) \<times> KvValueDelta) list result" where
  "split_mods env kvs =
     res_map (\<lambda>(key, v). res_bind (res_wrap ''writeBoxMods() err'' (SplitBoxKey env key)) (\<lambda>k. Inr (k, v))) kvs"

lemma writeBoxMods_eq:
  "writeBoxMods env kvs batch =
     res_bind (split_mods env kvs) (\<lambda>mods. Inr (batch @ map (\<lambda>(k, v). box_stmt k v) mods))"
proof (induction env kvs batch rule: writeBoxMods.induct)
  case (2 env key v kvs batch)
  show ?case
  proof (cases "SplitBoxKey env key")
    case (Inr k)
    obtain app name where k: "k = (app, name)" by (cases k)
    show ?thesis
      using 2 Inr k
      by (cases "split_mods env kvs"; cases "kv_Data v")
        (simp_all add: split_mods_def box_stmt_def)
  qed (simp add: split_mods_def)
qed (simp add: split_mods_def)

definition header_stmts :: "'j codec \<Rightarrow> Block \<Rightarrow> 'j stmt list" where
  "header_stmts c block = setSpecialAccounts c (special_addresses block) (addBlockHeader c (BlockHeader block) [])"

lemma Writer_AddBlock_Inr:
  "Writer_AddBlock env c outcome block delta db = Inr db' \<longleftrightarrow>
     (outcome = None \<and>
      (\<exists>sigs mods. getSigTypeDeltas env (Payset block) = Inr sigs \<and>
         split_mods env (KvMods delta) = Inr mods \<and>
         db' = fold (exec_stmt c)
           (header_stmts c block @
            map (account_stmt c (bh_Round (BlockHeader block)) sigs) (Accts (lsd_Accts delta)) @
            concat (map (\<lambda>r. writeAssetResource c (bh_Round (BlockHeader block)) r [])
              (AssetResources (lsd_Accts delta))) @
            concat (map (\<lambda>r. writeAppResource c (bh_Round (BlockHeader block)) r [])
              (AppResources (lsd_Accts delta))) @
            map (\<lambda>(k, v). box_stmt k v) mods) db))"
  by (auto simp: Writer_AddBlock_def block_batch_def send_batch_def writeAccountDeltas_eq
      writeBoxMods_eq header_stmts_def result_simps split: option.splits)

lemma header_stmts_ok: "list_all (stmt_ok c n) (header_stmts c block)"
  by (simp add: header_stmts_def setSpecialAccounts_def addBlockHeader_def)

lemma account_stmt_ok: "nonnull_codec c \<Longrightarrow> stmt_ok c n (account_stmt c n sigs br)"
  by (simp add: account_stmt_def writeAccount_def Let_def EncodeTrimmedLcAccountData_def
      nonnull_codec_def split: option.split)

lemma asset_stmts_ok: "nonnull_codec c \<Longrightarrow> list_all (stmt_ok c n) (writeAssetResource c n r [])"
  by (simp add: writeAssetResource_def Let_def EncodeAssetParams_def nonnull_codec_def
      split: option.split)

lemma app_stmts_ok: "nonnull_codec c \<Longrightarrow> list_all (stmt_ok c n) (writeAppResource c n r [])"
  by (simp add: writeAppResource_def Let_def EncodeAppParams_def EncodeAppLocalState_def
      nonnull_codec_def split: option.split)

lemma box_stmt_ok: "stmt_ok c n (box_stmt k v)"
  by (simp add: box_stmt_def split: option.split)

lemma fold_exec_rows:
  "list_all (stmt_ok c n) b \<Longrightarrow> rows_ok c n db \<Longrightarrow> rows_ok c n (fold (exec_stmt c) b db)"
  by (induction b arbitrary: db) (simp_all add: exec_stmt_rows)

lemma fold_exec_keys: "keys_ok db \<Longrightarrow> keys_ok (fold (exec_stmt c) b db)"
  by (induction b arbitrary: db) (simp_all add: exec_stmt_keys)

lemma rows_ok_later: "rows_ok c n db \<Longrightarrow> n \<le> m \<Longrightarrow> rows_ok c m db"
  by (auto simp: rows_ok_def list_all_iff row_ok_defs intro: life_ok_later)

text \<open>Distinct keys of the ledger's key-value store name distinct boxes.\<close>

definition injective_box_keys :: "sdk \<Rightarrow> bool" where
  "injective_box_keys env \<longleftrightarrow>
     (\<forall>x y b. SplitBoxKey env x = Inr b \<longrightarrow> SplitBoxKey env y = Inr b \<longrightarrow> x = y)"

section \<open>An example import\<close>

definition signed_block :: Block where
  "signed_block =
     \<lparr>BlockHeader = example_header,
      Payset = [in_block (MkSignedTxnWithAD
        (zero_SignedTxn\<lparr>Sig := replicate 64 (CHR 0x01),
           Txn := zero_Transaction\<lparr>txn_Type := PaymentTx\<rparr>\<rparr>) zero_ApplyData)]\<rparr>"

definition example_delta :: LedgerStateDelta where
  "example_delta =
     \<lparr>lsd_Accts =
        \<lparr>Accts = [\<lparr>br_Addr = zero_Address, br_AccountData = example_account\<rparr>],
         AssetResources = [\<lparr>arr_Aidx = 9, arr_Addr = zero_Address,
           arr_Params = \<lparr>apd_Params = None, apd_Deleted = True\<rparr>,
           arr_Holding = \<lparr>ahd_Holding = Some \<lparr>Amount = 3, Frozen = False\<rparr>, ahd_Deleted = False\<rparr>\<rparr>],
         AppResources = []\<rparr>,
      KvMods = [(''box'', \<lparr>kv_Data = Some ''data''\<rparr>), (''old'', \<lparr>kv_Data = None\<rparr>)]\<rparr>"

definition empty_tables :: "'j main_tables" where
  "empty_tables =
     \<lparr>tbl_block_header = [], tbl_metastate = [], tbl_account = [], tbl_asset = [],
      tbl_account_asset = [], tbl_app = [], tbl_account_app = [], tbl_app_box = []\<rparr>"

definition example_tables :: "document main_tables" where
  "example_tables =
     (case Writer_AddBlock example_sdk example_codec None signed_block example_delta empty_tables of
        Inl _ \<Rightarrow> empty_tables | Inr db \<Rightarrow> db)"

lemma example_import:
  "Writer_AddBlock example_sdk example_codec None signed_block example_delta empty_tables = Inr example_tables"
  by (simp add: example_tables_def Writer_AddBlock_def block_batch_def send_batch_def
      getSigTypeDeltas_def signed_block_def example_delta_def in_block_def SignatureType_def
      example_sdk_def zero_SignedTxn_def zero_Transaction_def zero_Header_def zero_bytes_def
      TxType_defs replicate_eq_replicate Let_def)

lemma example_hypotheses:
  "rows_ok example_codec 0 empty_tables" "keys_ok empty_tables" "nonnull_codec example_codec"
  "injective_box_keys example_sdk" "go_map (KvMods example_delta)"
  "distinct (map br_Addr (Accts (lsd_Accts example_delta)))"
  "SplitBoxKey example_sdk ''box'' = Inr (7, ''box'')"
  by (simp_all add: rows_ok_def keys_ok_def empty_tables_def key_unique_def nonnull_codec_def
      example_codec_def injective_box_keys_def example_sdk_def go_map_def example_delta_def)

text \<open>C12: importing a block keeps every table's primary key unique and keeps the lifecycle invariant of
  accounts, assets, holdings, applications and local states: a document is null exactly when the
  object is deleted, a deleted object has a closing round and zero amounts, and no object is closed
  before it was created or after the imported round.\<close>

theorem Writer_AddBlock_invariant:
  assumes "Writer_AddBlock env c outcome block delta db = Inr db'"
    and "rows_ok c n db" "keys_ok db" "n \<le> bh_Round (BlockHeader block)" "nonnull_codec c"
  shows "rows_ok c (bh_Round (BlockHeader block)) db' \<and> keys_ok db'"
proof -
  let ?n = "bh_Round (BlockHeader block)"
  note r = rows_ok_later [OF assms(2,4)]
  have "list_all (stmt_ok c ?n)
      (header_stmts c block @ map (account_stmt c ?n sigs) accts @
       concat (map (\<lambda>r. writeAssetResource c ?n r []) assets) @
       concat (map (\<lambda>r. writeAppResource c ?n r []) apps) @ map (\<lambda>(k, v). box_stmt k v) mods)"
    for sigs accts assets apps mods
    using header_stmts_ok [of c ?n block] account_stmt_ok [OF assms(5), of ?n]
      asset_stmts_ok [OF assms(5), of ?n] app_stmts_ok [OF assms(5), of ?n] box_stmt_ok [of c ?n]
    by (auto simp: list_all_iff)
  then show ?thesis
    using assms(1) r assms(3) fold_exec_rows fold_exec_keys unfolding Writer_AddBlock_Inr by metis
qed


theorem Writer_AddBlock_invariant_witness:
  "Writer_AddBlock example_sdk example_codec None signed_block example_delta empty_tables = Inr example_tables \<and>
   rows_ok example_codec (bh_Round (BlockHeader signed_block)) example_tables \<and> keys_ok example_tables"
  using Writer_AddBlock_invariant [OF example_import example_hypotheses(1,2) _ example_hypotheses(3)]
    example_import by simp

section \<open>The effect on an account\<close>

text \<open>The account row after a block that changed the account: a balance of zero deletes it, anything
  else writes its data; the creation round is the row's own or, for a new row, the imported round;
  the key type changes only when the account signed a transaction of the block.\<close>

definition account_after ::
  "'j codec \<Rightarrow> uint64 \<Rightarrow> optionalSigTypeDelta \<Rightarrow> Address \<Rightarrow> AccountData \<Rightarrow> 'j account_row option \<Rightarrow> 'j account_row"
where
  "account_after c rnd delta a ad old =
     (let gone = (MicroAlgos ad = 0) in
      \<lparr>acc_addr = a,
       acc_microalgos = MicroAlgos ad,
       acc_rewardsbase = (if gone then 0 else RewardsBase ad),
       acc_rewards_total = (if gone then 0 else RewardedMicroAlgos ad),
       acc_deleted = gone,
       acc_created_at = (case old of None \<Rightarrow> rnd | Some r \<Rightarrow> acc_created_at r),
       acc_closed_at =
         (if gone then Some rnd else case old of None \<Rightarrow> None | Some r \<Rightarrow> acc_closed_at r),
       acc_keytype =
         (case delta of
            Some d \<Rightarrow> sigtypeFunc d
          | None \<Rightarrow> (case old of None \<Rightarrow> None | Some r \<Rightarrow> acc_keytype r)),
       acc_account_data =
         (if gone then json_null c else EncodeTrimmedLcAccountData c (TrimLcAccountData ad))\<rparr>)"

lemma lookup_account_stmt:
  "lookup_row acc_addr a (tbl_account (exec_stmt c (account_stmt c rnd sigs br) db)) =
     (if a = br_Addr br then
        Some (account_after c rnd (sigs a) a (br_AccountData br) (lookup_row acc_addr a (tbl_account db)))
      else lookup_row acc_addr a (tbl_account db))"
proof -
  have "acc_addr r = a" if "lookup_row acc_addr a (tbl_account db) = Some r" for r
    using lookup_row_Some [OF that] by simp
  then show ?thesis
    by (auto simp: account_stmt_def writeAccount_def account_after_def Let_def
        st_account.lookup_upsert st_account_key.lookup_upsert st_del_account.lookup_upsert
        st_del_account_key.lookup_upsert set_upsert_account_def set_delete_account_def
        set_upsert_account_with_keytype_def set_delete_account_update_keytype_def
        split: option.splits)
qed

fun touches_account :: "'j stmt \<Rightarrow> bool" where
  "touches_account (delete_account _ _) = True"
| "touches_account (delete_account_update_keytype _ _ _) = True"
| "touches_account (upsert_account _ _ _ _ _ _) = True"
| "touches_account (upsert_account_with_keytype _ _ _ _ _ _ _) = True"
| "touches_account _ = False"

fun touches_box :: "'j stmt \<Rightarrow> bool" where
  "touches_box (upsert_app_box _ _ _) = True"
| "touches_box (delete_app_box _ _) = True"
| "touches_box _ = False"

lemma fold_exec_untouched:
  "list_all (\<lambda>s. \<not> touches_account s) b \<Longrightarrow> tbl_account (fold (exec_stmt c) b db) = tbl_account db"
  "list_all (\<lambda>s. \<not> touches_box s) b \<Longrightarrow> tbl_app_box (fold (exec_stmt c) b db) = tbl_app_box db"
proof -
  have a: "\<not> touches_account s \<Longrightarrow> tbl_account (exec_stmt c s db) = tbl_account db" for s db
    by (cases s) (simp_all add: upsert_metastate_def)
  have b: "\<not> touches_box s \<Longrightarrow> tbl_app_box (exec_stmt c s db) = tbl_app_box db" for s db
    by (cases s) (simp_all add: upsert_metastate_def)
  show "list_all (\<lambda>s. \<not> touches_account s) b \<Longrightarrow> tbl_account (fold (exec_stmt c) b db) = tbl_account db"
    by (induction b arbitrary: db) (simp_all add: a)
  show "list_all (\<lambda>s. \<not> touches_box s) b \<Longrightarrow> tbl_app_box (fold (exec_stmt c) b db) = tbl_app_box db"
    by (induction b arbitrary: db) (simp_all add: b)
qed

lemma stmts_touch:
  "list_all (\<lambda>s. \<not> touches_account s \<and> \<not> touches_box s) (header_stmts c block)"
  "list_all (\<lambda>s. \<not> touches_account s \<and> \<not> touches_box s) (writeAssetResource c n ar [])"
  "list_all (\<lambda>s. \<not> touches_account s \<and> \<not> touches_box s) (writeAppResource c n pr [])"
  "\<not> touches_account (box_stmt k v)"
  "\<not> touches_box (account_stmt c n sigs br)"
  by (simp_all add: header_stmts_def setSpecialAccounts_def addBlockHeader_def
      writeAssetResource_def writeAppResource_def Let_def box_stmt_def account_stmt_def
      writeAccount_def split: option.split)

lemma lookup_accounts:
  assumes "distinct (map br_Addr accts)"
  shows "lookup_row acc_addr a
      (tbl_account (fold (exec_stmt c) (map (account_stmt c rnd sigs) accts) db)) =
    (case find (\<lambda>br. br_Addr br = a) accts of
       None \<Rightarrow> lookup_row acc_addr a (tbl_account db)
     | Some br \<Rightarrow> Some (account_after c rnd (sigs a) a (br_AccountData br)
         (lookup_row acc_addr a (tbl_account db))))"
  using assms
proof (induction accts arbitrary: db)
  case (Cons br accts)
  show ?case
  proof (cases "br_Addr br = a")
    case True
    with Cons.prems have "\<not> (\<exists>x. x \<in> set accts \<and> br_Addr x = a)"
      by (metis distinct.simps(2) image_eqI list.set_map list.simps(9))
    then have "find (\<lambda>br. br_Addr br = a) accts = None" by (simp add: find_None_iff)
    with True Cons show ?thesis by (simp add: lookup_account_stmt)
  next
    case False
    with Cons show ?thesis by (simp add: lookup_account_stmt split: option.split)
  qed
qed simp

text \<open>C9: importing a block gives every account of the state delta exactly the row its new data
  determine, and leaves every other account row unchanged. The ledger lists an account once.\<close>

theorem Writer_AddBlock_accounts:
  assumes "Writer_AddBlock env c outcome block delta db = Inr db'"
    and "distinct (map br_Addr (Accts (lsd_Accts delta)))"
  shows "\<exists>sigs. getSigTypeDeltas env (Payset block) = Inr sigs \<and>
    lookup_row acc_addr a (tbl_account db') =
      (case find (\<lambda>br. br_Addr br = a) (Accts (lsd_Accts delta)) of
         None \<Rightarrow> lookup_row acc_addr a (tbl_account db)
       | Some br \<Rightarrow> Some (account_after c (bh_Round (BlockHeader block)) (sigs a) a (br_AccountData br)
           (lookup_row acc_addr a (tbl_account db))))"
proof -
  let ?n = "bh_Round (BlockHeader block)"
  let ?assets = "concat (map (\<lambda>r. writeAssetResource c ?n r []) (AssetResources (lsd_Accts delta)))"
  let ?apps = "concat (map (\<lambda>r. writeAppResource c ?n r []) (AppResources (lsd_Accts delta)))"
  from assms(1) obtain sigs mods where s: "getSigTypeDeltas env (Payset block) = Inr sigs"
    and db': "db' = fold (exec_stmt c)
       (header_stmts c block @ map (account_stmt c ?n sigs) (Accts (lsd_Accts delta)) @
        ?assets @ ?apps @ map (\<lambda>(k, v). box_stmt k v) mods) db"
    unfolding Writer_AddBlock_Inr by blast
  have "list_all (\<lambda>s. \<not> touches_account s) (?assets @ ?apps @ map (\<lambda>(k, v). box_stmt k v) mods)"
    and h: "list_all (\<lambda>s. \<not> touches_account s) (header_stmts c block)"
    using stmts_touch by (fastforce simp: list_all_iff)+
  from fold_exec_untouched(1) [OF this(1), of c]
  have "tbl_account db' = tbl_account (fold (exec_stmt c)
      (map (account_stmt c ?n sigs) (Accts (lsd_Accts delta))) (fold (exec_stmt c) (header_stmts c block) db))"
    unfolding db' by simp
  then show ?thesis
    using s lookup_accounts [OF assms(2), of a c ?n sigs "fold (exec_stmt c) (header_stmts c block) db",
        unfolded fold_exec_untouched(1) [OF h, of c db]] by auto
qed

theorem Writer_AddBlock_accounts_witness:
  "\<exists>sigs. getSigTypeDeltas example_sdk (Payset signed_block) = Inr sigs \<and>
    lookup_row acc_addr zero_Address (tbl_account example_tables) =
      Some (account_after example_codec 5 (sigs zero_Address) zero_Address example_account None)"
  using Writer_AddBlock_accounts [OF example_import example_hypotheses(6), of zero_Address]
  by (simp add: example_delta_def empty_tables_def signed_block_def example_header_def)

section \<open>The effect on boxes\<close>

lemma lookup_box_stmt:
  "lookup_row box_key k (tbl_app_box (exec_stmt c (box_stmt k' v) db)) =
     (if k = k' then map_option (\<lambda>d. \<lparr>box_app = fst k, box_name = snd k, box_value = d\<rparr>) (kv_Data v)
      else lookup_row box_key k (tbl_app_box db))"
proof (cases "kv_Data v")
  case None
  have "(\<lambda>r. box_app r = fst k' \<and> box_name r = snd k') = (\<lambda>r. box_key r = k')"
    by (simp add: fun_eq_iff prod_eq_iff)
  then show ?thesis using None by (simp add: box_stmt_def lookup_row_delete_key)
next
  case (Some d)
  let ?new = "\<lparr>box_app = fst k', box_name = snd k', box_value = d\<rparr>"
  have "set_upsert_app_box r ?new = ?new" if "lookup_row box_key k' (tbl_app_box db) = Some r" for r
    using lookup_row_Some [OF that] by (auto simp: set_upsert_app_box_def)
  then have "(case lookup_row box_key k' (tbl_app_box db) of None \<Rightarrow> ?new
      | Some old \<Rightarrow> set_upsert_app_box old ?new) = ?new"
    by (cases "lookup_row box_key k' (tbl_app_box db)") simp_all
  then show ?thesis using Some by (simp add: box_stmt_def st_box.lookup_upsert)
qed

lemma lookup_boxes:
  assumes "distinct (map fst mods)"
  shows "lookup_row box_key k (tbl_app_box (fold (exec_stmt c) (map (\<lambda>(k, v). box_stmt k v) mods) db)) =
    (case map_of mods k of
       None \<Rightarrow> lookup_row box_key k (tbl_app_box db)
     | Some v \<Rightarrow> map_option (\<lambda>d. \<lparr>box_app = fst k, box_name = snd k, box_value = d\<rparr>) (kv_Data v))"
  using assms
proof (induction mods arbitrary: db)
  case (Cons m mods)
  obtain k' v where m: "m = (k', v)" by (cases m)
  show ?case
  proof (cases "k = k'")
    case True
    with Cons.prems m have "map_of mods k = None" by (simp add: map_of_eq_None_iff)
    with True Cons m show ?thesis by (simp add: lookup_box_stmt)
  next
    case False
    with Cons m show ?thesis by (simp add: lookup_box_stmt split: option.split)
  qed
qed simp

lemma split_mods_Inr:
  "split_mods env kvs = Inr mods \<Longrightarrow>
     list_all2 (\<lambda>(key, v) (k, v'). SplitBoxKey env key = Inr k \<and> v = v') kvs mods"
  unfolding split_mods_def res_map_Inr_iff
  by (erule list_all2_mono) (auto simp: result_simps)

lemma split_mods_distinct:
  assumes "list_all2 (\<lambda>(key, v) (k, v'). SplitBoxKey env key = Inr k \<and> v = v') kvs mods"
    and "injective_box_keys env" "go_map kvs"
  shows "distinct (map fst mods)"
  using assms(1,3)
proof (induction rule: list_all2_induct)
  case (Cons x xs y ys)
  have "fst y \<notin> fst ` set ys"
  proof
    assume "fst y \<in> fst ` set ys"
    then obtain j where j: "j < length ys" "fst (ys ! j) = fst y" by (auto simp: in_set_conv_nth)
    from list_all2_nthD2 [OF Cons(2) j(1)] Cons(1) j(2)
    have "SplitBoxKey env (fst (xs ! j)) = Inr (fst y)" "SplitBoxKey env (fst x) = Inr (fst y)"
      by (auto split: prod.splits)
    with assms(2) have "fst (xs ! j) = fst x" unfolding injective_box_keys_def by blast
    moreover have "j < length xs" using list_all2_lengthD [OF Cons(2)] j(1) by simp
    ultimately have "fst x \<in> fst ` set xs" by (metis image_eqI nth_mem)
    with Cons(4) show False by (simp add: go_map_def)
  qed
  with Cons show ?case by (simp add: go_map_def)
qed simp

lemma map_of_split_mods:
  assumes "list_all2 (\<lambda>(key, v) (k, v'). SplitBoxKey env key = Inr k \<and> v = v') kvs mods"
    and "injective_box_keys env" "SplitBoxKey env key = Inr k"
  shows "map_of mods k = map_of kvs key"
  using assms(1)
proof (induction rule: list_all2_induct)
  case (Cons x xs y ys)
  then have "fst y = k \<longleftrightarrow> fst x = key"
    using assms(2,3) by (auto simp: injective_box_keys_def split: prod.splits)
  with Cons show ?case by (cases x; cases y) auto
qed simp

text \<open>C16: importing a block stores for every modified box key exactly the modified value, or removes
  the box when the value is nil, whatever order the map of modifications is iterated in.\<close>

theorem Writer_AddBlock_boxes:
  assumes "Writer_AddBlock env c outcome block delta db = Inr db'"
    and "go_map (KvMods delta)" "injective_box_keys env" "SplitBoxKey env key = Inr (app, name)"
  shows "lookup_row box_key (app, name) (tbl_app_box db') =
    (case map_of (KvMods delta) key of
       None \<Rightarrow> lookup_row box_key (app, name) (tbl_app_box db)
     | Some v \<Rightarrow> map_option (\<lambda>d. \<lparr>box_app = app, box_name = name, box_value = d\<rparr>) (kv_Data v))"
proof -
  let ?n = "bh_Round (BlockHeader block)"
  let ?assets = "concat (map (\<lambda>r. writeAssetResource c ?n r []) (AssetResources (lsd_Accts delta)))"
  let ?apps = "concat (map (\<lambda>r. writeAppResource c ?n r []) (AppResources (lsd_Accts delta)))"
  from assms(1) obtain sigs mods where m: "split_mods env (KvMods delta) = Inr mods"
    and db': "db' = fold (exec_stmt c)
       (header_stmts c block @ map (account_stmt c ?n sigs) (Accts (lsd_Accts delta)) @
        ?assets @ ?apps @ map (\<lambda>(k, v). box_stmt k v) mods) db"
    unfolding Writer_AddBlock_Inr by blast
  let ?pre = "header_stmts c block @ map (account_stmt c ?n sigs) (Accts (lsd_Accts delta)) @ ?assets @ ?apps"
  have "list_all (\<lambda>s. \<not> touches_box s) ?pre" using stmts_touch by (fastforce simp: list_all_iff)
  then have pre: "tbl_app_box (fold (exec_stmt c) ?pre db) = tbl_app_box db"
    by (rule fold_exec_untouched(2))
  note l = split_mods_Inr [OF m]
  show ?thesis
    using lookup_boxes [OF split_mods_distinct [OF l assms(3,2)], of "(app, name)" c
        "fold (exec_stmt c) ?pre db", unfolded pre fst_conv snd_conv] map_of_split_mods [OF l assms(3,4)]
    unfolding db' by (simp add: case_prod_unfold)
qed


theorem Writer_AddBlock_boxes_witness:
  "lookup_row box_key (7, ''box'') (tbl_app_box example_tables) =
     Some \<lparr>box_app = 7, box_name = ''box'', box_value = ''data''\<rparr>"
  using Writer_AddBlock_boxes [OF example_import example_hypotheses(5,4,7)]
  by (simp add: example_delta_def)

section \<open>Key types\<close>

text \<open>The key type change of an account: decided by the last transaction of the block it sent. A
  rekeying transaction and a state proof make the key type unknown.\<close>

definition stib_st :: "SignedTxnInBlock \<Rightarrow> SignedTxn" where
  "stib_st stib = SignedTxn (stib_SignedTxnWithAD stib)"

definition signs_as :: "sdk \<Rightarrow> SignedTxn \<Rightarrow> sigTypeDelta" where
  "signs_as env st =
     (if RekeyTo (Header (Txn st)) = zero_Address \<and> txn_Type (Txn st) \<noteq> StateProofTx then
        (case SignatureType env st of
           Inr t \<Rightarrow> \<lparr>std_present = True, std_value = t\<rparr> | Inl _ \<Rightarrow> zero_sigTypeDelta)
      else zero_sigTypeDelta)"

definition sent_by :: "Address \<Rightarrow> SignedTxnInBlock list \<Rightarrow> SignedTxn list" where
  "sent_by a payset = filter (\<lambda>st. Sender (Header (Txn st)) = a) (map stib_st payset)"

lemma sigTypeDeltas_loop_spec:
  "sigTypeDeltas_loop env payset res = Inr m \<Longrightarrow>
     m a = (if sent_by a payset = [] then res a else Some (signs_as env (last (sent_by a payset))))"
proof (induction payset arbitrary: res)
  case (Cons stib payset)
  let ?st = "SignedTxn (stib_SignedTxnWithAD stib)"
  have "sigTypeDeltas_loop env payset (res(Sender (Header (Txn ?st)) \<mapsto> signs_as env ?st)) = Inr m"
    using Cons.prems by (auto simp: Let_def signs_as_def result_simps split: if_splits)
  from Cons.IH [OF this] show ?case by (auto simp: sent_by_def stib_st_def)
qed (simp add: sent_by_def)

text \<open>The key type change computed for an account is the one of the last transaction it sent in
  the block, and no change is computed for an account that sent none; the computation fails only
  when some transaction that is neither a rekeying nor a state proof carries no signature.\<close>

theorem getSigTypeDeltas_last:
  "case getSigTypeDeltas env payset of
     Inr m \<Rightarrow> m a = (if sent_by a payset = [] then None else Some (signs_as env (last (sent_by a payset))))
   | Inl _ \<Rightarrow> (\<exists>stib \<in> set payset. RekeyTo (Header (Txn (stib_st stib))) = zero_Address \<and>
       txn_Type (Txn (stib_st stib)) \<noteq> StateProofTx \<and> (\<exists>e. SignatureType env (stib_st stib) = Inl e))"
proof -
  have "sigTypeDeltas_loop env payset res = Inl e \<Longrightarrow>
      \<exists>stib \<in> set payset. RekeyTo (Header (Txn (stib_st stib))) = zero_Address \<and>
        txn_Type (Txn (stib_st stib)) \<noteq> StateProofTx \<and> (\<exists>e. SignatureType env (stib_st stib) = Inl e)"
    for res e
    by (induction payset arbitrary: res)
      (auto simp: Let_def stib_st_def result_simps split: if_splits)
  then show ?thesis
    by (auto simp: getSigTypeDeltas_def sigTypeDeltas_loop_spec split: sum.split)
qed

end
