(* ===== verification/ImportLaws.thy ===== *)
theory ImportLaws
  imports IndexerDb WriterLaws
begin

text \<open>
  Correctness of the import: the retry loop runs its body at most once with effect and returns as
  soon as an attempt does not fail to serialize; a block is added only at the next round and advances
  the round counter by one; and, through errors, retries, unknown commits and crashes, the transaction
  tables are never behind the accounting state and at most one block ahead of it.
\<close>

section \<open>The retry loop\<close>

text \<open>What the server promises about errors: a transaction that failed to serialize was not
  committed, and beginning or committing a transaction does not report a unique violation (the
  schema has no deferred constraints).\<close>

definition honest_tx :: "tx_env \<Rightarrow> bool" where
  "honest_tx e \<longleftrightarrow>
     (case commit_err e of
        None \<Rightarrow> True
      | Some (err, applied) \<Rightarrow> (isSerializationError err \<longrightarrow> \<not> applied) \<and> \<not> isUniqueViolation err) \<and>
     (case begin_err e of None \<Rightarrow> True | Some err \<Rightarrow> \<not> isUniqueViolation err)"

lemma isSerializationError_Wrap [simp]: "isSerializationError (Wrap m e) = isSerializationError e"
  by (simp add: isSerializationError_def)

lemma isUniqueViolation_Wrap [simp]: "isUniqueViolation (Wrap m e) = isUniqueViolation e"
  by (simp add: isUniqueViolation_def)

text \<open>The possible outcomes of the loop on a transaction state \<open>s\<close> when the body keeps the outside
  state in \<open>I\<close>: success means that one attempt's effect was committed; an error means that nothing
  was, or that the effect of one attempt was although the commit reported the error; a unique
  violation comes from the body and leaves \<open>s\<close> unchanged.\<close>

definition retry_outcome ::
  "('t \<Rightarrow> bool) \<Rightarrow> (nat \<Rightarrow> 's \<Rightarrow> 't \<Rightarrow> ('s result \<times> 't) option) \<Rightarrow> 's \<Rightarrow> unit result \<times> 's \<times> 't \<Rightarrow> bool" where
  "retry_outcome I f s y \<longleftrightarrow>
     (case y of (r, s', t') \<Rightarrow> I t' \<and>
        (case r of
           Inr _ \<Rightarrow> \<exists>m t1. I t1 \<and> f m s t1 = Some (Inr s', t')
         | Inl e \<Rightarrow>
             (s' = s \<or> (\<exists>m t1. I t1 \<and> f m s t1 = Some (Inr s', t'))) \<and>
             (isUniqueViolation e \<longrightarrow>
                s' = s \<and> (\<exists>m t1 e'. I t1 \<and> f m s t1 = Some (Inl e', t') \<and> isUniqueViolation e'))))"

lemma attempt_outcome:
  assumes "honest_tx e" "f n s t = Some (out, t2)" "I t" "I t2"
  shows "case attemptTx e out s of
      (Inl err, s1) \<Rightarrow>
        if isSerializationError err then s1 = s else retry_outcome I f s (Inl (Wrap m err), s1, t2)
    | (Inr u, s1) \<Rightarrow> retry_outcome I f s (Inr u, s1, t2)"
  using assms
  by (cases out; cases "commit_err e")
    (auto simp: attemptTx_def retry_outcome_def honest_tx_def split: option.splits)

lemma TxWithRetry_outcome:
  assumes "TxWithRetry env f n s t = Some y"
    and "\<forall>n. honest_tx (env n)" "I t" "\<forall>n t out t2. I t \<longrightarrow> f n s t = Some (out, t2) \<longrightarrow> I t2"
  shows "retry_outcome I f s y"
proof -
  let ?pre = "\<lambda>env f s t. (\<forall>n. honest_tx (env n)) \<and> I t \<and>
    (\<forall>n t out t2. I t \<longrightarrow> f n s t = Some (out, t2) \<longrightarrow> I t2)"
  have "?pre env f s t \<longrightarrow> retry_outcome I f s y"
  proof (rule TxWithRetry.raw_induct
      [of "\<lambda>env f n s t y. ?pre env f s t \<longrightarrow> retry_outcome I f s y", OF _ assms(1)], rule impI)
    fix rec env f n s t y
    assume IH: "\<And>env f n s t y. rec env f n s t = Some y \<Longrightarrow> ?pre env f s t \<longrightarrow> retry_outcome I f s y"
      and body: "(case begin_err (env n) of
        None \<Rightarrow> Option.bind (f n s t) (\<lambda>p. let a = attemptTx (env n) (fst p) s in
          case fst a of
            Inl e \<Rightarrow> if isSerializationError e then rec env f (Suc n) (snd a) (snd p)
                     else Some (Inl (Wrap ''TxWithRetry() err'' e), snd a, snd p)
          | Inr u \<Rightarrow> Some (Inr u, snd a, snd p))
      | Some e \<Rightarrow> Some (Inl (Wrap ''TxWithRetry() begin tx err'' e), s, t)) = Some y"
      and pre: "?pre env f s t"
    show "retry_outcome I f s y"
    proof (cases "begin_err (env n)")
      case (Some e)
      moreover from pre have "honest_tx (env n)" "I t" by blast+
      ultimately show ?thesis
        using body by (auto simp: retry_outcome_def honest_tx_def)
    next
      case None
      with body obtain out t2 where f: "f n s t = Some (out, t2)" by (auto simp: bind_eq_Some_conv)
      have h: "honest_tx (env n)" "I t" "I t2" using pre f by blast+
      obtain r s1 where a: "attemptTx (env n) out s = (r, s1)" by fastforce
      note o = attempt_outcome [where I = I and f = f and m = "''TxWithRetry() err''", OF h(1) f h(2,3)]
      show ?thesis
        using body None f a o IH [of env f "Suc n" s t2 y] pre h(3)
        by (cases r) (auto split: if_splits)
    qed
  qed
  with assms show ?thesis by blast
qed

text \<open>C37: a database transaction that succeeds has run its body exactly once with effect, on the state
  it found; when it fails, the state is unchanged, unless the failure was a commit whose fate is
  unknown, and then it is the body's result.\<close>

theorem TxWithRetry_atomic:
  assumes "TxWithRetry env (simple_body f) 0 s () = Some (r, s', u)" "\<forall>n. honest_tx (env n)"
  shows "case r of Inr _ \<Rightarrow> f s = Inr s' | Inl _ \<Rightarrow> s' = s \<or> f s = Inr s'"
  using TxWithRetry_outcome [where I = "\<lambda>_. True", OF assms(1,2)]
  by (auto simp: retry_outcome_def simple_body_def split: sum.splits)

definition quiet_tx :: tx_env where
  "quiet_tx = \<lparr>begin_err = None, commit_err = None\<rparr>"

definition conflict_tx :: tx_env where
  "conflict_tx = \<lparr>begin_err = None, commit_err = Some (PgSerializationFailure, False)\<rparr>"

text \<open>Two conflicting attempts, then a quiet server.\<close>

definition example_tx_env :: "nat \<Rightarrow> tx_env" where
  "example_tx_env n = (if n < 2 then conflict_tx else quiet_tx)"

lemma honest_example_tx_env: "\<forall>n. honest_tx (example_tx_env n)"
  by (simp add: honest_tx_def example_tx_env_def quiet_tx_def conflict_tx_def isUniqueViolation_def
      errors_Is_def)

lemma example_retry:
  "TxWithRetry example_tx_env (simple_body (\<lambda>x :: nat. Inr (x + 1))) 0 5 () = Some (Inr (), 6, ())"
  by (simp add: TxWithRetry.simps simple_body_def attemptTx_def example_tx_env_def conflict_tx_def
      quiet_tx_def isSerializationError_def errors_Is_def numeral_2_eq_2)

theorem TxWithRetry_atomic_witness:
  "TxWithRetry example_tx_env (simple_body (\<lambda>x :: nat. Inr (x + 1))) 0 5 () = Some (Inr (), 6, ()) \<and>
   (Inr (5 + 1) :: nat result) = Inr 6"
  using TxWithRetry_atomic [OF example_retry honest_example_tx_env] example_retry by simp

text \<open>An attempt that ends the loop: it cannot begin, or it ends without a serialization error.\<close>

definition final_attempt :: "tx_env \<Rightarrow> 's result \<Rightarrow> bool" where
  "final_attempt e out \<longleftrightarrow>
     begin_err e \<noteq> None \<or>
     (case out of
        Inl err \<Rightarrow> \<not> isSerializationError err
      | Inr _ \<Rightarrow> (case commit_err e of None \<Rightarrow> True | Some (err, _) \<Rightarrow> \<not> isSerializationError err))"

lemma TxWithRetry_simple_step:
  assumes "honest_tx (env n)"
  shows "final_attempt (env n) (f s) \<Longrightarrow> \<exists>y. TxWithRetry env (simple_body f) n s () = Some y"
    and "\<not> final_attempt (env n) (f s) \<Longrightarrow>
      TxWithRetry env (simple_body f) n s () = TxWithRetry env (simple_body f) (Suc n) s ()"
  using assms
  by (subst TxWithRetry.simps;
      auto simp: final_attempt_def simple_body_def attemptTx_def honest_tx_def
      split: option.splits sum.splits)+




section \<open>Metastate\<close>

lemma GetMetastate_Set:
  "GetMetastate (SetMetastate k v db) k' = (if k' = k then Inr v else GetMetastate db k')"
  by (simp add: GetMetastate_def SetMetastate_def upsert_metastate_def st_meta.lookup_upsert
      split: option.split)

text \<open>The metastate documents survive storage.\<close>

definition metastate_codec :: "'j codec \<Rightarrow> bool" where
  "metastate_codec c \<longleftrightarrow>
     (\<forall>x. dec_ImportState c (enc_ImportState c x) = Inr x) \<and>
     (\<forall>x. dec_NetworkState c (enc_NetworkState c x) = Inr x) \<and>
     (\<forall>x. dec_SpecialAddresses c (enc_SpecialAddresses c x) = Inr x)"

lemma getImportState_set:
  "metastate_codec c \<Longrightarrow> getImportState c (setImportState c st db) = Inr st"
  by (simp add: getImportState_def setImportState_def GetMetastate_Set DecodeImportState_def
      EncodeImportState_def metastate_codec_def)

lemma GetMetastate_fold_exec:
  "k \<noteq> SpecialAccountsMetastateKey \<Longrightarrow> GetMetastate (fold (exec_stmt c) b db) k = GetMetastate db k"
proof (induction b arbitrary: db)
  case (Cons s b)
  then have "GetMetastate (exec_stmt c s db) k = GetMetastate db k"
    by (cases s) (simp_all add: GetMetastate_def upsert_metastate_def st_meta.lookup_upsert)
  with Cons show ?case by simp
qed simp

lemma getImportState_writer:
  assumes "Writer_AddBlock env c e block delta db = Inr db' \<or> Writer_AddBlock0 c e block db = Inr db'"
  shows "getImportState c db' = getImportState c db"
proof -
  have k: "StateMetastateKey \<noteq> SpecialAccountsMetastateKey" by (simp add: metastate_key_defs)
  from assms have "\<exists>b. db' = fold (exec_stmt c) b db"
  proof
    assume "Writer_AddBlock0 c e block db = Inr db'"
    then show ?thesis
      by (cases e) (auto simp: Writer_AddBlock0_def send_batch_def simp del: fold_simps)
  qed (use Writer_AddBlock_Inr in blast)
  then obtain b where "db' = fold (exec_stmt c) b db" by blast
  then show ?thesis by (simp add: getImportState_def GetMetastate_fold_exec [OF k])
qed

section \<open>The transaction tables after a number of blocks\<close>

definition txn_rows :: "sdk \<Rightarrow> 'j codec \<Rightarrow> Block \<Rightarrow> 'j txn_row list" where
  "txn_rows env c b = fst (yieldTransactions env c b (Payset b))"

primrec txns_upto :: "sdk \<Rightarrow> 'j codec \<Rightarrow> (uint64 \<Rightarrow> ValidatedBlock) \<Rightarrow> nat \<Rightarrow> 'j txn_tables" where
  "txns_upto env c chain 0 = \<lparr>tbl_txn = [], tbl_txn_participation = []\<rparr>"
| "txns_upto env c chain (Suc k) =
     (let b = vb_Block (chain (of_nat (Suc k))); t = txns_upto env c chain k in
      \<lparr>tbl_txn = tbl_txn t @ txn_rows env c b,
       tbl_txn_participation = tbl_txn_participation t @ transactionParticipation b\<rparr>)"

text \<open>A chain of blocks that can be imported: block \<open>r\<close> has round \<open>r\<close>, its rows can be produced, their
  number fits the offset, and no block pays its fee sink as the proposer.\<close>

definition importable :: "sdk \<Rightarrow> 'j codec \<Rightarrow> (uint64 \<Rightarrow> ValidatedBlock) \<Rightarrow> bool" where
  "importable env c chain \<longleftrightarrow>
     (\<forall>r. let b = vb_Block (chain r) in
        bh_Round (BlockHeader b) = r \<and> snd (yieldTransactions env c b (Payset b)) = Inr () \<and>
        length (block_txns (Payset b)) < 2 ^ 64 - 1 \<and>
        \<not> (has_payout b \<and> FeeSink (BlockHeader b) = Proposer (BlockHeader b)))"

lemma importable_block:
  assumes "importable env c chain"
  shows "yieldTransactions env c (vb_Block (chain r)) (Payset (vb_Block (chain r))) =
      (txn_rows env c (vb_Block (chain r)), Inr ())"
    and "bh_Round (BlockHeader (vb_Block (chain r))) = r"
    and "length (txn_rows env c (vb_Block (chain r))) < 2 ^ 64"
    and "distinct (transactionParticipation (vb_Block (chain r)))"
proof -
  let ?b = "vb_Block (chain r)"
  from assms have a: "snd (yieldTransactions env c ?b (Payset ?b)) = Inr ()"
    "bh_Round (BlockHeader ?b) = r" "length (block_txns (Payset ?b)) < 2 ^ 64 - 1"
    "\<not> (has_payout ?b \<and> FeeSink (BlockHeader ?b) = Proposer (BlockHeader ?b))"
    unfolding importable_def Let_def by blast+
  show y: "yieldTransactions env c ?b (Payset ?b) = (txn_rows env c ?b, Inr ())"
    using a(1) by (simp add: txn_rows_def prod_eq_iff)
  show "bh_Round (BlockHeader ?b) = r" by (rule a(2))
  have "length (txn_rows env c ?b) = length (block_txns (Payset ?b)) + (if has_payout ?b then 1 else 0)"
    using yieldTransactions_rows(1) [OF y] by (simp add: block_entries_def length_entries)
  then show "length (txn_rows env c ?b) < 2 ^ 64" using a(3) by simp
  show "distinct (transactionParticipation ?b)" using participation_distinct [OF a(3)] a(4) by blast
qed

lemma txn_rows_keys:
  assumes "importable env c chain"
  shows "distinct (map txn_key (txn_rows env c (vb_Block (chain r))))"
    and "\<forall>row \<in> set (txn_rows env c (vb_Block (chain r))). t_round row = r"
proof -
  note y = importable_block [OF assms]
  let ?rows = "txn_rows env c (vb_Block (chain r))"
  have "inj_on (of_nat :: nat \<Rightarrow> uint64) {0..<length ?rows}"
    using y(3) [of r] by (intro inj_on_subset [OF inj_of_nat64]) auto
  then have "distinct (map t_intra ?rows)"
    using yieldTransactions_positions(1) [OF y(1)] by (simp add: distinct_map)
  then show "distinct (map txn_key ?rows)"
    using distinct_map [of snd "map txn_key ?rows"] by (simp add: comp_def)
  show "\<forall>row \<in> set ?rows. t_round row = r" using yieldTransactions_positions(2) [OF y(1)] y(2) by simp
qed

lemma txns_upto_rounds:
  assumes "importable env c chain"
  shows "row \<in> set (tbl_txn (txns_upto env c chain k)) \<Longrightarrow> \<exists>j \<le> k. t_round row = of_nat j"
    and "p \<in> set (tbl_txn_participation (txns_upto env c chain k)) \<Longrightarrow> \<exists>j \<le> k. tp_round p = of_nat j"
proof -
  note r = txn_rows_keys(2) [OF assms] and b = importable_block(2) [OF assms]
  show "row \<in> set (tbl_txn (txns_upto env c chain k)) \<Longrightarrow> \<exists>j \<le> k. t_round row = of_nat j"
    by (induction k) (use r le_Suc_eq in \<open>auto simp: Let_def simp del: of_nat_Suc\<close>)
  show "p \<in> set (tbl_txn_participation (txns_upto env c chain k)) \<Longrightarrow> \<exists>j \<le> k. tp_round p = of_nat j"
    by (induction k) (use b participation_round le_Suc_eq in \<open>auto simp: Let_def simp del: of_nat_Suc\<close>)
qed


section \<open>The nested transaction\<close>

lemma add_txns_fresh:
  assumes "importable env c chain" "Suc k < 2 ^ 64"
  shows "add_txns_body env c (vb_Block (chain (of_nat (Suc k)))) (txns_upto env c chain k) =
    Inr (txns_upto env c chain (Suc k))"
proof -
  let ?b = "vb_Block (chain (of_nat (Suc k)))"
  note y = importable_block [OF assms(1), of "of_nat (Suc k)"]
  note keys = txn_rows_keys [OF assms(1), of "of_nat (Suc k)"]
  have new: "(of_nat j :: uint64) \<noteq> of_nat (Suc k)" if "j \<le> k" for j
    using of_nat64_eq [of j "Suc k"] that assms(2) by force
  have t: "txn_key ` set (txn_rows env c ?b) \<inter> txn_key ` set (tbl_txn (txns_upto env c chain k)) = {}"
    using keys(2) txns_upto_rounds(1) [OF assms(1)] new by fastforce
  have p: "tp_key ` set (transactionParticipation ?b) \<inter>
      tp_key ` set (tbl_txn_participation (txns_upto env c chain k)) = {}"
    using participation_round [of _ ?b] y(2) txns_upto_rounds(2) [OF assms(1)] new by fastforce
  have "distinct (map tp_key (transactionParticipation ?b))"
    using y(4) by (auto simp: distinct_map inj_on_def intro: txn_participation_row.equality)
  with keys(1) t p y(1) show ?thesis
    by (simp add: add_txns_body_def AddTransactions_def AddTransactionParticipation_def copy_rows_iff
        Let_def del: of_nat_Suc)
qed

lemma add_txns_again:
  assumes "importable env c chain"
  shows "case add_txns_body env c (vb_Block (chain (of_nat (Suc k)))) (txns_upto env c chain (Suc k)) of
      Inr t \<Rightarrow> t = txns_upto env c chain (Suc k)
    | Inl e \<Rightarrow> isUniqueViolation e"
proof (cases "txn_rows env c (vb_Block (chain (of_nat (Suc k)))) = []")
  case True
  let ?b = "vb_Block (chain (of_nat (Suc k)))"
  note y = importable_block(1) [OF assms, of "of_nat (Suc k)"]
  from participation_positions [OF y] True have "transactionParticipation ?b = []" by simp
  with y True show ?thesis
    by (simp add: add_txns_body_def AddTransactions_def AddTransactionParticipation_def copy_rows_iff
        Let_def del: of_nat_Suc)
next
  case False
  let ?b = "vb_Block (chain (of_nat (Suc k)))"
  note y = importable_block(1) [OF assms, of "of_nat (Suc k)"]
  have "txn_key ` set (txn_rows env c ?b) \<inter> txn_key ` set (tbl_txn (txns_upto env c chain (Suc k))) \<noteq> {}"
    using False by (simp add: Let_def image_Un Int_Un_distrib del: of_nat_Suc)
  then show ?thesis using y
    by (simp add: add_txns_body_def AddTransactions_def copy_rows_iff isUniqueViolation_def
        errors_Is_def del: of_nat_Suc txns_upto.simps)
qed

text \<open>The transaction tables while block \<open>k + 1\<close> is next: without its rows, or with them already.\<close>

definition txns_around :: "sdk \<Rightarrow> 'j codec \<Rightarrow> (uint64 \<Rightarrow> ValidatedBlock) \<Rightarrow> nat \<Rightarrow> 'j txn_tables \<Rightarrow> bool" where
  "txns_around env c chain k t \<longleftrightarrow> t = txns_upto env c chain k \<or> t = txns_upto env c chain (Suc k)"

lemma run_inner_around:
  assumes "importable env c chain" "Suc k < 2 ^ 64" "\<forall>n. honest_tx (ienv n)"
    and "txns_around env c chain k t"
    and "run_inner env c ienv (vb_Block (chain (of_nat (Suc k)))) t = Some (r, t')"
  shows "txns_around env c chain k t' \<and>
    (case r of Inr _ \<Rightarrow> t' = txns_upto env c chain (Suc k)
     | Inl e \<Rightarrow> isUniqueViolation e \<longrightarrow> t' = txns_upto env c chain (Suc k))"
proof -
  let ?f = "add_txns_body env c (vb_Block (chain (of_nat (Suc k))))"
  let ?old = "txns_upto env c chain k" and ?new = "txns_upto env c chain (Suc k)"
  from assms(5) have "TxWithRetry ienv (simple_body ?f) 0 t () = Some (r, t', ())"
    by (auto simp: run_inner_def)
  from TxWithRetry_outcome [where I = "\<lambda>_. True", OF this assms(3)]
  have o: "case r of Inr _ \<Rightarrow> ?f t = Inr t'
     | Inl e \<Rightarrow> (t' = t \<or> ?f t = Inr t') \<and>
         (isUniqueViolation e \<longrightarrow> t' = t \<and> (\<exists>e'. ?f t = Inl e' \<and> isUniqueViolation e'))"
    by (auto simp: retry_outcome_def simple_body_def split: sum.splits)
  have new: "t'' = ?new" if "?f t = Inr t''" for t''
    using that add_txns_fresh [OF assms(1,2)] add_txns_again [OF assms(1), of k] assms(4)
    unfolding txns_around_def by (auto split: sum.splits)
  have old: "t = ?new" if "?f t = Inl e'" for e'
    using that add_txns_fresh [OF assms(1,2)] assms(4) unfolding txns_around_def by auto
  show ?thesis
    using o new old assms(4) unfolding txns_around_def by (auto split: sum.splits)
qed


section \<open>Adding a block\<close>

text \<open>The state of an import whose next round is \<open>n\<close>: the transaction tables contain the rows of the
  blocks before \<open>n\<close>, or also those of block \<open>n\<close>.\<close>

definition import_state ::
  "sdk \<Rightarrow> 'j codec \<Rightarrow> (uint64 \<Rightarrow> ValidatedBlock) \<Rightarrow> nat \<Rightarrow> 'j main_tables \<times> 'j txn_tables \<Rightarrow> bool" where
  "import_state env c chain n st \<longleftrightarrow>
     getImportState c (fst st) = Inr \<lparr>NextRoundToAccount = of_nat n\<rparr> \<and>
     (case n of
        0 \<Rightarrow> snd st = txns_upto env c chain 0
      | Suc k \<Rightarrow> txns_around env c chain k (snd st))"

definition honest_add :: "add_env \<Rightarrow> bool" where
  "honest_add aenv \<longleftrightarrow> (\<forall>n. honest_tx (outer_env aenv n)) \<and> (\<forall>n m. honest_tx (inner_env aenv n m))"

lemma add_block_body_wrong_round:
  assumes "getImportState c db = Inr st" "bh_Round (BlockHeader (vb_Block vb)) \<noteq> NextRoundToAccount st"
  shows "\<exists>e. add_block_body env c aenv vb m db t = Some (Inl e, t)"
  using assms by (simp add: add_block_body_def)

lemma import_state_written:
  assumes "metastate_codec c"
  shows "Writer_AddBlock env c e block delta (setImportState c st db) = Inr db' \<Longrightarrow>
      getImportState c db' = Inr st"
    and "Writer_AddBlock0 c e block (setImportState c st db) = Inr db' \<Longrightarrow> getImportState c db' = Inr st"
  using getImportState_set [OF assms] getImportState_writer by metis+

lemma add_block_body_zero:
  assumes "getImportState c db = Inr \<lparr>NextRoundToAccount = 0\<rparr>" "metastate_codec c"
    and "bh_Round (BlockHeader (vb_Block vb)) = 0"
    and "add_block_body env c aenv vb m db t = Some (out, t')"
  shows "t' = t" and "out = Inr db' \<Longrightarrow> getImportState c db' = Inr \<lparr>NextRoundToAccount = 1\<rparr>"
  using assms import_state_written(2) [OF assms(2)]
  by (auto simp: add_block_body_def result_simps)

lemma add_block_body_next_eq:
  assumes "getImportState c db = Inr \<lparr>NextRoundToAccount = n\<rparr>" "n \<noteq> 0"
    and "bh_Round (BlockHeader (vb_Block vb)) = n"
  shows "add_block_body env c aenv vb m db t =
    Option.bind (run_inner env c (inner_env aenv m) (vb_Block vb) t) (\<lambda>(err0, t').
      case Writer_AddBlock env c (batch_err aenv m) (vb_Block vb) (vb_Delta vb)
          (setImportState c \<lparr>NextRoundToAccount = n + 1\<rparr> db) of
        Inl e \<Rightarrow> Some (Inl (Wrap ''AddBlock() err'' e), t')
      | Inr db \<Rightarrow>
          (case err0 of
             Inr _ \<Rightarrow> Some (Inr db, t')
           | Inl e \<Rightarrow>
               if isUniqueViolation e then Some (Inr db, t')
               else Some (Inl (Wrap ''AddBlock() err0'' e), t')))"
  using assms by (simp add: add_block_body_def Let_def)

lemma add_block_body_next:
  assumes "getImportState c db = Inr \<lparr>NextRoundToAccount = of_nat (Suc k)\<rparr>" "metastate_codec c"
    and "importable env c chain" "Suc k < 2 ^ 64" "honest_add aenv" "txns_around env c chain k t"
    and "add_block_body env c aenv (chain (of_nat (Suc k))) m db t = Some (out, t')"
  shows "txns_around env c chain k t'"
    and "out = Inr db' \<Longrightarrow> t' = txns_upto env c chain (Suc k) \<and>
      getImportState c db' = Inr \<lparr>NextRoundToAccount = of_nat (Suc (Suc k))\<rparr>"
proof -
  let ?n = "of_nat (Suc k) :: uint64"
  have n: "?n \<noteq> 0" using of_nat64_eq [of "Suc k" 0] assms(4) by (auto simp del: of_nat_Suc)
  have rnd: "bh_Round (BlockHeader (vb_Block (chain ?n))) = ?n" by (rule importable_block(2) [OF assms(3)])
  have plus: "?n + 1 = of_nat (Suc (Suc k))" by simp
  let ?w = "Writer_AddBlock env c (batch_err aenv m) (vb_Block (chain ?n)) (vb_Delta (chain ?n))
    (setImportState c \<lparr>NextRoundToAccount = ?n + 1\<rparr> db)"
  note body = assms(7) [unfolded add_block_body_next_eq [OF assms(1) n rnd]]
  obtain err0 t1 where inner: "run_inner env c (inner_env aenv m) (vb_Block (chain ?n)) t = Some (err0, t1)"
    using body by (cases "run_inner env c (inner_env aenv m) (vb_Block (chain ?n)) t") auto
  note body = body [unfolded inner bind.bind_lunit prod.case]
  have t1: "t1 = t'" using body by (cases ?w; cases err0) (simp_all split: if_splits)
  have out: "(case err0 of Inr _ \<Rightarrow> True | Inl e \<Rightarrow> isUniqueViolation e) \<and> ?w = Inr db'"
    if "out = Inr db'" for db'
    using body that by (cases ?w; cases err0) (simp_all split: if_splits)
  note inner = inner [unfolded t1]
  from assms(5) have "\<forall>i. honest_tx (inner_env aenv m i)" by (simp add: honest_add_def)
  note a = run_inner_around [OF assms(3,4) this assms(6) inner]
  then show "txns_around env c chain k t'" by simp
  show "t' = txns_upto env c chain (Suc k) \<and>
      getImportState c db' = Inr \<lparr>NextRoundToAccount = of_nat (Suc (Suc k))\<rparr>" if "out = Inr db'"
  proof
    show "t' = txns_upto env c chain (Suc k)" using a out [OF that] by (cases err0) simp_all
    from out [OF that] have "?w = Inr db'" by blast
    from import_state_written(1) [OF assms(2) this] plus
    show "getImportState c db' = Inr \<lparr>NextRoundToAccount = of_nat (Suc (Suc k))\<rparr>" by simp
  qed
qed


lemma AddBlock_outcome:
  assumes "AddBlock env c aenv vb db txns = Some (r, db', txns')" "honest_add aenv" "I txns"
    and "\<And>m t out t'. I t \<Longrightarrow> add_block_body env c aenv vb m db t = Some (out, t') \<Longrightarrow> I t'"
  shows "I txns' \<and>
    (case r of
       Inr _ \<Rightarrow> \<exists>m t. I t \<and> add_block_body env c aenv vb m db t = Some (Inr db', txns')
     | Inl _ \<Rightarrow> db' = db \<or> (\<exists>m t. I t \<and> add_block_body env c aenv vb m db t = Some (Inr db', txns')))"
proof (cases "Consensus env (CurrentProtocol (BlockHeader (vb_Block vb)))")
  case None
  with assms(1,3) show ?thesis by (auto simp: AddBlock_def)
next
  case (Some proto)
  with assms(1) obtain r0 where r0:
    "TxWithRetry (outer_env aenv) (add_block_body env c aenv vb) 0 db txns = Some (r0, db', txns')"
    and r: "r = res_wrap ''AddBlock() err'' r0"
    by (auto simp: AddBlock_def)
  have h: "\<forall>n. honest_tx (outer_env aenv n)" using assms(2) by (simp add: honest_add_def)
  have "\<forall>n t out t2. I t \<longrightarrow> add_block_body env c aenv vb n db t = Some (out, t2) \<longrightarrow> I t2"
    using assms(4) by blast
  from TxWithRetry_outcome [where I = I, OF r0 h assms(3) this] r
  show ?thesis by (cases r0) (auto simp: retry_outcome_def)
qed

lemma AddBlock_advances:
  assumes "importable env c chain" "metastate_codec c" "honest_add aenv"
    and st: "import_state env c chain n (db, txns)" and n: "Suc n < 2 ^ 64"
    and add: "AddBlock env c aenv (chain rnd) db txns = Some (r, db', txns')"
  shows "case r of
      Inr _ \<Rightarrow> rnd = of_nat n \<and> txns' = txns_upto env c chain n \<and> import_state env c chain (Suc n) (db', txns')
    | Inl _ \<Rightarrow>
        (db' = db \<and> import_state env c chain n (db', txns')) \<or>
        (rnd = of_nat n \<and> import_state env c chain (Suc n) (db', txns'))"
proof -
  let ?body = "add_block_body env c aenv (chain rnd)"
  from st have imp: "getImportState c db = Inr \<lparr>NextRoundToAccount = of_nat n\<rparr>"
    by (simp add: import_state_def)
  have rnd: "bh_Round (BlockHeader (vb_Block (chain rnd))) = rnd" by (rule importable_block(2) [OF assms(1)])
  show ?thesis
  proof (cases "rnd = of_nat n")
    case False
    have "\<exists>e. ?body m db t = Some (Inl e, t)" for m t
      using add_block_body_wrong_round [OF imp] rnd False by simp
    then have f: "?body m db t = Some (out, t') \<Longrightarrow> t' = t \<and> (\<exists>e. out = Inl e)" for m t out t'
      by (metis option.inject prod.inject)
    have "txns' = txns \<and> (\<exists>e. r = Inl e) \<and> db' = db"
      using AddBlock_outcome [OF add assms(3), of "\<lambda>t. t = txns"] f
      by (cases r) (auto dest!: f)
    with st show ?thesis by auto
  next
    case True
    show ?thesis
    proof (cases n)
      case 0
      have imp0: "getImportState c db = Inr \<lparr>NextRoundToAccount = 0\<rparr>" using imp 0 by simp
      have rnd0: "bh_Round (BlockHeader (vb_Block (chain rnd))) = 0" using rnd True 0 by simp
      note z = add_block_body_zero [OF imp0 assms(2) rnd0]
      have t0: "txns = txns_upto env c chain 0" using st 0 by (simp add: import_state_def)
      have done1: "import_state env c chain (Suc n) (db', txns') \<and> txns' = txns_upto env c chain n"
        if "?body m db txns = Some (Inr db', txns')" for m
        using z(1) [OF that] z(2) [OF that] t0 0
        by (simp add: import_state_def txns_around_def)
      have keep: "t' = t" if "?body m db t = Some (out, t')" for m t out t'
        by (rule z(1) [OF that])
      have "txns' = txns \<and> (case r of Inr _ \<Rightarrow> \<exists>m. ?body m db txns = Some (Inr db', txns')
        | Inl _ \<Rightarrow> db' = db \<or> (\<exists>m. ?body m db txns = Some (Inr db', txns')))"
        using AddBlock_outcome [OF add assms(3), of "\<lambda>t. t = txns"] keep
        by (cases r) auto
      with done1 st True show ?thesis by (cases r) auto
    next
      case (Suc k)
      have imp1: "getImportState c db = Inr \<lparr>NextRoundToAccount = of_nat (Suc k)\<rparr>"
        using imp Suc by simp
      have k: "Suc k < 2 ^ 64" using n Suc by simp
      have ar: "txns_around env c chain k txns" using st Suc by (simp add: import_state_def)
      note b = add_block_body_next [OF imp1 assms(2,1) k assms(3)]
      have chn: "chain rnd = chain (of_nat (Suc k))" using True Suc by simp
      have done1: "import_state env c chain (Suc n) (db', txns') \<and> txns' = txns_upto env c chain n"
        if "txns_around env c chain k t" "?body m db t = Some (Inr db', txns')" for m t
        using b(2) [OF that(1) that(2) [unfolded chn]] Suc
        by (simp add: import_state_def txns_around_def del: of_nat_Suc txns_upto.simps)
      have keep: "import_state env c chain n (db, t)" if "txns_around env c chain k t" for t
        using imp that Suc by (simp add: import_state_def)
      have step: "txns_around env c chain k t'"
        if "txns_around env c chain k t" "?body m db t = Some (out, t')" for m t out t'
        by (rule b(1) [OF that(1) that(2) [unfolded chn]])
      have "txns_around env c chain k txns' \<and>
        (case r of Inr _ \<Rightarrow> \<exists>m t. txns_around env c chain k t \<and> ?body m db t = Some (Inr db', txns')
         | Inl _ \<Rightarrow> db' = db \<or> (\<exists>m t. txns_around env c chain k t \<and> ?body m db t = Some (Inr db', txns')))"
        by (rule AddBlock_outcome [OF add assms(3), of "txns_around env c chain k"]) (fact ar, fact step)
      with done1 keep True show ?thesis by (cases r) auto
    qed
  qed
qed

text \<open>C2: with the database at round n, a successful AddBlock has added the block of round n, advanced
  the next round to n + 1 and stored exactly the transaction rows of the blocks up to n; a failed
  AddBlock leaves the accounting state as it was, or has completed the whole import when the error
  hides a commit that was applied.\<close>

theorem AddBlock_correct:
  assumes "importable env c chain" "metastate_codec c" "honest_add aenv"
    and "import_state env c chain n (db, txns)" "Suc n < 2 ^ 64"
    and "AddBlock env c aenv (chain rnd) db txns = Some (r, db', txns')"
  shows "case r of
      Inr _ \<Rightarrow> rnd = of_nat n \<and> txns' = txns_upto env c chain n \<and> import_state env c chain (Suc n) (db', txns')
    | Inl _ \<Rightarrow>
        (db' = db \<and> import_state env c chain n (db', txns')) \<or>
        (rnd = of_nat n \<and> import_state env c chain (Suc n) (db', txns'))"
  by (rule AddBlock_advances [OF assms])

section \<open>Progress\<close>

definition quiet_env :: add_env where
  "quiet_env = \<lparr>outer_env = (\<lambda>_. quiet_tx), batch_err = (\<lambda>_. None), inner_env = (\<lambda>_ _. quiet_tx)\<rparr>"

lemma honest_quiet: "honest_add quiet_env"
  by (simp add: honest_add_def quiet_env_def honest_tx_def quiet_tx_def)

lemma unique_not_serialization: "isUniqueViolation e \<Longrightarrow> \<not> isSerializationError e"
  by (simp add: isUniqueViolation_def isSerializationError_def errors_Is_def)

lemma TxWithRetry_quiet:
  assumes "f 0 s t = Some (out, t')" "case out of Inr _ \<Rightarrow> True | Inl e \<Rightarrow> \<not> isSerializationError e"
  shows "TxWithRetry (\<lambda>_. quiet_tx) f 0 s t =
    Some (case out of Inr s' \<Rightarrow> (Inr (), s', t')
      | Inl e \<Rightarrow> (Inl (Wrap ''TxWithRetry() err'' (Wrap ''attemptTx() err'' e)), s, t'))"
  using assms by (cases out) (simp_all add: TxWithRetry.simps attemptTx_def quiet_tx_def)

lemma run_inner_quiet:
  assumes "importable env c chain" "Suc k < 2 ^ 64" "txns_around env c chain k t"
  shows "\<exists>r. run_inner env c (\<lambda>_. quiet_tx) (vb_Block (chain (of_nat (Suc k)))) t =
      Some (r, txns_upto env c chain (Suc k)) \<and> (case r of Inr _ \<Rightarrow> True | Inl e \<Rightarrow> isUniqueViolation e)"
proof -
  let ?f = "add_txns_body env c (vb_Block (chain (of_nat (Suc k))))"
  let ?new = "txns_upto env c chain (Suc k)"
  have "?f t = Inr ?new \<or> (t = ?new \<and> (\<exists>e. ?f t = Inl e \<and> isUniqueViolation e))"
    using add_txns_fresh [OF assms(1,2)] add_txns_again [OF assms(1), of k] assms(3)
    unfolding txns_around_def by (auto split: sum.splits simp del: txns_upto.simps of_nat_Suc)
  then show ?thesis
    using TxWithRetry_quiet [of "simple_body ?f" t "()" "?f t" "()"] unique_not_serialization
    by (auto simp: run_inner_def simple_body_def simp del: txns_upto.simps of_nat_Suc)
qed

definition example_chain :: "uint64 \<Rightarrow> ValidatedBlock" where
  "example_chain r =
     \<lparr>vb_Block = \<lparr>BlockHeader = example_header\<lparr>bh_Round := r\<rparr>, Payset = Payset signed_block\<rparr>,
      vb_Delta = example_delta\<rparr>"

definition example_start :: "document main_tables" where
  "example_start = setImportState example_codec \<lparr>NextRoundToAccount = 0\<rparr> empty_tables"

lemma example_importable:
  "importable example_sdk example_codec example_chain"
  by (simp add: importable_def example_chain_def yieldTransactions_def root_row_def has_payout_def
      transactionAssetID_def DecodeSignedTxn_def GetTypeEnum_def typeEnumMap_def example_sdk_def
      example_header_def zero_BlockHeader_def example_proto_def set_GenesisID_def set_GenesisHash_def
      signed_block_def example_txn_defs Let_def producer_wrap_def result_simps)

lemma example_metastate: "metastate_codec example_codec"
  by (simp add: metastate_codec_def example_codec_def)

lemma example_start_state:
  "getImportState example_codec example_start = Inr \<lparr>NextRoundToAccount = 0\<rparr>"
  "import_state example_sdk example_codec example_chain 0
     (example_start, txns_upto example_sdk example_codec example_chain 0)"
  by (simp_all add: example_start_def import_state_def getImportState_set [OF example_metastate])

lemma AddBlock_quiet:
  assumes "importable env c chain" "metastate_codec c"
    and "import_state env c chain n (db, txns)" "Suc n < 2 ^ 64"
    and "Consensus env (CurrentProtocol (BlockHeader (vb_Block (chain (of_nat n))))) = Some proto"
    and "block_batch env c (vb_Block (chain (of_nat n))) (vb_Delta (chain (of_nat n))) = Inr batch"
  shows "\<exists>db'. AddBlock env c quiet_env (chain (of_nat n)) db txns = Some (Inr (), db', txns_upto env c chain n) \<and>
    import_state env c chain (Suc n) (db', txns_upto env c chain n)"
proof -
  let ?vb = "chain (of_nat n)"
  from assms(3) have imp: "getImportState c db = Inr \<lparr>NextRoundToAccount = of_nat n\<rparr>"
    by (simp add: import_state_def)
  have rnd: "bh_Round (BlockHeader (vb_Block ?vb)) = of_nat n" by (rule importable_block(2) [OF assms(1)])
  have "\<exists>db' t'. add_block_body env c quiet_env ?vb 0 db txns = Some (Inr db', t')"
  proof (cases n)
    case 0
    with imp rnd show ?thesis
      by (simp add: add_block_body_def Writer_AddBlock0_def send_batch_def quiet_env_def result_simps Let_def)
  next
    case (Suc k)
    have n0: "(of_nat n :: uint64) \<noteq> 0" using of_nat64_eq [of n 0] assms(4) Suc by (auto simp del: of_nat_Suc)
    have ar: "txns_around env c chain k txns" using assms(3) Suc by (simp add: import_state_def)
    have k: "Suc k < 2 ^ 64" using assms(4) Suc by simp
    have "inner_env quiet_env 0 = (\<lambda>_. quiet_tx)" "batch_err quiet_env 0 = None"
      by (simp_all add: quiet_env_def)
    moreover obtain r where "run_inner env c (\<lambda>_. quiet_tx) (vb_Block ?vb) txns =
        Some (r, txns_upto env c chain (Suc k))" "case r of Inr _ \<Rightarrow> True | Inl e \<Rightarrow> isUniqueViolation e"
      using run_inner_quiet [OF assms(1) k ar] Suc by blast
    ultimately show ?thesis
      unfolding add_block_body_next_eq [OF imp n0 rnd] using assms(6)
      by (cases r) (simp_all add: Writer_AddBlock_def send_batch_def result_simps del: txns_upto.simps)
  qed
  then obtain db' t' where b: "add_block_body env c quiet_env ?vb 0 db txns = Some (Inr db', t')" by blast
  have "AddBlock env c quiet_env ?vb db txns = Some (Inr (), db', t')"
    using TxWithRetry_quiet [where f = "add_block_body env c quiet_env ?vb", OF b] assms(5)
    by (simp add: AddBlock_def quiet_env_def result_simps)
  moreover from AddBlock_advances [OF assms(1,2) honest_quiet assms(3,4) this]
  have "t' = txns_upto env c chain n \<and> import_state env c chain (Suc n) (db', t')" by auto
  ultimately show ?thesis by blast
qed

text \<open>C14: on a server that reports no error, AddBlock of the next round succeeds, also when the rows of
  the block's transactions had been written by an earlier call that did not complete; it needs a known
  protocol and a block whose batch can be built.\<close>

theorem AddBlock_succeeds:
  assumes "importable env c chain" "metastate_codec c"
    and "import_state env c chain n (db, txns)" "Suc n < 2 ^ 64"
    and "Consensus env (CurrentProtocol (BlockHeader (vb_Block (chain (of_nat n))))) = Some proto"
    and "block_batch env c (vb_Block (chain (of_nat n))) (vb_Delta (chain (of_nat n))) = Inr batch"
  shows "\<exists>db'. AddBlock env c quiet_env (chain (of_nat n)) db txns = Some (Inr (), db', txns_upto env c chain n) \<and>
    import_state env c chain (Suc n) (db', txns_upto env c chain n)"
  by (rule AddBlock_quiet [OF assms])

text \<open>The second block of the example chain, whose rows have already been written.\<close>

definition example_ahead :: "document main_tables \<times> document txn_tables" where
  "example_ahead = (setImportState example_codec \<lparr>NextRoundToAccount = 1\<rparr> empty_tables,
     txns_upto example_sdk example_codec example_chain 1)"

lemma example_ahead_state: "import_state example_sdk example_codec example_chain 1 (fst example_ahead, snd example_ahead)"
  by (simp add: example_ahead_def import_state_def getImportState_set [OF example_metastate] txns_around_def
      del: txns_upto.simps)

lemma example_batch:
  "\<exists>batch. block_batch example_sdk example_codec (vb_Block (example_chain r)) (vb_Delta (example_chain r)) = Inr batch"
  by (simp add: block_batch_def getSigTypeDeltas_def example_chain_def example_delta_def SignatureType_def
      signed_block_def example_sdk_def example_txn_defs zero_bytes_def replicate_eq_replicate Let_def result_simps)

lemma example_protocol:
  "Consensus example_sdk (CurrentProtocol (BlockHeader (vb_Block (example_chain r)))) = Some example_proto"
  by (simp add: example_sdk_def example_chain_def example_header_def)

lemma example_add:
  assumes "import_state example_sdk example_codec example_chain n (db, txns)" "Suc n < 2 ^ 64"
  shows "\<exists>db'. AddBlock example_sdk example_codec quiet_env (example_chain (of_nat n)) db txns =
      Some (Inr (), db', txns_upto example_sdk example_codec example_chain n) \<and>
    import_state example_sdk example_codec example_chain (Suc n)
      (db', txns_upto example_sdk example_codec example_chain n)"
proof -
  obtain batch where b: "block_batch example_sdk example_codec (vb_Block (example_chain (of_nat n)))
      (vb_Delta (example_chain (of_nat n))) = Inr batch"
    using example_batch by blast
  show ?thesis
    by (rule AddBlock_quiet [OF example_importable example_metastate assms example_protocol b])
qed

theorem AddBlock_succeeds_witness:
  "\<exists>db'. AddBlock example_sdk example_codec quiet_env (example_chain 1) (fst example_ahead) (snd example_ahead) =
      Some (Inr (), db', txns_upto example_sdk example_codec example_chain 1) \<and>
    import_state example_sdk example_codec example_chain (Suc 1) (db', txns_upto example_sdk example_codec example_chain 1)"
proof -
  obtain batch where b: "block_batch example_sdk example_codec (vb_Block (example_chain (of_nat 1)))
      (vb_Delta (example_chain (of_nat 1))) = Inr batch"
    using example_batch by blast
  from AddBlock_succeeds [OF example_importable example_metastate example_ahead_state _ example_protocol b]
  show ?thesis by (simp del: txns_upto.simps)
qed

text \<open>The same call succeeds and has the effect the general statement gives.\<close>

theorem AddBlock_correct_witness:
  "\<exists>db'. AddBlock example_sdk example_codec quiet_env (example_chain 1) (fst example_ahead) (snd example_ahead) =
      Some (Inr (), db', txns_upto example_sdk example_codec example_chain 1) \<and>
    import_state example_sdk example_codec example_chain (Suc 1) (db', txns_upto example_sdk example_codec example_chain 1)"
proof -
  obtain db' t' where a:
    "AddBlock example_sdk example_codec quiet_env (example_chain 1) (fst example_ahead) (snd example_ahead) =
      Some (Inr (), db', t')"
    using example_add [OF example_ahead_state] by auto
  from AddBlock_correct [OF example_importable example_metastate honest_quiet example_ahead_state _ a] a
  show ?thesis by (auto simp del: txns_upto.simps)
qed

section \<open>Imports with crashes\<close>

text \<open>A step of an import: a call of \<open>AddBlock\<close> that returns, or a crash during one, after which only
  the effect of the nested transaction may remain.\<close>

inductive import_step ::
  "sdk \<Rightarrow> 'j codec \<Rightarrow> (uint64 \<Rightarrow> ValidatedBlock) \<Rightarrow> 'j main_tables \<times> 'j txn_tables \<Rightarrow>
   'j main_tables \<times> 'j txn_tables \<Rightarrow> bool"
  for env :: sdk and c :: "'j codec" and chain :: "uint64 \<Rightarrow> ValidatedBlock" where
  add: "AddBlock env c aenv (chain rnd) db txns = Some (r, db', txns') \<Longrightarrow> honest_add aenv \<Longrightarrow>
    import_step env c chain (db, txns) (db', txns')"
| crash: "getNextRoundToAccount c db = Inr rnd \<Longrightarrow> rnd \<noteq> 0 \<Longrightarrow>
    run_inner env c ienv (vb_Block (chain rnd)) txns = Some (r, txns') \<Longrightarrow> \<forall>n. honest_tx (ienv n) \<Longrightarrow>
    import_step env c chain (db, txns) (db, txns')"

inductive import_run ::
  "sdk \<Rightarrow> 'j codec \<Rightarrow> (uint64 \<Rightarrow> ValidatedBlock) \<Rightarrow> 'j main_tables \<times> 'j txn_tables \<Rightarrow> nat \<Rightarrow>
   'j main_tables \<times> 'j txn_tables \<Rightarrow> bool"
  for env :: sdk and c :: "'j codec" and chain :: "uint64 \<Rightarrow> ValidatedBlock"
    and s0 :: "'j main_tables \<times> 'j txn_tables" where
  start: "import_run env c chain s0 0 s0"
| step: "import_run env c chain s0 k s \<Longrightarrow> import_step env c chain s s' \<Longrightarrow> import_run env c chain s0 (Suc k) s'"

inductive_cases import_stepE: "import_step env c chain s s'"

lemma import_step_state:
  assumes "importable env c chain" "metastate_codec c" "Suc n < 2 ^ 64"
    and "import_state env c chain n s" "import_step env c chain s s'"
  shows "import_state env c chain n s' \<or> import_state env c chain (Suc n) s'"
  using assms(5)
proof (cases rule: import_step.cases)
  case (add aenv rnd db txns r db' txns')
  then show ?thesis
    using AddBlock_advances [OF assms(1,2) add(4) _ assms(3) add(3)] assms(4) by (cases r) auto
next
  case (crash db rnd ienv txns r txns')
  from assms(4) crash(1) have imp: "getImportState c db = Inr \<lparr>NextRoundToAccount = of_nat n\<rparr>"
    by (simp add: import_state_def)
  with crash(3) have rnd: "rnd = of_nat n" by (simp add: getNextRoundToAccount_def)
  with crash(4) obtain k where k: "n = Suc k" by (cases n) auto
  from assms(4) crash(1) k have "txns_around env c chain k txns" by (simp add: import_state_def)
  from run_inner_around [OF assms(1) _ crash(6) this] crash(5) rnd k assms(3)
  have "txns_around env c chain k txns'" by simp
  with crash(2) imp k show ?thesis by (simp add: import_state_def)
qed

text \<open>C1: however an import from an initialized, empty database proceeds, through successful and failed
  calls of AddBlock in any order of rounds, retries, commits of unknown fate and crashes, the
  transaction tables contain exactly the rows of the blocks before the next round to account, or of
  these and the next block: they can be ahead by one block but never behind.\<close>

theorem import_never_behind:
  assumes "importable env c chain" "metastate_codec c"
    and "getImportState c db0 = Inr \<lparr>NextRoundToAccount = 0\<rparr>"
    and "import_run env c chain (db0, txns_upto env c chain 0) k s" "Suc k < 2 ^ 64"
  shows "\<exists>n \<le> k. import_state env c chain n s"
  using assms(4,5)
proof (induction)
  case start
  then show ?case using assms(3) by (simp add: import_state_def)
next
  case (step k s s')
  then obtain n where n: "n \<le> k" "import_state env c chain n s" by auto
  moreover have "Suc n < 2 ^ 64" using n step.prems by linarith
  ultimately have "import_state env c chain n s' \<or> import_state env c chain (Suc n) s'"
    using import_step_state [OF assms(1,2)] step.hyps(2) by blast
  then show ?case using n(1) by (meson Suc_le_mono le_SucI)
qed


text \<open>Block 0 is added, then a crash while block 1 is added leaves the rows of its transactions.\<close>

theorem import_never_behind_witness:
  "\<exists>db. import_run example_sdk example_codec example_chain
      (example_start, txns_upto example_sdk example_codec example_chain 0) 2
      (db, txns_upto example_sdk example_codec example_chain 1) \<and>
    (\<exists>n \<le> 2. import_state example_sdk example_codec example_chain n
      (db, txns_upto example_sdk example_codec example_chain 1))"
proof -
  let ?t = "txns_upto example_sdk example_codec example_chain"
  let ?run = "import_run example_sdk example_codec example_chain (example_start, ?t 0)"
  obtain db where db: "AddBlock example_sdk example_codec quiet_env (example_chain 0) example_start (?t 0) =
      Some (Inr (), db, ?t 0)" "import_state example_sdk example_codec example_chain 1 (db, ?t 0)"
    using example_add [OF example_start_state(2)] by auto
  have r0: "?run (Suc 0) (db, ?t 0)"
    by (rule import_run.step [OF import_run.start import_step.add [where chain = example_chain, OF db(1) honest_quiet]])
  have next1: "getNextRoundToAccount example_codec db = Inr 1"
    using db(2) by (simp add: import_state_def getNextRoundToAccount_def result_simps)
  obtain r where r: "run_inner example_sdk example_codec (\<lambda>_. quiet_tx) (vb_Block (example_chain 1)) (?t 0) =
      Some (r, ?t (Suc 0))"
    using run_inner_quiet [OF example_importable, of 0 "?t 0"] by (auto simp: txns_around_def)
  have h: "\<forall>n :: nat. honest_tx quiet_tx" by (simp add: honest_tx_def quiet_tx_def)
  have "?run (Suc (Suc 0)) (db, ?t (Suc 0))"
    by (rule import_run.step [OF r0 import_step.crash [where chain = example_chain and ienv = "\<lambda>_. quiet_tx", OF next1 _ r h]]) simp
  then have run: "?run 2 (db, ?t 1)" by (simp add: numeral_2_eq_2 del: txns_upto.simps)
  from import_never_behind [OF example_importable example_metastate example_start_state(1) run] run
  show ?thesis by auto
qed

end
