(* ===== verification/GenesisLaws.thy ===== *)
theory GenesisLaws
  imports ImportLaws
begin

text \<open>
  Correctness of the operations around the import: the initial import loads the genesis exactly once
  and pins the database to one network, and pruning removes exactly the rows of the old blocks and
  does not disturb the import.
\<close>

section \<open>Loading the genesis accounts\<close>

lemma load_account_Inr:
  "load_account env c alloc db = Inr db' \<longleftrightarrow>
     (\<exists>addr. DecodeAddress env (alloc_Address alloc) = Inr addr \<and>
        \<not> has_key acc_addr addr (tbl_account db) \<and>
        db' = db\<lparr>tbl_account := tbl_account db @ [genesis_row c addr (alloc_State alloc)]\<rparr>)"
  by (cases "DecodeAddress env (alloc_Address alloc)")
    (auto simp: load_account_def insert_row_def genesis_row_def)

text \<open>The rows of the allocations, when every address decodes.\<close>

definition genesis_rows :: "sdk \<Rightarrow> 'j codec \<Rightarrow> Genesis \<Rightarrow> 'j account_row list" where
  "genesis_rows env c genesis =
     map (\<lambda>al. genesis_row c (case DecodeAddress env (alloc_Address al) of Inr a \<Rightarrow> a | Inl _ \<Rightarrow> zero_Address)
       (alloc_State al)) (Allocation genesis)"

lemma load_accounts_Inr:
  assumes "res_fold (load_account env c) allocs db = Inr db'" "key_unique acc_addr (tbl_account db)"
  shows "db' = db\<lparr>tbl_account := tbl_account db @ genesis_rows env c \<lparr>Allocation = allocs, gen_Hash = h\<rparr>\<rparr>
    \<and> key_unique acc_addr (tbl_account db')"
  using assms
proof (induction allocs arbitrary: db)
  case Nil
  then show ?case by (simp add: genesis_rows_def)
next
  case (Cons al allocs)
  then obtain addr where a: "DecodeAddress env (alloc_Address al) = Inr addr"
    "\<not> has_key acc_addr addr (tbl_account db)"
    and rest: "res_fold (load_account env c) allocs
      (db\<lparr>tbl_account := tbl_account db @ [genesis_row c addr (alloc_State al)]\<rparr>) = Inr db'"
    by (auto simp: res_bind_def load_account_Inr split: sum.splits)
  have "key_unique acc_addr (tbl_account db @ [genesis_row c addr (alloc_State al)])"
    using a(2) Cons.prems(2) by (auto simp: key_unique_def has_key_def genesis_row_def)
  with Cons.IH [OF rest] a(1) show ?case by (auto simp: genesis_rows_def)
qed

lemma getNetworkState_set:
  "metastate_codec c \<Longrightarrow> getNetworkState c (setNetworkState c st db) = Inr st"
  by (simp add: getNetworkState_def setNetworkState_def GetMetastate_Set DecodeNetworkState_def
      EncodeNetworkState_def metastate_codec_def)

lemma metastate_of_accounts [simp]:
  "getNetworkState c (db\<lparr>tbl_account := t\<rparr>) = getNetworkState c db"
  "getImportState c (db\<lparr>tbl_account := t\<rparr>) = getImportState c db"
  by (simp_all add: getNetworkState_def getImportState_def GetMetastate_def)

lemma metastate_independent:
  "getNetworkState c (setImportState c st db) = getNetworkState c db"
  "getImportState c (setNetworkState c ns db) = getImportState c db"
  by (simp_all add: getNetworkState_def getImportState_def setImportState_def setNetworkState_def
      GetMetastate_Set metastate_key_defs)

lemma tables_of_metastate [simp]:
  "tbl_account (setImportState c st db) = tbl_account db"
  "tbl_account (setNetworkState c ns db) = tbl_account db"
  by (simp_all add: setImportState_def setNetworkState_def SetMetastate_def upsert_metastate_def)

lemma load_genesis_body_Inr:
  assumes "metastate_codec c" "load_genesis_body env c genesis db = Inr db'"
    and "key_unique acc_addr (tbl_account db)"
  shows "getImportState c db' = Inr \<lparr>NextRoundToAccount = 0\<rparr>"
    and "getNetworkState c db' = Inr \<lparr>ns_GenesisHash = gen_Hash genesis\<rparr>"
    and "tbl_account db' = tbl_account db @ genesis_rows env c genesis"
    and "key_unique acc_addr (tbl_account db')"
proof -
  obtain db1 db2 where db1: "getNetworkState c db1 = Inr \<lparr>ns_GenesisHash = gen_Hash genesis\<rparr>"
      "tbl_account db1 = tbl_account db"
    and db2: "res_fold (load_account env c) (Allocation genesis) db1 = Inr db2"
    and db': "db' = setImportState c \<lparr>NextRoundToAccount = 0\<rparr> db2"
  proof -
    obtain db1 db2 where "(if getNetworkState c db = Inl ErrorNotInitialized
        then db1 = setNetworkState c \<lparr>ns_GenesisHash = gen_Hash genesis\<rparr> db
        else db1 = db \<and> getNetworkState c db = Inr \<lparr>ns_GenesisHash = gen_Hash genesis\<rparr>)"
      "res_fold (load_account env c) (Allocation genesis) db1 = Inr db2"
      "db' = setImportState c \<lparr>NextRoundToAccount = 0\<rparr> db2"
      using assms(2) unfolding load_genesis_body_def
      by (auto simp: res_bind_def split: sum.splits if_splits intro: NetworkState.equality)
    then show thesis using that [of db1 db2] getNetworkState_set [OF assms(1)] by (auto split: if_splits)
  qed
  have g: "\<lparr>Allocation = Allocation genesis, gen_Hash = gen_Hash genesis\<rparr> = genesis" by simp
  have "key_unique acc_addr (tbl_account db1)" using db1(2) assms(3) by simp
  note l = load_accounts_Inr [OF db2 this, of "gen_Hash genesis", unfolded g]
  show "getImportState c db' = Inr \<lparr>NextRoundToAccount = 0\<rparr>"
    by (simp add: db' getImportState_set [OF assms(1)])
  show "getNetworkState c db' = Inr \<lparr>ns_GenesisHash = gen_Hash genesis\<rparr>"
    using l db1(1) by (simp add: db' metastate_independent)
  show "tbl_account db' = tbl_account db @ genesis_rows env c genesis"
    "key_unique acc_addr (tbl_account db')"
    using l db1(2) by (auto simp: db')
qed

section \<open>The initial import\<close>

lemma LoadGenesis_Inr:
  assumes "LoadGenesis env c tenv genesis db = Some (Inr u, db')" "\<forall>n. honest_tx (tenv n)"
  shows "load_genesis_body env c genesis db = Inr db'"
proof -
  from assms(1) obtain r where "TxWithRetry tenv (simple_body (load_genesis_body env c genesis)) 0 db () =
      Some (r, db', ())" "res_wrap ''LoadGenesis() err'' r = Inr u"
    by (auto simp: LoadGenesis_def)
  then have t:
    "TxWithRetry tenv (simple_body (load_genesis_body env c genesis)) 0 db () = Some (Inr (), db', ())"
    by (cases r) (auto simp: result_simps)
  from TxWithRetry_outcome [where I = "\<lambda>_. True", OF t assms(2)]
  show ?thesis by (auto simp: retry_outcome_def simple_body_def)
qed

lemma EnsureInitialImport_again:
  assumes "getImportState c db = Inr st" "getNetworkState c db = Inr \<lparr>ns_GenesisHash = h\<rparr>"
  shows "EnsureInitialImport env c tenv genesis db =
    Some (if gen_Hash genesis = h then Inr False else Inl (ErrMsg ''genesis hash not matching''), db)"
  using assms
  by (simp add: EnsureInitialImport_def getNextRoundToAccount_def checkGenesisHash_def
      GetNetworkState_def result_simps)

lemma checkGenesisHash_Inr:
  assumes "metastate_codec c" "checkGenesisHash c h db = (Inr u, db')"
  shows "getNetworkState c db' = Inr \<lparr>ns_GenesisHash = h\<rparr>" "getImportState c db' = getImportState c db"
    "tbl_account db' = tbl_account db"
  using assms(2)
  by (auto simp: checkGenesisHash_def GetNetworkState_def SetNetworkState_def metastate_independent
      getNetworkState_set [OF assms(1)] res_wrap_def split: sum.splits if_splits)

text \<open>C13: when EnsureInitialImport succeeds it reports whether the database had no import state; in that
  case exactly the allocations of the genesis have been added to the accounts and the next round is 0,
  otherwise the accounts and the next round are unchanged. In both cases the database is bound to the
  genesis: every later call returns false and changes nothing for a genesis with the same hash, and
  fails for any other one.\<close>

theorem EnsureInitialImport_once:
  assumes "EnsureInitialImport env c tenv genesis db = Some (Inr b, db')"
    and "metastate_codec c" "\<forall>n. honest_tx (tenv n)" "key_unique acc_addr (tbl_account db)"
  shows "(b \<longleftrightarrow> getNextRoundToAccount c db = Inl ErrorNotInitialized) \<and>
    (if b then tbl_account db' = tbl_account db @ genesis_rows env c genesis \<and>
        getNextRoundToAccount c db' = Inr 0 \<and> key_unique acc_addr (tbl_account db')
     else tbl_account db' = tbl_account db \<and> getNextRoundToAccount c db' = getNextRoundToAccount c db) \<and>
    EnsureInitialImport env c tenv' genesis' db' =
      Some (if gen_Hash genesis' = gen_Hash genesis then Inr False
            else Inl (ErrMsg ''genesis hash not matching''), db')"
proof (cases "getNextRoundToAccount c db")
  case (Inl e)
  from assms(1) Inl obtain u where e: "e = ErrorNotInitialized" and b: b
    and l: "LoadGenesis env c tenv genesis db = Some (Inr u, db')"
    by (cases "LoadGenesis env c tenv genesis db")
      (auto simp: EnsureInitialImport_def split: sum.splits if_splits)
  note f = load_genesis_body_Inr [OF assms(2) LoadGenesis_Inr [OF l assms(3)] assms(4)]
  then have "getNextRoundToAccount c db' = Inr 0" by (simp add: getNextRoundToAccount_def)
  with f b e Inl EnsureInitialImport_again [OF f(1,2)] show ?thesis by simp
next
  case (Inr rnd)
  from assms(1) Inr obtain u where b: "\<not> b"
    and l: "checkGenesisHash c (gen_Hash genesis) db = (Inr u, db')"
    by (auto simp: EnsureInitialImport_def split: sum.splits prod.splits)
  note f = checkGenesisHash_Inr [OF assms(2) l]
  obtain st where st: "getImportState c db = Inr st"
    using Inr by (auto simp: getNextRoundToAccount_def split: sum.splits if_splits)
  have "getNextRoundToAccount c db' = getNextRoundToAccount c db"
    using f(2) by (simp add: getNextRoundToAccount_def)
  with f b Inr EnsureInitialImport_again [OF _ f(1)] st show ?thesis by simp
qed

definition example_genesis :: Genesis where
  "example_genesis =
     \<lparr>Allocation = [\<lparr>alloc_Address = zero_Address, alloc_State = \<lparr>acct_Status = 1, acct_MicroAlgos = 500,
        acct_VoteID = [], acct_SelectionID = [], acct_StateProofID = [], acct_VoteLastValid = 0,
        acct_VoteKeyDilution = 0\<rparr>\<rparr>],
      gen_Hash = replicate 32 (CHR 0x07)\<rparr>"

theorem EnsureInitialImport_once_witness:
  "\<exists>db'. EnsureInitialImport example_sdk example_codec example_tx_env example_genesis empty_tables =
      Some (Inr True, db') \<and> map acc_microalgos (tbl_account db') = [500] \<and>
    EnsureInitialImport example_sdk example_codec example_tx_env example_genesis db' = Some (Inr False, db')"
proof -
  obtain db' where e:
    "EnsureInitialImport example_sdk example_codec example_tx_env example_genesis empty_tables =
      Some (Inr True, db')"
    by (auto simp: EnsureInitialImport_def getNextRoundToAccount_def getImportState_def GetMetastate_def
        empty_tables_def LoadGenesis_def TxWithRetry.simps simple_body_def attemptTx_def example_tx_env_def
        conflict_tx_def quiet_tx_def isSerializationError_def errors_Is_def load_genesis_body_def
        getNetworkState_def example_genesis_def load_account_def insert_row_def has_key_def
        setNetworkState_def SetMetastate_def upsert_metastate_def example_sdk_def result_simps)
  have "key_unique acc_addr (tbl_account (empty_tables :: document main_tables))"
    by (simp add: empty_tables_def key_unique_def)
  from EnsureInitialImport_once [OF e example_metastate honest_example_tx_env this,
      of example_tx_env example_genesis] e
  show ?thesis by (simp add: genesis_rows_def genesis_row_def example_genesis_def empty_tables_def)
qed

section \<open>Pruning\<close>

lemma round_before_iff:
  "n < 2 ^ 64 \<Longrightarrow> of_nat n < keep \<longleftrightarrow> n < unat keep" for keep :: uint64
  by (simp add: word_less_nat_alt unat_of_nat64)

lemma filter_block:
  fixes keep :: uint64
  assumes "\<forall>x \<in> set xs. f x = of_nat n" "n < 2 ^ 64"
  shows "filter (\<lambda>x. \<not> f x < keep) xs = (if unat keep \<le> n then xs else [])"
  using assms round_before_iff [OF assms(2), of keep] by (auto simp: filter_id_conv filter_empty_conv)

definition kept_rounds :: "uint64 \<Rightarrow> nat \<Rightarrow> nat list" where
  "kept_rounds keep k = filter (\<lambda>n. unat keep \<le> n) [1..<Suc k]"

lemma kept_rounds_Suc:
  "kept_rounds keep (Suc k) = kept_rounds keep k @ (if unat keep \<le> Suc k then [Suc k] else [])"
  by (simp add: kept_rounds_def)

lemma pruned_rows:
  assumes "importable env c chain" "k < 2 ^ 64"
  shows "delete_where (\<lambda>r. t_round r < keep) (tbl_txn (txns_upto env c chain k)) =
      concat (map (\<lambda>n. txn_rows env c (vb_Block (chain (of_nat n)))) (kept_rounds keep k))"
    and "delete_where (\<lambda>r. tp_round r < keep) (tbl_txn_participation (txns_upto env c chain k)) =
      concat (map (\<lambda>n. transactionParticipation (vb_Block (chain (of_nat n)))) (kept_rounds keep k))"
proof -
  have t: "\<forall>r \<in> set (txn_rows env c (vb_Block (chain n))). t_round r = n" for n
    by (rule txn_rows_keys(2) [OF assms(1)])
  have p: "\<forall>r \<in> set (transactionParticipation (vb_Block (chain n))). tp_round r = n" for n
    by (auto dest: participation_round simp: importable_block(2) [OF assms(1)])
  show "delete_where (\<lambda>r. t_round r < keep) (tbl_txn (txns_upto env c chain k)) =
      concat (map (\<lambda>n. txn_rows env c (vb_Block (chain (of_nat n)))) (kept_rounds keep k))"
    using assms(2)
  proof (induction k)
    case (Suc k)
    have "k < 2 ^ 64" using Suc.prems by linarith
    from Suc.IH [OF this] filter_block [where f = t_round, OF t Suc.prems, of keep] show ?case
      by (simp add: delete_where_def kept_rounds_Suc Let_def del: of_nat_Suc)
  qed (simp add: delete_where_def kept_rounds_def)
  show "delete_where (\<lambda>r. tp_round r < keep) (tbl_txn_participation (txns_upto env c chain k)) =
      concat (map (\<lambda>n. transactionParticipation (vb_Block (chain (of_nat n)))) (kept_rounds keep k))"
    using assms(2)
  proof (induction k)
    case (Suc k)
    have "k < 2 ^ 64" using Suc.prems by linarith
    from Suc.IH [OF this] filter_block [where f = tp_round, OF p Suc.prems, of keep] show ?case
      by (simp add: delete_where_def kept_rounds_Suc Let_def del: of_nat_Suc)
  qed (simp add: delete_where_def kept_rounds_def)
qed



end
