(* ===== verification/Filters.thy ===== *)
theory Filters
  imports Idb
begin

text \<open>
  The parameter objects of the read side of the database interface (\<^verbatim>\<open>idb/idb.go\<close>): filters of blocks
  and transactions, and queries of accounts, assets, applications and boxes. A pointer is an option,
  a nil slice and an empty slice are told apart where the code does (\<open>Address\<close> is an option), and a
  set of addresses is a list without order.
\<close>

record GetBlockOptions =
  gbo_Transactions :: bool
  MaxTransactionsLimit :: uint64

record BlockHeaderFilter =
  bf_Limit :: uint64
  bf_MaxRound :: "uint64 option"
  bf_MinRound :: "uint64 option"
  bf_AfterTime :: Time
  bf_BeforeTime :: Time
  bf_Proposers :: "Address list"
  bf_ExpiredParticipationAccounts :: "Address list"
  bf_AbsentParticipationAccounts :: "Address list"

record TransactionFilter =
  SkipOptimization :: bool
  tf_Address :: "bytes option"
  tf_AddressRole :: AddressRole
  tf_MinRound :: uint64
  tf_MaxRound :: uint64
  tf_AfterTime :: Time
  tf_BeforeTime :: Time
  tf_TypeEnum :: TxnTypeEnum
  tf_Txid :: string
  tf_Round :: "uint64 option"
  tf_Offset :: "uint64 option"
  tf_OffsetLT :: "uint64 option"
  tf_OffsetGT :: "uint64 option"
  tf_SigType :: SigType
  tf_NotePrefix :: bytes
  tf_GroupID :: bytes
  tf_AlgosGT :: "uint64 option"
  tf_AlgosLT :: "uint64 option"
  tf_RekeyTo :: "bool option"
  tf_AssetID :: "uint64 option"
  tf_AssetAmountGT :: "uint64 option"
  tf_AssetAmountLT :: "uint64 option"
  tf_ApplicationID :: "uint64 option"
  tf_EffectiveAmountGT :: "uint64 option"
  tf_EffectiveAmountLT :: "uint64 option"
  tf_NextToken :: string
  tf_Limit :: uint64
  tf_SkipInnerTransactionConversion :: bool
  tf_SkipInnerTransactions :: bool
  tf_HeaderOnly :: bool
  tf_RequireApplicationLogs :: bool

definition zero_TransactionFilter :: TransactionFilter where
  "zero_TransactionFilter =
     \<lparr>SkipOptimization = False, tf_Address = None, tf_AddressRole = 0, tf_MinRound = 0, tf_MaxRound = 0,
      tf_AfterTime = zero_time, tf_BeforeTime = zero_time, tf_TypeEnum = 0, tf_Txid = [], tf_Round = None,
      tf_Offset = None, tf_OffsetLT = None, tf_OffsetGT = None, tf_SigType = [], tf_NotePrefix = [],
      tf_GroupID = [], tf_AlgosGT = None, tf_AlgosLT = None, tf_RekeyTo = None, tf_AssetID = None,
      tf_AssetAmountGT = None, tf_AssetAmountLT = None, tf_ApplicationID = None,
      tf_EffectiveAmountGT = None, tf_EffectiveAmountLT = None, tf_NextToken = [], tf_Limit = 0,
      tf_SkipInnerTransactionConversion = False, tf_SkipInnerTransactions = False,
      tf_HeaderOnly = False, tf_RequireApplicationLogs = False\<rparr>"

definition zero_BlockHeaderFilter :: BlockHeaderFilter where
  "zero_BlockHeaderFilter =
     \<lparr>bf_Limit = 0, bf_MaxRound = None, bf_MinRound = None, bf_AfterTime = zero_time,
      bf_BeforeTime = zero_time, bf_Proposers = [], bf_ExpiredParticipationAccounts = [],
      bf_AbsentParticipationAccounts = []\<rparr>"

record AccountQueryOptions =
  ao_GreaterThanAddress :: bytes
  ao_EqualToAddress :: bytes
  ao_EqualToAuthAddr :: bytes
  ao_OnlineOnly :: bool
  ao_AlgosGreaterThan :: "uint64 option"
  ao_AlgosLessThan :: "uint64 option"
  ao_HasAssetID :: uint64
  ao_AssetGT :: "uint64 option"
  ao_AssetLT :: "uint64 option"
  ao_HasAppID :: uint64
  ao_IncludeAssetHoldings :: bool
  ao_IncludeAssetParams :: bool
  ao_IncludeAppLocalState :: bool
  ao_IncludeAppParams :: bool
  ao_MaxResources :: uint64
  ao_IncludeDeleted :: bool
  ao_Limit :: uint64

definition zero_AccountQueryOptions :: AccountQueryOptions where
  "zero_AccountQueryOptions =
     \<lparr>ao_GreaterThanAddress = [], ao_EqualToAddress = [], ao_EqualToAuthAddr = [], ao_OnlineOnly = False,
      ao_AlgosGreaterThan = None, ao_AlgosLessThan = None, ao_HasAssetID = 0, ao_AssetGT = None, ao_AssetLT = None,
      ao_HasAppID = 0, ao_IncludeAssetHoldings = False, ao_IncludeAssetParams = False, ao_IncludeAppLocalState = False,
      ao_IncludeAppParams = False, ao_MaxResources = 0, ao_IncludeDeleted = False, ao_Limit = 0\<rparr>"

record AssetsQuery =
  aq_AssetID :: "uint64 option"
  aq_AssetIDGreaterThan :: "uint64 option"
  aq_Creator :: "bytes option"
  aq_Name :: string
  aq_Unit :: string
  aq_Query :: string
  aq_IncludeDeleted :: bool
  aq_Limit :: uint64

record AssetBalanceQuery =
  abq_AssetID :: "uint64 option"
  abq_AssetIDGT :: "uint64 option"
  abq_AmountGT :: "uint64 option"
  abq_AmountLT :: "uint64 option"
  abq_Address :: "bytes option"
  abq_IncludeDeleted :: bool
  abq_Limit :: uint64
  abq_PrevAddress :: "bytes option"

record ApplicationQuery =
  apq_Address :: "bytes option"
  apq_ApplicationID :: "uint64 option"
  apq_ApplicationIDGreaterThan :: "uint64 option"
  apq_IncludeDeleted :: bool
  apq_Limit :: uint64

record ApplicationBoxQuery =
  bq_ApplicationID :: uint64
  bq_BoxName :: "bytes option"
  bq_OmitValues :: bool
  bq_Limit :: uint64
  bq_PrevFinalBox :: "bytes option"

end
