(* ===== verification/ApiTypes.thy ===== *)
theory ApiTypes
  imports SdkTypes
begin

text \<open>
  The response types of the API for accounts, assets, applications and boxes
  (\<^verbatim>\<open>api/generated/v2/types.go\<close>), which the database layer fills in. One record per struct, in the order
  of its fields; a pointer, and a slice that may be nil, is an option.
\<close>

section \<open>Applications\<close>

record model_TealValue =
  mtv_Bytes :: string
  mtv_Type :: uint64
  mtv_Uint :: uint64

record model_TealKeyValue =
  mkv_Key :: string
  mkv_Value :: model_TealValue

type_synonym TealKeyValueStore = "model_TealKeyValue list"

record ApplicationStateSchema =
  mss_NumByteSlice :: uint64
  mss_NumUint :: uint64

record ApplicationParams =
  apm_ApprovalProgram :: bytes
  apm_ClearStateProgram :: bytes
  apm_Creator :: "string option"
  apm_ExtraProgramPages :: "uint64 option"
  apm_GlobalState :: "TealKeyValueStore option"
  apm_GlobalStateSchema :: "ApplicationStateSchema option"
  apm_LocalStateSchema :: "ApplicationStateSchema option"
  apm_Version :: "uint64 option"

record Application =
  ma_CreatedAtRound :: "uint64 option"
  ma_Deleted :: "bool option"
  ma_DeletedAtRound :: "uint64 option"
  ma_Id :: uint64
  ma_Params :: ApplicationParams

record ApplicationLocalState =
  mls_ClosedOutAtRound :: "uint64 option"
  mls_Deleted :: "bool option"
  mls_Id :: uint64
  mls_KeyValue :: "TealKeyValueStore option"
  mls_OptedInAtRound :: "uint64 option"
  mls_Schema :: ApplicationStateSchema

definition zero_ApplicationParams :: ApplicationParams where
  "zero_ApplicationParams =
     \<lparr>apm_ApprovalProgram = [], apm_ClearStateProgram = [], apm_Creator = None, apm_ExtraProgramPages = None,
      apm_GlobalState = None, apm_GlobalStateSchema = None, apm_LocalStateSchema = None, apm_Version = None\<rparr>"

definition zero_Application :: Application where
  "zero_Application =
     \<lparr>ma_CreatedAtRound = None, ma_Deleted = None, ma_DeletedAtRound = None, ma_Id = 0, ma_Params = zero_ApplicationParams\<rparr>"

definition zero_ApplicationLocalState :: ApplicationLocalState where
  "zero_ApplicationLocalState =
     \<lparr>mls_ClosedOutAtRound = None, mls_Deleted = None, mls_Id = 0, mls_KeyValue = None, mls_OptedInAtRound = None,
      mls_Schema = \<lparr>mss_NumByteSlice = 0, mss_NumUint = 0\<rparr>\<rparr>"

record Box =
  box_Name :: "bytes option"
  box_Round :: uint64
  box_Value :: "bytes option"

section \<open>Assets\<close>

record model_AssetParams =
  mp_Clawback :: "string option"
  mp_Creator :: string
  mp_Decimals :: uint64
  mp_DefaultFrozen :: "bool option"
  mp_Freeze :: "string option"
  mp_Manager :: "string option"
  mp_MetadataHash :: "bytes option"
  mp_Name :: "string option"
  mp_NameB64 :: "bytes option"
  mp_Reserve :: "string option"
  mp_Total :: uint64
  mp_UnitName :: "string option"
  mp_UnitNameB64 :: "bytes option"
  mp_Url :: "string option"
  mp_UrlB64 :: "bytes option"

record Asset =
  mas_CreatedAtRound :: "uint64 option"
  mas_Deleted :: "bool option"
  mas_DestroyedAtRound :: "uint64 option"
  mas_Index :: uint64
  mas_Params :: model_AssetParams

record MiniAssetHolding =
  mah_Address :: string
  mah_Amount :: uint64
  mah_Deleted :: "bool option"
  mah_IsFrozen :: bool
  mah_OptedInAtRound :: "uint64 option"
  mah_OptedOutAtRound :: "uint64 option"

record model_AssetHolding =
  mh_Amount :: uint64
  mh_AssetId :: uint64
  mh_Deleted :: "bool option"
  mh_IsFrozen :: bool
  mh_OptedInAtRound :: "uint64 option"
  mh_OptedOutAtRound :: "uint64 option"

section \<open>Accounts\<close>

record AccountParticipation =
  mpt_SelectionParticipationKey :: bytes
  mpt_StateProofKey :: "bytes option"
  mpt_VoteFirstValid :: uint64
  mpt_VoteKeyDilution :: uint64
  mpt_VoteLastValid :: uint64
  mpt_VoteParticipationKey :: bytes

record model_Account =
  mac_Address :: string
  mac_Amount :: uint64
  mac_AmountWithoutPendingRewards :: uint64
  mac_AppsLocalState :: "ApplicationLocalState list option"
  mac_AppsTotalExtraPages :: "uint64 option"
  mac_AppsTotalSchema :: "ApplicationStateSchema option"
  mac_Assets :: "model_AssetHolding list option"
  mac_AuthAddr :: "string option"
  mac_ClosedAtRound :: "uint64 option"
  mac_CreatedApps :: "Application list option"
  mac_CreatedAssets :: "Asset list option"
  mac_CreatedAtRound :: "uint64 option"
  mac_Deleted :: "bool option"
  mac_IncentiveEligible :: "bool option"
  mac_LastHeartbeat :: "uint64 option"
  mac_LastProposed :: "uint64 option"
  mac_MinBalance :: uint64
  mac_Participation :: "AccountParticipation option"
  mac_PendingRewards :: uint64
  mac_RewardBase :: "uint64 option"
  mac_Rewards :: uint64
  mac_Round :: uint64
  mac_SigType :: "string option"
  mac_Status :: string
  mac_TotalAppsOptedIn :: uint64
  mac_TotalAssetsOptedIn :: uint64
  mac_TotalBoxBytes :: uint64
  mac_TotalBoxes :: uint64
  mac_TotalCreatedApps :: uint64
  mac_TotalCreatedAssets :: uint64

definition zero_Account :: model_Account where
  "zero_Account =
     \<lparr>mac_Address = [], mac_Amount = 0, mac_AmountWithoutPendingRewards = 0, mac_AppsLocalState = None,
      mac_AppsTotalExtraPages = None, mac_AppsTotalSchema = None, mac_Assets = None, mac_AuthAddr = None,
      mac_ClosedAtRound = None, mac_CreatedApps = None, mac_CreatedAssets = None, mac_CreatedAtRound = None,
      mac_Deleted = None, mac_IncentiveEligible = None, mac_LastHeartbeat = None, mac_LastProposed = None,
      mac_MinBalance = 0, mac_Participation = None, mac_PendingRewards = 0, mac_RewardBase = None, mac_Rewards = 0,
      mac_Round = 0, mac_SigType = None, mac_Status = [], mac_TotalAppsOptedIn = 0, mac_TotalAssetsOptedIn = 0,
      mac_TotalBoxBytes = 0, mac_TotalBoxes = 0, mac_TotalCreatedApps = 0, mac_TotalCreatedAssets = 0\<rparr>"

end
