(* ===== verification/Rewind.thy ===== *)
theory Rewind
  imports Filters ApiTypes
begin

text \<open>
  Rewinding an account to an earlier round (\<^verbatim>\<open>accounting/rewind.go\<close>): the transactions of the account
  after the round are fetched from the database and their effects on the balance and the asset
  holdings are undone.

  The database is a parameter: the special accounts, and the answer to the query for transactions.
\<close>

section \<open>The code\<close>

fun update_holding :: "model_AssetHolding list \<Rightarrow> uint64 \<Rightarrow> uint64 \<Rightarrow> uint64 \<Rightarrow> model_AssetHolding list" where
  "update_holding [] assetid add sub =
     [\<lparr>mh_Amount = add - sub, mh_AssetId = assetid, mh_Deleted = None, mh_IsFrozen = False,
       mh_OptedInAtRound = None, mh_OptedOutAtRound = None\<rparr>]"
| "update_holding (ah # assets) assetid add sub =
     (if mh_AssetId ah = assetid then ah\<lparr>mh_Amount := mh_Amount ah + add - sub\<rparr> # assets
      else ah # update_holding assets assetid add sub)"

definition assetUpdate :: "uint64 \<Rightarrow> uint64 \<Rightarrow> uint64 \<Rightarrow> model_Account \<Rightarrow> model_Account" where
  "assetUpdate assetid add sub account =
     (let assets = (case mac_Assets account of None \<Rightarrow> [] | Some assets \<Rightarrow> assets)
      in account\<lparr>mac_Assets := Some (update_holding assets assetid add sub)\<rparr>)"

definition credit :: "uint64 \<Rightarrow> model_Account \<Rightarrow> model_Account" where
  "credit x acct = acct\<lparr>mac_AmountWithoutPendingRewards := mac_AmountWithoutPendingRewards acct + x\<rparr>"

definition debit :: "uint64 \<Rightarrow> model_Account \<Rightarrow> model_Account" where
  "debit x acct = acct\<lparr>mac_AmountWithoutPendingRewards := mac_AmountWithoutPendingRewards acct - x\<rparr>"

definition apply_if :: "bool \<Rightarrow> ('a \<Rightarrow> 'a) \<Rightarrow> 'a \<Rightarrow> 'a" where
  "apply_if b f x = (if b then f x else x)"

definition rewind_payment :: "Address \<Rightarrow> SignedTxnWithAD \<Rightarrow> model_Account \<Rightarrow> model_Account" where
  "rewind_payment addr stxn acct =
     (let pay = PaymentTxnFields (stxn_Txn stxn); ad = ApplyData stxn;
          acct = apply_if (addr = Sender (Header (stxn_Txn stxn))) (credit (pay_Amount pay)) acct;
          acct = apply_if (addr = Receiver pay) (debit (ReceiverRewards ad) \<circ> debit (pay_Amount pay)) acct
      in if addr = CloseRemainderTo pay then debit (CloseRewards ad) (debit (ClosingAmount ad) acct)
         else if \<not> IsZero (CloseRemainderTo pay) then credit (ClosingAmount ad) acct
         else acct)"

definition rewind_asset_transfer ::
  "Address \<Rightarrow> SignedTxnWithAD \<Rightarrow> uint64 \<Rightarrow> model_Account \<Rightarrow> model_Account" where
  "rewind_asset_transfer addr stxn closeAmount acct =
     (let xfer = AssetTransferTxnFields (stxn_Txn stxn);
          acct = apply_if (addr = AssetSender xfer \<or> addr = Sender (Header (stxn_Txn stxn)))
                   (assetUpdate (XferAsset xfer) (AssetAmount xfer + closeAmount) 0) acct;
          acct = apply_if (addr = AssetReceiver xfer) (assetUpdate (XferAsset xfer) 0 (AssetAmount xfer)) acct
      in apply_if (addr = AssetCloseTo xfer) (assetUpdate (XferAsset xfer) 0 closeAmount) acct)"

text \<open>The body of the loop over the transactions.\<close>

definition rewind_row :: "Address \<Rightarrow> TxnRow \<Rightarrow> model_Account \<Rightarrow> model_Account result" where
  "rewind_row addr txnrow acct =
     (case tr_Error txnrow of
        Some e \<Rightarrow> Inl e
      | None \<Rightarrow>
          (case tr_Txn txnrow of
             None \<Rightarrow> Inl (ErrMsg ''rewinding past inner transactions is not supported'')
           | Some stxn \<Rightarrow>
               let txn = stxn_Txn stxn;
                   acct = apply_if (addr = Sender (Header txn))
                            (debit (SenderRewards (ApplyData stxn)) \<circ> credit (Fee (Header txn))) acct
               in if txn_Type txn = PaymentTx then Inr (rewind_payment addr stxn acct)
                  else if txn_Type txn = KeyRegistrationTx then Inr acct
                  else if txn_Type txn = AssetConfigTx then
                    Inr (apply_if (ConfigAsset (AssetConfigTxnFields txn) = 0)
                      (assetUpdate (tr_AssetID txnrow) 0 (Total (acfg_AssetParams (AssetConfigTxnFields txn)))) acct)
                  else if txn_Type txn = AssetTransferTx then
                    Inr (rewind_asset_transfer addr stxn (AssetCloseAmount (tr_Extra txnrow)) acct)
                  else if txn_Type txn = AssetFreezeTx \<or> txn_Type txn = HeartbeatTx then Inr acct
                  else Inl (ErrMsg ''rewinding past txn type is not currently supported'')))"

definition rewind_filter :: "Address \<Rightarrow> uint64 \<Rightarrow> model_Account \<Rightarrow> TransactionFilter" where
  "rewind_filter addr rnd account =
     zero_TransactionFilter\<lparr>tf_Address := Some addr, tf_MinRound := rnd + 1, tf_MaxRound := mac_Round account\<rparr>"

text \<open>\<open>specialAccounts\<close> is a cache: \<open>cached\<close> is its value before the call, and the result has its value
  after the call.\<close>

definition AccountAtRound ::
  "sdk \<Rightarrow> SpecialAddresses result \<Rightarrow> (TransactionFilter \<Rightarrow> TxnRow list \<times> uint64) \<Rightarrow>
   SpecialAddresses option \<Rightarrow> model_Account \<Rightarrow> uint64 \<Rightarrow> model_Account result \<times> SpecialAddresses option" where
  "AccountAtRound env GetSpecialAccounts Transactions cached account rnd =
     (case (case cached of Some a \<Rightarrow> Inr a | None \<Rightarrow> GetSpecialAccounts) of
        Inl _ \<Rightarrow> (Inl (ErrMsg ''unable to get special accounts''), cached)
      | Inr special \<Rightarrow>
          (case DecodeAddress env (mac_Address account) of
             Inl e \<Rightarrow> Inl e
           | Inr addr \<Rightarrow>
               if sa_FeeSink special = addr then Inl (SpecialAccountRewindError ''FeeSink'')
               else if sa_RewardsPool special = addr then Inl (SpecialAccountRewindError ''RewardsPool'')
               else case Transactions (rewind_filter addr rnd account) of
                 (txns, r) \<Rightarrow>
                   if r < mac_Round account then Inl ConsistencyError
                   else res_bind (res_fold (rewind_row addr) txns account) (\<lambda>acct.
                     Inr (acct\<lparr>mac_Round := rnd, mac_Rewards := 0, mac_PendingRewards := 0,
                       mac_Amount := mac_AmountWithoutPendingRewards acct, mac_MinBalance := 0\<rparr>)),
           Some special))"

section \<open>The effect of a transaction on an account\<close>

text \<open>The ledger's side: what a transaction adds to the balance and to the holdings of an account. The
  close-to address of a payment receives the remaining balance, that of an asset transfer the
  remaining holding; the assets of a clawback come from the asset sender and not from the sender of
  the transaction; a new asset is held by its creator.\<close>

definition balance_effect :: "Address \<Rightarrow> SignedTxnWithAD \<Rightarrow> uint64" where
  "balance_effect addr stxn =
     (let txn = stxn_Txn stxn; ad = ApplyData stxn; pay = PaymentTxnFields txn;
          from_sender = (if addr = Sender (Header txn) then SenderRewards ad - Fee (Header txn) else 0)
      in if txn_Type txn = PaymentTx then
           from_sender
           - (if addr = Sender (Header txn) then pay_Amount pay else 0)
           + (if addr = Receiver pay then pay_Amount pay + ReceiverRewards ad else 0)
           + (if IsZero (CloseRemainderTo pay) then 0
              else (if addr = CloseRemainderTo pay then ClosingAmount ad + CloseRewards ad else 0)
                 - (if addr = Sender (Header txn) then ClosingAmount ad else 0))
         else from_sender)"

definition holding_effect :: "Address \<Rightarrow> TxnRow \<Rightarrow> SignedTxnWithAD \<Rightarrow> uint64 \<Rightarrow> uint64" where
  "holding_effect addr row stxn aid =
     (let txn = stxn_Txn stxn; xfer = AssetTransferTxnFields txn; close = AssetCloseAmount (tr_Extra row);
          src = (if IsZero (AssetSender xfer) then Sender (Header txn) else AssetSender xfer)
      in if txn_Type txn = AssetTransferTx \<and> aid = XferAsset xfer then
           (if addr = AssetReceiver xfer then AssetAmount xfer else 0)
           + (if \<not> IsZero (AssetCloseTo xfer) \<and> addr = AssetCloseTo xfer then close else 0)
           - (if addr = src then AssetAmount xfer + close else 0)
         else if txn_Type txn = AssetConfigTx \<and> ConfigAsset (AssetConfigTxnFields txn) = 0 \<and>
             aid = tr_AssetID row \<and> addr = Sender (Header txn) then
           Total (acfg_AssetParams (AssetConfigTxnFields txn))
         else 0)"

text \<open>The amount of an asset in a list of holdings.\<close>

fun holding_amount :: "model_AssetHolding list \<Rightarrow> uint64 \<Rightarrow> uint64" where
  "holding_amount [] aid = 0"
| "holding_amount (h # hs) aid = (if mh_AssetId h = aid then mh_Amount h else holding_amount hs aid)"

definition holdings :: "model_Account \<Rightarrow> uint64 \<Rightarrow> uint64" where
  "holdings acct = holding_amount (case mac_Assets acct of None \<Rightarrow> [] | Some hs \<Rightarrow> hs)"

lemma holding_amount_update:
  "holding_amount (update_holding hs aid add sub) i =
     (if i = aid then holding_amount hs i + add - sub else holding_amount hs i)"
  by (induction hs) auto

lemma holdings_assetUpdate [simp]:
  "holdings (assetUpdate aid add sub acct) = (holdings acct)(aid := holdings acct aid + add - sub)"
  "mac_AmountWithoutPendingRewards (assetUpdate aid add sub acct) = mac_AmountWithoutPendingRewards acct"
  by (auto simp: holdings_def assetUpdate_def holding_amount_update Let_def fun_eq_iff)

lemma holdings_apply_if:
  "holdings (apply_if b (assetUpdate aid add sub) acct) i =
     holdings acct i + (if b \<and> i = aid then add - sub else 0)"
  by (simp add: apply_if_def)

lemma credit_simps [simp]:
  "holdings (credit x acct) = holdings acct" "holdings (debit x acct) = holdings acct"
  "mac_AmountWithoutPendingRewards (credit x acct) = mac_AmountWithoutPendingRewards acct + x"
  "mac_AmountWithoutPendingRewards (debit x acct) = mac_AmountWithoutPendingRewards acct - x"
  by (simp_all add: holdings_def credit_def debit_def)

section \<open>Rewinding inverts the effects\<close>

text \<open>The rows whose effects the code undoes correctly, for an account that is not the zero address: a
  payment that closes the sender's account must be the account's own or close to it; an asset transfer
  sent by the account must not be a clawback from another account; a new asset must be the account's
  own and an existing one must not be destroyed.\<close>

definition rewindable :: "Address \<Rightarrow> TxnRow \<Rightarrow> bool" where
  "rewindable addr row \<longleftrightarrow>
     (case tr_Txn row of
        None \<Rightarrow> True
      | Some stxn \<Rightarrow>
          (let txn = stxn_Txn stxn; pay = PaymentTxnFields txn; xfer = AssetTransferTxnFields txn;
               acfg = AssetConfigTxnFields txn
           in (txn_Type txn = PaymentTx \<and> \<not> IsZero (CloseRemainderTo pay) \<longrightarrow>
                 (addr = CloseRemainderTo pay) \<noteq> (addr = Sender (Header txn))) \<and>
              (txn_Type txn = AssetTransferTx \<and> addr = Sender (Header txn) \<and> \<not> IsZero (AssetSender xfer) \<longrightarrow>
                 addr = AssetSender xfer) \<and>
              (txn_Type txn = AssetConfigTx \<longrightarrow>
                 (if ConfigAsset acfg = 0 then addr = Sender (Header txn)
                  else acfg_AssetParams acfg \<noteq> zero_AssetParams))))"

definition row_balance :: "Address \<Rightarrow> TxnRow \<Rightarrow> uint64" where
  "row_balance addr row = (case tr_Txn row of None \<Rightarrow> 0 | Some stxn \<Rightarrow> balance_effect addr stxn)"

definition row_holding :: "Address \<Rightarrow> uint64 \<Rightarrow> TxnRow \<Rightarrow> uint64" where
  "row_holding addr aid row = (case tr_Txn row of None \<Rightarrow> 0 | Some stxn \<Rightarrow> holding_effect addr row stxn aid)"

lemmas rewind_defs = rewind_row_def rewind_payment_def rewind_asset_transfer_def apply_if_def Let_def

lemma rewind_row_balance:
  assumes "rewind_row addr row acct = Inr acct'" "rewindable addr row" "\<not> IsZero addr"
  shows "mac_AmountWithoutPendingRewards acct' + row_balance addr row = mac_AmountWithoutPendingRewards acct"
proof -
  obtain stxn where s: "tr_Txn row = Some stxn" "tr_Error row = None"
    using assms(1) by (auto simp: rewind_row_def split: option.splits)
  show ?thesis
  proof (cases "txn_Type (stxn_Txn stxn) = PaymentTx")
    case True
    with assms s show ?thesis
      by (auto simp: rewind_defs rewindable_def row_balance_def balance_effect_def IsZero_def
          split: if_splits)
  next
    case False
    with assms(1) s show ?thesis
      by (auto simp: rewind_defs row_balance_def balance_effect_def split: if_splits)
  qed
qed

lemma TxType_distinct:
  "PaymentTx \<noteq> AssetTransferTx" "PaymentTx \<noteq> AssetConfigTx" "AssetConfigTx \<noteq> AssetTransferTx"
  "KeyRegistrationTx \<noteq> AssetTransferTx" "KeyRegistrationTx \<noteq> AssetConfigTx" "AssetTransferTx \<noteq> AssetConfigTx"
  "AssetTransferTx \<noteq> PaymentTx" "AssetConfigTx \<noteq> PaymentTx" "AssetTransferTx \<noteq> KeyRegistrationTx"
  "AssetConfigTx \<noteq> KeyRegistrationTx"
  by (simp_all add: TxType_defs)

lemma rewind_payment_holdings: "holdings (rewind_payment addr stxn acct) = holdings acct"
  by (simp add: rewind_payment_def Let_def apply_if_def)

lemma rewind_transfer_holding:
  assumes "\<not> IsZero addr"
    and "addr = Sender (Header (stxn_Txn stxn)) \<and> \<not> IsZero (AssetSender (AssetTransferTxnFields (stxn_Txn stxn))) \<longrightarrow>
      addr = AssetSender (AssetTransferTxnFields (stxn_Txn stxn))"
    and "txn_Type (stxn_Txn stxn) = AssetTransferTx"
  shows "holdings (rewind_asset_transfer addr stxn (AssetCloseAmount (tr_Extra row)) acct) aid +
    holding_effect addr row stxn aid = holdings acct aid"
proof -
  let ?x = "AssetTransferTxnFields (stxn_Txn stxn)" and ?s = "Sender (Header (stxn_Txn stxn))"
  have src: "addr = AssetSender ?x \<or> addr = ?s \<longleftrightarrow> addr = (if IsZero (AssetSender ?x) then ?s else AssetSender ?x)"
    using assms(1,2) by auto
  have cl: "\<not> IsZero (AssetCloseTo ?x) \<and> addr = AssetCloseTo ?x \<longleftrightarrow> addr = AssetCloseTo ?x"
    using assms(1) by auto
  show ?thesis
    unfolding rewind_asset_transfer_def Let_def holdings_apply_if holding_effect_def src cl
    using assms(3) by (simp add: TxType_distinct)
qed

lemma rewind_row_holding:
  assumes "rewind_row addr row acct = Inr acct'" "rewindable addr row" "\<not> IsZero addr"
  shows "holdings acct' aid + row_holding addr aid row = holdings acct aid"
proof -
  obtain stxn where s: "tr_Txn row = Some stxn" "tr_Error row = None"
    using assms(1) by (auto simp: rewind_row_def split: option.splits)
  have start: "holdings (apply_if b (debit x \<circ> credit y) acct) = holdings acct" for b x y
    by (simp add: apply_if_def)
  note row = assms(1) [unfolded rewind_row_def s option.case Let_def]
  consider "txn_Type (stxn_Txn stxn) = AssetTransferTx" | "txn_Type (stxn_Txn stxn) = AssetConfigTx"
    | "txn_Type (stxn_Txn stxn) \<noteq> AssetTransferTx" "txn_Type (stxn_Txn stxn) \<noteq> AssetConfigTx" by blast
  then show ?thesis
  proof cases
    case 1
    with row obtain acct1 where "acct' = rewind_asset_transfer addr stxn (AssetCloseAmount (tr_Extra row)) acct1"
      "holdings acct1 = holdings acct"
      by (auto simp: TxType_distinct start)
    with rewind_transfer_holding [OF assms(3) _ 1] assms(2) 1 s show ?thesis
      by (simp add: rewindable_def row_holding_def Let_def)
  next
    case 2
    with row assms(2) s show ?thesis
      by (auto simp: TxType_distinct start holdings_apply_if rewindable_def row_holding_def
          holding_effect_def Let_def)
  next
    case 3
    with row s show ?thesis
      by (auto simp: start rewind_payment_holdings row_holding_def holding_effect_def Let_def split: if_splits)
  qed
qed

lemma res_fold_effects:
  fixes v :: "'s \<Rightarrow> 'w :: ab_group_add"
  assumes "res_fold f rows s = Inr s'"
    and "\<And>row s s'. row \<in> set rows \<Longrightarrow> f row s = Inr s' \<Longrightarrow> v s' + e row = v s"
  shows "v s' + sum_list (map e rows) = v s"
  using assms
proof (induction rows arbitrary: s)
  case (Cons row rows)
  from Cons.prems(1) obtain s1 where s1: "f row s = Inr s1" "res_fold f rows s1 = Inr s'"
    by (auto simp: res_bind_def split: sum.splits)
  have "v s' + sum_list (map e rows) = v s1" by (rule Cons.IH [OF s1(2)]) (simp add: Cons.prems(2))
  moreover have "v s1 + e row = v s" using Cons.prems(2) [OF _ s1(1)] by simp
  ultimately show ?case by (simp add: algebra_simps)
qed simp


definition example_rewind_row :: TxnRow where
  "example_rewind_row =
     \<lparr>tr_Round = 9, tr_RoundTime = 0, tr_Intra = 0,
      tr_Txn = Some (MkSignedTxnWithAD
        (zero_SignedTxn\<lparr>Txn := zero_Transaction\<lparr>txn_Type := PaymentTx,
           Header := zero_Header\<lparr>Sender := replicate 32 (CHR ''s''), Fee := 1\<rparr>,
           PaymentTxnFields := \<lparr>Receiver = replicate 32 (CHR ''r''), pay_Amount = 30, CloseRemainderTo = zero_Address\<rparr>\<rparr>\<rparr>)
        zero_ApplyData),
      tr_RootTxn = None, tr_AssetID = 0, tr_Extra = zero_TxnExtra, tr_Error = None\<rparr>"

definition example_rewind_account :: model_Account where
  "example_rewind_account =
     zero_Account\<lparr>mac_Address := replicate 32 (CHR ''s''), mac_Amount := 100, mac_AmountWithoutPendingRewards := 100,
       mac_Round := 9\<rparr>"


section \<open>Errors\<close>

definition rewind_types :: "string list" where
  "rewind_types = [PaymentTx, KeyRegistrationTx, AssetConfigTx, AssetTransferTx, AssetFreezeTx, HeartbeatTx]"

definition row_supported :: "TxnRow \<Rightarrow> bool" where
  "row_supported row \<longleftrightarrow>
     tr_Error row = None \<and>
     (case tr_Txn row of None \<Rightarrow> False | Some stxn \<Rightarrow> txn_Type (stxn_Txn stxn) \<in> set rewind_types)"

lemma rewind_row_succeeds: "(\<exists>acct'. rewind_row addr row acct = Inr acct') \<longleftrightarrow> row_supported row"
  by (simp add: rewind_row_def row_supported_def rewind_types_def Let_def split: option.split)

lemma rewind_rows_succeed:
  "(\<exists>acct'. res_fold (rewind_row addr) rows acct = Inr acct') \<longleftrightarrow> list_all row_supported rows"
proof (induction rows arbitrary: acct)
  case (Cons row rows)
  show ?case
  proof (cases "rewind_row addr row acct")
    case (Inl e)
    with rewind_row_succeeds [of addr row acct] show ?thesis by simp
  next
    case (Inr a)
    with rewind_row_succeeds [of addr row acct] Cons.IH [of a] show ?thesis by auto
  qed
qed simp

text \<open>An account can be rewound exactly when the special accounts are known, the address decodes and is
  neither the fee sink nor the rewards pool, the database is not behind the account, and every
  transaction since the round could be read, is not an inner transaction, and is of one of the
  supported types.\<close>

theorem AccountAtRound_succeeds_iff:
  "(\<exists>acct. fst (AccountAtRound env special txns cached account rnd) = Inr acct) \<longleftrightarrow>
     (\<exists>sp addr. (cached = Some sp \<or> cached = None \<and> special = Inr sp) \<and>
        DecodeAddress env (mac_Address account) = Inr addr \<and> addr \<noteq> sa_FeeSink sp \<and> addr \<noteq> sa_RewardsPool sp \<and>
        mac_Round account \<le> snd (txns (rewind_filter addr rnd account)) \<and>
        list_all row_supported (fst (txns (rewind_filter addr rnd account))))"
proof -
  have f: "(\<exists>acct. res_bind (res_fold (rewind_row addr) rows account) (\<lambda>acct. Inr (g acct)) = Inr acct) \<longleftrightarrow>
      list_all row_supported rows" for addr rows and g :: "model_Account \<Rightarrow> model_Account"
    using rewind_rows_succeed [of addr rows account] by (auto simp: res_bind_def split: sum.split)
  show ?thesis
    by (auto simp: AccountAtRound_def f not_less split: option.splits sum.splits prod.splits if_splits)
qed

section \<open>What is not undone correctly\<close>

text \<open>Two kinds of transactions are undone wrongly. A payment received from an account that is closed
  to a third account leaves the receiver's rewound balance too high by the closing amount. A clawback
  credits the clawback address with the amount that it moved between two other accounts.\<close>

theorem rewind_row_miscounts:
  assumes "tr_Error row = None" "tr_Txn row = Some stxn"
  shows "(txn_Type (stxn_Txn stxn) = PaymentTx \<and> addr \<noteq> Sender (Header (stxn_Txn stxn)) \<and>
      addr \<noteq> CloseRemainderTo (PaymentTxnFields (stxn_Txn stxn)) \<and>
      \<not> IsZero (CloseRemainderTo (PaymentTxnFields (stxn_Txn stxn))) \<longrightarrow>
      (\<exists>acct'. rewind_row addr row acct = Inr acct' \<and>
        mac_AmountWithoutPendingRewards acct' + row_balance addr row =
          mac_AmountWithoutPendingRewards acct + ClosingAmount (ApplyData stxn))) \<and>
    (let xfer = AssetTransferTxnFields (stxn_Txn stxn) in
      txn_Type (stxn_Txn stxn) = AssetTransferTx \<and> addr = Sender (Header (stxn_Txn stxn)) \<and> \<not> IsZero addr \<and>
      \<not> IsZero (AssetSender xfer) \<and> addr \<noteq> AssetSender xfer \<longrightarrow>
      (\<exists>acct'. rewind_row addr row acct = Inr acct' \<and>
        holdings acct' (XferAsset xfer) + row_holding addr (XferAsset xfer) row =
          holdings acct (XferAsset xfer) + AssetAmount xfer + AssetCloseAmount (tr_Extra row)))"
proof -
  have cl: "\<not> IsZero addr \<Longrightarrow> (\<not> IsZero a \<and> addr = a) = (addr = a)" for a by auto
  show ?thesis
    using assms
    by (auto simp: rewind_row_def rewind_payment_def apply_if_def row_balance_def balance_effect_def
        rewind_asset_transfer_def row_holding_def holding_effect_def TxType_distinct cl Let_def)
qed

definition example_close_row :: TxnRow where
  "example_close_row = example_rewind_row\<lparr>tr_Txn := Some (MkSignedTxnWithAD
     (zero_SignedTxn\<lparr>Txn := zero_Transaction\<lparr>txn_Type := PaymentTx,
        Header := zero_Header\<lparr>Sender := replicate 32 (CHR ''s'')\<rparr>,
        PaymentTxnFields := \<lparr>Receiver = replicate 32 (CHR ''r''), pay_Amount = 30,
          CloseRemainderTo = replicate 32 (CHR ''c'')\<rparr>\<rparr>\<rparr>)
     (MkApplyData 5 0 0 0 0 zero_EvalDelta 0 0))\<rparr>"

text \<open>The receiver of 30 gets 5 too many when the sender's last 5 go to a third account.\<close>

theorem rewind_row_miscounts_witness:
  "\<exists>acct'. rewind_row (replicate 32 (CHR ''r'')) example_close_row example_rewind_account = Inr acct' \<and>
    mac_AmountWithoutPendingRewards acct' + row_balance (replicate 32 (CHR ''r'')) example_close_row = 105"
proof -
  obtain stxn where s: "tr_Txn example_close_row = Some stxn" "tr_Error example_close_row = None"
    "txn_Type (stxn_Txn stxn) = PaymentTx" "Sender (Header (stxn_Txn stxn)) = replicate 32 (CHR ''s'')"
    "CloseRemainderTo (PaymentTxnFields (stxn_Txn stxn)) = replicate 32 (CHR ''c'')"
    "ClosingAmount (ApplyData stxn) = 5"
    by (simp add: example_close_row_def example_rewind_row_def)
  from rewind_row_miscounts [OF s(2,1), of "replicate 32 (CHR ''r'')" example_rewind_account] s(3-)
  show ?thesis by (auto simp: IsZero_def zero_bytes_def replicate_eq_replicate example_rewind_account_def)
qed

end
