(* ===== verification/SqlBuild.thy ===== *)
theory SqlBuild
  imports Idb "HOL-Library.Product_Lexorder" "HOL-Library.List_Lexorder" "HOL-Library.Char_ord"
begin

text \<open>
  Queries with numbered placeholders, as the searches of \<^verbatim>\<open>idb/postgres/postgres.go\<close> build them: the terms
  of the \<open>WHERE\<close> clause, the list of arguments and the number of the next placeholder grow together.
  The lemmas show that terms and arguments stay aligned; they hold for the terms of any search, given
  the function \<open>ev\<close> that evaluates a term with a list of arguments.
\<close>

section \<open>Building a query\<close>

text \<open>An argument of a query, as the code passes it.\<close>

datatype sql_arg =
    ArgU (the_U: uint64)
  | ArgB (the_B: bytes)
  | ArgS (the_S: string)
  | ArgT (the_T: Time)
  | ArgI (the_I: TxnTypeEnum)

text \<open>The variables \<open>whereParts\<close>, \<open>whereArgs\<close> and \<open>partNumber\<close>.\<close>

type_synonym 'p build = "'p list \<times> sql_arg list \<times> nat"

definition add_part :: "(nat \<Rightarrow> 'p) \<Rightarrow> sql_arg \<Rightarrow> 'p build \<Rightarrow> 'p build" where
  "add_part P a = (\<lambda>(ps, as, n). (ps @ [P n], as @ [a], n + 1))"

definition add_cond :: "'p \<Rightarrow> 'p build \<Rightarrow> 'p build" where
  "add_cond P = (\<lambda>(ps, as, n). (ps @ [P], as, n))"

definition add_if :: "bool \<Rightarrow> ('p build \<Rightarrow> 'p build) \<Rightarrow> 'p build \<Rightarrow> 'p build" where
  "add_if cond f b = (if cond then f b else b)"

definition add_opt :: "(nat \<Rightarrow> 'p) \<Rightarrow> uint64 option \<Rightarrow> 'p build \<Rightarrow> 'p build" where
  "add_opt P x b = (case x of None \<Rightarrow> b | Some v \<Rightarrow> add_part P (ArgU v) b)"

definition add_bytes :: "(nat \<Rightarrow> 'p) \<Rightarrow> bytes option \<Rightarrow> 'p build \<Rightarrow> 'p build" where
  "add_bytes P x b = (case x of None \<Rightarrow> b | Some v \<Rightarrow> add_part P (ArgB v) b)"

abbreviation arg_at :: "sql_arg list \<Rightarrow> nat \<Rightarrow> sql_arg" where
  "arg_at as n \<equiv> as ! (n - 1)"

section \<open>Text\<close>

definition placeholder :: "string \<Rightarrow> nat \<Rightarrow> string" where
  "placeholder s n = s @ ''$'' @ format_nat n"

definition quoted :: "string \<Rightarrow> string" where
  "quoted s = CHR 0x27 # s @ [CHR 0x27]"

section \<open>Rows\<close>

text \<open>A condition on \<open>NULL\<close> does not hold; a limit that is not given does not cut off.\<close>

definition option_holds :: "('a \<Rightarrow> bool) \<Rightarrow> 'a option \<Rightarrow> bool" where
  "option_holds P x = (case x of None \<Rightarrow> False | Some v \<Rightarrow> P v)"

definition limit_rows :: "uint64 option \<Rightarrow> 'a list \<Rightarrow> 'a list" where
  "limit_rows l xs = (case l of None \<Rightarrow> xs | Some n \<Rightarrow> take (unat n) xs)"

lemma limit_rows_map: "limit_rows l (map f xs) = map f (limit_rows l xs)"
  by (simp add: limit_rows_def take_map split: option.split)

lemma set_limit_rows: "set (limit_rows l xs) \<subseteq> set xs"
  by (auto simp: limit_rows_def dest: in_set_takeD split: option.splits)

text \<open>A condition on a parameter that may be missing.\<close>

definition given :: "('a \<Rightarrow> bool) \<Rightarrow> 'a option \<Rightarrow> bool" where
  "given P x = (case x of None \<Rightarrow> True | Some v \<Rightarrow> P v)"

lemma given_simps [simp]: "given P None" "given P (Some v) \<longleftrightarrow> P v"
  by (simp_all add: given_def)

text \<open>
  The server's answers to \<open>BeginTx\<close>, to the \<open>n\<close>-th query of the transaction and while its rows are
  read: an error after \<open>k\<close> rows, from \<open>Scan\<close> or \<open>rows.Err\<close>. \<open>ctx_done\<close> says whether the context is done
  between two queries.
\<close>

record query_env =
  begin_err :: "err option"
  query_err :: "nat \<Rightarrow> err option"
  rows_err :: "nat \<Rightarrow> (nat \<times> err) option"
  ctx_done :: bool

section \<open>Terms and arguments\<close>

text \<open>A partly built query is aligned when the next placeholder is that of the next argument and the
  arguments to come do not change the terms it has. A term is local when it reads only the argument
  of its placeholder.\<close>

definition holds :: "(sql_arg list \<Rightarrow> 'p \<Rightarrow> bool) \<Rightarrow> 'p build \<Rightarrow> bool" where
  "holds ev = (\<lambda>(ps, as, n). list_all (ev as) ps)"

definition aligned :: "(sql_arg list \<Rightarrow> 'p \<Rightarrow> bool) \<Rightarrow> 'p build \<Rightarrow> bool" where
  "aligned ev = (\<lambda>(ps, as, n).
     n = length as + 1 \<and> (\<forall>rest. list_all (ev (as @ rest)) ps = list_all (ev as) ps))"

definition local_part :: "(sql_arg list \<Rightarrow> 'p \<Rightarrow> bool) \<Rightarrow> (nat \<Rightarrow> 'p) \<Rightarrow> bool" where
  "local_part ev P \<longleftrightarrow> (\<forall>as n. ev as (P n) = ev [arg_at as n] (P 1))"

named_theorems query_simps

lemma aligned_start [query_simps]: "aligned ev ([], [], 1)" "holds ev ([], [], 1)"
  by (simp_all add: aligned_def holds_def)

lemma local_part_at:
  assumes "local_part ev P"
  shows "ev ((as @ [a]) @ rest) (P (length as + 1)) = ev [a] (P 1)"
proof -
  have "ev ((as @ [a]) @ rest) (P (length as + 1)) = ev [arg_at ((as @ [a]) @ rest) (length as + 1)] (P 1)"
    using assms unfolding local_part_def by blast
  then show ?thesis by simp
qed

lemma add_part_aligned [query_simps]:
  assumes "aligned ev b" and "local_part ev P"
  shows "aligned ev (add_part P a b)" and "holds ev (add_part P a b) \<longleftrightarrow> holds ev b \<and> ev [a] (P 1)"
proof -
  obtain ps as n where b: "b = (ps, as, n)" by (cases b)
  with assms(1) have n: "n = length as + 1"
    and al: "\<And>rest. list_all (ev (as @ rest)) ps = list_all (ev as) ps"
    by (auto simp: aligned_def)
  have "list_all (ev ((as @ [a]) @ rest)) (ps @ [P n]) \<longleftrightarrow> list_all (ev as) ps \<and> ev [a] (P 1)" for rest
    using al [of "[a] @ rest"] local_part_at [OF assms(2), of as a rest] n by simp
  from this this [of "[]"] b n show "aligned ev (add_part P a b)"
    and "holds ev (add_part P a b) \<longleftrightarrow> holds ev b \<and> ev [a] (P 1)"
    by (simp_all add: aligned_def holds_def add_part_def)
qed

lemma add_cond_aligned [query_simps]:
  assumes "aligned ev b" and "\<And>as. ev as P = ev [] P"
  shows "aligned ev (add_cond P b)" and "holds ev (add_cond P b) \<longleftrightarrow> holds ev b \<and> ev [] P"
  using assms(1) assms(2) [of "fst (snd b) @ _"] assms(2) [of "fst (snd b)"]
  by (auto simp: aligned_def holds_def add_cond_def split: prod.splits)

lemma add_if_aligned [query_simps]:
  "aligned ev (add_if cond f b) \<longleftrightarrow> (if cond then aligned ev (f b) else aligned ev b)"
  "holds ev (add_if cond f b) \<longleftrightarrow> (if cond then holds ev (f b) else holds ev b)"
  by (simp_all add: add_if_def)

lemma add_opt_aligned [query_simps]:
  assumes "aligned ev b" and "local_part ev P"
  shows "aligned ev (add_opt P x b)"
    and "holds ev (add_opt P x b) \<longleftrightarrow> holds ev b \<and> given (\<lambda>v. ev [ArgU v] (P 1)) x"
  using assms by (auto simp: add_opt_def add_part_aligned split: option.split)

lemma add_bytes_aligned [query_simps]:
  assumes "aligned ev b" and "local_part ev P"
  shows "aligned ev (add_bytes P x b)"
    and "holds ev (add_bytes P x b) \<longleftrightarrow> holds ev b \<and> given (\<lambda>v. ev [ArgB v] (P 1)) x"
  using assms by (auto simp: add_bytes_def add_part_aligned split: option.split)

section \<open>Orders\<close>

lemma hd_sort_key:
  assumes "sort_key f xs = y # ys"
  shows "y \<in> set xs" and "x \<in> set xs \<Longrightarrow> f y \<le> f x"
proof -
  have "set xs = set (y # ys)" and "sorted (map f (y # ys))"
    using assms by (metis set_sort, metis sorted_sort_key)
  then show "y \<in> set xs" and "x \<in> set xs \<Longrightarrow> f y \<le> f x" by auto
qed

lemma hd_rev_sort_key:
  assumes "rev (sort_key f xs) = y # ys"
  shows "y \<in> set xs" and "x \<in> set xs \<Longrightarrow> f x \<le> f y"
proof -
  have e: "sort_key f xs = rev ys @ [y]" using assms by (metis rev.simps(2) rev_rev_ident)
  have "set xs = set (rev ys @ [y])" using e by (metis set_sort)
  moreover have "sorted (map f (rev ys @ [y]))" using e by (metis sorted_sort_key)
  ultimately show "y \<in> set xs" and "x \<in> set xs \<Longrightarrow> f x \<le> f y" by (auto simp: sorted_append)
qed

lemma map_sort_key: "sort_key f (map g xs) = map g (sort_key (\<lambda>x. f (g x)) xs)"
proof -
  have "insort_key f (g x) (map g ys) = map g (insort_key (\<lambda>x. f (g x)) x ys)" for x ys
    by (induction ys) auto
  then show ?thesis by (induction xs) auto
qed

lemma sort_key_cong_on:
  "(\<And>x y. x \<in> set xs \<Longrightarrow> y \<in> set xs \<Longrightarrow> f x \<le> f y \<longleftrightarrow> g x \<le> g y) \<Longrightarrow> sort_key f xs = sort_key g xs"
proof (induction xs)
  case (Cons x xs)
  have "set (sort_key g xs) = set xs" by simp
  moreover have "\<And>ys. set ys \<subseteq> set xs \<Longrightarrow> insort_key f x ys = insort_key g x ys"
  proof -
    fix ys assume "set ys \<subseteq> set xs"
    then show "insort_key f x ys = insort_key g x ys" using Cons.prems by (induction ys) auto
  qed
  ultimately show ?case using Cons by simp
qed simp

lemma filter_append_sorted:
  assumes "sorted_wrt R xs" and "\<And>x y. R x y \<Longrightarrow> B x \<Longrightarrow> A y \<Longrightarrow> False" and "\<And>x. A x \<Longrightarrow> \<not> B x"
  shows "filter A xs @ filter B xs = filter (\<lambda>x. A x \<or> B x) xs"
  using assms(1)
proof (induction xs)
  case (Cons x xs)
  show ?case
  proof (cases "B x")
    case True
    then have "filter A xs = []" using Cons.prems assms(2) by (auto simp: filter_empty_conv)
    with True assms(3) [of x] Cons show ?thesis by auto
  next
    case False
    with Cons show ?thesis by simp
  qed
qed simp

end
