(* ===== verification/ResourceQuery.thy ===== *)
theory ResourceQuery
  imports Filters IndexerDb SqlBuild ApiTypes
begin

text \<open>
  The searches for assets, asset balances, applications, application boxes and local states
  (\<^verbatim>\<open>idb/postgres/postgres.go\<close>, \<open>Assets\<close> to \<open>yieldAppLocalStateThread\<close>). Each of them turns its
  parameters into one \<open>SELECT\<close>, runs it in a read-only transaction together with the accounted round,
  and sends the decoded rows to a channel, which is the list of the rows sent.

  A query is a structure whose text is \<open>select_sql\<close>, and \<open>exec_select\<close> is what the server answers. The
  text of a stored document under a key (\<open>->>\<close>) and the pattern match \<open>ILIKE\<close> are the server's and
  parameters.
\<close>

section \<open>Queries\<close>

text \<open>A term of the \<open>WHERE\<close> clause; the number is that of its placeholder.\<close>

datatype col_term =
    EqTerm string nat | GtTerm string nat | LtTerm string nat
  | ILikeTerm string nat | ILikeEitherTerm string string nat
  | NotTerm string

record select_query =
  sq_select :: string
  sq_where :: "col_term list"
  sq_order :: string
  sq_limit :: uint64

definition params_text :: "string \<Rightarrow> string" where
  "params_text k = ''a.params ->> '' @ quoted k"

fun col_term_sql :: "col_term \<Rightarrow> string" where
  "col_term_sql (EqTerm c n) = placeholder (c @ '' = '') n"
| "col_term_sql (GtTerm c n) = placeholder (c @ '' > '') n"
| "col_term_sql (LtTerm c n) = placeholder (c @ '' < '') n"
| "col_term_sql (ILikeTerm k n) = placeholder (params_text k @ '' ILIKE '') n"
| "col_term_sql (ILikeEitherTerm k k' n) =
     ''('' @ placeholder (params_text k @ '' ILIKE '') n @ '' OR '' @ placeholder (params_text k' @ '' ILIKE '') n @ '')''"
| "col_term_sql (NotTerm c) = ''NOT '' @ c"

definition select_sql :: "select_query \<Rightarrow> string" where
  "select_sql q =
     sq_select q @
     (if sq_where q \<noteq> [] then '' WHERE '' @ join_strings '' AND '' (map col_term_sql (sq_where q)) else []) @
     '' ORDER BY '' @ sq_order q @
     (if sq_limit q \<noteq> 0 then '' LIMIT '' @ FormatUint (sq_limit q) else [])"

text \<open>\<open>"%"+s+"%"\<close>, and the guard of a text that is not searched when it is empty.\<close>

definition like_pattern :: "string \<Rightarrow> string" where
  "like_pattern s = ''%'' @ s @ ''%''"

definition add_like :: "(nat \<Rightarrow> 'p) \<Rightarrow> string \<Rightarrow> 'p build \<Rightarrow> 'p build" where
  "add_like P s = add_if (s \<noteq> []) (add_part P (ArgS (like_pattern s)))"

definition assets_query :: "AssetsQuery \<Rightarrow> select_query \<times> sql_arg list" where
  "assets_query flt =
     (case add_if (\<not> aq_IncludeDeleted flt) (add_cond (NotTerm ''a.deleted''))
           (add_like (ILikeEitherTerm ''un'' ''an'') (aq_Query flt)
           (add_like (ILikeTerm ''un'') (aq_Unit flt)
           (add_like (ILikeTerm ''an'') (aq_Name flt)
           (add_bytes (EqTerm ''a.creator_addr'') (aq_Creator flt)
           (add_opt (GtTerm ''a.index'') (aq_AssetIDGreaterThan flt)
           (add_opt (EqTerm ''a.index'') (aq_AssetID flt) ([], [], 1))))))) of
        (ps, as, _) \<Rightarrow>
          (\<lparr>sq_select = ''SELECT index, creator_addr, params, created_at, closed_at, deleted FROM asset a'',
            sq_where = ps, sq_order = ''index ASC'', sq_limit = aq_Limit flt\<rparr>, as))"

definition asset_balances_query :: "AssetBalanceQuery \<Rightarrow> select_query \<times> sql_arg list" where
  "asset_balances_query abq =
     (case add_if (\<not> abq_IncludeDeleted abq) (add_cond (NotTerm ''aa.deleted''))
           (add_if (abq_PrevAddress abq \<noteq> None \<and> abq_PrevAddress abq \<noteq> Some [])
             (add_bytes (GtTerm ''aa.addr'') (abq_PrevAddress abq))
           (add_opt (LtTerm ''aa.amount'') (abq_AmountLT abq)
           (add_opt (GtTerm ''aa.amount'') (abq_AmountGT abq)
           (add_bytes (EqTerm ''aa.addr'') (abq_Address abq)
           (add_opt (GtTerm ''aa.assetid'') (abq_AssetIDGT abq)
           (add_opt (EqTerm ''aa.assetid'') (abq_AssetID abq) ([], [], 1))))))) of
        (ps, as, _) \<Rightarrow>
          (\<lparr>sq_select = ''SELECT addr, assetid, amount, frozen, created_at, closed_at, deleted FROM account_asset aa'',
            sq_where = ps, sq_order = ''addr, assetid ASC'', sq_limit = abq_Limit abq\<rparr>, as))"

text \<open>\<open>Applications\<close> and \<open>AppLocalState\<close> have the same terms on columns of other names.\<close>

definition application_terms :: "string \<Rightarrow> string \<Rightarrow> ApplicationQuery \<Rightarrow> col_term build" where
  "application_terms app addr flt =
     add_if (\<not> apq_IncludeDeleted flt) (add_cond (NotTerm ''deleted''))
    (add_opt (GtTerm app) (apq_ApplicationIDGreaterThan flt)
    (add_bytes (EqTerm addr) (apq_Address flt)
    (add_opt (EqTerm app) (apq_ApplicationID flt) ([], [], 1))))"

definition applications_query :: "ApplicationQuery \<Rightarrow> select_query \<times> sql_arg list" where
  "applications_query flt =
     (case application_terms ''index'' ''creator'' flt of
        (ps, as, _) \<Rightarrow>
          (\<lparr>sq_select = ''SELECT index, creator, params, created_at, closed_at, deleted FROM app '',
            sq_where = ps, sq_order = ''1'', sq_limit = apq_Limit flt\<rparr>, as))"

definition app_local_state_query :: "ApplicationQuery \<Rightarrow> select_query \<times> sql_arg list" where
  "app_local_state_query flt =
     (case application_terms ''app'' ''addr'' flt of
        (ps, as, _) \<Rightarrow>
          (\<lparr>sq_select = ''SELECT app, addr, localstate, created_at, closed_at, deleted FROM account_app '',
            sq_where = ps, sq_order = ''1'', sq_limit = apq_Limit flt\<rparr>, as))"

section \<open>Running a query\<close>

record 'j text_server =
  params_string :: "string \<Rightarrow> 'j \<Rightarrow> string option"
  ilike :: "string \<Rightarrow> string \<Rightarrow> bool"

text \<open>What the terms read of a row: its columns by name, the text of its parameters, the mark of
  deletion.\<close>

record row_view =
  rv_column :: "(string \<times> sql_arg) list"
  rv_params :: "string \<Rightarrow> string option"
  rv_deleted :: bool

fun arg_less :: "sql_arg \<Rightarrow> sql_arg \<Rightarrow> bool" where
  "arg_less (ArgU a) (ArgU b) = (a < b)"
| "arg_less (ArgB a) (ArgB b) = (a < b)"
| "arg_less _ _ = False"

fun eval_col :: "(string \<Rightarrow> string \<Rightarrow> bool) \<Rightarrow> row_view \<Rightarrow> sql_arg list \<Rightarrow> col_term \<Rightarrow> bool" where
  "eval_col like v as (EqTerm c n) = option_holds (\<lambda>x. x = arg_at as n) (map_of (rv_column v) c)"
| "eval_col like v as (GtTerm c n) = option_holds (\<lambda>x. arg_less (arg_at as n) x) (map_of (rv_column v) c)"
| "eval_col like v as (LtTerm c n) = option_holds (\<lambda>x. arg_less x (arg_at as n)) (map_of (rv_column v) c)"
| "eval_col like v as (ILikeTerm k n) = option_holds (\<lambda>s. like s (the_S (arg_at as n))) (rv_params v k)"
| "eval_col like v as (ILikeEitherTerm k k' n) =
     (option_holds (\<lambda>s. like s (the_S (arg_at as n))) (rv_params v k) \<or>
      option_holds (\<lambda>s. like s (the_S (arg_at as n))) (rv_params v k'))"
| "eval_col like v as (NotTerm c) = (\<not> rv_deleted v)"

text \<open>A limit of 0 is not printed and does not cut off.\<close>

definition limit_or_all :: "uint64 \<Rightarrow> 'a list \<Rightarrow> 'a list" where
  "limit_or_all n xs = (if n = 0 then xs else take (unat n) xs)"

text \<open>The rows of a table that satisfy every term, ordered by a key, up to the limit. Rows with the
  same key stay in the order of the table.\<close>

definition exec_select ::
  "(string \<Rightarrow> string \<Rightarrow> bool) \<Rightarrow> ('r \<Rightarrow> row_view) \<Rightarrow> ('r \<Rightarrow> 'k :: linorder) \<Rightarrow> 'r list \<Rightarrow> select_query \<times> sql_arg list \<Rightarrow> 'r list"
where
  "exec_select like view key rows qa =
     limit_or_all (sq_limit (fst qa))
       (sort_key key (filter (\<lambda>r. list_all (eval_col like (view r) (snd qa)) (sq_where (fst qa))) rows))"

definition asset_view :: "'j text_server \<Rightarrow> 'j asset_row \<Rightarrow> row_view" where
  "asset_view srv r =
     \<lparr>rv_column = [(''a.index'', ArgU (as_index r)), (''a.creator_addr'', ArgB (as_creator_addr r))],
      rv_params = (\<lambda>k. params_string srv k (as_params r)), rv_deleted = as_deleted r\<rparr>"

definition holding_view :: "account_asset_row \<Rightarrow> row_view" where
  "holding_view r =
     \<lparr>rv_column = [(''aa.assetid'', ArgU (aa_assetid r)), (''aa.addr'', ArgB (aa_addr r)), (''aa.amount'', ArgU (aa_amount r))],
      rv_params = (\<lambda>_. None), rv_deleted = aa_deleted r\<rparr>"

definition app_view :: "'j app_row \<Rightarrow> row_view" where
  "app_view r =
     \<lparr>rv_column = [(''index'', ArgU (app_index r)), (''creator'', ArgB (app_creator r))],
      rv_params = (\<lambda>_. None), rv_deleted = app_deleted r\<rparr>"

definition local_state_view :: "'j account_app_row \<Rightarrow> row_view" where
  "local_state_view r =
     \<lparr>rv_column = [(''app'', ArgU (al_app r)), (''addr'', ArgB (al_addr r))],
      rv_params = (\<lambda>_. None), rv_deleted = al_deleted r\<rparr>"

section \<open>Reading the rows\<close>

text \<open>
  The reader of a result: \<open>row\<close> gives what is sent for a row and whether the loop goes on. After the
  last row, or after an error of the server, that error is sent; a loop that stops early does not look
  at it.
\<close>

fun yield_rows :: "(err \<Rightarrow> 'o) \<Rightarrow> ('r \<Rightarrow> 'o \<times> bool) \<Rightarrow> 'r list \<Rightarrow> err option \<Rightarrow> 'o list" where
  "yield_rows failed row [] rowsErr = (case rowsErr of None \<Rightarrow> [] | Some e \<Rightarrow> [failed e])"
| "yield_rows failed row (r # rs) rowsErr =
     (case row r of (o', go_on) \<Rightarrow> o' # (if go_on then yield_rows failed row rs rowsErr else []))"

text \<open>The transaction around a query, its four early returns included: begin, read the accounted
  round, query, hand the rows to the reader.\<close>

definition run_search ::
  "(err \<Rightarrow> 'o) \<Rightarrow> (err \<Rightarrow> err) \<Rightarrow> query_env \<Rightarrow> 'j codec \<Rightarrow> 'j main_tables \<Rightarrow> 'r list \<Rightarrow>
   ('r list \<Rightarrow> err option \<Rightarrow> 'o list) \<Rightarrow> 'o list \<times> uint64" where
  "run_search failed query_error qenv c main rows reader =
     (case begin_err qenv of
        Some e \<Rightarrow> ([failed e], 0)
      | None \<Rightarrow>
          (case getMaxRoundAccounted c main of
             Inl e \<Rightarrow> ([failed e], 0)
           | Inr rnd \<Rightarrow>
               (case query_err qenv 0 of
                  Some e \<Rightarrow> ([failed (query_error e)], rnd)
                | None \<Rightarrow>
                    (case rows_err qenv 0 of
                       None \<Rightarrow> (reader rows None, rnd)
                     | Some (k, e) \<Rightarrow> (reader (take k rows) (Some e), rnd)))))"

section \<open>Assets\<close>

record AssetRow =
  ar_AssetID :: uint64
  ar_Creator :: bytes
  ar_Params :: AssetParams
  ar_Error :: "err option"
  ar_CreatedRound :: "uint64 option"
  ar_ClosedRound :: "uint64 option"
  ar_Deleted :: "bool option"

definition asset_error :: "err \<Rightarrow> AssetRow" where
  "asset_error e =
     \<lparr>ar_AssetID = 0, ar_Creator = [], ar_Params = zero_AssetParams, ar_Error = Some e,
      ar_CreatedRound = None, ar_ClosedRound = None, ar_Deleted = None\<rparr>"

definition asset_record :: "'j codec \<Rightarrow> 'j asset_row \<Rightarrow> AssetRow \<times> bool" where
  "asset_record c r =
     (case DecodeAssetParams c (as_params r) of
        Inl e \<Rightarrow> (asset_error e, False)
      | Inr params \<Rightarrow>
          (\<lparr>ar_AssetID = as_index r, ar_Creator = as_creator_addr r, ar_Params = params, ar_Error = None,
            ar_CreatedRound = Some (as_created_at r), ar_ClosedRound = as_closed_at r,
            ar_Deleted = Some (as_deleted r)\<rparr>, True))"

definition yieldAssetsThread :: "'j codec \<Rightarrow> 'j asset_row list \<Rightarrow> err option \<Rightarrow> AssetRow list" where
  "yieldAssetsThread c = yield_rows asset_error (asset_record c)"

definition Assets ::
  "'j text_server \<Rightarrow> query_env \<Rightarrow> 'j codec \<Rightarrow> 'j main_tables \<Rightarrow> AssetsQuery \<Rightarrow> AssetRow list \<times> uint64" where
  "Assets srv qenv c main flt =
     run_search asset_error (\<lambda>_. ErrMsg ''asset query err'') qenv c main
       (exec_select (ilike srv) (asset_view srv) as_index (tbl_asset main) (assets_query flt))
       (yieldAssetsThread c)"

section \<open>Asset balances\<close>

record AssetBalanceRow =
  abr_Address :: bytes
  abr_AssetID :: uint64
  abr_Amount :: uint64
  abr_Frozen :: bool
  abr_Error :: "err option"
  abr_CreatedRound :: "uint64 option"
  abr_ClosedRound :: "uint64 option"
  abr_Deleted :: "bool option"

definition balance_error :: "err \<Rightarrow> AssetBalanceRow" where
  "balance_error e =
     \<lparr>abr_Address = [], abr_AssetID = 0, abr_Amount = 0, abr_Frozen = False, abr_Error = Some e,
      abr_CreatedRound = None, abr_ClosedRound = None, abr_Deleted = None\<rparr>"

definition balance_record :: "account_asset_row \<Rightarrow> AssetBalanceRow" where
  "balance_record r =
     \<lparr>abr_Address = aa_addr r, abr_AssetID = aa_assetid r, abr_Amount = aa_amount r, abr_Frozen = aa_frozen r,
      abr_Error = None, abr_CreatedRound = Some (aa_created_at r), abr_ClosedRound = aa_closed_at r,
      abr_Deleted = Some (aa_deleted r)\<rparr>"

definition yieldAssetBalanceThread :: "account_asset_row list \<Rightarrow> err option \<Rightarrow> AssetBalanceRow list" where
  "yieldAssetBalanceThread = yield_rows balance_error (\<lambda>r. (balance_record r, True))"

definition AssetBalances ::
  "query_env \<Rightarrow> 'j codec \<Rightarrow> 'j main_tables \<Rightarrow> AssetBalanceQuery \<Rightarrow> AssetBalanceRow list \<times> uint64" where
  "AssetBalances qenv c main abq =
     run_search balance_error id qenv c main
       (exec_select (\<lambda>_ _. False) holding_view aa_key (tbl_account_asset main) (asset_balances_query abq))
       yieldAssetBalanceThread"

section \<open>Applications and local states\<close>

record ApplicationRow =
  apr_Application :: Application
  apr_Error :: "err option"

record AppLocalStateRow =
  alr_AppLocalState :: ApplicationLocalState
  alr_Error :: "err option"

text \<open>\<open>sdk.TealBytesType\<close> is 1 and \<open>sdk.TealUintType\<close> is 2.\<close>

definition TealBytesType :: uint64 where "TealBytesType = 1"

definition TealUintType :: uint64 where "TealUintType = 2"

definition tealValueToModel :: "TealValue \<Rightarrow> model_TealValue" where
  "tealValueToModel tv =
     (if tv_Type tv = TealUintType then \<lparr>mtv_Bytes = [], mtv_Type = tv_Type tv, mtv_Uint = tv_Uint tv\<rparr>
      else if tv_Type tv = TealBytesType then \<lparr>mtv_Bytes = Base64 (tv_Bytes tv), mtv_Type = tv_Type tv, mtv_Uint = 0\<rparr>
      else \<lparr>mtv_Bytes = [], mtv_Type = 0, mtv_Uint = 0\<rparr>)"

text \<open>Go visits the keys of a map in no fixed order; here they come in order.\<close>

definition tealKeyValueToModel :: "TealKeyValue \<Rightarrow> TealKeyValueStore option" where
  "tealKeyValueToModel tkv =
     (if fset (fmdom tkv) = {} then None
      else Some (map (\<lambda>(key, tv). \<lparr>mkv_Key = Base64 key, mkv_Value = tealValueToModel tv\<rparr>) (sorted_list_of_fmap tkv)))"

definition schema_model :: "StateSchema \<Rightarrow> ApplicationStateSchema" where
  "schema_model s = \<lparr>mss_NumByteSlice = NumByteSlice s, mss_NumUint = NumUint s\<rparr>"

definition application_error :: "err \<Rightarrow> ApplicationRow" where
  "application_error e = \<lparr>apr_Application = zero_Application, apr_Error = Some e\<rparr>"

definition application_params :: "sdk \<Rightarrow> bytes \<Rightarrow> AppParams \<Rightarrow> ApplicationParams" where
  "application_params env creator ap =
     \<lparr>apm_ApprovalProgram = ap_ApprovalProgram ap, apm_ClearStateProgram = ap_ClearStateProgram ap,
      apm_Creator = Some (AddressString env (copy_array 32 creator)),
      apm_ExtraProgramPages = (if ap_ExtraProgramPages ap \<noteq> 0 then Some (ucast (ap_ExtraProgramPages ap)) else None),
      apm_GlobalState = tealKeyValueToModel (ap_GlobalState ap),
      apm_GlobalStateSchema = Some (schema_model (ap_GlobalStateSchema ap)),
      apm_LocalStateSchema = Some (schema_model (ap_LocalStateSchema ap)),
      apm_Version = omitEmpty 0 (ap_Version ap)\<rparr>"

definition application_record :: "sdk \<Rightarrow> 'j codec \<Rightarrow> 'j app_row \<Rightarrow> ApplicationRow \<times> bool" where
  "application_record env c r =
     (let rec =
        \<lparr>ma_CreatedAtRound = Some (app_created_at r), ma_Deleted = Some (app_deleted r),
         ma_DeletedAtRound = app_closed_at r, ma_Id = app_index r, ma_Params = zero_ApplicationParams\<rparr>
      in case DecodeAppParams c (app_params r) of
           Inl e \<Rightarrow> (\<lparr>apr_Application = rec, apr_Error = Some (Wrap ''json err'' e)\<rparr>, False)
         | Inr ap \<Rightarrow>
             (\<lparr>apr_Application = rec\<lparr>ma_Params := application_params env (app_creator r) ap\<rparr>, apr_Error = None\<rparr>, True))"

definition yieldApplicationsThread :: "sdk \<Rightarrow> 'j codec \<Rightarrow> 'j app_row list \<Rightarrow> err option \<Rightarrow> ApplicationRow list" where
  "yieldApplicationsThread env c = yield_rows application_error (application_record env c)"

definition Applications ::
  "sdk \<Rightarrow> query_env \<Rightarrow> 'j codec \<Rightarrow> 'j main_tables \<Rightarrow> ApplicationQuery \<Rightarrow> ApplicationRow list \<times> uint64" where
  "Applications env qenv c main flt =
     run_search application_error id qenv c main
       (exec_select (\<lambda>_ _. False) app_view app_index (tbl_app main) (applications_query flt))
       (yieldApplicationsThread env c)"

definition local_state_error :: "err \<Rightarrow> AppLocalStateRow" where
  "local_state_error e = \<lparr>alr_AppLocalState = zero_ApplicationLocalState, alr_Error = Some e\<rparr>"

definition local_state_record :: "'j codec \<Rightarrow> 'j account_app_row \<Rightarrow> AppLocalStateRow \<times> bool" where
  "local_state_record c r =
     (let rec =
        zero_ApplicationLocalState\<lparr>mls_Id := al_app r, mls_OptedInAtRound := Some (al_created_at r),
          mls_ClosedOutAtRound := al_closed_at r, mls_Deleted := Some (al_deleted r)\<rparr>
      in case DecodeAppLocalState c (al_localstate r) of
           Inl e \<Rightarrow> (\<lparr>alr_AppLocalState = rec, alr_Error = Some (Wrap ''json err'' e)\<rparr>, False)
         | Inr ls \<Rightarrow>
             (\<lparr>alr_AppLocalState = rec\<lparr>mls_Schema := schema_model (als_Schema ls),
                 mls_KeyValue := tealKeyValueToModel (als_KeyValue ls)\<rparr>,
               alr_Error = None\<rparr>, True))"

definition yieldAppLocalStateThread :: "'j codec \<Rightarrow> 'j account_app_row list \<Rightarrow> err option \<Rightarrow> AppLocalStateRow list" where
  "yieldAppLocalStateThread c = yield_rows local_state_error (local_state_record c)"

definition AppLocalState_search ::
  "query_env \<Rightarrow> 'j codec \<Rightarrow> 'j main_tables \<Rightarrow> ApplicationQuery \<Rightarrow> AppLocalStateRow list \<times> uint64" where
  "AppLocalState_search qenv c main flt =
     run_search local_state_error id qenv c main
       (exec_select (\<lambda>_ _. False) local_state_view al_app (tbl_account_app main) (app_local_state_query flt))
       (yieldAppLocalStateThread c)"

section \<open>Application boxes\<close>

record ApplicationBoxRow =
  abxr_App :: uint64
  abxr_Box :: Box
  abxr_Error :: "err option"

text \<open>The condition of the join: the comparison with the name, when there is one.\<close>

datatype name_term = AnyName | NameEq bytes | NameGt bytes

definition box_name_term :: "ApplicationBoxQuery \<Rightarrow> name_term" where
  "box_name_term queryOpts =
     (case bq_BoxName queryOpts of
        Some name \<Rightarrow> NameEq name
      | None \<Rightarrow> (case bq_PrevFinalBox queryOpts of Some prev \<Rightarrow> NameGt prev | None \<Rightarrow> AnyName))"

definition box_query_sql :: "ApplicationBoxQuery \<Rightarrow> string" where
  "box_query_sql queryOpts =
     ''WITH apps AS (SELECT index AS app FROM app WHERE index = $1)'' @ [CHR 0x0A] @ ''SELECT '' @
     (''a.app, ab.name'' @ (if \<not> bq_OmitValues queryOpts then '', ab.value'' else [])) @
     [CHR 0x0A] @ ''FROM apps a'' @ [CHR 0x0A] @ ''LEFT OUTER JOIN app_box ab ON ab.app = a.app'' @
     (case box_name_term queryOpts of AnyName \<Rightarrow> [] | NameEq _ \<Rightarrow> '' AND name = $2'' | NameGt _ \<Rightarrow> '' AND name > $2'') @
     '' ORDER BY ab.name ASC'' @
     (if bq_Limit queryOpts \<noteq> 0 then '' LIMIT '' @ FormatUint (bq_Limit queryOpts) else [])"

definition box_query_args :: "ApplicationBoxQuery \<Rightarrow> sql_arg list" where
  "box_query_args queryOpts =
     ArgU (bq_ApplicationID queryOpts) #
     (case box_name_term queryOpts of AnyName \<Rightarrow> [] | NameEq n \<Rightarrow> [ArgB n] | NameGt n \<Rightarrow> [ArgB n])"

fun name_matches :: "name_term \<Rightarrow> bytes \<Rightarrow> bool" where
  "name_matches AnyName name = True"
| "name_matches (NameEq n) name = (name = n)"
| "name_matches (NameGt n) name = (name > n)"

text \<open>The left outer join: an application without a matching box has one row, with null columns.\<close>

definition join_boxes :: "name_term \<Rightarrow> app_box_row list \<Rightarrow> uint64 \<Rightarrow> (uint64 \<times> app_box_row option) list" where
  "join_boxes nt boxes app =
     (case filter (\<lambda>b. box_app b = app \<and> name_matches nt (box_name b)) boxes of
        [] \<Rightarrow> [(app, None)]
      | bs \<Rightarrow> map (\<lambda>b. (app, Some b)) bs)"

text \<open>Null names come last in ascending order.\<close>

definition name_key :: "uint64 \<times> app_box_row option \<Rightarrow> bool \<times> bytes" where
  "name_key r = (case snd r of None \<Rightarrow> (True, []) | Some b \<Rightarrow> (False, box_name b))"

definition exec_box_query :: "'j main_tables \<Rightarrow> ApplicationBoxQuery \<Rightarrow> (uint64 \<times> app_box_row option) list" where
  "exec_box_query main queryOpts =
     limit_or_all (bq_Limit queryOpts)
       (sort_key name_key
         (concat (map (join_boxes (box_name_term queryOpts) (tbl_app_box main))
           (map app_index (filter (\<lambda>r. app_index r = bq_ApplicationID queryOpts) (tbl_app main))))))"

definition box_error :: "err \<Rightarrow> ApplicationBoxRow" where
  "box_error e = \<lparr>abxr_App = 0, abxr_Box = \<lparr>box_Name = None, box_Round = 0, box_Value = None\<rparr>, abxr_Error = Some e\<rparr>"

definition box_record :: "bool \<Rightarrow> uint64 \<times> app_box_row option \<Rightarrow> ApplicationBoxRow" where
  "box_record omitValues r =
     \<lparr>abxr_App = fst r,
      abxr_Box = \<lparr>box_Name = map_option box_name (snd r), box_Round = 0,
        box_Value = (if omitValues then None else map_option box_value (snd r))\<rparr>,
      abxr_Error = None\<rparr>"

text \<open>A result without any row is the error \<open>sql.ErrNoRows\<close>.\<close>

definition yieldApplicationBoxThread ::
  "bool \<Rightarrow> (uint64 \<times> app_box_row option) list \<Rightarrow> err option \<Rightarrow> ApplicationBoxRow list" where
  "yieldApplicationBoxThread omitValues rows rowsErr =
     yield_rows box_error (\<lambda>r. (box_record omitValues r, True)) rows
       (case rowsErr of Some e \<Rightarrow> Some e | None \<Rightarrow> if rows = [] then Some SqlErrNoRows else None)"

definition ApplicationBoxes ::
  "query_env \<Rightarrow> 'j codec \<Rightarrow> 'j main_tables \<Rightarrow> ApplicationBoxQuery \<Rightarrow> ApplicationBoxRow list \<times> uint64" where
  "ApplicationBoxes qenv c main queryOpts =
     run_search box_error id qenv c main (exec_box_query main queryOpts)
       (yieldApplicationBoxThread (bq_OmitValues queryOpts))"

end
