(* ===== verification/AccountQuery.thy ===== *)
theory AccountQuery
  imports ResourceQuery MinBal
begin

text \<open>
  The query for accounts (\<^verbatim>\<open>idb/postgres/postgres.go\<close>): \<open>buildAccountQuery\<close> with the text of its SQL, the
  answer of the server, the check of the number of resources, and the reader that assembles an account
  from a row with its holdings, created assets, applications and local states.

  The resources of an account come as JSON arrays, one array for each column. Aggregating a column on
  the server and decoding the array are parameters (\<open>json_arrays\<close>).
\<close>

section \<open>Building the query\<close>

text \<open>The query has up to two selections of addresses (\<open>qasf\<close>, \<open>qapf\<close>) beside the selection of accounts;
  their terms share the numbering of the placeholders.\<close>

datatype clause = QAssets | QApps | QAccounts

datatype account_part =
    Part clause col_term
  | SpendTerm nat
  | OnlineTerm

record account_query =
  acq_parts :: "account_part list"
  acq_opts :: AccountQueryOptions
  acq_countOnly :: bool

definition add_addr :: "(nat \<Rightarrow> 'p) \<Rightarrow> bytes \<Rightarrow> 'p build \<Rightarrow> 'p build" where
  "add_addr P a = add_if (length a > 0) (add_part P (ArgB a))"

definition asset_clause :: "AccountQueryOptions \<Rightarrow> account_part build \<Rightarrow> account_part build" where
  "asset_clause opts b =
     add_addr (\<lambda>n. Part QAssets (GtTerm ''addr'' n)) (ao_GreaterThanAddress opts)
     (add_opt (\<lambda>n. Part QAssets (LtTerm ''amount'' n)) (ao_AssetLT opts)
     (add_opt (\<lambda>n. Part QAssets (GtTerm ''amount'' n)) (ao_AssetGT opts)
     (add_part (\<lambda>n. Part QAssets (EqTerm ''assetid'' n)) (ArgU (ao_HasAssetID opts)) b)))"

definition app_clause :: "AccountQueryOptions \<Rightarrow> account_part build \<Rightarrow> account_part build" where
  "app_clause opts b =
     add_addr (\<lambda>n. Part QApps (GtTerm ''addr'' n)) (ao_GreaterThanAddress opts)
     (add_part (\<lambda>n. Part QApps (EqTerm ''app'' n)) (ArgU (ao_HasAppID opts)) b)"

definition account_clause :: "AccountQueryOptions \<Rightarrow> account_part build \<Rightarrow> account_part build" where
  "account_clause opts b =
     add_if (ao_OnlineOnly opts) (add_cond OnlineTerm)
     (add_if (length (ao_EqualToAuthAddr opts) > 0) (add_part SpendTerm (ArgS (Base64 (ao_EqualToAuthAddr opts))))
     (add_if (\<not> ao_IncludeDeleted opts) (add_cond (Part QAccounts (NotTerm ''a.deleted'')))
     (add_opt (\<lambda>n. Part QAccounts (LtTerm ''a.microalgos'' n)) (ao_AlgosLessThan opts)
     (add_opt (\<lambda>n. Part QAccounts (GtTerm ''a.microalgos'' n)) (ao_AlgosGreaterThan opts)
     (add_addr (\<lambda>n. Part QAccounts (EqTerm ''a.addr'' n)) (ao_EqualToAddress opts)
     (add_addr (\<lambda>n. Part QAccounts (GtTerm ''a.addr'' n)) (ao_GreaterThanAddress opts) b))))))"

definition account_parts :: "AccountQueryOptions \<Rightarrow> account_part build" where
  "account_parts opts =
     account_clause opts
     (add_if (ao_HasAppID opts \<noteq> 0) (app_clause opts)
     (add_if (ao_HasAssetID opts \<noteq> 0) (asset_clause opts) ([], [], 1)))"

definition buildAccountQuery :: "AccountQueryOptions \<Rightarrow> bool \<Rightarrow> account_query \<times> sql_arg list" where
  "buildAccountQuery opts countOnly =
     (case account_parts opts of
        (ps, as, _) \<Rightarrow> (\<lparr>acq_parts = ps, acq_opts = opts, acq_countOnly = countOnly\<rparr>, as))"

subsection \<open>Its text\<close>

definition data_text :: "string \<Rightarrow> string" where
  "data_text k = ''a.account_data->>'' @ quoted k"

fun account_part_sql :: "account_part \<Rightarrow> string" where
  "account_part_sql (Part _ t) = col_term_sql t"
| "account_part_sql (SpendTerm n) = placeholder (''a.account_data ->> '' @ quoted ''spend'' @ '' = '') n"
| "account_part_sql OnlineTerm =
     ''(('' @ data_text ''onl'' @ '' IS NOT NULL) AND ('' @ data_text ''voteLst'' @ '' IS NOT NULL) AND (('' @
     data_text ''onl'' @ '') = '' @ quoted ''1'' @ ''))''"

fun part_clause :: "account_part \<Rightarrow> clause" where
  "part_clause (Part cl _) = cl"
| "part_clause (SpendTerm _) = QAccounts"
| "part_clause OnlineTerm = QAccounts"

definition clause_parts :: "clause \<Rightarrow> account_part list \<Rightarrow> account_part list" where
  "clause_parts cl = filter (\<lambda>p. part_clause p = cl)"

definition where_sql :: "account_part list \<Rightarrow> string" where
  "where_sql ps = (if ps \<noteq> [] then '' WHERE '' @ join_strings '' AND '' (map account_part_sql ps) else [])"

definition text_if :: "bool \<Rightarrow> string \<Rightarrow> string" where
  "text_if b s = (if b then s else [])"

definition qaccounts_sql :: "account_query \<Rightarrow> string" where
  "qaccounts_sql q =
     ''SELECT a.addr, a.microalgos, a.rewards_total, a.created_at, a.closed_at, a.deleted, a.rewardsbase, a.keytype, a.account_data FROM account a'' @
     text_if (ao_HasAssetID (acq_opts q) \<noteq> 0) '' JOIN qasf ON a.addr = qasf.addr'' @
     text_if (ao_HasAppID (acq_opts q) \<noteq> 0) '' JOIN qapf ON a.addr = qapf.addr'' @
     where_sql (clause_parts QAccounts (acq_parts q)) @ '' ORDER BY a.addr ASC'' @
     text_if (ao_Limit (acq_opts q) \<noteq> 0) ('' LIMIT '' @ FormatUint (ao_Limit (acq_opts q)))"

definition with_clauses_sql :: "account_query \<Rightarrow> string list" where
  "with_clauses_sql q =
     (if ao_HasAssetID (acq_opts q) \<noteq> 0
      then [''qasf AS (SELECT addr FROM account_asset'' @ where_sql (clause_parts QAssets (acq_parts q)) @ '')''] else []) @
     (if ao_HasAppID (acq_opts q) \<noteq> 0
      then [''qapf AS (SELECT addr FROM account_app'' @ where_sql (clause_parts QApps (acq_parts q)) @ '')''] else []) @
     [''qaccounts AS ('' @ qaccounts_sql q @ '')'']"

text \<open>A nested selection of resources: \<open>prefix\<close> with the name and the address column, the aggregated columns
  or the count, the tables, the guard of deleted rows.\<close>

definition resource_sql :: "account_query \<Rightarrow> string \<Rightarrow> string \<Rightarrow> string \<Rightarrow> string \<Rightarrow> string \<Rightarrow> string" where
  "resource_sql q prefix counted aggregated tables deleted =
     prefix @ (if acq_countOnly q then counted else aggregated) @ tables @
     text_if (\<not> ao_IncludeDeleted (acq_opts q)) ('' WHERE NOT '' @ deleted) @ '' GROUP BY 1)''"

definition account_query_sql :: "account_query \<Rightarrow> string" where
  "account_query_sql q =
     (let opts = acq_opts q; cnt = acq_countOnly q; holdings = ao_IncludeAssetHoldings opts;
          assets = ao_IncludeAssetParams opts; apps = ao_IncludeAppParams opts; states = ao_IncludeAppLocalState opts in
      ''WITH '' @ join_strings '', '' (with_clauses_sql q) @
      text_if holdings (resource_sql q '', qaa AS (SELECT xa.addr, '' ''count(*) as holding_count''
        ''json_agg(aa.assetid) as haid, json_agg(aa.amount) as hamt, json_agg(aa.frozen) as hf, json_agg(aa.created_at) as holding_created_at, json_agg(aa.closed_at) as holding_closed_at, json_agg(aa.deleted) as holding_deleted''
        '' FROM account_asset aa JOIN qaccounts xa ON aa.addr = xa.addr'' ''aa.deleted'') @
      text_if assets (resource_sql q '', qap AS (SELECT ya.addr, '' ''count(*) as asset_count''
        ''json_agg(ap.index) as paid, json_agg(ap.params) as pp, json_agg(ap.created_at) as asset_created_at, json_agg(ap.closed_at) as asset_closed_at, json_agg(ap.deleted) as asset_deleted''
        '' FROM asset ap JOIN qaccounts ya ON ap.creator_addr = ya.addr'' ''ap.deleted'') @
      text_if apps (resource_sql q '', qapp AS (SELECT app.creator as addr, '' ''count(*) as app_count''
        ''json_agg(app.index) as papps, json_agg(app.params) as ppa, json_agg(app.created_at) as app_created_at, json_agg(app.closed_at) as app_closed_at, json_agg(app.deleted) as app_deleted''
        '' FROM app JOIN qaccounts ON qaccounts.addr = app.creator'' ''app.deleted'') @
      text_if states (resource_sql q '', qls AS (SELECT la.addr, '' ''count(*) as ls_count''
        ''json_agg(la.app) as lsapps, json_agg(la.localstate) as lsls, json_agg(la.created_at) as ls_created_at, json_agg(la.closed_at) as ls_closed_at, json_agg(la.deleted) as ls_deleted''
        '' FROM account_app la JOIN qaccounts ON qaccounts.addr = la.addr'' ''la.deleted'') @
      '' SELECT za.addr, za.microalgos, za.rewards_total, za.created_at, za.closed_at, za.deleted, za.rewardsbase, za.keytype, za.account_data'' @
      text_if holdings (if cnt then '', qaa.holding_count''
        else '', qaa.haid, qaa.hamt, qaa.hf, qaa.holding_created_at, qaa.holding_closed_at, qaa.holding_deleted'') @
      text_if assets (if cnt then '', qap.asset_count''
        else '', qap.paid, qap.pp, qap.asset_created_at, qap.asset_closed_at, qap.asset_deleted'') @
      text_if apps (if cnt then '', qapp.app_count''
        else '', qapp.papps, qapp.ppa, qapp.app_created_at, qapp.app_closed_at, qapp.app_deleted'') @
      text_if states (if cnt then '', qls.ls_count''
        else '', qls.lsapps, qls.lsls, qls.ls_created_at, qls.ls_closed_at, qls.ls_deleted'') @
      '' FROM qaccounts za'' @
      text_if holdings '' LEFT JOIN qaa ON za.addr = qaa.addr'' @
      text_if assets '' LEFT JOIN qap ON za.addr = qap.addr'' @
      text_if apps '' LEFT JOIN qapp ON za.addr = qapp.addr'' @
      text_if states '' LEFT JOIN qls ON za.addr = qls.addr'' @
      '' ORDER BY za.addr ASC;'')"

section \<open>The answer of the server\<close>

text \<open>The JSON arrays of aggregated columns: \<open>json_agg\<close> on the server, and decoding into a slice.\<close>

record 'j json_arrays =
  agg_uints :: "uint64 list \<Rightarrow> 'j"
  agg_opt_uints :: "uint64 option list \<Rightarrow> 'j"
  agg_bools :: "bool list \<Rightarrow> 'j"
  agg_docs :: "'j list \<Rightarrow> 'j"
  dec_uints :: "'j \<Rightarrow> uint64 list result"
  dec_opt_uints :: "'j \<Rightarrow> uint64 option list result"
  dec_bools :: "'j \<Rightarrow> bool list result"
  dec_opt_bools :: "'j \<Rightarrow> bool option list result"
  is_null_array :: "'j \<Rightarrow> bool"

definition asset_clause_view :: "account_asset_row \<Rightarrow> row_view" where
  "asset_clause_view r =
     \<lparr>rv_column = [(''assetid'', ArgU (aa_assetid r)), (''amount'', ArgU (aa_amount r)), (''addr'', ArgB (aa_addr r))],
      rv_params = (\<lambda>_. None), rv_deleted = aa_deleted r\<rparr>"

definition app_clause_view :: "'j account_app_row \<Rightarrow> row_view" where
  "app_clause_view r =
     \<lparr>rv_column = [(''app'', ArgU (al_app r)), (''addr'', ArgB (al_addr r))],
      rv_params = (\<lambda>_. None), rv_deleted = al_deleted r\<rparr>"

definition account_view :: "'j text_server \<Rightarrow> 'j account_row \<Rightarrow> row_view" where
  "account_view srv r =
     \<lparr>rv_column = [(''a.addr'', ArgB (acc_addr r)), (''a.microalgos'', ArgU (acc_microalgos r))],
      rv_params = (\<lambda>k. params_string srv k (acc_account_data r)), rv_deleted = acc_deleted r\<rparr>"

text \<open>A row of a selection satisfies the terms of that selection.\<close>

fun eval_account_part :: "clause \<Rightarrow> row_view \<Rightarrow> sql_arg list \<Rightarrow> account_part \<Rightarrow> bool" where
  "eval_account_part cl v as (Part cl' t) = (cl' = cl \<longrightarrow> eval_col (\<lambda>_ _. False) v as t)"
| "eval_account_part cl v as (SpendTerm n) =
     (cl = QAccounts \<longrightarrow> option_holds (\<lambda>s. s = the_S (arg_at as n)) (rv_params v ''spend''))"
| "eval_account_part cl v as OnlineTerm =
     (cl = QAccounts \<longrightarrow> rv_params v ''onl'' \<noteq> None \<and> rv_params v ''voteLst'' \<noteq> None \<and> rv_params v ''onl'' = Some ''1'')"

text \<open>The rows of an inner join with a selection of addresses, when there is one.\<close>

definition join_addrs :: "bool \<Rightarrow> Address list \<Rightarrow> Address \<Rightarrow> Address list" where
  "join_addrs joined addrs a = (if joined then filter (\<lambda>b. b = a) addrs else [a])"

definition exec_qaccounts ::
  "'j text_server \<Rightarrow> 'j main_tables \<Rightarrow> account_query \<times> sql_arg list \<Rightarrow> 'j account_row list" where
  "exec_qaccounts srv main = (\<lambda>(q, as).
     (let satisfies = (\<lambda>cl v. list_all (eval_account_part cl v as) (acq_parts q));
          qasf = map aa_addr (filter (\<lambda>r. satisfies QAssets (asset_clause_view r)) (tbl_account_asset main));
          qapf = map al_addr (filter (\<lambda>r. satisfies QApps (app_clause_view r)) (tbl_account_app main))
      in limit_or_all (ao_Limit (acq_opts q)) (sort_key acc_addr
           (filter (\<lambda>r. satisfies QAccounts (account_view srv r))
             (concat (map (\<lambda>r. map (\<lambda>_. r)
               (List.product (join_addrs (ao_HasAssetID (acq_opts q) \<noteq> 0) qasf (acc_addr r))
                             (join_addrs (ao_HasAppID (acq_opts q) \<noteq> 0) qapf (acc_addr r))))
               (tbl_account main)))))))"

text \<open>The group of an address in the join of a table with the selected accounts; there is none for an
  address without rows.\<close>

definition group_rows ::
  "bool \<Rightarrow> ('r \<Rightarrow> Address) \<Rightarrow> ('r \<Rightarrow> bool) \<Rightarrow> 'r list \<Rightarrow> 'j account_row list \<Rightarrow> Address \<Rightarrow> 'r list option" where
  "group_rows includeDeleted addr deleted rows qaccounts a =
     (case concat (map (\<lambda>r. map (\<lambda>_. r) (filter (\<lambda>x. acc_addr x = addr r) qaccounts))
             (filter (\<lambda>r. addr r = a \<and> (includeDeleted \<or> \<not> deleted r)) rows)) of
        [] \<Rightarrow> None
      | rs \<Rightarrow> Some rs)"

record 'j account_answer =
  aw_account :: "'j account_row"
  aw_holdings :: "account_asset_row list option"
  aw_assets :: "'j asset_row list option"
  aw_apps :: "'j app_row list option"
  aw_states :: "'j account_app_row list option"

definition option_if :: "bool \<Rightarrow> 'a option \<Rightarrow> 'a option" where
  "option_if b x = (if b then x else None)"

definition exec_account_query ::
  "'j text_server \<Rightarrow> 'j main_tables \<Rightarrow> account_query \<times> sql_arg list \<Rightarrow> 'j account_answer list" where
  "exec_account_query srv main qa =
     (let opts = acq_opts (fst qa); del = ao_IncludeDeleted opts; qaccounts = exec_qaccounts srv main qa in
      map (\<lambda>r.
        \<lparr>aw_account = r,
         aw_holdings = option_if (ao_IncludeAssetHoldings opts)
           (group_rows del aa_addr aa_deleted (tbl_account_asset main) qaccounts (acc_addr r)),
         aw_assets = option_if (ao_IncludeAssetParams opts)
           (group_rows del as_creator_addr as_deleted (tbl_asset main) qaccounts (acc_addr r)),
         aw_apps = option_if (ao_IncludeAppParams opts)
           (group_rows del app_creator app_deleted (tbl_app main) qaccounts (acc_addr r)),
         aw_states = option_if (ao_IncludeAppLocalState opts)
           (group_rows del al_addr al_deleted (tbl_account_app main) qaccounts (acc_addr r))\<rparr>)
        (sort_key acc_addr qaccounts))"

section \<open>Reading the rows\<close>

record AccountRow =
  acr_Account :: model_Account
  acr_Error :: "err option"

definition account_error :: "err \<Rightarrow> AccountRow" where
  "account_error e = \<lparr>acr_Account = zero_Account, acr_Error = Some e\<rparr>"

definition statusStrings :: "string list" where
  "statusStrings = [''Offline'', ''Online'', ''NotParticipating'']"

definition offlineStatusIdx :: nat where
  "offlineStatusIdx = 0"

definition addrStr :: "sdk \<Rightarrow> Address \<Rightarrow> string option" where
  "addrStr env addr = (if IsZero addr then None else Some (AddressString env addr))"

definition account_base :: "sdk \<Rightarrow> BlockHeader \<Rightarrow> 'j account_row \<Rightarrow> model_Account" where
  "account_base env blockheader r =
     zero_Account
       \<lparr>mac_Address := AddressString env (copy_array 32 (acc_addr r)), mac_Round := bh_Round blockheader,
        mac_AmountWithoutPendingRewards := acc_microalgos r, mac_Rewards := acc_rewards_total r,
        mac_CreatedAtRound := Some (acc_created_at r), mac_ClosedAtRound := acc_closed_at r,
        mac_Deleted := Some (acc_deleted r), mac_RewardBase := Some (acc_rewardsbase r),
        mac_Status := statusStrings ! offlineStatusIdx,
        mac_SigType := (case acc_keytype r of None \<Rightarrow> None | Some k \<Rightarrow> if k \<noteq> [] then Some k else None)\<rparr>"

definition account_participation :: "AccountData \<Rightarrow> AccountParticipation option" where
  "account_participation accountData =
     (let hasSel = \<not> allZero (SelectionID accountData); hasVote = \<not> allZero (VoteID accountData);
          hasStateProofkey = \<not> allZero (StateProofID accountData) in
      if hasSel \<or> hasVote \<or> hasStateProofkey then
        Some \<lparr>mpt_SelectionParticipationKey = (if hasSel then SelectionID accountData else []),
              mpt_StateProofKey = (if hasStateProofkey then byteSlicePtr (StateProofID accountData) else None),
              mpt_VoteFirstValid = VoteFirstValid accountData, mpt_VoteKeyDilution = VoteKeyDilution accountData,
              mpt_VoteLastValid = VoteLastValid accountData,
              mpt_VoteParticipationKey = (if hasVote then VoteID accountData else [])\<rparr>
      else None)"

definition with_account_data :: "sdk \<Rightarrow> ConsensusParams \<Rightarrow> AccountData \<Rightarrow> model_Account \<Rightarrow> model_Account" where
  "with_account_data env proto accountData account =
     account
       \<lparr>mac_Status := statusStrings ! unat (Status accountData),
        mac_Participation := account_participation accountData,
        mac_AuthAddr := (if \<not> IsZero (ad_AuthAddr accountData)
          then omitEmpty [] (AddressString env (copy_array 32 (ad_AuthAddr accountData))) else None),
        mac_AppsTotalSchema := omitEmpty \<lparr>mss_NumByteSlice = 0, mss_NumUint = 0\<rparr> (schema_model (TotalAppSchema accountData)),
        mac_AppsTotalExtraPages := omitEmpty 0 (ucast (TotalExtraAppPages accountData)),
        mac_TotalAppsOptedIn := TotalAppLocalStates accountData, mac_TotalCreatedApps := TotalAppParams accountData,
        mac_TotalAssetsOptedIn := TotalAssets accountData, mac_TotalCreatedAssets := TotalAssetParams accountData,
        mac_TotalBoxes := TotalBoxes accountData, mac_TotalBoxBytes := TotalBoxBytes accountData,
        mac_IncentiveEligible := omitEmpty False (IncentiveEligible accountData),
        mac_LastHeartbeat := omitEmpty 0 (LastHeartbeat accountData),
        mac_LastProposed := omitEmpty 0 (LastProposed accountData),
        mac_MinBalance := AccountMinBalance accountData proto\<rparr>"

definition with_rewards :: "ConsensusParams \<Rightarrow> BlockHeader \<Rightarrow> 'j account_row \<Rightarrow> model_Account \<Rightarrow> model_Account" where
  "with_rewards proto blockheader r account =
     (let pending =
        (if mac_Status account = ''NotParticipating'' then 0
         else (if RewardUnit proto \<noteq> 0 then acc_microalgos r div RewardUnit proto else 0) *
              (RewardsLevel blockheader - acc_rewardsbase r))
      in account\<lparr>mac_PendingRewards := pending, mac_Amount := acc_microalgos r + pending\<rparr>)"

text \<open>Visits the indices of the identifiers, without those that have occurred before.\<close>

definition for_new_ids :: "uint64 list \<Rightarrow> (nat \<Rightarrow> 'a) \<Rightarrow> 'a list" where
  "for_new_ids ids f =
     concat (map (\<lambda>i. if ids ! i \<in> set (take i ids) then [] else [f i]) [0..<length ids])"

definition account_holdings :: "'j json_arrays \<Rightarrow> account_asset_row list option \<Rightarrow> model_AssetHolding list option result" where
  "account_holdings ar column =
     (case column of
        None \<Rightarrow> Inr None
      | Some rows \<Rightarrow>
          let ids = agg_uints ar (map aa_assetid rows) in
          if is_null_array ar ids then Inr None
          else
            res_bind (res_msg ''parsing json holding asset ids err'' (dec_uints ar ids)) (\<lambda>haids.
            res_bind (res_msg ''parsing json holding amounts err'' (dec_uints ar (agg_uints ar (map aa_amount rows)))) (\<lambda>hamounts.
            res_bind (res_msg ''parsing json holding frozen err'' (dec_bools ar (agg_bools ar (map aa_frozen rows)))) (\<lambda>hfrozen.
            res_bind (res_msg ''parsing json holding created ids''
              (dec_opt_uints ar (agg_opt_uints ar (map (\<lambda>r. Some (aa_created_at r)) rows)))) (\<lambda>holdingCreated.
            res_bind (res_msg ''parsing json holding closed ids'' (dec_opt_uints ar (agg_opt_uints ar (map aa_closed_at rows)))) (\<lambda>holdingClosed.
            res_bind (res_msg ''parsing json holding deleted ids'' (dec_opt_bools ar (agg_bools ar (map aa_deleted rows)))) (\<lambda>holdingDeleted.
            if length hamounts \<noteq> length haids \<or> length hfrozen \<noteq> length haids \<or> length holdingCreated \<noteq> length haids \<or>
              length holdingClosed \<noteq> length haids \<or> length holdingDeleted \<noteq> length haids
            then Inl (ErrMsg ''account asset holding unpacking'')
            else Inr (Some (for_new_ids haids (\<lambda>i.
              \<lparr>mh_Amount = hamounts ! i, mh_AssetId = haids ! i, mh_Deleted = holdingDeleted ! i,
               mh_IsFrozen = hfrozen ! i, mh_OptedInAtRound = holdingCreated ! i,
               mh_OptedOutAtRound = holdingClosed ! i\<rparr>))))))))))"

definition created_asset_params :: "sdk \<Rightarrow> (nat \<Rightarrow> bool) \<Rightarrow> string \<Rightarrow> AssetParams \<Rightarrow> model_AssetParams" where
  "created_asset_params env isPrint address ap =
     \<lparr>mp_Clawback = addrStr env (Clawback ap), mp_Creator = address, mp_Decimals = ucast (Decimals ap),
      mp_DefaultFrozen = Some (DefaultFrozen ap), mp_Freeze = addrStr env (Freeze ap),
      mp_Manager = addrStr env (Manager ap), mp_MetadataHash = byteSliceOmitZeroPtr (MetadataHash ap),
      mp_Name = omitEmpty [] (PrintableUTF8OrEmpty isPrint (AssetName ap)), mp_NameB64 = byteSlicePtr (AssetName ap),
      mp_Reserve = addrStr env (Reserve ap), mp_Total = Total ap,
      mp_UnitName = omitEmpty [] (PrintableUTF8OrEmpty isPrint (UnitName ap)), mp_UnitNameB64 = byteSlicePtr (UnitName ap),
      mp_Url = omitEmpty [] (PrintableUTF8OrEmpty isPrint (URL ap)), mp_UrlB64 = byteSlicePtr (URL ap)\<rparr>"

definition account_assets ::
  "sdk \<Rightarrow> 'j codec \<Rightarrow> 'j json_arrays \<Rightarrow> string \<Rightarrow> 'j asset_row list option \<Rightarrow> Asset list option result" where
  "account_assets env c ar address column =
     (case column of
        None \<Rightarrow> Inr None
      | Some rows \<Rightarrow>
          let ids = agg_uints ar (map as_index rows) in
          if is_null_array ar ids then Inr None
          else
            res_bind (res_msg ''parsing json asset param ids'' (dec_uints ar ids)) (\<lambda>assetids.
            res_bind (res_msg ''parsing json asset param string'' (DecodeAssetParamsArray c (agg_docs ar (map as_params rows)))) (\<lambda>assetParams.
            res_bind (res_msg ''parsing json asset created ids''
              (dec_opt_uints ar (agg_opt_uints ar (map (\<lambda>r. Some (as_created_at r)) rows)))) (\<lambda>assetCreated.
            res_bind (res_msg ''parsing json asset closed ids'' (dec_opt_uints ar (agg_opt_uints ar (map as_closed_at rows)))) (\<lambda>assetClosed.
            res_bind (res_msg ''parsing json asset deleted ids'' (dec_opt_bools ar (agg_bools ar (map as_deleted rows)))) (\<lambda>assetDeleted.
            if length assetParams \<noteq> length assetids \<or> length assetCreated \<noteq> length assetids \<or>
              length assetClosed \<noteq> length assetids \<or> length assetDeleted \<noteq> length assetids
            then Inl (ErrMsg ''account asset unpacking'')
            else Inr (Some (for_new_ids assetids (\<lambda>i.
              \<lparr>mas_CreatedAtRound = assetCreated ! i, mas_Deleted = assetDeleted ! i, mas_DestroyedAtRound = assetClosed ! i,
               mas_Index = assetids ! i,
               mas_Params = created_asset_params env (IsPrint c) address (assetParams ! i)\<rparr>)))))))))"

text \<open>A program that is stored is not empty, so a nil program is the empty one.\<close>

definition created_app_params :: "string \<Rightarrow> AppParams \<Rightarrow> ApplicationParams" where
  "created_app_params address ap =
     (let params = zero_ApplicationParams\<lparr>apm_Creator := Some address\<rparr> in
      if ap_ApprovalProgram ap \<noteq> [] \<or> ap_ClearStateProgram ap \<noteq> [] then
        params\<lparr>apm_ApprovalProgram := ap_ApprovalProgram ap, apm_ClearStateProgram := ap_ClearStateProgram ap,
          apm_GlobalState := tealKeyValueToModel (ap_GlobalState ap),
          apm_GlobalStateSchema := Some (schema_model (ap_GlobalStateSchema ap)),
          apm_LocalStateSchema := Some (schema_model (ap_LocalStateSchema ap)),
          apm_Version := omitEmpty 0 (ap_Version ap),
          apm_ExtraProgramPages := (if ap_ExtraProgramPages ap > 0 then Some (ucast (ap_ExtraProgramPages ap)) else None)\<rparr>
      else params)"

definition account_apps ::
  "'j codec \<Rightarrow> 'j json_arrays \<Rightarrow> string \<Rightarrow> 'j app_row list option \<Rightarrow> Application list option result" where
  "account_apps c ar address column =
     (case column of
        None \<Rightarrow> Inr None
      | Some rows \<Rightarrow>
            res_bind (res_msg ''parsing json appids'' (dec_uints ar (agg_uints ar (map app_index rows)))) (\<lambda>appIds.
            res_bind (res_msg ''parsing json app created ids''
              (dec_opt_uints ar (agg_opt_uints ar (map (\<lambda>r. Some (app_created_at r)) rows)))) (\<lambda>appCreated.
            res_bind (res_msg ''parsing json app closed ids'' (dec_opt_uints ar (agg_opt_uints ar (map app_closed_at rows)))) (\<lambda>appClosed.
            res_bind (res_msg ''parsing json app deleted flags'' (dec_opt_bools ar (agg_bools ar (map app_deleted rows)))) (\<lambda>appDeleted.
            res_bind (res_msg ''parsing json appparams'' (DecodeAppParamsArray c (agg_docs ar (map app_params rows)))) (\<lambda>apps.
            if length appIds \<noteq> length apps \<or> length appClosed \<noteq> length apps \<or> length appCreated \<noteq> length apps \<or>
              length appDeleted \<noteq> length apps
            then Inl (ErrMsg ''account app unpacking'')
            else Inr (Some (map (\<lambda>i.
              \<lparr>ma_CreatedAtRound = appCreated ! i, ma_Deleted = appDeleted ! i, ma_DeletedAtRound = appClosed ! i,
               ma_Id = appIds ! i, ma_Params = created_app_params address (apps ! i)\<rparr>) [0..<length appIds]))))))))"

definition account_states ::
  "'j codec \<Rightarrow> 'j json_arrays \<Rightarrow> 'j account_app_row list option \<Rightarrow> ApplicationLocalState list option result" where
  "account_states c ar column =
     (case column of
        None \<Rightarrow> Inr None
      | Some rows \<Rightarrow>
            res_bind (res_msg ''parsing json local appids'' (dec_uints ar (agg_uints ar (map al_app rows)))) (\<lambda>appIds.
            res_bind (res_msg ''parsing json ls created ids''
              (dec_opt_uints ar (agg_opt_uints ar (map (\<lambda>r. Some (al_created_at r)) rows)))) (\<lambda>appCreated.
            res_bind (res_msg ''parsing json ls closed ids'' (dec_opt_uints ar (agg_opt_uints ar (map al_closed_at rows)))) (\<lambda>appClosed.
            res_bind (res_msg ''parsing json ls closed ids'' (dec_opt_bools ar (agg_bools ar (map al_deleted rows)))) (\<lambda>appDeleted.
            res_bind (res_msg ''parsing json local states'' (DecodeAppLocalStateArray c (agg_docs ar (map al_localstate rows)))) (\<lambda>ls.
            if length appIds \<noteq> length ls \<or> length appClosed \<noteq> length ls \<or> length appCreated \<noteq> length ls \<or>
              length appDeleted \<noteq> length ls
            then Inl (ErrMsg ''account app unpacking'')
            else Inr (Some (map (\<lambda>i.
              \<lparr>mls_ClosedOutAtRound = appClosed ! i, mls_Deleted = appDeleted ! i, mls_Id = appIds ! i,
               mls_KeyValue = tealKeyValueToModel (als_KeyValue (ls ! i)), mls_OptedInAtRound = appCreated ! i,
               mls_Schema = schema_model (als_Schema (ls ! i))\<rparr>) [0..<length appIds]))))))))"

text \<open>The body of the loop over the rows. A status without a name is an index out of range.\<close>

definition account_record ::
  "sdk \<Rightarrow> 'j codec \<Rightarrow> 'j json_arrays \<Rightarrow> ConsensusParams \<Rightarrow> BlockHeader \<Rightarrow> 'j account_answer \<Rightarrow> model_Account result" where
  "account_record env c ar proto blockheader w =
     (let r = aw_account w; account = account_base env blockheader r in
      res_bind (res_msg ''account decode err'' (DecodeTrimmedLcAccountData c (acc_account_data r))) (\<lambda>accountData.
      if Status accountData \<ge> 3 then Inl (ErrMsg ''index out of range'')
      else
        let account = with_rewards proto blockheader r (with_account_data env proto accountData account) in
        res_bind (account_holdings ar (aw_holdings w)) (\<lambda>av.
        res_bind (account_assets env c ar (mac_Address account) (aw_assets w)) (\<lambda>cal.
        res_bind (account_apps c ar (mac_Address account) (aw_apps w)) (\<lambda>apps.
        res_bind (account_states c ar (aw_states w)) (\<lambda>states.
        Inr (account\<lparr>mac_Assets := av, mac_CreatedAssets := cal, mac_CreatedApps := apps, mac_AppsLocalState := states\<rparr>)))))))"

text \<open>The loop ends after the limit, also when the server has more rows.\<close>

fun yield_accounts ::
  "('w \<Rightarrow> model_Account result) \<Rightarrow> uint64 \<Rightarrow> uint64 \<Rightarrow> 'w list \<Rightarrow> err option \<Rightarrow> AccountRow list" where
  "yield_accounts rec limit cnt [] rowsErr =
     (case rowsErr of None \<Rightarrow> [] | Some _ \<Rightarrow> [account_error (ErrMsg ''error reading rows'')])"
| "yield_accounts rec limit cnt (w # ws) rowsErr =
     (case rec w of
        Inl e \<Rightarrow> [account_error e]
      | Inr account \<Rightarrow>
          \<lparr>acr_Account = account, acr_Error = None\<rparr> #
          (if limit \<noteq> 0 \<and> cnt + 1 \<ge> limit then [] else yield_accounts rec limit (cnt + 1) ws rowsErr))"

definition yieldAccountsThread ::
  "sdk \<Rightarrow> 'j codec \<Rightarrow> 'j json_arrays \<Rightarrow> AccountQueryOptions \<Rightarrow> BlockHeader \<Rightarrow> 'j account_answer list \<Rightarrow> err option \<Rightarrow> AccountRow list"
where
  "yieldAccountsThread env c ar opts blockheader rows rowsErr =
     (case Consensus env (CurrentProtocol blockheader) of
        None \<Rightarrow> [account_error (ErrMsg ''get protocol err'')]
      | Some proto \<Rightarrow> yield_accounts (account_record env c ar proto blockheader) (ao_Limit opts) 0 rows rowsErr)"

section \<open>The limit of resources\<close>

text \<open>What the check counts: the totals of the stored account data, or the rows when deleted ones are
  included.\<close>

record resource_totals =
  rt_Assets :: uint64
  rt_AssetParams :: uint64
  rt_AppLocalStates :: uint64
  rt_AppParams :: uint64

definition row_count :: "'r list option \<Rightarrow> uint64" where
  "row_count column = (case column of None \<Rightarrow> 0 | Some rows \<Rightarrow> of_nat (length rows))"

definition totals :: "bool \<Rightarrow> 'j account_answer \<Rightarrow> AccountData \<Rightarrow> resource_totals" where
  "totals countOnly w ad =
     (if countOnly then
        \<lparr>rt_Assets = row_count (aw_holdings w), rt_AssetParams = row_count (aw_assets w),
         rt_AppLocalStates = row_count (aw_states w), rt_AppParams = row_count (aw_apps w)\<rparr>
      else
        \<lparr>rt_Assets = TotalAssets ad, rt_AssetParams = TotalAssetParams ad,
         rt_AppLocalStates = TotalAppLocalStates ad, rt_AppParams = TotalAppParams ad\<rparr>)"

definition result_count :: "AccountQueryOptions \<Rightarrow> resource_totals \<Rightarrow> uint64" where
  "result_count opts t =
     (if ao_IncludeAssetHoldings opts then rt_Assets t else 0) +
     (if ao_IncludeAssetParams opts then rt_AssetParams t else 0) +
     (if ao_IncludeAppLocalState opts then rt_AppLocalStates t else 0) +
     (if ao_IncludeAppParams opts then rt_AppParams t else 0)"

fun check_rows :: "'j codec \<Rightarrow> AccountQueryOptions \<Rightarrow> bool \<Rightarrow> 'j account_answer list \<Rightarrow> unit result" where
  "check_rows c opts countOnly [] = Inr ()"
| "check_rows c opts countOnly (w # ws) =
     res_bind (res_msg ''account limit decode err'' (DecodeTrimmedLcAccountData c (acc_account_data (aw_account w)))) (\<lambda>ad.
       let t = totals countOnly w ad in
       if result_count opts t > ao_MaxResources opts then
         Inl (MaxAPIResourcesPerAccountError (copy_array 32 (acc_addr (aw_account w)))
           (rt_AppLocalStates t) (rt_AppParams t) (rt_Assets t) (rt_AssetParams t))
       else check_rows c opts countOnly ws)"

text \<open>The loop does not ask whether the rows ended with an error: an error after some rows ends it
  without one.\<close>

definition checkAccountResourceLimit ::
  "'j text_server \<Rightarrow> query_env \<Rightarrow> 'j codec \<Rightarrow> 'j main_tables \<Rightarrow> AccountQueryOptions \<Rightarrow> unit result" where
  "checkAccountResourceLimit srv qenv c main opts =
     (if \<not> ao_IncludeAssetHoldings opts \<and> \<not> ao_IncludeAssetParams opts \<and> \<not> ao_IncludeAppLocalState opts \<and>
        \<not> ao_IncludeAppParams opts then Inr ()
      else
        let countOnly = ao_IncludeDeleted opts;
            opts' = (if ao_IncludeDeleted opts then opts
              else opts\<lparr>ao_IncludeAssetHoldings := False, ao_IncludeAssetParams := False,
                     ao_IncludeAppLocalState := False, ao_IncludeAppParams := False\<rparr>);
            rows = exec_account_query srv main (buildAccountQuery opts' countOnly)
        in case query_err qenv 1 of
             Some _ \<Rightarrow> Inl (ErrMsg ''account limit query err'')
           | None \<Rightarrow> check_rows c opts countOnly (case rows_err qenv 1 of None \<Rightarrow> rows | Some (k, _) \<Rightarrow> take k rows))"

section \<open>The search\<close>

text \<open>The queries of the transaction: the block header (0), the check of the limit (1), the accounts (2).\<close>

definition GetAccounts ::
  "sdk \<Rightarrow> 'j text_server \<Rightarrow> 'j json_arrays \<Rightarrow> query_env \<Rightarrow> 'j codec \<Rightarrow> 'j main_tables \<Rightarrow> AccountQueryOptions \<Rightarrow>
   AccountRow list \<times> uint64" where
  "GetAccounts env srv ar qenv c main opts =
     (if ao_HasAssetID opts = 0 \<and> (ao_AssetGT opts \<noteq> None \<or> ao_AssetLT opts \<noteq> None)
      then ([account_error (ErrMsg ''AssetGT or AssetLT without HasAssetID'')], 0)
      else if begin_err qenv \<noteq> None then ([account_error (ErrMsg ''account tx err'')], 0)
      else case getMaxRoundAccounted c main of
        Inl _ \<Rightarrow> ([account_error (ErrMsg ''account round err'')], 0)
      | Inr rnd \<Rightarrow>
          (case (query_err qenv 0, lookup_row bhr_round rnd (tbl_block_header main)) of
             (None, Some h) \<Rightarrow>
               (case DecodeBlockHeader c (bhr_header h) of
                  Inl _ \<Rightarrow> [account_error (ErrMsg ''account round header err'')]
                | Inr blockheader \<Rightarrow>
                    (case (if ao_MaxResources opts \<noteq> 0 then checkAccountResourceLimit srv qenv c main opts else Inr ()) of
                       Inl e \<Rightarrow> [account_error e]
                     | Inr _ \<Rightarrow>
                         let rows = exec_account_query srv main (buildAccountQuery opts False) in
                         case query_err qenv 2 of
                           Some _ \<Rightarrow> [account_error (ErrMsg ''account query err'')]
                         | None \<Rightarrow>
                             (case rows_err qenv 2 of
                                None \<Rightarrow> yieldAccountsThread env c ar opts blockheader rows None
                              | Some (k, e) \<Rightarrow> yieldAccountsThread env c ar opts blockheader (take k rows) (Some e))))
           | _ \<Rightarrow> [account_error (ErrMsg ''account round header err'')],
           rnd))"

end
