(* ===== verification/TxnQuery.thy ===== *)
theory TxnQuery
  imports Filters IndexerDb SqlBuild
begin

unbundle bit_operations_syntax

text \<open>
  The search for transactions (\<^verbatim>\<open>idb/postgres/postgres.go\<close>, \<open>buildTransactionQuery\<close> to
  \<open>yieldTxnsThreadSimple\<close>, and \<open>GetBlock\<close>): a filter is turned into a query with numbered placeholders
  and a list of arguments, the server runs it, and the rows are decoded and sent to a channel.

  A query is kept as a structure whose SQL text is \<open>query_sql\<close>, and \<open>exec_query\<close> is what the server
  answers. Reading the stored documents is the server's part: the record \<open>sql_server\<close> is a parameter.
  Numbers are compared unsigned; the columns are signed 64 bit numbers, and the API refuses numbers
  above \<open>MaxInt64\<close>.
\<close>

section \<open>Queries\<close>

text \<open>A term of the \<open>WHERE\<close> clause; the last number is that of its placeholder. \<open>BeforePart\<close> and
  \<open>AfterPart\<close> say whether the round of the participation or of the transaction is compared.\<close>

datatype where_part =
    PAddr nat | PRoundGe nat | PRoundLe nat | RolesPart "(string \<times> nat) list"
  | TRoundGe nat | TRoundLe nat | BeforePart bool nat | AfterPart bool nat
  | AssetPart nat | AssetAmountGTPart nat | AssetAmountLTPart nat
  | TypeEnumPart nat | TxidPart nat | GroupPart nat
  | RoundPart nat | OffsetPart nat | OffsetLTPart nat | OffsetGTPart nat
  | SigTypePart nat | NotePart nat nat
  | AlgosGTPart nat | AlgosLTPart nat | EffectiveGTPart nat | EffectiveLTPart nat
  | RekeyPart | RootPart | LogsPart

record txn_query =
  q_root :: bool
  q_participation :: bool
  q_where :: "where_part list"
  q_limit :: "uint64 option"

definition json_path :: "string \<Rightarrow> string list \<Rightarrow> string" where
  "json_path doc ks = doc @ concat (map (\<lambda>k. '' -> '' @ quoted k) ks)"

definition p_or_t :: "bool \<Rightarrow> string" where
  "p_or_t joined = (if joined then ''p.round'' else ''t.round'')"

definition group_path :: string where
  "group_path = ''t.txn #>> '' @ quoted ''{txn,grp}'' @ ''::text[]''"

fun part_sql :: "where_part \<Rightarrow> string" where
  "part_sql (PAddr n) = placeholder ''p.addr = '' n"
| "part_sql (PRoundGe n) = placeholder ''p.round >= '' n"
| "part_sql (PRoundLe n) = placeholder ''p.round <= '' n"
| "part_sql (RolesPart rs) =
     ''('' @ join_strings '' OR ''
       (map (\<lambda>(k, n). placeholder (json_path ''t.txn'' [''txn''] @ '' ->> '' @ quoted k @ '' = '') n) rs) @ '')''"
| "part_sql (TRoundGe n) = placeholder ''t.round >= '' n"
| "part_sql (TRoundLe n) = placeholder ''t.round <= '' n"
| "part_sql (BeforePart joined n) =
     p_or_t joined @ placeholder '' <= (SELECT round from block_header WHERE realtime < '' n @
     '' ORDER BY realtime DESC LIMIT 1)''"
| "part_sql (AfterPart joined n) =
     p_or_t joined @ placeholder '' >= (SELECT round from block_header WHERE realtime > '' n @
     '' ORDER BY realtime ASC LIMIT 1)''"
| "part_sql (AssetPart n) = placeholder ''t.asset = '' n"
| "part_sql (AssetAmountGTPart n) = placeholder (''('' @ json_path ''t.txn'' [''txn'', ''aamt''] @ '')::numeric(20) > '') n"
| "part_sql (AssetAmountLTPart n) = placeholder (''('' @ json_path ''t.txn'' [''txn'', ''aamt''] @ '')::numeric(20) < '') n"
| "part_sql (TypeEnumPart n) = placeholder ''t.typeenum = '' n"
| "part_sql (TxidPart n) = placeholder ''t.txid = '' n"
| "part_sql (GroupPart n) = placeholder (group_path @ '' = '') n @ '' AND '' @ group_path @ '' IS NOT NULL''"
| "part_sql (RoundPart n) = placeholder ''t.round = '' n"
| "part_sql (OffsetPart n) = placeholder ''t.intra = '' n"
| "part_sql (OffsetLTPart n) = placeholder ''t.intra < '' n"
| "part_sql (OffsetGTPart n) = placeholder ''t.intra > '' n"
| "part_sql (SigTypePart n) = placeholder ''t.txn -> '' n @ '' IS NOT NULL''"
| "part_sql (NotePart len n) =
     ''substring(decode('' @ json_path ''t.txn'' [''txn''] @ '' ->> '' @ quoted ''note'' @ '', '' @ quoted ''base64'' @
     '') from 1 for '' @ format_nat len @ placeholder '') = '' n"
| "part_sql (AlgosGTPart n) = placeholder (''('' @ json_path ''t.txn'' [''txn'', ''amt''] @ '')::bigint > '') n"
| "part_sql (AlgosLTPart n) = placeholder (''('' @ json_path ''t.txn'' [''txn'', ''amt''] @ '')::bigint < '') n"
| "part_sql (EffectiveGTPart n) =
     placeholder (''(('' @ json_path ''t.txn'' [''ca''] @ '')::bigint + ('' @ json_path ''t.txn'' [''txn'', ''amt''] @ '')::bigint) > '') n"
| "part_sql (EffectiveLTPart n) =
     placeholder (''(('' @ json_path ''t.txn'' [''ca''] @ '')::bigint + ('' @ json_path ''t.txn'' [''txn'', ''amt''] @ '')::bigint) < '') n"
| "part_sql RekeyPart = ''('' @ json_path ''t.txn'' [''txn'', ''rekey''] @ '') IS NOT NULL''"
| "part_sql RootPart = ''t.txid IS NOT NULL''"
| "part_sql LogsPart = json_path ''t.txn'' [''dt'', ''lg''] @ '' IS NOT NULL''"

definition query_sql :: "txn_query \<Rightarrow> string" where
  "query_sql q =
     (if q_root q
      then ''SELECT t.round, t.intra, t.txn, root.txn, t.extra, t.asset, h.realtime FROM txn t JOIN block_header h ON t.round = h.round''
      else ''SELECT t.round, t.intra, t.txn, NULL, t.extra, t.asset, h.realtime FROM txn t JOIN block_header h ON t.round = h.round'') @
     (if q_participation q then '' JOIN txn_participation p ON t.round = p.round AND t.intra = p.intra'' else []) @
     (if q_root q
      then '' LEFT OUTER JOIN txn root ON t.round = root.round AND (t.extra->>'' @ quoted ''root-intra'' @ '')::int = root.intra''
      else []) @
     (if q_where q \<noteq> [] then '' WHERE '' @ join_strings '' AND '' (map part_sql (q_where q)) else []) @
     (if q_participation q then '' ORDER BY p.addr, p.round DESC, p.intra DESC'' else '' ORDER BY t.round, t.intra'') @
     (case q_limit q of None \<Rightarrow> [] | Some l \<Rightarrow> '' LIMIT '' @ FormatUint l)"

section \<open>Building a query\<close>

definition role_keys :: "(AddressRole \<times> string) list" where
  "role_keys =
     [(AddressRoleSender, ''snd''), (AddressRoleReceiver, ''rcv''), (AddressRoleCloseRemainderTo, ''close''),
      (AddressRoleAssetSender, ''asnd''), (AddressRoleAssetReceiver, ''arcv''),
      (AddressRoleAssetCloseTo, ''aclose''), (AddressRoleFreeze, ''fadd'')]"

fun build_roles ::
  "AddressRole \<Rightarrow> string \<Rightarrow> (AddressRole \<times> string) list \<Rightarrow> (string \<times> nat) list \<times> sql_arg list \<times> nat \<Rightarrow>
   (string \<times> nat) list \<times> sql_arg list \<times> nat" where
  "build_roles role addrBase64 [] b = b"
| "build_roles role addrBase64 ((r, k) # rks) (roleparts, as, n) =
     build_roles role addrBase64 rks
       (if role AND r \<noteq> 0 then (roleparts @ [(k, n)], as @ [ArgS addrBase64], n + 1) else (roleparts, as, n))"

definition add_roles :: "AddressRole \<Rightarrow> bytes \<Rightarrow> where_part build \<Rightarrow> where_part build" where
  "add_roles role addr = (\<lambda>(ps, as, n).
     case build_roles role (Base64 addr) role_keys ([], as, n) of
       (roleparts, as', n') \<Rightarrow> (ps @ [RolesPart roleparts], as', n'))"

definition add_address :: "TransactionFilter \<Rightarrow> where_part build \<Rightarrow> where_part build" where
  "add_address tf b =
     (case tf_Address tf of
        None \<Rightarrow> b
      | Some addr \<Rightarrow>
          add_if (tf_AddressRole tf \<noteq> 0) (add_roles (tf_AddressRole tf) addr)
         (add_if (tf_MaxRound tf \<noteq> 0) (add_part PRoundLe (ArgU (tf_MaxRound tf)))
         (add_if (tf_MinRound tf \<noteq> 0) (add_part PRoundGe (ArgU (tf_MinRound tf)))
         (add_part PAddr (ArgB addr) b))))"

definition creatable_id :: "TransactionFilter \<Rightarrow> uint64 option result" where
  "creatable_id tf =
     (case tf_AssetID tf of
        Some assetid \<Rightarrow>
          (case tf_ApplicationID tf of
             Some appid \<Rightarrow>
               if assetid \<noteq> appid then Inl (ErrMsg ''cannot search both assetid and appid'') else Inr (Some assetid)
           | None \<Rightarrow> Inr (Some assetid))
      | None \<Rightarrow> Inr (tf_ApplicationID tf))"

definition build_rounds :: "TransactionFilter \<Rightarrow> where_part build \<Rightarrow> where_part build" where
  "build_rounds tf b =
     (let joinParticipation = tf_Address tf \<noteq> None in
      add_if (\<not> time_IsZero (tf_AfterTime tf)) (add_part (AfterPart joinParticipation) (ArgT (tf_AfterTime tf)))
     (add_if (\<not> time_IsZero (tf_BeforeTime tf)) (add_part (BeforePart joinParticipation) (ArgT (tf_BeforeTime tf)))
     (add_if (tf_MaxRound tf \<noteq> 0) (add_part TRoundLe (ArgU (tf_MaxRound tf)))
     (add_if (tf_MinRound tf \<noteq> 0) (add_part TRoundGe (ArgU (tf_MinRound tf)))
     (add_address tf b)))))"

definition build_position :: "TransactionFilter \<Rightarrow> where_part build \<Rightarrow> where_part build" where
  "build_position tf b =
      add_opt OffsetGTPart (tf_OffsetGT tf)
     (add_opt OffsetLTPart (tf_OffsetLT tf)
     (add_opt OffsetPart (tf_Offset tf)
     (add_opt RoundPart (tf_Round tf)
     (add_if (tf_GroupID tf \<noteq> []) (add_part GroupPart (ArgS (b64_encode std_alphabet (tf_GroupID tf))))
     (add_if (tf_Txid tf \<noteq> []) (add_part TxidPart (ArgS (tf_Txid tf)))
     (add_if (tf_TypeEnum tf \<noteq> 0) (add_part TypeEnumPart (ArgI (tf_TypeEnum tf)))
     (add_opt AssetAmountLTPart (tf_AssetAmountLT tf)
     (add_opt AssetAmountGTPart (tf_AssetAmountGT tf) b))))))))"

definition build_contents :: "TransactionFilter \<Rightarrow> where_part build \<Rightarrow> where_part build" where
  "build_contents tf b =
      add_if (tf_RequireApplicationLogs tf) (add_cond LogsPart)
     (add_if (tf_SkipInnerTransactions tf) (add_cond RootPart)
     (add_if (tf_RekeyTo tf = Some True) (add_cond RekeyPart)
     (add_opt EffectiveLTPart (tf_EffectiveAmountLT tf)
     (add_opt EffectiveGTPart (tf_EffectiveAmountGT tf)
     (add_opt AlgosLTPart (tf_AlgosLT tf)
     (add_opt AlgosGTPart (tf_AlgosGT tf)
     (add_if (tf_NotePrefix tf \<noteq> []) (add_part (NotePart (length (tf_NotePrefix tf))) (ArgB (tf_NotePrefix tf)))
     (add_if (tf_SigType tf \<noteq> []) (add_part SigTypePart (ArgS (tf_SigType tf))) b))))))))"

text \<open>\<open>sdk.MaxTxGroupSize\<close> of the SDK.\<close>

definition MaxTxGroupSize :: uint64 where
  "MaxTxGroupSize = 16"

definition query_limit :: "TransactionFilter \<Rightarrow> uint64 option" where
  "query_limit tf =
     (if tf_GroupID tf \<noteq> [] \<and> (tf_Limit tf = 0 \<or> tf_Limit tf \<ge> MaxTxGroupSize) then None
      else if tf_Limit tf \<noteq> 0 then Some (tf_Limit tf) else None)"

definition buildTransactionQuery :: "TransactionFilter \<Rightarrow> (txn_query \<times> sql_arg list) result" where
  "buildTransactionQuery tf =
     res_bind (creatable_id tf) (\<lambda>creatableID.
       case build_contents tf (build_position tf (add_opt AssetPart creatableID (build_rounds tf ([], [], 1)))) of
         (whereParts, whereArgs, _) \<Rightarrow>
           Inr (\<lparr>q_root = (\<not> tf_SkipInnerTransactionConversion tf \<and> \<not> tf_SkipInnerTransactions tf),
                 q_participation = (tf_Address tf \<noteq> None), q_where = whereParts, q_limit = query_limit tf\<rparr>,
                whereArgs))"

section \<open>Running a query\<close>

text \<open>
  What the server computes from a stored document: the text, the number or the presence of the value
  under a path, and base 64 decoding.
\<close>

record 'j sql_server =
  json_text :: "string list \<Rightarrow> 'j \<Rightarrow> string option"
  json_num :: "string list \<Rightarrow> 'j \<Rightarrow> int option"
  json_has :: "string list \<Rightarrow> 'j \<Rightarrow> bool"
  pg_decode64 :: "string \<Rightarrow> bytes"

record 'j joined_row =
  j_t :: "'j txn_row"
  j_h :: "'j block_header_row"
  j_p :: "txn_participation_row option"
  j_root :: "'j option"

text \<open>The columns of an answer.\<close>

record 'j answer =
  an_round :: uint64
  an_intra :: uint64
  an_txn :: 'j
  an_root :: "'j option"
  an_extra :: 'j
  an_asset :: uint64
  an_realtime :: Time

definition round_before :: "Time \<Rightarrow> 'j block_header_row list \<Rightarrow> uint64 option" where
  "round_before time hs =
     (case rev (sort_key bhr_realtime (filter (\<lambda>h. bhr_realtime h < time) hs)) of
        [] \<Rightarrow> None | h # _ \<Rightarrow> Some (bhr_round h))"

definition round_after :: "Time \<Rightarrow> 'j block_header_row list \<Rightarrow> uint64 option" where
  "round_after time hs =
     (case sort_key bhr_realtime (filter (\<lambda>h. bhr_realtime h > time) hs) of
        [] \<Rightarrow> None | h # _ \<Rightarrow> Some (bhr_round h))"

definition effective_amount :: "'j sql_server \<Rightarrow> 'j \<Rightarrow> int option" where
  "effective_amount srv txn =
     (case json_num srv [''ca''] txn of
        None \<Rightarrow> None
      | Some ca \<Rightarrow> (case json_num srv [''txn'', ''amt''] txn of None \<Rightarrow> None | Some amt \<Rightarrow> Some (ca + amt)))"

definition note_prefix :: "'j sql_server \<Rightarrow> nat \<Rightarrow> 'j \<Rightarrow> bytes option" where
  "note_prefix srv len txn = map_option (\<lambda>s. take len (pg_decode64 srv s)) (json_text srv [''txn'', ''note''] txn)"

text \<open>The round that \<open>p.round\<close> or \<open>t.round\<close> names.\<close>

definition row_round :: "bool \<Rightarrow> 'j joined_row \<Rightarrow> uint64" where
  "row_round joined j = (case j_p j of Some p \<Rightarrow> if joined then tp_round p else t_round (j_t j) | None \<Rightarrow> t_round (j_t j))"

text \<open>A condition on \<open>NULL\<close> does not hold.\<close>

fun eval_part :: "'j sql_server \<Rightarrow> 'j block_header_row list \<Rightarrow> sql_arg list \<Rightarrow> 'j joined_row \<Rightarrow> where_part \<Rightarrow> bool" where
  "eval_part srv hs as j (PAddr n) = option_holds (\<lambda>p. tp_addr p = the_B (arg_at as n)) (j_p j)"
| "eval_part srv hs as j (PRoundGe n) = option_holds (\<lambda>p. tp_round p \<ge> the_U (arg_at as n)) (j_p j)"
| "eval_part srv hs as j (PRoundLe n) = option_holds (\<lambda>p. tp_round p \<le> the_U (arg_at as n)) (j_p j)"
| "eval_part srv hs as j (RolesPart rs) =
     list_ex (\<lambda>(k, n). json_text srv [''txn'', k] (t_txn (j_t j)) = Some (the_S (arg_at as n))) rs"
| "eval_part srv hs as j (TRoundGe n) = (t_round (j_t j) \<ge> the_U (arg_at as n))"
| "eval_part srv hs as j (TRoundLe n) = (t_round (j_t j) \<le> the_U (arg_at as n))"
| "eval_part srv hs as j (BeforePart joined n) =
     option_holds (\<lambda>r. row_round joined j \<le> r) (round_before (the_T (arg_at as n)) hs)"
| "eval_part srv hs as j (AfterPart joined n) =
     option_holds (\<lambda>r. row_round joined j \<ge> r) (round_after (the_T (arg_at as n)) hs)"
| "eval_part srv hs as j (AssetPart n) = (t_asset (j_t j) = the_U (arg_at as n))"
| "eval_part srv hs as j (AssetAmountGTPart n) =
     option_holds (\<lambda>a. a > uint (the_U (arg_at as n))) (json_num srv [''txn'', ''aamt''] (t_txn (j_t j)))"
| "eval_part srv hs as j (AssetAmountLTPart n) =
     option_holds (\<lambda>a. a < uint (the_U (arg_at as n))) (json_num srv [''txn'', ''aamt''] (t_txn (j_t j)))"
| "eval_part srv hs as j (TypeEnumPart n) = (t_typeenum (j_t j) = the_I (arg_at as n))"
| "eval_part srv hs as j (TxidPart n) = (t_txid (j_t j) = Some (the_S (arg_at as n)))"
| "eval_part srv hs as j (GroupPart n) = (json_text srv [''txn'', ''grp''] (t_txn (j_t j)) = Some (the_S (arg_at as n)))"
| "eval_part srv hs as j (RoundPart n) = (t_round (j_t j) = the_U (arg_at as n))"
| "eval_part srv hs as j (OffsetPart n) = (t_intra (j_t j) = the_U (arg_at as n))"
| "eval_part srv hs as j (OffsetLTPart n) = (t_intra (j_t j) < the_U (arg_at as n))"
| "eval_part srv hs as j (OffsetGTPart n) = (t_intra (j_t j) > the_U (arg_at as n))"
| "eval_part srv hs as j (SigTypePart n) = json_has srv [the_S (arg_at as n)] (t_txn (j_t j))"
| "eval_part srv hs as j (NotePart len n) = (note_prefix srv len (t_txn (j_t j)) = Some (the_B (arg_at as n)))"
| "eval_part srv hs as j (AlgosGTPart n) =
     option_holds (\<lambda>a. a > uint (the_U (arg_at as n))) (json_num srv [''txn'', ''amt''] (t_txn (j_t j)))"
| "eval_part srv hs as j (AlgosLTPart n) =
     option_holds (\<lambda>a. a < uint (the_U (arg_at as n))) (json_num srv [''txn'', ''amt''] (t_txn (j_t j)))"
| "eval_part srv hs as j (EffectiveGTPart n) =
     option_holds (\<lambda>a. a > uint (the_U (arg_at as n))) (effective_amount srv (t_txn (j_t j)))"
| "eval_part srv hs as j (EffectiveLTPart n) =
     option_holds (\<lambda>a. a < uint (the_U (arg_at as n))) (effective_amount srv (t_txn (j_t j)))"
| "eval_part srv hs as j RekeyPart = json_has srv [''txn'', ''rekey''] (t_txn (j_t j))"
| "eval_part srv hs as j RootPart = (t_txid (j_t j) \<noteq> None)"
| "eval_part srv hs as j LogsPart = json_has srv [''dt'', ''lg''] (t_txn (j_t j))"

text \<open>The left outer join with the root transaction.\<close>

definition root_txns :: "'j sql_server \<Rightarrow> 'j txn_row list \<Rightarrow> 'j txn_row \<Rightarrow> 'j option list" where
  "root_txns srv ts t =
     (case filter (\<lambda>r. t_round t = t_round r \<and> json_num srv [''root-intra''] (t_extra t) = Some (uint (t_intra r))) ts of
        [] \<Rightarrow> [None]
      | rs \<Rightarrow> map (\<lambda>r. Some (t_txn r)) rs)"

definition join_rows ::
  "'j sql_server \<Rightarrow> 'j block_header_row list \<Rightarrow> 'j txn_tables \<Rightarrow> txn_query \<Rightarrow> 'j joined_row list" where
  "join_rows srv hs db q =
     concat (map (\<lambda>t.
       concat (map (\<lambda>h.
         concat (map (\<lambda>p.
           map (\<lambda>root. \<lparr>j_t = t, j_h = h, j_p = p, j_root = root\<rparr>)
             (if q_root q then root_txns srv (tbl_txn db) t else [None]))
           (if q_participation q
            then map Some (filter (\<lambda>p. t_round t = tp_round p \<and> t_intra t = tp_intra p) (tbl_txn_participation db))
            else [None])))
         (filter (\<lambda>h. t_round t = bhr_round h) hs)))
       (tbl_txn db))"

definition j_position :: "'j joined_row \<Rightarrow> uint64 \<times> uint64" where
  "j_position j = (case j_p j of Some p \<Rightarrow> (tp_round p, tp_intra p) | None \<Rightarrow> (t_round (j_t j), t_intra (j_t j)))"

definition j_addr :: "'j joined_row \<Rightarrow> Address" where
  "j_addr j = (case j_p j of Some p \<Rightarrow> tp_addr p | None \<Rightarrow> [])"

definition order_rows :: "txn_query \<Rightarrow> 'j joined_row list \<Rightarrow> 'j joined_row list" where
  "order_rows q js =
     (if q_participation q then sort_key j_addr (rev (sort_key j_position js)) else sort_key j_position js)"

definition answer_of :: "'j joined_row \<Rightarrow> 'j answer" where
  "answer_of j =
     \<lparr>an_round = t_round (j_t j), an_intra = t_intra (j_t j), an_txn = t_txn (j_t j), an_root = j_root j,
      an_extra = t_extra (j_t j), an_asset = t_asset (j_t j), an_realtime = bhr_realtime (j_h j)\<rparr>"

definition exec_query ::
  "'j sql_server \<Rightarrow> 'j block_header_row list \<Rightarrow> 'j txn_tables \<Rightarrow> txn_query \<times> sql_arg list \<Rightarrow> 'j answer list" where
  "exec_query srv hs db = (\<lambda>(q, as).
     map answer_of
       (limit_rows (q_limit q)
         (order_rows q (filter (\<lambda>j. list_all (eval_part srv hs as j) (q_where q)) (join_rows srv hs db q)))))"


section \<open>Reading the rows\<close>

definition run_query ::
  "'j sql_server \<Rightarrow> query_env \<Rightarrow> nat \<Rightarrow> 'j block_header_row list \<Rightarrow> 'j txn_tables \<Rightarrow> txn_query \<times> sql_arg list \<Rightarrow>
   ('j answer list \<times> err option) result" where
  "run_query srv env i hs db q =
     (case query_err env i of
        Some e \<Rightarrow> Inl e
      | None \<Rightarrow>
          Inr (case rows_err env i of
                 None \<Rightarrow> (exec_query srv hs db q, None)
               | Some (k, e) \<Rightarrow> (take k (exec_query srv hs db q), Some e)))"

definition zero_TxnRow :: TxnRow where
  "zero_TxnRow =
     \<lparr>tr_Round = 0, tr_RoundTime = zero_time, tr_Intra = 0, tr_Txn = None, tr_RootTxn = None, tr_AssetID = 0,
      tr_Extra = zero_TxnExtra, tr_Error = None\<rparr>"

definition error_row :: "err \<Rightarrow> TxnRow" where
  "error_row e = zero_TxnRow\<lparr>tr_Error := Some e\<rparr>"

text \<open>One pass of the loop: the row that is sent, and the variable \<open>err\<close> after it. Decoding the extra
  column overwrites the variable.\<close>

definition decode_row :: "'j codec \<Rightarrow> 'j answer \<Rightarrow> TxnRow \<times> err option" where
  "decode_row c a =
     (let row = zero_TxnRow\<lparr>tr_Round := an_round a, tr_Intra := an_intra a\<rparr>;
          row = (case an_root a of
                   Some roottxn \<Rightarrow>
                     (case DecodeSignedTxnWithAD c roottxn of
                        Inl e \<Rightarrow> row\<lparr>tr_RootTxn := Some zero_SignedTxnWithAD, tr_Error := Some (Wrap ''error decoding roottxn'' e)\<rparr>
                      | Inr stxn \<Rightarrow> row\<lparr>tr_RootTxn := Some stxn\<rparr>)
                 | None \<Rightarrow>
                     (case DecodeSignedTxnWithAD c (an_txn a) of
                        Inl e \<Rightarrow> row\<lparr>tr_Txn := Some zero_SignedTxnWithAD, tr_Error := Some (Wrap ''error decoding txn'' e)\<rparr>
                      | Inr stxn \<Rightarrow> row\<lparr>tr_Txn := Some stxn\<rparr>));
          row = row\<lparr>tr_RoundTime := an_realtime a, tr_AssetID := an_asset a\<rparr>
      in case DecodeTxnExtra c (an_extra a) of
           Inl _ \<Rightarrow> (row\<lparr>tr_Error := Some (ErrMsg ''decode txn extra'')\<rparr>, Some (ErrMsg ''decode txn extra''))
         | Inr extra \<Rightarrow> (row\<lparr>tr_Extra := extra\<rparr>, None))"

text \<open>The rows that are sent, the count and the error that are stored through the pointers.\<close>

fun yieldTxnsThreadSimple ::
  "'j codec \<Rightarrow> 'j answer list \<Rightarrow> err option \<Rightarrow> nat \<Rightarrow> TxnRow list \<times> nat \<times> err option" where
  "yieldTxnsThreadSimple c [] rowsErr cnt =
     (case rowsErr of None \<Rightarrow> ([], cnt, None) | Some e \<Rightarrow> ([error_row e], cnt, Some e))"
| "yieldTxnsThreadSimple c (a # as) rowsErr cnt =
     (case decode_row c a of (row, err) \<Rightarrow>
        if tr_Error row \<noteq> None then ([row], cnt, err)
        else case yieldTxnsThreadSimple c as rowsErr (cnt + 1) of
          (rows, cnt', err') \<Rightarrow> (row # rows, cnt', err'))"

text \<open>Building, running and reading the \<open>i\<close>-th query. An error before the rows is sent as a row, which
  \<open>txnsWithNext\<close> and \<open>yieldTxns\<close> leave with.\<close>

definition query_rows ::
  "'j sql_server \<Rightarrow> query_env \<Rightarrow> 'j codec \<Rightarrow> nat \<Rightarrow> 'j block_header_row list \<Rightarrow> 'j txn_tables \<Rightarrow> TransactionFilter \<Rightarrow>
   TxnRow list \<times> (nat \<times> err option) option" where
  "query_rows srv env c i hs db tf =
     (case buildTransactionQuery tf of
        Inl _ \<Rightarrow> ([error_row (ErrMsg ''txn query err'')], None)
      | Inr q \<Rightarrow>
          (case run_query srv env i hs db q of
             Inl _ \<Rightarrow> ([error_row (ErrMsg ''txn query err'')], None)
           | Inr (rows, rowsErr) \<Rightarrow>
               (case yieldTxnsThreadSimple c rows rowsErr 0 of (out, cnt, err) \<Rightarrow> (out, Some (cnt, err)))))"

definition first_filter :: "TransactionFilter \<Rightarrow> uint64 \<Rightarrow> uint64 \<Rightarrow> TransactionFilter" where
  "first_filter tf nextround nextintra =
     (if tf_Address tf \<noteq> None then tf\<lparr>tf_Round := Some nextround, tf_OffsetLT := Some nextintra\<rparr>
      else tf\<lparr>tf_Round := Some nextround, tf_OffsetGT := Some nextintra\<rparr>)"

text \<open>The filter of the second query, from the original one; \<open>None\<close> when there is no second query.\<close>

definition second_filter :: "TransactionFilter \<Rightarrow> uint64 \<Rightarrow> nat \<Rightarrow> TransactionFilter option" where
  "second_filter tf nextround cnt =
     (if of_nat cnt \<ge> tf_Limit tf then None
      else let tf = tf\<lparr>tf_Limit := tf_Limit tf - of_nat cnt\<rparr> in
        if tf_Address tf \<noteq> None
        then (if nextround \<le> 1 then None else Some (tf\<lparr>tf_MaxRound := nextround - 1\<rparr>))
        else Some (tf\<lparr>tf_MinRound := nextround + 1\<rparr>))"

definition txnsWithNext ::
  "'j sql_server \<Rightarrow> query_env \<Rightarrow> 'j codec \<Rightarrow> 'j block_header_row list \<Rightarrow> 'j txn_tables \<Rightarrow> TransactionFilter \<Rightarrow> TxnRow list" where
  "txnsWithNext srv env c hs db tf =
     (case DecodeTxnRowNext (tf_NextToken tf) of
        Inl e \<Rightarrow> [error_row e]
      | Inr (nextround, nextintra32) \<Rightarrow>
          let nextintra = ucast nextintra32 in
          if tf_Address tf \<noteq> None \<and> nextround = 0 \<and> nextintra = 0 then []
          else case query_rows srv env c 0 hs db (first_filter tf nextround nextintra) of
            (out, None) \<Rightarrow> out
          | (out, Some (cnt, err)) \<Rightarrow>
              if err \<noteq> None then out
              else case second_filter tf nextround cnt of
                None \<Rightarrow> out
              | Some tf' \<Rightarrow> if ctx_done env then out else out @ fst (query_rows srv env c 1 hs db tf'))"

definition yieldTxns ::
  "'j sql_server \<Rightarrow> query_env \<Rightarrow> 'j codec \<Rightarrow> 'j block_header_row list \<Rightarrow> 'j txn_tables \<Rightarrow> TransactionFilter \<Rightarrow> TxnRow list" where
  "yieldTxns srv env c hs db tf =
     (if tf_NextToken tf \<noteq> [] then txnsWithNext srv env c hs db tf
      else fst (query_rows srv env c 0 hs db tf))"

text \<open>\<open>reflect.DeepEqual\<close> compares every field. The model does not tell an empty note prefix or group from
  one that is not given.\<close>

definition txnFilterOptimization :: "TransactionFilter \<Rightarrow> TransactionFilter" where
  "txnFilterOptimization tf =
     (let defaults = zero_TransactionFilter
            \<lparr>tf_Round := tf_Round tf, tf_MinRound := tf_MinRound tf, tf_MaxRound := tf_MaxRound tf,
             tf_BeforeTime := tf_BeforeTime tf, tf_AfterTime := tf_AfterTime tf, tf_Limit := tf_Limit tf,
             tf_NextToken := tf_NextToken tf, tf_Offset := tf_Offset tf, tf_OffsetLT := tf_OffsetLT tf,
             tf_OffsetGT := tf_OffsetGT tf\<rparr>
      in if tf = defaults then tf\<lparr>tf_SkipInnerTransactions := True\<rparr> else tf)"

definition Transactions ::
  "'j sql_server \<Rightarrow> query_env \<Rightarrow> 'j codec \<Rightarrow> 'j main_tables \<Rightarrow> 'j txn_tables \<Rightarrow> TransactionFilter \<Rightarrow> TxnRow list \<times> uint64" where
  "Transactions srv env c main db tf =
     (let tf = txnFilterOptimization tf in
      case begin_err env of
        Some e \<Rightarrow> ([error_row e], 0)
      | None \<Rightarrow>
          (case getMaxRoundAccounted c main of
             Inl e \<Rightarrow> ([error_row e], 0)
           | Inr rnd \<Rightarrow> (yieldTxns srv env c (tbl_block_header main) db tf, rnd)))"

text \<open>The channel of \<open>GetBlock\<close> is read to its end, so an error row is one of the transactions.\<close>

definition GetBlock ::
  "'j sql_server \<Rightarrow> query_env \<Rightarrow> 'j codec \<Rightarrow> 'j main_tables \<Rightarrow> 'j txn_tables \<Rightarrow> uint64 \<Rightarrow> GetBlockOptions \<Rightarrow>
   (BlockHeader \<times> TxnRow list) result" where
  "GetBlock srv env c main db rnd options =
     (case begin_err env of
        Some e \<Rightarrow> Inl e
      | None \<Rightarrow>
          (case (query_err env 0, lookup_row bhr_round rnd (tbl_block_header main)) of
             (Some e, _) \<Rightarrow> Inl e
           | (None, None) \<Rightarrow> Inl ErrorBlockNotFound
           | (None, Some h) \<Rightarrow>
               res_bind (DecodeBlockHeader c (bhr_header h)) (\<lambda>blockHeader.
                 if gbo_Transactions options then
                   let tf = zero_TransactionFilter\<lparr>tf_Round := Some rnd,
                              tf_Limit := MaxTransactionsLimit options + 1, tf_SkipInnerTransactions := True\<rparr> in
                   case buildTransactionQuery tf of
                     Inl _ \<Rightarrow> Inl (ErrMsg ''txn query err'')
                   | Inr q \<Rightarrow>
                       (case run_query srv env 1 (tbl_block_header main) db q of
                          Inl _ \<Rightarrow> Inl (ErrMsg ''txn query err'')
                        | Inr (rows, rowsErr) \<Rightarrow>
                            let results = fst (yieldTxnsThreadSimple c rows rowsErr 0) in
                            if of_nat (length results) > MaxTransactionsLimit options then Inl MaxTransactionsError
                            else Inr (blockHeader, results))
                 else Inr (blockHeader, []))))"

end
