(* ===== verification/BlockQuery.thy ===== *)
theory BlockQuery
  imports TxnQuery
begin

text \<open>
  The search for block headers (\<^verbatim>\<open>idb/postgres/postgres.go\<close>, \<open>buildBlockHeadersQuery\<close> to
  \<open>yieldBlocksThreadSimple\<close>). The terms of the query carry the values that are printed into its text.
  Each set of addresses is a list; the order in which Go visits a map does not matter to the query's
  meaning.
\<close>

section \<open>Queries\<close>

datatype block_term =
    BMaxRound uint64 | BMinRound uint64
  | BAfter int | BBefore int
  | BProposers "string list" | BExpired "string list" | BAbsent "string list"

record block_query =
  bq_where :: "block_term list"
  bq_limit :: uint64

text \<open>\<open>Unix()\<close>: the seconds since the epoch, rounded down.\<close>

definition Unix :: "Time \<Rightarrow> int" where
  "Unix t = t div 10 ^ 9"

definition buildBlockHeadersQuery :: "sdk \<Rightarrow> BlockHeaderFilter \<Rightarrow> block_query result" where
  "buildBlockHeadersQuery env bf =
     Inr \<lparr>bq_where =
           (case bf_MaxRound bf of None \<Rightarrow> [] | Some r \<Rightarrow> [BMaxRound r]) @
           (case bf_MinRound bf of None \<Rightarrow> [] | Some r \<Rightarrow> [BMinRound r]) @
           (if \<not> time_IsZero (bf_AfterTime bf) then [BAfter (Unix (bf_AfterTime bf))] else []) @
           (if \<not> time_IsZero (bf_BeforeTime bf) then [BBefore (Unix (bf_BeforeTime bf))] else []) @
           (if bf_Proposers bf \<noteq> [] then [BProposers (map (AddressString env) (bf_Proposers bf))] else []) @
           (if bf_ExpiredParticipationAccounts bf \<noteq> []
            then [BExpired (map (AddressString env) (bf_ExpiredParticipationAccounts bf))] else []) @
           (if bf_AbsentParticipationAccounts bf \<noteq> []
            then [BAbsent (map (AddressString env) (bf_AbsentParticipationAccounts bf))] else []),
          bq_limit = bf_Limit bf\<rparr>"

definition format_seconds :: "int \<Rightarrow> string" where
  "format_seconds s = (if s < 0 then ''-'' @ format_nat (nat (- s)) else format_nat (nat s))"

fun term_sql :: "block_term \<Rightarrow> string" where
  "term_sql (BMaxRound r) = ''bh.round <= '' @ FormatUint r"
| "term_sql (BMinRound r) = ''bh.round >= '' @ FormatUint r"
| "term_sql (BAfter s) =
     ''bh.round >= (SELECT tmp.round FROM block_header tmp WHERE tmp.realtime > (to_timestamp('' @ format_seconds s @
     '') AT TIME ZONE '' @ quoted ''UTC'' @ '') ORDER BY tmp.realtime ASC, tmp.round ASC LIMIT 1)''"
| "term_sql (BBefore s) =
     ''bh.round <= (SELECT tmp.round FROM block_header tmp WHERE tmp.realtime < (to_timestamp('' @ format_seconds s @
     '') AT TIME ZONE '' @ quoted ''UTC'' @ '') ORDER BY tmp.realtime DESC, tmp.round DESC LIMIT 1)''"
| "term_sql (BProposers ps) =
     ''( (bh.header->'' @ quoted ''prp'' @ '') IS NOT NULL AND ((bh.header->'' @ quoted ''prp'' @ '')::TEXT IN ('' @
     join_strings '','' (map (\<lambda>a. quoted (CHR 0x22 # a @ [CHR 0x22])) ps) @ '')) )''"
| "term_sql (BExpired es) =
     ''( (bh.header->'' @ quoted ''partupdrmv'' @ '') IS NOT NULL AND (bh.header->'' @ quoted ''partupdrmv'' @
     '') ?| array['' @ join_strings '','' (map quoted es) @ ''] )''"
| "term_sql (BAbsent as) =
     ''( (bh.header->'' @ quoted ''partupdabs'' @ '') IS NOT NULL AND (bh.header->'' @ quoted ''partupdabs'' @
     '') ?| array['' @ join_strings '','' (map quoted as) @ ''] )''"

definition block_query_sql :: "block_query \<Rightarrow> string" where
  "block_query_sql q =
     ''SELECT bh.header FROM block_header bh '' @
     (if bq_where q \<noteq> [] then ''WHERE '' @ join_strings '' AND '' (map term_sql (bq_where q)) else []) @
     '' ORDER BY bh.round ASC LIMIT '' @ FormatUint (bq_limit q)"

section \<open>Running a query\<close>

text \<open>What the server reads from a stored header: a string and the strings of an array, under a key.\<close>

record 'j header_server =
  header_string :: "string \<Rightarrow> 'j \<Rightarrow> string option"
  header_strings :: "string \<Rightarrow> 'j \<Rightarrow> string list option"

definition first_round_after :: "Time \<Rightarrow> 'j block_header_row list \<Rightarrow> uint64 option" where
  "first_round_after time hs =
     (case sort_key (\<lambda>h. (bhr_realtime h, bhr_round h)) (filter (\<lambda>h. bhr_realtime h > time) hs) of
        [] \<Rightarrow> None | h # _ \<Rightarrow> Some (bhr_round h))"

definition last_round_before :: "Time \<Rightarrow> 'j block_header_row list \<Rightarrow> uint64 option" where
  "last_round_before time hs =
     (case rev (sort_key (\<lambda>h. (bhr_realtime h, bhr_round h)) (filter (\<lambda>h. bhr_realtime h < time) hs)) of
        [] \<Rightarrow> None | h # _ \<Rightarrow> Some (bhr_round h))"

fun eval_term :: "'j header_server \<Rightarrow> 'j block_header_row list \<Rightarrow> 'j block_header_row \<Rightarrow> block_term \<Rightarrow> bool" where
  "eval_term srv hs h (BMaxRound r) = (bhr_round h \<le> r)"
| "eval_term srv hs h (BMinRound r) = (bhr_round h \<ge> r)"
| "eval_term srv hs h (BAfter s) = option_holds (\<lambda>r. bhr_round h \<ge> r) (first_round_after (s * 10 ^ 9) hs)"
| "eval_term srv hs h (BBefore s) = option_holds (\<lambda>r. bhr_round h \<le> r) (last_round_before (s * 10 ^ 9) hs)"
| "eval_term srv hs h (BProposers ps) = option_holds (\<lambda>s. s \<in> set ps) (header_string srv ''prp'' (bhr_header h))"
| "eval_term srv hs h (BExpired es) =
     option_holds (\<lambda>ss. list_ex (\<lambda>e. e \<in> set ss) es) (header_strings srv ''partupdrmv'' (bhr_header h))"
| "eval_term srv hs h (BAbsent as) =
     option_holds (\<lambda>ss. list_ex (\<lambda>a. a \<in> set ss) as) (header_strings srv ''partupdabs'' (bhr_header h))"

definition exec_block_query :: "'j header_server \<Rightarrow> 'j block_header_row list \<Rightarrow> block_query \<Rightarrow> 'j list" where
  "exec_block_query srv hs q =
     map bhr_header (take (unat (bq_limit q))
       (sort_key bhr_round (filter (\<lambda>h. list_all (eval_term srv hs h) (bq_where q)) hs)))"

section \<open>Reading the rows\<close>

definition error_block_row :: "err \<Rightarrow> BlockRow" where
  "error_block_row e = \<lparr>br_BlockHeader = zero_BlockHeader, br_Error = Some e\<rparr>"

definition decode_block_row :: "'j codec \<Rightarrow> 'j \<Rightarrow> BlockRow" where
  "decode_block_row c doc =
     (case DecodeBlockHeader c doc of
        Inl e \<Rightarrow> error_block_row (Wrap ''failed to decode block header'' e)
      | Inr hdr \<Rightarrow> \<lparr>br_BlockHeader = hdr, br_Error = None\<rparr>)"

text \<open>A row that does not decode is sent with its error, and the loop goes on.\<close>

definition yieldBlocksThreadSimple :: "'j codec \<Rightarrow> 'j list \<Rightarrow> err option \<Rightarrow> BlockRow list" where
  "yieldBlocksThreadSimple c docs rowsErr =
     map (decode_block_row c) docs @ (case rowsErr of None \<Rightarrow> [] | Some e \<Rightarrow> [error_block_row e])"

definition yieldBlockHeaders ::
  "sdk \<Rightarrow> 'j header_server \<Rightarrow> query_env \<Rightarrow> 'j codec \<Rightarrow> 'j block_header_row list \<Rightarrow> BlockHeaderFilter \<Rightarrow> BlockRow list" where
  "yieldBlockHeaders env srv qenv c hs bf =
     (case buildBlockHeadersQuery env bf of
        Inl _ \<Rightarrow> [error_block_row (ErrMsg ''block query err'')]
      | Inr q \<Rightarrow>
          (case query_err qenv 0 of
             Some _ \<Rightarrow> [error_block_row (ErrMsg ''block query err'')]
           | None \<Rightarrow>
               (case rows_err qenv 0 of
                  None \<Rightarrow> yieldBlocksThreadSimple c (exec_block_query srv hs q) None
                | Some (k, e) \<Rightarrow> yieldBlocksThreadSimple c (take k (exec_block_query srv hs q)) (Some e))))"

definition BlockHeaders ::
  "sdk \<Rightarrow> 'j header_server \<Rightarrow> query_env \<Rightarrow> 'j codec \<Rightarrow> 'j main_tables \<Rightarrow> BlockHeaderFilter \<Rightarrow> BlockRow list \<times> uint64" where
  "BlockHeaders env srv qenv c main bf =
     (case begin_err qenv of
        Some e \<Rightarrow> ([error_block_row e], 0)
      | None \<Rightarrow>
          (case getMaxRoundAccounted c main of
             Inl e \<Rightarrow> ([error_block_row e], 0)
           | Inr rnd \<Rightarrow> (yieldBlockHeaders env srv qenv c (tbl_block_header main) bf, rnd)))"

end
