(* ===== verification/SearchParams.thy ===== *)
theory SearchParams
  imports BlockQuery
begin

unbundle bit_operations_syntax

text \<open>
  From the parameters of a request to a filter (\<^verbatim>\<open>api/converter_utils.go\<close>, the decoding helpers and the
  \<open>...ParamsTo...\<close> functions; \<^verbatim>\<open>api/handlers.go\<close>, the validation of filters and the guards of the search
  handlers). Messages are kept up to the values that are printed into them.
\<close>

section \<open>Options and parameters\<close>

text \<open>The limits among the options of the server.\<close>

record ExtraOptions =
  MaxAPIResourcesPerAccount :: uint64
  MaxAccountListSize :: uint64
  MaxBlocksLimit :: uint64
  DefaultBlocksLimit :: uint64
  eo_MaxTransactionsLimit :: uint64
  DefaultTransactionsLimit :: uint64
  MaxAccountsLimit :: uint64
  DefaultAccountsLimit :: uint64
  MaxAssetsLimit :: uint64
  DefaultAssetsLimit :: uint64
  MaxBalancesLimit :: uint64
  DefaultBalancesLimit :: uint64
  MaxApplicationsLimit :: uint64
  DefaultApplicationsLimit :: uint64
  MaxBoxesLimit :: uint64
  DefaultBoxesLimit :: uint64

record SearchForTransactionsParams =
  stp_Limit :: "uint64 option"
  stp_Next :: "string option"
  stp_NotePrefix :: "string option"
  stp_TxType :: "string option"
  stp_SigType :: "string option"
  stp_GroupId :: "string option"
  stp_Txid :: "string option"
  stp_Round :: "uint64 option"
  stp_MinRound :: "uint64 option"
  stp_MaxRound :: "uint64 option"
  stp_AssetId :: "uint64 option"
  stp_BeforeTime :: "Time option"
  stp_AfterTime :: "Time option"
  stp_CurrencyGreaterThan :: "uint64 option"
  stp_CurrencyLessThan :: "uint64 option"
  stp_Address :: "string option"
  stp_AddressRole :: "string option"
  stp_ExcludeCloseTo :: "bool option"
  stp_RekeyTo :: "bool option"
  stp_ApplicationId :: "uint64 option"

definition no_params :: SearchForTransactionsParams where
  "no_params =
     \<lparr>stp_Limit = None, stp_Next = None, stp_NotePrefix = None, stp_TxType = None, stp_SigType = None,
      stp_GroupId = None, stp_Txid = None, stp_Round = None, stp_MinRound = None, stp_MaxRound = None,
      stp_AssetId = None, stp_BeforeTime = None, stp_AfterTime = None, stp_CurrencyGreaterThan = None,
      stp_CurrencyLessThan = None, stp_Address = None, stp_AddressRole = None, stp_ExcludeCloseTo = None,
      stp_RekeyTo = None, stp_ApplicationId = None\<rparr>"

record LookupAccountTransactionsParams =
  lat_Limit :: "uint64 option"
  lat_Next :: "string option"
  lat_NotePrefix :: "string option"
  lat_TxType :: "string option"
  lat_SigType :: "string option"
  lat_Txid :: "string option"
  lat_Round :: "uint64 option"
  lat_MinRound :: "uint64 option"
  lat_MaxRound :: "uint64 option"
  lat_AssetId :: "uint64 option"
  lat_BeforeTime :: "Time option"
  lat_AfterTime :: "Time option"
  lat_CurrencyGreaterThan :: "uint64 option"
  lat_CurrencyLessThan :: "uint64 option"
  lat_RekeyTo :: "bool option"

record LookupAssetTransactionsParams =
  lst_Limit :: "uint64 option"
  lst_Next :: "string option"
  lst_NotePrefix :: "string option"
  lst_TxType :: "string option"
  lst_SigType :: "string option"
  lst_Txid :: "string option"
  lst_Round :: "uint64 option"
  lst_MinRound :: "uint64 option"
  lst_MaxRound :: "uint64 option"
  lst_BeforeTime :: "Time option"
  lst_AfterTime :: "Time option"
  lst_CurrencyGreaterThan :: "uint64 option"
  lst_CurrencyLessThan :: "uint64 option"
  lst_Address :: "string option"
  lst_AddressRole :: "string option"
  lst_ExcludeCloseTo :: "bool option"
  lst_RekeyTo :: "bool option"

record LookupApplicationLogsByIDParams =
  lal_Limit :: "uint64 option"
  lal_Next :: "string option"
  lal_Txid :: "string option"
  lal_MinRound :: "uint64 option"
  lal_MaxRound :: "uint64 option"
  lal_SenderAddress :: "string option"

record SearchForBlockHeadersParams =
  sbh_Limit :: "uint64 option"
  sbh_Next :: "string option"
  sbh_MinRound :: "uint64 option"
  sbh_MaxRound :: "uint64 option"
  sbh_BeforeTime :: "Time option"
  sbh_AfterTime :: "Time option"
  sbh_Proposers :: "string list option"
  sbh_Expired :: "string list option"
  sbh_Absent :: "string list option"

record SearchForAssetsParams =
  sap_IncludeAll :: "bool option"
  sap_Limit :: "uint64 option"
  sap_Next :: "string option"
  sap_Creator :: "string option"
  sap_Name :: "string option"
  sap_Unit :: "string option"
  sap_AssetId :: "uint64 option"

record SearchForApplicationsParams =
  spp_ApplicationId :: "uint64 option"
  spp_Creator :: "string option"
  spp_IncludeAll :: "bool option"
  spp_Limit :: "uint64 option"
  spp_Next :: "string option"

section \<open>Decoding strings\<close>

definition errUnableToParseDigest :: string where "errUnableToParseDigest = ''unable to parse base32 digest data''"
definition errUnableToParseBase64 :: string where "errUnableToParseBase64 = ''unable to parse base64 data''"
definition errBadGroupIDLen :: string where "errBadGroupIDLen = ''bad length for group ID''"
definition errUnableToParseAddress :: string where "errUnableToParseAddress = ''unable to parse address''"
definition errUnableToParseNext :: string where "errUnableToParseNext = ''unable to parse next token''"
definition errUnknownAddressRole :: string where "errUnknownAddressRole = ''unknown address role''"
definition errUnknownTxType :: string where "errUnknownTxType = ''unknown tx-type''"
definition errUnknownSigType :: string where "errUnknownSigType = ''unknown sig-type''"
definition errInvalidRoundAndMinMax :: string where
  "errInvalidRoundAndMinMax = ''cannot specify round and min-round/max-round''"
definition errInvalidRoundMinMax :: string where "errInvalidRoundMinMax = ''min-round must be less than max-round''"
definition errInvalidTimeMinMax :: string where "errInvalidTimeMinMax = ''after-time must be less than before-time''"
definition errValueExceedingInt64 :: string where
  "errValueExceedingInt64 = ''searching by round or application-id or asset-id or filter by value greater than 9223372036854775807 is not supported''"
definition errZeroAddressCloseRemainderToRole :: string where
  "errZeroAddressCloseRemainderToRole = ''searching transactions by zero address with close address role is not supported''"
definition errZeroAddressAssetSenderRole :: string where
  "errZeroAddressAssetSenderRole = ''searching transactions by zero address with asset sender role is not supported''"
definition errZeroAddressAssetCloseToRole :: string where
  "errZeroAddressAssetCloseToRole = ''searching transactions by zero address with asset close address role is not supported''"

text \<open>
  \<open>base32.StdEncoding.WithPadding(base32.NoPadding).DecodeString\<close> accepts a string, newlines aside, of
  digits in any number. The missing padding character is the byte \<open>0xFF\<close> to the decoder, which
  accepts a last block padded with it.
\<close>

definition base32_digit :: "char \<Rightarrow> bool" where
  "base32_digit ch \<longleftrightarrow> ch \<in> set ''ABCDEFGHIJKLMNOPQRSTUVWXYZ234567''"

function base32_ok :: "string \<Rightarrow> bool" where
  "base32_ok s =
     (if s = [] then True
      else let j = length (takeWhile base32_digit (take 8 s)) in
        if j = length (take 8 s) then base32_ok (drop 8 s)
        else let rest = drop (j + 1) s in
          s ! j = CHR 0xFF \<and> j \<ge> 2 \<and> length rest < 8 \<and> length rest + j \<ge> 7 \<and>
          list_all (\<lambda>ch. ch = CHR 0xFF) (take (7 - j) rest) \<and> j \<noteq> 3 \<and> j \<noteq> 6)"
  by pat_completeness auto

termination by (relation "measure length") auto

definition base32_valid :: "string \<Rightarrow> bool" where
  "base32_valid s \<longleftrightarrow> base32_ok (filter (\<lambda>ch. ch \<noteq> CHR 0x0D \<and> ch \<noteq> CHR 0x0A) s)"

text \<open>The part of \<open>strings.ToLower\<close> that can give ASCII text: the letters, the Kelvin sign and the dotted
  capital I. Its results are only compared with ASCII names.\<close>

fun ToLower :: "string \<Rightarrow> string" where
  "ToLower [] = []"
| "ToLower (a # s) =
     (if a = CHR 0xE2 \<and> take 2 s = [CHR 0x84, CHR 0xAA] then CHR ''k'' # ToLower (drop 2 s)
      else if a = CHR 0xC4 \<and> take 1 s = [CHR 0xB0] then CHR ''i'' # ToLower (drop 1 s)
      else (if 65 \<le> (of_char a :: nat) \<and> (of_char a :: nat) \<le> 90 then char_of ((of_char a :: nat) + 32) else a) # ToLower s)"

definition decodeDigest :: "string option \<Rightarrow> string \<Rightarrow> string list \<Rightarrow> string \<times> string list" where
  "decodeDigest str field errorArr =
     (case str of
        Some s \<Rightarrow> if \<not> base32_valid s then ([], errorArr @ [errUnableToParseDigest @ '' '' @ field]) else (s, errorArr)
      | None \<Rightarrow> ([], errorArr))"

definition addrRoleSender :: string where "addrRoleSender = ''sender''"
definition addrRoleReceiver :: string where "addrRoleReceiver = ''receiver''"
definition addrRoleFreeze :: string where "addrRoleFreeze = ''freeze-target''"

definition addressRoleEnumMap :: "string list" where
  "addressRoleEnumMap = [addrRoleSender, addrRoleReceiver, addrRoleFreeze]"

definition decodeAddressRole :: "string option \<Rightarrow> bool option \<Rightarrow> string list \<Rightarrow> AddressRole \<times> string list" where
  "decodeAddressRole role excludeCloseTo errorArr =
     (case role of
        None \<Rightarrow> (0, errorArr)
      | Some r \<Rightarrow>
          let lc = ToLower r; exclude = boolOrDefault excludeCloseTo in
          if lc \<notin> set addressRoleEnumMap then (0, errorArr @ [errUnknownAddressRole])
          else if lc = addrRoleSender then (AddressRoleSender OR AddressRoleAssetSender, errorArr)
          else if lc = addrRoleReceiver \<and> \<not> exclude then
            (AddressRoleReceiver OR AddressRoleAssetReceiver OR AddressRoleCloseRemainderTo OR AddressRoleAssetCloseTo, errorArr)
          else if lc = addrRoleReceiver then (AddressRoleReceiver OR AddressRoleAssetReceiver, errorArr)
          else if lc = addrRoleFreeze then (AddressRoleFreeze, errorArr)
          else (0, errorArr @ [errUnknownAddressRole]))"

definition decodeBase64Byte :: "string option \<Rightarrow> string \<Rightarrow> string list \<Rightarrow> bytes \<times> string list" where
  "decodeBase64Byte str field errorArr =
     (case str of
        Some s \<Rightarrow>
          (case b64_decode std_alphabet s of
             Inl _ \<Rightarrow> ([], errorArr @ [errUnableToParseBase64 @ '': '' @ field])
           | Inr data \<Rightarrow> (data, errorArr))
      | None \<Rightarrow> ([], errorArr))"

text \<open>The lower case string is only printed.\<close>

definition decodeSigType :: "string option \<Rightarrow> string list \<Rightarrow> SigType \<times> string list" where
  "decodeSigType str errorArr =
     (case str of
        Some s \<Rightarrow> if IsSigTypeValid s then (s, errorArr) else ([], errorArr @ [errUnknownSigType @ '': '' @ ToLower s])
      | None \<Rightarrow> ([], errorArr))"

definition decodeType :: "string option \<Rightarrow> string list \<Rightarrow> TxnTypeEnum \<times> string list" where
  "decodeType str errorArr =
     (case str of
        Some s \<Rightarrow>
          (case GetTypeEnum (ToLower s) of
             Some val \<Rightarrow> (val, errorArr)
           | None \<Rightarrow> (0, errorArr @ [errUnknownTxType @ '': '' @ ToLower s]))
      | None \<Rightarrow> (0, errorArr))"

definition decodeGroupID :: "string option \<Rightarrow> string \<Rightarrow> string list \<Rightarrow> bytes \<times> string list" where
  "decodeGroupID str field errorArr =
     (case str of
        Some s \<Rightarrow>
          (case b64_decode std_alphabet s of
             Inl _ \<Rightarrow> ([], errorArr @ [errUnableToParseBase64 @ '': '' @ field])
           | Inr data \<Rightarrow>
               if length data \<noteq> 32 then ([], errorArr @ [errBadGroupIDLen @ '': '' @ field]) else (data, errorArr))
      | None \<Rightarrow> ([], errorArr))"

section \<open>Filters of transactions\<close>

definition timeOrZero :: "Time option \<Rightarrow> Time" where
  "timeOrZero t = (case t of None \<Rightarrow> zero_time | Some x \<Rightarrow> x)"

text \<open>\<open>sdk.DecodeAddress\<close> returns the zero address with an error.\<close>

definition transactionParamsToTransactionFilter ::
  "sdk \<Rightarrow> ExtraOptions \<Rightarrow> SearchForTransactionsParams \<Rightarrow> TransactionFilter result" where
  "transactionParamsToTransactionFilter env opts params =
     (let (role, errorArr) = decodeAddressRole (stp_AddressRole params) (stp_ExcludeCloseTo params) [];
          (address, errorArr) =
            (case stp_Address params of
               None \<Rightarrow> (None, errorArr)
             | Some s \<Rightarrow>
                 (case DecodeAddress env s of
                    Inl _ \<Rightarrow> (Some zero_Address, errorArr @ [errUnableToParseAddress])
                  | Inr addr \<Rightarrow> (Some addr, errorArr)));
          (txid, errorArr) = decodeDigest (stp_Txid params) ''txid'' errorArr;
          (notePrefix, errorArr) = decodeBase64Byte (stp_NotePrefix params) ''note-prefix'' errorArr;
          (groupID, errorArr) = decodeGroupID (stp_GroupId params) ''group-id'' errorArr;
          (sigType, errorArr) = decodeSigType (stp_SigType params) errorArr;
          (typeEnum, errorArr) = decodeType (stp_TxType params) errorArr;
          filter0 = zero_TransactionFilter
            \<lparr>tf_MaxRound := uintOrDefault (stp_MaxRound params), tf_MinRound := uintOrDefault (stp_MinRound params),
             tf_AssetID := stp_AssetId params, tf_ApplicationID := stp_ApplicationId params,
             tf_Limit := min_u64 (uintOrDefaultValue (stp_Limit params) (DefaultTransactionsLimit opts)) (eo_MaxTransactionsLimit opts),
             tf_Round := stp_Round params, tf_AddressRole := role, tf_NextToken := strOrDefault (stp_Next params),
             tf_Address := address, tf_Txid := txid, tf_NotePrefix := notePrefix, tf_GroupID := groupID,
             tf_AfterTime := timeOrZero (stp_AfterTime params), tf_BeforeTime := timeOrZero (stp_BeforeTime params),
             tf_SigType := sigType, tf_TypeEnum := typeEnum, tf_RekeyTo := stp_RekeyTo params\<rparr>;
          filter1 =
            (if tf_AssetID filter0 \<noteq> None \<or> tf_TypeEnum filter0 = TypeEnumAssetTransfer
             then filter0\<lparr>tf_AssetAmountLT := stp_CurrencyLessThan params, tf_AssetAmountGT := stp_CurrencyGreaterThan params\<rparr>
             else filter0\<lparr>tf_AlgosLT := stp_CurrencyLessThan params, tf_AlgosGT := stp_CurrencyGreaterThan params\<rparr>)
      in if errorArr \<noteq> [] then Inl (ErrMsg (''invalid input: '' @ join_strings '', '' errorArr)) else Inr filter1)"

definition exceeds :: "uint64 option \<Rightarrow> bool" where
  "exceeds x = (case x of None \<Rightarrow> False | Some v \<Rightarrow> v > MaxInt64)"

definition zero_address_errors :: "TransactionFilter \<Rightarrow> string list" where
  "zero_address_errors f =
     (let address = copy_array 32 (case tf_Address f of None \<Rightarrow> [] | Some a \<Rightarrow> a) in
      if IsZero address then
        (if tf_AddressRole f AND AddressRoleCloseRemainderTo \<noteq> 0 then [errZeroAddressCloseRemainderToRole] else []) @
        (if tf_AddressRole f AND AddressRoleAssetSender \<noteq> 0 then [errZeroAddressAssetSenderRole] else []) @
        (if tf_AddressRole f AND AddressRoleAssetCloseTo \<noteq> 0 then [errZeroAddressAssetCloseToRole] else [])
      else [])"

definition validateTransactionFilter :: "TransactionFilter \<Rightarrow> unit result" where
  "validateTransactionFilter f =
     (let errorArr =
        (if tf_MinRound f > MaxInt64 \<or> tf_MaxRound f > MaxInt64 \<or> exceeds (tf_Round f) \<or>
            exceeds (tf_AssetID f) \<or> exceeds (tf_ApplicationID f) then [errValueExceedingInt64] else []) @
        (if exceeds (tf_Offset f) \<or> exceeds (tf_OffsetLT f) \<or> exceeds (tf_OffsetGT f) then [errValueExceedingInt64] else []) @
        (if exceeds (tf_AlgosLT f) \<or> exceeds (tf_AlgosGT f) then [errValueExceedingInt64] else []) @
        (if exceeds (tf_EffectiveAmountLT f) \<or> exceeds (tf_EffectiveAmountGT f) then [errValueExceedingInt64] else []) @
        (if tf_Round f \<noteq> None \<and> (tf_MaxRound f \<noteq> 0 \<or> tf_MinRound f \<noteq> 0) then [errInvalidRoundAndMinMax] else []) @
        (if tf_Round f = None \<and> tf_MinRound f \<noteq> 0 \<and> tf_MaxRound f \<noteq> 0 \<and> tf_MinRound f > tf_MaxRound f
         then [errInvalidRoundMinMax] else []) @
        zero_address_errors f
      in if errorArr \<noteq> [] then Inl (ErrMsg (''invalid input: '' @ join_strings '', '' errorArr)) else Inr ())"

section \<open>The guards of the handlers\<close>

text \<open>The answers of a handler before it asks the database. The check that an endpoint and its
  parameters are enabled (\<open>verifyHandler\<close>) comes first and is not part of these definitions.\<close>

datatype data_value = DataNumber uint64 | DataText string

datatype http_error =
    BadRequest string
  | NotFound string
  | InternalServerError err
  | ServiceUnavailable err
  | BadRequestData string "(string \<times> data_value) list"

definition err_text :: "err \<Rightarrow> string" where
  "err_text e = (case e of ErrMsg s \<Rightarrow> s | _ \<Rightarrow> [])"

definition bad_request :: "'a result \<Rightarrow> http_error + 'a" where
  "bad_request r = (case r of Inl e \<Rightarrow> Inl (BadRequest (err_text e)) | Inr x \<Rightarrow> Inr x)"

definition SearchForTransactions_filter ::
  "sdk \<Rightarrow> ExtraOptions \<Rightarrow> SearchForTransactionsParams \<Rightarrow> http_error + TransactionFilter" where
  "SearchForTransactions_filter env opts params =
     (if exceeds (stp_AssetId params) \<or> exceeds (stp_ApplicationId params) \<or> exceeds (stp_Round params)
      then Inl (NotFound errValueExceedingInt64)
      else bad_request (res_bind (transactionParamsToTransactionFilter env opts params) (\<lambda>f.
             res_bind (validateTransactionFilter f) (\<lambda>_. Inr f))))"

text \<open>The endpoints for the transactions of an account and of an asset search with these parameters.\<close>

definition account_transaction_params :: "string \<Rightarrow> LookupAccountTransactionsParams \<Rightarrow> SearchForTransactionsParams" where
  "account_transaction_params accountID params =
     no_params\<lparr>stp_Address := strPtr accountID, stp_AssetId := lat_AssetId params, stp_Limit := lat_Limit params,
       stp_Next := lat_Next params, stp_NotePrefix := lat_NotePrefix params, stp_TxType := lat_TxType params,
       stp_SigType := lat_SigType params, stp_Txid := lat_Txid params, stp_Round := lat_Round params,
       stp_MinRound := lat_MinRound params, stp_MaxRound := lat_MaxRound params,
       stp_BeforeTime := lat_BeforeTime params, stp_AfterTime := lat_AfterTime params,
       stp_CurrencyGreaterThan := lat_CurrencyGreaterThan params,
       stp_CurrencyLessThan := lat_CurrencyLessThan params, stp_RekeyTo := lat_RekeyTo params\<rparr>"

definition asset_transaction_params :: "uint64 \<Rightarrow> LookupAssetTransactionsParams \<Rightarrow> SearchForTransactionsParams" where
  "asset_transaction_params assetID params =
     no_params\<lparr>stp_AssetId := Some assetID, stp_Limit := lst_Limit params, stp_Next := lst_Next params,
       stp_NotePrefix := lst_NotePrefix params, stp_TxType := lst_TxType params, stp_SigType := lst_SigType params,
       stp_Txid := lst_Txid params, stp_Round := lst_Round params, stp_MinRound := lst_MinRound params,
       stp_MaxRound := lst_MaxRound params, stp_BeforeTime := lst_BeforeTime params, stp_AfterTime := lst_AfterTime params,
       stp_CurrencyGreaterThan := lst_CurrencyGreaterThan params, stp_CurrencyLessThan := lst_CurrencyLessThan params,
       stp_Address := lst_Address params, stp_AddressRole := lst_AddressRole params,
       stp_ExcludeCloseTo := lst_ExcludeCloseTo params, stp_RekeyTo := lst_RekeyTo params\<rparr>"

definition LookupTransaction_filter :: "sdk \<Rightarrow> ExtraOptions \<Rightarrow> string \<Rightarrow> http_error + TransactionFilter" where
  "LookupTransaction_filter env opts txid =
     bad_request (res_bind (transactionParamsToTransactionFilter env opts (no_params\<lparr>stp_Txid := strPtr txid\<rparr>)) (\<lambda>f.
       res_bind (validateTransactionFilter f) (\<lambda>_. Inr f)))"

definition LookupApplicationLogsByID_filter ::
  "sdk \<Rightarrow> ExtraOptions \<Rightarrow> uint64 \<Rightarrow> LookupApplicationLogsByIDParams \<Rightarrow> http_error + TransactionFilter" where
  "LookupApplicationLogsByID_filter env opts applicationID params =
     (if applicationID > MaxInt64 then Inl (NotFound errValueExceedingInt64)
      else bad_request (res_bind (transactionParamsToTransactionFilter env opts
             (no_params\<lparr>stp_ApplicationId := Some applicationID, stp_Limit := lal_Limit params, stp_Next := lal_Next params,
               stp_Txid := lal_Txid params, stp_MinRound := lal_MinRound params, stp_MaxRound := lal_MaxRound params,
               stp_Address := lal_SenderAddress params\<rparr>)) (\<lambda>f.
             let f = f\<lparr>tf_AddressRole := AddressRoleSender, tf_SkipInnerTransactionConversion := True,
                       tf_RequireApplicationLogs := True\<rparr>
             in res_bind (validateTransactionFilter f) (\<lambda>_. Inr f))))"


section \<open>Filters of block headers\<close>

text \<open>The loop over a list of addresses, with the set it fills and the errors.\<close>

fun decode_addresses :: "sdk \<Rightarrow> string \<Rightarrow> string list \<Rightarrow> Address list \<Rightarrow> string list \<Rightarrow> Address list \<times> string list" where
  "decode_addresses env what [] addrs errs = (addrs, errs)"
| "decode_addresses env what (s # ss) addrs errs =
     (case DecodeAddress env s of
        Inl _ \<Rightarrow> decode_addresses env what ss addrs (errs @ [''unable to parse '' @ what @ '' address''])
      | Inr addr \<Rightarrow> decode_addresses env what ss (List.insert addr addrs) errs)"

definition list_too_long :: "ExtraOptions \<Rightarrow> string \<Rightarrow> string list option \<Rightarrow> string list" where
  "list_too_long opts what l =
     (case l of
        Some xs \<Rightarrow> if (of_nat (length xs) :: uint64) > MaxAccountListSize opts then [what @ '' list too long''] else []
      | None \<Rightarrow> [])"

definition listOrEmpty :: "'a list option \<Rightarrow> 'a list" where
  "listOrEmpty l = (case l of None \<Rightarrow> [] | Some xs \<Rightarrow> xs)"

text \<open>\<open>DecodeBlockRowNext\<close> returns round 0 with an error.\<close>

definition merge_next :: "SearchForBlockHeadersParams \<Rightarrow> uint64 option \<times> string list" where
  "merge_next params =
     (case sbh_Next params of
        None \<Rightarrow> (sbh_MinRound params, [])
      | Some s \<Rightarrow>
          let (n, errs) = (case DecodeBlockRowNext s of Inl _ \<Rightarrow> (0, [errUnableToParseNext]) | Inr n \<Rightarrow> (n, [])) in
          (case sbh_MinRound params of None \<Rightarrow> Some (n + 1) | Some m \<Rightarrow> Some (max m (n + 1)), errs))"

definition round_order_errors :: "SearchForBlockHeadersParams \<Rightarrow> string list" where
  "round_order_errors params =
     (case (sbh_MinRound params, sbh_MaxRound params) of
        (Some lo, Some hi) \<Rightarrow> if lo > hi then [errInvalidRoundMinMax] else []
      | _ \<Rightarrow> [])"

definition participation_errors :: "ExtraOptions \<Rightarrow> SearchForBlockHeadersParams \<Rightarrow> string list" where
  "participation_errors opts params =
     (let numParticipationFilters =
        (if sbh_Proposers params \<noteq> None then 1 else 0) + (if sbh_Expired params \<noteq> None then 1 else 0) +
        (if sbh_Absent params \<noteq> None then (1 :: nat) else 0)
      in (if numParticipationFilters > 1
          then [''only one of `proposer`, `expired`, or `absent` can be specified''] else []) @
         list_too_long opts ''proposers'' (sbh_Proposers params) @
         list_too_long opts ''expired'' (sbh_Expired params) @
         list_too_long opts ''absent'' (sbh_Absent params))"

definition blockParamsToBlockFilter ::
  "sdk \<Rightarrow> ExtraOptions \<Rightarrow> SearchForBlockHeadersParams \<Rightarrow> BlockHeaderFilter result" where
  "blockParamsToBlockFilter env opts params =
     (let (minRound, errs1) = merge_next params;
          errs = round_order_errors params @ errs1 @ participation_errors opts params;
          (proposers, errs) = decode_addresses env ''proposer'' (listOrEmpty (sbh_Proposers params)) [] errs;
          (expired, errs) = decode_addresses env ''expired'' (listOrEmpty (sbh_Expired params)) [] errs;
          (absent, errs) = decode_addresses env ''absent'' (listOrEmpty (sbh_Absent params)) [] errs
      in if errs \<noteq> [] then Inl (ErrMsg (join_strings [CHR 0x0A] errs))
         else Inr \<lparr>bf_Limit = min_u64 (uintOrDefaultValue (sbh_Limit params) (DefaultBlocksLimit opts)) (MaxBlocksLimit opts),
                   bf_MaxRound = sbh_MaxRound params, bf_MinRound = minRound,
                   bf_AfterTime = timeOrZero (sbh_AfterTime params), bf_BeforeTime = timeOrZero (sbh_BeforeTime params),
                   bf_Proposers = proposers, bf_ExpiredParticipationAccounts = expired,
                   bf_AbsentParticipationAccounts = absent\<rparr>)"

definition validateBlockFilter :: "BlockHeaderFilter \<Rightarrow> unit result" where
  "validateBlockFilter f =
     (let errorArr =
        (if exceeds (bf_MaxRound f) \<or> exceeds (bf_MinRound f) then [errValueExceedingInt64] else []) @
        (if \<not> time_IsZero (bf_AfterTime f) \<and> \<not> time_IsZero (bf_BeforeTime f) \<and> bf_AfterTime f > bf_BeforeTime f
         then [errInvalidTimeMinMax] else [])
      in if errorArr \<noteq> [] then Inl (ErrMsg (''invalid input: '' @ join_strings '', '' errorArr)) else Inr ())"

definition SearchForBlockHeaders_filter ::
  "sdk \<Rightarrow> ExtraOptions \<Rightarrow> SearchForBlockHeadersParams \<Rightarrow> http_error + BlockHeaderFilter" where
  "SearchForBlockHeaders_filter env opts params =
     bad_request (res_bind (blockParamsToBlockFilter env opts params) (\<lambda>f.
       res_bind (validateBlockFilter f) (\<lambda>_. Inr f)))"

section \<open>Queries of assets and applications\<close>

definition decode_creator :: "sdk \<Rightarrow> string option \<Rightarrow> bytes option result" where
  "decode_creator env creator =
     (case creator of
        None \<Rightarrow> Inr None
      | Some s \<Rightarrow> res_bind (res_wrap ''unable to parse creator address'' (DecodeAddress env s)) (\<lambda>a. Inr (Some a)))"

definition decode_next_id :: "string option \<Rightarrow> uint64 option result" where
  "decode_next_id next =
     (case next of
        None \<Rightarrow> Inr None
      | Some s \<Rightarrow> res_bind (res_msg errUnableToParseNext (ParseUint s)) (\<lambda>n. Inr (Some n)))"

definition assetParamsToAssetQuery :: "sdk \<Rightarrow> ExtraOptions \<Rightarrow> SearchForAssetsParams \<Rightarrow> AssetsQuery result" where
  "assetParamsToAssetQuery env opts params =
     res_bind (decode_creator env (sap_Creator params)) (\<lambda>creator.
     res_bind (decode_next_id (sap_Next params)) (\<lambda>greaterThan.
       Inr \<lparr>aq_AssetID = sap_AssetId params, aq_AssetIDGreaterThan = greaterThan, aq_Creator = creator,
            aq_Name = strOrDefault (sap_Name params), aq_Unit = strOrDefault (sap_Unit params), aq_Query = [],
            aq_IncludeDeleted = boolOrDefault (sap_IncludeAll params),
            aq_Limit = min_u64 (uintOrDefaultValue (sap_Limit params) (DefaultAssetsLimit opts)) (MaxAssetsLimit opts)\<rparr>))"

definition appParamsToApplicationQuery ::
  "sdk \<Rightarrow> ExtraOptions \<Rightarrow> SearchForApplicationsParams \<Rightarrow> ApplicationQuery result" where
  "appParamsToApplicationQuery env opts params =
     res_bind (decode_creator env (spp_Creator params)) (\<lambda>creator.
     res_bind (decode_next_id (spp_Next params)) (\<lambda>greaterThan.
       Inr \<lparr>apq_Address = creator, apq_ApplicationID = spp_ApplicationId params,
            apq_ApplicationIDGreaterThan = greaterThan, apq_IncludeDeleted = boolOrDefault (spp_IncludeAll params),
            apq_Limit = min_u64 (uintOrDefaultValue (spp_Limit params) (DefaultApplicationsLimit opts))
              (MaxApplicationsLimit opts)\<rparr>))"

end
