(* ===== verification/DisabledParams.thy ===== *)
theory DisabledParams
  imports Indexer_Prelude "HOL-Library.AList"
begin

text \<open>
  Disabled endpoints and parameters (\<^verbatim>\<open>api/disabled_parameters.go\<close>): the configuration as a file and as
  a map, its validation against the OpenAPI description, the table the handlers consult and the check
  of a request.

  A Go map is an association list, in the order in which the code happens to visit it. The OpenAPI
  document is read through a third-party package: the record \<open>openapi\<close> holds what the code reads of it
  and is a parameter.
\<close>

section \<open>The OpenAPI description\<close>

record openapi_parameter =
  Name :: string
  Required :: bool

record openapi_operation =
  OperationID :: string
  Parameters :: "openapi_parameter list"

text \<open>\<open>GetOperation\<close> panics (the outer \<open>None\<close>) for a name that is not an HTTP method, and is nil (the
  inner \<open>None\<close>) for a method without an operation.\<close>

record openapi_path =
  Operations :: "(string \<times> openapi_operation) list"
  GetOperation :: "string \<Rightarrow> openapi_operation option option"

type_synonym openapi = "(string \<times> openapi_path) list"

definition MethodGet :: string where "MethodGet = ''GET''"

definition disabledStatusStr :: string where "disabledStatusStr = ''disabled''"
definition enabledStatusStr :: string where "enabledStatusStr = ''enabled''"
definition requiredParameterStr :: string where "requiredParameterStr = ''required''"
definition optionalParameterStr :: string where "optionalParameterStr = ''optional''"

definition newline :: string where "newline = [CHR 0x0A]"

section \<open>The configuration\<close>

text \<open>Path, operation, names of the disabled parameters.\<close>

type_synonym DisabledMapConfig = "(string \<times> (string \<times> string list) list) list"

definition MakeDisabledMapConfig :: DisabledMapConfig where
  "MakeDisabledMapConfig = []"

definition map_or_empty :: "('k \<times> ('l \<times> 'v) list) list \<Rightarrow> 'k \<Rightarrow> ('l \<times> 'v) list" where
  "map_or_empty m k = (case map_of m k of None \<Rightarrow> [] | Some x \<Rightarrow> x)"

definition isDisabled :: "DisabledMapConfig \<Rightarrow> string \<Rightarrow> string \<Rightarrow> string \<Rightarrow> bool" where
  "isDisabled dmc restPath operationName parameterName =
     (case map_of (map_or_empty dmc restPath) operationName of
        None \<Rightarrow> False
      | Some parameterList \<Rightarrow> list_ex (\<lambda>parameter. parameterName = parameter) parameterList)"

definition DisabledMapConfig_addEntry :: "string \<Rightarrow> string \<Rightarrow> string list \<Rightarrow> DisabledMapConfig \<Rightarrow> DisabledMapConfig" where
  "DisabledMapConfig_addEntry restPath operationName parameterNames dmc =
     AList.update restPath (AList.update operationName parameterNames (map_or_empty dmc restPath)) dmc"

definition GetDefaultDisabledMapConfigForPostgres :: DisabledMapConfig where
  "GetDefaultDisabledMapConfigForPostgres =
     (let get = (\<lambda>restPath. DisabledMapConfig_addEntry restPath MethodGet) in
      get ''/v2/assets/{asset-id}/transactions''
        [''note-prefix'', ''tx-type'', ''sig-type'', ''asset-id'', ''before-time'', ''after-time'',
         ''currency-greater-than'', ''currency-less-than'', ''address-role'', ''exclude-close-to'', ''rekey-to'']
     (get ''/v2/transactions''
        [''note-prefix'', ''tx-type'', ''sig-type'', ''asset-id'', ''before-time'', ''after-time'',
         ''currency-greater-than'', ''currency-less-than'', ''address-role'', ''exclude-close-to'', ''rekey-to'',
         ''application-id'', ''group-id'']
     (get ''/v2/assets/{asset-id}/balances'' [''currency-greater-than'', ''currency-less-than'']
     (get ''/v2/assets'' [''name'', ''unit'']
     (get ''/v2/accounts/{account-id}/transactions''
        [''note-prefix'', ''tx-type'', ''sig-type'', ''asset-id'', ''before-time'', ''after-time'', ''rekey-to'']
     (get ''/v2/accounts'' [''currency-greater-than'', ''currency-less-than'', ''online-only'']
       MakeDisabledMapConfig))))))"

section \<open>Validation\<close>

text \<open>The field \<open>BadEntries\<close> of \<open>ErrDisabledMapConfig\<close>: unknown paths have no operations.\<close>

type_synonym BadEntries = "(string \<times> (string \<times> string list) list) list"

definition add_bad_entry :: "string \<Rightarrow> string \<Rightarrow> string \<Rightarrow> BadEntries \<Rightarrow> BadEntries" where
  "add_bad_entry recordedPath opName recordedParam bad =
     (let ops = map_or_empty bad recordedPath;
          params = (case map_of ops opName of None \<Rightarrow> [] | Some ps \<Rightarrow> ps)
      in AList.update recordedPath (AList.update opName (params @ [recordedParam]) ops) bad)"

definition validate_param :: "string \<Rightarrow> string \<Rightarrow> openapi_operation \<Rightarrow> string \<Rightarrow> BadEntries \<Rightarrow> BadEntries" where
  "validate_param recordedPath opName swagOperation recordedParam bad =
     (if list_ex (\<lambda>swagParam. recordedParam = Name swagParam) (Parameters swagOperation) then bad
      else add_bad_entry recordedPath opName recordedParam bad)"

text \<open>The operations of a path; \<open>None\<close> is a panic, also the one of a nil operation whose parameters are read.\<close>

fun validate_ops :: "string \<Rightarrow> openapi_path \<Rightarrow> (string \<times> string list) list \<Rightarrow> BadEntries \<Rightarrow> BadEntries option" where
  "validate_ops recordedPath swagPath [] bad = Some bad"
| "validate_ops recordedPath swagPath ((opName, recordedParams) # ops) bad =
     (case GetOperation swagPath opName of
        None \<Rightarrow> None
      | Some None \<Rightarrow> if recordedParams = [] then validate_ops recordedPath swagPath ops bad else None
      | Some (Some swagOperation) \<Rightarrow>
          validate_ops recordedPath swagPath ops
            (fold (validate_param recordedPath opName swagOperation) recordedParams bad))"

fun validate_paths :: "openapi \<Rightarrow> DisabledMapConfig \<Rightarrow> BadEntries \<Rightarrow> BadEntries option" where
  "validate_paths swag [] bad = Some bad"
| "validate_paths swag ((recordedPath, recordedOp) # dmc) bad =
     (case map_of swag recordedPath of
        None \<Rightarrow> validate_paths swag dmc (AList.update recordedPath [] bad)
      | Some swagPath \<Rightarrow>
          (case validate_ops recordedPath swagPath recordedOp bad of
             None \<Rightarrow> None
           | Some bad' \<Rightarrow> validate_paths swag dmc bad'))"

definition ErrDisabledMapConfig_Error :: "BadEntries \<Rightarrow> string" where
  "ErrDisabledMapConfig_Error bad =
     concat (map (\<lambda>(k, v).
       if v = [] then ''Unknown REST Path: '' @ k @ newline
       else concat (map (\<lambda>(op, param).
              ''REST Path '' @ k @ '' (Operation: '' @ op @ '') contains unknown parameters: '' @ join_strings '','' param @ newline) v))
       bad)"

text \<open>\<open>None\<close> is a panic.\<close>

definition validate :: "DisabledMapConfig \<Rightarrow> openapi \<Rightarrow> unit result option" where
  "validate dmc swag =
     (case validate_paths swag dmc [] of
        None \<Rightarrow> None
      | Some bad \<Rightarrow> Some (if bad \<noteq> [] then Inl (ErrMsg (ErrDisabledMapConfig_Error bad)) else Inr ()))"

section \<open>The file\<close>

text \<open>Path, kind of parameter, entries that each map names to states.\<close>

type_synonym DisplayDisabledMap = "(string \<times> (string \<times> (string \<times> string) list list) list) list"

definition makeDisplayDisabledMap :: DisplayDisabledMap where
  "makeDisplayDisabledMap = []"

definition DisplayDisabledMap_addEntry ::
  "string \<Rightarrow> string \<Rightarrow> string \<Rightarrow> string \<Rightarrow> DisplayDisabledMap \<Rightarrow> DisplayDisabledMap" where
  "DisplayDisabledMap_addEntry restPath requiredOrOptional entryName status ddm =
     (let entries = map_or_empty ddm restPath;
          params = (case map_of entries requiredOrOptional of None \<Rightarrow> [] | Some ps \<Rightarrow> ps)
      in AList.update restPath (AList.update requiredOrOptional (params @ [[(entryName, status)]]) entries) ddm)"

text \<open>The struct \<open>innerStruct\<close>: illegal kinds and illegal states of a path.\<close>

type_synonym illegal = "string list \<times> string list"

definition illegal_entry :: "string \<times> (string \<times> string) list list \<Rightarrow> illegal \<Rightarrow> illegal" where
  "illegal_entry entry tmp =
     (case entry of
        (requiredOrOptional, paramList) \<Rightarrow>
          (fst tmp @ (if requiredOrOptional \<noteq> requiredParameterStr \<and> requiredOrOptional \<noteq> optionalParameterStr
                      then [requiredOrOptional] else []),
           snd tmp @ concat (map (\<lambda>paramDict. concat (map (\<lambda>(paramName, paramStatus).
             if paramStatus \<noteq> disabledStatusStr \<and> paramStatus \<noteq> enabledStatusStr
             then [paramName @ '' : '' @ paramStatus] else []) paramDict)) paramList)))"

fun schema_loop ::
  "string \<Rightarrow> (string \<times> (string \<times> string) list list) list \<Rightarrow> illegal \<Rightarrow> (string \<times> illegal) list \<Rightarrow> (string \<times> illegal) list" where
  "schema_loop restPath [] tmp illegalSchema = illegalSchema"
| "schema_loop restPath (entry # entries) tmp illegalSchema =
     (let tmp' = illegal_entry entry tmp in
      schema_loop restPath entries tmp'
        (if fst tmp' \<noteq> [] \<or> snd tmp' \<noteq> [] then AList.update restPath tmp' illegalSchema else illegalSchema))"

definition schema_error_text :: "(string \<times> illegal) list \<Rightarrow> string" where
  "schema_error_text illegalSchema =
     concat (map (\<lambda>(restPath, types, statuses).
       ''REST Path '' @ restPath @ '' contained the following errors:'' @ newline @
       (if types \<noteq> [] then ''  -> Illegal Parameter Types: ['' @ join_strings '' '' types @ '']'' @ newline else []) @
       (if statuses \<noteq> [] then ''  -> Illegal Parameter Status: ['' @ join_strings '' '' statuses @ '']'' @ newline else []))
       illegalSchema)"

definition validateSchema :: "DisplayDisabledMap \<Rightarrow> unit result" where
  "validateSchema ddm =
     (let illegalSchema = fold (\<lambda>(restPath, entries). schema_loop restPath entries ([], [])) ddm [] in
      if illegalSchema = [] then Inr () else Inl (ErrMsg (schema_error_text illegalSchema)))"

definition disabled_names :: "(string \<times> (string \<times> string) list list) list \<Rightarrow> string list" where
  "disabled_names entries =
     concat (map (\<lambda>(_, paramList). concat (map (\<lambda>paramDict.
       map fst (filter (\<lambda>(paramName, paramStatus). paramStatus = disabledStatusStr) paramDict)) paramList)) entries)"

text \<open>\<open>swag\<close> may be nil; \<open>None\<close> is a panic.\<close>

definition toDisabledMapConfig :: "DisplayDisabledMap \<Rightarrow> openapi option \<Rightarrow> DisabledMapConfig result option" where
  "toDisabledMapConfig ddm swag =
     (case validateSchema ddm of
        Inl e \<Rightarrow> Some (Inl e)
      | Inr _ \<Rightarrow>
          (let dmc = fold (\<lambda>(restPath, entries). DisabledMapConfig_addEntry restPath MethodGet (disabled_names entries)) ddm
                 MakeDisabledMapConfig
           in case swag of
                None \<Rightarrow> Some (Inr dmc)
              | Some s \<Rightarrow> map_option (\<lambda>r. res_bind r (\<lambda>_. Inr dmc)) (validate dmc s)))"

text \<open>The file's content and the YAML parser are parameters.\<close>

definition MakeDisabledMapConfigFromFile ::
  "(bytes \<Rightarrow> DisplayDisabledMap result) \<Rightarrow> bytes result \<Rightarrow> openapi option \<Rightarrow> DisabledMapConfig result option" where
  "MakeDisabledMapConfigFromFile yaml_Unmarshal file swag =
     (case res_bind file yaml_Unmarshal of
        Inl e \<Rightarrow> Some (Inl e)
      | Inr ddm \<Rightarrow> toDisabledMapConfig ddm swag)"

definition display_param ::
  "DisabledMapConfig \<Rightarrow> bool \<Rightarrow> string \<Rightarrow> string \<Rightarrow> openapi_parameter \<Rightarrow> DisplayDisabledMap \<Rightarrow> DisplayDisabledMap" where
  "display_param mapConfig limited restPath opName pref rval =
     (let parameterIsDisabled = isDisabled mapConfig restPath opName (Name pref) in
      if \<not> parameterIsDisabled \<and> limited then rval
      else DisplayDisabledMap_addEntry restPath
             (if Required pref then requiredParameterStr else optionalParameterStr) (Name pref)
             (if parameterIsDisabled then disabledStatusStr else enabledStatusStr) rval)"

definition MakeDisplayDisabledMapFromConfig :: "openapi \<Rightarrow> DisabledMapConfig \<Rightarrow> bool \<Rightarrow> DisplayDisabledMap" where
  "MakeDisplayDisabledMapFromConfig swag mapConfig limited =
     fold (\<lambda>(restPath, item).
       fold (\<lambda>(opName, opItem). fold (display_param mapConfig limited restPath opName) (Parameters opItem)) (Operations item))
       swag makeDisplayDisabledMap"

section \<open>The table of the handlers\<close>

text \<open>\<open>DisabledOptionalParameters\<close> is a set: a map whose values are all true.\<close>

record EndpointConfig =
  EndpointDisabled :: bool
  DisabledOptionalParameters :: "string list"

definition makeEndpointConfig :: EndpointConfig where
  "makeEndpointConfig = \<lparr>EndpointDisabled = False, DisabledOptionalParameters = []\<rparr>"

type_synonym DisabledMap = "(string \<times> EndpointConfig) list"

definition MakeDisabledMap :: DisabledMap where
  "MakeDisabledMap = []"

definition endpoint_param :: "DisabledMapConfig \<Rightarrow> string \<Rightarrow> string \<Rightarrow> openapi_parameter \<Rightarrow> EndpointConfig \<Rightarrow> EndpointConfig" where
  "endpoint_param config restPath opName pref endpointConfig =
     (if \<not> isDisabled config restPath opName (Name pref) then endpointConfig
      else if Required pref then endpointConfig\<lparr>EndpointDisabled := True\<rparr>
      else endpointConfig\<lparr>DisabledOptionalParameters := List.insert (Name pref) (DisabledOptionalParameters endpointConfig)\<rparr>)"

definition endpoint_config :: "DisabledMapConfig \<Rightarrow> string \<Rightarrow> string \<Rightarrow> openapi_operation \<Rightarrow> EndpointConfig" where
  "endpoint_config config restPath opName opItem =
     fold (endpoint_param config restPath opName) (Parameters opItem) makeEndpointConfig"

text \<open>A nil configuration gives a nil table; the outer \<open>None\<close> is a panic.\<close>

definition MakeDisabledMapFromOA3 :: "openapi \<Rightarrow> DisabledMapConfig option \<Rightarrow> DisabledMap option result option" where
  "MakeDisabledMapFromOA3 swag config =
     (case config of
        None \<Rightarrow> Some (Inr None)
      | Some dmc \<Rightarrow>
          map_option (\<lambda>r. res_bind r (\<lambda>_. Inr (Some
            (fold (\<lambda>(restPath, item).
              fold (\<lambda>(opName, opItem). AList.update (OperationID opItem) (endpoint_config dmc restPath opName opItem))
                (Operations item)) swag MakeDisabledMap))))
            (validate dmc swag))"

section \<open>The check of a request\<close>

definition ErrVerifyFailedEndpoint :: err where
  "ErrVerifyFailedEndpoint = ErrMsg ''endpoint is disabled''"

definition ErrVerifyFailedParameter :: "string \<Rightarrow> err" where
  "ErrVerifyFailedParameter p = ErrMsg (''provided disabled parameter: '' @ p)"

text \<open>What the check reads of a request: the first value of a query parameter, empty when there is
  none, and of a form parameter, unless reading the form fails.\<close>

record request =
  QueryParams :: "string \<Rightarrow> string"
  FormParams :: "(string \<Rightarrow> string) result"

fun verify_params :: "request \<Rightarrow> string list \<Rightarrow> err option" where
  "verify_params ctx [] = None"
| "verify_params ctx (paramName # names) =
     (if QueryParams ctx paramName \<noteq> [] then Some (ErrVerifyFailedParameter paramName)
      else case FormParams ctx of
        Inl _ \<Rightarrow> verify_params ctx names
      | Inr formParams \<Rightarrow>
          if formParams paramName \<noteq> [] then Some (ErrVerifyFailedParameter paramName) else verify_params ctx names)"

definition verify :: "EndpointConfig \<Rightarrow> request \<Rightarrow> err option" where
  "verify ec ctx =
     (if EndpointDisabled ec then Some ErrVerifyFailedEndpoint else verify_params ctx (DisabledOptionalParameters ec))"

text \<open>A handler that is not in the table is let through (and logged).\<close>

definition Verify :: "DisabledMap option \<Rightarrow> string \<Rightarrow> request \<Rightarrow> err option" where
  "Verify dm nameOfHandlerFunc ctx =
     (case dm of
        None \<Rightarrow> None
      | Some data \<Rightarrow> (case map_of data nameOfHandlerFunc of None \<Rightarrow> None | Some val \<Rightarrow> verify val ctx))"

end
