(* ===== verification/ResourceHandlers.thy ===== *)
theory ResourceHandlers
  imports AccountQuery Rewind SearchParams DisabledParams
begin

text \<open>
  The endpoints for assets, balances, applications, local states and boxes (\<^verbatim>\<open>api/handlers.go\<close>): the
  functions that fetch rows from the database and turn them into response objects, and the handlers
  around them with their guards, errors and page tokens. A handler's answer is an error with its HTTP
  status or the response.
\<close>

section \<open>The environment of a handler\<close>

text \<open>How a call with a timeout ends (\<^verbatim>\<open>api/util.go\<close>): whether there is a timeout, whether the deadline has
  passed when the call returns, and the error of a context that is cancelled first.\<close>

record call_env =
  has_timeout :: bool
  deadline_exceeded :: bool
  cancelled :: "err option"

definition callWithTimeout :: "call_env \<Rightarrow> 'a result \<Rightarrow> 'a result" where
  "callWithTimeout call handled =
     (if \<not> has_timeout call then handled
      else if deadline_exceeded call then Inl ErrTimeout
      else case cancelled call of Some e \<Rightarrow> Inl e | None \<Rightarrow> handled)"

definition isTimeoutError :: "err \<Rightarrow> bool" where
  "isTimeoutError e = errors_Is e ErrTimeout"

definition indexerError :: "err \<Rightarrow> http_error" where
  "indexerError e = (if isTimeoutError e then ServiceUnavailable e else InternalServerError e)"

text \<open>The server with its options, and the world it calls: the SDK, the codec, the database server,
  the tables; \<open>si_txn_query\<close> are the answers to the transaction that searches for transactions. \<open>NewAppCallBytes\<close> and \<open>Raw\<close> are functions of \<open>avm-abi\<close>: they parse a box name such as
  \<open>b64:...\<close>.\<close>

record 'j api_env =
  si_opts :: ExtraOptions
  si_disabledParams :: "DisabledMap option"
  si_call :: call_env
  si_sdk :: sdk
  si_codec :: "'j codec"
  si_text :: "'j text_server"
  si_query :: query_env
  si_tables :: "'j main_tables"
  si_EnableAddressSearchRoundRewind :: bool
  si_arrays :: "'j json_arrays"
  si_sql :: "'j sql_server"
  si_headers :: "'j header_server"
  si_txn_query :: query_env
  si_txns :: "'j txn_tables"
  NewAppCallBytes :: "string \<Rightarrow> bytes result result"

definition verifyHandler :: "'j api_env \<Rightarrow> string \<Rightarrow> request \<Rightarrow> http_error + unit" where
  "verifyHandler si operationID ctx =
     (case Verify (si_disabledParams si) operationID ctx of
        Some e \<Rightarrow> Inl (BadRequest (err_text e))
      | None \<Rightarrow> Inr ())"

definition http_bind :: "http_error + 'a \<Rightarrow> ('a \<Rightarrow> http_error + 'b) \<Rightarrow> http_error + 'b" where
  "http_bind r f = (case r of Inl e \<Rightarrow> Inl e | Inr x \<Rightarrow> f x)"

definition http_guard :: "bool \<Rightarrow> http_error \<Rightarrow> http_error + unit" where
  "http_guard refused e = (if refused then Inl e else Inr ())"

definition indexer_result :: "string \<Rightarrow> 'a result \<Rightarrow> http_error + 'a" where
  "indexer_result msg r = (case r of Inl e \<Rightarrow> Inl (indexerError (Wrap msg e)) | Inr x \<Rightarrow> Inr x)"

lemma http_simps [simp]:
  "http_bind (Inl e) f = Inl e" "http_bind (Inr x) f = f x"
  "http_guard False e = Inr ()" "http_guard True e = Inl e"
  "indexer_result msg (Inr x) = Inr x" "indexer_result msg (Inl err) = Inl (indexerError (Wrap msg err))"
  by (simp_all add: http_bind_def http_guard_def indexer_result_def)

definition errInvalidCreatorAddress :: string where "errInvalidCreatorAddress = ''found an invalid creator address''"
definition errFailedSearchingAsset :: string where "errFailedSearchingAsset = ''failed while searching for asset''"
definition errFailedSearchingAssetBalances :: string where
  "errFailedSearchingAssetBalances = ''failed while searching for asset balances''"
definition errFailedSearchingApplication :: string where
  "errFailedSearchingApplication = ''failed while searching for application''"
definition errFailedSearchingBoxes :: string where "errFailedSearchingBoxes = ''failed while searching for application boxes''"
definition errNoApplicationsFound :: string where "errNoApplicationsFound = ''no application found for application-id''"
definition errNoAssetsFound :: string where "errNoAssetsFound = ''no assets found for asset-id''"
definition ErrNoBoxesFound :: string where "ErrNoBoxesFound = ''no application boxes found''"
definition ErrWrongAppidFound :: string where
  "ErrWrongAppidFound = ''the wrong application-id was found, please contact us, this shouldn't happen''"
definition ErrWrongBoxFound :: string where
  "ErrWrongBoxFound = ''a box with an unexpected name was found, please contact us, this shouldn't happen''"
definition errMultipleAssets :: string where
  "errMultipleAssets = ''multiple assets found for this id, please contact us, this shouldn't happen''"
definition errMultipleApplications :: string where
  "errMultipleApplications = ''multiple applications found for this id, please contact us, this shouldn't happen''"
definition ErrMultipleBoxes :: string where
  "ErrMultipleBoxes = ''multiple application boxes found for this app id and box name, please contact us, this shouldn't happen''"
definition ErrFailedLookingUpBoxes :: string where "ErrFailedLookingUpBoxes = ''failed while looking up application boxes''"

section \<open>Fetching rows\<close>

text \<open>The loop over a channel of rows: the first row with an error ends it.\<close>

definition collect_rows :: "('o \<Rightarrow> err option) \<Rightarrow> ('o \<Rightarrow> 'x result) \<Rightarrow> 'o list \<Rightarrow> 'x list result" where
  "collect_rows error convert = res_map (\<lambda>row. case error row of Some e \<Rightarrow> Inl e | None \<Rightarrow> convert row)"

definition fetchApplications :: "'j api_env \<Rightarrow> ApplicationQuery \<Rightarrow> (Application list \<times> uint64) result" where
  "fetchApplications si params =
     (case Applications (si_sdk si) (si_query si) (si_codec si) (si_tables si) params of
        (results, rnd) \<Rightarrow>
          res_bind (callWithTimeout (si_call si) (collect_rows apr_Error (\<lambda>r. Inr (apr_Application r)) results))
            (\<lambda>apps. Inr (apps, rnd)))"

definition fetchAppLocalStates :: "'j api_env \<Rightarrow> ApplicationQuery \<Rightarrow> (ApplicationLocalState list \<times> uint64) result" where
  "fetchAppLocalStates si params =
     (case AppLocalState_search (si_query si) (si_codec si) (si_tables si) params of
        (results, rnd) \<Rightarrow>
          res_bind (callWithTimeout (si_call si) (collect_rows alr_Error (\<lambda>r. Inr (alr_AppLocalState r)) results))
            (\<lambda>als. Inr (als, rnd)))"

definition asset_params_model :: "'j api_env \<Rightarrow> bytes \<Rightarrow> AssetParams \<Rightarrow> model_AssetParams" where
  "asset_params_model si creator p =
     (let printable = PrintableUTF8OrEmpty (IsPrint (si_codec si)); addr = AddressString (si_sdk si) in
      \<lparr>mp_Clawback = strPtr (addr (Clawback p)), mp_Creator = addr (copy_array 32 creator),
       mp_Decimals = ucast (Decimals p), mp_DefaultFrozen = Some (DefaultFrozen p),
       mp_Freeze = strPtr (addr (Freeze p)), mp_Manager = strPtr (addr (Manager p)),
       mp_MetadataHash = byteSliceOmitZeroPtr (copy_array 32 (MetadataHash p)),
       mp_Name = strPtr (printable (AssetName p)), mp_NameB64 = byteSlicePtr (AssetName p),
       mp_Reserve = strPtr (addr (Reserve p)), mp_Total = Total p,
       mp_UnitName = strPtr (printable (UnitName p)), mp_UnitNameB64 = byteSlicePtr (UnitName p),
       mp_Url = strPtr (printable (URL p)), mp_UrlB64 = byteSlicePtr (URL p)\<rparr>)"

definition asset_model :: "'j api_env \<Rightarrow> AssetRow \<Rightarrow> Asset result" where
  "asset_model si row =
     (if length (ar_Creator row) \<noteq> 32 then Inl (ErrMsg errInvalidCreatorAddress)
      else Inr \<lparr>mas_CreatedAtRound = ar_CreatedRound row, mas_Deleted = ar_Deleted row,
                mas_DestroyedAtRound = ar_ClosedRound row, mas_Index = ar_AssetID row,
                mas_Params = asset_params_model si (ar_Creator row) (ar_Params row)\<rparr>)"

definition fetchAssets :: "'j api_env \<Rightarrow> AssetsQuery \<Rightarrow> (Asset list \<times> uint64) result" where
  "fetchAssets si options =
     (case Assets (si_text si) (si_query si) (si_codec si) (si_tables si) options of
        (assetchan, rnd) \<Rightarrow>
          res_bind (callWithTimeout (si_call si) (collect_rows ar_Error (asset_model si) assetchan))
            (\<lambda>assets. Inr (assets, rnd)))"

definition balance_model :: "'j api_env \<Rightarrow> AssetBalanceRow \<Rightarrow> MiniAssetHolding result" where
  "balance_model si row =
     (if length (abr_Address row) \<noteq> 32 then Inl (ErrMsg errInvalidCreatorAddress)
      else Inr \<lparr>mah_Address = AddressString (si_sdk si) (copy_array 32 (abr_Address row)), mah_Amount = abr_Amount row,
                mah_Deleted = abr_Deleted row, mah_IsFrozen = abr_Frozen row,
                mah_OptedInAtRound = abr_CreatedRound row, mah_OptedOutAtRound = abr_ClosedRound row\<rparr>)"

definition holding_model :: "AssetBalanceRow \<Rightarrow> model_AssetHolding result" where
  "holding_model row =
     (if length (abr_Address row) \<noteq> 32 then Inl (ErrMsg errInvalidCreatorAddress)
      else Inr \<lparr>mh_Amount = abr_Amount row, mh_AssetId = abr_AssetID row, mh_Deleted = abr_Deleted row,
                mh_IsFrozen = abr_Frozen row, mh_OptedInAtRound = abr_CreatedRound row,
                mh_OptedOutAtRound = abr_ClosedRound row\<rparr>)"

definition fetchAssetBalances :: "'j api_env \<Rightarrow> AssetBalanceQuery \<Rightarrow> (MiniAssetHolding list \<times> uint64) result" where
  "fetchAssetBalances si options =
     (case AssetBalances (si_query si) (si_codec si) (si_tables si) options of
        (assetbalchan, rnd) \<Rightarrow>
          res_bind (callWithTimeout (si_call si) (collect_rows abr_Error (balance_model si) assetbalchan))
            (\<lambda>balances. Inr (balances, rnd)))"

definition fetchAssetHoldings :: "'j api_env \<Rightarrow> AssetBalanceQuery \<Rightarrow> (model_AssetHolding list \<times> uint64) result" where
  "fetchAssetHoldings si options =
     (case AssetBalances (si_query si) (si_codec si) (si_tables si) options of
        (assetbalchan, rnd) \<Rightarrow>
          res_bind (callWithTimeout (si_call si) (collect_rows abr_Error holding_model assetbalchan))
            (\<lambda>balances. Inr (balances, rnd)))"

text \<open>The application and the boxes that were read before an error are returned with it.\<close>

fun boxes_loop :: "uint64 \<Rightarrow> ApplicationBoxRow list \<Rightarrow> uint64 \<Rightarrow> Box list \<Rightarrow> unit result \<times> uint64 \<times> Box list" where
  "boxes_loop rnd [] appid boxes = (Inr (), appid, boxes)"
| "boxes_loop rnd (r # rs) appid boxes =
     (case abxr_Error r of
        Some e \<Rightarrow> (Inl e, appid, boxes)
      | None \<Rightarrow>
          boxes_loop rnd rs (if appid = 0 then abxr_App r else appid) (boxes @ [(abxr_Box r)\<lparr>box_Round := rnd\<rparr>]))"

definition fetchApplicationBoxes :: "'j api_env \<Rightarrow> ApplicationBoxQuery \<Rightarrow> uint64 \<times> Box list \<times> uint64 \<times> unit result" where
  "fetchApplicationBoxes si params =
     (case ApplicationBoxes (si_query si) (si_codec si) (si_tables si) params of
        (results, rnd) \<Rightarrow>
          (case boxes_loop rnd results 0 [] of
             (res, appid, boxes) \<Rightarrow> (appid, boxes, rnd, callWithTimeout (si_call si) res)))"

section \<open>Assets\<close>

text \<open>A page of a search: its objects, the accounted round and the token of the next page.\<close>

record 'a page_response =
  pr_CurrentRound :: uint64
  pr_NextToken :: "string option"
  pr_Items :: "'a list"

definition page_of :: "('a \<Rightarrow> string) \<Rightarrow> 'a list \<times> uint64 \<Rightarrow> 'a page_response" where
  "page_of token = (\<lambda>(items, rnd).
     \<lparr>pr_CurrentRound = rnd, pr_NextToken = (if length items > 0 then strPtr (token (last items)) else None),
      pr_Items = items\<rparr>)"

definition SearchForAssets :: "'j api_env \<Rightarrow> request \<Rightarrow> SearchForAssetsParams \<Rightarrow> http_error + Asset page_response" where
  "SearchForAssets si ctx params =
     http_bind (verifyHandler si ''SearchForAssets'' ctx) (\<lambda>_.
     http_bind (http_guard (exceeds (sap_AssetId params)) (NotFound errValueExceedingInt64)) (\<lambda>_.
     http_bind (bad_request (assetParamsToAssetQuery (si_sdk si) (si_opts si) params)) (\<lambda>options.
     http_bind (indexer_result errFailedSearchingAsset (fetchAssets si options)) (\<lambda>fetched.
       Inr (page_of (\<lambda>a. FormatUint (mas_Index a)) fetched)))))"

text \<open>The parameters of the lookups below an account: object, deleted ones, limit, page token.\<close>

record account_lookup_params =
  alp_Id :: "uint64 option"
  alp_IncludeAll :: "bool option"
  alp_Limit :: "uint64 option"
  alp_Next :: "string option"

definition LookupAccountCreatedAssets ::
  "'j api_env \<Rightarrow> request \<Rightarrow> string \<Rightarrow> account_lookup_params \<Rightarrow> http_error + Asset page_response" where
  "LookupAccountCreatedAssets si ctx accountID params =
     http_bind (verifyHandler si ''LookupAccountCreatedAssets'' ctx) (\<lambda>_.
     http_bind (http_guard (exceeds (alp_Id params)) (NotFound errValueExceedingInt64)) (\<lambda>_.
       SearchForAssets si ctx
         \<lparr>sap_IncludeAll = alp_IncludeAll params, sap_Limit = alp_Limit params, sap_Next = alp_Next params,
          sap_Creator = Some accountID, sap_Name = None, sap_Unit = None, sap_AssetId = alp_Id params\<rparr>))"

text \<open>One object or none; more than one is an internal error.\<close>

definition single :: "string \<Rightarrow> string \<Rightarrow> 'a list \<Rightarrow> http_error + 'a" where
  "single none_found multiple xs =
     (if length xs = 0 then Inl (NotFound none_found)
      else if length xs > 1 then Inl (indexerError (ErrMsg multiple))
      else Inr (xs ! 0))"

definition LookupAssetByID :: "'j api_env \<Rightarrow> request \<Rightarrow> uint64 \<Rightarrow> bool option \<Rightarrow> http_error + Asset \<times> uint64" where
  "LookupAssetByID si ctx assetID includeAll =
     http_bind (verifyHandler si ''LookupAssetByID'' ctx) (\<lambda>_.
     http_bind (http_guard (assetID > MaxInt64) (NotFound errValueExceedingInt64)) (\<lambda>_.
     http_bind (bad_request (assetParamsToAssetQuery (si_sdk si) (si_opts si)
         \<lparr>sap_IncludeAll = includeAll, sap_Limit = Some 1, sap_Next = None, sap_Creator = None, sap_Name = None,
          sap_Unit = None, sap_AssetId = Some assetID\<rparr>)) (\<lambda>options.
     http_bind (indexer_result errFailedSearchingAsset (fetchAssets si options)) (\<lambda>(assets, rnd).
     http_bind (single (errNoAssetsFound @ '': '' @ FormatUint assetID) (errMultipleAssets @ '': '' @ FormatUint assetID) assets)
       (\<lambda>asset. Inr (asset, rnd))))))"

section \<open>Balances\<close>

record LookupAssetBalancesParams =
  lab_IncludeAll :: "bool option"
  lab_Limit :: "uint64 option"
  lab_Next :: "string option"
  lab_CurrencyGreaterThan :: "uint64 option"
  lab_CurrencyLessThan :: "uint64 option"

definition balances_limit :: "'j api_env \<Rightarrow> uint64 option \<Rightarrow> uint64" where
  "balances_limit si limit = min_u64 (uintOrDefaultValue limit (DefaultBalancesLimit (si_opts si))) (MaxBalancesLimit (si_opts si))"

definition LookupAssetBalances ::
  "'j api_env \<Rightarrow> request \<Rightarrow> uint64 \<Rightarrow> LookupAssetBalancesParams \<Rightarrow> http_error + MiniAssetHolding page_response" where
  "LookupAssetBalances si ctx assetID params =
     http_bind (verifyHandler si ''LookupAssetBalances'' ctx) (\<lambda>_.
     http_bind (http_guard (assetID > MaxInt64) (NotFound errValueExceedingInt64)) (\<lambda>_.
     http_bind (case lab_Next params of
                  None \<Rightarrow> Inr None
                | Some next \<Rightarrow>
                    (case DecodeAddress (si_sdk si) next of
                       Inl _ \<Rightarrow> Inl (BadRequest errUnableToParseNext)
                     | Inr addr \<Rightarrow> Inr (Some addr))) (\<lambda>prev.
     http_bind (indexer_result errFailedSearchingAssetBalances (fetchAssetBalances si
         \<lparr>abq_AssetID = Some assetID, abq_AssetIDGT = None, abq_AmountGT = lab_CurrencyGreaterThan params,
          abq_AmountLT = lab_CurrencyLessThan params, abq_Address = None,
          abq_IncludeDeleted = boolOrDefault (lab_IncludeAll params), abq_Limit = balances_limit si (lab_Limit params),
          abq_PrevAddress = prev\<rparr>)) (\<lambda>fetched.
       Inr (page_of mah_Address fetched)))))"

definition LookupAccountAssets ::
  "'j api_env \<Rightarrow> request \<Rightarrow> string \<Rightarrow> account_lookup_params \<Rightarrow> http_error + model_AssetHolding page_response" where
  "LookupAccountAssets si ctx accountID params =
     http_bind (verifyHandler si ''LookupAccountAssets'' ctx) (\<lambda>_.
     http_bind (http_guard (exceeds (alp_Id params)) (NotFound errValueExceedingInt64)) (\<lambda>_.
     http_bind (bad_request (res_msg errUnableToParseAddress (DecodeAddress (si_sdk si) accountID))) (\<lambda>addr.
     http_bind (bad_request (decode_next_id (alp_Next params))) (\<lambda>assetGreaterThan.
     http_bind (indexer_result errFailedSearchingAssetBalances (fetchAssetHoldings si
         \<lparr>abq_AssetID = alp_Id params, abq_AssetIDGT = assetGreaterThan, abq_AmountGT = None, abq_AmountLT = None,
          abq_Address = Some addr, abq_IncludeDeleted = boolOrDefault (alp_IncludeAll params),
          abq_Limit = balances_limit si (alp_Limit params), abq_PrevAddress = None\<rparr>)) (\<lambda>fetched.
       Inr (page_of (\<lambda>h. FormatUint (mh_AssetId h)) fetched))))))"

section \<open>Applications\<close>

definition SearchForApplications ::
  "'j api_env \<Rightarrow> request \<Rightarrow> SearchForApplicationsParams \<Rightarrow> http_error + Application page_response" where
  "SearchForApplications si ctx params =
     http_bind (verifyHandler si ''SearchForApplications'' ctx) (\<lambda>_.
     http_bind (http_guard (exceeds (spp_ApplicationId params)) (NotFound errValueExceedingInt64)) (\<lambda>_.
     http_bind (bad_request (appParamsToApplicationQuery (si_sdk si) (si_opts si) params)) (\<lambda>options.
     http_bind (indexer_result errFailedSearchingApplication (fetchApplications si options)) (\<lambda>fetched.
       Inr (page_of (\<lambda>a. FormatUint (ma_Id a)) fetched)))))"

definition account_search :: "string \<Rightarrow> account_lookup_params \<Rightarrow> SearchForApplicationsParams" where
  "account_search accountID params =
     \<lparr>spp_ApplicationId = alp_Id params, spp_Creator = Some accountID, spp_IncludeAll = alp_IncludeAll params,
      spp_Limit = alp_Limit params, spp_Next = alp_Next params\<rparr>"

definition LookupAccountCreatedApplications ::
  "'j api_env \<Rightarrow> request \<Rightarrow> string \<Rightarrow> account_lookup_params \<Rightarrow> http_error + Application page_response" where
  "LookupAccountCreatedApplications si ctx accountID params =
     http_bind (verifyHandler si ''LookupAccountCreatedApplications'' ctx) (\<lambda>_.
     http_bind (http_guard (exceeds (alp_Id params)) (NotFound errValueExceedingInt64)) (\<lambda>_.
       SearchForApplications si ctx (account_search accountID params)))"

definition LookupAccountAppLocalStates ::
  "'j api_env \<Rightarrow> request \<Rightarrow> string \<Rightarrow> account_lookup_params \<Rightarrow> http_error + ApplicationLocalState page_response" where
  "LookupAccountAppLocalStates si ctx accountID params =
     http_bind (verifyHandler si ''LookupAccountAppLocalStates'' ctx) (\<lambda>_.
     http_bind (http_guard (exceeds (alp_Id params)) (NotFound errValueExceedingInt64)) (\<lambda>_.
     http_bind (bad_request (appParamsToApplicationQuery (si_sdk si) (si_opts si) (account_search accountID params))) (\<lambda>options.
     http_bind (indexer_result errFailedSearchingApplication (fetchAppLocalStates si options)) (\<lambda>fetched.
       Inr (page_of (\<lambda>a. FormatUint (mls_Id a)) fetched)))))"

definition LookupApplicationByID ::
  "'j api_env \<Rightarrow> request \<Rightarrow> uint64 \<Rightarrow> bool option \<Rightarrow> http_error + Application \<times> uint64" where
  "LookupApplicationByID si ctx applicationID includeAll =
     http_bind (verifyHandler si ''LookupApplicationByID'' ctx) (\<lambda>_.
     http_bind (http_guard (applicationID > MaxInt64) (NotFound errValueExceedingInt64)) (\<lambda>_.
     http_bind (indexer_result errFailedSearchingApplication (fetchApplications si
         \<lparr>apq_Address = None, apq_ApplicationID = Some applicationID, apq_ApplicationIDGreaterThan = None,
          apq_IncludeDeleted = boolOrDefault includeAll, apq_Limit = 1\<rparr>)) (\<lambda>(apps, rnd).
     http_bind (single (errNoApplicationsFound @ '': '' @ FormatUint applicationID)
         (errMultipleApplications @ '': '' @ FormatUint applicationID) apps)
       (\<lambda>app. Inr (app, rnd)))))"

section \<open>Boxes\<close>

text \<open>A box name of a request; the two error messages are those of the two calls.\<close>

definition raw_box_name :: "'j api_env \<Rightarrow> string \<Rightarrow> string \<Rightarrow> http_error + bytes" where
  "raw_box_name si msg encoded =
     (case NewAppCallBytes si encoded of
        Inl e \<Rightarrow> Inl (BadRequest (msg @ '' ('' @ encoded @ ''): '' @ err_text e))
      | Inr raw \<Rightarrow> bad_request raw)"

text \<open>The messages below leave out the round, the application and the name that are printed into them.\<close>

definition box_response :: "uint64 \<Rightarrow> bytes \<Rightarrow> uint64 \<times> Box list \<times> uint64 \<times> unit result \<Rightarrow> http_error + Box" where
  "box_response applicationID boxName = (\<lambda>(appid, boxes, rnd, res).
     case res of
       Inl e \<Rightarrow>
         if e = SqlErrNoRows then Inl (NotFound errNoApplicationsFound)
         else Inl (indexerError (Wrap ErrFailedLookingUpBoxes e))
     | Inr _ \<Rightarrow>
         if length boxes = 0 then Inl (indexerError (ErrMsg ErrFailedLookingUpBoxes))
         else if appid \<noteq> applicationID then Inl (indexerError (ErrMsg ErrWrongAppidFound))
         else if length boxes > 1 then Inl (indexerError (ErrMsg ErrMultipleBoxes))
         else let box = boxes ! 0; name = (case box_Name box of None \<Rightarrow> [] | Some n \<Rightarrow> n) in
           if length name = 0 \<and> length boxName > 0 then Inl (NotFound ErrNoBoxesFound)
           else if name \<noteq> boxName then Inl (indexerError (ErrMsg ErrWrongBoxFound))
           else Inr box)"

definition LookupApplicationBoxByIDAndName ::
  "'j api_env \<Rightarrow> request \<Rightarrow> uint64 \<Rightarrow> string \<Rightarrow> http_error + Box" where
  "LookupApplicationBoxByIDAndName si ctx applicationID encodedBoxName =
     http_bind (verifyHandler si ''LookupApplicationBoxByIDAndName'' ctx) (\<lambda>_.
     http_bind (http_guard (applicationID > MaxInt64) (NotFound errValueExceedingInt64)) (\<lambda>_.
     http_bind (raw_box_name si ''LookupApplicationBoxByIDAndName received illegal box name'' encodedBoxName) (\<lambda>boxName.
       box_response applicationID boxName (fetchApplicationBoxes si
         \<lparr>bq_ApplicationID = applicationID, bq_BoxName = Some boxName, bq_OmitValues = False, bq_Limit = 0,
          bq_PrevFinalBox = None\<rparr>))))"

record SearchForApplicationBoxesParams =
  sbp_Limit :: "uint64 option"
  sbp_Next :: "string option"
  sbp_Include :: "string list option"

record BoxDescriptor =
  bd_Name :: bytes
  bd_Value :: "bytes option option"

record BoxesResponse =
  bsr_ApplicationId :: uint64
  bsr_Boxes :: "BoxDescriptor list"
  bsr_NextToken :: "string option"
  bsr_Round :: "uint64 option"

text \<open>The token of the last box, none when its name is nil.\<close>

definition box_next :: "bytes option \<Rightarrow> string option" where
  "box_next finalNameBytes =
     (case finalNameBytes of
        None \<Rightarrow> None
      | Some name \<Rightarrow> (case strPtr (Base64 name) of None \<Rightarrow> None | Some encoded \<Rightarrow> strPtr (''b64:'' @ encoded)))"

definition box_descriptors :: "bool \<Rightarrow> Box list \<Rightarrow> BoxDescriptor list" where
  "box_descriptors includeValues boxes =
     concat (map (\<lambda>box. case box_Name box of
        None \<Rightarrow> []
      | Some name \<Rightarrow> [\<lparr>bd_Name = name, bd_Value = (if includeValues then Some (box_Value box) else None)\<rparr>]) boxes)"

definition boxes_limit :: "'j api_env \<Rightarrow> uint64 option \<Rightarrow> uint64" where
  "boxes_limit si limit = min_u64 (uintOrDefaultValue limit (DefaultBoxesLimit (si_opts si))) (MaxBoxesLimit (si_opts si))"

definition include_values :: "SearchForApplicationBoxesParams \<Rightarrow> bool" where
  "include_values params = (case sbp_Include params of None \<Rightarrow> False | Some incl \<Rightarrow> List.member incl ''values'')"

definition boxes_response ::
  "uint64 \<Rightarrow> bool \<Rightarrow> uint64 \<times> Box list \<times> uint64 \<times> unit result \<Rightarrow> http_error + BoxesResponse" where
  "boxes_response applicationID includeValues = (\<lambda>(appid, boxes, rnd, res).
     let happyResponse =
       \<lparr>bsr_ApplicationId = applicationID, bsr_Boxes = [], bsr_NextToken = None, bsr_Round = Some rnd\<rparr>
     in case res of
          Inl e \<Rightarrow>
            if e = SqlErrNoRows then Inr happyResponse
            else Inl (indexerError (Wrap errFailedSearchingBoxes e))
        | Inr _ \<Rightarrow>
            if length boxes = 0 then Inl (indexerError (ErrMsg errFailedSearchingBoxes))
            else if appid \<noteq> applicationID then Inl (indexerError (ErrMsg ErrWrongAppidFound))
            else Inr (happyResponse\<lparr>bsr_NextToken := box_next (box_Name (last boxes)),
                        bsr_Boxes := box_descriptors includeValues boxes\<rparr>))"

definition SearchForApplicationBoxes ::
  "'j api_env \<Rightarrow> request \<Rightarrow> uint64 \<Rightarrow> SearchForApplicationBoxesParams \<Rightarrow> http_error + BoxesResponse" where
  "SearchForApplicationBoxes si ctx applicationID params =
     http_bind (verifyHandler si ''SearchForApplicationBoxes'' ctx) (\<lambda>_.
     http_bind (http_guard (applicationID > MaxInt64) (NotFound errValueExceedingInt64)) (\<lambda>_.
     http_bind (case sbp_Next params of
                  None \<Rightarrow> Inr None
                | Some encoded \<Rightarrow>
                    http_bind (raw_box_name si ''SearchForApplicationBoxes received illegal next token'' encoded)
                      (\<lambda>prevBox. Inr (Some prevBox))) (\<lambda>prevFinalBox.
       boxes_response applicationID (include_values params) (fetchApplicationBoxes si
         \<lparr>bq_ApplicationID = applicationID, bq_BoxName = None, bq_OmitValues = \<not> include_values params,
          bq_Limit = boxes_limit si (sbp_Limit params), bq_PrevFinalBox = prevFinalBox\<rparr>))))"

end
