(* ===== verification/AccountHandlers.thy ===== *)
theory AccountHandlers
  imports ResourceHandlers
begin

text \<open>
  The endpoints for accounts (\<^verbatim>\<open>api/handlers.go\<close>): the options that a request selects, fetching the accounts
  and rewinding them to an earlier round, and the two handlers. The special accounts, which the rewind
  keeps in a global variable, are passed through.
\<close>

definition errFailedSearchingAccount :: string where "errFailedSearchingAccount = ''failed while searching for account''"
definition ErrNoAccountsFound :: string where "ErrNoAccountsFound = ''no accounts found for address''"
definition errMultipleAccounts :: string where
  "errMultipleAccounts = ''multiple accounts found for this address, please contact us, this shouldn't happen''"
definition errMultiAcctRewind :: string where
  "errMultiAcctRewind = ''multiple accounts rewind is not supported by this server''"
definition errOnlineOnlyRewind :: string where
  "errOnlineOnlyRewind = ''simultaneously rewinding and searching for online accounts is not supported''"
definition errOnlineOnlyDeleted :: string where
  "errOnlineOnlyDeleted = ''simultaneously searching for online and deleted accounts is not supported''"
definition errRewindingAccount :: string where "errRewindingAccount = ''error while rewinding account''"
definition ErrResultLimitReached :: string where "ErrResultLimitReached = ''Result limit exceeded''"

section \<open>Options\<close>

fun setExcludeQueryOptions :: "string list \<Rightarrow> AccountQueryOptions \<Rightarrow> AccountQueryOptions result" where
  "setExcludeQueryOptions [] opts = Inr opts"
| "setExcludeQueryOptions (e # exclude) opts =
     (if e = ''all'' then
        setExcludeQueryOptions exclude (opts\<lparr>ao_IncludeAssetHoldings := False, ao_IncludeAssetParams := False,
          ao_IncludeAppLocalState := False, ao_IncludeAppParams := False\<rparr>)
      else if e = ''assets'' then setExcludeQueryOptions exclude (opts\<lparr>ao_IncludeAssetHoldings := False\<rparr>)
      else if e = ''created-assets'' then setExcludeQueryOptions exclude (opts\<lparr>ao_IncludeAssetParams := False\<rparr>)
      else if e = ''apps-local-state'' then setExcludeQueryOptions exclude (opts\<lparr>ao_IncludeAppLocalState := False\<rparr>)
      else if e = ''created-apps'' then setExcludeQueryOptions exclude (opts\<lparr>ao_IncludeAppParams := False\<rparr>)
      else if e = ''none'' then setExcludeQueryOptions exclude opts
      else Inl (Wrap ''unknown value'' (ErrMsg ''invalid exclude argument'')))"

definition maxAccountsErrorToAccountsErrorResponse ::
  "'j api_env \<Rightarrow> Address \<Rightarrow> uint64 \<Rightarrow> uint64 \<Rightarrow> uint64 \<Rightarrow> uint64 \<Rightarrow> http_error" where
  "maxAccountsErrorToAccountsErrorResponse si addr totalAppLocalStates totalAppParams totalAssets totalAssetParams =
     BadRequestData ErrResultLimitReached
       [(''max-results'', DataNumber (MaxAPIResourcesPerAccount (si_opts si))),
        (''address'', DataText (AddressString (si_sdk si) addr)),
        (''total-assets-opted-in'', DataNumber totalAssets),
        (''total-created-assets'', DataNumber totalAssetParams),
        (''total-apps-opted-in'', DataNumber totalAppLocalStates),
        (''total-created-apps'', DataNumber totalAppParams)]"

definition account_failure :: "'j api_env \<Rightarrow> err \<Rightarrow> http_error" where
  "account_failure si e =
     (case err_cause e of
        MaxAPIResourcesPerAccountError addr states apps opted_in assets \<Rightarrow>
          maxAccountsErrorToAccountsErrorResponse si addr states apps opted_in assets
      | _ \<Rightarrow> indexerError (Wrap errFailedSearchingAccount e))"

section \<open>Fetching accounts\<close>

definition rewind_account ::
  "'j api_env \<Rightarrow> SpecialAddresses option \<Rightarrow> model_Account \<Rightarrow> uint64 \<Rightarrow> model_Account result \<times> SpecialAddresses option" where
  "rewind_account si cached =
     AccountAtRound (si_sdk si) (GetSpecialAccounts (si_codec si) (si_tables si))
       (Transactions (si_sql si) (si_txn_query si) (si_codec si) (si_tables si) (si_txns si)) cached"

definition include_pending :: "model_Account \<Rightarrow> model_Account" where
  "include_pending account = account\<lparr>mac_Rewards := mac_Rewards account + mac_PendingRewards account\<rparr>"

text \<open>The loop over the rows. A special account cannot be rewound: it is left out of a search.\<close>

fun accounts_loop ::
  "'j api_env \<Rightarrow> bool \<Rightarrow> uint64 option \<Rightarrow> AccountRow list \<Rightarrow> SpecialAddresses option \<Rightarrow> model_Account list \<Rightarrow>
   model_Account list result \<times> SpecialAddresses option" where
  "accounts_loop si single_account atRound [] cached accounts = (Inr accounts, cached)"
| "accounts_loop si single_account atRound (row # rows) cached accounts =
     (case acr_Error row of
        Some e \<Rightarrow> (Inl e, cached)
      | None \<Rightarrow>
          (case atRound of
             None \<Rightarrow> accounts_loop si single_account atRound rows cached (accounts @ [include_pending (acr_Account row)])
           | Some rnd \<Rightarrow>
               (case rewind_account si cached (acr_Account row) rnd of
                  (Inr acct, cached) \<Rightarrow> accounts_loop si single_account atRound rows cached (accounts @ [include_pending acct])
                | (Inl e, cached) \<Rightarrow>
                    if single_account \<or> (\<forall>name. e \<noteq> SpecialAccountRewindError name)
                    then (Inl (ErrMsg errRewindingAccount), cached)
                    else accounts_loop si single_account atRound rows cached accounts)))"

definition fetchAccounts ::
  "'j api_env \<Rightarrow> SpecialAddresses option \<Rightarrow> AccountQueryOptions \<Rightarrow> uint64 option \<Rightarrow>
   (model_Account list \<times> uint64) result \<times> SpecialAddresses option" where
  "fetchAccounts si cached options atRound =
     (case GetAccounts (si_sdk si) (si_text si) (si_arrays si) (si_query si) (si_codec si) (si_tables si) options of
        (rows, rnd) \<Rightarrow>
          (case (if atRound \<noteq> None \<and> the atRound > rnd then (Inl (ErrMsg errRewindingAccount), cached)
                 else accounts_loop si (length (ao_EqualToAddress options) \<noteq> 0) atRound rows cached []) of
             (res, cached) \<Rightarrow>
               (res_bind (callWithTimeout (si_call si) res) (\<lambda>accounts. Inr (accounts, rnd)), cached)))"

section \<open>The handlers\<close>

record LookupAccountByIDParams =
  lap_Round :: "uint64 option"
  lap_IncludeAll :: "bool option"
  lap_Exclude :: "string list option"

definition exclude_options :: "string list option \<Rightarrow> AccountQueryOptions \<Rightarrow> http_error + AccountQueryOptions" where
  "exclude_options exclude options =
     (case exclude of
        None \<Rightarrow> Inr options
      | Some es \<Rightarrow>
          (case setExcludeQueryOptions es options of Inl e \<Rightarrow> Inl (BadRequest (err_text e)) | Inr options \<Rightarrow> Inr options))"

definition lookup_options :: "'j api_env \<Rightarrow> request \<Rightarrow> string \<Rightarrow> LookupAccountByIDParams \<Rightarrow> http_error + AccountQueryOptions" where
  "lookup_options si ctx accountID params =
     http_bind (verifyHandler si ''LookupAccountByID'' ctx) (\<lambda>_.
     http_bind (http_guard (exceeds (lap_Round params)) (NotFound errValueExceedingInt64)) (\<lambda>_.
     case DecodeAddress (si_sdk si) accountID of
       Inl _ \<Rightarrow> Inl (BadRequest errUnableToParseAddress)
     | Inr addr \<Rightarrow>
         exclude_options (lap_Exclude params)
           (zero_AccountQueryOptions
             \<lparr>ao_EqualToAddress := addr, ao_IncludeAssetHoldings := True, ao_IncludeAssetParams := True,
              ao_IncludeAppLocalState := True, ao_IncludeAppParams := True, ao_Limit := 1,
              ao_IncludeDeleted := boolOrDefault (lap_IncludeAll params),
              ao_MaxResources := MaxAPIResourcesPerAccount (si_opts si)\<rparr>)))"

text \<open>The answer is the account and the current round.\<close>

definition LookupAccountByID ::
  "'j api_env \<Rightarrow> SpecialAddresses option \<Rightarrow> request \<Rightarrow> string \<Rightarrow> LookupAccountByIDParams \<Rightarrow>
   (http_error + model_Account \<times> uint64) \<times> SpecialAddresses option" where
  "LookupAccountByID si cached ctx accountID params =
     (case lookup_options si ctx accountID params of
        Inl e \<Rightarrow> (Inl e, cached)
      | Inr options \<Rightarrow>
          (case fetchAccounts si cached options (lap_Round params) of
             (Inl e, cached) \<Rightarrow> (Inl (account_failure si e), cached)
           | (Inr (accounts, rnd), cached) \<Rightarrow>
               (http_bind (single ErrNoAccountsFound errMultipleAccounts accounts) (\<lambda>account. Inr (account, rnd)), cached)))"

record SearchForAccountsParams =
  sac_AssetId :: "uint64 option"
  sac_Limit :: "uint64 option"
  sac_Next :: "string option"
  sac_CurrencyGreaterThan :: "uint64 option"
  sac_IncludeAll :: "bool option"
  sac_Exclude :: "string list option"
  sac_CurrencyLessThan :: "uint64 option"
  sac_AuthAddr :: "string option"
  sac_Round :: "uint64 option"
  sac_ApplicationId :: "uint64 option"
  sac_OnlineOnly :: "bool option"

definition search_guards :: "'j api_env \<Rightarrow> request \<Rightarrow> SearchForAccountsParams \<Rightarrow> http_error + unit" where
  "search_guards si ctx params =
     http_bind (verifyHandler si ''SearchForAccounts'' ctx) (\<lambda>_.
     http_bind (http_guard (exceeds (sac_AssetId params) \<or> exceeds (sac_ApplicationId params) \<or> exceeds (sac_Round params))
       (NotFound errValueExceedingInt64)) (\<lambda>_.
     http_bind (http_guard (\<not> si_EnableAddressSearchRoundRewind si \<and> sac_Round params \<noteq> None)
       (BadRequest errMultiAcctRewind)) (\<lambda>_.
     http_bind (http_guard (sac_Round params \<noteq> None \<and> boolOrDefault (sac_OnlineOnly params))
       (BadRequest errOnlineOnlyRewind)) (\<lambda>_.
     http_guard (boolOrDefault (sac_OnlineOnly params) \<and> boolOrDefault (sac_IncludeAll params))
       (BadRequest errOnlineOnlyDeleted)))))"

definition decode_param :: "sdk \<Rightarrow> string \<Rightarrow> string option \<Rightarrow> http_error + bytes" where
  "decode_param env msg param =
     (case param of
        None \<Rightarrow> Inr []
      | Some s \<Rightarrow> (case DecodeAddress env s of Inl _ \<Rightarrow> Inl (BadRequest msg) | Inr addr \<Rightarrow> Inr addr))"

definition currency_options :: "SearchForAccountsParams \<Rightarrow> AccountQueryOptions \<Rightarrow> AccountQueryOptions" where
  "currency_options params options =
     (if ao_HasAssetID options = 0
      then options\<lparr>ao_AlgosGreaterThan := sac_CurrencyGreaterThan params, ao_AlgosLessThan := sac_CurrencyLessThan params\<rparr>
      else options\<lparr>ao_AssetGT := sac_CurrencyGreaterThan params, ao_AssetLT := sac_CurrencyLessThan params\<rparr>)"

definition accounts_limit :: "'j api_env \<Rightarrow> uint64 option \<Rightarrow> uint64" where
  "accounts_limit si limit = min_u64 (uintOrDefaultValue limit (DefaultAccountsLimit (si_opts si))) (MaxAccountsLimit (si_opts si))"

definition search_options :: "'j api_env \<Rightarrow> request \<Rightarrow> SearchForAccountsParams \<Rightarrow> http_error + AccountQueryOptions" where
  "search_options si ctx params =
     http_bind (search_guards si ctx params) (\<lambda>_.
     http_bind (decode_param (si_sdk si) ''unable to parse auth addr'' (sac_AuthAddr params)) (\<lambda>spendingAddrBytes.
     http_bind (exclude_options (sac_Exclude params)
       (zero_AccountQueryOptions
         \<lparr>ao_IncludeAssetHoldings := True, ao_IncludeAssetParams := True, ao_IncludeAppLocalState := True,
          ao_IncludeAppParams := True, ao_Limit := accounts_limit si (sac_Limit params),
          ao_HasAssetID := uintOrDefault (sac_AssetId params), ao_HasAppID := uintOrDefault (sac_ApplicationId params),
          ao_EqualToAuthAddr := spendingAddrBytes, ao_IncludeDeleted := boolOrDefault (sac_IncludeAll params),
          ao_MaxResources := MaxAPIResourcesPerAccount (si_opts si),
          ao_OnlineOnly := boolOrDefault (sac_OnlineOnly params)\<rparr>)) (\<lambda>options.
     http_bind (decode_param (si_sdk si) errUnableToParseNext (sac_Next params)) (\<lambda>addr.
     Inr ((currency_options params options)\<lparr>ao_GreaterThanAddress := addr\<rparr>)))))"

definition SearchForAccounts ::
  "'j api_env \<Rightarrow> SpecialAddresses option \<Rightarrow> request \<Rightarrow> SearchForAccountsParams \<Rightarrow>
   (http_error + model_Account page_response) \<times> SpecialAddresses option" where
  "SearchForAccounts si cached ctx params =
     (case search_options si ctx params of
        Inl e \<Rightarrow> (Inl e, cached)
      | Inr options \<Rightarrow>
          (case fetchAccounts si cached options (sac_Round params) of
             (Inl e, cached) \<Rightarrow> (Inl (account_failure si e), cached)
           | (Inr (accounts, rnd), cached) \<Rightarrow> (Inr (page_of mac_Address (accounts, rnd)), cached)))"

end
