(* ===== verification/Paging.thy ===== *)
theory Paging
  imports ResourceHandlers
begin

text \<open>
  Searches in pages. The contract of an endpoint that answers a search page by page is the locale
  \<open>paged_search\<close>: the rows of the search are ordered by a key that no two of them share, the first page
  is the beginning of the rows, and the page after a token is the beginning of the rows behind the
  key the token stands for. Whoever follows the tokens then reads the whole search, each row once and
  in order. The endpoints of the API interpret it.
\<close>

section \<open>Following the tokens\<close>

text \<open>
  A client that asks for the first page and follows the tokens until there is none, with a bound on
  the number of requests; \<open>None\<close> says that the bound did not suffice. The first error ends the search.
\<close>

fun follow_pages :: "(string option \<Rightarrow> 'e + 'o list \<times> string option) \<Rightarrow> nat \<Rightarrow> string option \<Rightarrow> ('e + 'o list) option" where
  "follow_pages request 0 next = None"
| "follow_pages request (Suc fuel) next =
     (case request next of
        Inl e \<Rightarrow> Some (Inl e)
      | Inr (items, None) \<Rightarrow> Some (Inr items)
      | Inr (items, Some token) \<Rightarrow>
          (case follow_pages request fuel (Some token) of
             None \<Rightarrow> None
           | Some (Inl e) \<Rightarrow> Some (Inl e)
           | Some (Inr rest) \<Rightarrow> Some (Inr (items @ rest))))"

text \<open>The first page of some rows: their beginning up to the limit, and the token of its last row.\<close>

definition first_page :: "('r \<Rightarrow> 'o) \<Rightarrow> ('r \<Rightarrow> string) \<Rightarrow> uint64 \<Rightarrow> 'r list \<Rightarrow> 'o list \<times> string option" where
  "first_page render token limit rows =
     (map render (limit_or_all limit rows), if rows = [] then None else Some (token (last (limit_or_all limit rows))))"

lemma limit_or_all_cases:
  assumes "rows \<noteq> []"
  obtains n where "n < length rows" and "limit_or_all limit rows = take (Suc n) rows"
proof -
  have "unat limit > 0" if "limit \<noteq> 0" using that by (simp add: unat_gt_0)
  then obtain n where "limit \<noteq> 0 \<Longrightarrow> unat limit = Suc n" by (metis gr0_implies_Suc)
  then have "limit_or_all limit rows =
      take (Suc (if limit = 0 then length rows - 1 else min n (length rows - 1))) rows"
    using assms by (auto simp: limit_or_all_def min_def)
  moreover have "(if limit = 0 then length rows - 1 else min n (length rows - 1)) < length rows"
    using assms by (cases rows) auto
  ultimately show thesis by (intro that)
qed

lemma limit_or_all_map: "limit_or_all n (map f xs) = map f (limit_or_all n xs)"
  by (simp add: limit_or_all_def take_map)

lemma set_limit_or_all: "set (limit_or_all n xs) \<subseteq> set xs"
  by (auto simp: limit_or_all_def dest: in_set_takeD)

lemma limit_or_all_Nil [simp]: "limit_or_all n xs = [] \<longleftrightarrow> xs = []"
  by (auto simp: limit_or_all_def unat_eq_zero)

lemma length_limit_or_all: "n \<noteq> 0 \<Longrightarrow> length (limit_or_all n xs) \<le> unat n"
  by (simp add: limit_or_all_def)

text \<open>In strictly ascending rows, those behind the last one of a beginning are the rest.\<close>

lemma filter_after_take:
  fixes key :: "'r \<Rightarrow> 'k :: linorder"
  assumes "sorted_wrt (<) (map key rows)" and "n < length rows"
  shows "filter (\<lambda>r. key (last (take (Suc n) rows)) < key r) rows = drop (Suc n) rows"
proof -
  let ?P = "\<lambda>r. key (rows ! n) < key r"
  have s: "sorted_wrt (\<lambda>x y. key x < key y) rows" using assms(1) by (simp add: sorted_wrt_map)
  have "\<not> ?P r" if r: "r \<in> set (take (Suc n) rows)" for r
  proof -
    obtain i where i: "i < length (take (Suc n) rows)" "r = take (Suc n) rows ! i"
      using r unfolding in_set_conv_nth by blast
    then have "i = n \<or> i < n" "r = rows ! i" by auto
    then show ?thesis using sorted_wrt_nth_less [OF s, of i n] assms(2) by auto
  qed
  then have "filter ?P (take (Suc n) rows) = []" by (simp add: filter_empty_conv)
  moreover have "?P r" if r: "r \<in> set (drop (Suc n) rows)" for r
  proof -
    obtain i where "i < length (drop (Suc n) rows)" "r = drop (Suc n) rows ! i"
      using r unfolding in_set_conv_nth by blast
    then show ?thesis using sorted_wrt_nth_less [OF s, of n "Suc n + i"] by simp
  qed
  then have "filter ?P (drop (Suc n) rows) = drop (Suc n) rows" by (rule filter_True [OF ballI])
  ultimately have "filter ?P (take (Suc n) rows @ drop (Suc n) rows) = drop (Suc n) rows"
    unfolding filter_append by (simp only: append_Nil)
  moreover have "last (take (Suc n) rows) = rows ! n" using assms(2) by (simp add: take_Suc_conv_app_nth)
  ultimately show ?thesis by (simp only: append_take_drop_id)
qed

section \<open>The contract\<close>

locale paged_search =
  fixes invar :: "'s \<Rightarrow> bool"
    and request :: "'s \<Rightarrow> string option \<Rightarrow> 'e + 'o list \<times> string option"
    and rows :: "'s \<Rightarrow> 'r list"
    and key :: "'r \<Rightarrow> 'k :: linorder"
    and render :: "'s \<Rightarrow> 'r \<Rightarrow> 'o"
    and token :: "'s \<Rightarrow> 'r \<Rightarrow> string"
    and limit :: "'s \<Rightarrow> uint64"
  assumes ascending: "invar s \<Longrightarrow> sorted_wrt (<) (map key (rows s))"
    and first: "invar s \<Longrightarrow> request s None = Inr (first_page (render s) (token s) (limit s) (rows s))"
    and later: "invar s \<Longrightarrow> r \<in> set (rows s) \<Longrightarrow>
      request s (Some (token s r)) =
        Inr (first_page (render s) (token s) (limit s) (filter (\<lambda>r'. key r < key r') (rows s)))"
begin

lemma follow_from:
  assumes "invar s" and "request s next = Inr (first_page (render s) (token s) (limit s) rest)"
    and "rows s = before @ rest" and "length rest < fuel"
  shows "follow_pages (request s) fuel next = Some (Inr (map (render s) rest))"
  using assms(2-4)
proof (induction fuel arbitrary: before rest "next")
  case (Suc fuel)
  show ?case
  proof (cases "rest = []")
    case True
    with Suc.prems(1) show ?thesis by (simp add: first_page_def limit_or_all_def)
  next
    case False
    obtain n where n: "n < length rest" "limit_or_all (limit s) rest = take (Suc n) rest"
      by (rule limit_or_all_cases [OF False, of "limit s"])
    let ?last = "last (take (Suc n) rest)"
    have "map key (rows s) = map key before @ map key rest" using Suc.prems(2) by simp
    with ascending [OF assms(1)] have so: "sorted_wrt (<) (map key rest)"
      and be: "\<And>b r. b \<in> set before \<Longrightarrow> r \<in> set rest \<Longrightarrow> key b < key r"
      by (auto simp: sorted_wrt_append)
    have "take (Suc n) rest \<noteq> []" using False by simp
    then have li: "?last \<in> set rest" by (meson in_set_takeD last_in_set)
    have "\<not> key ?last < key b" if "b \<in> set before" for b using be [OF that li] by simp
    then have "filter (\<lambda>r. key ?last < key r) before = []" by (simp add: filter_empty_conv)
    then have "filter (\<lambda>r. key ?last < key r) (rows s) = drop (Suc n) rest"
      using filter_after_take [OF so n(1)] by (simp add: Suc.prems(2))
    then have nxt: "request s (Some (token s ?last)) =
        Inr (first_page (render s) (token s) (limit s) (drop (Suc n) rest))"
      using later [OF assms(1), of ?last] li Suc.prems(2) by simp
    have "rows s = (before @ take (Suc n) rest) @ drop (Suc n) rest" using Suc.prems(2) by simp
    from Suc.IH [OF nxt this] Suc.prems(3) n(1)
    have "follow_pages (request s) fuel (Some (token s ?last)) = Some (Inr (map (render s) (drop (Suc n) rest)))" by simp
    then show ?thesis
      using Suc.prems(1) False n(2) by (simp add: first_page_def flip: map_append)
  qed
qed simp

text \<open>Following the tokens reads every row once, in order, with at most one request more than there
  are rows.\<close>

theorem follow_all:
  assumes "invar s" and "length (rows s) < fuel"
  shows "follow_pages (request s) fuel None = Some (Inr (map (render s) (rows s)))"
  using follow_from [OF assms(1) first [OF assms(1)], of "[]" fuel] assms(2) by simp

text \<open>No page is longer than its limit.\<close>

lemma page_bounded:
  assumes "invar s" "limit s \<noteq> 0"
  shows "\<exists>items next. request s None = Inr (items, next) \<and> length items \<le> unat (limit s)"
  using first [OF assms(1)] length_limit_or_all [OF assms(2)] by (simp add: first_page_def)

end

section \<open>Answers of the database\<close>

text \<open>A handler without failures: the database answers, nothing times out, the endpoint and the
  parameters of the request are enabled.\<close>

definition answers :: "'j api_env \<Rightarrow> uint64 \<Rightarrow> bool" where
  "answers si rnd \<longleftrightarrow>
     begin_err (si_query si) = None \<and> query_err (si_query si) 0 = None \<and> rows_err (si_query si) 0 = None \<and>
     getMaxRoundAccounted (si_codec si) (si_tables si) = Inr rnd \<and>
     (has_timeout (si_call si) \<longrightarrow> \<not> deadline_exceeded (si_call si) \<and> cancelled (si_call si) = None)"

definition enabled :: "'j api_env \<Rightarrow> string \<Rightarrow> request \<Rightarrow> bool" where
  "enabled si operationID ctx \<longleftrightarrow> Verify (si_disabledParams si) operationID ctx = None"

lemma enabled_verify: "enabled si op ctx \<Longrightarrow> verifyHandler si op ctx = Inr ()"
  by (simp add: enabled_def verifyHandler_def)

lemma answers_call: "answers si rnd \<Longrightarrow> callWithTimeout (si_call si) r = r"
  by (auto simp: answers_def callWithTimeout_def)

lemma answers_search:
  "answers si rnd \<Longrightarrow>
   run_search failed query_error (si_query si) (si_codec si) (si_tables si) rows reader = (reader rows None, rnd)"
  by (simp add: answers_def run_search_def)

lemma yield_rows_all:
  "(\<And>r. r \<in> set rs \<Longrightarrow> row r = (out r, True)) \<Longrightarrow> yield_rows failed row rs None = map out rs"
  by (induction rs) auto

lemma collect_rows_all:
  "(\<And>o'. o' \<in> set os \<Longrightarrow> error o' = None \<and> convert o' = Inr (g o')) \<Longrightarrow> collect_rows error convert os = Inr (map g os)"
  by (induction os) (auto simp: collect_rows_def)

text \<open>The rows of a result whose rows all decode are rendered one by one.\<close>

lemma collect_yield:
  assumes "\<And>r. r \<in> set rs \<Longrightarrow> row r = (out r, True) \<and> error (out r) = None \<and> convert (out r) = Inr (render r)"
  shows "collect_rows error convert (yield_rows failed row rs None) = Inr (map render rs)"
proof -
  have "yield_rows failed row rs None = map out rs" using assms by (intro yield_rows_all) blast
  moreover have "collect_rows error convert (map out rs) = Inr (map render rs)"
    using assms by (induction rs) (auto simp: collect_rows_def)
  ultimately show ?thesis by simp
qed

lemma fetch_rows:
  assumes "answers si rnd"
    and "\<And>r. r \<in> set found \<Longrightarrow>
      row r = (fst (row r), True) \<and> error (fst (row r)) = None \<and> convert (fst (row r)) = Inr (render r)"
  shows "(case run_search failed query_error (si_query si) (si_codec si) (si_tables si) (limit_or_all l found)
      (yield_rows failed row) of
       (results, rnd) \<Rightarrow> res_bind (callWithTimeout (si_call si) (collect_rows error convert results)) (\<lambda>xs. Inr (xs, rnd))) =
    Inr (map render (limit_or_all l found), rnd)"
proof -
  have "collect_rows error convert (yield_rows failed row (limit_or_all l found) None) = Inr (map render (limit_or_all l found))"
    by (rule collect_yield [where out = "\<lambda>r. fst (row r)"], rule assms(2), erule subsetD [OF set_limit_or_all])
  then show ?thesis
    unfolding answers_search [OF assms(1)] prod.case answers_call [OF assms(1)] by (simp only: res_bind_def sum.case)
qed

section \<open>Ordered results\<close>

lemma ascending_sort_key:
  assumes "distinct (map key xs)"
  shows "sorted_wrt (<) (map key (sort_key key xs))"
proof -
  have "distinct (map key (sort_key key xs))" using assms by (simp add: distinct_map)
  then show ?thesis by (simp add: strict_sorted_iff)
qed

lemma key_unique_filter_ascending:
  "key_unique key t \<Longrightarrow> sorted_wrt (<) (map key (sort_key key (filter P t)))"
  by (rule ascending_sort_key) (simp add: key_unique_def distinct_map_filter)

text \<open>A further condition on the rows of a search.\<close>

lemma sort_filter_conj: "sort_key key (filter (\<lambda>r. P r \<and> Q r) t) = filter Q (sort_key key (filter P t))"
  by (simp add: filter_sort conj_commute)

lemma strPtr_FormatUint [simp]: "strPtr (FormatUint x) = Some (FormatUint x)"
  by (simp add: strPtr_def FormatUint_def)

lemma page_of_first_page:
  assumes "rs \<noteq> [] \<Longrightarrow> strPtr (token' (render (last (limit_or_all limit rs)))) = Some (token (last (limit_or_all limit rs)))"
  shows "(pr_Items (page_of token' (map render (limit_or_all limit rs), rnd)),
      pr_NextToken (page_of token' (map render (limit_or_all limit rs), rnd))) = first_page render token limit rs"
  using assms by (cases "rs = []") (auto simp: page_of_def first_page_def last_map)

end
