(* ===== verification/TxnQueryLaws.thy ===== *)
theory TxnQueryLaws
  imports TxnQuery ImportLaws
begin

unbundle bit_operations_syntax

text \<open>
  The search for transactions does what its filter says: the query that is built, with its arguments,
  selects exactly the rows that satisfy the filter, in the order of their positions; a search that
  continues from a page token returns the rows after the token; a block is returned with exactly its
  root transactions.
\<close>

section \<open>The meaning of a filter\<close>

text \<open>The filter read as a condition on a transaction row, without a query.\<close>

definition has_role :: "'j sql_server \<Rightarrow> AddressRole \<Rightarrow> bytes \<Rightarrow> 'j \<Rightarrow> bool" where
  "has_role srv role addr txn \<longleftrightarrow>
     list_ex (\<lambda>(r, k). role AND r \<noteq> 0 \<and> json_text srv [''txn'', k] txn = Some (Base64 addr)) role_keys"

definition block_time :: "'j block_header_row list \<Rightarrow> uint64 \<Rightarrow> Time" where
  "block_time hs r = (case lookup_row bhr_round r hs of None \<Rightarrow> zero_time | Some h \<Rightarrow> bhr_realtime h)"

definition in_range :: "TransactionFilter \<Rightarrow> 'j block_header_row list \<Rightarrow> 'j txn_row \<Rightarrow> bool" where
  "in_range tf hs t \<longleftrightarrow>
     tf_MinRound tf \<le> t_round t \<and> (tf_MaxRound tf = 0 \<or> t_round t \<le> tf_MaxRound tf) \<and>
     (time_IsZero (tf_BeforeTime tf) \<or> block_time hs (t_round t) < tf_BeforeTime tf) \<and>
     (time_IsZero (tf_AfterTime tf) \<or> block_time hs (t_round t) > tf_AfterTime tf) \<and>
     given (\<lambda>r. t_round t = r) (tf_Round tf) \<and> given (\<lambda>i. t_intra t = i) (tf_Offset tf) \<and>
     given (\<lambda>i. t_intra t < i) (tf_OffsetLT tf) \<and> given (\<lambda>i. t_intra t > i) (tf_OffsetGT tf)"

definition of_account :: "'j sql_server \<Rightarrow> txn_participation_row list \<Rightarrow> TransactionFilter \<Rightarrow> 'j txn_row \<Rightarrow> bool" where
  "of_account srv ps tf t \<longleftrightarrow>
     given (\<lambda>addr. (addr, t_round t, t_intra t) \<in> tp_key ` set ps \<and>
              (tf_AddressRole tf = 0 \<or> has_role srv (tf_AddressRole tf) addr (t_txn t))) (tf_Address tf)"

definition has_contents :: "'j sql_server \<Rightarrow> TransactionFilter \<Rightarrow> 'j txn_row \<Rightarrow> bool" where
  "has_contents srv tf t \<longleftrightarrow>
     given (\<lambda>a. t_asset t = a) (tf_AssetID tf) \<and> given (\<lambda>a. t_asset t = a) (tf_ApplicationID tf) \<and>
     given (\<lambda>v. option_holds (\<lambda>a. a > uint v) (json_num srv [''txn'', ''aamt''] (t_txn t))) (tf_AssetAmountGT tf) \<and>
     given (\<lambda>v. option_holds (\<lambda>a. a < uint v) (json_num srv [''txn'', ''aamt''] (t_txn t))) (tf_AssetAmountLT tf) \<and>
     (tf_TypeEnum tf = 0 \<or> t_typeenum t = tf_TypeEnum tf) \<and>
     (tf_Txid tf = [] \<or> t_txid t = Some (tf_Txid tf)) \<and>
     (tf_GroupID tf = [] \<or> json_text srv [''txn'', ''grp''] (t_txn t) = Some (b64_encode std_alphabet (tf_GroupID tf))) \<and>
     (tf_SigType tf = [] \<or> json_has srv [tf_SigType tf] (t_txn t)) \<and>
     (tf_NotePrefix tf = [] \<or>
        note_prefix srv (length (tf_NotePrefix tf)) (t_txn t) = Some (tf_NotePrefix tf)) \<and>
     given (\<lambda>v. option_holds (\<lambda>a. a > uint v) (json_num srv [''txn'', ''amt''] (t_txn t))) (tf_AlgosGT tf) \<and>
     given (\<lambda>v. option_holds (\<lambda>a. a < uint v) (json_num srv [''txn'', ''amt''] (t_txn t))) (tf_AlgosLT tf) \<and>
     given (\<lambda>v. option_holds (\<lambda>a. a > uint v) (effective_amount srv (t_txn t))) (tf_EffectiveAmountGT tf) \<and>
     given (\<lambda>v. option_holds (\<lambda>a. a < uint v) (effective_amount srv (t_txn t))) (tf_EffectiveAmountLT tf) \<and>
     (tf_RekeyTo tf = Some True \<longrightarrow> json_has srv [''txn'', ''rekey''] (t_txn t)) \<and>
     (tf_SkipInnerTransactions tf \<longrightarrow> t_txid t \<noteq> None) \<and>
     (tf_RequireApplicationLogs tf \<longrightarrow> json_has srv [''dt'', ''lg''] (t_txn t))"

definition selected ::
  "'j sql_server \<Rightarrow> 'j block_header_row list \<Rightarrow> 'j txn_tables \<Rightarrow> TransactionFilter \<Rightarrow> 'j txn_row \<Rightarrow> bool" where
  "selected srv hs db tf t \<longleftrightarrow>
     in_range tf hs t \<and> of_account srv (tbl_txn_participation db) tf t \<and> has_contents srv tf t"

text \<open>The answer for a row, and the rows in the order of the search: newest first for an account.\<close>

definition root_of :: "'j sql_server \<Rightarrow> 'j txn_tables \<Rightarrow> 'j txn_row \<Rightarrow> 'j option" where
  "root_of srv db t =
     map_option t_txn
       (find (\<lambda>r. t_round t = t_round r \<and> json_num srv [''root-intra''] (t_extra t) = Some (uint (t_intra r))) (tbl_txn db))"

definition txn_answer ::
  "'j sql_server \<Rightarrow> 'j block_header_row list \<Rightarrow> 'j txn_tables \<Rightarrow> TransactionFilter \<Rightarrow> 'j txn_row \<Rightarrow> 'j answer" where
  "txn_answer srv hs db tf t =
     \<lparr>an_round = t_round t, an_intra = t_intra t, an_txn = t_txn t,
      an_root = (if tf_SkipInnerTransactionConversion tf \<or> tf_SkipInnerTransactions tf then None else root_of srv db t),
      an_extra = t_extra t, an_asset = t_asset t, an_realtime = block_time hs (t_round t)\<rparr>"

definition search_order :: "TransactionFilter \<Rightarrow> 'j txn_row list \<Rightarrow> 'j txn_row list" where
  "search_order tf ts = (if tf_Address tf = None then sort_key txn_key ts else rev (sort_key txn_key ts))"

definition search ::
  "'j sql_server \<Rightarrow> 'j block_header_row list \<Rightarrow> 'j txn_tables \<Rightarrow> TransactionFilter \<Rightarrow> 'j txn_row list" where
  "search srv hs db tf = search_order tf (filter (selected srv hs db tf) (tbl_txn db))"

text \<open>The tables as the import leaves them: unique keys, a header for each transaction, block times
  that grow with the round.\<close>

definition searchable :: "'j block_header_row list \<Rightarrow> 'j txn_tables \<Rightarrow> bool" where
  "searchable hs db \<longleftrightarrow>
     key_unique bhr_round hs \<and> key_unique txn_key (tbl_txn db) \<and> key_unique tp_key (tbl_txn_participation db) \<and>
     list_all (\<lambda>t. list_ex (\<lambda>h. bhr_round h = t_round t) hs) (tbl_txn db) \<and>
     list_all (\<lambda>h. list_all (\<lambda>h'. bhr_round h < bhr_round h' \<longrightarrow> bhr_realtime h < bhr_realtime h') hs) hs"

section \<open>Placeholders and arguments\<close>

text \<open>Evaluating the terms of a query for one joined row.\<close>

abbreviation row_eval :: "'j sql_server \<Rightarrow> 'j block_header_row list \<Rightarrow> 'j joined_row \<Rightarrow> sql_arg list \<Rightarrow> where_part \<Rightarrow> bool" where
  "row_eval srv hs j \<equiv> (\<lambda>as. eval_part srv hs as j)"

lemma local_parts [query_simps]:
  "local_part (row_eval srv hs j) PAddr" "local_part (row_eval srv hs j) PRoundGe" "local_part (row_eval srv hs j) PRoundLe"
  "local_part (row_eval srv hs j) TRoundGe" "local_part (row_eval srv hs j) TRoundLe"
  "local_part (row_eval srv hs j) (BeforePart jp)" "local_part (row_eval srv hs j) (AfterPart jp)"
  "local_part (row_eval srv hs j) AssetPart" "local_part (row_eval srv hs j) AssetAmountGTPart" "local_part (row_eval srv hs j) AssetAmountLTPart"
  "local_part (row_eval srv hs j) TypeEnumPart" "local_part (row_eval srv hs j) TxidPart" "local_part (row_eval srv hs j) GroupPart"
  "local_part (row_eval srv hs j) RoundPart" "local_part (row_eval srv hs j) OffsetPart" "local_part (row_eval srv hs j) OffsetLTPart"
  "local_part (row_eval srv hs j) OffsetGTPart" "local_part (row_eval srv hs j) SigTypePart" "local_part (row_eval srv hs j) (NotePart len)"
  "local_part (row_eval srv hs j) AlgosGTPart" "local_part (row_eval srv hs j) AlgosLTPart"
  "local_part (row_eval srv hs j) EffectiveGTPart" "local_part (row_eval srv hs j) EffectiveLTPart"
  by (simp_all add: local_part_def)

text \<open>The arguments of the roles are copies of the address.\<close>

lemma build_roles_means:
  assumes "build_roles role s rks (rps, as, n) = (rps', as', n')" and "n = length as + 1"
    and "\<And>rest. list_ex (\<lambda>(k, m). json_text srv [''txn'', k] txn = Some (the_S (arg_at (as @ rest) m))) rps = \<phi>"
  shows "n' = length as' + 1 \<and> (\<exists>new. as' = as @ new) \<and>
    (\<forall>rest. list_ex (\<lambda>(k, m). json_text srv [''txn'', k] txn = Some (the_S (arg_at (as' @ rest) m))) rps' =
      (\<phi> \<or> list_ex (\<lambda>(r, k). role AND r \<noteq> 0 \<and> json_text srv [''txn'', k] txn = Some s) rks))"
  using assms
proof (induction rks arbitrary: rps as n \<phi>)
  case Nil
  then show ?case by auto
next
  case (Cons rk rks)
  obtain r k where rk: "rk = (r, k)" by fastforce
  show ?case
  proof (cases "role AND r \<noteq> 0")
    case True
    have "n' = length as' + 1 \<and> (\<exists>new. as' = (as @ [ArgS s]) @ new) \<and>
      (\<forall>rest. list_ex (\<lambda>(k, m). json_text srv [''txn'', k] txn = Some (the_S (arg_at (as' @ rest) m))) rps' =
        ((\<phi> \<or> json_text srv [''txn'', k] txn = Some s) \<or>
         list_ex (\<lambda>(r, k). role AND r \<noteq> 0 \<and> json_text srv [''txn'', k] txn = Some s) rks))"
    proof (rule Cons.IH)
      show "build_roles role s rks (rps @ [(k, n)], as @ [ArgS s], n + 1) = (rps', as', n')"
        using Cons.prems(1) True rk by simp
      show "n + 1 = length (as @ [ArgS s]) + 1" using Cons.prems(2) by simp
      show "list_ex (\<lambda>(k, m). json_text srv [''txn'', k] txn = Some (the_S (arg_at ((as @ [ArgS s]) @ rest) m)))
          (rps @ [(k, n)]) = (\<phi> \<or> json_text srv [''txn'', k] txn = Some s)" for rest
        using Cons.prems(2) Cons.prems(3) [of "ArgS s # rest"] by (auto simp: nth_append)
    qed
    with True rk show ?thesis by auto
  next
    case False
    with Cons.IH [OF _ Cons.prems(2,3)] Cons.prems(1) rk show ?thesis by auto
  qed
qed

lemma add_roles_aligned [query_simps]:
  assumes "aligned (row_eval srv hs j) b"
  shows "aligned (row_eval srv hs j) (add_roles role addr b)"
    and "holds (row_eval srv hs j) (add_roles role addr b) \<longleftrightarrow> holds (row_eval srv hs j) b \<and> has_role srv role addr (t_txn (j_t j))"
proof -
  obtain ps as n where b: "b = (ps, as, n)" by (cases b)
  obtain rps as' n' where r: "build_roles role (Base64 addr) role_keys ([], as, n) = (rps, as', n')"
    by (cases "build_roles role (Base64 addr) role_keys ([], as, n)")
  from assms b have n: "n = length as + 1"
    and al: "\<And>rest. list_all (eval_part srv hs (as @ rest) j) ps = list_all (eval_part srv hs as j) ps"
    by (auto simp: aligned_def)
  from build_roles_means [OF r n, of srv "t_txn (j_t j)" False] obtain new where
    n': "n' = length as' + 1" and as': "as' = as @ new" and
    rl: "\<And>rest. list_ex (\<lambda>(k, m). json_text srv [''txn'', k] (t_txn (j_t j)) = Some (the_S (arg_at (as' @ rest) m))) rps =
      has_role srv role addr (t_txn (j_t j))"
    by (auto simp: has_role_def)
  show "aligned (row_eval srv hs j) (add_roles role addr b)"
    using b r n' as' al [of "new @ _"] al [of new] rl by (simp add: aligned_def add_roles_def) (metis append_Nil2)
  show "holds (row_eval srv hs j) (add_roles role addr b) \<longleftrightarrow> holds (row_eval srv hs j) b \<and> has_role srv role addr (t_txn (j_t j))"
    using b r as' al [of new] rl [of "[]"] by (simp add: holds_def add_roles_def)
qed

text \<open>The conditions that the groups of terms add, for a joined row.\<close>

definition joined_account :: "'j sql_server \<Rightarrow> TransactionFilter \<Rightarrow> 'j joined_row \<Rightarrow> bool" where
  "joined_account srv tf j \<longleftrightarrow>
     given (\<lambda>addr. option_holds (\<lambda>p. tp_addr p = addr) (j_p j) \<and>
       (tf_MinRound tf \<noteq> 0 \<longrightarrow> option_holds (\<lambda>p. tp_round p \<ge> tf_MinRound tf) (j_p j)) \<and>
       (tf_MaxRound tf \<noteq> 0 \<longrightarrow> option_holds (\<lambda>p. tp_round p \<le> tf_MaxRound tf) (j_p j)) \<and>
       (tf_AddressRole tf \<noteq> 0 \<longrightarrow> has_role srv (tf_AddressRole tf) addr (t_txn (j_t j)))) (tf_Address tf)"

lemma add_address_aligned [query_simps]:
  assumes "aligned (row_eval srv hs j) b"
  shows "aligned (row_eval srv hs j) (add_address tf b)"
    and "holds (row_eval srv hs j) (add_address tf b) \<longleftrightarrow> holds (row_eval srv hs j) b \<and> joined_account srv tf j"
  using assms by (auto simp: add_address_def joined_account_def given_def query_simps split: option.split)


definition joined_range :: "TransactionFilter \<Rightarrow> 'j block_header_row list \<Rightarrow> 'j joined_row \<Rightarrow> bool" where
  "joined_range tf hs j \<longleftrightarrow>
     (tf_MinRound tf \<noteq> 0 \<longrightarrow> t_round (j_t j) \<ge> tf_MinRound tf) \<and>
     (tf_MaxRound tf \<noteq> 0 \<longrightarrow> t_round (j_t j) \<le> tf_MaxRound tf) \<and>
     (\<not> time_IsZero (tf_BeforeTime tf) \<longrightarrow>
        option_holds (\<lambda>r. row_round (tf_Address tf \<noteq> None) j \<le> r) (round_before (tf_BeforeTime tf) hs)) \<and>
     (\<not> time_IsZero (tf_AfterTime tf) \<longrightarrow>
        option_holds (\<lambda>r. row_round (tf_Address tf \<noteq> None) j \<ge> r) (round_after (tf_AfterTime tf) hs))"

lemma build_rounds_aligned [query_simps]:
  assumes "aligned (row_eval srv hs j) b"
  shows "aligned (row_eval srv hs j) (build_rounds tf b)"
    and "holds (row_eval srv hs j) (build_rounds tf b) \<longleftrightarrow> holds (row_eval srv hs j) b \<and> joined_account srv tf j \<and> joined_range tf hs j"
  using assms by (auto simp: build_rounds_def joined_range_def Let_def query_simps)

lemma build_position_aligned [query_simps]:
  assumes "aligned (row_eval srv hs j) b"
  shows "aligned (row_eval srv hs j) (build_position tf b)"
    and "holds (row_eval srv hs j) (build_position tf b) \<longleftrightarrow> holds (row_eval srv hs j) b \<and>
      given (\<lambda>v. option_holds (\<lambda>a. a > uint v) (json_num srv [''txn'', ''aamt''] (t_txn (j_t j)))) (tf_AssetAmountGT tf) \<and>
      given (\<lambda>v. option_holds (\<lambda>a. a < uint v) (json_num srv [''txn'', ''aamt''] (t_txn (j_t j)))) (tf_AssetAmountLT tf) \<and>
      (tf_TypeEnum tf = 0 \<or> t_typeenum (j_t j) = tf_TypeEnum tf) \<and>
      (tf_Txid tf = [] \<or> t_txid (j_t j) = Some (tf_Txid tf)) \<and>
      (tf_GroupID tf = [] \<or>
        json_text srv [''txn'', ''grp''] (t_txn (j_t j)) = Some (b64_encode std_alphabet (tf_GroupID tf))) \<and>
      given (\<lambda>r. t_round (j_t j) = r) (tf_Round tf) \<and> given (\<lambda>i. t_intra (j_t j) = i) (tf_Offset tf) \<and>
      given (\<lambda>i. t_intra (j_t j) < i) (tf_OffsetLT tf) \<and> given (\<lambda>i. t_intra (j_t j) > i) (tf_OffsetGT tf)"
  using assms by (auto simp: build_position_def query_simps)

lemma build_contents_aligned [query_simps]:
  assumes "aligned (row_eval srv hs j) b"
  shows "holds (row_eval srv hs j) (build_contents tf b) \<longleftrightarrow> holds (row_eval srv hs j) b \<and>
      (tf_SigType tf = [] \<or> json_has srv [tf_SigType tf] (t_txn (j_t j))) \<and>
      (tf_NotePrefix tf = [] \<or>
         note_prefix srv (length (tf_NotePrefix tf)) (t_txn (j_t j)) = Some (tf_NotePrefix tf)) \<and>
      given (\<lambda>v. option_holds (\<lambda>a. a > uint v) (json_num srv [''txn'', ''amt''] (t_txn (j_t j)))) (tf_AlgosGT tf) \<and>
      given (\<lambda>v. option_holds (\<lambda>a. a < uint v) (json_num srv [''txn'', ''amt''] (t_txn (j_t j)))) (tf_AlgosLT tf) \<and>
      given (\<lambda>v. option_holds (\<lambda>a. a > uint v) (effective_amount srv (t_txn (j_t j)))) (tf_EffectiveAmountGT tf) \<and>
      given (\<lambda>v. option_holds (\<lambda>a. a < uint v) (effective_amount srv (t_txn (j_t j)))) (tf_EffectiveAmountLT tf) \<and>
      (tf_RekeyTo tf = Some True \<longrightarrow> json_has srv [''txn'', ''rekey''] (t_txn (j_t j))) \<and>
      (tf_SkipInnerTransactions tf \<longrightarrow> t_txid (j_t j) \<noteq> None) \<and>
      (tf_RequireApplicationLogs tf \<longrightarrow> json_has srv [''dt'', ''lg''] (t_txn (j_t j)))"
  using assms by (auto simp: build_contents_def query_simps)

definition joined_matches ::
  "'j sql_server \<Rightarrow> 'j block_header_row list \<Rightarrow> TransactionFilter \<Rightarrow> 'j joined_row \<Rightarrow> bool" where
  "joined_matches srv hs tf j \<longleftrightarrow>
     joined_account srv tf j \<and> joined_range tf hs j \<and> has_contents srv tf (j_t j) \<and>
     given (\<lambda>r. t_round (j_t j) = r) (tf_Round tf) \<and> given (\<lambda>i. t_intra (j_t j) = i) (tf_Offset tf) \<and>
     given (\<lambda>i. t_intra (j_t j) < i) (tf_OffsetLT tf) \<and> given (\<lambda>i. t_intra (j_t j) > i) (tf_OffsetGT tf)"

definition id_conflict :: "TransactionFilter \<Rightarrow> bool" where
  "id_conflict tf \<longleftrightarrow> tf_AssetID tf \<noteq> None \<and> tf_ApplicationID tf \<noteq> None \<and> tf_AssetID tf \<noteq> tf_ApplicationID tf"

lemma creatable_id_given:
  "creatable_id tf = Inr cid \<Longrightarrow>
     given P cid \<longleftrightarrow> given P (tf_AssetID tf) \<and> given P (tf_ApplicationID tf)"
  by (auto simp: creatable_id_def given_def split: option.splits if_splits)

lemma creatable_id_result:
  "id_conflict tf \<Longrightarrow> creatable_id tf = Inl (ErrMsg ''cannot search both assetid and appid'')"
  "\<not> id_conflict tf \<Longrightarrow> \<exists>cid. creatable_id tf = Inr cid"
  by (auto simp: creatable_id_def id_conflict_def split: option.splits if_splits)

lemma buildTransactionQuery_holds:
  assumes "buildTransactionQuery tf = Inr (q, as)"
  shows "list_all (eval_part srv hs as j) (q_where q) \<longleftrightarrow> joined_matches srv hs tf j"
proof -
  obtain cid where cid: "creatable_id tf = Inr cid"
    using assms by (cases "creatable_id tf") (simp_all add: buildTransactionQuery_def res_bind_def)
  obtain ps as' n where b:
    "build_contents tf (build_position tf (add_opt AssetPart cid (build_rounds tf ([], [], 1)))) = (ps, as', n)"
    by (metis prod_cases3)
  with assms cid have b:
    "build_contents tf (build_position tf (add_opt AssetPart cid (build_rounds tf ([], [], 1)))) = (q_where q, as, n)"
    by (auto simp only: buildTransactionQuery_def res_bind_def sum.case prod.case Inr_inject prod.inject txn_query.simps)
  have "list_all (eval_part srv hs as j) (q_where q) \<longleftrightarrow>
      holds (row_eval srv hs j) (build_contents tf (build_position tf (add_opt AssetPart cid (build_rounds tf ([], [], 1)))))"
    by (simp only: b holds_def prod.case)
  also have "\<dots> \<longleftrightarrow> joined_matches srv hs tf j"
    unfolding joined_matches_def has_contents_def
    by (simp only: query_simps creatable_id_given [OF cid] eval_part.simps sql_arg.sel nth_Cons_0 diff_self_eq_0 conj_assoc)
      blast
  finally show ?thesis .
qed

lemma buildTransactionQuery_result:
  "id_conflict tf \<Longrightarrow> buildTransactionQuery tf = Inl (ErrMsg ''cannot search both assetid and appid'')"
  "\<not> id_conflict tf \<Longrightarrow> \<exists>q as. buildTransactionQuery tf = Inr (q, as) \<and>
     q_root q = (\<not> tf_SkipInnerTransactionConversion tf \<and> \<not> tf_SkipInnerTransactions tf) \<and>
     q_participation q = (tf_Address tf \<noteq> None) \<and> q_limit q = query_limit tf"
proof -
  show "id_conflict tf \<Longrightarrow> buildTransactionQuery tf = Inl (ErrMsg ''cannot search both assetid and appid'')"
    using creatable_id_result(1) [of tf] by (simp add: buildTransactionQuery_def res_bind_def)
  assume "\<not> id_conflict tf"
  then obtain cid where cid: "creatable_id tf = Inr cid" using creatable_id_result(2) by blast
  obtain ps as n where b:
    "build_contents tf (build_position tf (add_opt AssetPart cid (build_rounds tf ([], [], 1)))) = (ps, as, n)"
    by (metis prod_cases3)
  from cid show "\<exists>q as. buildTransactionQuery tf = Inr (q, as) \<and>
     q_root q = (\<not> tf_SkipInnerTransactionConversion tf \<and> \<not> tf_SkipInnerTransactions tf) \<and>
     q_participation q = (tf_Address tf \<noteq> None) \<and> q_limit q = query_limit tf"
    unfolding buildTransactionQuery_def by (simp only: cid res_bind_def sum.case b prod.case) simp
qed

section \<open>Times and rounds\<close>

lemma searchable_times:
  assumes "searchable hs db" "h \<in> set hs" "h' \<in> set hs"
  shows "bhr_realtime h < bhr_realtime h' \<longleftrightarrow> bhr_round h < bhr_round h'"
    and "bhr_realtime h \<le> bhr_realtime h' \<longleftrightarrow> bhr_round h \<le> bhr_round h'"
proof -
  have mono: "\<And>x y. x \<in> set hs \<Longrightarrow> y \<in> set hs \<Longrightarrow> bhr_round x < bhr_round y \<Longrightarrow> bhr_realtime x < bhr_realtime y"
    using assms(1) by (auto simp: searchable_def list_all_iff)
  have inj: "bhr_round h = bhr_round h' \<Longrightarrow> h = h'"
    using assms by (auto simp: searchable_def key_unique_def distinct_map dest: inj_onD)
  show "bhr_realtime h < bhr_realtime h' \<longleftrightarrow> bhr_round h < bhr_round h'"
    using mono [of h h'] mono [of h' h] inj assms(2,3) by (metis less_irrefl neqE order.asym)
  show "bhr_realtime h \<le> bhr_realtime h' \<longleftrightarrow> bhr_round h \<le> bhr_round h'"
    using mono [of h h'] mono [of h' h] inj assms(2,3) by (metis linorder_not_le order.refl neqE order.asym)
qed

lemma round_before_time:
  assumes "searchable hs db" "h \<in> set hs"
  shows "option_holds (\<lambda>r. bhr_round h \<le> r) (round_before time hs) \<longleftrightarrow> bhr_realtime h < time"
proof (cases "rev (sort_key bhr_realtime (filter (\<lambda>h. bhr_realtime h < time) hs))")
  case Nil
  then have "filter (\<lambda>h. bhr_realtime h < time) hs = []" by (metis length_0_conv length_rev length_sort)
  with Nil assms(2) show ?thesis by (auto simp: round_before_def option_holds_def filter_empty_conv)
next
  case (Cons h0 ys)
  have h0: "h0 \<in> set hs" "bhr_realtime h0 < time" using hd_rev_sort_key(1) [OF Cons] by auto
  have "bhr_realtime h < time \<Longrightarrow> bhr_realtime h \<le> bhr_realtime h0"
    using hd_rev_sort_key(2) [OF Cons, of h] assms(2) by simp
  with Cons h0 searchable_times(2) [OF assms h0(1)] show ?thesis
    by (auto simp: round_before_def option_holds_def)
qed

lemma round_after_time:
  assumes "searchable hs db" "h \<in> set hs"
  shows "option_holds (\<lambda>r. bhr_round h \<ge> r) (round_after time hs) \<longleftrightarrow> bhr_realtime h > time"
proof (cases "sort_key bhr_realtime (filter (\<lambda>h. bhr_realtime h > time) hs)")
  case Nil
  then have "filter (\<lambda>h. bhr_realtime h > time) hs = []" by (metis length_0_conv length_sort)
  with Nil assms(2) show ?thesis by (auto simp: round_after_def option_holds_def filter_empty_conv)
next
  case (Cons h0 ys)
  have h0: "h0 \<in> set hs" "bhr_realtime h0 > time" using hd_sort_key(1) [OF Cons] by auto
  have "bhr_realtime h > time \<Longrightarrow> bhr_realtime h0 \<le> bhr_realtime h"
    using hd_sort_key(2) [OF Cons, of h] assms(2) by simp
  with Cons h0 searchable_times(2) [OF assms(1) h0(1) assms(2)] show ?thesis
    by (auto simp: round_after_def option_holds_def)
qed


section \<open>Joins\<close>

lemma filter_at_most_one:
  assumes "distinct xs" and "\<And>x y. x \<in> set xs \<Longrightarrow> y \<in> set xs \<Longrightarrow> P x \<Longrightarrow> P y \<Longrightarrow> x = y"
  shows "filter P xs = (case find P xs of None \<Rightarrow> [] | Some x \<Rightarrow> [x])"
  using assms
proof (induction xs)
  case (Cons x xs)
  show ?case
  proof (cases "P x")
    case True
    then have "filter P xs = []" using Cons.prems by (auto simp: filter_empty_conv)
    with True show ?thesis by simp
  next
    case False
    with Cons show ?thesis by simp
  qed
qed simp

lemma filter_map_narrow:
  "(\<And>x. \<not> B x \<Longrightarrow> \<not> M (f x)) \<Longrightarrow>
     filter M (map f (filter A xs)) = filter M (map f (filter (\<lambda>x. A x \<and> B x) xs))"
  by (induction xs) auto

lemma concat_map_if: "concat (map (\<lambda>x. if P x then [f x] else []) xs) = map f (filter P xs)"
  by (induction xs) auto

lemma key_unique_distinct: "key_unique key xs \<Longrightarrow> distinct xs"
  by (simp add: key_unique_def distinct_map)

lemma key_unique_eq: "key_unique key xs \<Longrightarrow> x \<in> set xs \<Longrightarrow> y \<in> set xs \<Longrightarrow> key x = key y \<Longrightarrow> x = y"
  by (auto simp: key_unique_def distinct_map dest: inj_onD)

lemma root_txns_single:
  assumes "searchable hs db"
  shows "root_txns srv (tbl_txn db) t = [root_of srv db t]"
proof -
  let ?P = "\<lambda>r. t_round t = t_round r \<and> json_num srv [''root-intra''] (t_extra t) = Some (uint (t_intra r))"
  have u: "key_unique txn_key (tbl_txn db)" using assms by (simp add: searchable_def)
  have "filter ?P (tbl_txn db) = (case find ?P (tbl_txn db) of None \<Rightarrow> [] | Some x \<Rightarrow> [x])"
    by (rule filter_at_most_one [OF key_unique_distinct [OF u]])
      (rule key_unique_eq [OF u], auto simp: word_uint_eq_iff)
  then show ?thesis by (simp add: root_txns_def root_of_def split: option.split)
qed

lemma header_of_txn:
  assumes "searchable hs db" "t \<in> set (tbl_txn db)"
  obtains h where "h \<in> set hs" "bhr_round h = t_round t" "filter (\<lambda>h. t_round t = bhr_round h) hs = [h]"
    "block_time hs (t_round t) = bhr_realtime h"
proof -
  from assms obtain h where h: "h \<in> set hs" "bhr_round h = t_round t"
    by (auto simp: searchable_def list_all_iff list_ex_iff)
  have u: "key_unique bhr_round hs" using assms(1) by (simp add: searchable_def)
  have "filter (\<lambda>h. t_round t = bhr_round h) hs = (case find (\<lambda>h. t_round t = bhr_round h) hs of None \<Rightarrow> [] | Some x \<Rightarrow> [x])"
    by (rule filter_at_most_one [OF key_unique_distinct [OF u]]) (rule key_unique_eq [OF u], auto)
  moreover obtain h' where f: "find (\<lambda>h. t_round t = bhr_round h) hs = Some h'"
    using h by (cases "find (\<lambda>h. t_round t = bhr_round h) hs") (auto simp: find_None_iff)
  moreover from f have "h' \<in> set hs" "t_round t = bhr_round h'" by (auto simp: find_Some_iff)
  ultimately have 1: "filter (\<lambda>h. t_round t = bhr_round h) hs = [h]" using h key_unique_eq [OF u, of h h'] by simp
  have "lookup_row bhr_round (t_round t) hs = Some h"
    using 1 h by (metis lookup_row_unique u)
  with 1 h that show ?thesis by (simp add: block_time_def)
qed


text \<open>The one joined row of a transaction row.\<close>

definition joined_of ::
  "'j sql_server \<Rightarrow> 'j block_header_row list \<Rightarrow> 'j txn_tables \<Rightarrow> TransactionFilter \<Rightarrow> 'j txn_row \<Rightarrow> 'j joined_row" where
  "joined_of srv hs db tf t =
     \<lparr>j_t = t, j_h = the (lookup_row bhr_round (t_round t) hs),
      j_p = map_option (\<lambda>addr. \<lparr>tp_addr = addr, tp_round = t_round t, tp_intra = t_intra t\<rparr>) (tf_Address tf),
      j_root = (if tf_SkipInnerTransactionConversion tf \<or> tf_SkipInnerTransactions tf then None else root_of srv db t)\<rparr>"

text \<open>A joined row matches when its transaction is selected, given that the participation joined to it
  is that of the account.\<close>

lemma joined_matches_selected:
  assumes "searchable hs db" "h \<in> set hs" "bhr_round h = t_round t" "block_time hs (t_round t) = bhr_realtime h"
    and "j_t j = t" "j_p j = map_option (\<lambda>addr. \<lparr>tp_addr = addr, tp_round = t_round t, tp_intra = t_intra t\<rparr>) (tf_Address tf)"
  shows "joined_matches srv hs tf j \<longleftrightarrow>
    in_range tf hs t \<and> has_contents srv tf t \<and>
    given (\<lambda>addr. tf_AddressRole tf = 0 \<or> has_role srv (tf_AddressRole tf) addr (t_txn t)) (tf_Address tf)"
proof -
  have r: "row_round b j = bhr_round h" for b
    using assms(3,5,6) by (simp add: row_round_def split: option.split)
  have m: "tf_MinRound tf \<noteq> 0 \<longrightarrow> tf_MinRound tf \<le> t_round t \<longleftrightarrow> tf_MinRound tf \<le> t_round t" by auto
  have m': "(tf_MinRound tf \<noteq> 0 \<longrightarrow> tf_MinRound tf \<le> t_round t) \<longleftrightarrow> tf_MinRound tf \<le> t_round t" by auto
  have range: "joined_range tf hs j \<longleftrightarrow>
     tf_MinRound tf \<le> t_round t \<and> (tf_MaxRound tf = 0 \<or> t_round t \<le> tf_MaxRound tf) \<and>
     (time_IsZero (tf_BeforeTime tf) \<or> bhr_realtime h < tf_BeforeTime tf) \<and>
     (time_IsZero (tf_AfterTime tf) \<or> bhr_realtime h > tf_AfterTime tf)"
    unfolding joined_range_def r round_before_time [OF assms(1,2)] round_after_time [OF assms(1,2)] assms(5) m'
    by blast
  have account: "joined_account srv tf j \<and> tf_MinRound tf \<le> t_round t \<and> (tf_MaxRound tf = 0 \<or> t_round t \<le> tf_MaxRound tf) \<longleftrightarrow>
     given (\<lambda>addr. tf_AddressRole tf = 0 \<or> has_role srv (tf_AddressRole tf) addr (t_txn t)) (tf_Address tf) \<and>
     tf_MinRound tf \<le> t_round t \<and> (tf_MaxRound tf = 0 \<or> t_round t \<le> tf_MaxRound tf)"
    using assms(5,6) by (auto simp: joined_account_def given_def option_holds_def split: option.splits)
  show ?thesis
    unfolding joined_matches_def range in_range_def assms(4,5) using account by blast
qed

lemma participation_single:
  assumes "searchable hs db"
  shows "filter (\<lambda>p. (t_round t = tp_round p \<and> t_intra t = tp_intra p) \<and> tp_addr p = addr) (tbl_txn_participation db) =
    (if (addr, t_round t, t_intra t) \<in> tp_key ` set (tbl_txn_participation db)
     then [\<lparr>tp_addr = addr, tp_round = t_round t, tp_intra = t_intra t\<rparr>] else [])"
proof -
  let ?P = "\<lambda>p. (t_round t = tp_round p \<and> t_intra t = tp_intra p) \<and> tp_addr p = addr"
  have u: "key_unique tp_key (tbl_txn_participation db)" using assms by (simp add: searchable_def)
  have "filter ?P (tbl_txn_participation db) =
      (case find ?P (tbl_txn_participation db) of None \<Rightarrow> [] | Some x \<Rightarrow> [x])"
    by (rule filter_at_most_one [OF key_unique_distinct [OF u]]) (rule key_unique_eq [OF u], auto)
  note f = this
  show ?thesis
  proof (cases "find ?P (tbl_txn_participation db)")
    case None
    then have "\<not> (\<exists>p. p \<in> set (tbl_txn_participation db) \<and> ?P p)" by (simp only: find_None_iff not_False_eq_True)
    then have "(addr, t_round t, t_intra t) \<notin> tp_key ` set (tbl_txn_participation db)" by (simp add: image_iff) metis
    with f None show ?thesis by simp
  next
    case (Some p)
    from find_map_Some [OF Some] have p: "p \<in> set (tbl_txn_participation db)" "?P p" by simp_all
    then have "p = \<lparr>tp_addr = addr, tp_round = t_round t, tp_intra = t_intra t\<rparr>" by simp
    moreover have "(addr, t_round t, t_intra t) \<in> tp_key ` set (tbl_txn_participation db)"
      using p by (intro image_eqI [of _ _ p]) simp_all
    ultimately show ?thesis using f Some by simp
  qed
qed

text \<open>The joins and the \<open>WHERE\<close> clause leave one row for each selected transaction.\<close>

lemma joined_rows_of_txn:
  assumes s: "searchable hs db" and t: "t \<in> set (tbl_txn db)"
    and q: "q_root q = (\<not> tf_SkipInnerTransactionConversion tf \<and> \<not> tf_SkipInnerTransactions tf)"
      "q_participation q = (tf_Address tf \<noteq> None)"
  shows "filter (joined_matches srv hs tf)
      (concat (map (\<lambda>h. concat (map (\<lambda>p. map (\<lambda>root. \<lparr>j_t = t, j_h = h, j_p = p, j_root = root\<rparr>)
          (if q_root q then root_txns srv (tbl_txn db) t else [None]))
        (if q_participation q
         then map Some (filter (\<lambda>p. t_round t = tp_round p \<and> t_intra t = tp_intra p) (tbl_txn_participation db))
         else [None])))
        (filter (\<lambda>h. t_round t = bhr_round h) hs))) =
    (if selected srv hs db tf t then [joined_of srv hs db tf t] else [])"
proof -
  obtain h where h: "h \<in> set hs" "bhr_round h = t_round t" "filter (\<lambda>h. t_round t = bhr_round h) hs = [h]"
    "block_time hs (t_round t) = bhr_realtime h" by (rule header_of_txn [OF s t])
  have l: "lookup_row bhr_round (t_round t) hs = Some h"
    using lookup_row_unique [of bhr_round hs h] s h by (simp add: searchable_def)
  define root where
    "root = (if tf_SkipInnerTransactionConversion tf \<or> tf_SkipInnerTransactions tf then None else root_of srv db t)"
  have r: "(if q_root q then root_txns srv (tbl_txn db) t else [None]) = [root]"
    using q(1) root_txns_single [OF s] by (simp add: root_def)
  let ?row = "\<lambda>p. \<lparr>j_t = t, j_h = h, j_p = p, j_root = root\<rparr>"
  have m: "joined_matches srv hs tf (?row (map_option (\<lambda>addr. \<lparr>tp_addr = addr, tp_round = t_round t, tp_intra = t_intra t\<rparr>) (tf_Address tf))) \<longleftrightarrow>
    in_range tf hs t \<and> has_contents srv tf t \<and>
    given (\<lambda>addr. tf_AddressRole tf = 0 \<or> has_role srv (tf_AddressRole tf) addr (t_txn t)) (tf_Address tf)"
    by (rule joined_matches_selected [OF s h(1,2,4)]) simp_all
  show ?thesis
  proof (cases "tf_Address tf")
    case None
    with m show ?thesis
      by (simp add: h(3) r q(2) selected_def of_account_def joined_of_def root_def [symmetric] l given_def conj_commute)
  next
    case (Some addr)
    have no: "\<not> joined_matches srv hs tf (?row (Some p))" if "tp_addr p \<noteq> addr" for p
      using that Some by (simp add: joined_matches_def joined_account_def given_def option_holds_def)
    have "filter (joined_matches srv hs tf) (map ?row (map Some (filter (\<lambda>p. t_round t = tp_round p \<and> t_intra t = tp_intra p)
          (tbl_txn_participation db)))) =
      filter (joined_matches srv hs tf) (map (\<lambda>p. ?row (Some p))
        (filter (\<lambda>p. (t_round t = tp_round p \<and> t_intra t = tp_intra p) \<and> tp_addr p = addr) (tbl_txn_participation db)))"
      unfolding map_map comp_def by (rule filter_map_narrow) (rule no)
    also have "\<dots> = (if selected srv hs db tf t then [joined_of srv hs db tf t] else [])"
      unfolding participation_single [OF s] using m Some
      by (auto simp: selected_def of_account_def joined_of_def root_def [symmetric] l given_def)
    finally show ?thesis
      using Some by (simp add: h(3) r q(2) concat_map_singleton comp_def)
  qed
qed


lemma filtered_join:
  assumes s: "searchable hs db"
    and q: "q_root q = (\<not> tf_SkipInnerTransactionConversion tf \<and> \<not> tf_SkipInnerTransactions tf)"
      "q_participation q = (tf_Address tf \<noteq> None)"
  shows "filter (joined_matches srv hs tf) (join_rows srv hs db q) =
    map (joined_of srv hs db tf) (filter (selected srv hs db tf) (tbl_txn db))"
proof -
  have filter_concat_map: "filter P (concat (map g xs)) = concat (map (\<lambda>x. filter P (g x)) xs)" for P g and xs :: "'x list"
    by (induction xs) auto
  show ?thesis
    unfolding join_rows_def filter_concat_map concat_map_if [of "selected srv hs db tf", symmetric]
    using joined_rows_of_txn [OF s _ q, of _ srv, unfolded filter_concat_map]
    by (intro arg_cong [of _ _ concat] map_cong [OF refl])
qed

lemma joined_of_position [simp]: "j_position (joined_of srv hs db tf t) = txn_key t"
  by (simp add: j_position_def joined_of_def split: option.split)

lemma joined_of_addr: "tf_Address tf = Some addr \<Longrightarrow> j_addr (joined_of srv hs db tf t) = addr"
  by (simp add: j_addr_def joined_of_def)

lemma order_joined:
  assumes "q_participation q = (tf_Address tf \<noteq> None)"
  shows "order_rows q (map (joined_of srv hs db tf) ts) = map (joined_of srv hs db tf) (search_order tf ts)"
proof (cases "tf_Address tf")
  case None
  with assms show ?thesis by (simp add: order_rows_def search_order_def map_sort_key)
next
  case (Some addr)
  have "sorted (map j_addr (map (joined_of srv hs db tf) (rev (sort_key txn_key ts))))"
    by (simp add: comp_def joined_of_addr [OF Some] map_replicate_const sorted_replicate)
  then have "sort_key j_addr (map (joined_of srv hs db tf) (rev (sort_key txn_key ts))) =
      map (joined_of srv hs db tf) (rev (sort_key txn_key ts))" by (rule sort_key_id_if_sorted)
  moreover have "rev (sort_key j_position (map (joined_of srv hs db tf) ts)) =
      map (joined_of srv hs db tf) (rev (sort_key txn_key ts))" by (simp add: map_sort_key rev_map)
  ultimately show ?thesis using assms Some by (simp add: order_rows_def search_order_def)
qed

lemma answer_of_joined:
  assumes "searchable hs db" "t \<in> set (tbl_txn db)"
  shows "answer_of (joined_of srv hs db tf t) = txn_answer srv hs db tf t"
proof -
  obtain h where h: "h \<in> set hs" "bhr_round h = t_round t" "block_time hs (t_round t) = bhr_realtime h"
    by (rule header_of_txn [OF assms])
  have "lookup_row bhr_round (t_round t) hs = Some h"
    using lookup_row_unique [of bhr_round hs h] assms(1) h by (simp add: searchable_def)
  with h show ?thesis by (simp add: answer_of_def joined_of_def txn_answer_def)
qed

lemma set_search: "set (search srv hs db tf) = {t \<in> set (tbl_txn db). selected srv hs db tf t}"
  by (auto simp: search_def search_order_def)

lemma exec_buildTransactionQuery:
  assumes "searchable hs db" "\<not> id_conflict tf"
  obtains q where "buildTransactionQuery tf = Inr q"
    "exec_query srv hs db q = map (txn_answer srv hs db tf) (limit_rows (query_limit tf) (search srv hs db tf))"
proof -
  from buildTransactionQuery_result(2) [OF assms(2)] obtain q as where q: "buildTransactionQuery tf = Inr (q, as)"
    "q_root q = (\<not> tf_SkipInnerTransactionConversion tf \<and> \<not> tf_SkipInnerTransactions tf)"
    "q_participation q = (tf_Address tf \<noteq> None)" "q_limit q = query_limit tf" by blast
  have "exec_query srv hs db (q, as) =
      map answer_of (limit_rows (query_limit tf) (order_rows q (filter (joined_matches srv hs tf) (join_rows srv hs db q))))"
    unfolding exec_query_def prod.case buildTransactionQuery_holds [OF q(1)] q(4) by simp
  also have "\<dots> = map answer_of (limit_rows (query_limit tf) (map (joined_of srv hs db tf) (search srv hs db tf)))"
    by (simp only: filtered_join [OF assms(1) q(2,3)] order_joined [OF q(3)] search_def)
  also have "\<dots> = map (txn_answer srv hs db tf) (limit_rows (query_limit tf) (search srv hs db tf))"
    using set_limit_rows [of "query_limit tf" "search srv hs db tf"]
    by (auto simp: limit_rows_map set_search intro!: answer_of_joined [OF assms(1)])
  finally show ?thesis using that q(1) by blast
qed

text \<open>C3: the query that is built for a filter, run with its arguments, answers with exactly the rows that
  satisfy the filter: each transaction row once, in ascending order of position, or in descending order
  for an account, cut off at the limit, with its root transaction when that is asked for. The times of
  the filter are those of the blocks. A query is refused exactly when an asset and a different
  application are asked for.\<close>

theorem buildTransactionQuery_correct:
  assumes "searchable hs db"
  shows "case buildTransactionQuery tf of
      Inl e \<Rightarrow> id_conflict tf \<and> e = ErrMsg ''cannot search both assetid and appid''
    | Inr q \<Rightarrow> \<not> id_conflict tf \<and>
        exec_query srv hs db q =
          map (txn_answer srv hs db tf)
            (limit_rows (query_limit tf)
              (search_order tf (filter (selected srv hs db tf) (tbl_txn db))))"
proof (cases "id_conflict tf")
  case True
  with buildTransactionQuery_result(1) show ?thesis by simp
next
  case False
  obtain q where "buildTransactionQuery tf = Inr q"
    "exec_query srv hs db q = map (txn_answer srv hs db tf) (limit_rows (query_limit tf) (search srv hs db tf))"
    by (rule exec_buildTransactionQuery [OF assms False])
  with False show ?thesis by (simp add: search_def)
qed


section \<open>Reading the answers\<close>

text \<open>A server without errors, and tables whose documents decode.\<close>

definition quiet_query_env :: query_env where
  "quiet_query_env = \<lparr>begin_err = None, query_err = (\<lambda>_. None), rows_err = (\<lambda>_. None), ctx_done = False\<rparr>"

definition readable :: "'j codec \<Rightarrow> 'j txn_tables \<Rightarrow> bool" where
  "readable c db \<longleftrightarrow>
     list_all (\<lambda>t. \<not> isl (DecodeSignedTxnWithAD c (t_txn t)) \<and> \<not> isl (DecodeTxnExtra c (t_extra t))) (tbl_txn db)"

lemma root_of_readable:
  assumes "readable c db" "root_of srv db t = Some txn"
  shows "\<exists>x. DecodeSignedTxnWithAD c txn = Inr x"
  using assms by (auto simp: root_of_def readable_def list_all_iff isl_def dest!: find_map_Some) (metis obj_sumE)

lemma decode_row_readable:
  assumes "readable c db" "t \<in> set (tbl_txn db)"
  shows "tr_Error (fst (decode_row c (txn_answer srv hs db tf t))) = None"
    and "snd (decode_row c (txn_answer srv hs db tf t)) = None"
proof -
  obtain x where x: "DecodeSignedTxnWithAD c (t_txn t) = Inr x"
    using assms by (auto simp: readable_def list_all_iff isl_def) (metis obj_sumE)
  obtain y where y: "DecodeTxnExtra c (t_extra t) = Inr y"
    using assms by (auto simp: readable_def list_all_iff isl_def) (metis obj_sumE)
  show "tr_Error (fst (decode_row c (txn_answer srv hs db tf t))) = None"
    and "snd (decode_row c (txn_answer srv hs db tf t)) = None"
    using x y root_of_readable [OF assms(1), of srv t]
    by (auto simp: decode_row_def txn_answer_def Let_def zero_TxnRow_def split: option.split)
qed

lemma yieldTxnsThreadSimple_readable:
  assumes "readable c db" "set ts \<subseteq> set (tbl_txn db)"
  shows "yieldTxnsThreadSimple c (map (txn_answer srv hs db tf) ts) None n =
    (map (\<lambda>t. fst (decode_row c (txn_answer srv hs db tf t))) ts, n + length ts, None)"
  using assms(2)
proof (induction ts arbitrary: n)
  case (Cons t ts)
  then have "tr_Error (fst (decode_row c (txn_answer srv hs db tf t))) = None"
    using decode_row_readable(1) [OF assms(1)] by simp
  with Cons show ?case by (auto split: prod.split)
qed simp

definition row_of_txn ::
  "'j sql_server \<Rightarrow> 'j codec \<Rightarrow> 'j block_header_row list \<Rightarrow> 'j txn_tables \<Rightarrow> TransactionFilter \<Rightarrow> 'j txn_row \<Rightarrow> TxnRow" where
  "row_of_txn srv c hs db tf t = fst (decode_row c (txn_answer srv hs db tf t))"

lemma query_rows_readable:
  assumes "searchable hs db" "readable c db" "\<not> id_conflict tf"
  shows "query_rows srv quiet_query_env c i hs db tf =
    (map (row_of_txn srv c hs db tf) (limit_rows (query_limit tf) (search srv hs db tf)),
     Some (length (limit_rows (query_limit tf) (search srv hs db tf)), None))"
proof -
  obtain q where q: "buildTransactionQuery tf = Inr q"
    "exec_query srv hs db q = map (txn_answer srv hs db tf) (limit_rows (query_limit tf) (search srv hs db tf))"
    by (rule exec_buildTransactionQuery [OF assms(1,3)])
  have "set (limit_rows (query_limit tf) (search srv hs db tf)) \<subseteq> set (tbl_txn db)"
    using set_limit_rows [of "query_limit tf" "search srv hs db tf"] by (auto simp: set_search)
  from yieldTxnsThreadSimple_readable [OF assms(2) this] q show ?thesis
    by (simp add: query_rows_def run_query_def quiet_query_env_def row_of_txn_def)
qed

section \<open>Pages\<close>

text \<open>The token is a position the search can have stopped at: within the rounds and offsets asked for.\<close>

definition token_fits :: "TransactionFilter \<Rightarrow> uint64 \<Rightarrow> uint64 \<Rightarrow> bool" where
  "token_fits tf r i \<longleftrightarrow>
     given (\<lambda>x. x = r) (tf_Round tf) \<and>
     (if tf_Address tf = None
      then tf_MinRound tf \<le> r \<and> r < - 1 \<and> given (\<lambda>x. x \<le> i) (tf_OffsetGT tf)
      else (tf_MaxRound tf = 0 \<or> r \<le> tf_MaxRound tf) \<and> given (\<lambda>x. i \<le> x) (tf_OffsetLT tf))"

definition after_token :: "TransactionFilter \<Rightarrow> uint64 \<Rightarrow> uint64 \<Rightarrow> 'j txn_row \<Rightarrow> bool" where
  "after_token tf r i t \<longleftrightarrow> (if tf_Address tf = None then (r, i) < txn_key t else txn_key t < (r, i))"

definition rest_of_round :: "TransactionFilter \<Rightarrow> uint64 \<Rightarrow> uint64 \<Rightarrow> 'j txn_row \<Rightarrow> bool" where
  "rest_of_round tf r i t \<longleftrightarrow> t_round t = r \<and> (if tf_Address tf = None then i < t_intra t else t_intra t < i)"

definition later_rounds :: "TransactionFilter \<Rightarrow> uint64 \<Rightarrow> 'j txn_row \<Rightarrow> bool" where
  "later_rounds tf r t \<longleftrightarrow> (if tf_Address tf = None then r < t_round t else t_round t < r)"

lemma after_token_split: "after_token tf r i t \<longleftrightarrow> rest_of_round tf r i t \<or> later_rounds tf r t"
  by (auto simp: after_token_def rest_of_round_def later_rounds_def less_prod_def)

lemma search_filter:
  assumes "tf_Address tf' = tf_Address tf"
    and "\<And>t. t \<in> set (tbl_txn db) \<Longrightarrow> selected srv hs db tf' t \<longleftrightarrow> selected srv hs db tf t \<and> A t"
  shows "search srv hs db tf' = filter A (search srv hs db tf)"
proof -
  have "filter (selected srv hs db tf') (tbl_txn db) = filter A (filter (selected srv hs db tf) (tbl_txn db))"
    using assms(2) by (auto intro: filter_cong)
  with assms(1) show ?thesis by (simp add: search_def search_order_def filter_sort rev_filter [symmetric])
qed

lemma filter_unchanged [simp]:
  "has_contents srv (tf\<lparr>tf_Round := x\<rparr>) = has_contents srv tf"
  "has_contents srv (tf\<lparr>tf_OffsetLT := x\<rparr>) = has_contents srv tf"
  "has_contents srv (tf\<lparr>tf_OffsetGT := x\<rparr>) = has_contents srv tf"
  "has_contents srv (tf\<lparr>tf_Limit := y\<rparr>) = has_contents srv tf"
  "has_contents srv (tf\<lparr>tf_MinRound := y\<rparr>) = has_contents srv tf"
  "has_contents srv (tf\<lparr>tf_MaxRound := y\<rparr>) = has_contents srv tf"
  "of_account srv ps (tf\<lparr>tf_Round := x\<rparr>) = of_account srv ps tf"
  "of_account srv ps (tf\<lparr>tf_OffsetLT := x\<rparr>) = of_account srv ps tf"
  "of_account srv ps (tf\<lparr>tf_OffsetGT := x\<rparr>) = of_account srv ps tf"
  "of_account srv ps (tf\<lparr>tf_Limit := y\<rparr>) = of_account srv ps tf"
  "of_account srv ps (tf\<lparr>tf_MinRound := y\<rparr>) = of_account srv ps tf"
  "of_account srv ps (tf\<lparr>tf_MaxRound := y\<rparr>) = of_account srv ps tf"
  by (simp_all add: fun_eq_iff has_contents_def of_account_def)

lemma selected_first_filter:
  assumes "token_fits tf r i"
  shows "selected srv hs db (first_filter tf r i) t \<longleftrightarrow> selected srv hs db tf t \<and> rest_of_round tf r i t"
proof -
  have "in_range (first_filter tf r i) hs t \<longleftrightarrow> in_range tf hs t \<and> rest_of_round tf r i t"
    using assms
    by (cases "tf_Address tf"; cases "tf_Round tf"; cases "tf_OffsetLT tf"; cases "tf_OffsetGT tf")
      (auto simp: in_range_def first_filter_def token_fits_def rest_of_round_def)
  then show ?thesis by (auto simp: selected_def first_filter_def)
qed

lemma second_filter_Some:
  assumes "second_filter tf r cnt = Some tf'"
  shows "tf' = (if tf_Address tf = None then tf\<lparr>tf_Limit := tf_Limit tf - of_nat cnt, tf_MinRound := r + 1\<rparr>
      else tf\<lparr>tf_Limit := tf_Limit tf - of_nat cnt, tf_MaxRound := r - 1\<rparr>)"
    and "\<not> of_nat cnt \<ge> tf_Limit tf" and "tf_Address tf \<noteq> None \<Longrightarrow> 1 < r"
  using assms by (auto simp: second_filter_def Let_def split: if_splits)

lemma word_next_le: "(r :: uint64) < - 1 \<Longrightarrow> r + 1 \<le> x \<longleftrightarrow> r < x"
  by uint_arith

lemma word_prev_le: "0 < (r :: uint64) \<Longrightarrow> x \<le> r - 1 \<longleftrightarrow> x < r"
  by uint_arith


lemma selected_second_filter:
  assumes "token_fits tf r i" "second_filter tf r cnt = Some tf'"
  shows "selected srv hs db tf' t \<longleftrightarrow> selected srv hs db tf t \<and> later_rounds tf r t"
proof (cases "tf_Address tf")
  case None
  have tf': "tf' = tf\<lparr>tf_Limit := tf_Limit tf - of_nat cnt, tf_MinRound := r + 1\<rparr>"
    using second_filter_Some(1) [OF assms(2)] None by simp
  have "r < - 1" "tf_MinRound tf \<le> r" using assms(1) None by (simp_all add: token_fits_def)
  with None show ?thesis
    by (auto simp: tf' selected_def in_range_def later_rounds_def word_next_le)
next
  case (Some addr)
  have tf': "tf' = tf\<lparr>tf_Limit := tf_Limit tf - of_nat cnt, tf_MaxRound := r - 1\<rparr>" and r: "1 < r"
    using second_filter_Some(1,3) [OF assms(2)] Some by simp_all
  have r0: "0 < r" "r - 1 \<noteq> 0" using r by (auto simp: word_less_nat_alt)
  from assms(1) Some have "tf_MaxRound tf = 0 \<or> r \<le> tf_MaxRound tf" by (simp add: token_fits_def)
  with Some r0 show ?thesis
    by (auto simp: tf' selected_def in_range_def later_rounds_def word_prev_le)
qed

lemma search_sorted:
  "sorted_wrt (\<lambda>t t'. if tf_Address tf = None then txn_key t \<le> txn_key t' else txn_key t' \<le> txn_key t) (search srv hs db tf)"
proof (cases "tf_Address tf")
  case None
  then show ?thesis
    using sorted_sort_key [of txn_key "filter (selected srv hs db tf) (tbl_txn db)"]
    by (simp add: search_def search_order_def sorted_wrt_map)
next
  case (Some addr)
  then show ?thesis
    using sorted_sort_key [of txn_key "filter (selected srv hs db tf) (tbl_txn db)"]
    by (simp add: search_def search_order_def sorted_wrt_map sorted_wrt_rev)
qed

lemma search_after_token:
  "filter (rest_of_round tf r i) (search srv hs db tf) @ filter (later_rounds tf r) (search srv hs db tf) =
   filter (after_token tf r i) (search srv hs db tf)"
  unfolding after_token_split
  by (rule filter_append_sorted [OF search_sorted])
    (auto simp: rest_of_round_def later_rounds_def less_eq_prod_def split: if_splits)


lemma limit_room:
  assumes "n \<le> unat (l :: uint64)"
  shows "of_nat n \<ge> l \<longleftrightarrow> n = unat l" and "unat (l - of_nat n) = unat l - n"
proof -
  have n: "unat (of_nat n :: uint64) = n"
    using assms unat_less_2_64 [of l] by (intro unat_of_nat64) simp
  with assms show "of_nat n \<ge> l \<longleftrightarrow> n = unat l" by (auto simp: word_le_nat_alt)
  have "(of_nat n :: uint64) \<le> l" using n assms by (simp add: word_le_nat_alt)
  then show "unat (l - of_nat n) = unat l - n" using n by (simp add: unat_sub)
qed

lemma row_of_txn_filters [simp]:
  "row_of_txn srv c hs db (first_filter tf r i) = row_of_txn srv c hs db tf"
  by (simp add: fun_eq_iff row_of_txn_def txn_answer_def first_filter_def)

lemma row_of_txn_second:
  assumes "second_filter tf r cnt = Some tf'"
  shows "row_of_txn srv c hs db tf' = row_of_txn srv c hs db tf"
  by (simp add: second_filter_Some(1) [OF assms] fun_eq_iff row_of_txn_def txn_answer_def)

lemma search_first:
  assumes "token_fits tf r i"
  shows "search srv hs db (first_filter tf r i) = filter (rest_of_round tf r i) (search srv hs db tf)"
  by (rule search_filter) (simp_all add: selected_first_filter [OF assms], simp add: first_filter_def)

lemma search_second:
  assumes "token_fits tf r i" "second_filter tf r cnt = Some tf'"
  shows "search srv hs db tf' = filter (later_rounds tf r) (search srv hs db tf)"
  by (rule search_filter) (simp_all add: selected_second_filter [OF assms], simp add: second_filter_Some(1) [OF assms(2)])

text \<open>Without a second query there is nothing to find: the page is full, or the rounds are over.\<close>

lemma no_second_query:
  assumes "second_filter tf r cnt = None" "cnt \<le> unat (tf_Limit tf)" "list_all (\<lambda>t. t_round t \<noteq> 0) (tbl_txn db)"
  shows "cnt = unat (tf_Limit tf) \<or> filter (later_rounds tf r) (search srv hs db tf) = []"
proof (cases "of_nat cnt \<ge> tf_Limit tf")
  case True
  with limit_room(1) [OF assms(2)] show ?thesis by simp
next
  case False
  with assms(1) have "tf_Address tf \<noteq> None" "r \<le> 1" by (auto simp: second_filter_def Let_def split: if_splits)
  then have "later_rounds tf r t \<Longrightarrow> t_round t = 0" for t :: "'a txn_row"
    by (simp add: later_rounds_def word_le_nat_alt word_less_nat_alt unat_eq_zero [symmetric])
  with assms(3) show ?thesis by (auto simp: filter_empty_conv set_search list_all_iff)
qed

lemma txnsWithNext_page:
  assumes "searchable hs db" "readable c db" "\<not> id_conflict tf"
    and "tf_Limit tf \<noteq> 0" "tf_GroupID tf = []"
    and "DecodeTxnRowNext (tf_NextToken tf) = Inr (r, i)" "token_fits tf r (ucast i)"
    and "list_all (\<lambda>t. t_round t \<noteq> 0) (tbl_txn db)"
  shows "txnsWithNext srv quiet_query_env c hs db tf =
    map (row_of_txn srv c hs db tf)
      (take (unat (tf_Limit tf)) (filter (after_token tf r (ucast i)) (search srv hs db tf)))"
proof -
  let ?i = "ucast i :: uint64" and ?L = "unat (tf_Limit tf)"
  let ?rest = "filter (rest_of_round tf r ?i) (search srv hs db tf)"
  let ?later = "filter (later_rounds tf r) (search srv hs db tf)"
  have page: "take ?L (filter (after_token tf r ?i) (search srv hs db tf)) = take ?L ?rest @ take (?L - length ?rest) ?later"
    unfolding search_after_token [symmetric] by simp
  show ?thesis
  proof (cases "tf_Address tf \<noteq> None \<and> r = 0 \<and> ?i = 0")
    case True
    then have "\<not> after_token tf r ?i t" for t :: "'a txn_row"
      by (auto simp: after_token_def less_prod_def)
    with True assms(6) show ?thesis by (simp add: txnsWithNext_def Let_def)
  next
    case False
    have conflict: "\<not> id_conflict (first_filter tf r ?i)" using assms(3) by (simp add: id_conflict_def first_filter_def)
    have limit: "query_limit (first_filter tf r ?i) = Some (tf_Limit tf)"
      using assms(4,5) by (simp add: query_limit_def first_filter_def)
    have first: "query_rows srv quiet_query_env c 0 hs db (first_filter tf r ?i) =
        (map (row_of_txn srv c hs db tf) (take ?L ?rest), Some (length (take ?L ?rest), None))"
      using query_rows_readable [OF assms(1,2) conflict, of srv 0]
      by (simp add: limit limit_rows_def search_first [OF assms(7)])
    have le: "length (take ?L ?rest) \<le> ?L" by simp
    show ?thesis
    proof (cases "second_filter tf r (length (take ?L ?rest))")
      case None
      from no_second_query [OF None le assms(8), of srv hs] have "take (?L - length ?rest) ?later = []" by auto
      with None False first page assms(6) show ?thesis by (auto simp: txnsWithNext_def Let_def)
    next
      case (Some tf')
      note tf' = second_filter_Some [OF Some]
      have room: "length (take ?L ?rest) \<noteq> ?L" using tf'(2) limit_room(1) [OF le] by auto
      have conflict': "\<not> id_conflict tf'" using assms(3) by (simp add: tf'(1) id_conflict_def)
      have "unat (tf_Limit tf') = ?L - length ?rest" "tf_Limit tf' \<noteq> 0"
        using limit_room(2) [OF le] room by (auto simp: tf'(1) unat_eq_zero [symmetric] min_def split: if_splits)
      then have "limit_rows (query_limit tf') ?later = take (?L - length ?rest) ?later"
        using assms(5) by (simp add: query_limit_def limit_rows_def tf'(1))
      with query_rows_readable [OF assms(1,2) conflict', of srv 1]
      have "fst (query_rows srv quiet_query_env c 1 hs db tf') =
          map (row_of_txn srv c hs db tf) (take (?L - length ?rest) ?later)"
        by (simp add: search_second [OF assms(7) Some] row_of_txn_second [OF Some])
      with Some False first page assms(6) show ?thesis
        by (auto simp: txnsWithNext_def Let_def quiet_query_env_def)
    qed
  qed
qed


lemma optimized_unchanged:
  "tf_Address (txnFilterOptimization tf) = tf_Address tf" "tf_GroupID (txnFilterOptimization tf) = tf_GroupID tf"
  "tf_Limit (txnFilterOptimization tf) = tf_Limit tf" "tf_NextToken (txnFilterOptimization tf) = tf_NextToken tf"
  "id_conflict (txnFilterOptimization tf) = id_conflict tf"
  "token_fits (txnFilterOptimization tf) r i = token_fits tf r i"
  "after_token (txnFilterOptimization tf) r i = after_token tf r i"
  by (auto simp: txnFilterOptimization_def Let_def id_conflict_def token_fits_def after_token_def fun_eq_iff)

text \<open>A search for transactions returns exactly one page, and the last round accounted for: of all rows
  that satisfy the filter, in the order of the search, the first ones up to the limit, or, with a
  page token, those after the token's position. The page after a token comes from two queries, one for
  the rest of the token's round and one for the rounds beyond. The token's position lies in the range
  of the filter, and there are no transactions in round 0.\<close>

theorem Transactions_page:
  assumes "searchable (tbl_block_header main) db" "readable c db" "getMaxRoundAccounted c main = Inr rnd"
    and "\<not> id_conflict tf" "tf_Limit tf \<noteq> 0" "tf_GroupID tf = []"
    and "list_all (\<lambda>t. t_round t \<noteq> 0) (tbl_txn db)"
    and "tf_NextToken tf \<noteq> [] \<longrightarrow>
      DecodeTxnRowNext (tf_NextToken tf) = Inr (r, i) \<and> token_fits tf r (ucast i)"
  shows "Transactions srv quiet_query_env c main db tf =
    (let tf' = txnFilterOptimization tf;
         hs = tbl_block_header main;
         rows = search_order tf (filter (selected srv hs db tf') (tbl_txn db))
     in (map (row_of_txn srv c hs db tf')
           (take (unat (tf_Limit tf))
             (if tf_NextToken tf = [] then rows else filter (after_token tf r (ucast i)) rows)), rnd))"
proof -
  let ?tf = "txnFilterOptimization tf" and ?hs = "tbl_block_header main"
  have order: "search_order tf = search_order ?tf"
    by (simp add: fun_eq_iff search_order_def optimized_unchanged)
  have run: "Transactions srv quiet_query_env c main db tf = (yieldTxns srv quiet_query_env c ?hs db ?tf, rnd)"
    using assms(3) by (simp add: Transactions_def quiet_query_env_def)
  show ?thesis
  proof (cases "tf_NextToken tf = []")
    case True
    have "query_limit ?tf = Some (tf_Limit tf)"
      using assms(5,6) by (simp add: query_limit_def optimized_unchanged)
    with True query_rows_readable [OF assms(1,2), of ?tf srv 0] assms(4) run show ?thesis
      by (simp add: yieldTxns_def optimized_unchanged order limit_rows_def search_def Let_def)
  next
    case False
    with txnsWithNext_page [OF assms(1,2), of ?tf r i srv] assms(4-8) run show ?thesis
      by (simp add: yieldTxns_def optimized_unchanged order search_def Let_def)
  qed
qed

section \<open>Blocks\<close>

definition block_txn_row :: "'j codec \<Rightarrow> 'j block_header_row list \<Rightarrow> 'j txn_row \<Rightarrow> TxnRow" where
  "block_txn_row c hs t =
     \<lparr>tr_Round = t_round t, tr_RoundTime = block_time hs (t_round t), tr_Intra = t_intra t,
      tr_Txn = Some (projr (DecodeSignedTxnWithAD c (t_txn t))), tr_RootTxn = None, tr_AssetID = t_asset t,
      tr_Extra = projr (DecodeTxnExtra c (t_extra t)), tr_Error = None\<rparr>"

definition block_roots :: "'j txn_tables \<Rightarrow> uint64 \<Rightarrow> 'j txn_row list" where
  "block_roots db rnd = sort_key t_intra (filter (\<lambda>t. t_round t = rnd \<and> t_txid t \<noteq> None) (tbl_txn db))"

lemma row_of_root:
  assumes "readable c db" "t \<in> set (tbl_txn db)" "tf_SkipInnerTransactions tf"
  shows "row_of_txn srv c hs db tf t = block_txn_row c hs t"
proof -
  obtain x where "DecodeSignedTxnWithAD c (t_txn t) = Inr x"
    using assms by (auto simp: readable_def list_all_iff isl_def) (metis obj_sumE)
  moreover obtain y where "DecodeTxnExtra c (t_extra t) = Inr y"
    using assms by (auto simp: readable_def list_all_iff isl_def) (metis obj_sumE)
  ultimately show ?thesis
    using assms(3)
    by (simp add: row_of_txn_def block_txn_row_def decode_row_def txn_answer_def Let_def zero_TxnRow_def)
qed

abbreviation block_filter :: "uint64 \<Rightarrow> uint64 \<Rightarrow> TransactionFilter" where
  "block_filter rnd limit \<equiv>
     zero_TransactionFilter\<lparr>tf_Round := Some rnd, tf_Limit := limit, tf_SkipInnerTransactions := True\<rparr>"

lemma search_block: "search srv hs db (block_filter rnd limit) = block_roots db rnd"
proof -
  have "selected srv hs db (block_filter rnd limit) t \<longleftrightarrow> t_round t = rnd \<and> t_txid t \<noteq> None" for t
    by (auto simp: selected_def in_range_def of_account_def has_contents_def zero_TransactionFilter_def time_IsZero_def)
  then have "selected srv hs db (block_filter rnd limit) = (\<lambda>t. t_round t = rnd \<and> t_txid t \<noteq> None)"
    by (simp only: fun_eq_iff simp_thms)
  moreover have "tf_Address (block_filter rnd limit) = None" by (simp add: zero_TransactionFilter_def)
  ultimately show ?thesis
    unfolding search_def search_order_def block_roots_def by (auto intro!: sort_key_cong_on)
qed

text \<open>A block is returned with its header and exactly its root transactions, in the order of the block;
  a block with more transactions than the limit is refused, and a missing block is reported as such.\<close>

theorem GetBlock_correct:
  assumes "searchable (tbl_block_header main) db" "readable c db" "MaxTransactionsLimit options < - 1"
    and "\<forall>h. lookup_row bhr_round rnd (tbl_block_header main) = Some h \<longrightarrow>
      DecodeBlockHeader c (bhr_header h) = Inr hdr"
  shows "GetBlock srv quiet_query_env c main db rnd options =
    (if lookup_row bhr_round rnd (tbl_block_header main) = None then Inl ErrorBlockNotFound
     else if \<not> gbo_Transactions options then Inr (hdr, [])
     else if length (block_roots db rnd) > unat (MaxTransactionsLimit options) then Inl MaxTransactionsError
     else Inr (hdr, map (block_txn_row c (tbl_block_header main)) (block_roots db rnd)))"
proof (cases "lookup_row bhr_round rnd (tbl_block_header main)")
  case None
  then show ?thesis by (simp add: GetBlock_def quiet_query_env_def)
next
  case (Some h)
  let ?hs = "tbl_block_header main" and ?max = "MaxTransactionsLimit options"
  let ?tf = "block_filter rnd (?max + 1)"
  have "?max + 1 \<noteq> 0" using assms(3) by uint_arith
  then have m1: "unat (?max + 1) = unat ?max + 1" "?max + 1 \<noteq> 0"
    using unatSuc [of ?max] by (simp_all add: add.commute)
  have conflict: "\<not> id_conflict ?tf" by (simp add: id_conflict_def zero_TransactionFilter_def)
  let ?rows = "take (unat ?max + 1) (block_roots db rnd)"
  have "query_limit ?tf = Some (?max + 1)" using m1(2) by (simp add: query_limit_def zero_TransactionFilter_def)
  then have "limit_rows (query_limit ?tf) (search srv ?hs db ?tf) = ?rows"
    by (simp add: search_block limit_rows_def m1)
  moreover have "set ?rows \<subseteq> set (tbl_txn db)"
    using set_take_subset [of "unat ?max + 1" "block_roots db rnd"] by (auto simp: block_roots_def)
  moreover from this have "map (row_of_txn srv c ?hs db ?tf) ?rows = map (block_txn_row c ?hs) ?rows"
    using row_of_root [OF assms(2), of _ ?tf srv ?hs] by auto
  ultimately obtain q where q: "buildTransactionQuery ?tf = Inr q"
    "yieldTxnsThreadSimple c (exec_query srv ?hs db q) None 0 = (map (block_txn_row c ?hs) ?rows, length ?rows, None)"
    using exec_buildTransactionQuery [OF assms(1) conflict, of srv]
      yieldTxnsThreadSimple_readable [OF assms(2), of ?rows srv ?hs ?tf 0]
    by (metis (no_types, lifting) add_0 map_eq_conv row_of_txn_def)
  have "of_nat (length ?rows) > ?max \<longleftrightarrow> length (block_roots db rnd) > unat ?max"
  proof -
    have "length ?rows < 2 ^ 64" using m1(1) unat_less_2_64 [of "?max + 1"] by simp
    then show ?thesis by (auto simp: word_less_nat_alt unat_of_nat64)
  qed
  with Some q assms(4) show ?thesis
    by (simp add: GetBlock_def quiet_query_env_def run_query_def Let_def)
qed


section \<open>Root transactions only\<close>

text \<open>The rows as the import writes them: a root transaction has an id and no root; an inner transaction
  has no id and names a root transaction of its round.\<close>

definition rooted :: "'j sql_server \<Rightarrow> 'j txn_tables \<Rightarrow> bool" where
  "rooted srv db \<longleftrightarrow>
     list_all (\<lambda>t. if t_txid t \<noteq> None then json_num srv [''root-intra''] (t_extra t) = None
       else list_ex (\<lambda>r. t_txid r \<noteq> None \<and> t_round r = t_round t \<and>
              json_num srv [''root-intra''] (t_extra t) = Some (uint (t_intra r))) (tbl_txn db)) (tbl_txn db)"

text \<open>The transaction that is reported for a row: an inner transaction is converted to its root.\<close>

definition reported :: "'j sql_server \<Rightarrow> 'j txn_tables \<Rightarrow> 'j txn_row \<Rightarrow> uint64 \<times> 'j" where
  "reported srv db t = (t_round t, case root_of srv db t of Some r \<Rightarrow> r | None \<Rightarrow> t_txn t)"

lemma root_of_rooted:
  assumes "searchable hs db" "rooted srv db" "t \<in> set (tbl_txn db)"
  shows "\<exists>r \<in> set (tbl_txn db). t_txid r \<noteq> None \<and> t_round r = t_round t \<and> reported srv db t = (t_round r, t_txn r) \<and>
    (t_txid t \<noteq> None \<longrightarrow> r = t)"
proof (cases "t_txid t")
  case (Some id)
  with assms(2,3) have "root_of srv db t = None"
    by (auto simp: rooted_def list_all_iff root_of_def find_None_iff)
  with Some assms(3) show ?thesis by (auto simp: reported_def)
next
  case None
  let ?P = "\<lambda>r. t_round t = t_round r \<and> json_num srv [''root-intra''] (t_extra t) = Some (uint (t_intra r))"
  have "list_ex (\<lambda>r. t_txid r \<noteq> None \<and> t_round r = t_round t \<and>
      json_num srv [''root-intra''] (t_extra t) = Some (uint (t_intra r))) (tbl_txn db)"
    using None bspec [OF assms(2) [unfolded rooted_def list_all_iff] assms(3)] by simp
  then obtain r where r: "r \<in> set (tbl_txn db)" "t_txid r \<noteq> None" "t_round r = t_round t"
    "json_num srv [''root-intra''] (t_extra t) = Some (uint (t_intra r))"
    by (auto simp only: list_ex_iff)
  then have "find ?P (tbl_txn db) \<noteq> None" unfolding find_None_iff not_not by (intro exI [of _ r]) simp
  then obtain r' where r': "find ?P (tbl_txn db) = Some r'" by blast
  from find_map_Some [OF r'] r assms(1) have "r' = r"
    by (auto simp: searchable_def word_uint_eq_iff intro: key_unique_eq [of txn_key "tbl_txn db"])
  with r r' None show ?thesis by (auto simp: reported_def root_of_def)
qed

text \<open>The optimization only skips inner transactions, and only when the filter selects whole rounds.\<close>

lemma optimized_selects:
  assumes "tf_Offset tf = None" "tf_OffsetLT tf = None" "tf_OffsetGT tf = None" "txnFilterOptimization tf \<noteq> tf"
  shows "selected srv hs db (txnFilterOptimization tf) t \<longleftrightarrow> selected srv hs db tf t \<and> t_txid t \<noteq> None"
    and "t_round t = t_round t' \<Longrightarrow> selected srv hs db tf t \<longleftrightarrow> selected srv hs db tf t'"
proof -
  define defaults where "defaults = zero_TransactionFilter
            \<lparr>tf_Round := tf_Round tf, tf_MinRound := tf_MinRound tf, tf_MaxRound := tf_MaxRound tf,
             tf_BeforeTime := tf_BeforeTime tf, tf_AfterTime := tf_AfterTime tf, tf_Limit := tf_Limit tf,
             tf_NextToken := tf_NextToken tf, tf_Offset := tf_Offset tf, tf_OffsetLT := tf_OffsetLT tf,
             tf_OffsetGT := tf_OffsetGT tf\<rparr>"
  have opt: "txnFilterOptimization tf = tf\<lparr>tf_SkipInnerTransactions := True\<rparr>" and tf: "tf = defaults"
    using assms(4) unfolding txnFilterOptimization_def Let_def defaults_def [symmetric] by argo+
  have plain': "has_contents srv defaults t" "of_account srv (tbl_txn_participation db) defaults t"
    "has_contents srv (defaults\<lparr>tf_SkipInnerTransactions := True\<rparr>) t \<longleftrightarrow> t_txid t \<noteq> None"
    "of_account srv (tbl_txn_participation db) (defaults\<lparr>tf_SkipInnerTransactions := True\<rparr>) t" for t
    unfolding defaults_def by (simp_all add: has_contents_def of_account_def zero_TransactionFilter_def)
  note plain = plain' [folded tf, folded opt]
  show "selected srv hs db (txnFilterOptimization tf) t \<longleftrightarrow> selected srv hs db tf t \<and> t_txid t \<noteq> None"
    using plain by (auto simp: selected_def opt in_range_def)
  show "selected srv hs db tf t \<longleftrightarrow> selected srv hs db tf t'" if "t_round t = t_round t'"
    using that assms(1-3) plain by (simp add: selected_def in_range_def)
qed

text \<open>C17: searching only for root transactions is a sound optimisation: when a filter restricts nothing but
  rounds and times, the search over the root transactions reports exactly the transactions that the
  search over all rows reports with inner transactions converted to their roots.\<close>

theorem txnFilterOptimization_sound:
  assumes "searchable hs db" "rooted srv db"
    and "tf_Offset tf = None" "tf_OffsetLT tf = None" "tf_OffsetGT tf = None"
    and "txnFilterOptimization tf \<noteq> tf"
  shows "reported srv db ` set (search srv hs db tf) = reported srv db ` set (search srv hs db (txnFilterOptimization tf))"
proof -
  have sel: "selected srv hs db (txnFilterOptimization tf) t \<longleftrightarrow> selected srv hs db tf t \<and> t_txid t \<noteq> None" for t
    by (rule optimized_selects(1) [OF assms(3-6)])
  have same_round: "selected srv hs db tf t \<longleftrightarrow> selected srv hs db tf t'" if "t_round t = t_round t'" for t t'
    by (rule optimized_selects(2) [OF assms(3-6) that])
  show ?thesis
  proof (intro equalityI subsetI)
    fix x assume "x \<in> reported srv db ` set (search srv hs db tf)"
    then obtain t where t: "t \<in> set (tbl_txn db)" "selected srv hs db tf t" "x = reported srv db t"
      by (auto simp: set_search)
    obtain r where r: "r \<in> set (tbl_txn db)" "t_txid r \<noteq> None" "t_round r = t_round t" "x = (t_round r, t_txn r)"
      using root_of_rooted [OF assms(1,2) t(1)] t(3) by auto
    have "reported srv db r = x" using root_of_rooted [OF assms(1,2) r(1)] r by auto
    moreover have "r \<in> set (search srv hs db (txnFilterOptimization tf))"
      using r t(2) same_round [OF r(3)] sel by (auto simp: set_search)
    ultimately show "x \<in> reported srv db ` set (search srv hs db (txnFilterOptimization tf))" by blast
  qed (auto simp: set_search sel)
qed


section \<open>An error that is lost\<close>

text \<open>A row whose transaction does not decode ends the reading with an error row, but when its extra
  column decodes, no error is stored: the variable is overwritten. \<open>txnsWithNext\<close> then runs its second
  query and sends more rows after the error.\<close>

lemma yieldTxnsThreadSimple_loses_error:
  assumes "DecodeSignedTxnWithAD c (an_txn a) = Inl e" "an_root a = None" "DecodeTxnExtra c (an_extra a) = Inr x"
  shows "\<exists>row. yieldTxnsThreadSimple c (a # as) rowsErr n = ([row], n, None) \<and>
    tr_Error row = Some (Wrap ''error decoding txn'' e)"
  using assms by (simp add: decode_row_def Let_def zero_TxnRow_def)

section \<open>Examples\<close>

text \<open>Two blocks: the first has a transaction with an inner transaction, the second has one transaction.\<close>

definition example_server :: "document sql_server" where
  "example_server =
     \<lparr>json_text = (\<lambda>_ _. None),
      json_num = (\<lambda>path doc. case doc of
        JTxnExtra x \<Rightarrow> if path = [''root-intra''] \<and> Present (RootIntra x) then Some (uint (Value (RootIntra x))) else None
      | _ \<Rightarrow> None),
      json_has = (\<lambda>_ _. False), pg_decode64 = (\<lambda>s. s)\<rparr>"

definition example_txn_row :: "uint64 \<Rightarrow> uint64 \<Rightarrow> string option \<Rightarrow> OptionalUint \<Rightarrow> document txn_row" where
  "example_txn_row r i txid root =
     \<lparr>t_round = r, t_intra = i, t_typeenum = TypeEnumPay, t_asset = 0, t_txid = txid,
      t_txn = EncodeSignedTxnWithAD example_codec zero_SignedTxnWithAD,
      t_extra = EncodeTxnExtra example_codec (zero_TxnExtra\<lparr>RootIntra := root\<rparr>)\<rparr>"

definition example_txn_tables :: "document txn_tables" where
  "example_txn_tables =
     \<lparr>tbl_txn =
        [example_txn_row 1 0 (Some ''A'') zero_OptionalUint,
         example_txn_row 1 1 None \<lparr>Present = True, Value = 0\<rparr>,
         example_txn_row 2 0 (Some ''B'') zero_OptionalUint],
      tbl_txn_participation =
        [\<lparr>tp_addr = zero_Address, tp_round = 1, tp_intra = 0\<rparr>,
         \<lparr>tp_addr = zero_Address, tp_round = 2, tp_intra = 0\<rparr>]\<rparr>"

definition example_header_rows :: "document block_header_row list" where
  "example_header_rows =
     map (\<lambda>(r, time). \<lparr>bhr_round = r, bhr_realtime = time, bhr_rewardslevel = 0,
            bhr_header = EncodeBlockHeader example_codec zero_BlockHeader\<rparr>) [(0, 0), (1, 10), (2, 20)]"

definition example_search_tables :: "document main_tables" where
  "example_search_tables =
     setImportState example_codec \<lparr>NextRoundToAccount = 3\<rparr> (empty_tables\<lparr>tbl_block_header := example_header_rows\<rparr>)"

lemmas example_search_defs =
  example_txn_tables_def example_txn_row_def example_header_rows_def zero_OptionalUint_def zero_TxnExtra_def

lemma example_searchable: "searchable example_header_rows example_txn_tables"
  by (simp add: searchable_def key_unique_def example_search_defs)

lemma example_readable: "readable example_codec example_txn_tables"
  by (simp add: readable_def example_search_defs EncodeSignedTxnWithAD_def DecodeSignedTxnWithAD_def
      EncodeTxnExtra_def DecodeTxnExtra_def example_codec_def isl_def)

lemma example_rooted: "rooted example_server example_txn_tables"
  by (simp add: rooted_def example_search_defs example_server_def EncodeTxnExtra_def example_codec_def)

lemma example_search_headers: "tbl_block_header example_search_tables = example_header_rows"
  by (simp add: example_search_tables_def setImportState_def SetMetastate_def upsert_metastate_def)

lemma example_search_round: "getMaxRoundAccounted example_codec example_search_tables = Inr 2"
  by (simp add: getMaxRoundAccounted_def getNextRoundToAccount_def example_search_tables_def
      getImportState_set [OF example_metastate] result_simps)

text \<open>The transactions of an account, from a page token on.\<close>

definition example_filter :: "uint64 \<Rightarrow> string \<Rightarrow> TransactionFilter" where
  "example_filter l token =
     zero_TransactionFilter\<lparr>tf_Address := Some zero_Address, tf_Limit := l, tf_NextToken := token\<rparr>"

lemma example_filter_simps [simp]:
  "tf_Address (example_filter l token) = Some zero_Address" "tf_Limit (example_filter l token) = l"
  "tf_NextToken (example_filter l token) = token" "tf_GroupID (example_filter l token) = []"
  "tf_MaxRound (example_filter l token) = 0" "tf_OffsetLT (example_filter l token) = None"
  "tf_Round (example_filter l token) = None"
  "\<not> id_conflict (example_filter l token)" "l \<noteq> 0 \<Longrightarrow> query_limit (example_filter l token) = Some l"
  by (simp_all add: example_filter_def zero_TransactionFilter_def id_conflict_def query_limit_def)

lemma example_filter_opt [simp]: "txnFilterOptimization (example_filter l token) = example_filter l token"
proof -
  have "example_filter l token \<noteq> f" if "tf_Address f = None" for f
    using that example_filter_simps(1) [of l token] by auto
  then show ?thesis by (simp add: txnFilterOptimization_def Let_def zero_TransactionFilter_def)
qed

lemma example_search:
  "search_order (example_filter l token)
     (filter (selected srv hs example_txn_tables (example_filter l token)) (tbl_txn example_txn_tables)) =
   [example_txn_row 2 0 (Some ''B'') zero_OptionalUint, example_txn_row 1 0 (Some ''A'') zero_OptionalUint]"
proof -
  have "selected srv hs example_txn_tables (example_filter l token) t \<longleftrightarrow>
      (zero_Address, t_round t, t_intra t) \<in> tp_key ` set (tbl_txn_participation example_txn_tables)" for t
    by (simp add: selected_def in_range_def of_account_def has_contents_def example_filter_def
        zero_TransactionFilter_def time_IsZero_def)
  then show ?thesis by (simp add: search_order_def example_search_defs)
qed

theorem buildTransactionQuery_correct_witness:
  "searchable example_header_rows example_txn_tables \<and>
   (case buildTransactionQuery (example_filter 1 []) of
      Inl _ \<Rightarrow> False
    | Inr q \<Rightarrow> map (\<lambda>a. (an_round a, an_intra a, an_realtime a))
        (exec_query example_server example_header_rows example_txn_tables q) = [(2, 0, 20)])"
proof -
  have time: "block_time example_header_rows 2 = 20" by (simp add: block_time_def example_header_rows_def)
  show ?thesis
    using buildTransactionQuery_correct [OF example_searchable, of "example_filter 1 []" example_server] example_searchable
    unfolding example_search
    by (auto simp: limit_rows_def txn_answer_def time example_txn_row_def split: sum.splits)
qed

text \<open>The second page of the account's transactions.\<close>

definition example_token :: string where
  "example_token = b64_encode url_alphabet (PutUint64 2 @ PutUint32 0)"

lemma example_token:
  "DecodeTxnRowNext example_token = Inr (2, 0)" "example_token \<noteq> []"
proof -
  show t: "DecodeTxnRowNext example_token = Inr (2, 0)" by (simp add: example_token_def DecodeTxnRowNext_def)
  have "DecodeTxnRowNext [] \<noteq> Inr (2, 0)"
    by (simp add: DecodeTxnRowNext_def b64_decode_def res_bind_def res_wrap_def split: sum.split)
  with t show "example_token \<noteq> []" by metis
qed

theorem Transactions_page_witness:
  "(case Transactions example_server quiet_query_env example_codec example_search_tables example_txn_tables
      (example_filter 5 example_token) of
    (rows, rnd) \<Rightarrow> map (\<lambda>r. (tr_Round r, tr_Intra r)) rows = [(1, 0)] \<and> rnd = 2)"
proof -
  have row: "tr_Round (row_of_txn srv example_codec hs example_txn_tables tf t) = t_round t \<and>
      tr_Intra (row_of_txn srv example_codec hs example_txn_tables tf t) = t_intra t" for srv hs tf t
    by (simp add: row_of_txn_def decode_row_def txn_answer_def Let_def split: option.split sum.split)
  have "list_all (\<lambda>t. t_round t \<noteq> 0) (tbl_txn example_txn_tables)" by (simp add: example_search_defs)
  then show ?thesis
    using Transactions_page [of example_search_tables example_txn_tables example_codec 2 "example_filter 5 example_token"
        2 0 example_server] example_token
    unfolding example_search_headers Let_def
    by (simp add: example_searchable example_readable example_search_round token_fits_def example_search
        after_token_def example_txn_row_def row)
qed

theorem GetBlock_correct_witness:
  "(case GetBlock example_server quiet_query_env example_codec example_search_tables example_txn_tables 1
      \<lparr>gbo_Transactions = True, MaxTransactionsLimit = 1\<rparr> of
    Inl _ \<Rightarrow> False
  | Inr (hdr, rows) \<Rightarrow> hdr = zero_BlockHeader \<and> map (\<lambda>r. (tr_Round r, tr_Intra r)) rows = [(1, 0)])"
proof -
  have hdr: "DecodeBlockHeader example_codec (EncodeBlockHeader example_codec zero_BlockHeader) = Inr zero_BlockHeader"
    by (simp add: DecodeBlockHeader_def EncodeBlockHeader_def example_codec_def convertBlockHeader_def
        unconvertBlockHeader_def erase_blockHeader_def zero_BlockHeader_def convertExpiredAccounts_def
        unconvertExpiredAccounts_def)
  have l: "\<exists>h. lookup_row bhr_round 1 example_header_rows = Some h \<and>
      bhr_header h = EncodeBlockHeader example_codec zero_BlockHeader"
    by (simp add: example_header_rows_def)
  have roots: "block_roots example_txn_tables 1 = [example_txn_row 1 0 (Some ''A'') zero_OptionalUint]"
    by (simp add: block_roots_def example_search_defs)
  have m: "(1 :: uint64) < - 1" by code_simp
  show ?thesis
    using m GetBlock_correct [of example_search_tables example_txn_tables example_codec
        "\<lparr>gbo_Transactions = True, MaxTransactionsLimit = 1\<rparr>" 1 zero_BlockHeader example_server] hdr l
    unfolding example_search_headers roots
    by (auto simp: example_searchable example_readable block_txn_row_def example_txn_row_def)
qed

theorem txnFilterOptimization_sound_witness:
  "rooted example_server example_txn_tables \<and>
   reported example_server example_txn_tables `
     set (search example_server example_header_rows example_txn_tables zero_TransactionFilter) =
   reported example_server example_txn_tables `
     set (search example_server example_header_rows example_txn_tables
       (zero_TransactionFilter\<lparr>tf_SkipInnerTransactions := True\<rparr>))"
proof -
  have "txnFilterOptimization zero_TransactionFilter = zero_TransactionFilter\<lparr>tf_SkipInnerTransactions := True\<rparr>"
    by (simp add: txnFilterOptimization_def Let_def zero_TransactionFilter_def)
  moreover have "zero_TransactionFilter\<lparr>tf_SkipInnerTransactions := True\<rparr> \<noteq> zero_TransactionFilter"
    by (simp add: zero_TransactionFilter_def)
  ultimately show ?thesis
    using txnFilterOptimization_sound [OF example_searchable example_rooted, of zero_TransactionFilter] example_rooted
    by (simp add: zero_TransactionFilter_def)
qed

end
