(* ===== verification/SearchLaws.thy ===== *)
theory SearchLaws
  imports SearchParams TxnQueryLaws
begin

unbundle bit_operations_syntax

text \<open>
  Requests and filters: which parameters of a search are accepted, what the filters of accepted
  requests guarantee to the queries, and that a search for block headers returns the page it is asked
  for.
\<close>

section \<open>Accepted parameters\<close>

text \<open>Each helper appends its error to those it is given.\<close>

named_theorems decode_simps

lemma decodeDigest_step [decode_simps]:
  "decodeDigest str field errs =
     (if given base32_valid str then strOrDefault str else [],
      errs @ (if given base32_valid str then [] else [errUnableToParseDigest @ '' '' @ field]))"
  by (simp add: decodeDigest_def strOrDefault_def split: option.split)

definition role_mask :: "string option \<Rightarrow> bool option \<Rightarrow> AddressRole" where
  "role_mask role exclude = fst (decodeAddressRole role exclude [])"

definition known_role :: "string \<Rightarrow> bool" where
  "known_role r \<longleftrightarrow> ToLower r = addrRoleSender \<or> ToLower r = addrRoleReceiver \<or> ToLower r = addrRoleFreeze"

lemma decodeAddressRole_step [decode_simps]:
  "decodeAddressRole role exclude errs =
     (role_mask role exclude, errs @ (if given known_role role then [] else [errUnknownAddressRole]))"
  by (auto simp: role_mask_def decodeAddressRole_def known_role_def addressRoleEnumMap_def Let_def given_def
      split: option.split)

definition base64_ok :: "string \<Rightarrow> bool" where
  "base64_ok s \<longleftrightarrow> \<not> isl (b64_decode std_alphabet s)"

definition base64_value :: "string option \<Rightarrow> bytes" where
  "base64_value str = fst (decodeBase64Byte str [] [])"

lemma decodeBase64Byte_step [decode_simps]:
  "decodeBase64Byte str field errs =
     (base64_value str, errs @ (if given base64_ok str then [] else [errUnableToParseBase64 @ '': '' @ field]))"
  by (auto simp: decodeBase64Byte_def base64_value_def base64_ok_def isl_def split: option.split sum.split)

lemma decodeSigType_step [decode_simps]:
  "decodeSigType str errs =
     (if given IsSigTypeValid str then strOrDefault str else [],
      errs @ (if given IsSigTypeValid str then [] else [errUnknownSigType @ '': '' @ ToLower (strOrDefault str)]))"
  by (simp add: decodeSigType_def strOrDefault_def split: option.split)

definition type_value :: "string option \<Rightarrow> TxnTypeEnum" where
  "type_value str = fst (decodeType str [])"

definition known_type :: "string \<Rightarrow> bool" where
  "known_type s \<longleftrightarrow> GetTypeEnum (ToLower s) \<noteq> None"

lemma decodeType_step [decode_simps]:
  "decodeType str errs =
     (type_value str, errs @ (if given known_type str then [] else [errUnknownTxType @ '': '' @ ToLower (strOrDefault str)]))"
  by (auto simp: decodeType_def type_value_def known_type_def strOrDefault_def split: option.split)

definition group_ok :: "string \<Rightarrow> bool" where
  "group_ok s \<longleftrightarrow> (case b64_decode std_alphabet s of Inl _ \<Rightarrow> False | Inr data \<Rightarrow> length data = 32)"

definition group_value :: "string option \<Rightarrow> bytes" where
  "group_value str = fst (decodeGroupID str [] [])"

lemma decodeGroupID_step:
  "\<exists>e. decodeGroupID str field errs = (group_value str, errs @ e) \<and> (e = [] \<longleftrightarrow> given group_ok str)"
  by (auto simp: decodeGroupID_def group_value_def group_ok_def split: option.split sum.split)

definition address_ok :: "sdk \<Rightarrow> string \<Rightarrow> bool" where
  "address_ok env s \<longleftrightarrow> \<not> isl (DecodeAddress env s)"

text \<open>The parameters a request is refused for, and the filter of an accepted one.\<close>

definition well_formed :: "sdk \<Rightarrow> SearchForTransactionsParams \<Rightarrow> bool" where
  "well_formed env params \<longleftrightarrow>
     given known_role (stp_AddressRole params) \<and> given (address_ok env) (stp_Address params) \<and>
     given base32_valid (stp_Txid params) \<and> given base64_ok (stp_NotePrefix params) \<and>
     given group_ok (stp_GroupId params) \<and> given IsSigTypeValid (stp_SigType params) \<and>
     given known_type (stp_TxType params)"

definition params_filter :: "sdk \<Rightarrow> ExtraOptions \<Rightarrow> SearchForTransactionsParams \<Rightarrow> TransactionFilter" where
  "params_filter env opts params =
     (let assets = stp_AssetId params \<noteq> None \<or> type_value (stp_TxType params) = TypeEnumAssetTransfer in
      zero_TransactionFilter
        \<lparr>tf_MaxRound := uintOrDefault (stp_MaxRound params), tf_MinRound := uintOrDefault (stp_MinRound params),
         tf_AssetID := stp_AssetId params, tf_ApplicationID := stp_ApplicationId params,
         tf_Limit := min_u64 (uintOrDefaultValue (stp_Limit params) (DefaultTransactionsLimit opts)) (eo_MaxTransactionsLimit opts),
         tf_Round := stp_Round params,
         tf_AddressRole := role_mask (stp_AddressRole params) (stp_ExcludeCloseTo params),
         tf_NextToken := strOrDefault (stp_Next params),
         tf_Address := map_option (\<lambda>s. projr (DecodeAddress env s)) (stp_Address params),
         tf_Txid := strOrDefault (stp_Txid params), tf_NotePrefix := base64_value (stp_NotePrefix params),
         tf_GroupID := group_value (stp_GroupId params),
         tf_AfterTime := timeOrZero (stp_AfterTime params), tf_BeforeTime := timeOrZero (stp_BeforeTime params),
         tf_SigType := strOrDefault (stp_SigType params), tf_TypeEnum := type_value (stp_TxType params),
         tf_RekeyTo := stp_RekeyTo params,
         tf_AssetAmountLT := (if assets then stp_CurrencyLessThan params else None),
         tf_AssetAmountGT := (if assets then stp_CurrencyGreaterThan params else None),
         tf_AlgosLT := (if assets then None else stp_CurrencyLessThan params),
         tf_AlgosGT := (if assets then None else stp_CurrencyGreaterThan params)\<rparr>)"

lemma address_step:
  "\<exists>a e. (case stp_Address params of
       None \<Rightarrow> (None, errs)
     | Some s \<Rightarrow>
         (case DecodeAddress env s of
            Inl _ \<Rightarrow> (Some zero_Address, errs @ [errUnableToParseAddress])
          | Inr addr \<Rightarrow> (Some addr, errs))) = (a, errs @ e) \<and>
     (e = [] \<longleftrightarrow> given (address_ok env) (stp_Address params)) \<and>
     (e = [] \<longrightarrow> a = map_option (\<lambda>s. projr (DecodeAddress env s)) (stp_Address params))"
  by (auto simp: address_ok_def isl_def split: option.split sum.split)

lemma transactionParams_step:
  "if well_formed env params then transactionParamsToTransactionFilter env opts params = Inr (params_filter env opts params)
   else isl (transactionParamsToTransactionFilter env opts params)"
proof -
  let ?e0 = "if given known_role (stp_AddressRole params) then [] else [errUnknownAddressRole]"
  obtain a ea where a: "(case stp_Address params of
       None \<Rightarrow> (None, ?e0)
     | Some s \<Rightarrow>
         (case DecodeAddress env s of
            Inl _ \<Rightarrow> (Some zero_Address, ?e0 @ [errUnableToParseAddress])
          | Inr addr \<Rightarrow> (Some addr, ?e0))) = (a, ?e0 @ ea)"
    "ea = [] \<longleftrightarrow> given (address_ok env) (stp_Address params)"
    "ea = [] \<longrightarrow> a = map_option (\<lambda>s. projr (DecodeAddress env s)) (stp_Address params)"
    using address_step [where params = params and errs = ?e0 and env = env] by blast
  let ?e1 = "(?e0 @ ea) @ (if given base32_valid (stp_Txid params) then [] else [errUnableToParseDigest @ '' '' @ ''txid''])"
  let ?e2 = "?e1 @ (if given base64_ok (stp_NotePrefix params) then [] else [errUnableToParseBase64 @ '': '' @ ''note-prefix''])"
  obtain eg where g: "decodeGroupID (stp_GroupId params) ''group-id'' ?e2 = (group_value (stp_GroupId params), ?e2 @ eg)"
    "eg = [] \<longleftrightarrow> given group_ok (stp_GroupId params)"
    using decodeGroupID_step [of "stp_GroupId params" "''group-id''" ?e2] by blast
  show ?thesis
    unfolding transactionParamsToTransactionFilter_def decode_simps Let_def prod.case append_Nil a(1) g(1)
    using a(2,3) g(2)
    by (auto simp: well_formed_def params_filter_def zero_TransactionFilter_def)
qed


text \<open>Numbers that fit into the signed columns of the database.\<close>

abbreviation fits :: "uint64 option \<Rightarrow> bool" where
  "fits \<equiv> given (\<lambda>v. v \<le> MaxInt64)"

definition database_safe :: "TransactionFilter \<Rightarrow> bool" where
  "database_safe f \<longleftrightarrow>
     tf_MinRound f \<le> MaxInt64 \<and> tf_MaxRound f \<le> MaxInt64 \<and> fits (tf_Round f) \<and> fits (tf_AssetID f) \<and>
     fits (tf_ApplicationID f) \<and> fits (tf_Offset f) \<and> fits (tf_OffsetLT f) \<and> fits (tf_OffsetGT f) \<and>
     fits (tf_AlgosLT f) \<and> fits (tf_AlgosGT f) \<and> fits (tf_EffectiveAmountLT f) \<and> fits (tf_EffectiveAmountGT f)"

definition rounds_consistent :: "TransactionFilter \<Rightarrow> bool" where
  "rounds_consistent f \<longleftrightarrow>
     (if tf_Round f \<noteq> None then tf_MinRound f = 0 \<and> tf_MaxRound f = 0
      else tf_MaxRound f = 0 \<or> tf_MinRound f \<le> tf_MaxRound f)"

text \<open>The roles that every transaction without such an address has for the zero address.\<close>

definition zero_address_roles :: AddressRole where
  "zero_address_roles = AddressRoleCloseRemainderTo OR AddressRoleAssetSender OR AddressRoleAssetCloseTo"

definition address_consistent :: "TransactionFilter \<Rightarrow> bool" where
  "address_consistent f \<longleftrightarrow>
     IsZero (copy_array 32 (case tf_Address f of None \<Rightarrow> [] | Some a \<Rightarrow> a)) \<longrightarrow> tf_AddressRole f AND zero_address_roles = 0"

lemma exceeds_iff: "exceeds x \<longleftrightarrow> \<not> fits x"
  by (simp add: exceeds_def given_def not_le split: option.split)

lemma and_or_zero: "(x :: uint64) AND (a OR b OR c) = 0 \<longleftrightarrow> x AND a = 0 \<and> x AND b = 0 \<and> x AND c = 0"
  by (simp add: bit.conj_disj_distrib or_eq_0_iff)

lemma zero_address_errors_iff: "zero_address_errors f = [] \<longleftrightarrow> address_consistent f"
  by (simp add: zero_address_errors_def address_consistent_def zero_address_roles_def and_or_zero Let_def)

lemma validateTransactionFilter_iff:
  "validateTransactionFilter f = Inr () \<longleftrightarrow> database_safe f \<and> rounds_consistent f \<and> address_consistent f"
proof -
  have "tf_MinRound f \<le> tf_MaxRound f \<longleftrightarrow> \<not> tf_MinRound f > tf_MaxRound f" by auto
  then show ?thesis
    by (auto simp: validateTransactionFilter_def Let_def zero_address_errors_iff exceeds_iff database_safe_def
        rounds_consistent_def not_less split: if_splits)
qed


text \<open>A role always names one of the keys the query looks at.\<close>

lemma role_mask_known:
  "role_mask role exclude = 0 \<or> list_ex (\<lambda>(r, k). role_mask role exclude AND r \<noteq> 0) role_keys"
  by (auto simp: role_mask_def decodeAddressRole_def Let_def role_keys_def AddressRoleSender_def
      AddressRoleAssetSender_def AddressRoleReceiver_def AddressRoleAssetReceiver_def
      AddressRoleCloseRemainderTo_def AddressRoleAssetCloseTo_def AddressRoleFreeze_def split: option.split)

lemma type_value_le: "type_value str \<le> 8"
proof -
  have "GetTypeEnum s = Some v \<Longrightarrow> v \<le> 8" for s v
    by (auto simp: GetTypeEnum_def typeEnumMap_def TypeEnumPay_def TypeEnumKeyreg_def TypeEnumAssetConfig_def
        TypeEnumAssetTransfer_def TypeEnumAssetFreeze_def TypeEnumApplication_def TypeEnumStateProof_def
        TypeEnumHeartbeat_def split: if_splits)
  then show ?thesis by (auto simp: type_value_def decodeType_def split: option.split)
qed

lemma group_value_length: "group_value str = [] \<or> length (group_value str) = 32"
  by (auto simp: group_value_def decodeGroupID_def split: option.split sum.split)

lemma SearchForTransactions_filter_step:
  "SearchForTransactions_filter env opts params = Inr f \<longleftrightarrow>
     well_formed env params \<and> f = params_filter env opts params \<and>
     database_safe f \<and> rounds_consistent f \<and> address_consistent f"
proof (cases "well_formed env params")
  case True
  then have c: "transactionParamsToTransactionFilter env opts params = Inr (params_filter env opts params)"
    using transactionParams_step [of env params opts] by simp
  have v: "validateTransactionFilter (params_filter env opts params) = Inr () \<longleftrightarrow>
      \<not> isl (validateTransactionFilter (params_filter env opts params))"
    by (cases "validateTransactionFilter (params_filter env opts params)") simp_all
  have ids: "database_safe (params_filter env opts params) \<Longrightarrow>
      fits (stp_AssetId params) \<and> fits (stp_ApplicationId params) \<and> fits (stp_Round params)"
    by (simp add: database_safe_def params_filter_def Let_def)
  show ?thesis
    using True c ids v validateTransactionFilter_iff [of "params_filter env opts params"]
    by (cases "validateTransactionFilter (params_filter env opts params)")
      (auto simp: SearchForTransactions_filter_def exceeds_iff bad_request_def)
next
  case False
  then show ?thesis
    using transactionParams_step [of env params opts]
    by (auto simp: SearchForTransactions_filter_def bad_request_def isl_def)
qed

text \<open>C18: the filter of an accepted search is safe to run: every number fits into the signed columns of the
  database, the limit is at most the configured maximum, a round excludes a range of rounds and a
  range is not empty, a role names at least one key of the transaction, the zero address is not
  searched in roles where it means absence, and kinds and groups are well formed.\<close>

theorem SearchForTransactions_filter_safe:
  assumes "SearchForTransactions_filter env opts params = Inr f"
  shows "database_safe f \<and> tf_Limit f \<le> eo_MaxTransactionsLimit opts \<and> rounds_consistent f \<and> address_consistent f \<and>
    (tf_AddressRole f = 0 \<or> list_ex (\<lambda>(r, k). tf_AddressRole f AND r \<noteq> 0) role_keys) \<and>
    (tf_SigType f = [] \<or> IsSigTypeValid (tf_SigType f)) \<and> tf_TypeEnum f \<le> 8 \<and>
    (tf_GroupID f = [] \<or> length (tf_GroupID f) = 32) \<and>
    (tf_AssetAmountLT f = None \<or> tf_AlgosLT f = None) \<and> (tf_AssetAmountGT f = None \<or> tf_AlgosGT f = None)"
proof -
  have wf: "well_formed env params" and f: "f = params_filter env opts params"
    and v: "database_safe f" "rounds_consistent f" "address_consistent f"
    using assms unfolding SearchForTransactions_filter_step by blast+
  have "tf_SigType f = [] \<or> IsSigTypeValid (tf_SigType f)"
    using wf by (simp add: f params_filter_def Let_def well_formed_def given_def strOrDefault_def split: option.splits)
  with v show ?thesis
    using role_mask_known [of "stp_AddressRole params" "stp_ExcludeCloseTo params"] type_value_le
      group_value_length [of "stp_GroupId params"]
    by (simp add: f params_filter_def Let_def)
qed

definition example_options :: ExtraOptions where
  "example_options =
     \<lparr>MaxAPIResourcesPerAccount = 1000, MaxAccountListSize = 50, MaxBlocksLimit = 100, DefaultBlocksLimit = 10,
      eo_MaxTransactionsLimit = 1000, DefaultTransactionsLimit = 10, MaxAccountsLimit = 1000,
      DefaultAccountsLimit = 100, MaxAssetsLimit = 1000, DefaultAssetsLimit = 100, MaxBalancesLimit = 1000,
      DefaultBalancesLimit = 100, MaxApplicationsLimit = 1000, DefaultApplicationsLimit = 100,
      MaxBoxesLimit = 1000, DefaultBoxesLimit = 100\<rparr>"

theorem SearchForTransactions_filter_safe_witness:
  "\<exists>f. SearchForTransactions_filter example_sdk example_options
      (no_params\<lparr>stp_AddressRole := Some ''Sender'', stp_Address := Some (replicate 32 CHR ''a''), stp_Limit := Some 5000\<rparr>) = Inr f \<and>
    database_safe f \<and> tf_Limit f \<le> 1000 \<and> tf_AddressRole f = 9"
proof -
  let ?p = "no_params\<lparr>stp_AddressRole := Some ''Sender'', stp_Address := Some (replicate 32 CHR ''a''), stp_Limit := Some 5000\<rparr>"
  let ?f = "params_filter example_sdk example_options ?p"
  have sender: "ToLower ''Sender'' = ''sender''" by code_simp
  have wf: "well_formed example_sdk ?p"
    by (simp add: sender well_formed_def no_params_def known_role_def addrRoleSender_def address_ok_def example_sdk_def isl_def del: ToLower.simps)
  have role: "tf_AddressRole ?f = 9"
    by (simp add: sender params_filter_def no_params_def role_mask_def decodeAddressRole_def addressRoleEnumMap_def
        addrRoleSender_def AddressRoleSender_def AddressRoleAssetSender_def Let_def del: ToLower.simps)
  have "database_safe ?f" "rounds_consistent ?f"
    by (simp_all add: params_filter_def no_params_def database_safe_def rounds_consistent_def uintOrDefault_def
        zero_TransactionFilter_def Let_def)
  moreover have "address_consistent ?f"
    by (simp add: address_consistent_def params_filter_def no_params_def example_sdk_def IsZero_def copy_array_def
        zero_bytes_def Let_def replicate_eq_replicate)
  ultimately have s: "SearchForTransactions_filter example_sdk example_options ?p = Inr ?f"
    using wf by (simp add: SearchForTransactions_filter_step)
  from SearchForTransactions_filter_safe [OF s] role s show ?thesis by (auto simp: example_options_def)
qed



section \<open>Block headers\<close>

text \<open>Stored headers: rounds are unique and block times do not decrease.\<close>

definition headers_ordered :: "'j block_header_row list \<Rightarrow> bool" where
  "headers_ordered hs \<longleftrightarrow>
     key_unique bhr_round hs \<and>
     list_all (\<lambda>h. list_all (\<lambda>h'. bhr_round h < bhr_round h' \<longrightarrow> bhr_realtime h \<le> bhr_realtime h') hs) hs"

abbreviation header_of :: "'j codec \<Rightarrow> 'j block_header_row \<Rightarrow> BlockHeader" where
  "header_of c h \<equiv> projr (DecodeBlockHeader c (bhr_header h))"

text \<open>The server reads the stored headers: addresses are stored as text, the zero address and empty
  lists are left out.\<close>

definition stored_list :: "sdk \<Rightarrow> Address list \<Rightarrow> string list option" where
  "stored_list env as = (if as = [] then None else Some (map (AddressString env) as))"

definition reads_headers :: "'j header_server \<Rightarrow> sdk \<Rightarrow> 'j codec \<Rightarrow> 'j block_header_row list \<Rightarrow> bool" where
  "reads_headers srv env c hs \<longleftrightarrow>
     list_all (\<lambda>h. \<not> isl (DecodeBlockHeader c (bhr_header h)) \<and>
       header_string srv ''prp'' (bhr_header h) =
         (if IsZero (Proposer (header_of c h)) then None else Some (AddressString env (Proposer (header_of c h)))) \<and>
       header_strings srv ''partupdrmv'' (bhr_header h) =
         stored_list env (ExpiredParticipationAccounts (header_of c h)) \<and>
       header_strings srv ''partupdabs'' (bhr_header h) =
         stored_list env (AbsentParticipationAccounts (header_of c h))) hs"

text \<open>The header is one the request asks for. Times are compared in whole seconds.\<close>

abbreviation addresses_of :: "sdk \<Rightarrow> string list \<Rightarrow> Address set" where
  "addresses_of env ss \<equiv> (\<lambda>s. projr (DecodeAddress env s)) ` set ss"

definition requested :: "sdk \<Rightarrow> 'j codec \<Rightarrow> SearchForBlockHeadersParams \<Rightarrow> 'j block_header_row \<Rightarrow> bool" where
  "requested env c params h \<longleftrightarrow>
     given (\<lambda>r. r \<le> bhr_round h) (sbh_MinRound params) \<and> given (\<lambda>r. bhr_round h \<le> r) (sbh_MaxRound params) \<and>
     given (\<lambda>s. projr (DecodeBlockRowNext s) < bhr_round h) (sbh_Next params) \<and>
     given (\<lambda>t. time_IsZero t \<or> Unix t * 10 ^ 9 < bhr_realtime h) (sbh_AfterTime params) \<and>
     given (\<lambda>t. time_IsZero t \<or> bhr_realtime h < Unix t * 10 ^ 9) (sbh_BeforeTime params) \<and>
     given (\<lambda>ss. ss = [] \<or> \<not> IsZero (Proposer (header_of c h)) \<and> Proposer (header_of c h) \<in> addresses_of env ss)
       (sbh_Proposers params) \<and>
     given (\<lambda>ss. ss = [] \<or> set (ExpiredParticipationAccounts (header_of c h)) \<inter> addresses_of env ss \<noteq> {})
       (sbh_Expired params) \<and>
     given (\<lambda>ss. ss = [] \<or> set (AbsentParticipationAccounts (header_of c h)) \<inter> addresses_of env ss \<noteq> {})
       (sbh_Absent params)"

lemma headers_mono:
  assumes "headers_ordered hs" "h \<in> set hs" "h' \<in> set hs" "bhr_round h \<le> bhr_round h'"
  shows "bhr_realtime h \<le> bhr_realtime h'"
proof (cases "bhr_round h = bhr_round h'")
  case True
  with assms have "h = h'" by (auto simp: headers_ordered_def intro: key_unique_eq)
  then show ?thesis by simp
next
  case False
  with assms show ?thesis by (auto simp: headers_ordered_def list_all_iff)
qed

lemma first_round_after_time:
  assumes "headers_ordered hs" "h \<in> set hs"
  shows "option_holds (\<lambda>r. bhr_round h \<ge> r) (first_round_after time hs) \<longleftrightarrow> bhr_realtime h > time"
proof (cases "sort_key (\<lambda>h. (bhr_realtime h, bhr_round h)) (filter (\<lambda>h. bhr_realtime h > time) hs)")
  case Nil
  have "set (filter (\<lambda>h. bhr_realtime h > time) hs) = {}" using arg_cong [OF Nil, of set] by simp
  with assms(2) show ?thesis by (auto simp: first_round_after_def option_holds_def Nil)
next
  case (Cons h0 ys)
  have h0: "h0 \<in> set hs" "bhr_realtime h0 > time" using hd_sort_key(1) [OF Cons] by auto
  have "bhr_round h0 \<le> bhr_round h" if t: "bhr_realtime h > time"
  proof (rule ccontr)
    assume "\<not> bhr_round h0 \<le> bhr_round h"
    then have lt: "bhr_round h < bhr_round h0" by simp
    then have "bhr_realtime h \<le> bhr_realtime h0" using headers_mono [OF assms h0(1)] by simp
    moreover have "(bhr_realtime h0, bhr_round h0) \<le> (bhr_realtime h, bhr_round h)"
      using hd_sort_key(2) [OF Cons, of h] assms(2) t by simp
    ultimately show False using lt by (auto simp: less_eq_prod_def)
  qed
  moreover have "bhr_realtime h > time" if "bhr_round h0 \<le> bhr_round h"
    using headers_mono [OF assms(1) h0(1) assms(2) that] h0(2) by simp
  ultimately have "bhr_round h0 \<le> bhr_round h \<longleftrightarrow> bhr_realtime h > time" by blast
  then show ?thesis by (simp add: first_round_after_def option_holds_def Cons)
qed

lemma last_round_before_time:
  assumes "headers_ordered hs" "h \<in> set hs"
  shows "option_holds (\<lambda>r. bhr_round h \<le> r) (last_round_before time hs) \<longleftrightarrow> bhr_realtime h < time"
proof (cases "rev (sort_key (\<lambda>h. (bhr_realtime h, bhr_round h)) (filter (\<lambda>h. bhr_realtime h < time) hs))")
  case Nil
  have "set (filter (\<lambda>h. bhr_realtime h < time) hs) = {}" using arg_cong [OF Nil, of set] by simp
  with assms(2) show ?thesis by (auto simp: last_round_before_def option_holds_def Nil)
next
  case (Cons h0 ys)
  have h0: "h0 \<in> set hs" "bhr_realtime h0 < time" using hd_rev_sort_key(1) [OF Cons] by auto
  have "bhr_round h \<le> bhr_round h0" if t: "bhr_realtime h < time"
  proof (rule ccontr)
    assume "\<not> bhr_round h \<le> bhr_round h0"
    then have lt: "bhr_round h0 < bhr_round h" by simp
    then have "bhr_realtime h0 \<le> bhr_realtime h" using headers_mono [OF assms(1) h0(1) assms(2)] by simp
    moreover have "(bhr_realtime h, bhr_round h) \<le> (bhr_realtime h0, bhr_round h0)"
      using hd_rev_sort_key(2) [OF Cons, of h] assms(2) t by simp
    ultimately show False using lt by (auto simp: less_eq_prod_def)
  qed
  moreover have "bhr_realtime h < time" if "bhr_round h \<le> bhr_round h0"
    using headers_mono [OF assms h0(1) that] h0(2) by simp
  ultimately have "bhr_round h \<le> bhr_round h0 \<longleftrightarrow> bhr_realtime h < time" by blast
  then show ?thesis by (simp add: last_round_before_def option_holds_def Cons)
qed

lemma decode_addresses_step:
  "\<exists>addrs' e. decode_addresses env what ss addrs errs = (addrs', errs @ e) \<and>
     (e = [] \<longleftrightarrow> list_all (address_ok env) ss) \<and>
     (e = [] \<longrightarrow> set addrs' = set addrs \<union> addresses_of env ss)"
proof (induction ss arbitrary: addrs errs)
  case (Cons s ss)
  show ?case
  proof (cases "DecodeAddress env s")
    case (Inl x)
    then show ?thesis
      using Cons.IH [of addrs "errs @ [''unable to parse '' @ what @ '' address'']"] by (auto simp: address_ok_def)
  next
    case (Inr a)
    obtain addrs' e where "decode_addresses env what ss (List.insert a addrs) errs = (addrs', errs @ e)"
      "e = [] \<longleftrightarrow> list_all (address_ok env) ss"
      "e = [] \<longrightarrow> set addrs' = set (List.insert a addrs) \<union> addresses_of env ss"
      using Cons.IH [of "List.insert a addrs" errs] by blast
    moreover have "address_ok env s" using Inr by (simp add: address_ok_def)
    ultimately show ?thesis using Inr by auto
  qed
qed simp


text \<open>A filter that comes from the parameters of a request.\<close>

definition filter_of_params :: "sdk \<Rightarrow> ExtraOptions \<Rightarrow> SearchForBlockHeadersParams \<Rightarrow> BlockHeaderFilter \<Rightarrow> bool" where
  "filter_of_params env opts params bf \<longleftrightarrow>
     bf_Limit bf = min_u64 (uintOrDefaultValue (sbh_Limit params) (DefaultBlocksLimit opts)) (MaxBlocksLimit opts) \<and>
     bf_MaxRound bf = sbh_MaxRound params \<and> bf_MinRound bf = fst (merge_next params) \<and>
     given (\<lambda>s. \<not> isl (DecodeBlockRowNext s)) (sbh_Next params) \<and>
     bf_AfterTime bf = timeOrZero (sbh_AfterTime params) \<and> bf_BeforeTime bf = timeOrZero (sbh_BeforeTime params) \<and>
     set (bf_Proposers bf) = addresses_of env (listOrEmpty (sbh_Proposers params)) \<and>
     set (bf_ExpiredParticipationAccounts bf) = addresses_of env (listOrEmpty (sbh_Expired params)) \<and>
     set (bf_AbsentParticipationAccounts bf) = addresses_of env (listOrEmpty (sbh_Absent params))"

lemma blockParamsToBlockFilter_Inr:
  assumes "blockParamsToBlockFilter env opts params = Inr bf"
  shows "filter_of_params env opts params bf" and "participation_errors opts params = []"
proof -
  obtain mr en where mn: "merge_next params = (mr, en)" by (cases "merge_next params")
  let ?errs = "round_order_errors params @ en @ participation_errors opts params"
  obtain ps ep where ps: "decode_addresses env ''proposer'' (listOrEmpty (sbh_Proposers params)) [] ?errs = (ps, ?errs @ ep)"
    "ep = [] \<longrightarrow> set ps = addresses_of env (listOrEmpty (sbh_Proposers params))"
    using decode_addresses_step [of env "''proposer''" "listOrEmpty (sbh_Proposers params)" "[]" ?errs] by auto
  obtain es ee where es: "decode_addresses env ''expired'' (listOrEmpty (sbh_Expired params)) [] (?errs @ ep) = (es, (?errs @ ep) @ ee)"
    "ee = [] \<longrightarrow> set es = addresses_of env (listOrEmpty (sbh_Expired params))"
    using decode_addresses_step [of env "''expired''" "listOrEmpty (sbh_Expired params)" "[]" "?errs @ ep"] by auto
  obtain as ea where as: "decode_addresses env ''absent'' (listOrEmpty (sbh_Absent params)) [] ((?errs @ ep) @ ee) = (as, ((?errs @ ep) @ ee) @ ea)"
    "ea = [] \<longrightarrow> set as = addresses_of env (listOrEmpty (sbh_Absent params))"
    using decode_addresses_step [of env "''absent''" "listOrEmpty (sbh_Absent params)" "[]" "(?errs @ ep) @ ee"] by auto
  have none: "en = []" "ep = []" "ee = []" "ea = []" "participation_errors opts params = []"
    using assms unfolding blockParamsToBlockFilter_def Let_def mn prod.case ps(1) es(1) as(1)
    by (simp_all split: if_splits)
  have bf: "bf = \<lparr>bf_Limit = min_u64 (uintOrDefaultValue (sbh_Limit params) (DefaultBlocksLimit opts)) (MaxBlocksLimit opts),
                   bf_MaxRound = sbh_MaxRound params, bf_MinRound = mr,
                   bf_AfterTime = timeOrZero (sbh_AfterTime params), bf_BeforeTime = timeOrZero (sbh_BeforeTime params),
                   bf_Proposers = ps, bf_ExpiredParticipationAccounts = es, bf_AbsentParticipationAccounts = as\<rparr>"
    using assms unfolding blockParamsToBlockFilter_def Let_def mn prod.case ps(1) es(1) as(1)
    by (simp split: if_splits)
  have "given (\<lambda>s. \<not> isl (DecodeBlockRowNext s)) (sbh_Next params)"
    using mn none(1) by (auto simp: merge_next_def given_def isl_def Let_def split: option.splits sum.splits prod.splits)
  then show "filter_of_params env opts params bf"
    using none ps(2) es(2) as(2) mn by (simp add: filter_of_params_def bf)
  show "participation_errors opts params = []" by (rule none(5))
qed


lemma max_next_round: "n \<noteq> - 1 \<Longrightarrow> max m (n + 1) \<le> x \<longleftrightarrow> m \<le> x \<and> (n :: uint64) < x"
proof -
  assume "n \<noteq> - 1"
  then have "n < - 1" by (simp add: word_order.not_eq_extremum)
  then show ?thesis using word_next_le [of n x] by simp
qed

lemma merged_min_round:
  assumes "given (\<lambda>s. \<not> isl (DecodeBlockRowNext s)) (sbh_Next params)"
    and "given (\<lambda>s. DecodeBlockRowNext s \<noteq> Inr (- 1)) (sbh_Next params)"
  shows "given (\<lambda>r. r \<le> x) (fst (merge_next params)) \<longleftrightarrow>
    given (\<lambda>r. r \<le> x) (sbh_MinRound params) \<and> given (\<lambda>s. projr (DecodeBlockRowNext s) < x) (sbh_Next params)"
proof (cases "sbh_Next params")
  case None
  then show ?thesis by (simp add: merge_next_def)
next
  case (Some s)
  with assms obtain n where n: "DecodeBlockRowNext s = Inr n" "n \<noteq> - 1"
    by (cases "DecodeBlockRowNext s") auto
  have "n + 1 \<le> x \<longleftrightarrow> n < x" using n(2) word_next_le [of n x] by (simp add: word_order.not_eq_extremum)
  with Some n show ?thesis
    by (cases "sbh_MinRound params") (simp_all add: merge_next_def Let_def max_next_round del: max.bounded_iff)
qed

lemma any_stored:
  assumes "inj (AddressString env)"
  shows "option_holds (\<lambda>ss. list_ex (\<lambda>a. a \<in> set ss) (map (AddressString env) as)) (stored_list env bs) \<longleftrightarrow>
    set bs \<inter> set as \<noteq> {}"
  using assms by (auto simp: option_holds_def stored_list_def list_ex_iff dest: injD)

lemma list_term:
  assumes "set xs = addresses_of env (listOrEmpty l)"
    and "\<And>ss. l = Some ss \<Longrightarrow> set xs = addresses_of env ss \<Longrightarrow> T \<longleftrightarrow> Q ss"
  shows "(xs \<noteq> [] \<longrightarrow> T) \<longleftrightarrow> given (\<lambda>ss. ss = [] \<or> Q ss) l"
proof (cases l)
  case None
  with assms(1) show ?thesis by (simp add: listOrEmpty_def)
next
  case (Some ss)
  with assms have "set xs = addresses_of env ss" "T \<longleftrightarrow> Q ss" by (simp_all add: listOrEmpty_def)
  moreover from this(1) have "xs = [] \<longleftrightarrow> ss = []" by (cases xs; cases ss) auto
  ultimately show ?thesis unfolding Some given_simps by blast
qed

lemma list_all_pieces:
  "list_all P (if cond then [x] else []) \<longleftrightarrow> (cond \<longrightarrow> P x)"
  "list_all P (case r of None \<Rightarrow> [] | Some v \<Rightarrow> [f v]) \<longleftrightarrow> given (\<lambda>v. P (f v)) r"
  by (simp_all add: given_def split: option.split)

text \<open>The terms of the query hold exactly for the headers that are asked for.\<close>

lemma eval_terms_requested:
  assumes "filter_of_params env opts params bf" "buildBlockHeadersQuery env bf = Inr q"
    and "headers_ordered hs" "reads_headers srv env c hs" "inj (AddressString env)" "h \<in> set hs"
    and "given (\<lambda>s. DecodeBlockRowNext s \<noteq> Inr (- 1)) (sbh_Next params)"
  shows "list_all (eval_term srv hs h) (bq_where q) \<longleftrightarrow> requested env c params h"
proof -
  have f: "set (bf_Proposers bf) = addresses_of env (listOrEmpty (sbh_Proposers params))"
    "set (bf_ExpiredParticipationAccounts bf) = addresses_of env (listOrEmpty (sbh_Expired params))"
    "set (bf_AbsentParticipationAccounts bf) = addresses_of env (listOrEmpty (sbh_Absent params))"
    "bf_AfterTime bf = timeOrZero (sbh_AfterTime params)" "bf_BeforeTime bf = timeOrZero (sbh_BeforeTime params)"
    "bf_MaxRound bf = sbh_MaxRound params" "bf_MinRound bf = fst (merge_next params)"
    "given (\<lambda>s. \<not> isl (DecodeBlockRowNext s)) (sbh_Next params)"
    using assms(1) by (simp_all add: filter_of_params_def)
  have r: "header_string srv ''prp'' (bhr_header h) =
      (if IsZero (Proposer (header_of c h)) then None else Some (AddressString env (Proposer (header_of c h))))"
    "header_strings srv ''partupdrmv'' (bhr_header h) = stored_list env (ExpiredParticipationAccounts (header_of c h))"
    "header_strings srv ''partupdabs'' (bhr_header h) = stored_list env (AbsentParticipationAccounts (header_of c h))"
    using assms(4,6) by (simp_all add: reads_headers_def list_all_iff)
  have proposers: "(bf_Proposers bf \<noteq> [] \<longrightarrow> eval_term srv hs h (BProposers (map (AddressString env) (bf_Proposers bf)))) \<longleftrightarrow>
      given (\<lambda>ss. ss = [] \<or> \<not> IsZero (Proposer (header_of c h)) \<and> Proposer (header_of c h) \<in> addresses_of env ss)
        (sbh_Proposers params)"
    unfolding r(1) eval_term.simps
    by (rule list_term [OF f(1)]) (auto simp: option_holds_def inj_image_mem_iff [OF assms(5)])
  have exp: "(bf_ExpiredParticipationAccounts bf \<noteq> [] \<longrightarrow>
        eval_term srv hs h (BExpired (map (AddressString env) (bf_ExpiredParticipationAccounts bf)))) \<longleftrightarrow>
      given (\<lambda>ss. ss = [] \<or> set (ExpiredParticipationAccounts (header_of c h)) \<inter> addresses_of env ss \<noteq> {}) (sbh_Expired params)"
    unfolding r(2) eval_term.simps any_stored [OF assms(5)] by (rule list_term [OF f(2)]) simp
  have abs: "(bf_AbsentParticipationAccounts bf \<noteq> [] \<longrightarrow>
        eval_term srv hs h (BAbsent (map (AddressString env) (bf_AbsentParticipationAccounts bf)))) \<longleftrightarrow>
      given (\<lambda>ss. ss = [] \<or> set (AbsentParticipationAccounts (header_of c h)) \<inter> addresses_of env ss \<noteq> {}) (sbh_Absent params)"
    unfolding r(3) eval_term.simps any_stored [OF assms(5)] by (rule list_term [OF f(3)]) simp
  have after_time: "(\<not> time_IsZero (bf_AfterTime bf) \<longrightarrow> eval_term srv hs h (BAfter (Unix (bf_AfterTime bf)))) \<longleftrightarrow>
      given (\<lambda>t. time_IsZero t \<or> Unix t * 10 ^ 9 < bhr_realtime h) (sbh_AfterTime params)"
    unfolding eval_term.simps first_round_after_time [OF assms(3,6)] f(4)
    by (cases "sbh_AfterTime params") (auto simp: timeOrZero_def time_IsZero_def)
  have before_time: "(\<not> time_IsZero (bf_BeforeTime bf) \<longrightarrow> eval_term srv hs h (BBefore (Unix (bf_BeforeTime bf)))) \<longleftrightarrow>
      given (\<lambda>t. time_IsZero t \<or> bhr_realtime h < Unix t * 10 ^ 9) (sbh_BeforeTime params)"
    unfolding eval_term.simps last_round_before_time [OF assms(3,6)] f(5)
    by (cases "sbh_BeforeTime params") (auto simp: timeOrZero_def time_IsZero_def)
  have "list_all (eval_term srv hs h) (bq_where q) \<longleftrightarrow>
      given (\<lambda>r. bhr_round h \<le> r) (bf_MaxRound bf) \<and> given (\<lambda>r. r \<le> bhr_round h) (bf_MinRound bf) \<and>
      (\<not> time_IsZero (bf_AfterTime bf) \<longrightarrow> eval_term srv hs h (BAfter (Unix (bf_AfterTime bf)))) \<and>
      (\<not> time_IsZero (bf_BeforeTime bf) \<longrightarrow> eval_term srv hs h (BBefore (Unix (bf_BeforeTime bf)))) \<and>
      (bf_Proposers bf \<noteq> [] \<longrightarrow> eval_term srv hs h (BProposers (map (AddressString env) (bf_Proposers bf)))) \<and>
      (bf_ExpiredParticipationAccounts bf \<noteq> [] \<longrightarrow>
        eval_term srv hs h (BExpired (map (AddressString env) (bf_ExpiredParticipationAccounts bf)))) \<and>
      (bf_AbsentParticipationAccounts bf \<noteq> [] \<longrightarrow>
        eval_term srv hs h (BAbsent (map (AddressString env) (bf_AbsentParticipationAccounts bf))))"
    unfolding sum.inject(2) [THEN iffD1, OF assms(2) [unfolded buildBlockHeadersQuery_def], symmetric]
    by (simp only: block_query.simps list_all_append list_all_pieces eval_term.simps(1,2))
  then show ?thesis
    unfolding after_time before_time proposers exp abs requested_def f(6,7) merged_min_round [OF f(8) assms(7)] by blast
qed

text \<open>A search for block headers that is accepted returns exactly the page it asks for, from the request
  to the rows: the headers in the requested range of rounds, after the page token, between the given
  times (in whole seconds), with a requested proposer, expired or absent account, in ascending order
  and up to the limit.\<close>

theorem SearchForBlockHeaders_page:
  assumes "SearchForBlockHeaders_filter env opts params = Inr bf"
    and "headers_ordered (tbl_block_header main)" "reads_headers srv env c (tbl_block_header main)"
    and "inj (AddressString env)" "getMaxRoundAccounted c main = Inr rnd"
    and "given (\<lambda>s. DecodeBlockRowNext s \<noteq> Inr (- 1)) (sbh_Next params)"
  shows "BlockHeaders env srv quiet_query_env c main bf =
    (map (\<lambda>h. \<lparr>br_BlockHeader = header_of c h, br_Error = None\<rparr>)
       (take (unat (min_u64 (uintOrDefaultValue (sbh_Limit params) (DefaultBlocksLimit opts)) (MaxBlocksLimit opts)))
         (sort_key bhr_round (filter (requested env c params) (tbl_block_header main)))), rnd)"
proof -
  let ?hs = "tbl_block_header main"
  have p: "filter_of_params env opts params bf"
    using assms(1) by (intro blockParamsToBlockFilter_Inr(1))
      (auto simp: SearchForBlockHeaders_filter_def bad_request_def res_bind_def split: sum.splits)
  obtain q where q: "buildBlockHeadersQuery env bf = Inr q" "bq_limit q = bf_Limit bf"
    by (simp add: buildBlockHeadersQuery_def)
  have f: "filter (\<lambda>h. list_all (eval_term srv ?hs h) (bq_where q)) ?hs = filter (requested env c params) ?hs"
    by (rule filter_cong [OF refl]) (rule eval_terms_requested [OF p q(1) assms(2-4) _ assms(6)])
  have d: "decode_block_row c (bhr_header h) = \<lparr>br_BlockHeader = header_of c h, br_Error = None\<rparr>" if "h \<in> set ?hs" for h
    using that assms(3) by (auto simp: decode_block_row_def reads_headers_def list_all_iff isl_def split: sum.split)
  have l: "bf_Limit bf = min_u64 (uintOrDefaultValue (sbh_Limit params) (DefaultBlocksLimit opts)) (MaxBlocksLimit opts)"
    using p by (simp add: filter_of_params_def)
  show ?thesis
    using q assms(5) d
    by (auto simp: BlockHeaders_def yieldBlockHeaders_def yieldBlocksThreadSimple_def quiet_query_env_def
        exec_block_query_def f l dest: in_set_takeD)
qed


definition example_header_server :: "document header_server" where
  "example_header_server = \<lparr>header_string = (\<lambda>_ _. None), header_strings = (\<lambda>_ _. None)\<rparr>"

definition example_block_params :: SearchForBlockHeadersParams where
  "example_block_params =
     \<lparr>sbh_Limit = Some 2, sbh_Next = Some (b64_encode url_alphabet (PutUint64 0)), sbh_MinRound = None, sbh_MaxRound = None,
      sbh_BeforeTime = None, sbh_AfterTime = None, sbh_Proposers = None, sbh_Expired = None, sbh_Absent = None\<rparr>"

lemma example_header_decodes:
  "DecodeBlockHeader example_codec (EncodeBlockHeader example_codec zero_BlockHeader) = Inr zero_BlockHeader"
  by (simp add: DecodeBlockHeader_def EncodeBlockHeader_def example_codec_def convertBlockHeader_def
      unconvertBlockHeader_def erase_blockHeader_def zero_BlockHeader_def convertExpiredAccounts_def
      unconvertExpiredAccounts_def)

theorem SearchForBlockHeaders_page_witness:
  "\<exists>bf. SearchForBlockHeaders_filter example_sdk example_options example_block_params = Inr bf \<and>
    BlockHeaders example_sdk example_header_server quiet_query_env example_codec example_search_tables bf =
      (replicate 2 \<lparr>br_BlockHeader = zero_BlockHeader, br_Error = None\<rparr>, 2)"
proof -
  have tok: "DecodeBlockRowNext (b64_encode url_alphabet (PutUint64 0)) = Inr 0" by (simp add: DecodeBlockRowNext_def)
  obtain bf where bf: "SearchForBlockHeaders_filter example_sdk example_options example_block_params = Inr bf"
    by (simp add: SearchForBlockHeaders_filter_def blockParamsToBlockFilter_def merge_next_def tok round_order_errors_def
        participation_errors_def list_too_long_def listOrEmpty_def example_block_params_def validateBlockFilter_def
        exceeds_def MaxInt64_def timeOrZero_def time_IsZero_def bad_request_def Let_def)
  have ordered: "headers_ordered example_header_rows"
    by (simp add: headers_ordered_def key_unique_def example_header_rows_def)
  have zh: "IsZero (Proposer zero_BlockHeader)" "ExpiredParticipationAccounts zero_BlockHeader = []"
    "AbsentParticipationAccounts zero_BlockHeader = []"
    by (simp_all add: zero_BlockHeader_def IsZero_def)
  have reads: "reads_headers example_header_server example_sdk example_codec example_header_rows"
    by (simp add: reads_headers_def example_header_rows_def example_header_server_def example_header_decodes
        stored_list_def zh)
  have inj: "inj (AddressString example_sdk)" by (simp add: example_sdk_def)
  have nxt: "given (\<lambda>s. DecodeBlockRowNext s \<noteq> Inr (- 1)) (sbh_Next example_block_params)"
    by (simp add: example_block_params_def tok)
  have "sort_key bhr_round (filter (requested example_sdk example_codec example_block_params) example_header_rows) =
      drop 1 example_header_rows"
    by (simp add: requested_def example_block_params_def tok example_header_rows_def)
  moreover have "unat (min_u64 (uintOrDefaultValue (sbh_Limit example_block_params) (DefaultBlocksLimit example_options))
      (MaxBlocksLimit example_options)) = 2"
    by (simp add: example_block_params_def example_options_def uintOrDefaultValue_def min_u64_def)
  moreover have "map (\<lambda>h. \<lparr>br_BlockHeader = header_of example_codec h, br_Error = None\<rparr>) (take 2 (drop 1 example_header_rows)) =
      replicate 2 \<lparr>br_BlockHeader = zero_BlockHeader, br_Error = None\<rparr>"
    by (simp add: example_header_rows_def example_header_decodes numeral_2_eq_2)
  ultimately show ?thesis
    using bf SearchForBlockHeaders_page [OF bf, of example_search_tables example_header_server example_codec 2]
    unfolding example_search_headers by (simp add: ordered reads inj example_search_round nxt)
qed

text \<open>A time with a fraction of a second is rounded down, so that a block of the same second is left out
  although it is earlier.\<close>

lemma before_time_rounds_down:
  assumes "sbh_BeforeTime params = Some (s * 10 ^ 9 + k)" "0 < k" "k < 10 ^ 9" "\<not> time_IsZero (s * 10 ^ 9 + k)"
    and "bhr_realtime h = s * 10 ^ 9"
  shows "bhr_realtime h < s * 10 ^ 9 + k" and "\<not> requested env c params h"
  using assms by (simp_all add: requested_def Unix_def)

text \<open>A maximal list size of zero refuses every list of accounts.\<close>

lemma zero_list_size_refuses:
  assumes "MaxAccountListSize opts = 0" "sbh_Proposers params = Some ss" "ss \<noteq> []" "length ss < 2 ^ 64"
  shows "isl (blockParamsToBlockFilter env opts params)"
proof (rule ccontr)
  assume "\<not> ?thesis"
  then obtain bf where bf: "blockParamsToBlockFilter env opts params = Inr bf"
    by (cases "blockParamsToBlockFilter env opts params") simp_all
  have "(of_nat (length ss) :: uint64) \<noteq> 0"
    using assms(3,4) of_nat64_eq [of "length ss" 0] by auto
  then have "participation_errors opts params \<noteq> []"
    using assms(1,2) by (auto simp: participation_errors_def list_too_long_def Let_def word_gt_0)
  with blockParamsToBlockFilter_Inr(2) [OF bf] show False by simp
qed

end
