(* ===== verification/DisabledLaws.thy ===== *)
theory DisabledLaws
  imports DisabledParams
begin

text \<open>
  The configuration of disabled parameters: which configurations are accepted, that the check of a
  request enforces exactly the configuration, and that a configuration survives being written to a
  file and read back.
\<close>

section \<open>Association lists\<close>

lemma map_or_empty_update [simp]:
  "map_or_empty (AList.update k v m) k' = (if k = k' then v else map_or_empty m k')"
  by (simp add: map_or_empty_def update_conv')

lemma map_or_empty_Nil [simp]: "map_or_empty [] k = []"
  by (simp add: map_or_empty_def)

lemma go_map_update: "go_map m \<Longrightarrow> go_map (AList.update k v m)"
  unfolding go_map_def by (rule distinct_update)

lemma go_map_in_set: "go_map m \<Longrightarrow> (k, v) \<in> set m \<longleftrightarrow> map_of m k = Some v"
  unfolding go_map_def by simp

lemma update_not_Nil [simp]: "AList.update k v m \<noteq> []"
  by (induction m) auto

section \<open>Accepted configurations\<close>

text \<open>The parameters of an operation are known when the description has them.\<close>

definition known_params :: "openapi_path \<Rightarrow> string \<times> string list \<Rightarrow> bool" where
  "known_params item entry =
     (case GetOperation item (fst entry) of
        None \<Rightarrow> False
      | Some None \<Rightarrow> snd entry = []
      | Some (Some op) \<Rightarrow> list_all (\<lambda>p. p \<in> set (map Name (Parameters op))) (snd entry))"

definition known_path :: "openapi \<Rightarrow> string \<times> (string \<times> string list) list \<Rightarrow> bool" where
  "known_path swag entry =
     (case map_of swag (fst entry) of None \<Rightarrow> False | Some item \<Rightarrow> list_all (known_params item) (snd entry))"

lemma validate_param_fold:
  "fold (validate_param path opName op) ps bad = [] \<longleftrightarrow> bad = [] \<and> list_all (\<lambda>p. p \<in> set (map Name (Parameters op))) ps"
  by (induction ps arbitrary: bad)
    (auto simp: validate_param_def add_bad_entry_def Let_def list_ex_iff)

lemma validate_ops_Nil:
  "validate_ops path item ops bad = Some [] \<longleftrightarrow> bad = [] \<and> list_all (known_params item) ops"
proof (induction ops arbitrary: bad)
  case (Cons entry ops)
  then show ?case
    by (cases entry) (auto simp: known_params_def validate_param_fold split: option.splits)
qed auto

lemma validate_paths_Nil: "validate_paths swag dmc bad = Some [] \<longleftrightarrow> bad = [] \<and> list_all (known_path swag) dmc"
proof (induction dmc arbitrary: bad)
  case (Cons entry dmc)
  obtain path ops where entry: "entry = (path, ops)" by (cases entry)
  show ?case
  proof (cases "map_of swag path")
    case None
    with Cons entry show ?thesis by (simp add: known_path_def)
  next
    case (Some item)
    then show ?thesis
      using Cons.IH entry validate_ops_Nil [of path item ops bad]
      by (cases "validate_ops path item ops bad") (auto simp: known_path_def)
  qed
qed auto

lemma validate_accepts: "validate dmc swag = Some (Inr ()) \<longleftrightarrow> list_all (known_path swag) dmc"
  using validate_paths_Nil [of swag dmc "[]"] by (auto simp: validate_def split: option.splits)

text \<open>A parameter of a path that has no operation for the method ends in a nil dereference; the path
  \<open>/health\<close> of the embedded description is one.\<close>

lemma validate_nil_operation:
  assumes "map_of swag path = Some item" "GetOperation item MethodGet = Some None" "params \<noteq> []"
  shows "validate [(path, [(MethodGet, params)])] swag = None"
  using assms by (simp add: validate_def)

section \<open>The table of the handlers\<close>

definition operations :: "openapi \<Rightarrow> (string \<times> string \<times> openapi_operation) list" where
  "operations swag = concat (map (\<lambda>(path, item). map (\<lambda>(opName, op). (path, opName, op)) (Operations item)) swag)"

definition distinct_ids :: "openapi \<Rightarrow> bool" where
  "distinct_ids swag \<longleftrightarrow> distinct (map (\<lambda>(path, opName, op). OperationID op) (operations swag))"

definition disabled_table :: "DisabledMapConfig \<Rightarrow> openapi \<Rightarrow> DisabledMap" where
  "disabled_table dmc swag =
     fold (\<lambda>(path, opName, op). AList.update (OperationID op) (endpoint_config dmc path opName op)) (operations swag) []"

lemma fold_concat_map: "fold f (concat (map g xs)) s = fold (\<lambda>x. fold f (g x)) xs s"
  by (induction xs arbitrary: s) auto

lemma fold_operations:
  "fold (\<lambda>(path, item). fold (\<lambda>(opName, op). f path opName op) (Operations item)) swag s =
   fold (\<lambda>(path, opName, op). f path opName op) (operations swag) s"
  unfolding operations_def fold_concat_map
  by (rule fold_cong) (auto simp: fold_map comp_def case_prod_beta')

lemma MakeDisabledMapFromOA3_Inr:
  "MakeDisabledMapFromOA3 swag (Some dmc) = Some (Inr dm) \<longleftrightarrow>
     list_all (known_path swag) dmc \<and> dm = Some (disabled_table dmc swag)"
proof (cases "validate dmc swag")
  case (Some r)
  then show ?thesis
    using validate_accepts [of dmc swag]
    by (cases r) (auto simp: MakeDisabledMapFromOA3_def MakeDisabledMap_def disabled_table_def fold_operations)
qed (use validate_accepts [of dmc swag] in \<open>auto simp: MakeDisabledMapFromOA3_def\<close>)

text \<open>A configuration is turned into the table of the handlers exactly when each of its paths is a path of the
  API description and each parameter it names is a parameter of that operation; no configuration at
  all gives no table.\<close>

theorem MakeDisabledMapFromOA3_accepts:
  "(\<exists>dm. MakeDisabledMapFromOA3 swag (Some dmc) = Some (Inr dm)) = list_all (known_path swag) dmc \<and>
   MakeDisabledMapFromOA3 swag None = Some (Inr None)"
  unfolding MakeDisabledMapFromOA3_Inr by (simp add: MakeDisabledMapFromOA3_def)

lemma map_of_fold_update:
  "distinct (map k xs) \<Longrightarrow> x \<in> set xs \<Longrightarrow> map_of (fold (\<lambda>x. AList.update (k x) (v x)) xs m) (k x) = Some (v x)"
proof (induction xs arbitrary: m)
  case (Cons y xs)
  have "k y \<notin> k ` set xs \<Longrightarrow> map_of (fold (\<lambda>x. AList.update (k x) (v x)) xs m) (k y) = map_of m (k y)" for m
    by (induction xs arbitrary: m) (auto simp: update_conv')
  with Cons show ?case by (auto simp: update_conv')
qed simp

lemma disabled_table_lookup:
  assumes "distinct_ids swag" and "(path, opName, op) \<in> set (operations swag)"
  shows "map_of (disabled_table dmc swag) (OperationID op) = Some (endpoint_config dmc path opName op)"
  using map_of_fold_update [of "\<lambda>(path, opName, op). OperationID op" "operations swag" "(path, opName, op)"
      "\<lambda>(path, opName, op). endpoint_config dmc path opName op" "[]"] assms
  by (simp add: disabled_table_def distinct_ids_def case_prod_beta')

lemma endpoint_config_fold:
  "EndpointDisabled (fold (endpoint_param dmc path opName) ps ec) \<longleftrightarrow>
     EndpointDisabled ec \<or> (\<exists>p\<in>set ps. isDisabled dmc path opName (Name p) \<and> Required p)"
  "set (DisabledOptionalParameters (fold (endpoint_param dmc path opName) ps ec)) =
     set (DisabledOptionalParameters ec) \<union> Name ` {p \<in> set ps. isDisabled dmc path opName (Name p) \<and> \<not> Required p}"
  by (induction ps arbitrary: ec) (auto simp: endpoint_param_def)

text \<open>A request supplies a parameter in its query or in its form.\<close>

definition supplied :: "request \<Rightarrow> string \<Rightarrow> bool" where
  "supplied ctx p \<longleftrightarrow> QueryParams ctx p \<noteq> [] \<or> (case FormParams ctx of Inl _ \<Rightarrow> False | Inr form \<Rightarrow> form p \<noteq> [])"

lemma verify_params_None: "verify_params ctx names = None \<longleftrightarrow> (\<forall>p\<in>set names. \<not> supplied ctx p)"
  by (induction names) (auto simp: supplied_def split: sum.splits)

lemma verify_None:
  "verify ec ctx = None \<longleftrightarrow> \<not> EndpointDisabled ec \<and> (\<forall>p\<in>set (DisabledOptionalParameters ec). \<not> supplied ctx p)"
  by (simp add: verify_def verify_params_None)

text \<open>C27: the table made from an accepted configuration enforces exactly that configuration: a handler lets a
  request through precisely when every disabled parameter of its operation is optional and is not
  supplied, in the query or in the form.\<close>

theorem Verify_enforces:
  assumes "MakeDisabledMapFromOA3 swag (Some dmc) = Some (Inr dm)"
    and "distinct_ids swag" and "(path, opName, op) \<in> set (operations swag)"
  shows "Verify dm (OperationID op) ctx = None \<longleftrightarrow>
    (\<forall>p\<in>set (Parameters op). isDisabled dmc path opName (Name p) \<longrightarrow> \<not> Required p \<and> \<not> supplied ctx (Name p))"
proof -
  have "Verify dm (OperationID op) ctx = verify (endpoint_config dmc path opName op) ctx"
    using assms(1) disabled_table_lookup [OF assms(2,3)] unfolding MakeDisabledMapFromOA3_Inr by (simp add: Verify_def)
  then show ?thesis
    by (auto simp: verify_None endpoint_config_def endpoint_config_fold makeEndpointConfig_def)
qed

definition example_operation :: openapi_operation where
  "example_operation =
     \<lparr>OperationID = ''SearchForAssets'',
      Parameters = [\<lparr>Name = ''name'', Required = False\<rparr>, \<lparr>Name = ''limit'', Required = False\<rparr>]\<rparr>"

definition example_openapi :: openapi where
  "example_openapi =
     [(''/v2/assets'', \<lparr>Operations = [(''GET'', example_operation)],
        GetOperation = (\<lambda>m. if m = ''GET'' then Some (Some example_operation) else None)\<rparr>)]"

definition example_disabled :: DisabledMapConfig where
  "example_disabled = [(''/v2/assets'', [(''GET'', [''name''])])]"

definition example_request :: "string \<Rightarrow> request" where
  "example_request p = \<lparr>QueryParams = (\<lambda>q. if q = p then ''x'' else []), FormParams = Inl (ErrMsg ''no form'')\<rparr>"

lemma example_openapi_facts:
  "distinct_ids example_openapi" "operations example_openapi = [(''/v2/assets'', ''GET'', example_operation)]"
  "validate example_disabled example_openapi = Some (Inr ())"
  by (simp_all add: distinct_ids_def operations_def example_openapi_def example_operation_def example_disabled_def
      validate_accepts known_path_def known_params_def)

lemma example_disabled_names:
  "isDisabled example_disabled ''/v2/assets'' ''GET'' n \<longleftrightarrow> n = ''name''"
  by (simp add: isDisabled_def map_or_empty_def example_disabled_def)

theorem Verify_enforces_witness:
  "\<exists>dm. MakeDisabledMapFromOA3 example_openapi (Some example_disabled) = Some (Inr dm) \<and>
     Verify dm ''SearchForAssets'' (example_request ''name'') \<noteq> None \<and>
     Verify dm ''SearchForAssets'' (example_request ''limit'') = None"
proof -
  obtain dm where dm: "MakeDisabledMapFromOA3 example_openapi (Some example_disabled) = Some (Inr dm)"
    using example_openapi_facts(3) unfolding validate_accepts MakeDisabledMapFromOA3_Inr by blast
  have "(''/v2/assets'', ''GET'', example_operation) \<in> set (operations example_openapi)"
    by (simp add: example_openapi_facts)
  note v = Verify_enforces [OF dm example_openapi_facts(1) this]
  have "Verify dm ''SearchForAssets'' (example_request ''name'') \<noteq> None"
    "Verify dm ''SearchForAssets'' (example_request ''limit'') = None"
    using v [of "example_request ''name''"] v [of "example_request ''limit''"]
    by (auto simp: example_operation_def example_disabled_names supplied_def example_request_def)
  with dm show ?thesis by blast
qed

section \<open>Writing and reading a configuration\<close>

text \<open>A display map as the program makes it: maps with distinct keys, known kinds and states.\<close>

definition entries_ok :: "(string \<times> (string \<times> string) list list) list \<Rightarrow> bool" where
  "entries_ok es \<longleftrightarrow> go_map es \<and>
     (\<forall>(k, l)\<in>set es. k \<in> {requiredParameterStr, optionalParameterStr} \<and>
        (\<forall>d\<in>set l. \<forall>(n, s)\<in>set d. s \<in> {disabledStatusStr, enabledStatusStr}))"

definition display_ok :: "DisplayDisabledMap \<Rightarrow> bool" where
  "display_ok ddm \<longleftrightarrow> go_map ddm \<and> (\<forall>(path, es)\<in>set ddm. entries_ok es)"

lemma illegal_entry_ok:
  assumes "k \<in> {requiredParameterStr, optionalParameterStr}"
    and "\<And>d n s. d \<in> set l \<Longrightarrow> (n, s) \<in> set d \<Longrightarrow> s \<noteq> enabledStatusStr \<Longrightarrow> s = disabledStatusStr"
  shows "illegal_entry (k, l) ([], []) = ([], [])"
  using assms by (auto simp: illegal_entry_def)

lemma entries_ok_illegal:
  assumes "entries_ok es"
  shows "schema_loop path es ([], []) bad = bad"
proof -
  have "\<forall>entry\<in>set es. illegal_entry entry ([], []) = ([], [])"
  proof clarify
    fix k l assume "(k, l) \<in> set es"
    with assms have "k \<in> {requiredParameterStr, optionalParameterStr}"
      and "\<forall>d\<in>set l. \<forall>(n, s)\<in>set d. s \<in> {disabledStatusStr, enabledStatusStr}"
      unfolding entries_ok_def by blast+
    then show "illegal_entry (k, l) ([], []) = ([], [])" by (intro illegal_entry_ok) blast+
  qed
  then show ?thesis by (induction es) (simp_all add: Let_def)
qed

lemma display_ok_schema: "display_ok ddm \<Longrightarrow> validateSchema ddm = Inr ()"
proof -
  have "\<forall>(path, es)\<in>set ddm. entries_ok es \<Longrightarrow>
      fold (\<lambda>(path, es). schema_loop path es ([], [])) ddm [] = []"
    by (induction ddm) (auto simp: entries_ok_illegal)
  then show "display_ok ddm \<Longrightarrow> validateSchema ddm = Inr ()" by (simp add: validateSchema_def display_ok_def)
qed

lemma in_disabled_names:
  "n \<in> set (disabled_names es) \<longleftrightarrow> (\<exists>(k, l)\<in>set es. \<exists>d\<in>set l. (n, disabledStatusStr) \<in> set d)"
proof -
  have "n \<in> fst ` {x \<in> set d. snd x = disabledStatusStr} \<longleftrightarrow> (n, disabledStatusStr) \<in> set d" for d :: "(string \<times> string) list"
    by force
  then show ?thesis by (auto simp: disabled_names_def case_prod_beta' Bex_def)
qed

lemma entries_ok_Nil [simp]: "entries_ok []"
  by (simp add: entries_ok_def go_map_def)

lemma display_ok_entries: "display_ok ddm \<Longrightarrow> entries_ok (map_or_empty ddm path)"
  by (cases "map_of ddm path") (auto simp: map_or_empty_def display_ok_def dest: map_of_SomeD)

text \<open>Adding an entry to the entries of a path.\<close>

definition add_display :: "string \<Rightarrow> string \<Rightarrow> string \<Rightarrow> (string \<times> (string \<times> string) list list) list \<Rightarrow>
   (string \<times> (string \<times> string) list list) list" where
  "add_display k n s es = AList.update k ((case map_of es k of None \<Rightarrow> [] | Some l \<Rightarrow> l) @ [[(n, s)]]) es"

lemma go_map_update_set:
  "go_map m \<Longrightarrow> (k', v') \<in> set (AList.update k v m) \<longleftrightarrow> (if k' = k then v' = v else (k', v') \<in> set m)"
  by (auto simp: go_map_in_set go_map_update update_conv')

lemma add_display_ok:
  assumes "entries_ok es" "k \<in> {requiredParameterStr, optionalParameterStr}" "s \<in> {disabledStatusStr, enabledStatusStr}"
  shows "entries_ok (add_display k n s es)"
proof -
  from assms(1) have g: "go_map es" by (simp add: entries_ok_def)
  have "\<forall>(k', l)\<in>set (add_display k n s es). k' \<in> {requiredParameterStr, optionalParameterStr} \<and>
        (\<forall>d\<in>set l. \<forall>(n, s)\<in>set d. s \<in> {disabledStatusStr, enabledStatusStr})"
    using assms unfolding add_display_def
    by (fastforce simp: go_map_update_set [OF g] entries_ok_def dest: map_of_SomeD split: option.splits if_splits)
  with g show ?thesis by (simp add: entries_ok_def add_display_def go_map_update)
qed

lemma in_disabled_names_map_of:
  "go_map es \<Longrightarrow> n \<in> set (disabled_names es) \<longleftrightarrow>
     (\<exists>k. case map_of es k of None \<Rightarrow> False | Some l \<Rightarrow> \<exists>d\<in>set l. (n, disabledStatusStr) \<in> set d)"
proof -
  have "(case x of None \<Rightarrow> False | Some l \<Rightarrow> P l) \<longleftrightarrow> (\<exists>l. x = Some l \<and> P l)" for x :: "'a option" and P
    by (cases x) simp_all
  note c = this
  assume "go_map es"
  then show ?thesis by (simp add: in_disabled_names Bex_def go_map_in_set c split_paired_Ex)
qed

lemma add_display_names:
  assumes "entries_ok es"
  shows "n' \<in> set (disabled_names (add_display k n s es)) \<longleftrightarrow>
    n' \<in> set (disabled_names es) \<or> n' = n \<and> s = disabledStatusStr"
proof -
  let ?N = "\<lambda>x. case x of None \<Rightarrow> False | Some l \<Rightarrow> \<exists>d\<in>set l. (n', disabledStatusStr) \<in> set d"
  from assms have g: "go_map es" by (simp add: entries_ok_def)
  have k: "?N (map_of (add_display k n s es) j) \<longleftrightarrow> ?N (map_of es j) \<or> j = k \<and> n' = n \<and> s = disabledStatusStr" for j
    by (cases "map_of es k") (auto simp: add_display_def update_conv')
  have g': "go_map (add_display k n s es)" using g by (simp add: add_display_def go_map_update)
  show ?thesis unfolding in_disabled_names_map_of [OF g] in_disabled_names_map_of [OF g'] k by blast
qed

lemma DisplayDisabledMap_addEntry_alt:
  "DisplayDisabledMap_addEntry path k n s ddm = AList.update path (add_display k n s (map_or_empty ddm path)) ddm"
  by (simp add: DisplayDisabledMap_addEntry_def add_display_def Let_def)

lemma display_ok_update:
  assumes "display_ok ddm" "entries_ok es"
  shows "display_ok (AList.update path es ddm)"
proof -
  from assms(1) have g: "go_map ddm" by (simp add: display_ok_def)
  have "entries_ok es'" if "(p, es') \<in> set (AList.update path es ddm)" for p es'
    using that assms unfolding go_map_update_set [OF g] display_ok_def by (auto split: if_splits)
  with g show ?thesis by (auto simp: display_ok_def go_map_update)
qed

lemma display_param_alt:
  "display_param dmc limited path opName p ddm =
     (if \<not> isDisabled dmc path opName (Name p) \<and> limited then ddm
      else AList.update path
        (add_display (if Required p then requiredParameterStr else optionalParameterStr) (Name p)
          (if isDisabled dmc path opName (Name p) then disabledStatusStr else enabledStatusStr) (map_or_empty ddm path)) ddm)"
  by (simp add: display_param_def Let_def DisplayDisabledMap_addEntry_alt)

lemma display_param_step:
  assumes "display_ok ddm"
  shows "display_ok (display_param dmc limited path opName p ddm)"
    and "n \<in> set (disabled_names (map_or_empty (display_param dmc limited path opName p ddm) path')) \<longleftrightarrow>
      n \<in> set (disabled_names (map_or_empty ddm path')) \<or>
      path' = path \<and> n = Name p \<and> isDisabled dmc path opName (Name p)"
proof -
  note e = display_ok_entries [OF assms, of path]
  show "display_ok (display_param dmc limited path opName p ddm)"
    unfolding display_param_alt using assms by (simp add: display_ok_update add_display_ok [OF e])
  have "enabledStatusStr \<noteq> disabledStatusStr" by (simp add: disabledStatusStr_def enabledStatusStr_def)
  then show "n \<in> set (disabled_names (map_or_empty (display_param dmc limited path opName p ddm) path')) \<longleftrightarrow>
      n \<in> set (disabled_names (map_or_empty ddm path')) \<or>
      path' = path \<and> n = Name p \<and> isDisabled dmc path opName (Name p)"
    unfolding display_param_alt by (auto simp: add_display_names [OF display_ok_entries [OF assms]])
qed

lemma display_param_paths:
  "fst ` set (display_param dmc limited path opName p ddm) \<subseteq> insert path (fst ` set ddm)"
  by (auto simp: display_param_alt dom_update)

lemma display_params_paths:
  "fst ` set (fold (display_param dmc limited path opName) ps ddm) \<subseteq> insert path (fst ` set ddm)"
proof (induction ps arbitrary: ddm)
  case (Cons p ps)
  show ?case
    using Cons.IH [of "display_param dmc limited path opName p ddm"] display_param_paths [of dmc limited path opName p ddm]
    by auto
qed auto

lemma display_operations_paths:
  "fst ` set (fold (\<lambda>(path, opName, op). fold (display_param dmc limited path opName) (Parameters op)) ops ddm) \<subseteq>
   fst ` set ops \<union> fst ` set ddm"
proof (induction ops arbitrary: ddm)
  case (Cons x ops)
  obtain path opName op where x: "x = (path, opName, op)" by (cases x)
  show ?case
    using Cons.IH [of "fold (display_param dmc limited path opName) (Parameters op) ddm"]
      display_params_paths [of dmc limited path opName "Parameters op" ddm] x by auto
qed simp

lemma display_params_fold:
  assumes "display_ok ddm"
  shows "display_ok (fold (display_param dmc limited path opName) ps ddm)"
    and "n \<in> set (disabled_names (map_or_empty (fold (display_param dmc limited path opName) ps ddm) path')) \<longleftrightarrow>
      n \<in> set (disabled_names (map_or_empty ddm path')) \<or>
      path' = path \<and> (\<exists>p\<in>set ps. n = Name p \<and> isDisabled dmc path opName (Name p))"
proof -
  show "display_ok (fold (display_param dmc limited path opName) ps ddm)"
    using assms by (induction ps arbitrary: ddm) (simp_all add: display_param_step(1))
  show "n \<in> set (disabled_names (map_or_empty (fold (display_param dmc limited path opName) ps ddm) path')) \<longleftrightarrow>
      n \<in> set (disabled_names (map_or_empty ddm path')) \<or>
      path' = path \<and> (\<exists>p\<in>set ps. n = Name p \<and> isDisabled dmc path opName (Name p))"
    using assms
  proof (induction ps arbitrary: ddm)
    case (Cons p ps)
    show ?case
      unfolding fold_simps(2) Cons.IH [OF display_param_step(1) [OF Cons.prems]] display_param_step(2) [OF Cons.prems] by auto
  qed simp
qed

lemma display_operations_fold:
  assumes "display_ok ddm"
  shows "display_ok (fold (\<lambda>(path, opName, op). fold (display_param dmc limited path opName) (Parameters op)) ops ddm)"
    and "n \<in> set (disabled_names (map_or_empty
        (fold (\<lambda>(path, opName, op). fold (display_param dmc limited path opName) (Parameters op)) ops ddm) path')) \<longleftrightarrow>
      n \<in> set (disabled_names (map_or_empty ddm path')) \<or>
      (\<exists>(path, opName, op)\<in>set ops. path' = path \<and>
         (\<exists>p\<in>set (Parameters op). n = Name p \<and> isDisabled dmc path opName (Name p)))"
proof -
  show "display_ok (fold (\<lambda>(path, opName, op). fold (display_param dmc limited path opName) (Parameters op)) ops ddm)"
    using assms by (induction ops arbitrary: ddm) (simp_all add: display_params_fold(1) split: prod.split)
  show "n \<in> set (disabled_names (map_or_empty
        (fold (\<lambda>(path, opName, op). fold (display_param dmc limited path opName) (Parameters op)) ops ddm) path')) \<longleftrightarrow>
      n \<in> set (disabled_names (map_or_empty ddm path')) \<or>
      (\<exists>(path, opName, op)\<in>set ops. path' = path \<and>
         (\<exists>p\<in>set (Parameters op). n = Name p \<and> isDisabled dmc path opName (Name p)))"
    using assms
  proof (induction ops arbitrary: ddm)
    case (Cons x ops)
    obtain path opName op where x: "x = (path, opName, op)" by (cases x)
    note ok = display_params_fold(1) [OF Cons.prems, of dmc limited path opName "Parameters op"]
    show ?case
      unfolding x fold_simps(2) prod.case Cons.IH [OF ok] display_params_fold(2) [OF Cons.prems] by auto
  qed simp
qed

lemma MakeDisplayDisabledMapFromConfig_names:
  "display_ok (MakeDisplayDisabledMapFromConfig swag dmc limited)"
  "n \<in> set (disabled_names (map_or_empty (MakeDisplayDisabledMapFromConfig swag dmc limited) path)) \<longleftrightarrow>
     (\<exists>opName op. (path, opName, op) \<in> set (operations swag) \<and>
        (\<exists>p\<in>set (Parameters op). n = Name p \<and> isDisabled dmc path opName (Name p)))"
proof -
  have "display_ok []" by (simp add: display_ok_def go_map_def)
  note f = display_operations_fold [OF this, where dmc = dmc and limited = limited and ops = "operations swag"]
  show "display_ok (MakeDisplayDisabledMapFromConfig swag dmc limited)"
    using f(1) by (simp add: MakeDisplayDisabledMapFromConfig_def makeDisplayDisabledMap_def fold_operations)
  show "n \<in> set (disabled_names (map_or_empty (MakeDisplayDisabledMapFromConfig swag dmc limited) path)) \<longleftrightarrow>
     (\<exists>opName op. (path, opName, op) \<in> set (operations swag) \<and>
        (\<exists>p\<in>set (Parameters op). n = Name p \<and> isDisabled dmc path opName (Name p)))"
    using f(2) [where n = n and path' = path]
    by (auto simp: MakeDisplayDisabledMapFromConfig_def makeDisplayDisabledMap_def fold_operations in_disabled_names)
qed

text \<open>The configuration that is read from a display map.\<close>

definition config_of :: "DisplayDisabledMap \<Rightarrow> DisabledMapConfig" where
  "config_of ddm = fold (\<lambda>(path, es). DisabledMapConfig_addEntry path MethodGet (disabled_names es)) ddm []"

lemma config_of_fold:
  "go_map ddm \<Longrightarrow> (\<And>path. path \<in> fst ` set ddm \<Longrightarrow> map_or_empty dmc path = []) \<Longrightarrow>
   map_or_empty (fold (\<lambda>(path, es). DisabledMapConfig_addEntry path MethodGet (disabled_names es)) ddm dmc) path =
     (case map_of ddm path of None \<Rightarrow> map_or_empty dmc path | Some es \<Rightarrow> [(MethodGet, disabled_names es)])"
proof (induction ddm arbitrary: dmc)
  case (Cons entry ddm)
  obtain p es where entry: "entry = (p, es)" by (cases entry)
  have p: "p \<notin> fst ` set ddm" and gm: "go_map ddm" using Cons.prems(1) entry by (auto simp: go_map_def)
  moreover have "map_or_empty dmc p = []" using Cons.prems(2) entry by auto
  ultimately have add: "map_or_empty (DisabledMapConfig_addEntry p MethodGet (disabled_names es) dmc) q =
      (if q = p then [(MethodGet, disabled_names es)] else map_or_empty dmc q)" for q
    by (simp add: DisabledMapConfig_addEntry_def)
  have "map_or_empty (DisabledMapConfig_addEntry p MethodGet (disabled_names es) dmc) q = []" if "q \<in> fst ` set ddm" for q
    using that p Cons.prems(2) [of q] entry by (auto simp: add)
  note IH = Cons.IH [OF gm this]
  have "map_of ddm p = None" using p by (simp add: map_of_eq_None_iff)
  then show ?case using IH by (simp add: entry add split: option.split)
qed simp

lemma config_of_isDisabled:
  "go_map ddm \<Longrightarrow> isDisabled (config_of ddm) path MethodGet n \<longleftrightarrow> n \<in> set (disabled_names (map_or_empty ddm path))"
  using config_of_fold [of ddm "[]" path]
  by (auto simp: isDisabled_def config_of_def map_or_empty_def list_ex_iff in_disabled_names split: option.splits)

text \<open>Every operation of the description is a \<open>GET\<close>, and looking it up finds it; a path may have no
  operation.\<close>

definition get_only :: "openapi \<Rightarrow> bool" where
  "get_only swag \<longleftrightarrow> go_map swag \<and>
     (\<forall>(path, item)\<in>set swag. Operations item = [] \<or>
        (\<exists>op. Operations item = [(MethodGet, op)] \<and> GetOperation item MethodGet = Some (Some op)))"

lemma get_only_operations:
  assumes "get_only swag"
  shows "(path, opName, op) \<in> set (operations swag) \<longleftrightarrow>
    (\<exists>item. map_of swag path = Some item \<and> opName = MethodGet \<and> Operations item = [(MethodGet, op)] \<and>
       GetOperation item MethodGet = Some (Some op))"
proof -
  have g: "go_map swag" using assms by (simp add: get_only_def)
  have "(path, opName, op) \<in> set (operations swag) \<longleftrightarrow>
      (\<exists>item. (path, item) \<in> set swag \<and> (opName, op) \<in> set (Operations item))"
    by (auto simp: operations_def)
  moreover have "(path, item) \<in> set swag \<Longrightarrow> (opName, op) \<in> set (Operations item) \<longleftrightarrow>
      opName = MethodGet \<and> Operations item = [(MethodGet, op)] \<and> GetOperation item MethodGet = Some (Some op)" for item
    using assms unfolding get_only_def by fastforce
  ultimately show ?thesis unfolding go_map_in_set [OF g] by blast
qed

lemma map_of_config_of: "(path, ops) \<in> set (config_of ddm) \<Longrightarrow> go_map ddm \<Longrightarrow>
   \<exists>es. map_of ddm path = Some es \<and> ops = [(MethodGet, disabled_names es)]"
proof -
  have g: "go_map (fold (\<lambda>(path, es). DisabledMapConfig_addEntry path MethodGet (disabled_names es)) xs dmc)"
    if "go_map dmc" for xs dmc
    using that by (induction xs arbitrary: dmc) (auto simp: DisabledMapConfig_addEntry_def go_map_update)
  have d: "fst ` set (fold (\<lambda>(path, es). DisabledMapConfig_addEntry path MethodGet (disabled_names es)) xs dmc) =
      fst ` set dmc \<union> fst ` set xs" for xs dmc
  proof (induction xs arbitrary: dmc)
    case (Cons x xs)
    then show ?case by (cases x) (simp add: DisabledMapConfig_addEntry_def dom_update)
  qed simp
  assume a: "(path, ops) \<in> set (config_of ddm)" and "go_map ddm"
  have "go_map (config_of ddm)" using g [of "[]" ddm] by (simp add: config_of_def go_map_def)
  with a have "map_or_empty (config_of ddm) path = ops" by (simp add: map_or_empty_def go_map_in_set)
  moreover have "path \<in> fst ` set ddm" using a d [of ddm "[]"] by (force simp: config_of_def)
  then obtain es where "map_of ddm path = Some es" by (auto simp: map_of_eq_Some_iff dest: weak_map_of_SomeI)
  ultimately show ?thesis using config_of_fold [OF \<open>go_map ddm\<close>, of "[]" path] by (simp add: config_of_def)
qed

lemma display_config_known:
  assumes "get_only swag"
  shows "list_all (known_path swag) (config_of (MakeDisplayDisabledMapFromConfig swag dmc limited))"
  unfolding list_all_iff
proof clarify
  let ?ddm = "MakeDisplayDisabledMapFromConfig swag dmc limited"
  fix path ops assume a: "(path, ops) \<in> set (config_of ?ddm)"
  have g: "go_map ?ddm" using MakeDisplayDisabledMapFromConfig_names(1) by (simp add: display_ok_def)
  obtain es where es: "map_of ?ddm path = Some es" "ops = [(MethodGet, disabled_names es)]"
    using map_of_config_of [OF a g] by blast
  have "path \<in> fst ` set (operations swag)"
    using display_operations_paths [of dmc limited "operations swag" "[]"] es(1)
    by (force simp: MakeDisplayDisabledMapFromConfig_def makeDisplayDisabledMap_def fold_operations dest: map_of_SomeD)
  then obtain item op where item: "map_of swag path = Some item" "Operations item = [(MethodGet, op)]"
      "GetOperation item MethodGet = Some (Some op)"
    using get_only_operations [OF assms] by fastforce
  have "n \<in> Name ` set (Parameters op)" if "n \<in> set (disabled_names es)" for n
  proof -
    have "n \<in> set (disabled_names (map_or_empty ?ddm path))" using that es(1) by (simp add: map_or_empty_def)
    then obtain opName op' p where "(path, opName, op') \<in> set (operations swag)" "p \<in> set (Parameters op')" "n = Name p"
      unfolding MakeDisplayDisabledMapFromConfig_names(2) by blast
    with item show ?thesis using get_only_operations [OF assms, of path opName op'] by auto
  qed
  then show "known_path swag (path, ops)"
    by (auto simp: known_path_def known_params_def item es(2) list_all_iff)
qed

text \<open>C31: a configuration that is written out as a display map and read back disables the same parameters of
  the API, and it is accepted by the validation; this holds for the full map and for the one limited
  to disabled parameters.\<close>

theorem display_roundtrip:
  assumes "get_only swag"
  shows "\<exists>dmc'. toDisabledMapConfig (MakeDisplayDisabledMapFromConfig swag dmc limited) (Some swag) = Some (Inr dmc') \<and>
    (\<forall>(path, opName, op)\<in>set (operations swag). \<forall>p\<in>set (Parameters op).
       isDisabled dmc' path opName (Name p) = isDisabled dmc path opName (Name p))"
proof -
  let ?ddm = "MakeDisplayDisabledMapFromConfig swag dmc limited"
  have g: "go_map ?ddm" using MakeDisplayDisabledMapFromConfig_names(1) by (simp add: display_ok_def)
  note names = config_of_isDisabled [OF g] MakeDisplayDisabledMapFromConfig_names(2) [of _ swag dmc limited]
  have get: "(path, opName, op) \<in> set (operations swag) \<Longrightarrow> opName = MethodGet" for path opName op
    using get_only_operations [OF assms] by blast
  have same: "isDisabled (config_of ?ddm) path opName (Name p) = isDisabled dmc path opName (Name p)"
    if "(path, opName, op) \<in> set (operations swag)" "p \<in> set (Parameters op)" for path opName op p
  proof -
    have "isDisabled (config_of ?ddm) path MethodGet (Name p) \<longleftrightarrow>
        (\<exists>opName op. (path, opName, op) \<in> set (operations swag) \<and>
           (\<exists>p'\<in>set (Parameters op). Name p = Name p' \<and> isDisabled dmc path opName (Name p')))"
      by (simp only: names)
    also have "\<dots> \<longleftrightarrow> isDisabled dmc path opName (Name p)"
      using that get [of path] get [OF that(1)] by metis
    finally show ?thesis using get [OF that(1)] by simp
  qed
  have "toDisabledMapConfig ?ddm (Some swag) = Some (Inr (config_of ?ddm))"
    using display_config_known [OF assms, of dmc limited] display_ok_schema [OF MakeDisplayDisabledMapFromConfig_names(1)]
    unfolding validate_accepts [symmetric]
    by (simp add: toDisabledMapConfig_def MakeDisabledMapConfig_def config_of_def Let_def)
  moreover have "\<forall>(path, opName, op)\<in>set (operations swag). \<forall>p\<in>set (Parameters op).
       isDisabled (config_of ?ddm) path opName (Name p) = isDisabled dmc path opName (Name p)"
    by (clarify, rule same)
  ultimately show ?thesis by (intro exI conjI)
qed

theorem display_roundtrip_witness:
  "get_only example_openapi \<and>
   (\<exists>dmc'. toDisabledMapConfig (MakeDisplayDisabledMapFromConfig example_openapi example_disabled True) (Some example_openapi) =
       Some (Inr dmc') \<and> isDisabled dmc' ''/v2/assets'' ''GET'' ''name'' \<and> \<not> isDisabled dmc' ''/v2/assets'' ''GET'' ''limit'')"
proof -
  have g: "get_only example_openapi"
    by (simp add: get_only_def go_map_def example_openapi_def MethodGet_def)
  obtain dmc' where d: "toDisabledMapConfig (MakeDisplayDisabledMapFromConfig example_openapi example_disabled True) (Some example_openapi) =
       Some (Inr dmc')"
    and "\<forall>(path, opName, op)\<in>set (operations example_openapi). \<forall>p\<in>set (Parameters op).
       isDisabled dmc' path opName (Name p) = isDisabled example_disabled path opName (Name p)"
    using display_roundtrip [OF g, of example_disabled True] by (elim exE conjE)
  then have "isDisabled dmc' ''/v2/assets'' ''GET'' ''name''" "\<not> isDisabled dmc' ''/v2/assets'' ''GET'' ''limit''"
    by (simp_all add: example_openapi_facts(2) example_operation_def example_disabled_names)
  with g d show ?thesis by blast
qed

end
