(* ===== verification/ResourceLaws.thy ===== *)
theory ResourceLaws
  imports Paging TxnQueryLaws SearchLaws DisabledLaws
begin

text \<open>
  The searches for assets, balances, applications, local states and boxes: the queries with their
  arguments select exactly the rows the parameters ask for, and each endpoint keeps the contract of a
  paged search.
\<close>

section \<open>The terms of the queries\<close>

lemma local_col_terms [query_simps]:
  "local_part (eval_col like v) (EqTerm c)" "local_part (eval_col like v) (GtTerm c)"
  "local_part (eval_col like v) (LtTerm c)" "local_part (eval_col like v) (ILikeTerm k)"
  "local_part (eval_col like v) (ILikeEitherTerm k k')"
  by (simp_all add: local_part_def)

lemma add_like_aligned [query_simps]:
  assumes "aligned ev b" and "local_part ev P"
  shows "aligned ev (add_like P s b)"
    and "holds ev (add_like P s b) \<longleftrightarrow> holds ev b \<and> (s \<noteq> [] \<longrightarrow> ev [ArgS (like_pattern s)] (P 1))"
  using assms by (simp_all add: add_like_def query_simps)

lemma not_term_fixed: "eval_col like v as (NotTerm c) = eval_col like v [] (NotTerm c)"
  by simp

lemma exec_select_matches:
  assumes "qa = (case b of (ps, as, n) \<Rightarrow> (\<lparr>sq_select = sel, sq_where = ps, sq_order = ord, sq_limit = l\<rparr>, as))"
    and "\<And>r. holds (eval_col like (view r)) b \<longleftrightarrow> matches r"
  shows "exec_select like view key rows qa = limit_or_all l (sort_key key (filter matches rows))"
proof -
  obtain ps as n where "b = (ps, as, n)" by (cases b)
  with assms show ?thesis by (simp add: exec_select_def holds_def)
qed

lemmas col_simps = query_simps not_term_fixed option_holds_def conj_assoc

text \<open>What the parameters of a search for assets ask for.\<close>

definition asset_matches :: "'j text_server \<Rightarrow> AssetsQuery \<Rightarrow> 'j asset_row \<Rightarrow> bool" where
  "asset_matches srv q r \<longleftrightarrow>
     given (\<lambda>i. as_index r = i) (aq_AssetID q) \<and> given (\<lambda>i. i < as_index r) (aq_AssetIDGreaterThan q) \<and>
     given (\<lambda>a. as_creator_addr r = a) (aq_Creator q) \<and>
     (aq_Name q \<noteq> [] \<longrightarrow> option_holds (\<lambda>s. ilike srv s (like_pattern (aq_Name q))) (params_string srv ''an'' (as_params r))) \<and>
     (aq_Unit q \<noteq> [] \<longrightarrow> option_holds (\<lambda>s. ilike srv s (like_pattern (aq_Unit q))) (params_string srv ''un'' (as_params r))) \<and>
     (aq_Query q \<noteq> [] \<longrightarrow>
        option_holds (\<lambda>s. ilike srv s (like_pattern (aq_Query q))) (params_string srv ''un'' (as_params r)) \<or>
        option_holds (\<lambda>s. ilike srv s (like_pattern (aq_Query q))) (params_string srv ''an'' (as_params r))) \<and>
     (aq_IncludeDeleted q \<or> \<not> as_deleted r)"

lemma exec_assets_query:
  "exec_select (ilike srv) (asset_view srv) key rows (assets_query q) =
     limit_or_all (aq_Limit q) (sort_key key (filter (asset_matches srv q) rows))"
  by (rule exec_select_matches [OF assets_query_def], cases "aq_IncludeDeleted q")
    (simp_all add: col_simps asset_view_def asset_matches_def del: One_nat_def)

definition balance_matches :: "AssetBalanceQuery \<Rightarrow> account_asset_row \<Rightarrow> bool" where
  "balance_matches q r \<longleftrightarrow>
     given (\<lambda>i. aa_assetid r = i) (abq_AssetID q) \<and> given (\<lambda>i. i < aa_assetid r) (abq_AssetIDGT q) \<and>
     given (\<lambda>a. aa_addr r = a) (abq_Address q) \<and>
     given (\<lambda>n. n < aa_amount r) (abq_AmountGT q) \<and> given (\<lambda>n. aa_amount r < n) (abq_AmountLT q) \<and>
     given (\<lambda>a. a = [] \<or> a < aa_addr r) (abq_PrevAddress q) \<and>
     (abq_IncludeDeleted q \<or> \<not> aa_deleted r)"

lemma exec_asset_balances_query:
  "exec_select like holding_view key rows (asset_balances_query q) =
     limit_or_all (abq_Limit q) (sort_key key (filter (balance_matches q) rows))"
  by (rule exec_select_matches [OF asset_balances_query_def], cases "abq_IncludeDeleted q"; cases "abq_PrevAddress q")
    (simp_all add: col_simps holding_view_def balance_matches_def del: One_nat_def)

definition application_matches :: "ApplicationQuery \<Rightarrow> uint64 \<Rightarrow> Address \<Rightarrow> bool \<Rightarrow> bool" where
  "application_matches q i addr deleted \<longleftrightarrow>
     given (\<lambda>v. i = v) (apq_ApplicationID q) \<and> given (\<lambda>a. addr = a) (apq_Address q) \<and>
     given (\<lambda>v. v < i) (apq_ApplicationIDGreaterThan q) \<and> (apq_IncludeDeleted q \<or> \<not> deleted)"

lemma exec_applications_query:
  "exec_select like app_view key rows (applications_query q) =
     limit_or_all (apq_Limit q)
       (sort_key key (filter (\<lambda>r. application_matches q (app_index r) (app_creator r) (app_deleted r)) rows))"
  by (rule exec_select_matches [OF applications_query_def], cases "apq_IncludeDeleted q")
    (simp_all add: col_simps application_terms_def app_view_def application_matches_def del: One_nat_def)

lemma exec_app_local_state_query:
  "exec_select like local_state_view key rows (app_local_state_query q) =
     limit_or_all (apq_Limit q)
       (sort_key key (filter (\<lambda>r. application_matches q (al_app r) (al_addr r) (al_deleted r)) rows))"
  by (rule exec_select_matches [OF app_local_state_query_def], cases "apq_IncludeDeleted q")
    (simp_all add: col_simps application_terms_def local_state_view_def application_matches_def del: One_nat_def)

section \<open>Pages of the endpoints\<close>

text \<open>The objects and the token of an answer.\<close>

definition page_pair :: "http_error + 'a page_response \<Rightarrow> http_error + 'a list \<times> string option" where
  "page_pair r = (case r of Inl e \<Rightarrow> Inl e | Inr p \<Rightarrow> Inr (pr_Items p, pr_NextToken p))"

lemma page_pair_fetched:
  assumes "fetched = Inr (map render (limit_or_all l rs), rnd)"
    and "\<And>r. r \<in> set rs \<Longrightarrow> strPtr (tok (render r)) = Some (token r)"
  shows "page_pair (http_bind (indexer_result msg fetched) (\<lambda>f. Inr (page_of tok f))) = Inr (first_page render token l rs)"
proof -
  have "rs \<noteq> [] \<Longrightarrow> last (limit_or_all l rs) \<in> set rs"
    using set_limit_or_all [of l rs] last_in_set [of "limit_or_all l rs"] by auto
  then have "rs \<noteq> [] \<Longrightarrow> strPtr (tok (render (last (limit_or_all l rs)))) = Some (token (last (limit_or_all l rs)))"
    using assms(2) by blast
  from page_of_first_page [of rs tok render l token, OF this] show ?thesis
    by (simp add: assms(1) page_pair_def)
qed

subsection \<open>Assets\<close>

text \<open>A stored asset that can be shown, and what is shown of it.\<close>

definition asset_readable :: "'j api_env \<Rightarrow> 'j asset_row \<Rightarrow> bool" where
  "asset_readable si r \<longleftrightarrow> length (as_creator_addr r) = 32 \<and> \<not> isl (DecodeAssetParams (si_codec si) (as_params r))"

definition asset_answer :: "'j api_env \<Rightarrow> 'j asset_row \<Rightarrow> Asset" where
  "asset_answer si r =
     \<lparr>mas_CreatedAtRound = Some (as_created_at r), mas_Deleted = Some (as_deleted r),
      mas_DestroyedAtRound = as_closed_at r, mas_Index = as_index r,
      mas_Params = asset_params_model si (as_creator_addr r) (projr (DecodeAssetParams (si_codec si) (as_params r)))\<rparr>"

lemma asset_shown:
  assumes "asset_readable si r"
  shows "asset_record (si_codec si) r = (fst (asset_record (si_codec si) r), True) \<and>
    ar_Error (fst (asset_record (si_codec si) r)) = None \<and>
    asset_model si (fst (asset_record (si_codec si) r)) = Inr (asset_answer si r)"
proof -
  from assms obtain p where "DecodeAssetParams (si_codec si) (as_params r) = Inr p" "length (as_creator_addr r) = 32"
    by (auto simp: asset_readable_def isl_def) (metis sum.exhaust)
  then show ?thesis by (simp add: asset_record_def asset_model_def asset_answer_def)
qed

definition found_assets :: "'j api_env \<Rightarrow> AssetsQuery \<Rightarrow> 'j asset_row list" where
  "found_assets si q = sort_key as_index (filter (asset_matches (si_text si) q) (tbl_asset (si_tables si)))"

lemma fetchAssets_answers:
  assumes "answers si rnd" and "\<And>r. r \<in> set (found_assets si q) \<Longrightarrow> asset_readable si r"
  shows "fetchAssets si q = Inr (map (asset_answer si) (limit_or_all (aq_Limit q) (found_assets si q)), rnd)"
  unfolding fetchAssets_def Assets_def exec_assets_query yieldAssetsThread_def found_assets_def [symmetric]
  by (rule fetch_rows [OF assms(1)]) (rule asset_shown [OF assms(2)])

type_synonym 'j assets_search = "'j api_env \<times> request \<times> SearchForAssetsParams"

text \<open>The query of a search without its page token.\<close>

definition assets_base :: "'j assets_search \<Rightarrow> AssetsQuery" where
  "assets_base = (\<lambda>(si, ctx, params). projr (assetParamsToAssetQuery (si_sdk si) (si_opts si) (params\<lparr>sap_Next := None\<rparr>)))"

definition assets_invar :: "'j assets_search \<Rightarrow> bool" where
  "assets_invar = (\<lambda>(si, ctx, params).
     (\<exists>rnd. answers si rnd) \<and> enabled si ''SearchForAssets'' ctx \<and> \<not> exceeds (sap_AssetId params) \<and>
     given (address_ok (si_sdk si)) (sap_Creator params) \<and> key_unique as_index (tbl_asset (si_tables si)) \<and>
     list_all (asset_readable si) (found_assets si (assets_base (si, ctx, params))))"

definition assets_request :: "'j assets_search \<Rightarrow> string option \<Rightarrow> http_error + Asset list \<times> string option" where
  "assets_request = (\<lambda>(si, ctx, params) next. page_pair (SearchForAssets si ctx (params\<lparr>sap_Next := next\<rparr>)))"

definition assets_rows :: "'j assets_search \<Rightarrow> 'j asset_row list" where
  "assets_rows s = found_assets (fst s) (assets_base s)"

lemma decode_creator_ok:
  assumes "given (address_ok env) creator"
  shows "\<exists>a. decode_creator env creator = Inr a"
  using assms by (cases creator) (auto simp: decode_creator_def address_ok_def isl_def res_wrap_def split: sum.splits)

lemma assets_query_pages:
  assumes "given (address_ok (si_sdk si)) (sap_Creator params)"
  shows "assetParamsToAssetQuery (si_sdk si) (si_opts si) (params\<lparr>sap_Next := None\<rparr>) = Inr (assets_base (si, ctx, params))"
    and "assetParamsToAssetQuery (si_sdk si) (si_opts si) (params\<lparr>sap_Next := Some (FormatUint i)\<rparr>) =
      Inr ((assets_base (si, ctx, params))\<lparr>aq_AssetIDGreaterThan := Some i\<rparr>)"
    and "aq_AssetIDGreaterThan (assets_base (si, ctx, params)) = None"
  using decode_creator_ok [OF assms]
  by (auto simp: assets_base_def assetParamsToAssetQuery_def decode_next_id_def ParseUint_FormatUint res_msg_def)

lemma found_assets_after:
  assumes "aq_AssetIDGreaterThan q = None"
  shows "found_assets si (q\<lparr>aq_AssetIDGreaterThan := Some i\<rparr>) = filter (\<lambda>r. i < as_index r) (found_assets si q)"
proof -
  have "asset_matches (si_text si) (q\<lparr>aq_AssetIDGreaterThan := Some i\<rparr>) =
      (\<lambda>r. asset_matches (si_text si) q r \<and> i < as_index r)"
    using assms by (auto simp: asset_matches_def fun_eq_iff)
  then show ?thesis by (simp add: found_assets_def sort_filter_conj)
qed

interpretation assets_pages: paged_search assets_invar assets_request assets_rows as_index
  "\<lambda>s. asset_answer (fst s)" "\<lambda>s r. FormatUint (as_index r)" "\<lambda>s. aq_Limit (assets_base s)"
proof unfold_locales
  fix s :: "'j assets_search"
  obtain si ctx params where s: "s = (si, ctx, params)" by (cases s)
  assume "assets_invar s"
  then obtain rnd where inv: "answers si rnd" "enabled si ''SearchForAssets'' ctx" "\<not> exceeds (sap_AssetId params)"
      "given (address_ok (si_sdk si)) (sap_Creator params)" "key_unique as_index (tbl_asset (si_tables si))"
      "list_all (asset_readable si) (found_assets si (assets_base s))"
    by (auto simp: assets_invar_def s)
  let ?q = "assets_base s"
  have fs: "fst s = si" by (simp add: s)
  note pages = assets_query_pages [OF inv(4), where ctx = ctx, folded s]
  show "sorted_wrt (<) (map as_index (assets_rows s))"
    unfolding assets_rows_def found_assets_def by (rule key_unique_filter_ascending) (simp add: s inv(5))
  have page: "assets_request s next = Inr (first_page (asset_answer si) (\<lambda>r. FormatUint (as_index r)) (aq_Limit ?q) (found_assets si q))"
    if "assetParamsToAssetQuery (si_sdk si) (si_opts si) (params\<lparr>sap_Next := next\<rparr>) = Inr q" "aq_Limit q = aq_Limit ?q"
      "set (found_assets si q) \<subseteq> set (found_assets si ?q)" for "next" q
  proof -
    have "fetchAssets si q = Inr (map (asset_answer si) (limit_or_all (aq_Limit ?q) (found_assets si q)), rnd)"
      using fetchAssets_answers [OF inv(1), of q] that(2,3) inv(6) by (auto simp: list_all_iff)
    from page_pair_fetched [OF this, of "\<lambda>a. FormatUint (mas_Index a)" "\<lambda>r. FormatUint (as_index r)"] show ?thesis
      using that(1) inv(2,3)
      by (simp add: assets_request_def s SearchForAssets_def enabled_verify bad_request_def asset_answer_def)
  qed
  show "assets_request s None = Inr (first_page (asset_answer (fst s)) (\<lambda>r. FormatUint (as_index r)) (aq_Limit ?q) (assets_rows s))"
    using page [OF pages(1)] by (simp add: assets_rows_def fs)
  show "assets_request s (Some (FormatUint (as_index r))) =
      Inr (first_page (asset_answer (fst s)) (\<lambda>r. FormatUint (as_index r)) (aq_Limit ?q)
        (filter (\<lambda>r'. as_index r < as_index r') (assets_rows s)))" for r
    using page [OF pages(2) [of "as_index r"]] by (simp add: assets_rows_def fs found_assets_after [OF pages(3)])
qed

subsection \<open>Applications\<close>

text \<open>Every stored application can be shown: parameters that do not decode are shown as empty ones.\<close>

definition application_answer :: "'j api_env \<Rightarrow> 'j app_row \<Rightarrow> Application" where
  "application_answer si r =
     \<lparr>ma_CreatedAtRound = Some (app_created_at r), ma_Deleted = Some (app_deleted r), ma_DeletedAtRound = app_closed_at r,
      ma_Id = app_index r,
      ma_Params = application_params (si_sdk si) (app_creator r) (projr (DecodeAppParams (si_codec si) (app_params r)))\<rparr>"

lemma application_shown:
  "application_record (si_sdk si) (si_codec si) r = (fst (application_record (si_sdk si) (si_codec si) r), True) \<and>
   apr_Error (fst (application_record (si_sdk si) (si_codec si) r)) = None \<and>
   Inr (apr_Application (fst (application_record (si_sdk si) (si_codec si) r))) = Inr (application_answer si r)"
  by (auto simp: application_record_def application_answer_def DecodeAppParams_def split: sum.split)

definition found_applications :: "'j api_env \<Rightarrow> ApplicationQuery \<Rightarrow> 'j app_row list" where
  "found_applications si q =
     sort_key app_index (filter (\<lambda>r. application_matches q (app_index r) (app_creator r) (app_deleted r)) (tbl_app (si_tables si)))"

lemma fetchApplications_answers:
  assumes "answers si rnd"
  shows "fetchApplications si q = Inr (map (application_answer si) (limit_or_all (apq_Limit q) (found_applications si q)), rnd)"
  unfolding fetchApplications_def Applications_def exec_applications_query yieldApplicationsThread_def
    found_applications_def [symmetric]
  by (rule fetch_rows [OF assms]) (rule application_shown)

type_synonym 'j applications_search = "'j api_env \<times> request \<times> SearchForApplicationsParams"

definition applications_base :: "'j applications_search \<Rightarrow> ApplicationQuery" where
  "applications_base = (\<lambda>(si, ctx, params).
     projr (appParamsToApplicationQuery (si_sdk si) (si_opts si) (params\<lparr>spp_Next := None\<rparr>)))"

lemma applications_query_pages:
  assumes "given (address_ok (si_sdk si)) (spp_Creator params)"
  shows "appParamsToApplicationQuery (si_sdk si) (si_opts si) (params\<lparr>spp_Next := None\<rparr>) =
      Inr (applications_base (si, ctx, params))"
    and "appParamsToApplicationQuery (si_sdk si) (si_opts si) (params\<lparr>spp_Next := Some (FormatUint i)\<rparr>) =
      Inr ((applications_base (si, ctx, params))\<lparr>apq_ApplicationIDGreaterThan := Some i\<rparr>)"
    and "apq_ApplicationIDGreaterThan (applications_base (si, ctx, params)) = None"
  using decode_creator_ok [OF assms]
  by (auto simp: applications_base_def appParamsToApplicationQuery_def decode_next_id_def ParseUint_FormatUint res_msg_def)

lemma application_matches_after:
  "apq_ApplicationIDGreaterThan q = None \<Longrightarrow>
   application_matches (q\<lparr>apq_ApplicationIDGreaterThan := Some i\<rparr>) j a d \<longleftrightarrow> application_matches q j a d \<and> i < j"
  by (auto simp: application_matches_def)

definition applications_invar :: "'j applications_search \<Rightarrow> bool" where
  "applications_invar = (\<lambda>(si, ctx, params).
     (\<exists>rnd. answers si rnd) \<and> enabled si ''SearchForApplications'' ctx \<and> \<not> exceeds (spp_ApplicationId params) \<and>
     given (address_ok (si_sdk si)) (spp_Creator params) \<and> key_unique app_index (tbl_app (si_tables si)))"

definition applications_request :: "'j applications_search \<Rightarrow> string option \<Rightarrow> http_error + Application list \<times> string option" where
  "applications_request = (\<lambda>(si, ctx, params) next. page_pair (SearchForApplications si ctx (params\<lparr>spp_Next := next\<rparr>)))"

definition applications_rows :: "'j applications_search \<Rightarrow> 'j app_row list" where
  "applications_rows s = found_applications (fst s) (applications_base s)"

interpretation applications_pages: paged_search applications_invar applications_request applications_rows app_index
  "\<lambda>s. application_answer (fst s)" "\<lambda>s r. FormatUint (app_index r)" "\<lambda>s. apq_Limit (applications_base s)"
proof unfold_locales
  fix s :: "'j applications_search"
  obtain si ctx params where s: "s = (si, ctx, params)" by (cases s)
  assume "applications_invar s"
  then obtain rnd where inv: "answers si rnd" "enabled si ''SearchForApplications'' ctx" "\<not> exceeds (spp_ApplicationId params)"
      "given (address_ok (si_sdk si)) (spp_Creator params)" "key_unique app_index (tbl_app (si_tables si))"
    by (auto simp: applications_invar_def s)
  let ?q = "applications_base s"
  have fs: "fst s = si" by (simp add: s)
  note pages = applications_query_pages [OF inv(4), where ctx = ctx, folded s]
  show "sorted_wrt (<) (map app_index (applications_rows s))"
    unfolding applications_rows_def found_applications_def by (rule key_unique_filter_ascending) (simp add: fs inv(5))
  have page: "applications_request s next =
      Inr (first_page (application_answer si) (\<lambda>r. FormatUint (app_index r)) (apq_Limit q) (found_applications si q))"
    if "appParamsToApplicationQuery (si_sdk si) (si_opts si) (params\<lparr>spp_Next := next\<rparr>) = Inr q" for "next" q
    using page_pair_fetched [OF fetchApplications_answers [OF inv(1), of q], of "\<lambda>a. FormatUint (ma_Id a)"
        "\<lambda>r. FormatUint (app_index r)"] that inv(2,3)
    by (simp add: applications_request_def s SearchForApplications_def enabled_verify bad_request_def application_answer_def)
  show "applications_request s None = Inr (first_page (application_answer (fst s)) (\<lambda>r. FormatUint (app_index r))
      (apq_Limit ?q) (applications_rows s))"
    using page [OF pages(1)] by (simp add: applications_rows_def fs)
  show "applications_request s (Some (FormatUint (app_index r))) =
      Inr (first_page (application_answer (fst s)) (\<lambda>r. FormatUint (app_index r)) (apq_Limit ?q)
        (filter (\<lambda>r'. app_index r < app_index r') (applications_rows s)))" for r
    using page [OF pages(2) [of "app_index r"]]
    by (simp add: applications_rows_def fs found_applications_def application_matches_after [OF pages(3)] sort_filter_conj)
qed

subsection \<open>Local states\<close>

definition local_state_readable :: "'j api_env \<Rightarrow> 'j account_app_row \<Rightarrow> bool" where
  "local_state_readable si r \<longleftrightarrow> \<not> isl (DecodeAppLocalState (si_codec si) (al_localstate r))"

definition local_state_answer :: "'j api_env \<Rightarrow> 'j account_app_row \<Rightarrow> ApplicationLocalState" where
  "local_state_answer si r = alr_AppLocalState (fst (local_state_record (si_codec si) r))"

lemma local_state_shown:
  assumes "local_state_readable si r"
  shows "local_state_record (si_codec si) r = (fst (local_state_record (si_codec si) r), True) \<and>
   alr_Error (fst (local_state_record (si_codec si) r)) = None \<and>
   Inr (alr_AppLocalState (fst (local_state_record (si_codec si) r))) = Inr (local_state_answer si r)"
  using assms by (auto simp: local_state_record_def local_state_answer_def local_state_readable_def isl_def Let_def split: sum.split)

lemma local_state_answer_Id [simp]: "mls_Id (local_state_answer si r) = al_app r"
  by (simp add: local_state_answer_def local_state_record_def Let_def split: sum.split)

definition found_local_states :: "'j api_env \<Rightarrow> ApplicationQuery \<Rightarrow> 'j account_app_row list" where
  "found_local_states si q =
     sort_key al_app (filter (\<lambda>r. application_matches q (al_app r) (al_addr r) (al_deleted r)) (tbl_account_app (si_tables si)))"

lemma fetchAppLocalStates_answers:
  assumes "answers si rnd" and "\<And>r. r \<in> set (found_local_states si q) \<Longrightarrow> local_state_readable si r"
  shows "fetchAppLocalStates si q = Inr (map (local_state_answer si) (limit_or_all (apq_Limit q) (found_local_states si q)), rnd)"
  unfolding fetchAppLocalStates_def AppLocalState_search_def exec_app_local_state_query yieldAppLocalStateThread_def
    found_local_states_def [symmetric]
  by (rule fetch_rows [OF assms(1)]) (rule local_state_shown [OF assms(2)])

type_synonym 'j account_lookup = "'j api_env \<times> request \<times> string \<times> account_lookup_params"

definition local_states_base :: "'j account_lookup \<Rightarrow> ApplicationQuery" where
  "local_states_base = (\<lambda>(si, ctx, accountID, params). applications_base (si, ctx, account_search accountID params))"

definition local_states_invar :: "'j account_lookup \<Rightarrow> bool" where
  "local_states_invar = (\<lambda>(si, ctx, accountID, params).
     (\<exists>rnd. answers si rnd) \<and> enabled si ''LookupAccountAppLocalStates'' ctx \<and> \<not> exceeds (alp_Id params) \<and>
     address_ok (si_sdk si) accountID \<and> key_unique al_key (tbl_account_app (si_tables si)) \<and>
     list_all (local_state_readable si) (found_local_states si (local_states_base (si, ctx, accountID, params))))"

definition local_states_request :: "'j account_lookup \<Rightarrow> string option \<Rightarrow> http_error + ApplicationLocalState list \<times> string option" where
  "local_states_request = (\<lambda>(si, ctx, accountID, params) next.
     page_pair (LookupAccountAppLocalStates si ctx accountID (params\<lparr>alp_Next := next\<rparr>)))"

definition local_states_rows :: "'j account_lookup \<Rightarrow> 'j account_app_row list" where
  "local_states_rows s = found_local_states (fst s) (local_states_base s)"

text \<open>The rows of one account have distinct applications.\<close>

lemma key_unique_fixed:
  assumes "key_unique (\<lambda>r. (f r, g r)) t" and "\<And>r. r \<in> set t \<Longrightarrow> P r \<Longrightarrow> f r = a"
  shows "distinct (map g (filter P t))"
proof -
  have "distinct (map (\<lambda>r. (f r, g r)) (filter P t))" using assms(1) by (simp add: key_unique_def distinct_map_filter)
  moreover have "inj_on g (set (filter P t))" if "inj_on (\<lambda>r. (f r, g r)) (set (filter P t))"
    using that assms(2) by (auto simp: inj_on_def)
  ultimately show ?thesis by (simp add: distinct_map)
qed

lemma account_search_next:
  "account_search accountID (params\<lparr>alp_Next := n\<rparr>) = (account_search accountID params)\<lparr>spp_Next := n\<rparr>"
  by (simp add: account_search_def)

interpretation local_states_pages: paged_search local_states_invar local_states_request local_states_rows al_app
  "\<lambda>s. local_state_answer (fst s)" "\<lambda>s r. FormatUint (al_app r)" "\<lambda>s. apq_Limit (local_states_base s)"
proof unfold_locales
  fix s :: "'j account_lookup"
  obtain si ctx accountID params where s: "s = (si, ctx, accountID, params)" by (cases s)
  assume "local_states_invar s"
  then obtain rnd where inv: "answers si rnd" "enabled si ''LookupAccountAppLocalStates'' ctx" "\<not> exceeds (alp_Id params)"
      "address_ok (si_sdk si) accountID" "key_unique al_key (tbl_account_app (si_tables si))"
      "list_all (local_state_readable si) (found_local_states si (local_states_base s))"
    by (auto simp: local_states_invar_def s)
  let ?q = "local_states_base s"
  have fs: "fst s = si" by (simp add: s)
  have "given (address_ok (si_sdk si)) (spp_Creator (account_search accountID params))"
    using inv(4) by (simp add: account_search_def)
  note pages = applications_query_pages [OF this, where ctx = ctx]
  have base: "applications_base (si, ctx, account_search accountID params) = ?q" by (simp add: local_states_base_def s)
  note pages = pages [unfolded base]
  obtain a where "DecodeAddress (si_sdk si) accountID = Inr a"
    using inv(4) by (cases "DecodeAddress (si_sdk si) accountID") (auto simp: address_ok_def)
  then have a: "apq_Address ?q = Some a"
    unfolding base [symmetric]
    by (simp add: applications_base_def appParamsToApplicationQuery_def account_search_def decode_creator_def
        decode_next_id_def res_wrap_def)
  show "sorted_wrt (<) (map al_app (local_states_rows s))"
    unfolding local_states_rows_def found_local_states_def fs
    by (rule ascending_sort_key, rule key_unique_fixed [OF inv(5), of _ a]) (simp add: application_matches_def a)
  have page: "local_states_request s next =
      Inr (first_page (local_state_answer si) (\<lambda>r. FormatUint (al_app r)) (apq_Limit q) (found_local_states si q))"
    if q: "appParamsToApplicationQuery (si_sdk si) (si_opts si) ((account_search accountID params)\<lparr>spp_Next := next\<rparr>) = Inr q"
      "set (found_local_states si q) \<subseteq> set (found_local_states si ?q)" for "next" q
  proof -
    have "r \<in> set (found_local_states si q) \<Longrightarrow> local_state_readable si r" for r
      using q(2) inv(6) by (auto simp: list_all_iff)
    note fetched = fetchAppLocalStates_answers [where q = q, OF inv(1) this]
    show ?thesis
      using page_pair_fetched [OF fetched, of "\<lambda>a. FormatUint (mls_Id a)" "\<lambda>r. FormatUint (al_app r)"] q(1) inv(2,3)
      by (simp add: local_states_request_def s LookupAccountAppLocalStates_def enabled_verify bad_request_def account_search_next)
  qed
  show "local_states_request s None = Inr (first_page (local_state_answer (fst s)) (\<lambda>r. FormatUint (al_app r))
      (apq_Limit ?q) (local_states_rows s))"
    using page [OF pages(1)] by (simp add: local_states_rows_def fs)
  have after: "found_local_states si (?q\<lparr>apq_ApplicationIDGreaterThan := Some i\<rparr>) =
      filter (\<lambda>r'. i < al_app r') (found_local_states si ?q)" for i
    by (simp add: found_local_states_def application_matches_after [OF pages(3)] sort_filter_conj)
  show "local_states_request s (Some (FormatUint (al_app r))) =
      Inr (first_page (local_state_answer (fst s)) (\<lambda>r. FormatUint (al_app r)) (apq_Limit ?q)
        (filter (\<lambda>r'. al_app r < al_app r') (local_states_rows s)))" for r
    using page [OF pages(2) [of "al_app r"]] by (simp add: local_states_rows_def fs after)
qed

subsection \<open>Balances\<close>

definition found_balances :: "'j api_env \<Rightarrow> AssetBalanceQuery \<Rightarrow> account_asset_row list" where
  "found_balances si q = sort_key aa_key (filter (balance_matches q) (tbl_account_asset (si_tables si)))"

definition holding_answer :: "account_asset_row \<Rightarrow> model_AssetHolding" where
  "holding_answer r =
     \<lparr>mh_Amount = aa_amount r, mh_AssetId = aa_assetid r, mh_Deleted = Some (aa_deleted r), mh_IsFrozen = aa_frozen r,
      mh_OptedInAtRound = Some (aa_created_at r), mh_OptedOutAtRound = aa_closed_at r\<rparr>"

definition balance_answer :: "'j api_env \<Rightarrow> account_asset_row \<Rightarrow> MiniAssetHolding" where
  "balance_answer si r =
     \<lparr>mah_Address = AddressString (si_sdk si) (aa_addr r), mah_Amount = aa_amount r, mah_Deleted = Some (aa_deleted r),
      mah_IsFrozen = aa_frozen r, mah_OptedInAtRound = Some (aa_created_at r), mah_OptedOutAtRound = aa_closed_at r\<rparr>"

abbreviation addresses_ok :: "'j main_tables \<Rightarrow> bool" where
  "addresses_ok db \<equiv> list_all (\<lambda>r. length (aa_addr r) = 32) (tbl_account_asset db)"

lemma found_balances_address:
  "addresses_ok (si_tables si) \<Longrightarrow> r \<in> set (found_balances si q) \<Longrightarrow> length (aa_addr r) = 32"
  by (simp add: found_balances_def list_all_iff)

lemma fetchAssetHoldings_answers:
  assumes "answers si rnd" "addresses_ok (si_tables si)"
  shows "fetchAssetHoldings si q = Inr (map holding_answer (limit_or_all (abq_Limit q) (found_balances si q)), rnd)"
  unfolding fetchAssetHoldings_def AssetBalances_def exec_asset_balances_query yieldAssetBalanceThread_def
    found_balances_def [symmetric]
  by (rule fetch_rows [OF assms(1)])
    (drule found_balances_address [OF assms(2)], simp add: balance_record_def holding_model_def holding_answer_def)

lemma fetchAssetBalances_answers:
  assumes "answers si rnd" "addresses_ok (si_tables si)"
  shows "fetchAssetBalances si q = Inr (map (balance_answer si) (limit_or_all (abq_Limit q) (found_balances si q)), rnd)"
  unfolding fetchAssetBalances_def AssetBalances_def exec_asset_balances_query yieldAssetBalanceThread_def
    found_balances_def [symmetric]
  by (rule fetch_rows [OF assms(1)])
    (drule found_balances_address [OF assms(2)],
     simp add: balance_record_def balance_model_def balance_answer_def copy_array_def zero_bytes_def)

text \<open>The holdings of one account come in the order of their assets, the balances of one asset in the
  order of their accounts.\<close>

lemma found_balances_account:
  assumes "abq_Address q = Some a"
  shows "found_balances si q = sort_key aa_assetid (filter (balance_matches q) (tbl_account_asset (si_tables si)))"
  unfolding found_balances_def by (rule sort_key_cong_on) (auto simp: balance_matches_def assms less_eq_prod_def)

lemma found_balances_asset:
  assumes "abq_AssetID q = Some i"
  shows "found_balances si q = sort_key aa_addr (filter (balance_matches q) (tbl_account_asset (si_tables si)))"
  unfolding found_balances_def by (rule sort_key_cong_on) (auto simp: balance_matches_def assms less_eq_prod_def)

definition holdings_base :: "'j account_lookup \<Rightarrow> AssetBalanceQuery" where
  "holdings_base = (\<lambda>(si, ctx, accountID, params).
     \<lparr>abq_AssetID = alp_Id params, abq_AssetIDGT = None, abq_AmountGT = None, abq_AmountLT = None,
      abq_Address = Some (projr (DecodeAddress (si_sdk si) accountID)),
      abq_IncludeDeleted = boolOrDefault (alp_IncludeAll params),
      abq_Limit = balances_limit si (alp_Limit params), abq_PrevAddress = None\<rparr>)"

definition holdings_invar :: "'j account_lookup \<Rightarrow> bool" where
  "holdings_invar = (\<lambda>(si, ctx, accountID, params).
     (\<exists>rnd. answers si rnd) \<and> enabled si ''LookupAccountAssets'' ctx \<and> \<not> exceeds (alp_Id params) \<and>
     address_ok (si_sdk si) accountID \<and> key_unique aa_key (tbl_account_asset (si_tables si)) \<and>
     addresses_ok (si_tables si))"

definition holdings_request :: "'j account_lookup \<Rightarrow> string option \<Rightarrow> http_error + model_AssetHolding list \<times> string option" where
  "holdings_request = (\<lambda>(si, ctx, accountID, params) next.
     page_pair (LookupAccountAssets si ctx accountID (params\<lparr>alp_Next := next\<rparr>)))"

definition holdings_rows :: "'j account_lookup \<Rightarrow> account_asset_row list" where
  "holdings_rows s = found_balances (fst s) (holdings_base s)"

interpretation holdings_pages: paged_search holdings_invar holdings_request holdings_rows aa_assetid
  "\<lambda>s. holding_answer" "\<lambda>s r. FormatUint (aa_assetid r)" "\<lambda>s. abq_Limit (holdings_base s)"
proof unfold_locales
  fix s :: "'j account_lookup"
  obtain si ctx accountID params where s: "s = (si, ctx, accountID, params)" by (cases s)
  assume "holdings_invar s"
  then obtain rnd where inv: "answers si rnd" "enabled si ''LookupAccountAssets'' ctx" "\<not> exceeds (alp_Id params)"
      "address_ok (si_sdk si) accountID" "key_unique aa_key (tbl_account_asset (si_tables si))" "addresses_ok (si_tables si)"
    by (auto simp: holdings_invar_def s)
  let ?q = "holdings_base s"
  have fs: "fst s = si" by (simp add: s)
  obtain a where a: "DecodeAddress (si_sdk si) accountID = Inr a"
    using inv(4) by (cases "DecodeAddress (si_sdk si) accountID") (auto simp: address_ok_def)
  then have q: "abq_Address ?q = Some a" "abq_AssetIDGT ?q = None" by (simp_all add: holdings_base_def s)
  show "sorted_wrt (<) (map aa_assetid (holdings_rows s))"
    unfolding holdings_rows_def found_balances_account [OF q(1)] fs
    by (rule ascending_sort_key, rule key_unique_fixed [OF inv(5), of _ a]) (simp add: balance_matches_def q)
  have page: "holdings_request s next =
      Inr (first_page holding_answer (\<lambda>r. FormatUint (aa_assetid r)) (abq_Limit ?q) (found_balances si (?q\<lparr>abq_AssetIDGT := gt\<rparr>)))"
    if "decode_next_id next = Inr gt" for "next" gt
    using page_pair_fetched [OF fetchAssetHoldings_answers [OF inv(1,6), of "?q\<lparr>abq_AssetIDGT := gt\<rparr>"],
        of "\<lambda>a. FormatUint (mh_AssetId a)" "\<lambda>r. FormatUint (aa_assetid r)"] that inv(2,3) a
    by (simp add: holdings_request_def holdings_base_def s LookupAccountAssets_def enabled_verify bad_request_def
        res_msg_def holding_answer_def)
  have "?q\<lparr>abq_AssetIDGT := None\<rparr> = ?q" by (simp add: holdings_base_def s)
  then show "holdings_request s None =
      Inr (first_page holding_answer (\<lambda>r. FormatUint (aa_assetid r)) (abq_Limit ?q) (holdings_rows s))"
    using page [of None None] by (simp add: holdings_rows_def fs decode_next_id_def)
  have m: "balance_matches (?q\<lparr>abq_AssetIDGT := Some i\<rparr>) = (\<lambda>r. balance_matches ?q r \<and> i < aa_assetid r)" for i
    using q(2) by (auto simp: balance_matches_def fun_eq_iff)
  have "found_balances si (?q\<lparr>abq_AssetIDGT := Some i\<rparr>) = filter (\<lambda>r'. i < aa_assetid r') (found_balances si ?q)" for i
    by (simp add: found_balances_def m sort_filter_conj)
  then show "holdings_request s (Some (FormatUint (aa_assetid r))) =
      Inr (first_page holding_answer (\<lambda>r. FormatUint (aa_assetid r)) (abq_Limit ?q)
        (filter (\<lambda>r'. aa_assetid r < aa_assetid r') (holdings_rows s)))" for r
    using page [of "Some (FormatUint (aa_assetid r))" "Some (aa_assetid r)"]
    by (simp add: holdings_rows_def fs decode_next_id_def ParseUint_FormatUint res_msg_def)
qed

text \<open>Addresses are read back from their text, which is never empty.\<close>

definition faithful_addresses :: "sdk \<Rightarrow> bool" where
  "faithful_addresses env \<longleftrightarrow>
     (\<forall>a. length a = 32 \<longrightarrow> AddressString env a \<noteq> [] \<and> DecodeAddress env (AddressString env a) = Inr a)"

type_synonym 'j balances_search = "'j api_env \<times> request \<times> uint64 \<times> LookupAssetBalancesParams"

definition balances_base :: "'j balances_search \<Rightarrow> AssetBalanceQuery" where
  "balances_base = (\<lambda>(si, ctx, assetID, params).
     \<lparr>abq_AssetID = Some assetID, abq_AssetIDGT = None, abq_AmountGT = lab_CurrencyGreaterThan params,
      abq_AmountLT = lab_CurrencyLessThan params, abq_Address = None,
      abq_IncludeDeleted = boolOrDefault (lab_IncludeAll params), abq_Limit = balances_limit si (lab_Limit params),
      abq_PrevAddress = None\<rparr>)"

definition balances_invar :: "'j balances_search \<Rightarrow> bool" where
  "balances_invar = (\<lambda>(si, ctx, assetID, params).
     (\<exists>rnd. answers si rnd) \<and> enabled si ''LookupAssetBalances'' ctx \<and> assetID \<le> MaxInt64 \<and>
     faithful_addresses (si_sdk si) \<and> key_unique aa_key (tbl_account_asset (si_tables si)) \<and>
     addresses_ok (si_tables si))"

definition balances_request :: "'j balances_search \<Rightarrow> string option \<Rightarrow> http_error + MiniAssetHolding list \<times> string option" where
  "balances_request = (\<lambda>(si, ctx, assetID, params) next.
     page_pair (LookupAssetBalances si ctx assetID (params\<lparr>lab_Next := next\<rparr>)))"

definition balances_rows :: "'j balances_search \<Rightarrow> account_asset_row list" where
  "balances_rows s = found_balances (fst s) (balances_base s)"

interpretation balances_pages: paged_search balances_invar balances_request balances_rows aa_addr
  "\<lambda>s. balance_answer (fst s)" "\<lambda>s r. AddressString (si_sdk (fst s)) (aa_addr r)" "\<lambda>s. abq_Limit (balances_base s)"
proof unfold_locales
  fix s :: "'j balances_search"
  obtain si ctx assetID params where s: "s = (si, ctx, assetID, params)" by (cases s)
  assume "balances_invar s"
  then obtain rnd where inv: "answers si rnd" "enabled si ''LookupAssetBalances'' ctx" "\<not> assetID > MaxInt64"
      "faithful_addresses (si_sdk si)" "key_unique aa_key (tbl_account_asset (si_tables si))" "addresses_ok (si_tables si)"
    by (auto simp: balances_invar_def s)
  let ?q = "balances_base s"
  have fs: "fst s = si" by (simp add: s)
  have q: "abq_AssetID ?q = Some assetID" "abq_PrevAddress ?q = None" by (simp_all add: balances_base_def s)
  have u: "key_unique (\<lambda>r. (aa_assetid r, aa_addr r)) (tbl_account_asset (si_tables si))"
    using inv(5) unfolding key_unique_def by (auto simp: distinct_map inj_on_def)
  show "sorted_wrt (<) (map aa_addr (balances_rows s))"
    unfolding balances_rows_def found_balances_asset [OF q(1)] fs
    by (rule ascending_sort_key, rule key_unique_fixed [OF u, of _ assetID]) (simp add: balance_matches_def q)
  have page: "balances_request s next =
      Inr (first_page (balance_answer si) (\<lambda>r. AddressString (si_sdk si) (aa_addr r)) (abq_Limit ?q)
        (found_balances si (?q\<lparr>abq_PrevAddress := prev\<rparr>)))"
    if "next = None \<and> prev = None \<or> (\<exists>t a. next = Some t \<and> prev = Some a \<and> DecodeAddress (si_sdk si) t = Inr a)" for "next" prev
  proof -
    have "r \<in> set (found_balances si (?q\<lparr>abq_PrevAddress := prev\<rparr>)) \<Longrightarrow>
        strPtr (mah_Address (balance_answer si r)) = Some (AddressString (si_sdk si) (aa_addr r))" for r
      using found_balances_address [OF inv(6), of r] inv(4)
      by (simp add: balance_answer_def strPtr_def faithful_addresses_def)
    from page_pair_fetched [where tok = mah_Address and token = "\<lambda>r. AddressString (si_sdk si) (aa_addr r)",
        OF fetchAssetBalances_answers [OF inv(1,6), of "?q\<lparr>abq_PrevAddress := prev\<rparr>"] this]
    show ?thesis
      using that inv(2,3)
      by (auto simp: balances_request_def balances_base_def s LookupAssetBalances_def enabled_verify)
  qed
  have "?q\<lparr>abq_PrevAddress := None\<rparr> = ?q" by (simp add: balances_base_def s)
  then show "balances_request s None = Inr (first_page (balance_answer (fst s))
      (\<lambda>r. AddressString (si_sdk (fst s)) (aa_addr r)) (abq_Limit ?q) (balances_rows s))"
    using page [of None None] by (simp add: balances_rows_def fs)
  show "balances_request s (Some (AddressString (si_sdk (fst s)) (aa_addr r))) =
      Inr (first_page (balance_answer (fst s)) (\<lambda>r. AddressString (si_sdk (fst s)) (aa_addr r)) (abq_Limit ?q)
        (filter (\<lambda>r'. aa_addr r < aa_addr r') (balances_rows s)))" if r: "r \<in> set (balances_rows s)" for r
  proof -
    have l: "length (aa_addr r) = 32"
      using found_balances_address [OF inv(6), of r ?q] r by (simp add: balances_rows_def fs)
    then have "balance_matches (?q\<lparr>abq_PrevAddress := Some (aa_addr r)\<rparr>) = (\<lambda>r'. balance_matches ?q r' \<and> aa_addr r < aa_addr r')"
      using q(2) by (auto simp: balance_matches_def fun_eq_iff)
    then have "found_balances si (?q\<lparr>abq_PrevAddress := Some (aa_addr r)\<rparr>) =
        filter (\<lambda>r'. aa_addr r < aa_addr r') (found_balances si ?q)"
      by (simp add: found_balances_def sort_filter_conj)
    moreover have "DecodeAddress (si_sdk si) (AddressString (si_sdk si) (aa_addr r)) = Inr (aa_addr r)"
      using inv(4) l by (simp add: faithful_addresses_def)
    ultimately show ?thesis
      using page [of "Some (AddressString (si_sdk si) (aa_addr r))" "Some (aa_addr r)"] by (simp add: balances_rows_def fs)
  qed
qed

subsection \<open>Boxes\<close>

text \<open>The boxes of an application whose names match, in the order of their names.\<close>

definition found_boxes :: "'j main_tables \<Rightarrow> uint64 \<Rightarrow> name_term \<Rightarrow> app_box_row list" where
  "found_boxes main app nt =
     sort_key box_name (filter (\<lambda>b. box_app b = app \<and> name_matches nt (box_name b)) (tbl_app_box main))"

lemma sort_joined:
  "sort_key name_key (join_boxes nt boxes app) =
     (case sort_key box_name (filter (\<lambda>b. box_app b = app \<and> name_matches nt (box_name b)) boxes) of
        [] \<Rightarrow> [(app, None)] | bs \<Rightarrow> map (\<lambda>b. (app, Some b)) bs)"
proof -
  let ?bs = "filter (\<lambda>b. box_app b = app \<and> name_matches nt (box_name b)) boxes"
  have k: "sort_key name_key (map (\<lambda>b. (app, Some b)) ?bs) = map (\<lambda>b. (app, Some b)) (sort_key box_name ?bs)"
    unfolding map_sort_key
    by (rule arg_cong [where f = "map (\<lambda>b. (app, Some b))"], rule sort_key_cong_on) (auto simp: name_key_def less_eq_prod_def)
  have e: "sort_key box_name ?bs = [] \<longleftrightarrow> ?bs = []" by (simp only: set_empty [symmetric] set_sort)
  show ?thesis
  proof (cases "?bs = []")
    case True
    then show ?thesis by (simp add: join_boxes_def)
  next
    case False
    then have "join_boxes nt boxes app = map (\<lambda>b. (app, Some b)) ?bs" by (simp add: join_boxes_def split: list.split)
    with k e False show ?thesis by (simp split: list.split)
  qed
qed

lemma limit_or_all_empty [simp]: "limit_or_all l [] = []"
  by simp

lemma limit_or_all_one [simp]: "limit_or_all l [x] = [x]"
  by (simp add: limit_or_all_def unat_eq_zero take_Cons' split: if_splits)

lemma unique_app:
  assumes "key_unique app_index t"
  shows "map app_index (filter (\<lambda>r. app_index r = app) t) = (if has_key app_index app t then [app] else [])"
proof -
  have "distinct (map app_index (filter (\<lambda>r. app_index r = app) t))" using assms by (simp add: key_unique_def distinct_map_filter)
  moreover have "set (map app_index (filter (\<lambda>r. app_index r = app) t)) = (if has_key app_index app t then {app} else {})"
    by (auto simp: has_key_def)
  ultimately show ?thesis
    by (cases "map app_index (filter (\<lambda>r. app_index r = app) t)" rule: remdups_adj.cases) (auto split: if_splits)
qed

lemma exec_box_query_found:
  assumes "key_unique app_index (tbl_app main)"
  shows "exec_box_query main q =
    (if \<not> has_key app_index (bq_ApplicationID q) (tbl_app main) then []
     else case limit_or_all (bq_Limit q) (found_boxes main (bq_ApplicationID q) (box_name_term q)) of
       [] \<Rightarrow> [(bq_ApplicationID q, None)] | bs \<Rightarrow> map (\<lambda>b. (bq_ApplicationID q, Some b)) bs)"
proof -
  have "limit_or_all l (case xs of [] \<Rightarrow> [(a, None)] | bs \<Rightarrow> map (\<lambda>b. (a, Some b)) bs) =
      (case limit_or_all l xs of [] \<Rightarrow> [(a, None)] | bs \<Rightarrow> map (\<lambda>b. (a, Some b)) bs)" for l a and xs :: "app_box_row list"
  proof (cases xs)
    case (Cons y ys)
    then have "limit_or_all l xs \<noteq> []" by simp
    with Cons show ?thesis by (auto simp: limit_or_all_map simp del: list.map split: list.split)
  qed simp
  note l = this
  show ?thesis
    unfolding exec_box_query_def unique_app [OF assms] found_boxes_def l [symmetric]
    by (simp add: sort_joined limit_or_all_def)
qed

lemma boxes_loop_rows:
  "boxes_loop rnd (map (box_record omit) (map (\<lambda>b. (app, b)) bs)) appid acc =
     (Inr (), if bs = [] \<or> appid \<noteq> 0 then appid else app,
      acc @ map (\<lambda>b. (abxr_Box (box_record omit (app, b)))\<lparr>box_Round := rnd\<rparr>) bs)"
  by (induction bs arbitrary: appid acc) (auto simp: box_record_def)

text \<open>The rows of a box query: the boxes found, one row without a box, or none when there is no such
  application.\<close>

definition box_columns :: "app_box_row list \<Rightarrow> app_box_row option list" where
  "box_columns bs = (if bs = [] then [None] else map Some bs)"

lemma fetchApplicationBoxes_answers:
  assumes "answers si rnd" "key_unique app_index (tbl_app (si_tables si))"
  shows "fetchApplicationBoxes si q =
    (if has_key app_index (bq_ApplicationID q) (tbl_app (si_tables si))
     then (bq_ApplicationID q,
       map (\<lambda>b. (abxr_Box (box_record (bq_OmitValues q) (bq_ApplicationID q, b)))\<lparr>box_Round := rnd\<rparr>)
         (box_columns (limit_or_all (bq_Limit q) (found_boxes (si_tables si) (bq_ApplicationID q) (box_name_term q)))), rnd, Inr ())
     else (0, [], rnd, Inl SqlErrNoRows))"
proof -
  let ?app = "bq_ApplicationID q"
  let ?bs = "limit_or_all (bq_Limit q) (found_boxes (si_tables si) ?app (box_name_term q))"
  have y: "yieldApplicationBoxThread omit rs None =
      (if rs = [] then [box_error SqlErrNoRows] else map (box_record omit) rs)" for omit rs
    using yield_rows_all [of rs "\<lambda>r. (box_record omit r, True)" "box_record omit" box_error]
    by (simp add: yieldApplicationBoxThread_def)
  show ?thesis
  proof (cases "has_key app_index ?app (tbl_app (si_tables si))")
    case True
    then have "exec_box_query (si_tables si) q = map (\<lambda>b. (?app, b)) (box_columns ?bs)"
      unfolding exec_box_query_found [OF assms(2)] box_columns_def by (simp split: list.split)
    moreover have "box_columns ?bs \<noteq> []" by (simp add: box_columns_def)
    ultimately show ?thesis
      unfolding fetchApplicationBoxes_def ApplicationBoxes_def answers_search [OF assms(1)] answers_call [OF assms(1)] y
      using True by (simp only: boxes_loop_rows prod.case map_is_Nil_conv if_False if_True append_Nil) simp
  next
    case False
    then show ?thesis
      unfolding fetchApplicationBoxes_def ApplicationBoxes_def answers_search [OF assms(1)] answers_call [OF assms(1)] y
        exec_box_query_found [OF assms(2)]
      by (simp add: box_error_def)
  qed
qed

text \<open>Names of boxes are not empty, and the parser of \<open>avm-abi\<close> reads back what the handler writes into a
  token.\<close>

definition faithful_box_names :: "'j api_env \<Rightarrow> bool" where
  "faithful_box_names si \<longleftrightarrow>
     list_all (\<lambda>b. box_name b \<noteq> [] \<and> NewAppCallBytes si (''b64:'' @ Base64 (box_name b)) = Inr (Inr (box_name b)))
       (tbl_app_box (si_tables si))"

type_synonym 'j boxes_search = "'j api_env \<times> request \<times> uint64 \<times> SearchForApplicationBoxesParams"

definition boxes_invar :: "'j boxes_search \<Rightarrow> bool" where
  "boxes_invar = (\<lambda>(si, ctx, app, params).
     (\<exists>rnd. answers si rnd) \<and> enabled si ''SearchForApplicationBoxes'' ctx \<and> app \<le> MaxInt64 \<and>
     key_unique app_index (tbl_app (si_tables si)) \<and> key_unique box_key (tbl_app_box (si_tables si)) \<and>
     faithful_box_names si)"

definition boxes_request :: "'j boxes_search \<Rightarrow> string option \<Rightarrow> http_error + BoxDescriptor list \<times> string option" where
  "boxes_request = (\<lambda>(si, ctx, app, params) next.
     case SearchForApplicationBoxes si ctx app (params\<lparr>sbp_Next := next\<rparr>) of
       Inl e \<Rightarrow> Inl e
     | Inr resp \<Rightarrow> Inr (bsr_Boxes resp, bsr_NextToken resp))"

text \<open>Boxes of an application that is not there are not shown.\<close>

definition boxes_rows :: "'j boxes_search \<Rightarrow> app_box_row list" where
  "boxes_rows = (\<lambda>(si, ctx, app, params).
     if has_key app_index app (tbl_app (si_tables si)) then found_boxes (si_tables si) app AnyName else [])"

definition box_answer :: "'j boxes_search \<Rightarrow> app_box_row \<Rightarrow> BoxDescriptor" where
  "box_answer = (\<lambda>(si, ctx, app, params) b.
     \<lparr>bd_Name = box_name b, bd_Value = (if include_values params then Some (Some (box_value b)) else None)\<rparr>)"

definition box_token :: "app_box_row \<Rightarrow> string" where
  "box_token b = ''b64:'' @ Base64 (box_name b)"

definition boxes_search_limit :: "'j boxes_search \<Rightarrow> uint64" where
  "boxes_search_limit = (\<lambda>(si, ctx, app, params). boxes_limit si (sbp_Limit params))"

lemma Base64_nonempty: "name \<noteq> [] \<Longrightarrow> Base64 name \<noteq> []"
  unfolding Base64_def by (auto simp: Let_def elim: b64_encode.elims)

lemma box_next_token: "box_name b \<noteq> [] \<Longrightarrow> box_next (Some (box_name b)) = Some (box_token b)"
  using Base64_nonempty [of "box_name b"] by (simp add: box_next_def strPtr_def box_token_def)

lemma box_descriptors_map:
  "(\<And>b. box_Name (g b) = Some (box_name b)) \<Longrightarrow>
   box_descriptors incl (map g bs) =
     map (\<lambda>b. \<lparr>bd_Name = box_name b, bd_Value = (if incl then Some (box_Value (g b)) else None)\<rparr>) bs"
  by (induction bs) (simp_all add: box_descriptors_def)

text \<open>The answer for the boxes that a query finds.\<close>

lemma SearchForApplicationBoxes_page:
  assumes inv: "answers si rnd" "enabled si ''SearchForApplicationBoxes'' ctx" "\<not> app > MaxInt64"
      "key_unique app_index (tbl_app (si_tables si))" "faithful_box_names si"
    and parsed: "sbp_Next params = None \<and> prev = None \<or>
      (\<exists>t n. sbp_Next params = Some t \<and> prev = Some n \<and> NewAppCallBytes si t = Inr (Inr n))"
    and nt: "nt = (case prev of None \<Rightarrow> AnyName | Some n \<Rightarrow> NameGt n)"
  shows "(case SearchForApplicationBoxes si ctx app params of
       Inl e \<Rightarrow> Inl e | Inr resp \<Rightarrow> Inr (bsr_Boxes resp, bsr_NextToken resp)) =
     Inr (first_page (box_answer (si, ctx, app, params)) box_token (boxes_limit si (sbp_Limit params))
       (if has_key app_index app (tbl_app (si_tables si)) then found_boxes (si_tables si) app nt else []))"
proof -
  let ?q = "\<lparr>bq_ApplicationID = app, bq_BoxName = None, bq_OmitValues = \<not> include_values params,
      bq_Limit = boxes_limit si (sbp_Limit params), bq_PrevFinalBox = prev\<rparr>"
  have nt': "box_name_term ?q = nt" by (simp add: box_name_term_def nt)
  let ?found = "found_boxes (si_tables si) app nt"
  let ?bs = "limit_or_all (boxes_limit si (sbp_Limit params)) ?found"
  have named: "b \<in> set ?found \<Longrightarrow> box_name b \<noteq> []" for b
    using inv(5) by (auto simp: found_boxes_def faithful_box_names_def list_all_iff)
  have "?found \<noteq> [] \<Longrightarrow> last ?bs \<in> set ?found"
    using set_limit_or_all [of "boxes_limit si (sbp_Limit params)" ?found] last_in_set [of ?bs] by auto
  note last = box_next_token [OF named [OF this]]
  have run: "SearchForApplicationBoxes si ctx app params = boxes_response app (include_values params) (fetchApplicationBoxes si ?q)"
    using parsed inv(2,3)
    by (auto simp: SearchForApplicationBoxes_def enabled_verify raw_box_name_def bad_request_def)
  show ?thesis
  proof (cases "has_key app_index app (tbl_app (si_tables si))")
    case False
    then show ?thesis
      unfolding run fetchApplicationBoxes_answers [OF inv(1,4)] by (simp add: first_page_def boxes_response_def)
  next
    case True
    show ?thesis
    proof (cases "?found = []")
      case True': True
      with True show ?thesis
        unfolding run fetchApplicationBoxes_answers [OF inv(1,4)] nt'
        by (simp add: boxes_response_def box_columns_def box_record_def box_next_def box_descriptors_def first_page_def)
    next
      case False
      then have "?bs \<noteq> []" by simp
      with True False last show ?thesis
        unfolding run fetchApplicationBoxes_answers [OF inv(1,4)] nt'
        by (simp add: boxes_response_def box_columns_def box_descriptors_map last_map first_page_def box_answer_def box_record_def)
    qed
  qed
qed

interpretation boxes_pages: paged_search boxes_invar boxes_request boxes_rows box_name
  box_answer "\<lambda>s. box_token" boxes_search_limit
proof unfold_locales
  fix s :: "'j boxes_search"
  obtain si ctx app params where s: "s = (si, ctx, app, params)" by (cases s)
  assume "boxes_invar s"
  then obtain rnd where inv: "answers si rnd" "enabled si ''SearchForApplicationBoxes'' ctx" "\<not> app > MaxInt64"
      "key_unique app_index (tbl_app (si_tables si))" "faithful_box_names si"
      "key_unique box_key (tbl_app_box (si_tables si))"
    by (auto simp: boxes_invar_def s)
  show "sorted_wrt (<) (map box_name (boxes_rows s))"
    unfolding boxes_rows_def s prod.case found_boxes_def
    using ascending_sort_key [OF key_unique_fixed [OF inv(6), where P = "\<lambda>b. box_app b = app \<and> name_matches AnyName (box_name b)" and a = app]]
    by auto
  have ans: "box_answer (si, ctx, app, params\<lparr>sbp_Next := n\<rparr>) = box_answer s" for n
    by (auto simp: box_answer_def s include_values_def fun_eq_iff)
  show "boxes_request s None = Inr (first_page (box_answer s) box_token (boxes_search_limit s) (boxes_rows s))"
    using SearchForApplicationBoxes_page [OF inv(1-5), of "params\<lparr>sbp_Next := None\<rparr>" None AnyName]
    by (simp add: boxes_request_def boxes_search_limit_def boxes_rows_def ans) (simp add: s)
  show "boxes_request s (Some (box_token b)) =
      Inr (first_page (box_answer s) box_token (boxes_search_limit s) (filter (\<lambda>b'. box_name b < box_name b') (boxes_rows s)))"
    if b: "b \<in> set (boxes_rows s)" for b
  proof -
    have "b \<in> set (tbl_app_box (si_tables si))" using b by (auto simp: boxes_rows_def s found_boxes_def split: if_splits)
    then have "NewAppCallBytes si (box_token b) = Inr (Inr (box_name b))"
      using inv(5) by (simp add: faithful_box_names_def list_all_iff box_token_def)
    moreover have "found_boxes (si_tables si) app (NameGt (box_name b)) =
        filter (\<lambda>b'. box_name b < box_name b') (found_boxes (si_tables si) app AnyName)"
      by (simp add: found_boxes_def filter_sort conj_commute)
    ultimately show ?thesis
      using SearchForApplicationBoxes_page [OF inv(1-5), of "params\<lparr>sbp_Next := Some (box_token b)\<rparr>" "Some (box_name b)" "NameGt (box_name b)"]
      by (simp add: boxes_request_def boxes_search_limit_def boxes_rows_def ans) (simp add: s)
  qed
qed

end
