(* ===== verification/EndpointLaws.thy ===== *)
theory EndpointLaws
  imports ResourceLaws
begin

text \<open>
  What the endpoints for assets, balances, applications, local states and boxes promise: a search that
  follows the page tokens returns exactly the rows it asks for, and a lookup returns the object or says
  that there is none. The first are instances of the contract \<open>paged_search\<close>.
\<close>

section \<open>An example\<close>

definition example_asset :: "uint64 \<Rightarrow> document asset_row" where
  "example_asset i =
     \<lparr>as_index = i, as_creator_addr = replicate 32 (CHR ''c''),
      as_params = EncodeAssetParams example_codec (zero_AssetParams\<lparr>AssetName := ''coin''\<rparr>),
      as_deleted = False, as_created_at = 1, as_closed_at = None\<rparr>"

definition example_holding :: "char \<Rightarrow> uint64 \<Rightarrow> account_asset_row" where
  "example_holding x i =
     \<lparr>aa_addr = replicate 32 x, aa_assetid = i, aa_amount = 5, aa_frozen = False, aa_deleted = False,
      aa_created_at = 1, aa_closed_at = None\<rparr>"

definition example_app :: "uint64 \<Rightarrow> document app_row" where
  "example_app i =
     \<lparr>app_index = i, app_creator = replicate 32 (CHR ''c''), app_params = EncodeAppParams example_codec zero_AppParams,
      app_deleted = False, app_created_at = 1, app_closed_at = None\<rparr>"

definition example_box :: "string \<Rightarrow> app_box_row" where
  "example_box n = \<lparr>box_app = 4, box_name = n, box_value = ''v''\<rparr>"

definition example_resources :: "document main_tables" where
  "example_resources =
     empty_tables\<lparr>tbl_metastate := [\<lparr>ms_k = StateMetastateKey,
         ms_v = EncodeImportState example_codec \<lparr>NextRoundToAccount = 3\<rparr>\<rparr>],
       tbl_asset := map example_asset [9, 7, 8], tbl_app := map example_app [4, 2],
       tbl_account_asset := [example_holding (CHR ''b'') 7, example_holding (CHR ''a'') 7, example_holding (CHR ''a'') 8],
       tbl_app_box := map example_box [''y'', ''x'']\<rparr>"

definition example_arrays :: "document json_arrays" where
  "example_arrays =
     \<lparr>agg_uints = (\<lambda>xs. JArray (map JNumber xs)),
      agg_opt_uints = (\<lambda>xs. JArray (map (\<lambda>x. case x of None \<Rightarrow> JNull | Some n \<Rightarrow> JNumber n) xs)),
      agg_bools = (\<lambda>xs. JArray (map JBool xs)), agg_docs = JArray,
      dec_uints = array_of (\<lambda>j. case j of JNumber n \<Rightarrow> Inr n | _ \<Rightarrow> bad_document),
      dec_opt_uints = array_of (\<lambda>j. case j of JNumber n \<Rightarrow> Inr (Some n) | JNull \<Rightarrow> Inr None | _ \<Rightarrow> bad_document),
      dec_bools = array_of (\<lambda>j. case j of JBool b \<Rightarrow> Inr b | _ \<Rightarrow> bad_document),
      dec_opt_bools = array_of (\<lambda>j. case j of JBool b \<Rightarrow> Inr (Some b) | JNull \<Rightarrow> Inr None | _ \<Rightarrow> bad_document),
      is_null_array = (\<lambda>j. j = JArray [JNull])\<rparr>"

definition example_api :: "document api_env" where
  "example_api =
     \<lparr>si_opts = example_options, si_disabledParams = None,
      si_call = \<lparr>has_timeout = False, deadline_exceeded = False, cancelled = None\<rparr>,
      si_sdk = example_sdk, si_codec = example_codec,
      si_text = \<lparr>params_string = (\<lambda>k doc. None), ilike = (\<lambda>s pat. False)\<rparr>,
      si_query = quiet_query_env, si_tables = example_resources, si_EnableAddressSearchRoundRewind = False,
      si_arrays = example_arrays, si_sql = example_server, si_headers = example_header_server,
      si_txn_query = quiet_query_env, si_txns = \<lparr>tbl_txn = [], tbl_txn_participation = []\<rparr>,
      NewAppCallBytes = (\<lambda>s. map_sum id Inr (decodeBase64 (drop 4 s)))\<rparr>"

lemma example_api_answers: "answers example_api 2"
  by (simp add: answers_def example_api_def quiet_query_env_def example_resources_def getMaxRoundAccounted_def
      getNextRoundToAccount_def getImportState_def GetMetastate_def EncodeImportState_def DecodeImportState_def
      example_codec_def res_wrap_def)

lemma example_api_enabled: "enabled example_api op ctx"
  by (simp add: enabled_def Verify_def example_api_def)

lemma example_api_simps:
  "si_sdk example_api = example_sdk" "si_opts example_api = example_options" "si_codec example_api = example_codec"
  "tbl_asset (si_tables example_api) = map example_asset [9, 7, 8]"
  "tbl_app (si_tables example_api) = map example_app [4, 2]"
  "tbl_account_asset (si_tables example_api) =
     [example_holding (CHR ''b'') 7, example_holding (CHR ''a'') 7, example_holding (CHR ''a'') 8]"
  "tbl_app_box (si_tables example_api) = map example_box [''y'', ''x'']"
  by (simp_all add: example_api_def example_resources_def)

section \<open>Searches\<close>

lemma length_filter_less: "length xs < n \<Longrightarrow> length (filter P xs) < n"
  using length_filter_le [of P xs] by linarith

lemma assetParamsToAssetQuery_creator:
  assumes "assetParamsToAssetQuery env opts params = Inr q"
  shows "given (address_ok env) (sap_Creator params)"
  using assms
  by (cases "sap_Creator params")
    (auto simp: assetParamsToAssetQuery_def decode_creator_def address_ok_def res_wrap_def split: sum.splits)


definition all_assets :: SearchForAssetsParams where
  "all_assets =
     \<lparr>sap_IncludeAll = None, sap_Limit = Some 2, sap_Next = None, sap_Creator = None, sap_Name = None, sap_Unit = None,
      sap_AssetId = None\<rparr>"


lemma appParamsToApplicationQuery_creator:
  assumes "appParamsToApplicationQuery env opts params = Inr q"
  shows "given (address_ok env) (spp_Creator params)"
  using assms
  by (cases "spp_Creator params")
    (auto simp: appParamsToApplicationQuery_def decode_creator_def address_ok_def res_wrap_def split: sum.splits)


definition example_lookup :: account_lookup_params where
  "example_lookup = \<lparr>alp_Id = None, alp_IncludeAll = Some True, alp_Limit = Some 1, alp_Next = None\<rparr>"

definition example_account :: string where
  "example_account = replicate 32 (CHR ''c'')"

lemma example_app_query:
  "appParamsToApplicationQuery (si_sdk example_api) (si_opts example_api) ((account_search example_account example_lookup)\<lparr>spp_Next := None\<rparr>) =
     Inr \<lparr>apq_Address = Some example_account, apq_ApplicationID = None, apq_ApplicationIDGreaterThan = None,
       apq_IncludeDeleted = True, apq_Limit = 1\<rparr>"
  by (simp add: appParamsToApplicationQuery_def account_search_def example_lookup_def decode_creator_def decode_next_id_def
      example_api_simps example_sdk_def res_wrap_def boolOrDefault_def uintOrDefaultValue_def min_u64_def example_options_def)


text \<open>C26: following the tokens of an asset's balances gives every balance that satisfies the parameters once,
  ordered by the account, and following those of an account's assets gives each of its holdings once,
  ordered by the asset. The tokens are addresses and ids; both searches run on one table.\<close>

theorem balance_searches_pages:
  assumes "answers si rnd" and "enabled si ''LookupAssetBalances'' ctx" "enabled si ''LookupAccountAssets'' ctx"
    and "assetID \<le> MaxInt64" "\<not> exceeds (alp_Id params)"
    and "faithful_addresses (si_sdk si)" "DecodeAddress (si_sdk si) accountID = Inr addr"
    and "key_unique aa_key (tbl_account_asset (si_tables si))" "addresses_ok (si_tables si)"
    and "length (tbl_account_asset (si_tables si)) < fuel"
  shows "follow_pages (\<lambda>next. page_pair (LookupAssetBalances si ctx assetID (bparams\<lparr>lab_Next := next\<rparr>))) fuel None =
      Some (Inr (map (balance_answer si) (sort_key aa_addr
        (filter (\<lambda>r. aa_assetid r = assetID \<and> given (\<lambda>n. n < aa_amount r) (lab_CurrencyGreaterThan bparams) \<and>
           given (\<lambda>n. aa_amount r < n) (lab_CurrencyLessThan bparams) \<and>
           (boolOrDefault (lab_IncludeAll bparams) \<or> \<not> aa_deleted r)) (tbl_account_asset (si_tables si)))))) \<and>
    follow_pages (\<lambda>next. page_pair (LookupAccountAssets si ctx accountID (params\<lparr>alp_Next := next\<rparr>))) fuel None =
      Some (Inr (map holding_answer (sort_key aa_assetid
        (filter (\<lambda>r. given (\<lambda>i. aa_assetid r = i) (alp_Id params) \<and> aa_addr r = addr \<and>
           (boolOrDefault (alp_IncludeAll params) \<or> \<not> aa_deleted r)) (tbl_account_asset (si_tables si))))))"
proof -
  let ?b = "(si, ctx, assetID, bparams)" and ?h = "(si, ctx, accountID, params)"
  have inv: "balances_invar ?b" "holdings_invar ?h"
    using assms by (auto simp: balances_invar_def holdings_invar_def address_ok_def)
  have rows: "balances_rows ?b = sort_key aa_addr
        (filter (\<lambda>r. aa_assetid r = assetID \<and> given (\<lambda>n. n < aa_amount r) (lab_CurrencyGreaterThan bparams) \<and>
           given (\<lambda>n. aa_amount r < n) (lab_CurrencyLessThan bparams) \<and>
           (boolOrDefault (lab_IncludeAll bparams) \<or> \<not> aa_deleted r)) (tbl_account_asset (si_tables si)))"
    "holdings_rows ?h = sort_key aa_assetid
        (filter (\<lambda>r. given (\<lambda>i. aa_assetid r = i) (alp_Id params) \<and> aa_addr r = addr \<and>
           (boolOrDefault (alp_IncludeAll params) \<or> \<not> aa_deleted r)) (tbl_account_asset (si_tables si)))"
    using found_balances_asset [of "balances_base ?b" assetID] found_balances_account [of "holdings_base ?h" addr] assms(7)
    by (simp_all add: balances_rows_def holdings_rows_def balances_base_def holdings_base_def balance_matches_def [abs_def])
  show ?thesis
    using balances_pages.follow_all [OF inv(1), of fuel] holdings_pages.follow_all [OF inv(2), of fuel]
    unfolding rows by (simp add: length_filter_less [OF assms(10)] balances_request_def holdings_request_def)
qed

lemma example_faithful_addresses: "faithful_addresses example_sdk"
  by (auto simp: faithful_addresses_def example_sdk_def)

theorem balance_searches_pages_witness:
  "follow_pages (\<lambda>next. page_pair (LookupAssetBalances example_api (example_request ''x'') 7
       (\<lparr>lab_IncludeAll = None, lab_Limit = Some 1, lab_Next = None, lab_CurrencyGreaterThan = Some 4,
         lab_CurrencyLessThan = None\<rparr>\<lparr>lab_Next := next\<rparr>))) 4 None =
     Some (Inr (map (balance_answer example_api) [example_holding (CHR ''a'') 7, example_holding (CHR ''b'') 7])) \<and>
   follow_pages (\<lambda>next. page_pair (LookupAccountAssets example_api (example_request ''x'') (replicate 32 (CHR ''a''))
       (example_lookup\<lparr>alp_Next := next\<rparr>))) 4 None =
     Some (Inr (map holding_answer [example_holding (CHR ''a'') 7, example_holding (CHR ''a'') 8]))"
proof -
  have d: "DecodeAddress (si_sdk example_api) (replicate 32 (CHR ''a'')) = Inr (replicate 32 (CHR ''a''))"
    by (simp add: example_api_simps example_sdk_def)
  have f: "faithful_addresses (si_sdk example_api)" by (simp add: example_api_simps example_faithful_addresses)
  have m: "(7 :: uint64) \<le> MaxInt64" by (simp add: MaxInt64_def)
  have "\<not> replicate 32 (CHR ''b'') \<le> replicate 32 (CHR ''a'')" by code_simp
  then show ?thesis
    using balance_searches_pages [OF example_api_answers example_api_enabled example_api_enabled m _ f d,
        of example_lookup 4 "example_request ''x''" "\<lparr>lab_IncludeAll = None, lab_Limit = Some 1, lab_Next = None,
          lab_CurrencyGreaterThan = Some 4, lab_CurrencyLessThan = None\<rparr>"]
    by (simp add: example_api_simps example_lookup_def exceeds_def key_unique_def boolOrDefault_def example_holding_def
        replicate_eq_replicate)
qed

text \<open>C24: following the tokens of a search for an application's boxes gives each of its boxes once, ordered by
  name, with the values when they are asked for; an application that does not exist has none, which
  is not an error.\<close>

theorem SearchForApplicationBoxes_pages:
  assumes "answers si rnd" "enabled si ''SearchForApplicationBoxes'' ctx" "app \<le> MaxInt64"
    and "key_unique app_index (tbl_app (si_tables si))" "key_unique box_key (tbl_app_box (si_tables si))"
    and "faithful_box_names si" and "length (tbl_app_box (si_tables si)) < fuel"
  shows "follow_pages (\<lambda>next. case SearchForApplicationBoxes si ctx app (params\<lparr>sbp_Next := next\<rparr>) of
        Inl e \<Rightarrow> Inl e | Inr resp \<Rightarrow> Inr (bsr_Boxes resp, bsr_NextToken resp)) fuel None =
    Some (Inr (map (\<lambda>b. \<lparr>bd_Name = box_name b, bd_Value = (if include_values params then Some (Some (box_value b)) else None)\<rparr>)
      (if has_key app_index app (tbl_app (si_tables si))
       then sort_key box_name (filter (\<lambda>b. box_app b = app) (tbl_app_box (si_tables si))) else [])))"
proof -
  have "boxes_invar (si, ctx, app, params)" using assms by (auto simp: boxes_invar_def)
  from boxes_pages.follow_all [OF this, of fuel] length_filter_less [OF assms(7)] assms(7) show ?thesis
    by (auto simp: boxes_rows_def boxes_request_def box_answer_def [abs_def] found_boxes_def split: if_splits)
qed

lemma example_box_names: "faithful_box_names example_api"
proof -
  have "decodeBase64 (Base64 ''x'') = Inr ''x''" "decodeBase64 (Base64 ''y'') = Inr ''y''" by code_simp+
  then show ?thesis
    by (simp add: faithful_box_names_def example_api_simps example_box_def) (simp add: example_api_def)
qed

theorem SearchForApplicationBoxes_pages_witness:
  "follow_pages (\<lambda>next. case SearchForApplicationBoxes example_api (example_request ''x'') 4
        (\<lparr>sbp_Limit = Some 1, sbp_Next = None, sbp_Include = Some [''values'']\<rparr>\<lparr>sbp_Next := next\<rparr>) of
        Inl e \<Rightarrow> Inl e | Inr resp \<Rightarrow> Inr (bsr_Boxes resp, bsr_NextToken resp)) 3 None =
    Some (Inr [\<lparr>bd_Name = ''x'', bd_Value = Some (Some ''v'')\<rparr>, \<lparr>bd_Name = ''y'', bd_Value = Some (Some ''v'')\<rparr>])"
proof -
  have m: "(4 :: uint64) \<le> MaxInt64" by (simp add: MaxInt64_def)
  show ?thesis
    using SearchForApplicationBoxes_pages [OF example_api_answers example_api_enabled m _ _ example_box_names,
        of 3 "example_request ''x''" "\<lparr>sbp_Limit = Some 1, sbp_Next = None, sbp_Include = Some [''values'']\<rparr>"]
    by (simp add: example_api_simps key_unique_def has_key_def include_values_def example_app_def example_box_def)
qed

section \<open>Lookups\<close>

lemma unique_filter_single:
  assumes "key_unique key t"
  shows "filter (\<lambda>r. key r = k \<and> P r) t = (case lookup_row key k t of None \<Rightarrow> [] | Some r \<Rightarrow> if P r then [r] else [])"
  using assms
proof (induction t)
  case (Cons r t)
  have "key r = k \<Longrightarrow> filter (\<lambda>r. key r = k \<and> P r) t = []" and "key_unique key t"
    using Cons.prems by (auto simp: key_unique_def filter_empty_conv image_iff)
  with Cons.IH show ?case by (cases "key r = k") simp_all
qed simp

text \<open>C30: looking up an asset or an application by its id answers with exactly that object and the accounted
  round when it exists and is not deleted, or when deleted ones are asked for; otherwise, and for an id
  that does not fit the database, the answer is not found.\<close>

theorem LookupByID_correct:
  assumes "answers si rnd" "enabled si ''LookupAssetByID'' ctx" "enabled si ''LookupApplicationByID'' ctx"
    and "key_unique as_index (tbl_asset (si_tables si))" "key_unique app_index (tbl_app (si_tables si))"
    and "given (asset_readable si) (lookup_row as_index i (tbl_asset (si_tables si)))"
  shows "LookupAssetByID si ctx i includeAll =
      (if i > MaxInt64 then Inl (NotFound errValueExceedingInt64)
       else case lookup_row as_index i (tbl_asset (si_tables si)) of
         None \<Rightarrow> Inl (NotFound (errNoAssetsFound @ '': '' @ FormatUint i))
       | Some r \<Rightarrow> if boolOrDefault includeAll \<or> \<not> as_deleted r then Inr (asset_answer si r, rnd)
                    else Inl (NotFound (errNoAssetsFound @ '': '' @ FormatUint i))) \<and>
    LookupApplicationByID si ctx i includeAll =
      (if i > MaxInt64 then Inl (NotFound errValueExceedingInt64)
       else case lookup_row app_index i (tbl_app (si_tables si)) of
         None \<Rightarrow> Inl (NotFound (errNoApplicationsFound @ '': '' @ FormatUint i))
       | Some r \<Rightarrow> if boolOrDefault includeAll \<or> \<not> app_deleted r then Inr (application_answer si r, rnd)
                    else Inl (NotFound (errNoApplicationsFound @ '': '' @ FormatUint i)))"
proof -
  let ?q = "\<lparr>aq_AssetID = Some i, aq_AssetIDGreaterThan = None, aq_Creator = None, aq_Name = [], aq_Unit = [], aq_Query = [],
      aq_IncludeDeleted = boolOrDefault includeAll, aq_Limit = min_u64 1 (MaxAssetsLimit (si_opts si))\<rparr>"
  let ?p = "\<lparr>apq_Address = None, apq_ApplicationID = Some i, apq_ApplicationIDGreaterThan = None,
      apq_IncludeDeleted = boolOrDefault includeAll, apq_Limit = 1\<rparr>"
  have q: "assetParamsToAssetQuery (si_sdk si) (si_opts si) \<lparr>sap_IncludeAll = includeAll, sap_Limit = Some 1, sap_Next = None,
      sap_Creator = None, sap_Name = None, sap_Unit = None, sap_AssetId = Some i\<rparr> = Inr ?q"
    by (simp add: assetParamsToAssetQuery_def decode_creator_def decode_next_id_def strOrDefault_def uintOrDefaultValue_def)
  have fa: "found_assets si ?q = (case lookup_row as_index i (tbl_asset (si_tables si)) of None \<Rightarrow> []
      | Some r \<Rightarrow> if boolOrDefault includeAll \<or> \<not> as_deleted r then [r] else [])"
    using unique_filter_single [OF assms(4), of i "\<lambda>r. boolOrDefault includeAll \<or> \<not> as_deleted r"]
    by (auto simp: found_assets_def asset_matches_def [abs_def] split: option.split)
  have fp: "found_applications si ?p = (case lookup_row app_index i (tbl_app (si_tables si)) of None \<Rightarrow> []
      | Some r \<Rightarrow> if boolOrDefault includeAll \<or> \<not> app_deleted r then [r] else [])"
    using unique_filter_single [OF assms(5), of i "\<lambda>r. boolOrDefault includeAll \<or> \<not> app_deleted r"]
    by (auto simp: found_applications_def application_matches_def split: option.split)
  have "r \<in> set (found_assets si ?q) \<Longrightarrow> asset_readable si r" for r
    using assms(6) by (cases "lookup_row as_index i (tbl_asset (si_tables si))") (auto simp: fa split: if_splits)
  then have fetch: "fetchAssets si ?q = Inr (map (asset_answer si) (limit_or_all (aq_Limit ?q) (found_assets si ?q)), rnd)"
    by (rule fetchAssets_answers [OF assms(1)])
  have a: "LookupAssetByID si ctx i includeAll =
      (if i > MaxInt64 then Inl (NotFound errValueExceedingInt64)
       else http_bind (single (errNoAssetsFound @ '': '' @ FormatUint i) (errMultipleAssets @ '': '' @ FormatUint i)
         (map (asset_answer si) (limit_or_all (aq_Limit ?q) (found_assets si ?q)))) (\<lambda>asset. Inr (asset, rnd)))"
    unfolding LookupAssetByID_def enabled_verify [OF assms(2)] q bad_request_def http_simps sum.case fetch prod.case
    by (simp add: http_guard_def)
  have p: "LookupApplicationByID si ctx i includeAll =
      (if i > MaxInt64 then Inl (NotFound errValueExceedingInt64)
       else http_bind (single (errNoApplicationsFound @ '': '' @ FormatUint i) (errMultipleApplications @ '': '' @ FormatUint i)
         (map (application_answer si) (limit_or_all (apq_Limit ?p) (found_applications si ?p)))) (\<lambda>app. Inr (app, rnd)))"
    unfolding LookupApplicationByID_def enabled_verify [OF assms(3)] fetchApplications_answers [OF assms(1)] http_simps prod.case
    by (simp add: http_guard_def)
  show ?thesis
    unfolding a p fa fp by (auto simp: single_def split: option.split)
qed

theorem LookupByID_correct_witness:
  "LookupAssetByID example_api (example_request ''x'') 7 None = Inr (asset_answer example_api (example_asset 7), 2) \<and>
   LookupApplicationByID example_api (example_request ''x'') 7 None =
     Inl (NotFound (errNoApplicationsFound @ '': '' @ FormatUint 7))"
proof -
  have r: "given (asset_readable example_api) (lookup_row as_index 7 (tbl_asset (si_tables example_api)))"
    by (simp add: example_api_simps example_asset_def asset_readable_def DecodeAssetParams_def EncodeAssetParams_def
        example_codec_def)
  have "\<not> (7 :: uint64) > MaxInt64" by (simp add: MaxInt64_def)
  then show ?thesis
    using LookupByID_correct [OF example_api_answers example_api_enabled example_api_enabled _ _ r, of "example_request ''x''" None]
    by (simp add: example_api_simps key_unique_def) (simp add: example_asset_def example_app_def)
qed

text \<open>C28: looking up a box answers with its value when the application and the box exist, and with not found
  when one of them does not; only the empty name, which no box has, is answered with an empty box.\<close>

theorem LookupApplicationBox_correct:
  assumes "answers si rnd" "enabled si ''LookupApplicationBoxByIDAndName'' ctx" "app \<le> MaxInt64"
    and "NewAppCallBytes si encoded = Inr (Inr name)"
    and "key_unique app_index (tbl_app (si_tables si))" "key_unique box_key (tbl_app_box (si_tables si))"
  shows "LookupApplicationBoxByIDAndName si ctx app encoded =
    (if \<not> has_key app_index app (tbl_app (si_tables si)) then Inl (NotFound errNoApplicationsFound)
     else case lookup_row box_key (app, name) (tbl_app_box (si_tables si)) of
       Some b \<Rightarrow> Inr \<lparr>box_Name = Some name, box_Round = rnd, box_Value = Some (box_value b)\<rparr>
     | None \<Rightarrow> if name \<noteq> [] then Inl (NotFound ErrNoBoxesFound)
               else Inr \<lparr>box_Name = None, box_Round = rnd, box_Value = None\<rparr>)"
proof -
  let ?q = "\<lparr>bq_ApplicationID = app, bq_BoxName = Some name, bq_OmitValues = False, bq_Limit = 0, bq_PrevFinalBox = None\<rparr>"
  have "found_boxes (si_tables si) app (NameEq name) =
      (case lookup_row box_key (app, name) (tbl_app_box (si_tables si)) of None \<Rightarrow> [] | Some b \<Rightarrow> [b])"
    using unique_filter_single [OF assms(6), of "(app, name)" "\<lambda>_. True"]
    by (simp add: found_boxes_def split: option.split)
  then have f: "limit_or_all 0 (found_boxes (si_tables si) app (NameEq name)) =
      (case lookup_row box_key (app, name) (tbl_app_box (si_tables si)) of None \<Rightarrow> [] | Some b \<Rightarrow> [b])"
    by (simp add: limit_or_all_def)
  have nt: "box_name_term ?q = NameEq name" by (simp add: box_name_term_def)
  have run: "LookupApplicationBoxByIDAndName si ctx app encoded = box_response app name (fetchApplicationBoxes si ?q)"
    using assms(2,4) leD [OF assms(3)]
    by (simp add: LookupApplicationBoxByIDAndName_def enabled_verify raw_box_name_def bad_request_def)
  have n: "lookup_row box_key (app, name) (tbl_app_box (si_tables si)) = Some b \<Longrightarrow> box_name b = name" for b
    using lookup_row_Some [of box_key "(app, name)" "tbl_app_box (si_tables si)" b] by simp
  show ?thesis
    unfolding run fetchApplicationBoxes_answers [OF assms(1,5)] nt
    using n by (cases "lookup_row box_key (app, name) (tbl_app_box (si_tables si))")
      (simp_all add: f box_response_def box_columns_def box_record_def)
qed

theorem LookupApplicationBox_correct_witness:
  "LookupApplicationBoxByIDAndName example_api (example_request ''x'') 4 (''b64:'' @ Base64 ''y'') =
     Inr \<lparr>box_Name = Some ''y'', box_Round = 2, box_Value = Some ''v''\<rparr>"
proof -
  have d: "decodeBase64 (Base64 ''y'') = Inr ''y''" by code_simp
  have n: "NewAppCallBytes example_api (''b64:'' @ Base64 ''y'') = Inr (Inr ''y'')" using d by (simp add: example_api_def)
  have m: "(4 :: uint64) \<le> MaxInt64" by (simp add: MaxInt64_def)
  show ?thesis
    using LookupApplicationBox_correct [OF example_api_answers example_api_enabled m n, of "example_request ''x''"]
    by (simp add: example_api_simps key_unique_def has_key_def example_app_def example_box_def)
qed

end
