(* ===== verification/AccountLaws.thy ===== *)
theory AccountLaws
  imports AccountHandlers EndpointLaws
begin

text \<open>
  The search for accounts: the query with its arguments selects exactly the accounts the options ask
  for, with their resources; the reader assembles them; the endpoint keeps the contract of a paged
  search, and a lookup returns the account, says that there is none, or refuses an account with too many
  resources.
\<close>

section \<open>The selected accounts\<close>

lemma local_account_parts [query_simps]:
  "local_part (eval_account_part cl v) (\<lambda>n. Part cl' (EqTerm c n))"
  "local_part (eval_account_part cl v) (\<lambda>n. Part cl' (GtTerm c n))"
  "local_part (eval_account_part cl v) (\<lambda>n. Part cl' (LtTerm c n))"
  "local_part (eval_account_part cl v) SpendTerm"
  by (simp_all add: local_part_def)

lemma add_addr_aligned [query_simps]:
  assumes "aligned ev b" and "local_part ev P"
  shows "aligned ev (add_addr P a b)" and "holds ev (add_addr P a b) \<longleftrightarrow> holds ev b \<and> (a = [] \<or> ev [ArgB a] (P 1))"
  using assms by (auto simp: add_addr_def query_simps)

lemma fixed_account_parts:
  "eval_account_part cl v as OnlineTerm = eval_account_part cl v [] OnlineTerm"
  "eval_account_part cl v as (Part cl' (NotTerm c)) = eval_account_part cl v [] (Part cl' (NotTerm c))"
  by simp_all

definition asset_selected :: "AccountQueryOptions \<Rightarrow> account_asset_row \<Rightarrow> bool" where
  "asset_selected opts h \<longleftrightarrow>
     aa_assetid h = ao_HasAssetID opts \<and> given (\<lambda>n. n < aa_amount h) (ao_AssetGT opts) \<and>
     given (\<lambda>n. aa_amount h < n) (ao_AssetLT opts) \<and> (ao_GreaterThanAddress opts = [] \<or> ao_GreaterThanAddress opts < aa_addr h)"

definition app_selected :: "AccountQueryOptions \<Rightarrow> 'j account_app_row \<Rightarrow> bool" where
  "app_selected opts s \<longleftrightarrow>
     al_app s = ao_HasAppID opts \<and> (ao_GreaterThanAddress opts = [] \<or> ao_GreaterThanAddress opts < al_addr s)"

definition account_selected :: "'j text_server \<Rightarrow> AccountQueryOptions \<Rightarrow> 'j account_row \<Rightarrow> bool" where
  "account_selected srv opts r \<longleftrightarrow>
     (ao_GreaterThanAddress opts = [] \<or> ao_GreaterThanAddress opts < acc_addr r) \<and>
     (ao_EqualToAddress opts = [] \<or> acc_addr r = ao_EqualToAddress opts) \<and>
     given (\<lambda>n. n < acc_microalgos r) (ao_AlgosGreaterThan opts) \<and> given (\<lambda>n. acc_microalgos r < n) (ao_AlgosLessThan opts) \<and>
     (ao_IncludeDeleted opts \<or> \<not> acc_deleted r) \<and>
     (ao_EqualToAuthAddr opts = [] \<or> params_string srv ''spend'' (acc_account_data r) = Some (Base64 (ao_EqualToAuthAddr opts))) \<and>
     (ao_OnlineOnly opts \<longrightarrow> params_string srv ''onl'' (acc_account_data r) = Some ''1'' \<and>
        params_string srv ''voteLst'' (acc_account_data r) \<noteq> None)"

lemmas account_part_simps = query_simps fixed_account_parts option_holds_def conj_assoc

lemma account_clause_aligned [query_simps]:
  assumes "aligned (eval_account_part cl v) b"
  shows "aligned (eval_account_part cl v) (account_clause opts b)"
  using assms by (simp add: account_clause_def account_part_simps del: One_nat_def)

lemma asset_clause_aligned [query_simps]:
  assumes "aligned (eval_account_part cl v) b"
  shows "aligned (eval_account_part cl v) (asset_clause opts b)"
  using assms by (simp add: asset_clause_def account_part_simps del: One_nat_def)

lemma app_clause_aligned [query_simps]:
  assumes "aligned (eval_account_part cl v) b"
  shows "aligned (eval_account_part cl v) (app_clause opts b)"
  using assms by (simp add: app_clause_def account_part_simps del: One_nat_def)

lemma holds_account_clause:
  assumes "aligned (eval_account_part cl v) b"
  shows "holds (eval_account_part cl v) (account_clause opts b) \<longleftrightarrow>
    holds (eval_account_part cl v) b \<and> (cl = QAccounts \<longrightarrow> holds (eval_account_part cl v) (account_clause opts ([], [], 1)))"
  using assms by (cases cl) (auto simp: account_clause_def account_part_simps given_def simp del: One_nat_def split: option.splits)

lemma holds_asset_clause:
  assumes "aligned (eval_account_part cl v) b"
  shows "holds (eval_account_part cl v) (asset_clause opts b) \<longleftrightarrow>
    holds (eval_account_part cl v) b \<and> (cl = QAssets \<longrightarrow> holds (eval_account_part cl v) (asset_clause opts ([], [], 1)))"
  using assms by (cases cl) (auto simp: asset_clause_def account_part_simps given_def simp del: One_nat_def split: option.splits)

lemma holds_app_clause:
  assumes "aligned (eval_account_part cl v) b"
  shows "holds (eval_account_part cl v) (app_clause opts b) \<longleftrightarrow>
    holds (eval_account_part cl v) b \<and> (cl = QApps \<longrightarrow> holds (eval_account_part cl v) (app_clause opts ([], [], 1)))"
  using assms by (cases cl) (auto simp: app_clause_def account_part_simps simp del: One_nat_def)

lemma holds_account_parts:
  fixes cl v defines "ev \<equiv> eval_account_part cl v"
  shows "holds ev (account_parts opts) \<longleftrightarrow>
    (cl = QAccounts \<longrightarrow> holds ev (account_clause opts ([], [], 1))) \<and>
    (cl = QApps \<and> ao_HasAppID opts \<noteq> 0 \<longrightarrow> holds ev (app_clause opts ([], [], 1))) \<and>
    (cl = QAssets \<and> ao_HasAssetID opts \<noteq> 0 \<longrightarrow> holds ev (asset_clause opts ([], [], 1)))"
proof -
  let ?b = "if ao_HasAssetID opts \<noteq> 0 then asset_clause opts ([], [], 1) else ([], [], 1)"
  let ?c = "if ao_HasAppID opts \<noteq> 0 then app_clause opts ?b else ?b"
  have al: "aligned ev ?b" unfolding ev_def by (simp only: asset_clause_aligned aligned_start split: if_split) simp
  have al': "aligned ev ?c" using al unfolding ev_def by (simp only: app_clause_aligned split: if_split) simp
  have b: "holds ev ?b \<longleftrightarrow> (cl = QAssets \<and> ao_HasAssetID opts \<noteq> 0 \<longrightarrow> holds ev (asset_clause opts ([], [], 1)))"
    using holds_asset_clause [OF aligned_start(1), of cl v opts] aligned_start(2) [of ev] unfolding ev_def by auto
  have c: "holds ev ?c \<longleftrightarrow> holds ev ?b \<and> (cl = QApps \<and> ao_HasAppID opts \<noteq> 0 \<longrightarrow> holds ev (app_clause opts ([], [], 1)))"
    using holds_app_clause [OF al [unfolded ev_def], of opts] unfolding ev_def by auto
  show ?thesis
    using holds_account_clause [OF al' [unfolded ev_def], of opts] b c
    unfolding ev_def account_parts_def add_if_def by auto
qed

lemma account_parts_select:
  "ao_HasAssetID opts \<noteq> 0 \<Longrightarrow>
     holds (eval_account_part QAssets (asset_clause_view h)) (account_parts opts) \<longleftrightarrow> asset_selected opts h"
  "ao_HasAppID opts \<noteq> 0 \<Longrightarrow>
     holds (eval_account_part QApps (app_clause_view s)) (account_parts opts) \<longleftrightarrow> app_selected opts s"
  "holds (eval_account_part QAccounts (account_view srv r)) (account_parts opts) \<longleftrightarrow> account_selected srv opts r"
proof -
  show "ao_HasAssetID opts \<noteq> 0 \<Longrightarrow>
     holds (eval_account_part QAssets (asset_clause_view h)) (account_parts opts) \<longleftrightarrow> asset_selected opts h"
    unfolding holds_account_parts
    by (auto simp: asset_clause_def account_part_simps asset_selected_def asset_clause_view_def simp del: One_nat_def)
  show "ao_HasAppID opts \<noteq> 0 \<Longrightarrow>
     holds (eval_account_part QApps (app_clause_view s)) (account_parts opts) \<longleftrightarrow> app_selected opts s"
    unfolding holds_account_parts
    by (auto simp: app_clause_def account_part_simps app_selected_def app_clause_view_def simp del: One_nat_def)
  show "holds (eval_account_part QAccounts (account_view srv r)) (account_parts opts) \<longleftrightarrow> account_selected srv opts r"
    unfolding holds_account_parts
    by (auto simp: account_clause_def account_part_simps account_selected_def account_view_def simp del: One_nat_def
        split: option.splits if_splits)
qed

text \<open>What the options ask for: the account itself, and that it holds the asset and has opted in to the
  application, if these are given. A row of a holding or of a local state counts also when it is marked
  as deleted.\<close>

definition account_matches :: "'j text_server \<Rightarrow> 'j main_tables \<Rightarrow> AccountQueryOptions \<Rightarrow> 'j account_row \<Rightarrow> bool" where
  "account_matches srv main opts r \<longleftrightarrow>
     account_selected srv opts r \<and>
     (ao_HasAssetID opts \<noteq> 0 \<longrightarrow>
        list_ex (\<lambda>h. aa_addr h = acc_addr r \<and> aa_assetid h = ao_HasAssetID opts \<and>
          given (\<lambda>n. n < aa_amount h) (ao_AssetGT opts) \<and> given (\<lambda>n. aa_amount h < n) (ao_AssetLT opts))
          (tbl_account_asset main)) \<and>
     (ao_HasAppID opts \<noteq> 0 \<longrightarrow>
        list_ex (\<lambda>s. al_addr s = acc_addr r \<and> al_app s = ao_HasAppID opts) (tbl_account_app main))"

lemma filter_joined:
  assumes "\<And>r. r \<in> set rows \<Longrightarrow> length (matching r) \<le> 1"
  shows "filter P (concat (map (\<lambda>r. map (\<lambda>_. r) (matching r)) rows)) = filter (\<lambda>r. P r \<and> matching r \<noteq> []) rows"
  using assms
proof (induction rows)
  case (Cons r rows)
  then have "length (matching r) \<le> 1" by simp
  then consider "matching r = []" | x where "matching r = [x]" by (cases "matching r") auto
  then show ?case using Cons by cases simp_all
qed simp

lemma filter_eq_distinct: "distinct xs \<Longrightarrow> filter (\<lambda>b. b = a) xs = (if a \<in> set xs then [a] else [])"
  by (induction xs) auto

lemma join_addrs_distinct:
  assumes "joined \<Longrightarrow> distinct addrs"
  shows "join_addrs joined addrs a = (if joined \<and> a \<notin> set addrs then [] else [a])"
  using assms by (simp add: join_addrs_def filter_eq_distinct)

definition keys_unique :: "'j main_tables \<Rightarrow> bool" where
  "keys_unique main \<longleftrightarrow>
     key_unique acc_addr (tbl_account main) \<and> key_unique aa_key (tbl_account_asset main) \<and>
     key_unique as_index (tbl_asset main) \<and> key_unique app_index (tbl_app main) \<and>
     key_unique al_key (tbl_account_app main)"

lemma key_unique_swap: "key_unique (\<lambda>r. (f r, g r)) t \<Longrightarrow> key_unique (\<lambda>r. (g r, f r)) t"
  by (auto simp: key_unique_def distinct_map inj_on_def)

lemma exec_qaccounts_matches:
  assumes "keys_unique main"
  shows "exec_qaccounts srv main (buildAccountQuery opts cnt) =
    limit_or_all (ao_Limit opts) (sort_key acc_addr (filter (account_matches srv main opts) (tbl_account main)))"
proof -
  obtain ps as n where parts: "account_parts opts = (ps, as, n)" by (cases "account_parts opts")
  define sat where "sat = (\<lambda>cl v. list_all (eval_account_part cl v as) ps)"
  have sat: "sat cl v \<longleftrightarrow> holds (eval_account_part cl v) (account_parts opts)" for cl v by (simp add: sat_def parts holds_def)
  define qasf where "qasf = map aa_addr (filter (\<lambda>r. sat QAssets (asset_clause_view r)) (tbl_account_asset main))"
  define qapf where "qapf = map al_addr (filter (\<lambda>r. sat QApps (app_clause_view r)) (tbl_account_app main))"
  have u: "key_unique (\<lambda>r. (aa_assetid r, aa_addr r)) (tbl_account_asset main)"
      "key_unique (\<lambda>r. (al_app r, al_addr r)) (tbl_account_app main)"
    using assms unfolding keys_unique_def by (blast intro: key_unique_swap)+
  have d1: "distinct qasf" if "ao_HasAssetID opts \<noteq> 0"
    unfolding qasf_def
    by (rule key_unique_fixed [OF u(1), of _ "ao_HasAssetID opts"]) (simp add: sat account_parts_select(1) [OF that] asset_selected_def)
  have d2: "distinct qapf" if "ao_HasAppID opts \<noteq> 0"
    unfolding qapf_def
    by (rule key_unique_fixed [OF u(2), of _ "ao_HasAppID opts"]) (simp add: sat account_parts_select(2) [OF that] app_selected_def)
  define m where "m = (\<lambda>r :: 'a account_row. List.product (join_addrs (ao_HasAssetID opts \<noteq> 0) qasf (acc_addr r))
      (join_addrs (ao_HasAppID opts \<noteq> 0) qapf (acc_addr r)))"
  have m: "m r = (if (ao_HasAssetID opts \<noteq> 0 \<and> acc_addr r \<notin> set qasf) \<or> (ao_HasAppID opts \<noteq> 0 \<and> acc_addr r \<notin> set qapf)
      then [] else [(acc_addr r, acc_addr r)])" for r
  proof -
    have "join_addrs (ao_HasAssetID opts \<noteq> 0) qasf a = (if ao_HasAssetID opts \<noteq> 0 \<and> a \<notin> set qasf then [] else [a])"
        "join_addrs (ao_HasAppID opts \<noteq> 0) qapf a = (if ao_HasAppID opts \<noteq> 0 \<and> a \<notin> set qapf then [] else [a])" for a
      by (rule join_addrs_distinct, erule d1, rule join_addrs_distinct, erule d2)
    then show ?thesis unfolding m_def by (simp only: split: if_split) simp
  qed
  have "account_matches srv main opts r \<longleftrightarrow> sat QAccounts (account_view srv r) \<and> m r \<noteq> []" for r
  proof -
    have a: "acc_addr r \<in> set qasf \<longleftrightarrow> list_ex (\<lambda>h. aa_addr h = acc_addr r \<and> asset_selected opts h) (tbl_account_asset main)"
      if "ao_HasAssetID opts \<noteq> 0"
      unfolding qasf_def sat account_parts_select(1) [OF that] by (force simp: list_ex_iff)
    have b: "acc_addr r \<in> set qapf \<longleftrightarrow> list_ex (\<lambda>s. al_addr s = acc_addr r \<and> app_selected opts s) (tbl_account_app main)"
      if "ao_HasAppID opts \<noteq> 0"
      unfolding qapf_def sat account_parts_select(2) [OF that] by (force simp: list_ex_iff)
    have c: "list_ex (\<lambda>h. aa_addr h = acc_addr r \<and> asset_selected opts h) (tbl_account_asset main) \<longleftrightarrow>
        list_ex (\<lambda>h. aa_addr h = acc_addr r \<and> aa_assetid h = ao_HasAssetID opts \<and>
          given (\<lambda>n. n < aa_amount h) (ao_AssetGT opts) \<and> given (\<lambda>n. aa_amount h < n) (ao_AssetLT opts)) (tbl_account_asset main)"
      "list_ex (\<lambda>s. al_addr s = acc_addr r \<and> app_selected opts s) (tbl_account_app main) \<longleftrightarrow>
        list_ex (\<lambda>s. al_addr s = acc_addr r \<and> al_app s = ao_HasAppID opts) (tbl_account_app main)"
      if "account_selected srv opts r"
      using that by (auto simp: list_ex_iff account_selected_def asset_selected_def app_selected_def)
    show ?thesis unfolding m account_matches_def sat account_parts_select(3) using a b c by auto
  qed
  then have f: "account_matches srv main opts = (\<lambda>r. sat QAccounts (account_view srv r) \<and> m r \<noteq> [])" by blast
  have l: "length (m r) \<le> 1" for r unfolding m by simp
  have e: "exec_qaccounts srv main (buildAccountQuery opts cnt) = limit_or_all (ao_Limit opts) (sort_key acc_addr
      (filter (\<lambda>r. sat QAccounts (account_view srv r)) (concat (map (\<lambda>r. map (\<lambda>_. r) (m r)) (tbl_account main)))))"
    by (simp add: exec_qaccounts_def buildAccountQuery_def parts Let_def m_def qasf_def qapf_def sat_def)
  show ?thesis unfolding e f filter_joined [OF l] by (rule refl)
qed

section \<open>The resources of an account\<close>

definition nonempty :: "'a list \<Rightarrow> 'a list option" where
  "nonempty xs = (if xs = [] then None else Some xs)"

lemma nonempty_map: "map_option (map f) (nonempty xs) = nonempty (map f xs)"
  by (simp add: nonempty_def)

text \<open>The rows of a table that belong to an account, without the deleted ones unless they are asked for.\<close>

definition rows_of :: "bool \<Rightarrow> ('r \<Rightarrow> Address) \<Rightarrow> ('r \<Rightarrow> bool) \<Rightarrow> 'r list \<Rightarrow> Address \<Rightarrow> 'r list" where
  "rows_of includeDeleted addr deleted rows a = filter (\<lambda>r. addr r = a \<and> (includeDeleted \<or> \<not> deleted r)) rows"

lemma concat_map_single: "(\<And>x. x \<in> set xs \<Longrightarrow> f x = [x]) \<Longrightarrow> concat (map f xs) = xs"
  by (induction xs) simp_all

lemma group_rows_of:
  assumes "distinct (map acc_addr q)" and "a \<in> acc_addr ` set q"
  shows "group_rows del addr deleted rows q a = nonempty (rows_of del addr deleted rows a)"
proof -
  have "map (\<lambda>_. r) (filter (\<lambda>x. acc_addr x = addr r) q) = [r]" if "addr r = a" for r
  proof -
    have "map acc_addr (filter (\<lambda>x. acc_addr x = a) q) = filter (\<lambda>b. b = a) (map acc_addr q)"
      by (simp add: filter_map comp_def)
    also have "\<dots> = [a]" using assms by (simp add: filter_eq_distinct)
    finally have "length (filter (\<lambda>x. acc_addr x = a) q) = 1" by (metis length_map length_Cons list.size(3) One_nat_def)
    then show ?thesis using that by (cases "filter (\<lambda>x. acc_addr x = a) q") auto
  qed
  then have "concat (map (\<lambda>r. map (\<lambda>_. r) (filter (\<lambda>x. acc_addr x = addr r) q)) (rows_of del addr deleted rows a)) =
      rows_of del addr deleted rows a"
    by (intro concat_map_single) (simp add: rows_of_def)
  then show ?thesis unfolding group_rows_def rows_of_def [symmetric] by (simp add: nonempty_def split: list.split)
qed

definition resources_of :: "'j main_tables \<Rightarrow> AccountQueryOptions \<Rightarrow> 'j account_row \<Rightarrow> 'j account_answer" where
  "resources_of main opts r =
     (let del = ao_IncludeDeleted opts; a = acc_addr r in
      \<lparr>aw_account = r,
       aw_holdings = option_if (ao_IncludeAssetHoldings opts) (nonempty (rows_of del aa_addr aa_deleted (tbl_account_asset main) a)),
       aw_assets = option_if (ao_IncludeAssetParams opts) (nonempty (rows_of del as_creator_addr as_deleted (tbl_asset main) a)),
       aw_apps = option_if (ao_IncludeAppParams opts) (nonempty (rows_of del app_creator app_deleted (tbl_app main) a)),
       aw_states = option_if (ao_IncludeAppLocalState opts) (nonempty (rows_of del al_addr al_deleted (tbl_account_app main) a))\<rparr>)"

definition found_accounts :: "'j text_server \<Rightarrow> 'j main_tables \<Rightarrow> AccountQueryOptions \<Rightarrow> 'j account_row list" where
  "found_accounts srv main opts = sort_key acc_addr (filter (account_matches srv main opts) (tbl_account main))"

lemma sort_key_sorted: "sorted (map f xs) \<Longrightarrow> sort_key f xs = xs"
  by (induction xs) (auto simp: insort_is_Cons)

lemma found_accounts_ascending:
  assumes "keys_unique main"
  shows "sorted_wrt (<) (map acc_addr (found_accounts srv main opts))"
  unfolding found_accounts_def using assms by (intro key_unique_filter_ascending) (simp add: keys_unique_def)

lemma limit_ascending:
  "sorted_wrt (<) (map f xs) \<Longrightarrow> sorted_wrt (<) (map f (limit_or_all n xs))"
  by (simp add: limit_or_all_def sorted_wrt_take flip: take_map)

lemma exec_account_query_found:
  assumes "keys_unique main"
  shows "exec_account_query srv main (buildAccountQuery opts cnt) =
    map (resources_of main opts) (limit_or_all (ao_Limit opts) (found_accounts srv main opts))"
proof -
  let ?q = "limit_or_all (ao_Limit opts) (found_accounts srv main opts)"
  have asc: "sorted_wrt (<) (map acc_addr ?q)" by (rule limit_ascending [OF found_accounts_ascending [OF assms]])
  then have s: "sort_key acc_addr ?q = ?q" and d: "distinct (map acc_addr ?q)"
    by (simp_all add: sort_key_sorted strict_sorted_iff)
  have o: "acq_opts (fst (buildAccountQuery opts cnt)) = opts" by (simp add: buildAccountQuery_def split: prod.split)
  show ?thesis
    unfolding exec_account_query_def exec_qaccounts_matches [OF assms] found_accounts_def [symmetric] o Let_def s
    by (rule map_cong [OF refl]) (simp only: resources_of_def Let_def group_rows_of [OF d imageI])
qed

section \<open>Reading the resources\<close>

text \<open>What the code relies on: decoding an aggregated column gives the values of the column, and the
  array of the identifiers is not the array of one null.\<close>

definition faithful_arrays :: "'j codec \<Rightarrow> 'j json_arrays \<Rightarrow> bool" where
  "faithful_arrays c ar \<longleftrightarrow>
     (\<forall>xs. dec_uints ar (agg_uints ar xs) = Inr xs \<and> \<not> is_null_array ar (agg_uints ar xs)) \<and>
     (\<forall>xs. dec_opt_uints ar (agg_opt_uints ar xs) = Inr xs) \<and>
     (\<forall>xs. dec_bools ar (agg_bools ar xs) = Inr xs \<and> dec_opt_bools ar (agg_bools ar xs) = Inr (map Some xs)) \<and>
     (\<forall>docs. dec_assetParamsArray c (agg_docs ar docs) = res_map (dec_assetParams c) docs \<and>
        dec_appParamsArray c (agg_docs ar docs) = res_map (dec_appParams c) docs \<and>
        dec_appLocalStateArray c (agg_docs ar docs) = res_map (dec_appLocalState c) docs)"

lemma faithful_arrays_simps:
  assumes "faithful_arrays c ar"
  shows "dec_uints ar (agg_uints ar us) = Inr us" "\<not> is_null_array ar (agg_uints ar us)"
    "dec_opt_uints ar (agg_opt_uints ar os) = Inr os" "dec_bools ar (agg_bools ar bs) = Inr bs"
    "dec_opt_bools ar (agg_bools ar bs) = Inr (map Some bs)"
    "dec_assetParamsArray c (agg_docs ar docs) = res_map (dec_assetParams c) docs"
    "dec_appParamsArray c (agg_docs ar docs) = res_map (dec_appParams c) docs"
    "dec_appLocalStateArray c (agg_docs ar docs) = res_map (dec_appLocalState c) docs"
  using assms by (simp_all add: faithful_arrays_def)

lemma for_new_ids_distinct: "distinct ids \<Longrightarrow> for_new_ids ids f = map f [0..<length ids]"
proof -
  assume "distinct ids"
  then have "ids ! i \<notin> set (take i ids)" if "i < length ids" for i
    using that by (auto simp: in_set_conv_nth nth_eq_iff_index_eq)
  then have "map (\<lambda>i. if ids ! i \<in> set (take i ids) then [] else [f i]) [0..<length ids] = map (\<lambda>i. [f i]) [0..<length ids]"
    by (intro map_cong) simp_all
  then show ?thesis unfolding for_new_ids_def by (simp only: concat_map_singleton)
qed

lemma map_rows_nth: "map (\<lambda>i. f (rows ! i)) [0..<length rows] = map f rows"
  by (rule nth_equalityI) simp_all

lemma map_rows_cong:
  assumes "\<And>i. i < length rows \<Longrightarrow> g i = f (rows ! i)" and "n = length rows"
  shows "map g [0..<n] = map f rows"
  using assms by (intro nth_equalityI) simp_all

lemma account_holdings_read:
  assumes "faithful_arrays c ar" and "distinct (map aa_assetid rows)"
  shows "account_holdings ar (option_if inc (nonempty rows)) = Inr (option_if inc (nonempty (map holding_answer rows)))"
proof (cases "inc \<and> rows \<noteq> []")
  case True
  then have "option_if inc (nonempty rows) = Some rows" by (simp add: option_if_def nonempty_def)
  moreover have "for_new_ids (map aa_assetid rows) (\<lambda>i.
      \<lparr>mh_Amount = map aa_amount rows ! i, mh_AssetId = map aa_assetid rows ! i, mh_Deleted = map Some (map aa_deleted rows) ! i,
       mh_IsFrozen = map aa_frozen rows ! i, mh_OptedInAtRound = map (\<lambda>r. Some (aa_created_at r)) rows ! i,
       mh_OptedOutAtRound = map aa_closed_at rows ! i\<rparr>) = map holding_answer rows"
    unfolding for_new_ids_distinct [OF assms(2)] by (rule map_rows_cong) (simp_all add: holding_answer_def)
  ultimately show ?thesis using True
    by (simp add: account_holdings_def faithful_arrays_simps [OF assms(1)] Let_def) (simp add: option_if_def nonempty_def)
qed (auto simp: account_holdings_def option_if_def nonempty_def)

text \<open>A created asset as it is shown with its account, and as it can be read.\<close>

definition created_asset_answer :: "sdk \<Rightarrow> 'j codec \<Rightarrow> string \<Rightarrow> 'j asset_row \<Rightarrow> Asset" where
  "created_asset_answer env c address r =
     \<lparr>mas_CreatedAtRound = Some (as_created_at r), mas_Deleted = Some (as_deleted r), mas_DestroyedAtRound = as_closed_at r,
      mas_Index = as_index r,
      mas_Params = created_asset_params env (IsPrint c) address (projr (DecodeAssetParams c (as_params r)))\<rparr>"

lemma DecodeAssetParamsArray_read:
  assumes "faithful_arrays c ar" and "\<And>r. r \<in> set rows \<Longrightarrow> \<not> isl (DecodeAssetParams c (as_params r))"
  shows "DecodeAssetParamsArray c (agg_docs ar (map as_params rows)) = Inr (map (\<lambda>r. projr (DecodeAssetParams c (as_params r))) rows)"
  using assms(2)
proof (induction rows)
  case Nil
  then show ?case by (simp add: DecodeAssetParamsArray_def faithful_arrays_simps [OF assms(1)] unconvertAssetParamsArray_def)
next
  case (Cons r rows)
  from Cons.prems [of r] obtain p where "dec_assetParams c (as_params r) = Inr p"
    by (cases "dec_assetParams c (as_params r)") (auto simp: DecodeAssetParams_def)
  with Cons show ?case
    by (auto simp: DecodeAssetParamsArray_def DecodeAssetParams_def faithful_arrays_simps [OF assms(1)] unconvertAssetParamsArray_def result_simps)
qed

lemma account_assets_read:
  assumes "faithful_arrays c ar" and "distinct (map as_index rows)"
    and "\<And>r. inc \<Longrightarrow> r \<in> set rows \<Longrightarrow> \<not> isl (DecodeAssetParams c (as_params r))"
  shows "account_assets env c ar address (option_if inc (nonempty rows)) =
    Inr (option_if inc (nonempty (map (created_asset_answer env c address) rows)))"
proof (cases "inc \<and> rows \<noteq> []")
  case True
  then have "option_if inc (nonempty rows) = Some rows" by (simp add: option_if_def nonempty_def)
  moreover have "for_new_ids (map as_index rows) (\<lambda>i.
      \<lparr>mas_CreatedAtRound = map (\<lambda>r. Some (as_created_at r)) rows ! i, mas_Deleted = map Some (map as_deleted rows) ! i,
       mas_DestroyedAtRound = map as_closed_at rows ! i, mas_Index = map as_index rows ! i,
       mas_Params = created_asset_params env (IsPrint c) address (map (\<lambda>r. projr (DecodeAssetParams c (as_params r))) rows ! i)\<rparr>) =
      map (created_asset_answer env c address) rows"
    unfolding for_new_ids_distinct [OF assms(2)] by (rule map_rows_cong) (simp_all add: created_asset_answer_def)
  ultimately show ?thesis using True DecodeAssetParamsArray_read [OF assms(1), of rows] assms(3)
    by (simp add: account_assets_def faithful_arrays_simps [OF assms(1)] Let_def) (simp add: option_if_def nonempty_def)
qed (auto simp: account_assets_def option_if_def nonempty_def)

definition created_app_answer :: "'j codec \<Rightarrow> string \<Rightarrow> 'j app_row \<Rightarrow> Application" where
  "created_app_answer c address r =
     \<lparr>ma_CreatedAtRound = Some (app_created_at r), ma_Deleted = Some (app_deleted r), ma_DeletedAtRound = app_closed_at r,
      ma_Id = app_index r, ma_Params = created_app_params address (projr (DecodeAppParams c (app_params r)))\<rparr>"

lemma DecodeAppParamsArray_read:
  assumes "faithful_arrays c ar" and "\<And>r. r \<in> set rows \<Longrightarrow> \<not> isl (dec_appParams c (app_params r))"
  shows "DecodeAppParamsArray c (agg_docs ar (map app_params rows)) = Inr (map (\<lambda>r. projr (DecodeAppParams c (app_params r))) rows)"
  using assms(2)
proof (induction rows)
  case Nil
  then show ?case by (simp add: DecodeAppParamsArray_def faithful_arrays_simps [OF assms(1)] unconvertAppParamsArray_def)
next
  case (Cons r rows)
  from Cons.prems [of r] obtain p where "dec_appParams c (app_params r) = Inr p" by (cases "dec_appParams c (app_params r)") auto
  with Cons show ?case
    by (auto simp: DecodeAppParamsArray_def DecodeAppParams_def faithful_arrays_simps [OF assms(1)] unconvertAppParamsArray_def result_simps)
qed

lemma account_apps_read:
  assumes "faithful_arrays c ar" and "\<And>r. inc \<Longrightarrow> r \<in> set rows \<Longrightarrow> \<not> isl (dec_appParams c (app_params r))"
  shows "account_apps c ar address (option_if inc (nonempty rows)) =
    Inr (option_if inc (nonempty (map (created_app_answer c address) rows)))"
proof (cases "inc \<and> rows \<noteq> []")
  case True
  then have "option_if inc (nonempty rows) = Some rows" by (simp add: option_if_def nonempty_def)
  moreover have "map (\<lambda>i.
      \<lparr>ma_CreatedAtRound = map (\<lambda>r. Some (app_created_at r)) rows ! i, ma_Deleted = map Some (map app_deleted rows) ! i,
       ma_DeletedAtRound = map app_closed_at rows ! i, ma_Id = map app_index rows ! i,
       ma_Params = created_app_params address (map (\<lambda>r. projr (DecodeAppParams c (app_params r))) rows ! i)\<rparr>) [0..<length rows] =
      map (created_app_answer c address) rows"
    by (rule map_rows_cong) (simp_all add: created_app_answer_def)
  ultimately show ?thesis using True DecodeAppParamsArray_read [OF assms(1), of rows] assms(2)
    by (simp add: account_apps_def faithful_arrays_simps [OF assms(1)] Let_def) (simp add: option_if_def nonempty_def)
qed (auto simp: account_apps_def option_if_def nonempty_def)

definition opted_in_answer :: "'j codec \<Rightarrow> 'j account_app_row \<Rightarrow> ApplicationLocalState" where
  "opted_in_answer c r =
     (let ls = projr (DecodeAppLocalState c (al_localstate r)) in
      \<lparr>mls_ClosedOutAtRound = al_closed_at r, mls_Deleted = Some (al_deleted r), mls_Id = al_app r,
       mls_KeyValue = tealKeyValueToModel (als_KeyValue ls), mls_OptedInAtRound = Some (al_created_at r),
       mls_Schema = schema_model (als_Schema ls)\<rparr>)"

lemma DecodeAppLocalStateArray_read:
  assumes "faithful_arrays c ar" and "\<And>r. r \<in> set rows \<Longrightarrow> \<not> isl (DecodeAppLocalState c (al_localstate r))"
  shows "DecodeAppLocalStateArray c (agg_docs ar (map al_localstate rows)) =
    Inr (map (\<lambda>r. projr (DecodeAppLocalState c (al_localstate r))) rows)"
  using assms(2)
proof (induction rows)
  case Nil
  then show ?case by (simp add: DecodeAppLocalStateArray_def faithful_arrays_simps [OF assms(1)] unconvertAppLocalStateArray_def)
next
  case (Cons r rows)
  from Cons.prems [of r] obtain p where "dec_appLocalState c (al_localstate r) = Inr p"
    by (cases "dec_appLocalState c (al_localstate r)") (auto simp: DecodeAppLocalState_def)
  with Cons show ?case
    by (auto simp: DecodeAppLocalStateArray_def DecodeAppLocalState_def faithful_arrays_simps [OF assms(1)]
        unconvertAppLocalStateArray_def result_simps)
qed

lemma account_states_read:
  assumes "faithful_arrays c ar" and "\<And>r. inc \<Longrightarrow> r \<in> set rows \<Longrightarrow> \<not> isl (DecodeAppLocalState c (al_localstate r))"
  shows "account_states c ar (option_if inc (nonempty rows)) = Inr (option_if inc (nonempty (map (opted_in_answer c) rows)))"
proof (cases "inc \<and> rows \<noteq> []")
  case True
  then have "option_if inc (nonempty rows) = Some rows" by (simp add: option_if_def nonempty_def)
  moreover have "map (\<lambda>i.
      \<lparr>mls_ClosedOutAtRound = map al_closed_at rows ! i, mls_Deleted = map Some (map al_deleted rows) ! i,
       mls_Id = map al_app rows ! i,
       mls_KeyValue = tealKeyValueToModel (als_KeyValue (map (\<lambda>r. projr (DecodeAppLocalState c (al_localstate r))) rows ! i)),
       mls_OptedInAtRound = map (\<lambda>r. Some (al_created_at r)) rows ! i,
       mls_Schema = schema_model (als_Schema (map (\<lambda>r. projr (DecodeAppLocalState c (al_localstate r))) rows ! i))\<rparr>) [0..<length rows] =
      map (opted_in_answer c) rows"
    by (rule map_rows_cong) (simp_all add: opted_in_answer_def Let_def)
  ultimately show ?thesis using True DecodeAppLocalStateArray_read [OF assms(1), of rows] assms(2)
    by (simp add: account_states_def faithful_arrays_simps [OF assms(1)] Let_def) (simp add: option_if_def nonempty_def)
qed (auto simp: account_states_def option_if_def nonempty_def)

section \<open>Reading an account\<close>

definition account_data_of :: "'j codec \<Rightarrow> 'j account_row \<Rightarrow> AccountData" where
  "account_data_of c r = projr (DecodeTrimmedLcAccountData c (acc_account_data r))"

text \<open>A stored account that can be shown: its data and the included resources decode, its status is known.\<close>

definition account_readable :: "'j codec \<Rightarrow> 'j main_tables \<Rightarrow> AccountQueryOptions \<Rightarrow> 'j account_row \<Rightarrow> bool" where
  "account_readable c main opts r \<longleftrightarrow>
     length (acc_addr r) = 32 \<and> \<not> isl (DecodeTrimmedLcAccountData c (acc_account_data r)) \<and> Status (account_data_of c r) < 3 \<and>
     (ao_IncludeAssetParams opts \<longrightarrow> list_all (\<lambda>x. \<not> isl (DecodeAssetParams c (as_params x)))
        (rows_of (ao_IncludeDeleted opts) as_creator_addr as_deleted (tbl_asset main) (acc_addr r))) \<and>
     (ao_IncludeAppParams opts \<longrightarrow> list_all (\<lambda>x. \<not> isl (dec_appParams c (app_params x)))
        (rows_of (ao_IncludeDeleted opts) app_creator app_deleted (tbl_app main) (acc_addr r))) \<and>
     (ao_IncludeAppLocalState opts \<longrightarrow> list_all (\<lambda>x. \<not> isl (DecodeAppLocalState c (al_localstate x)))
        (rows_of (ao_IncludeDeleted opts) al_addr al_deleted (tbl_account_app main) (acc_addr r)))"

text \<open>What is shown of it: the fields of the row and of the stored data, the rewards at the round, and the
  rows of the other tables that belong to the account.\<close>

definition shown_account ::
  "sdk \<Rightarrow> 'j codec \<Rightarrow> 'j main_tables \<Rightarrow> ConsensusParams \<Rightarrow> BlockHeader \<Rightarrow> AccountQueryOptions \<Rightarrow> 'j account_row \<Rightarrow> model_Account" where
  "shown_account env c main proto bh opts r =
     (let del = ao_IncludeDeleted opts; a = acc_addr r; address = AddressString env (copy_array 32 a) in
      (with_rewards proto bh r (with_account_data env proto (account_data_of c r) (account_base env bh r)))
       \<lparr>mac_Assets := option_if (ao_IncludeAssetHoldings opts)
          (nonempty (map holding_answer (rows_of del aa_addr aa_deleted (tbl_account_asset main) a))),
        mac_CreatedAssets := option_if (ao_IncludeAssetParams opts)
          (nonempty (map (created_asset_answer env c address) (rows_of del as_creator_addr as_deleted (tbl_asset main) a))),
        mac_CreatedApps := option_if (ao_IncludeAppParams opts)
          (nonempty (map (created_app_answer c address) (rows_of del app_creator app_deleted (tbl_app main) a))),
        mac_AppsLocalState := option_if (ao_IncludeAppLocalState opts)
          (nonempty (map (opted_in_answer c) (rows_of del al_addr al_deleted (tbl_account_app main) a)))\<rparr>)"

lemma rows_of_distinct:
  "key_unique k rows \<Longrightarrow> distinct (map k (rows_of del addr deleted rows a))"
  "key_unique (\<lambda>r. (addr r, g r)) rows \<Longrightarrow> distinct (map g (rows_of del addr deleted rows a))"
proof -
  show "key_unique k rows \<Longrightarrow> distinct (map k (rows_of del addr deleted rows a))"
    by (simp add: rows_of_def key_unique_def distinct_map_filter)
  show "key_unique (\<lambda>r. (addr r, g r)) rows \<Longrightarrow> distinct (map g (rows_of del addr deleted rows a))"
    unfolding rows_of_def by (erule key_unique_fixed [where a = a]) simp
qed

lemma account_address [simp]:
  "mac_Address (with_rewards proto bh r (with_account_data env proto ad (account_base env bh r))) = AddressString env (copy_array 32 (acc_addr r))"
  by (simp add: with_rewards_def with_account_data_def account_base_def Let_def)

lemma account_record_read:
  assumes "faithful_arrays c ar" "keys_unique main" "account_readable c main opts r"
  shows "account_record env c ar proto bh (resources_of main opts r) = Inr (shown_account env c main proto bh opts r)"
proof -
  from assms(3) obtain ad where ad: "DecodeTrimmedLcAccountData c (acc_account_data r) = Inr ad" "\<not> 3 \<le> Status ad"
    by (cases "DecodeTrimmedLcAccountData c (acc_account_data r)")
      (simp_all add: account_readable_def account_data_of_def not_le)
  have u: "key_unique aa_key (tbl_account_asset main)" "key_unique as_index (tbl_asset main)"
    using assms(2) by (simp_all add: keys_unique_def)
  let ?del = "ao_IncludeDeleted opts" and ?a = "acc_addr r" and ?address = "AddressString env (copy_array 32 (acc_addr r))"
  note h = account_holdings_read [OF assms(1) rows_of_distinct(2) [OF u(1)], of "ao_IncludeAssetHoldings opts" ?del aa_deleted ?a]
  have as: "account_assets env c ar ?address (option_if (ao_IncludeAssetParams opts)
      (nonempty (rows_of ?del as_creator_addr as_deleted (tbl_asset main) ?a))) =
      Inr (option_if (ao_IncludeAssetParams opts) (nonempty (map (created_asset_answer env c ?address)
        (rows_of ?del as_creator_addr as_deleted (tbl_asset main) ?a))))"
    by (rule account_assets_read [OF assms(1) rows_of_distinct(1) [OF u(2)]])
      (use assms(3) in \<open>auto simp: account_readable_def list_all_iff\<close>)
  have ap: "account_apps c ar ?address (option_if (ao_IncludeAppParams opts)
      (nonempty (rows_of ?del app_creator app_deleted (tbl_app main) ?a))) =
      Inr (option_if (ao_IncludeAppParams opts) (nonempty (map (created_app_answer c ?address)
        (rows_of ?del app_creator app_deleted (tbl_app main) ?a))))"
    by (rule account_apps_read [OF assms(1)]) (use assms(3) in \<open>auto simp: account_readable_def list_all_iff\<close>)
  have st: "account_states c ar (option_if (ao_IncludeAppLocalState opts)
      (nonempty (rows_of ?del al_addr al_deleted (tbl_account_app main) ?a))) =
      Inr (option_if (ao_IncludeAppLocalState opts) (nonempty (map (opted_in_answer c)
        (rows_of ?del al_addr al_deleted (tbl_account_app main) ?a))))"
    by (rule account_states_read [OF assms(1)]) (use assms(3) in \<open>auto simp: account_readable_def list_all_iff\<close>)
  show ?thesis
    using ad by (simp add: account_record_def resources_of_def Let_def h as ap st shown_account_def account_data_of_def)
qed

lemma yield_accounts_all:
  assumes "\<And>w. w \<in> set ws \<Longrightarrow> rec w = Inr (shown w)" and "limit \<noteq> 0 \<Longrightarrow> unat cnt + length ws \<le> unat limit"
  shows "yield_accounts rec limit cnt ws None = map (\<lambda>w. \<lparr>acr_Account = shown w, acr_Error = None\<rparr>) ws"
  using assms
proof (induction ws arbitrary: cnt)
  case (Cons w ws)
  have "yield_accounts rec limit (cnt + 1) ws None = map (\<lambda>w. \<lparr>acr_Account = shown w, acr_Error = None\<rparr>) ws"
    if "\<not> (limit \<noteq> 0 \<and> limit \<le> cnt + 1)"
  proof (rule Cons.IH)
    assume "limit \<noteq> 0"
    with Cons.prems(2) have le: "unat cnt + Suc (length ws) \<le> unat limit" by simp
    then have "unat cnt + 1 < 2 ^ 64" using unat_less_2_64 [of limit] by linarith
    then have "unat (cnt + 1) = unat cnt + 1" by (simp add: unat_word_ariths)
    with le show "unat (cnt + 1) + length ws \<le> unat limit" by simp
  qed (simp add: Cons.prems(1))
  moreover have "ws = []" if "limit \<noteq> 0" "limit \<le> cnt + 1"
  proof -
    have "unat limit \<le> unat (cnt + 1)" using that(2) by (simp add: word_le_nat_alt)
    also have "\<dots> \<le> unat cnt + 1" by (simp add: unat_word_ariths)
    finally have "length ws = 0" using Cons.prems(2) [OF that(1)] unfolding list.size by linarith
    then show ?thesis by simp
  qed
  ultimately show ?case using Cons.prems(1) [of w] by auto
qed simp

section \<open>The limit of resources\<close>

text \<open>What counts for the limit: the rows to be shown when deleted ones are included, the totals of the
  stored account data otherwise.\<close>

definition account_totals :: "'j codec \<Rightarrow> 'j main_tables \<Rightarrow> AccountQueryOptions \<Rightarrow> 'j account_row \<Rightarrow> resource_totals" where
  "account_totals c main opts r =
     (let ad = account_data_of c r; a = acc_addr r; count = \<lambda>included n. if included then of_nat n else 0 in
      if ao_IncludeDeleted opts then
        \<lparr>rt_Assets = count (ao_IncludeAssetHoldings opts) (length (filter (\<lambda>h. aa_addr h = a) (tbl_account_asset main))),
         rt_AssetParams = count (ao_IncludeAssetParams opts) (length (filter (\<lambda>x. as_creator_addr x = a) (tbl_asset main))),
         rt_AppLocalStates = count (ao_IncludeAppLocalState opts) (length (filter (\<lambda>s. al_addr s = a) (tbl_account_app main))),
         rt_AppParams = count (ao_IncludeAppParams opts) (length (filter (\<lambda>x. app_creator x = a) (tbl_app main)))\<rparr>
      else
        \<lparr>rt_Assets = TotalAssets ad, rt_AssetParams = TotalAssetParams ad,
         rt_AppLocalStates = TotalAppLocalStates ad, rt_AppParams = TotalAppParams ad\<rparr>)"

definition exceeds_limit :: "'j codec \<Rightarrow> 'j main_tables \<Rightarrow> AccountQueryOptions \<Rightarrow> 'j account_row \<Rightarrow> bool" where
  "exceeds_limit c main opts r \<longleftrightarrow>
     (let t = account_totals c main opts r in
      ao_MaxResources opts \<noteq> 0 \<and>
      sum_list (map snd (filter fst
        [(ao_IncludeAssetHoldings opts, rt_Assets t), (ao_IncludeAssetParams opts, rt_AssetParams t),
         (ao_IncludeAppLocalState opts, rt_AppLocalStates t), (ao_IncludeAppParams opts, rt_AppParams t)])) > ao_MaxResources opts)"

lemma row_count_nonempty: "row_count (option_if included (nonempty rows)) = (if included then of_nat (length rows) else 0)"
  by (simp add: row_count_def option_if_def nonempty_def)

lemma account_totals_counted:
  "totals (ao_IncludeDeleted opts) (resources_of main opts r) (account_data_of c r) = account_totals c main opts r"
  by (simp add: totals_def account_totals_def resources_of_def rows_of_def Let_def row_count_nonempty)

lemma exceeds_limit_counted:
  "exceeds_limit c main opts r \<longleftrightarrow>
     ao_MaxResources opts \<noteq> 0 \<and> result_count opts (account_totals c main opts r) > ao_MaxResources opts"
  by (simp add: exceeds_limit_def result_count_def Let_def add.assoc)

definition limit_error :: "'j codec \<Rightarrow> 'j main_tables \<Rightarrow> AccountQueryOptions \<Rightarrow> 'j account_row \<Rightarrow> err" where
  "limit_error c main opts r =
     (let t = account_totals c main opts r in
      MaxAPIResourcesPerAccountError (copy_array 32 (acc_addr r))
        (rt_AppLocalStates t) (rt_AppParams t) (rt_Assets t) (rt_AssetParams t))"

definition first_refusal :: "'j codec \<Rightarrow> 'j main_tables \<Rightarrow> AccountQueryOptions \<Rightarrow> 'j account_row list \<Rightarrow> unit result" where
  "first_refusal c main opts page =
     (case find (exceeds_limit c main opts) page of None \<Rightarrow> Inr () | Some r \<Rightarrow> Inl (limit_error c main opts r))"

lemma check_rows_first:
  assumes "\<And>r. r \<in> set page \<Longrightarrow> \<not> isl (DecodeTrimmedLcAccountData c (acc_account_data r))" "ao_MaxResources opts \<noteq> 0"
    and "\<And>r. aw_account (w r) = r" "\<And>r ad. totals (ao_IncludeDeleted opts) (w r) ad = totals (ao_IncludeDeleted opts) (resources_of main opts r) ad"
  shows "check_rows c opts (ao_IncludeDeleted opts) (map w page) = first_refusal c main opts page"
  using assms(1)
proof (induction page)
  case (Cons r page)
  from Cons.prems [of r] obtain ad where ad: "DecodeTrimmedLcAccountData c (acc_account_data r) = Inr ad"
    by (cases "DecodeTrimmedLcAccountData c (acc_account_data r)") auto
  then have "totals (ao_IncludeDeleted opts) (w r) ad = account_totals c main opts r"
    by (simp add: assms(4) account_totals_counted [symmetric] account_data_of_def)
  with Cons ad show ?case
    using assms(2) by (simp add: assms(3) first_refusal_def exceeds_limit_counted limit_error_def Let_def)
qed (simp add: first_refusal_def)

lemma result_count_nothing:
  "\<not> ao_IncludeAssetHoldings opts \<Longrightarrow> \<not> ao_IncludeAssetParams opts \<Longrightarrow> \<not> ao_IncludeAppLocalState opts \<Longrightarrow>
   \<not> ao_IncludeAppParams opts \<Longrightarrow> result_count opts t = 0"
  by (simp add: result_count_def)

lemma found_accounts_fields:
  "found_accounts srv main (opts\<lparr>ao_IncludeAssetHoldings := a, ao_IncludeAssetParams := b, ao_IncludeAppLocalState := d, ao_IncludeAppParams := e\<rparr>) =
   found_accounts srv main opts"
  unfolding found_accounts_def account_matches_def [abs_def] account_selected_def [abs_def] by simp

lemma checkAccountResourceLimit_first:
  assumes "keys_unique main" "query_err qenv 1 = None" "rows_err qenv 1 = None" "ao_MaxResources opts \<noteq> 0"
    and "\<And>r. r \<in> set (limit_or_all (ao_Limit opts) (found_accounts srv main opts)) \<Longrightarrow>
      \<not> isl (DecodeTrimmedLcAccountData c (acc_account_data r))"
  shows "checkAccountResourceLimit srv qenv c main opts =
    first_refusal c main opts (limit_or_all (ao_Limit opts) (found_accounts srv main opts))"
proof (cases "\<not> ao_IncludeAssetHoldings opts \<and> \<not> ao_IncludeAssetParams opts \<and> \<not> ao_IncludeAppLocalState opts \<and>
    \<not> ao_IncludeAppParams opts")
  case True
  then have "find (exceeds_limit c main opts) page = None" for page
    by (simp add: find_None_iff exceeds_limit_counted result_count_nothing)
  with True show ?thesis by (simp add: checkAccountResourceLimit_def first_refusal_def)
next
  case False
  let ?opts = "if ao_IncludeDeleted opts then opts else opts\<lparr>ao_IncludeAssetHoldings := False, ao_IncludeAssetParams := False,
    ao_IncludeAppLocalState := False, ao_IncludeAppParams := False\<rparr>"
  have f: "found_accounts srv main ?opts = found_accounts srv main opts" "ao_Limit ?opts = ao_Limit opts"
    by (simp_all add: found_accounts_fields)
  have "check_rows c opts (ao_IncludeDeleted opts) (map (resources_of main ?opts) (limit_or_all (ao_Limit opts) (found_accounts srv main opts))) =
      first_refusal c main opts (limit_or_all (ao_Limit opts) (found_accounts srv main opts))"
    by (rule check_rows_first [OF assms(5,4)]) (auto simp: resources_of_def Let_def totals_def)
  moreover have "checkAccountResourceLimit srv qenv c main opts =
      check_rows c opts (ao_IncludeDeleted opts) (exec_account_query srv main (buildAccountQuery ?opts (ao_IncludeDeleted opts)))"
    using False assms(2,3) unfolding checkAccountResourceLimit_def Let_def by auto
  ultimately show ?thesis by (simp only: exec_account_query_found [OF assms(1)] f)
qed

section \<open>Fetching accounts\<close>

text \<open>The database answers all queries of the search at the round \<open>rnd\<close>, whose header \<open>bh\<close> has a known
  protocol.\<close>

definition account_answers :: "'j api_env \<Rightarrow> uint64 \<Rightarrow> BlockHeader \<Rightarrow> ConsensusParams \<Rightarrow> bool" where
  "account_answers si rnd bh proto \<longleftrightarrow>
     answers si rnd \<and> query_err (si_query si) 1 = None \<and> query_err (si_query si) 2 = None \<and>
     rows_err (si_query si) 1 = None \<and> rows_err (si_query si) 2 = None \<and>
     map_option (\<lambda>h. DecodeBlockHeader (si_codec si) (bhr_header h)) (lookup_row bhr_round rnd (tbl_block_header (si_tables si))) =
       Some (Inr bh) \<and>
     Consensus (si_sdk si) (CurrentProtocol bh) = Some proto"

definition consistent_options :: "AccountQueryOptions \<Rightarrow> bool" where
  "consistent_options opts \<longleftrightarrow> (ao_HasAssetID opts = 0 \<longrightarrow> ao_AssetGT opts = None \<and> ao_AssetLT opts = None)"

abbreviation account_page :: "'j api_env \<Rightarrow> AccountQueryOptions \<Rightarrow> 'j account_row list" where
  "account_page si opts \<equiv> limit_or_all (ao_Limit opts) (found_accounts (si_text si) (si_tables si) opts)"

definition account_shown :: "'j api_env \<Rightarrow> ConsensusParams \<Rightarrow> BlockHeader \<Rightarrow> AccountQueryOptions \<Rightarrow> 'j account_row \<Rightarrow> model_Account" where
  "account_shown si proto bh opts r =
     include_pending (shown_account (si_sdk si) (si_codec si) (si_tables si) proto bh opts r)"

lemma aw_account_resources_of: "aw_account (resources_of main opts r) = r"
  by (simp add: resources_of_def Let_def)

lemma GetAccounts_answers:
  assumes "account_answers si rnd bh proto" "keys_unique (si_tables si)" "faithful_arrays (si_codec si) (si_arrays si)"
    and "consistent_options opts" "\<And>r. r \<in> set (account_page si opts) \<Longrightarrow> account_readable (si_codec si) (si_tables si) opts r"
  shows "GetAccounts (si_sdk si) (si_text si) (si_arrays si) (si_query si) (si_codec si) (si_tables si) opts =
    (case first_refusal (si_codec si) (si_tables si) opts (account_page si opts) of
       Inl e \<Rightarrow> [account_error e]
     | Inr _ \<Rightarrow> map (\<lambda>r. \<lparr>acr_Account = shown_account (si_sdk si) (si_codec si) (si_tables si) proto bh opts r, acr_Error = None\<rparr>)
         (account_page si opts), rnd)"
proof -
  let ?c = "si_codec si" and ?main = "si_tables si" and ?page = "account_page si opts"
  from assms(1) obtain h where a: "begin_err (si_query si) = None" "query_err (si_query si) 0 = None"
      "query_err (si_query si) 1 = None" "query_err (si_query si) 2 = None"
      "rows_err (si_query si) 1 = None" "rows_err (si_query si) 2 = None" "getMaxRoundAccounted ?c ?main = Inr rnd"
      "lookup_row bhr_round rnd (tbl_block_header ?main) = Some h" "DecodeBlockHeader ?c (bhr_header h) = Inr bh"
      "Consensus (si_sdk si) (CurrentProtocol bh) = Some proto"
    by (auto simp: account_answers_def answers_def)
  have d: "\<not> isl (DecodeTrimmedLcAccountData ?c (acc_account_data r))" if "r \<in> set ?page" for r
    using assms(5) [OF that] by (simp add: account_readable_def)
  have lim: "(if ao_MaxResources opts \<noteq> 0 then checkAccountResourceLimit (si_text si) (si_query si) ?c ?main opts else Inr ()) =
      first_refusal ?c ?main opts ?page"
  proof (cases "ao_MaxResources opts = 0")
    case True
    then have "find (exceeds_limit ?c ?main opts) ?page = None" by (simp add: find_None_iff exceeds_limit_counted)
    with True show ?thesis by (simp add: first_refusal_def)
  next
    case False
    with checkAccountResourceLimit_first [OF assms(2) a(3,5) False d] show ?thesis by simp
  qed
  have "length ?page \<le> unat (ao_Limit opts)" if "ao_Limit opts \<noteq> 0" by (rule length_limit_or_all [OF that])
  then have "yield_accounts (account_record (si_sdk si) ?c (si_arrays si) proto bh) (ao_Limit opts) 0
      (map (resources_of ?main opts) ?page) None =
      map (\<lambda>w. \<lparr>acr_Account = shown_account (si_sdk si) ?c ?main proto bh opts (aw_account w), acr_Error = None\<rparr>)
        (map (resources_of ?main opts) ?page)"
    by (intro yield_accounts_all)
      (auto simp: account_record_read [OF assms(3,2) assms(5)] aw_account_resources_of)
  then show ?thesis
    using a assms(4) lim
    by (auto simp: GetAccounts_def consistent_options_def exec_account_query_found [OF assms(2)] yieldAccountsThread_def Let_def
        comp_def resources_of_def split: sum.split)
qed

lemma accounts_loop_current:
  "accounts_loop si one None (map (\<lambda>r. \<lparr>acr_Account = f r, acr_Error = None\<rparr>) rs) cached accounts =
     (Inr (accounts @ map (\<lambda>r. include_pending (f r)) rs), cached)"
  by (induction rs arbitrary: accounts) simp_all

lemma fetchAccounts_answers:
  assumes "account_answers si rnd bh proto" "keys_unique (si_tables si)" "faithful_arrays (si_codec si) (si_arrays si)"
    and "consistent_options opts" "\<And>r. r \<in> set (account_page si opts) \<Longrightarrow> account_readable (si_codec si) (si_tables si) opts r"
  shows "fetchAccounts si cached opts None =
    (case first_refusal (si_codec si) (si_tables si) opts (account_page si opts) of
       Inl e \<Rightarrow> Inl e
     | Inr _ \<Rightarrow> Inr (map (account_shown si proto bh opts) (account_page si opts), rnd), cached)"
proof -
  have "answers si rnd" using assms(1) by (simp add: account_answers_def)
  note call = answers_call [OF this]
  have "GetAccounts (si_sdk si) (si_text si) (si_arrays si) (si_query si) (si_codec si) (si_tables si) opts =
    (case first_refusal (si_codec si) (si_tables si) opts (account_page si opts) of
       Inl e \<Rightarrow> [account_error e]
     | Inr _ \<Rightarrow> map (\<lambda>r. \<lparr>acr_Account = shown_account (si_sdk si) (si_codec si) (si_tables si) proto bh opts r, acr_Error = None\<rparr>)
         (account_page si opts), rnd)"
    by (rule GetAccounts_answers [OF assms(1-4)], erule assms(5))
  then show ?thesis
    unfolding fetchAccounts_def
    by (cases "first_refusal (si_codec si) (si_tables si) opts (account_page si opts)")
      (simp_all add: call accounts_loop_current account_error_def account_shown_def res_bind_def)
qed

section \<open>Searching page by page\<close>

definition without_resources :: "AccountQueryOptions \<Rightarrow> AccountQueryOptions" where
  "without_resources opts = opts\<lparr>ao_IncludeAssetHoldings := False, ao_IncludeAssetParams := False,
     ao_IncludeAppLocalState := False, ao_IncludeAppParams := False\<rparr>"

lemma setExcludeQueryOptions_flags:
  "setExcludeQueryOptions es opts = Inr opts' \<Longrightarrow> without_resources opts' = without_resources opts"
proof (induction es arbitrary: opts)
  case (Cons e es)
  then obtain o1 where "setExcludeQueryOptions es o1 = Inr opts'" "without_resources o1 = without_resources opts"
    by (auto simp: without_resources_def split: if_splits)
  with Cons.IH show ?case by simp
qed simp

lemma exclude_options_flags:
  "exclude_options ex opts = Inr opts' \<Longrightarrow> without_resources opts' = without_resources opts"
  by (auto simp: exclude_options_def split: option.splits sum.splits dest: setExcludeQueryOptions_flags)

lemma without_resources_fields:
  assumes "without_resources opts' = without_resources opts"
  shows "ao_HasAssetID opts' = ao_HasAssetID opts" "ao_AssetGT opts' = ao_AssetGT opts" "ao_AssetLT opts' = ao_AssetLT opts"
    "ao_EqualToAddress opts' = ao_EqualToAddress opts" "ao_Limit opts' = ao_Limit opts"
    "found_accounts srv main opts' = found_accounts srv main opts"
proof -
  have "found_accounts srv main (without_resources o1) = found_accounts srv main o1" for o1
    by (simp add: without_resources_def found_accounts_fields)
  then show "found_accounts srv main opts' = found_accounts srv main opts" using assms by metis
qed (use assms in \<open>cases opts; cases opts'; simp add: without_resources_def\<close>)+

lemma search_options_first:
  assumes "search_options si ctx (params\<lparr>sac_Next := None\<rparr>) = Inr q"
  shows "ao_GreaterThanAddress q = []" "consistent_options q"
    and "DecodeAddress (si_sdk si) t = Inr a \<Longrightarrow>
      search_options si ctx (params\<lparr>sac_Next := Some t\<rparr>) = Inr (q\<lparr>ao_GreaterThanAddress := a\<rparr>)"
proof -
  define guards where "guards = search_guards si ctx (params\<lparr>sac_Next := None\<rparr>)"
  define auth where "auth = decode_param (si_sdk si) ''unable to parse auth addr'' (sac_AuthAddr params)"
  define base where "base = (\<lambda>spendingAddrBytes. zero_AccountQueryOptions
         \<lparr>ao_IncludeAssetHoldings := True, ao_IncludeAssetParams := True, ao_IncludeAppLocalState := True,
          ao_IncludeAppParams := True, ao_Limit := accounts_limit si (sac_Limit params),
          ao_HasAssetID := uintOrDefault (sac_AssetId params), ao_HasAppID := uintOrDefault (sac_ApplicationId params),
          ao_EqualToAuthAddr := spendingAddrBytes, ao_IncludeDeleted := boolOrDefault (sac_IncludeAll params),
          ao_MaxResources := MaxAPIResourcesPerAccount (si_opts si),
          ao_OnlineOnly := boolOrDefault (sac_OnlineOnly params)\<rparr>)"
  have g: "search_guards si ctx (params\<lparr>sac_Next := n\<rparr>) = guards" for n by (simp add: guards_def search_guards_def)
  have cur: "currency_options (params\<lparr>sac_Next := n\<rparr>) = currency_options params" for n
    by (rule ext) (simp add: currency_options_def)
  have so: "search_options si ctx (params\<lparr>sac_Next := n\<rparr>) =
      http_bind guards (\<lambda>_. http_bind auth (\<lambda>sp. http_bind (exclude_options (sac_Exclude params) (base sp)) (\<lambda>options.
        http_bind (decode_param (si_sdk si) errUnableToParseNext n) (\<lambda>addr.
        Inr ((currency_options params options)\<lparr>ao_GreaterThanAddress := addr\<rparr>)))))" for n
    by (simp add: search_options_def g base_def auth_def cur)
  obtain sp o1 where o1: "guards = Inr ()" "auth = Inr sp" "exclude_options (sac_Exclude params) (base sp) = Inr o1"
      "q = (currency_options params o1)\<lparr>ao_GreaterThanAddress := []\<rparr>"
    using assms unfolding so by (auto simp: http_bind_def decode_param_def split: sum.splits)
  then show "ao_GreaterThanAddress q = []" by simp
  show "consistent_options q"
    using without_resources_fields [OF exclude_options_flags [OF o1(3)]]
    by (simp add: o1(4) consistent_options_def currency_options_def base_def zero_AccountQueryOptions_def)
  show "search_options si ctx (params\<lparr>sac_Next := Some t\<rparr>) = Inr (q\<lparr>ao_GreaterThanAddress := a\<rparr>)"
    if "DecodeAddress (si_sdk si) t = Inr a"
    unfolding so by (simp add: http_bind_def o1 decode_param_def that)
qed

lemma found_accounts_after:
  assumes "ao_GreaterThanAddress q = []" "a \<noteq> []"
  shows "found_accounts srv main (q\<lparr>ao_GreaterThanAddress := a\<rparr>) = filter (\<lambda>r. a < acc_addr r) (found_accounts srv main q)"
proof -
  have "account_matches srv main (q\<lparr>ao_GreaterThanAddress := a\<rparr>) = (\<lambda>r. account_matches srv main q r \<and> a < acc_addr r)"
    using assms by (auto simp: account_matches_def account_selected_def)
  then show ?thesis by (simp add: found_accounts_def sort_filter_conj)
qed

text \<open>Nothing but the selection of the accounts depends on the address a page starts behind.\<close>

lemma after_independent:
  "account_readable c main (q\<lparr>ao_GreaterThanAddress := a\<rparr>) r = account_readable c main q r"
  "exceeds_limit c main (q\<lparr>ao_GreaterThanAddress := a\<rparr>) r = exceeds_limit c main q r"
  "account_shown si proto bh (q\<lparr>ao_GreaterThanAddress := a\<rparr>) r = account_shown si proto bh q r"
  "consistent_options (q\<lparr>ao_GreaterThanAddress := a\<rparr>) = consistent_options q"
  by (simp_all add: account_readable_def exceeds_limit_counted result_count_def account_totals_def resources_of_def account_shown_def
      shown_account_def consistent_options_def Let_def)

lemma mac_Address_shown: "mac_Address (account_shown si proto bh q r) = AddressString (si_sdk si) (copy_array 32 (acc_addr r))"
  by (simp add: account_shown_def include_pending_def shown_account_def Let_def)

lemma copy_array_full: "length a = n \<Longrightarrow> copy_array n a = a"
  by (simp add: copy_array_def zero_bytes_def)

type_synonym 'j accounts_search =
  "'j api_env \<times> SpecialAddresses option \<times> request \<times> SearchForAccountsParams \<times> BlockHeader \<times> ConsensusParams"

definition accounts_base :: "'j accounts_search \<Rightarrow> AccountQueryOptions" where
  "accounts_base = (\<lambda>(si, cached, ctx, params, bh, proto). projr (search_options si ctx (params\<lparr>sac_Next := None\<rparr>)))"

definition accounts_rows :: "'j accounts_search \<Rightarrow> 'j account_row list" where
  "accounts_rows s = found_accounts (si_text (fst s)) (si_tables (fst s)) (accounts_base s)"

definition accounts_invar :: "'j accounts_search \<Rightarrow> bool" where
  "accounts_invar = (\<lambda>(si, cached, ctx, params, bh, proto).
     (\<exists>rnd. account_answers si rnd bh proto) \<and> keys_unique (si_tables si) \<and> faithful_arrays (si_codec si) (si_arrays si) \<and>
     faithful_addresses (si_sdk si) \<and> \<not> isl (search_options si ctx (params\<lparr>sac_Next := None\<rparr>)) \<and> sac_Round params = None \<and>
     list_all (\<lambda>r. account_readable (si_codec si) (si_tables si) (accounts_base (si, cached, ctx, params, bh, proto)) r \<and>
       \<not> exceeds_limit (si_codec si) (si_tables si) (accounts_base (si, cached, ctx, params, bh, proto)) r)
       (accounts_rows (si, cached, ctx, params, bh, proto)))"

definition accounts_request :: "'j accounts_search \<Rightarrow> string option \<Rightarrow> http_error + model_Account list \<times> string option" where
  "accounts_request = (\<lambda>(si, cached, ctx, params, bh, proto) next.
     page_pair (fst (SearchForAccounts si cached ctx (params\<lparr>sac_Next := next\<rparr>))))"

definition accounts_render :: "'j accounts_search \<Rightarrow> 'j account_row \<Rightarrow> model_Account" where
  "accounts_render s = (case s of (si, cached, ctx, params, bh, proto) \<Rightarrow> account_shown si proto bh (accounts_base s))"

lemma accounts_page:
  assumes "account_answers si rnd bh proto" "keys_unique (si_tables si)" "faithful_arrays (si_codec si) (si_arrays si)"
    and "faithful_addresses (si_sdk si)" "search_options si ctx params = Inr q" "sac_Round params = None" "consistent_options q"
    and "\<And>r. r \<in> set (found_accounts (si_text si) (si_tables si) q) \<Longrightarrow>
      account_readable (si_codec si) (si_tables si) q r \<and> \<not> exceeds_limit (si_codec si) (si_tables si) q r"
  shows "page_pair (fst (SearchForAccounts si cached ctx params)) =
    Inr (first_page (account_shown si proto bh q) (\<lambda>r. AddressString (si_sdk si) (acc_addr r)) (ao_Limit q)
      (found_accounts (si_text si) (si_tables si) q))"
proof -
  let ?found = "found_accounts (si_text si) (si_tables si) q"
  have sub: "r \<in> set ?found" if "r \<in> set (account_page si q)" for r by (rule subsetD [OF set_limit_or_all that])
  have "find (exceeds_limit (si_codec si) (si_tables si) q) (account_page si q) = None"
    using assms(8) sub by (auto simp: find_None_iff)
  then have "fetchAccounts si cached q None = (Inr (map (account_shown si proto bh q) (account_page si q), rnd), cached)"
    by (subst fetchAccounts_answers [OF assms(1-3) assms(7)]) (use assms(8) sub in blast, simp only: first_refusal_def option.case sum.case)
  then have "SearchForAccounts si cached ctx params =
      (Inr (page_of mac_Address (map (account_shown si proto bh q) (account_page si q), rnd)), cached)"
    by (simp add: SearchForAccounts_def assms(5,6))
  moreover have token: "strPtr (mac_Address (account_shown si proto bh q (last (account_page si q)))) =
      Some (AddressString (si_sdk si) (acc_addr (last (account_page si q))))" if "?found \<noteq> []"
  proof -
    have "last (account_page si q) \<in> set (account_page si q)" using that by simp
    then have "length (acc_addr (last (account_page si q))) = 32" using assms(8) sub by (auto simp: account_readable_def)
    then show ?thesis using assms(4) by (simp add: mac_Address_shown copy_array_full faithful_addresses_def strPtr_def)
  qed
  have "(pr_Items (page_of mac_Address (map (account_shown si proto bh q) (account_page si q), rnd)),
      pr_NextToken (page_of mac_Address (map (account_shown si proto bh q) (account_page si q), rnd))) =
      first_page (account_shown si proto bh q) (\<lambda>r. AddressString (si_sdk si) (acc_addr r)) (ao_Limit q) ?found"
    by (rule page_of_first_page, erule token)
  ultimately show ?thesis by (simp only: page_pair_def fst_conv sum.case)
qed

interpretation accounts_pages: paged_search accounts_invar accounts_request accounts_rows acc_addr
  accounts_render "\<lambda>s r. AddressString (si_sdk (fst s)) (acc_addr r)" "\<lambda>s. ao_Limit (accounts_base s)"
proof unfold_locales
  fix s :: "'j accounts_search"
  obtain si cached ctx params bh proto where s: "s = (si, cached, ctx, params, bh, proto)" by (cases s)
  let ?q = "accounts_base s"
  assume "accounts_invar s"
  then obtain rnd where inv: "account_answers si rnd bh proto" "keys_unique (si_tables si)"
      "faithful_arrays (si_codec si) (si_arrays si)" "faithful_addresses (si_sdk si)"
      "search_options si ctx (params\<lparr>sac_Next := None\<rparr>) = Inr ?q" "sac_Round params = None"
    and ok: "\<And>r. r \<in> set (accounts_rows s) \<Longrightarrow>
      account_readable (si_codec si) (si_tables si) ?q r \<and> \<not> exceeds_limit (si_codec si) (si_tables si) ?q r"
    by (auto simp: accounts_invar_def s accounts_base_def list_all_iff)
  note q = search_options_first [OF inv(5)]
  have fs: "fst s = si" and req: "accounts_request s n = page_pair (fst (SearchForAccounts si cached ctx (params\<lparr>sac_Next := n\<rparr>)))"
    and ren: "accounts_render s = account_shown si proto bh ?q" for n
    by (simp_all add: s accounts_request_def accounts_render_def)
  have rows: "accounts_rows s = found_accounts (si_text si) (si_tables si) ?q" by (simp add: accounts_rows_def fs)
  show "sorted_wrt (<) (map acc_addr (accounts_rows s))" unfolding rows by (rule found_accounts_ascending [OF inv(2)])
  show "accounts_request s None = Inr (first_page (accounts_render s) (\<lambda>r. AddressString (si_sdk (fst s)) (acc_addr r))
      (ao_Limit ?q) (accounts_rows s))"
    unfolding req ren fs rows using ok inv(6) by (intro accounts_page [OF inv(1-5) _ q(2)]) (simp_all add: rows)
  fix r assume r: "r \<in> set (accounts_rows s)"
  let ?a = "acc_addr r"
  have l: "length ?a = 32" using ok [OF r] by (simp add: account_readable_def)
  then have d: "DecodeAddress (si_sdk si) (AddressString (si_sdk si) ?a) = Inr ?a" and ne: "?a \<noteq> []"
    using inv(4) by (auto simp: faithful_addresses_def)
  note f = found_accounts_after [OF q(1) ne, of "si_text si" "si_tables si"]
  have "page_pair (fst (SearchForAccounts si cached ctx (params\<lparr>sac_Next := Some (AddressString (si_sdk si) ?a)\<rparr>))) =
      Inr (first_page (account_shown si proto bh (?q\<lparr>ao_GreaterThanAddress := ?a\<rparr>)) (\<lambda>r. AddressString (si_sdk si) (acc_addr r))
        (ao_Limit (?q\<lparr>ao_GreaterThanAddress := ?a\<rparr>)) (found_accounts (si_text si) (si_tables si) (?q\<lparr>ao_GreaterThanAddress := ?a\<rparr>)))"
    using ok q(2) inv(6) by (intro accounts_page [OF inv(1-4) q(3) [OF d]]) (simp_all add: f rows after_independent)
  then show "accounts_request s (Some (AddressString (si_sdk (fst s)) ?a)) =
      Inr (first_page (accounts_render s) (\<lambda>r. AddressString (si_sdk (fst s)) (acc_addr r)) (ao_Limit ?q)
        (filter (\<lambda>r'. ?a < acc_addr r') (accounts_rows s)))"
    unfolding req ren fs rows f by (simp add: after_independent [abs_def])
qed

section \<open>The endpoints\<close>

text \<open>Among rows with different addresses a condition that fixes the address selects at most one.\<close>

lemma filter_one:
  assumes "distinct (map key rows)" and "\<And>r. P r \<Longrightarrow> key r = a"
  shows "filter P rows = (case find P rows of None \<Rightarrow> [] | Some r \<Rightarrow> [r])"
  using assms
proof (induction rows)
  case (Cons r rows)
  have "filter P rows = []" if "P r"
    using that Cons.prems by (fastforce simp: filter_empty_conv)
  then show ?case using Cons by auto
qed simp

lemma find_holds: "find P rows = Some r \<Longrightarrow> r \<in> set rows \<and> P r"
  by (auto simp: find_Some_iff)

lemma one_account:
  assumes "distinct (map acc_addr rows)" and "\<And>r. P r \<Longrightarrow> acc_addr r = a"
  shows "limit_or_all 1 (sort_key acc_addr (filter P rows)) = (case find P rows of None \<Rightarrow> [] | Some r \<Rightarrow> [r])"
proof -
  have "filter P rows = (case find P rows of None \<Rightarrow> [] | Some r \<Rightarrow> [r])" by (rule filter_one [OF assms(1)], erule assms(2))
  then show ?thesis by (simp only:) (simp add: limit_or_all_def split: option.split)
qed


text \<open>C21: a lookup of an account at the current round answers with the stored account of that address, with the
  resources that were not excluded, unless there is none (or it is deleted and deleted ones were not
  asked for), which is reported as not found, or it has more resources than the server allows, which is
  refused with the totals of the account.\<close>

theorem LookupAccountByID_correct:
  assumes "account_answers si rnd bh proto" "keys_unique (si_tables si)" "faithful_arrays (si_codec si) (si_arrays si)"
    and "lookup_options si ctx accountID params = Inr q" "lap_Round params = None"
    and "DecodeAddress (si_sdk si) accountID = Inr addr" "length addr = 32"
    and "list_all (\<lambda>r. acc_addr r = addr \<longrightarrow> account_readable (si_codec si) (si_tables si) q r) (tbl_account (si_tables si))"
  shows "LookupAccountByID si cached ctx accountID params =
    (case find (\<lambda>r. acc_addr r = addr \<and> (boolOrDefault (lap_IncludeAll params) \<or> \<not> acc_deleted r)) (tbl_account (si_tables si)) of
       None \<Rightarrow> Inl (NotFound ErrNoAccountsFound)
     | Some r \<Rightarrow>
         (let t = account_totals (si_codec si) (si_tables si) q r in
          if exceeds_limit (si_codec si) (si_tables si) q r
          then Inl (maxAccountsErrorToAccountsErrorResponse si addr
            (rt_AppLocalStates t) (rt_AppParams t) (rt_Assets t) (rt_AssetParams t))
          else Inr (account_shown si proto bh q r, rnd)), cached)"
proof -
  define base where "base = zero_AccountQueryOptions
             \<lparr>ao_EqualToAddress := addr, ao_IncludeAssetHoldings := True, ao_IncludeAssetParams := True,
              ao_IncludeAppLocalState := True, ao_IncludeAppParams := True, ao_Limit := 1,
              ao_IncludeDeleted := boolOrDefault (lap_IncludeAll params),
              ao_MaxResources := MaxAPIResourcesPerAccount (si_opts si)\<rparr>"
  have "exclude_options (lap_Exclude params) base = Inr q"
    using assms(4) by (simp add: lookup_options_def http_bind_def assms(6) base_def split: sum.splits)
  from without_resources_fields [OF exclude_options_flags [OF this]]
  have q: "found_accounts (si_text si) (si_tables si) q = found_accounts (si_text si) (si_tables si) base" "ao_Limit q = 1"
      "consistent_options q"
    by (simp_all add: base_def zero_AccountQueryOptions_def consistent_options_def)
  define P where "P = (\<lambda>r :: 'a account_row. acc_addr r = addr \<and> (boolOrDefault (lap_IncludeAll params) \<or> \<not> acc_deleted r))"
  have "account_matches (si_text si) (si_tables si) base = P"
    using assms(7) by (auto simp: fun_eq_iff account_matches_def account_selected_def base_def zero_AccountQueryOptions_def P_def)
  then have f: "found_accounts (si_text si) (si_tables si) q = sort_key acc_addr (filter P (tbl_account (si_tables si)))"
    unfolding q(1) by (simp add: found_accounts_def)
  have "distinct (map acc_addr (tbl_account (si_tables si)))" using assms(2) by (simp add: keys_unique_def key_unique_def)
  then have page: "account_page si q = (case find P (tbl_account (si_tables si)) of None \<Rightarrow> [] | Some r \<Rightarrow> [r])"
    unfolding f q by (rule one_account) (simp add: P_def)
  have ok: "account_readable (si_codec si) (si_tables si) q r" if "r \<in> set (account_page si q)" for r
  proof -
    from that have "find P (tbl_account (si_tables si)) = Some r" by (simp add: page split: option.splits)
    from find_holds [OF this] show ?thesis using assms(8) by (simp add: P_def list_all_iff)
  qed
  have "fetchAccounts si cached q None =
      (case first_refusal (si_codec si) (si_tables si) q (account_page si q) of
         Inl e \<Rightarrow> Inl e | Inr _ \<Rightarrow> Inr (map (account_shown si proto bh q) (account_page si q), rnd), cached)"
    by (rule fetchAccounts_answers [OF assms(1-3) q(3)], erule ok)
  then have fetched: "LookupAccountByID si cached ctx accountID params =
      (case first_refusal (si_codec si) (si_tables si) q (account_page si q) of
         Inl e \<Rightarrow> Inl (account_failure si e)
       | Inr _ \<Rightarrow> http_bind (single ErrNoAccountsFound errMultipleAccounts (map (account_shown si proto bh q) (account_page si q)))
           (\<lambda>account. Inr (account, rnd)), cached)"
    by (simp add: LookupAccountByID_def assms(4,5) split: sum.split)
  show ?thesis
  proof (cases "find P (tbl_account (si_tables si))")
    case None
    then show ?thesis
      unfolding fetched page P_def [symmetric] by (simp add: first_refusal_def single_def http_bind_def)
  next
    case (Some r)
    then have "acc_addr r = addr" using find_holds [OF Some] by (simp add: P_def)
    with Some show ?thesis
      unfolding fetched page P_def [symmetric]
      by (simp add: first_refusal_def single_def http_bind_def account_failure_def limit_error_def copy_array_full assms(7) Let_def)
  qed
qed

section \<open>An example\<close>

definition example_level :: BlockHeader where
  "example_level = zero_BlockHeader\<lparr>CurrentProtocol := ''future'', RewardsLevel := 3, bh_Round := 2\<rparr>"

definition example_account_row :: "char \<Rightarrow> bool \<Rightarrow> document account_row" where
  "example_account_row x del =
     \<lparr>acc_addr = replicate 32 x, acc_microalgos = 5000000, acc_rewardsbase = 1, acc_rewards_total = 7, acc_deleted = del,
      acc_created_at = 1, acc_closed_at = None, acc_keytype = None,
      acc_account_data = EncodeTrimmedLcAccountData example_codec (zero_AccountData\<lparr>TotalAssets := 2\<rparr>)\<rparr>"

definition accounts_api :: "document api_env" where
  "accounts_api = example_api\<lparr>si_tables := example_resources
     \<lparr>tbl_account := [example_account_row (CHR ''c'') True, example_account_row (CHR ''b'') False, example_account_row (CHR ''a'') False],
      tbl_block_header := [\<lparr>bhr_round = 2, bhr_realtime = 0, bhr_rewardslevel = 3,
        bhr_header = EncodeBlockHeader example_codec example_level\<rparr>]\<rparr>\<rparr>"

lemma accounts_api_simps:
  "si_sdk accounts_api = example_sdk" "si_opts accounts_api = example_options" "si_codec accounts_api = example_codec"
  "si_arrays accounts_api = example_arrays" "si_disabledParams accounts_api = None"
  "tbl_account (si_tables accounts_api) =
     [example_account_row (CHR ''c'') True, example_account_row (CHR ''b'') False, example_account_row (CHR ''a'') False]"
  "tbl_account_asset (si_tables accounts_api) =
     [example_holding (CHR ''b'') 7, example_holding (CHR ''a'') 7, example_holding (CHR ''a'') 8]"
  "tbl_asset (si_tables accounts_api) = map example_asset [9, 7, 8]" "tbl_app (si_tables accounts_api) = map example_app [4, 2]"
  "tbl_account_app (si_tables accounts_api) = []"
  by (simp_all add: accounts_api_def example_api_def example_resources_def empty_tables_def)

lemma accounts_api_answers: "account_answers accounts_api 2 example_level example_proto"
proof -
  have "DecodeBlockHeader example_codec (EncodeBlockHeader example_codec example_level) = Inr example_level"
    by (simp add: DecodeBlockHeader_def EncodeBlockHeader_def example_codec_def convertBlockHeader_def example_level_def
        unconvertBlockHeader_def erase_blockHeader_def zero_BlockHeader_def convertExpiredAccounts_def
        unconvertExpiredAccounts_def)
  moreover have "answers accounts_api 2"
    using example_api_answers by (simp add: answers_def accounts_api_def example_api_def getMaxRoundAccounted_def
        getNextRoundToAccount_def getImportState_def GetMetastate_def)
  ultimately show ?thesis
    by (simp add: account_answers_def) (simp add: accounts_api_def example_api_def quiet_query_env_def example_sdk_def example_level_def)
qed

lemma accounts_api_keys: "keys_unique (si_tables accounts_api)"
  by (simp add: keys_unique_def accounts_api_simps key_unique_def example_account_row_def example_holding_def example_asset_def
      example_app_def replicate_eq_replicate)

lemma array_of_map: "(\<And>x. dec (enc x) = Inr x) \<Longrightarrow> array_of dec (JArray (map enc xs)) = Inr xs"
  unfolding array_of_def document.case by (induction xs) (simp_all add: res_bind_def)

lemma example_arrays_faithful: "faithful_arrays example_codec example_arrays"
proof -
  have "map JNumber xs \<noteq> [JNull]" for xs by (auto simp: map_eq_Cons_conv)
  moreover have "array_of (\<lambda>j. case j of JBool b \<Rightarrow> Inr (Some b) | JNull \<Rightarrow> Inr None | _ \<Rightarrow> bad_document) (JArray (map JBool bs)) =
      Inr (map Some bs)" for bs
    unfolding array_of_def document.case by (induction bs) (simp_all add: res_bind_def)
  ultimately show ?thesis
    by (simp add: faithful_arrays_def example_arrays_def array_of_map split: option.split) (simp add: example_codec_def array_of_def)
qed

lemma accounts_api_address: "faithful_addresses (si_sdk accounts_api)"
  by (simp add: accounts_api_simps example_faithful_addresses)

lemma example_account_data:
  "DecodeTrimmedLcAccountData example_codec (acc_account_data (example_account_row x del)) = Inr (zero_AccountData\<lparr>TotalAssets := 2\<rparr>)"
  by (simp add: example_account_row_def DecodeTrimmedLcAccountData_def EncodeTrimmedLcAccountData_def example_codec_def
      convertTrimmedLcAccountData_def unconvertTrimmedLcAccountData_def TrimLcAccountData_def zero_AccountData_def)

lemma example_account_readable:
  "account_readable example_codec (si_tables accounts_api) q (example_account_row x del)"
proof -
  have "\<not> isl (DecodeAssetParams example_codec (as_params (example_asset i)))"
      "\<not> isl (dec_appParams example_codec (app_params (example_app i)))" for i
    by (simp_all add: example_asset_def example_app_def DecodeAssetParams_def EncodeAssetParams_def EncodeAppParams_def example_codec_def)
  then show ?thesis
    by (simp add: account_readable_def example_account_data account_data_of_def accounts_api_simps rows_of_def)
      (simp add: example_account_row_def zero_AccountData_def)
qed

definition holders_of_7 :: SearchForAccountsParams where
  "holders_of_7 =
     \<lparr>sac_AssetId = Some 7, sac_Limit = Some 1, sac_Next = None, sac_CurrencyGreaterThan = Some 4, sac_IncludeAll = None,
      sac_Exclude = Some [''created-assets'', ''created-apps''], sac_CurrencyLessThan = None, sac_AuthAddr = None,
      sac_Round = None, sac_ApplicationId = None, sac_OnlineOnly = None\<rparr>"

definition holders_options :: AccountQueryOptions where
  "holders_options = zero_AccountQueryOptions
     \<lparr>ao_IncludeAssetHoldings := True, ao_IncludeAppLocalState := True, ao_Limit := 1, ao_HasAssetID := 7, ao_AssetGT := Some 4,
      ao_MaxResources := 1000\<rparr>"

lemma holders_search: "search_options accounts_api ctx (holders_of_7\<lparr>sac_Next := None\<rparr>) = Inr holders_options"
  by (simp add: search_options_def search_guards_def holders_of_7_def holders_options_def http_bind_def http_guard_def verifyHandler_def
      Verify_def accounts_api_simps exceeds_def MaxInt64_def boolOrDefault_def uintOrDefault_def decode_param_def exclude_options_def
      currency_options_def accounts_limit_def uintOrDefaultValue_def min_u64_def example_options_def zero_AccountQueryOptions_def)


definition lookup_everything :: LookupAccountByIDParams where
  "lookup_everything = \<lparr>lap_Round = None, lap_IncludeAll = None, lap_Exclude = None\<rparr>"

theorem LookupAccountByID_correct_witness:
  "\<exists>q. ao_IncludeAssetHoldings q \<and>
     LookupAccountByID accounts_api None (example_request ''x'') (replicate 32 (CHR ''a'')) lookup_everything =
       (Inr (account_shown accounts_api example_proto example_level q (example_account_row (CHR ''a'') False), 2), None) \<and>
     LookupAccountByID accounts_api None (example_request ''x'') (replicate 32 (CHR ''c'')) lookup_everything =
       (Inl (NotFound ErrNoAccountsFound), None)"
proof -
  define base where "base = (\<lambda>x :: char. zero_AccountQueryOptions
     \<lparr>ao_EqualToAddress := replicate 32 x, ao_IncludeAssetHoldings := True, ao_IncludeAssetParams := True,
      ao_IncludeAppLocalState := True, ao_IncludeAppParams := True, ao_Limit := 1, ao_MaxResources := 1000\<rparr>)"
  have o: "lookup_options accounts_api (example_request ''x'') (replicate 32 x) lookup_everything = Inr (base x)" for x
    by (simp add: lookup_options_def lookup_everything_def http_bind_def http_guard_def verifyHandler_def Verify_def accounts_api_simps
        exceeds_def boolOrDefault_def exclude_options_def base_def example_options_def example_sdk_def zero_AccountQueryOptions_def)
  have e: "\<not> exceeds_limit example_codec (si_tables accounts_api) (base y) (example_account_row x del)" for x y del
    by (simp add: exceeds_limit_counted result_count_def account_totals_def account_data_of_def example_account_data
        base_def zero_AccountQueryOptions_def zero_AccountData_def)
  have r: "lap_Round lookup_everything = None" "lap_IncludeAll lookup_everything = None" by (simp_all add: lookup_everything_def)
  have d: "DecodeAddress (si_sdk accounts_api) a = Inr a" for a by (simp add: accounts_api_simps example_sdk_def)
  have f: "faithful_arrays (si_codec accounts_api) (si_arrays accounts_api)" by (simp add: accounts_api_simps example_arrays_faithful)
  have l: "LookupAccountByID accounts_api None (example_request ''x'') (replicate 32 x) lookup_everything =
    (case find (\<lambda>r. acc_addr r = replicate 32 x \<and> \<not> acc_deleted r) (tbl_account (si_tables accounts_api)) of
       None \<Rightarrow> Inl (NotFound ErrNoAccountsFound)
     | Some r \<Rightarrow>
         (let t = account_totals example_codec (si_tables accounts_api) (base x) r in
          if exceeds_limit example_codec (si_tables accounts_api) (base x) r
          then Inl (maxAccountsErrorToAccountsErrorResponse accounts_api (replicate 32 x)
            (rt_AppLocalStates t) (rt_AppParams t) (rt_Assets t) (rt_AssetParams t))
          else Inr (account_shown accounts_api example_proto example_level (base x) r, 2)), None)" for x
    using LookupAccountByID_correct [OF accounts_api_answers accounts_api_keys f o r(1) d, of x None]
    by (simp add: accounts_api_simps example_account_readable r(2) boolOrDefault_def)
  show ?thesis
    by (rule exI [of _ "base (CHR ''a'')"], intro conjI)
      (simp add: base_def, (simp add: l accounts_api_simps e Let_def, simp add: example_account_row_def replicate_eq_replicate)+)
qed

section \<open>Rewards\<close>

text \<open>The rewards that are pending, over natural numbers.\<close>

definition pending_rewards :: "ConsensusParams \<Rightarrow> BlockHeader \<Rightarrow> string \<Rightarrow> 'j account_row \<Rightarrow> nat" where
  "pending_rewards proto bh status r =
     (if status = ''NotParticipating'' \<or> RewardUnit proto = 0 then 0
      else unat (acc_microalgos r) div unat (RewardUnit proto) * (unat (RewardsLevel bh) - unat (acc_rewardsbase r)))"

lemma account_record_rewards:
  assumes "account_record env c ar proto bh w = Inr account"
  obtains ad where "mac_Status account = mac_Status (with_account_data env proto ad (account_base env bh (aw_account w)))"
    and "mac_PendingRewards account =
      mac_PendingRewards (with_rewards proto bh (aw_account w) (with_account_data env proto ad (account_base env bh (aw_account w))))"
    and "mac_Amount account =
      mac_Amount (with_rewards proto bh (aw_account w) (with_account_data env proto ad (account_base env bh (aw_account w))))"
    and "mac_AmountWithoutPendingRewards account = acc_microalgos (aw_account w)"
proof -
  obtain ad av cal apps states where
    a: "account = (with_rewards proto bh (aw_account w) (with_account_data env proto ad (account_base env bh (aw_account w))))
      \<lparr>mac_Assets := av, mac_CreatedAssets := cal, mac_CreatedApps := apps, mac_AppsLocalState := states\<rparr>"
    using assms by (auto simp: account_record_def Let_def res_bind_def split: sum.splits if_splits)
  show thesis
    by (rule that [of ad]) (simp_all add: a, simp_all add: with_rewards_def with_account_data_def account_base_def Let_def)
qed

text \<open>C22: the pending rewards of an account and its balance with them are exact: the full reward units of the
  stored balance times the growth of the rewards level since the account's rewards base, as long as that
  base is not ahead of the level and the balance fits into 64 bits; an account that does not participate gets
  none. The balance without them is the stored one.\<close>

theorem account_rewards_exact:
  assumes "account_record env c ar proto bh w = Inr account"
    and "acc_rewardsbase (aw_account w) \<le> RewardsLevel bh"
    and "unat (acc_microalgos (aw_account w)) + pending_rewards proto bh (mac_Status account) (aw_account w) < 2 ^ 64"
  shows "unat (mac_PendingRewards account) = pending_rewards proto bh (mac_Status account) (aw_account w) \<and>
    unat (mac_Amount account) = unat (acc_microalgos (aw_account w)) + pending_rewards proto bh (mac_Status account) (aw_account w) \<and>
    mac_AmountWithoutPendingRewards account = acc_microalgos (aw_account w)"
proof -
  obtain ad where ad: "mac_Status account = mac_Status (with_account_data env proto ad (account_base env bh (aw_account w)))"
    "mac_PendingRewards account =
      mac_PendingRewards (with_rewards proto bh (aw_account w) (with_account_data env proto ad (account_base env bh (aw_account w))))"
    "mac_Amount account =
      mac_Amount (with_rewards proto bh (aw_account w) (with_account_data env proto ad (account_base env bh (aw_account w))))"
    "mac_AmountWithoutPendingRewards account = acc_microalgos (aw_account w)"
    by (rule account_record_rewards [OF assms(1)])
  let ?m = "acc_microalgos (aw_account w)" and ?d = "RewardsLevel bh - acc_rewardsbase (aw_account w)"
  have pr: "mac_PendingRewards account =
      (if mac_Status account = ''NotParticipating'' \<or> RewardUnit proto = 0 then 0 else ?m div RewardUnit proto * ?d)"
    "mac_Amount account = ?m + mac_PendingRewards account"
    using ad by (simp_all add: with_rewards_def Let_def)
  have "unat (?m div RewardUnit proto * ?d) =
      unat ?m div unat (RewardUnit proto) * (unat (RewardsLevel bh) - unat (acc_rewardsbase (aw_account w)))"
    if "\<not> (mac_Status account = ''NotParticipating'' \<or> RewardUnit proto = 0)"
    using that assms(2,3) unat_sub [OF assms(2)]
    by (simp add: pending_rewards_def unat_word_ariths(2) unat_div)
  then have p: "unat (mac_PendingRewards account) = pending_rewards proto bh (mac_Status account) (aw_account w)"
    by (simp add: pr(1) pending_rewards_def)
  with assms(3) have "unat (mac_Amount account) = unat ?m + unat (mac_PendingRewards account)"
    by (simp add: pr(2) unat_word_ariths(1))
  with p ad(4) show ?thesis by simp
qed

theorem account_rewards_exact_witness:
  "\<exists>account. account_record example_sdk example_codec example_arrays example_proto example_level
      (resources_of (si_tables accounts_api) zero_AccountQueryOptions (example_account_row (CHR ''a'') False)) = Inr account \<and>
     unat (mac_PendingRewards account) = 10 \<and> unat (mac_Amount account) = 5000010"
proof -
  let ?r = "example_account_row (CHR ''a'') False"
  let ?a = "shown_account example_sdk example_codec (si_tables accounts_api) example_proto example_level zero_AccountQueryOptions ?r"
  have a: "account_record example_sdk example_codec example_arrays example_proto example_level
      (resources_of (si_tables accounts_api) zero_AccountQueryOptions ?r) = Inr ?a"
    by (rule account_record_read [OF example_arrays_faithful accounts_api_keys example_account_readable])
  have "mac_Status ?a = ''Offline''"
    by (simp add: shown_account_def Let_def with_rewards_def with_account_data_def account_data_of_def example_account_data
        zero_AccountData_def statusStrings_def)
  moreover from this have p: "pending_rewards example_proto example_level (mac_Status ?a) ?r = 10"
    by (simp add: pending_rewards_def example_proto_def example_level_def example_account_row_def)
  ultimately have "unat (mac_PendingRewards ?a) = 10 \<and> unat (mac_Amount ?a) = 5000010"
    using account_rewards_exact [OF a]
    by (simp add: aw_account_resources_of) (simp add: example_account_row_def example_level_def)
  with a show ?thesis by blast
qed

end
