(* ===== verification/TxnTypes.thy ===== *)
theory TxnTypes
  imports ApiTypes
begin

text \<open>
  The response types of the API for transactions and blocks (\<^verbatim>\<open>api/generated/v2/types.go\<close>). One record per
  struct, in the order of its fields; a pointer is an option. A transaction refers to its inner
  transactions: it is a datatype over the record of its other fields.
\<close>

section \<open>Parts of a transaction\<close>

record model_StateSchema =
  mst_NumByteSlice :: uint64
  mst_NumUint :: uint64

record model_BoxReference =
  mbr_App :: uint64
  mbr_Name :: bytes

record model_HoldingRef =
  mhr_Address :: string
  mhr_Asset :: uint64

record model_LocalsRef =
  mlr_Address :: string
  mlr_App :: uint64

record model_ResourceRef =
  mrr_Address :: "string option"
  mrr_ApplicationId :: "uint64 option"
  mrr_AssetId :: "uint64 option"
  mrr_Box :: "model_BoxReference option"
  mrr_Holding :: "model_HoldingRef option"
  mrr_Local :: "model_LocalsRef option"

definition zero_ResourceRef :: model_ResourceRef where
  "zero_ResourceRef =
     \<lparr>mrr_Address = None, mrr_ApplicationId = None, mrr_AssetId = None, mrr_Box = None, mrr_Holding = None, mrr_Local = None\<rparr>"

record TransactionApplication =
  mta_Access :: "model_ResourceRef list option"
  mta_Accounts :: "string list option"
  mta_ApplicationArgs :: "string list option"
  mta_ApplicationId :: uint64
  mta_ApprovalProgram :: "bytes option"
  mta_BoxReferences :: "model_BoxReference list option"
  mta_ClearStateProgram :: "bytes option"
  mta_ExtraProgramPages :: "uint64 option"
  mta_ForeignApps :: "uint64 list option"
  mta_ForeignAssets :: "uint64 list option"
  mta_GlobalStateSchema :: "model_StateSchema option"
  mta_LocalStateSchema :: "model_StateSchema option"
  mta_OnCompletion :: string
  mta_RejectVersion :: "uint64 option"

record TransactionAssetConfig =
  mtc_AssetId :: "uint64 option"
  mtc_Params :: "model_AssetParams option"

record TransactionAssetFreeze =
  mtf_Address :: string
  mtf_AssetId :: uint64
  mtf_NewFreezeStatus :: bool

record TransactionAssetTransfer =
  mtx_Amount :: uint64
  mtx_AssetId :: uint64
  mtx_CloseAmount :: "uint64 option"
  mtx_CloseTo :: "string option"
  mtx_Receiver :: string
  mtx_Sender :: "string option"

record HbProofFields =
  mhb_HbPk :: "bytes option"
  mhb_HbPk1sig :: "bytes option"
  mhb_HbPk2 :: "bytes option"
  mhb_HbPk2sig :: "bytes option"
  mhb_HbSig :: "bytes option"

record TransactionHeartbeat =
  mth_HbAddress :: string
  mth_HbKeyDilution :: uint64
  mth_HbProof :: HbProofFields
  mth_HbSeed :: bytes
  mth_HbVoteId :: bytes

record TransactionKeyreg =
  mtk_NonParticipation :: "bool option"
  mtk_SelectionParticipationKey :: "bytes option"
  mtk_StateProofKey :: "bytes option"
  mtk_VoteFirstValid :: "uint64 option"
  mtk_VoteKeyDilution :: "uint64 option"
  mtk_VoteLastValid :: "uint64 option"
  mtk_VoteParticipationKey :: "bytes option"

record TransactionPayment =
  mtp_Amount :: uint64
  mtp_CloseAmount :: "uint64 option"
  mtp_CloseRemainderTo :: "string option"
  mtp_Receiver :: string

section \<open>State proofs\<close>

record model_HashFactory =
  mhf_HashType :: "uint64 option"

record MerkleArrayProof =
  map_HashFactory :: "model_HashFactory option"
  map_Path :: "bytes list option"
  map_TreeDepth :: "uint64 option"

record StateProofVerifier =
  spv_Commitment :: "bytes option"
  spv_KeyLifetime :: "uint64 option"

record StateProofParticipant =
  spp_Verifier :: "StateProofVerifier option"
  spp_Weight :: "uint64 option"

record StateProofSignature =
  sps_FalconSignature :: "bytes option"
  sps_MerkleArrayIndex :: "uint64 option"
  sps_Proof :: "MerkleArrayProof option"
  sps_VerifyingKey :: "bytes option"

record StateProofSigSlot =
  spl_LowerSigWeight :: "uint64 option"
  spl_Signature :: "StateProofSignature option"

record StateProofReveal =
  spr_Participant :: "StateProofParticipant option"
  spr_Position :: "uint64 option"
  spr_SigSlot :: "StateProofSigSlot option"

record StateProofFields =
  spf_PartProofs :: "MerkleArrayProof option"
  spf_PositionsToReveal :: "uint64 list option"
  spf_Reveals :: "StateProofReveal list option"
  spf_SaltVersion :: "uint64 option"
  spf_SigCommit :: "bytes option"
  spf_SigProofs :: "MerkleArrayProof option"
  spf_SignedWeight :: "uint64 option"

record IndexerStateProofMessage =
  ism_BlockHeadersCommitment :: "bytes option"
  ism_FirstAttestedRound :: "uint64 option"
  ism_LatestAttestedRound :: "uint64 option"
  ism_LnProvenWeight :: "uint64 option"
  ism_VotersCommitment :: "bytes option"

record TransactionStateProof =
  mts_Message :: "IndexerStateProofMessage option"
  mts_StateProof :: "StateProofFields option"
  mts_StateProofType :: "uint64 option"

section \<open>Signatures and state deltas\<close>

record TransactionSignatureMultisigSubsignature =
  mms_PublicKey :: "bytes option"
  mms_Signature :: "bytes option"

record TransactionSignatureMultisig =
  mmu_Subsignature :: "TransactionSignatureMultisigSubsignature list option"
  mmu_Threshold :: "uint64 option"
  mmu_Version :: "uint64 option"

record TransactionSignatureLogicsig =
  mlg_Args :: "string list option"
  mlg_Logic :: bytes
  mlg_LogicMultisigSignature :: "TransactionSignatureMultisig option"
  mlg_MultisigSignature :: "TransactionSignatureMultisig option"
  mlg_Signature :: "bytes option"

record TransactionSignature =
  msg_Logicsig :: "TransactionSignatureLogicsig option"
  msg_Multisig :: "TransactionSignatureMultisig option"
  msg_Sig :: "bytes option"

record model_EvalDelta =
  med_Action :: uint64
  med_Bytes :: "string option"
  med_Uint :: "uint64 option"

record EvalDeltaKeyValue =
  mek_Key :: string
  mek_Value :: model_EvalDelta

type_synonym model_StateDelta = "EvalDeltaKeyValue list"

record AccountStateDelta =
  mad_Address :: string
  mad_Delta :: model_StateDelta

section \<open>Transactions and blocks\<close>

record transaction_fields =
  mt_ApplicationTransaction :: "TransactionApplication option"
  mt_AssetConfigTransaction :: "TransactionAssetConfig option"
  mt_AssetFreezeTransaction :: "TransactionAssetFreeze option"
  mt_AssetTransferTransaction :: "TransactionAssetTransfer option"
  mt_AuthAddr :: "string option"
  mt_CloseRewards :: "uint64 option"
  mt_ClosingAmount :: "uint64 option"
  mt_ConfirmedRound :: "uint64 option"
  mt_CreatedApplicationIndex :: "uint64 option"
  mt_CreatedAssetIndex :: "uint64 option"
  mt_Fee :: uint64
  mt_FirstValid :: uint64
  mt_GenesisHash :: "bytes option"
  mt_GenesisId :: "string option"
  mt_GlobalStateDelta :: "model_StateDelta option"
  mt_Group :: "bytes option"
  mt_HeartbeatTransaction :: "TransactionHeartbeat option"
  mt_Id :: "string option"
  mt_IntraRoundOffset :: "uint64 option"
  mt_KeyregTransaction :: "TransactionKeyreg option"
  mt_LastValid :: uint64
  mt_Lease :: "bytes option"
  mt_LocalStateDelta :: "AccountStateDelta list option"
  mt_Logs :: "bytes list option"
  mt_Note :: "bytes option"
  mt_PaymentTransaction :: "TransactionPayment option"
  mt_ReceiverRewards :: "uint64 option"
  mt_RekeyTo :: "string option"
  mt_RoundTime :: "uint64 option"
  mt_Sender :: string
  mt_SenderRewards :: "uint64 option"
  mt_Signature :: "TransactionSignature option"
  mt_StateProofTransaction :: "TransactionStateProof option"
  mt_TxType :: string

datatype model_Transaction =
  MkTransaction (transaction_fields: transaction_fields) (mt_InnerTxns: "model_Transaction list option")

record BlockRewards =
  mbw_FeeSink :: string
  mbw_RewardsCalculationRound :: uint64
  mbw_RewardsLevel :: uint64
  mbw_RewardsPool :: string
  mbw_RewardsRate :: uint64
  mbw_RewardsResidue :: uint64

record BlockUpgradeState =
  mbu_CurrentProtocol :: string
  mbu_NextProtocol :: "string option"
  mbu_NextProtocolApprovals :: "uint64 option"
  mbu_NextProtocolSwitchOn :: "uint64 option"
  mbu_NextProtocolVoteBefore :: "uint64 option"

record BlockUpgradeVote =
  mbv_UpgradeApprove :: "bool option"
  mbv_UpgradeDelay :: "uint64 option"
  mbv_UpgradePropose :: "string option"

record ParticipationUpdates =
  mpu_AbsentParticipationAccounts :: "string list option"
  mpu_ExpiredParticipationAccounts :: "string list option"

record model_StateProofTracking =
  mpk_NextRound :: "uint64 option"
  mpk_OnlineTotalWeight :: "uint64 option"
  mpk_Type :: "uint64 option"
  mpk_VotersCommitment :: "bytes option"

record model_Block =
  mb_Bonus :: "uint64 option"
  mb_FeesCollected :: "uint64 option"
  mb_GenesisHash :: bytes
  mb_GenesisId :: string
  mb_ParticipationUpdates :: "ParticipationUpdates option"
  mb_PreviousBlockHash :: bytes
  mb_PreviousBlockHash512 :: "bytes option"
  mb_Proposer :: "string option"
  mb_ProposerPayout :: "uint64 option"
  mb_Rewards :: "BlockRewards option"
  mb_Round :: uint64
  mb_Seed :: bytes
  mb_StateProofTracking :: "model_StateProofTracking list option"
  mb_Timestamp :: uint64
  mb_Transactions :: "model_Transaction list option"
  mb_TransactionsRoot :: bytes
  mb_TransactionsRootSha256 :: bytes
  mb_TransactionsRootSha512 :: "bytes option"
  mb_TxnCounter :: "uint64 option"
  mb_UpgradeState :: "BlockUpgradeState option"
  mb_UpgradeVote :: "BlockUpgradeVote option"

record ApplicationLogData =
  mld_Logs :: "bytes list"
  mld_Txid :: string

record ApplicationLogsResponse =
  lgr_ApplicationId :: uint64
  lgr_CurrentRound :: uint64
  lgr_LogData :: "ApplicationLogData list option"
  lgr_NextToken :: "string option"

end
