(* ===== verification/Render.thy ===== *)
theory Render
  imports TxnTypes Encoding
begin

text \<open>
  Turning database rows into response objects (\<^verbatim>\<open>api/converter_utils.go\<close>): transactions with their inner
  transactions, signatures and state deltas, and blocks. An index that is out of range stops the
  code with a panic, which is an error here.
\<close>

definition addrPtr :: "sdk \<Rightarrow> Address \<Rightarrow> string option" where
  "addrPtr env x = (if IsZero x then None else Some (AddressString env x))"

definition out_of_range :: err where
  "out_of_range = ErrMsg ''index out of range''"

section \<open>Signatures\<close>

definition sigToTransactionSig :: "bytes \<Rightarrow> bytes option" where
  "sigToTransactionSig sig = (if sig = zero_bytes 64 then None else Some sig)"

definition msigToTransactionMsig :: "sdk \<Rightarrow> MultisigSig \<Rightarrow> TransactionSignatureMultisig option" where
  "msigToTransactionMsig env msig =
     (if Msig_Blank env msig then None
      else Some
        \<lparr>mmu_Subsignature = Some (map (\<lambda>subsig.
           \<lparr>mms_PublicKey = byteSliceOmitZeroPtr (Key subsig), mms_Signature = sigToTransactionSig (subsig_Sig subsig)\<rparr>)
           (Subsigs msig)),
         mmu_Threshold = Some (ucast (msig_Threshold msig)), mmu_Version = Some (ucast (msig_Version msig))\<rparr>)"

definition lsigToTransactionLsig :: "sdk \<Rightarrow> LogicSig \<Rightarrow> TransactionSignatureLogicsig option" where
  "lsigToTransactionLsig env lsig =
     (if Lsig_Blank env lsig then None
      else Some
        \<lparr>mlg_Args = Some (map Base64 (lsig_Args lsig)), mlg_Logic = Logic lsig,
         mlg_LogicMultisigSignature = msigToTransactionMsig env (lsig_LMsig lsig),
         mlg_MultisigSignature = msigToTransactionMsig env (lsig_Msig lsig),
         mlg_Signature = sigToTransactionSig (lsig_Sig lsig)\<rparr>)"

section \<open>State deltas\<close>

text \<open>The keys of a state delta are sorted as byte strings.\<close>

definition stateDeltaToStateDelta :: "StateDelta \<Rightarrow> model_StateDelta option" where
  "stateDeltaToStateDelta d =
     (if fset (fmdom d) = {} then None
      else Some (map (\<lambda>(k, v).
        \<lparr>mek_Key = Base64 k,
         mek_Value = \<lparr>med_Action = vd_Action v, med_Bytes = strPtr (Base64 (vd_Bytes v)), med_Uint = Some (vd_Uint v)\<rparr>\<rparr>)
        (sorted_list_of_fmap d)))"

text \<open>The address behind an index into the sender, the accounts of the call and the shared accounts.
  The conversion to a signed integer makes an index above \<open>2 ^ 63\<close> negative.\<close>

definition edIndexToAddress :: "uint64 \<Rightarrow> Transaction \<Rightarrow> Address list \<Rightarrow> Address result" where
  "edIndexToAddress index txn shared =
     (let accounts = Accounts (ApplicationCallTxnFields txn); i = sint (index - 1) in
      if index = 0 then Inr (Sender (Header txn))
      else if i < int (length accounts) then
        (if unat (index - 1) < length accounts then Inr (accounts ! unat (index - 1)) else Inl out_of_range)
      else if i - int (length accounts) < int (length shared) then Inr (shared ! nat (i - int (length accounts)))
      else Inl (ErrMsg ''invalid Account Index in LocalDelta''))"

definition local_delta :: "sdk \<Rightarrow> Address \<times> StateDelta \<Rightarrow> AccountStateDelta list" where
  "local_delta env = (\<lambda>(address, v).
     case stateDeltaToStateDelta v of
       None \<Rightarrow> []
     | Some delta \<Rightarrow> [\<lparr>mad_Address = AddressString env address, mad_Delta = delta\<rparr>])"

definition local_deltas ::
  "sdk \<Rightarrow> Transaction \<Rightarrow> Address list \<Rightarrow> (uint64, StateDelta) fmap \<Rightarrow> AccountStateDelta list option result" where
  "local_deltas env txn shared deltas =
     (if fset (fmdom deltas) = {} then Inr None
      else
        res_bind (res_map (\<lambda>(k, v). res_bind (edIndexToAddress k txn shared) (\<lambda>addr. Inr (addr, v))) (sorted_list_of_fmap deltas))
          (\<lambda>keys. Inr (Some (concat (map (local_delta env) keys)))))"

section \<open>The parts of a transaction\<close>

definition payment_model :: "sdk \<Rightarrow> Transaction \<Rightarrow> uint64 \<Rightarrow> TransactionPayment" where
  "payment_model env txn closingAmount =
     (let p = PaymentTxnFields txn in
      \<lparr>mtp_Amount = pay_Amount p, mtp_CloseAmount = Some closingAmount,
       mtp_CloseRemainderTo = addrPtr env (CloseRemainderTo p), mtp_Receiver = AddressString env (Receiver p)\<rparr>)"

definition keyreg_model :: "Transaction \<Rightarrow> TransactionKeyreg" where
  "keyreg_model txn =
     (let k = KeyregTxnFields txn in
      \<lparr>mtk_NonParticipation = Some (Nonparticipation k),
       mtk_SelectionParticipationKey = byteSliceOmitZeroPtr (SelectionPK k),
       mtk_StateProofKey = byteSliceOmitZeroPtr (StateProofPK k),
       mtk_VoteFirstValid = Some (VoteFirst k), mtk_VoteKeyDilution = Some (kr_VoteKeyDilution k),
       mtk_VoteLastValid = Some (VoteLast k), mtk_VoteParticipationKey = byteSliceOmitZeroPtr (VotePK k)\<rparr>)"

definition asset_config_params :: "sdk \<Rightarrow> (nat \<Rightarrow> bool) \<Rightarrow> Transaction \<Rightarrow> model_AssetParams option" where
  "asset_config_params env isPrint txn =
     (let p = acfg_AssetParams (AssetConfigTxnFields txn); printable = PrintableUTF8OrEmpty isPrint in
      if AssetParams_IsZero env p then None
      else Some
        \<lparr>mp_Clawback = addrPtr env (Clawback p), mp_Creator = AddressString env (Sender (Header txn)),
         mp_Decimals = ucast (Decimals p), mp_DefaultFrozen = Some (DefaultFrozen p), mp_Freeze = addrPtr env (Freeze p),
         mp_Manager = addrPtr env (Manager p), mp_MetadataHash = byteSliceOmitZeroPtr (MetadataHash p),
         mp_Name = strPtr (printable (AssetName p)), mp_NameB64 = byteSlicePtr (AssetName p),
         mp_Reserve = addrPtr env (Reserve p), mp_Total = Total p,
         mp_UnitName = strPtr (printable (UnitName p)), mp_UnitNameB64 = byteSlicePtr (UnitName p),
         mp_Url = strPtr (printable (URL p)), mp_UrlB64 = byteSlicePtr (URL p)\<rparr>)"

definition asset_config_model :: "sdk \<Rightarrow> (nat \<Rightarrow> bool) \<Rightarrow> Transaction \<Rightarrow> TransactionAssetConfig" where
  "asset_config_model env isPrint txn =
     \<lparr>mtc_AssetId = Some (ConfigAsset (AssetConfigTxnFields txn)), mtc_Params = asset_config_params env isPrint txn\<rparr>"

definition asset_transfer_model :: "sdk \<Rightarrow> Transaction \<Rightarrow> uint64 \<Rightarrow> TransactionAssetTransfer" where
  "asset_transfer_model env txn closeAmount =
     (let t = AssetTransferTxnFields txn in
      \<lparr>mtx_Amount = AssetAmount t, mtx_AssetId = XferAsset t, mtx_CloseAmount = Some closeAmount,
       mtx_CloseTo = addrPtr env (AssetCloseTo t), mtx_Receiver = AddressString env (AssetReceiver t),
       mtx_Sender = addrPtr env (AssetSender t)\<rparr>)"

definition asset_freeze_model :: "sdk \<Rightarrow> Transaction \<Rightarrow> TransactionAssetFreeze" where
  "asset_freeze_model env txn =
     (let f = AssetFreezeTxnFields txn in
      \<lparr>mtf_Address = AddressString env (FreezeAccount f), mtf_AssetId = FreezeAsset f, mtf_NewFreezeStatus = AssetFrozen f\<rparr>)"

section \<open>Application calls\<close>

definition NoOpOC :: uint64 where "NoOpOC = 0"
definition OptInOC :: uint64 where "OptInOC = 1"
definition CloseOutOC :: uint64 where "CloseOutOC = 2"
definition ClearStateOC :: uint64 where "ClearStateOC = 3"
definition UpdateApplicationOC :: uint64 where "UpdateApplicationOC = 4"
definition DeleteApplicationOC :: uint64 where "DeleteApplicationOC = 5"

text \<open>The element that an index counting from 1 refers to, if it is in range. As above, an index above
  \<open>2 ^ 63\<close> passes the comparison of signed integers and then panics.\<close>

definition referenced :: "'a list \<Rightarrow> uint64 \<Rightarrow> 'a option result" where
  "referenced xs index =
     (if sint (index - 1) < int (length xs) then
        (if unat (index - 1) < length xs then Inr (Some (xs ! unat (index - 1))) else Inl out_of_range)
      else Inr None)"

definition box_reference :: "uint64 list \<Rightarrow> BoxReference \<Rightarrow> model_BoxReference list result" where
  "box_reference apps v =
     res_bind (if ForeignAppIdx v = 0 then Inr (Some 0) else referenced apps (ForeignAppIdx v)) (\<lambda>app.
       Inr (case app of None \<Rightarrow> [] | Some appID \<Rightarrow> [\<lparr>mbr_App = appID, mbr_Name = bref_Name v\<rparr>]))"

definition referenced_address :: "Transaction \<Rightarrow> uint64 \<Rightarrow> Address result" where
  "referenced_address txn index =
     (if index = 0 then Inr (Sender (Header txn))
      else res_bind (referenced (Access (ApplicationCallTxnFields txn)) index) (\<lambda>r.
        Inr (case r of None \<Rightarrow> zero_Address | Some ref \<Rightarrow> rref_Address ref)))"

definition referenced_app :: "Transaction \<Rightarrow> uint64 \<Rightarrow> uint64 result" where
  "referenced_app txn index =
     (if index = 0 then Inr 0
      else res_bind (referenced (Access (ApplicationCallTxnFields txn)) index) (\<lambda>r.
        Inr (case r of None \<Rightarrow> 0 | Some ref \<Rightarrow> rref_App ref)))"

definition referenced_asset :: "Transaction \<Rightarrow> uint64 \<Rightarrow> uint64 result" where
  "referenced_asset txn index =
     res_bind (referenced (Access (ApplicationCallTxnFields txn)) index) (\<lambda>r.
       Inr (case r of None \<Rightarrow> 0 | Some ref \<Rightarrow> rref_Asset ref))"

definition access_model :: "sdk \<Rightarrow> Transaction \<Rightarrow> ResourceRef \<Rightarrow> model_ResourceRef result" where
  "access_model env txn v =
     (if rref_Address v \<noteq> zero_Address then Inr (zero_ResourceRef\<lparr>mrr_Address := strPtr (AddressString env (rref_Address v))\<rparr>)
      else if rref_App v \<noteq> 0 then Inr (zero_ResourceRef\<lparr>mrr_ApplicationId := Some (rref_App v)\<rparr>)
      else if rref_Asset v \<noteq> 0 then Inr (zero_ResourceRef\<lparr>mrr_AssetId := Some (rref_Asset v)\<rparr>)
      else if href_Asset (rref_Holding v) \<noteq> 0 then
        res_bind (referenced_address txn (href_Address (rref_Holding v))) (\<lambda>address.
        res_bind (referenced_asset txn (href_Asset (rref_Holding v))) (\<lambda>asset.
        Inr (zero_ResourceRef\<lparr>mrr_Holding := Some \<lparr>mhr_Address = AddressString env address, mhr_Asset = asset\<rparr>\<rparr>)))
      else if lref_Address (rref_Locals v) \<noteq> 0 \<or> lref_App (rref_Locals v) \<noteq> 0 then
        res_bind (referenced_address txn (lref_Address (rref_Locals v))) (\<lambda>address.
        res_bind (referenced_app txn (lref_App (rref_Locals v))) (\<lambda>app.
        Inr (zero_ResourceRef\<lparr>mrr_Local := Some \<lparr>mlr_Address = AddressString env address, mlr_App = app\<rparr>\<rparr>)))
      else
        res_bind (referenced_app txn (ForeignAppIdx (rref_Box v))) (\<lambda>appID.
        Inr (zero_ResourceRef\<lparr>mrr_Box := Some \<lparr>mbr_App = appID, mbr_Name = bref_Name (rref_Box v)\<rparr>\<rparr>)))"

definition onCompletionToTransactionOnCompletion :: "uint64 \<Rightarrow> string" where
  "onCompletionToTransactionOnCompletion oc =
     (if oc = NoOpOC then ''noop'' else if oc = OptInOC then ''optin'' else if oc = CloseOutOC then ''closeout''
      else if oc = ClearStateOC then ''clear'' else if oc = UpdateApplicationOC then ''update''
      else if oc = DeleteApplicationOC then ''delete'' else ''unknown'')"

definition state_schema_model :: "StateSchema \<Rightarrow> model_StateSchema" where
  "state_schema_model s = \<lparr>mst_NumByteSlice = NumByteSlice s, mst_NumUint = NumUint s\<rparr>"

definition application_model :: "sdk \<Rightarrow> Transaction \<Rightarrow> TransactionApplication result" where
  "application_model env txn =
     (let a = ApplicationCallTxnFields txn in
      res_bind (res_map (box_reference (ForeignApps a)) (BoxReferences a)) (\<lambda>boxRefs.
      res_bind (res_map (access_model env txn) (Access a)) (\<lambda>access.
      Inr \<lparr>mta_Access = Some access, mta_Accounts = Some (map (AddressString env) (Accounts a)),
           mta_ApplicationArgs = Some (map Base64 (ApplicationArgs a)), mta_ApplicationId = ApplicationID a,
           mta_ApprovalProgram = byteSliceOmitZeroPtr (ac_ApprovalProgram a),
           mta_BoxReferences = Some (concat boxRefs),
           mta_ClearStateProgram = byteSliceOmitZeroPtr (ac_ClearStateProgram a),
           mta_ExtraProgramPages = uint64PtrOrNil (ucast (ac_ExtraProgramPages a)),
           mta_ForeignApps = Some (ForeignApps a), mta_ForeignAssets = Some (ForeignAssets a),
           mta_GlobalStateSchema = Some (state_schema_model (ac_GlobalStateSchema a)),
           mta_LocalStateSchema = Some (state_schema_model (ac_LocalStateSchema a)),
           mta_OnCompletion = onCompletionToTransactionOnCompletion (OnCompletion a),
           mta_RejectVersion = uint64PtrOrNil (RejectVersion a)\<rparr>)))"

section \<open>State proofs and heartbeats\<close>

definition proof_model :: "Proof \<Rightarrow> MerkleArrayProof" where
  "proof_model p =
     \<lparr>map_HashFactory = Some \<lparr>mhf_HashType = Some (ucast (HashType (prf_HashFactory p)))\<rparr>,
      map_Path = Some (prf_Path p), map_TreeDepth = Some (ucast (prf_TreeDepth p))\<rparr>"

definition reveal_model :: "uint64 \<times> Reveal \<Rightarrow> StateProofReveal" where
  "reveal_model = (\<lambda>(key, r).
     let part = rvl_Part r; slot = rvl_SigSlot r; sig = slot_Sig slot in
     \<lparr>spr_Participant = Some
        \<lparr>spp_Verifier = Some \<lparr>spv_Commitment = Some (vrf_Commitment (prt_PK part)),
           spv_KeyLifetime = Some (vrf_KeyLifetime (prt_PK part))\<rparr>,
         spp_Weight = Some (prt_Weight part)\<rparr>,
      spr_Position = Some key,
      spr_SigSlot = Some
        \<lparr>spl_LowerSigWeight = Some (slot_L slot),
         spl_Signature = Some
           \<lparr>sps_FalconSignature = Some (mksig_Signature sig), sps_MerkleArrayIndex = Some (VectorCommitmentIndex sig),
            sps_Proof = Some (proof_model (mksig_Proof sig)), sps_VerifyingKey = Some (VerifyingKey_PublicKey sig)\<rparr>\<rparr>\<rparr>)"

definition state_proof_model :: "Transaction \<Rightarrow> TransactionStateProof" where
  "state_proof_model txn =
     (let f = StateProofTxnFields txn; sprf = stpf_StateProof f; msg = stpf_Message f in
      \<lparr>mts_Message = Some
         \<lparr>ism_BlockHeadersCommitment = Some (spm_BlockHeadersCommitment msg),
          ism_FirstAttestedRound = Some (spm_FirstAttestedRound msg),
          ism_LatestAttestedRound = Some (spm_LastAttestedRound msg), ism_LnProvenWeight = Some (spm_LnProvenWeight msg),
          ism_VotersCommitment = Some (spm_VotersCommitment msg)\<rparr>,
       mts_StateProof = Some
         \<lparr>spf_PartProofs = Some (proof_model (sprf_PartProofs sprf)),
          spf_PositionsToReveal = Some (sprf_PositionsToReveal sprf),
          spf_Reveals = Some (map reveal_model (sorted_list_of_fmap (sprf_Reveals sprf))),
          spf_SaltVersion = Some (ucast (MerkleSignatureSaltVersion sprf)),
          spf_SigCommit = byteSliceOmitZeroPtr (sprf_SigCommit sprf),
          spf_SigProofs = Some (proof_model (sprf_SigProofs sprf)), spf_SignedWeight = Some (sprf_SignedWeight sprf)\<rparr>,
       mts_StateProofType = Some (stpf_StateProofType f)\<rparr>)"

definition heartbeat_model :: "sdk \<Rightarrow> Transaction \<Rightarrow> TransactionHeartbeat" where
  "heartbeat_model env txn =
     (let hb = HeartbeatTxnFields txn; p = HbProof hb in
      \<lparr>mth_HbAddress = AddressString env (HbAddress hb), mth_HbKeyDilution = HbKeyDilution hb,
       mth_HbProof =
         \<lparr>mhb_HbPk = byteSliceOmitZeroPtr (hbp_PK p), mhb_HbPk1sig = byteSliceOmitZeroPtr (hbp_PK1Sig p),
          mhb_HbPk2 = byteSliceOmitZeroPtr (hbp_PK2 p), mhb_HbPk2sig = byteSliceOmitZeroPtr (hbp_PK2Sig p),
          mhb_HbSig = byteSliceOmitZeroPtr (hbp_Sig p)\<rparr>,
       mth_HbSeed = HbSeed hb, mth_HbVoteId = HbVoteID hb\<rparr>)"

section \<open>Transactions\<close>

record rowData =
  rd_Round :: uint64
  rd_RoundTime :: uint64
  rd_Intra :: uint64
  rd_AssetID :: uint64
  rd_AssetCloseAmount :: uint64

definition transaction_model ::
  "sdk \<Rightarrow> (nat \<Rightarrow> bool) \<Rightarrow> SignedTxnWithAD \<Rightarrow> rowData \<Rightarrow> TransactionApplication option \<Rightarrow> AccountStateDelta list option \<Rightarrow>
   transaction_fields" where
  "transaction_model env isPrint stxn extra application localStateDelta =
     (let txn = stxn_Txn stxn; h = Header txn; ad = ApplyData stxn; type = txn_Type txn in
      \<lparr>mt_ApplicationTransaction = application,
       mt_AssetConfigTransaction = (if type = AssetConfigTx then Some (asset_config_model env isPrint txn) else None),
       mt_AssetFreezeTransaction = (if type = AssetFreezeTx then Some (asset_freeze_model env txn) else None),
       mt_AssetTransferTransaction =
         (if type = AssetTransferTx then Some (asset_transfer_model env txn (rd_AssetCloseAmount extra)) else None),
       mt_AuthAddr = addrPtr env (AuthAddr (SignedTxn stxn)),
       mt_CloseRewards = Some (CloseRewards ad), mt_ClosingAmount = Some (ClosingAmount ad),
       mt_ConfirmedRound = Some (rd_Round extra),
       mt_CreatedApplicationIndex =
         (case application of
            Some a \<Rightarrow> if mta_ApplicationId a = 0 then Some (rd_AssetID extra) else None
          | None \<Rightarrow> None),
       mt_CreatedAssetIndex =
         (if type = AssetConfigTx \<and> ConfigAsset (AssetConfigTxnFields txn) = 0 then Some (rd_AssetID extra) else None),
       mt_Fee = Fee h, mt_FirstValid = FirstValid h, mt_GenesisHash = byteSliceOmitZeroPtr (GenesisHash h),
       mt_GenesisId = strPtr (GenesisID h), mt_GlobalStateDelta = stateDeltaToStateDelta (GlobalDelta (EvalDelta ad)),
       mt_Group = byteSliceOmitZeroPtr (Group h),
       mt_HeartbeatTransaction = (if type = HeartbeatTx then Some (heartbeat_model env txn) else None),
       mt_Id = None, mt_IntraRoundOffset = Some (rd_Intra extra),
       mt_KeyregTransaction = (if type = KeyRegistrationTx then Some (keyreg_model txn) else None),
       mt_LastValid = LastValid h, mt_Lease = byteSliceOmitZeroPtr (Lease h), mt_LocalStateDelta = localStateDelta,
       mt_Logs = (if length (Logs (EvalDelta ad)) > 0 then Some (Logs (EvalDelta ad)) else None),
       mt_Note = byteSliceOmitZeroPtr (Note h),
       mt_PaymentTransaction = (if type = PaymentTx then Some (payment_model env txn (ClosingAmount ad)) else None),
       mt_ReceiverRewards = Some (ReceiverRewards ad), mt_RekeyTo = addrPtr env (RekeyTo h),
       mt_RoundTime = Some (rd_RoundTime extra), mt_Sender = AddressString env (Sender h),
       mt_SenderRewards = Some (SenderRewards ad), mt_Signature = None,
       mt_StateProofTransaction = (if type = StateProofTx then Some (state_proof_model txn) else None),
       mt_TxType = type\<rparr>)"

definition application_part :: "sdk \<Rightarrow> Transaction \<Rightarrow> TransactionApplication option result" where
  "application_part env txn =
     (if txn_Type txn = ApplicationCallTx then res_bind (application_model env txn) (\<lambda>a. Inr (Some a)) else Inr None)"

definition inner_extra :: "SignedTxnWithAD \<Rightarrow> rowData \<Rightarrow> rowData" where
  "inner_extra t extra =
     extra
       \<lparr>rd_AssetID :=
          (if txn_Type (stxn_Txn t) = ApplicationCallTx then ad_ApplicationID (ApplyData t)
           else if txn_Type (stxn_Txn t) = AssetConfigTx then ad_ConfigAsset (ApplyData t)
           else 0),
        rd_AssetCloseAmount := AssetClosingAmount (ApplyData t)\<rparr>"

text \<open>The inner transactions are converted in turn; \<open>inner_transactions\<close> is that loop.\<close>

fun signedTxnWithAdToTransaction :: "sdk \<Rightarrow> (nat \<Rightarrow> bool) \<Rightarrow> SignedTxnWithAD \<Rightarrow> rowData \<Rightarrow> model_Transaction result"
and inner_transactions :: "sdk \<Rightarrow> (nat \<Rightarrow> bool) \<Rightarrow> SignedTxnWithAD list \<Rightarrow> rowData \<Rightarrow> model_Transaction list result" where
  "signedTxnWithAdToTransaction env isPrint
     (MkSignedTxnWithAD st (MkApplyData ca aca sr rr cr (MkEvalDelta gd ld sa lg its) cfg app)) extra =
     res_bind (application_part env (Txn st)) (\<lambda>application.
     res_bind (local_deltas env (Txn st) sa ld) (\<lambda>localStateDelta.
     res_bind (inner_transactions env isPrint its extra) (\<lambda>itxns.
     Inr (MkTransaction
       (transaction_model env isPrint
          (MkSignedTxnWithAD st (MkApplyData ca aca sr rr cr (MkEvalDelta gd ld sa lg its) cfg app)) extra application localStateDelta)
       (if length its > 0 then Some itxns else None)))))"
| "inner_transactions env isPrint [] extra = Inr []"
| "inner_transactions env isPrint (t # ts) extra =
     res_bind (signedTxnWithAdToTransaction env isPrint t (inner_extra t extra)) (\<lambda>itxn.
     res_bind (inner_transactions env isPrint ts extra) (\<lambda>itxns.
     Inr (itxn # itxns)))"

text \<open>\<open>time.Unix\<close> of a time: whole seconds.\<close>

definition unix_seconds :: "Time \<Rightarrow> uint64" where
  "unix_seconds t = word_of_int (t div 10 ^ 9)"

definition row_txn :: "TxnRow \<Rightarrow> SignedTxnWithAD result" where
  "row_txn row =
     (case (tr_RootTxn row, tr_Txn row) of
        (Some _, Some _) \<Rightarrow> Inl (ErrMsg ''Txn and RootTxn should be mutually exclusive'')
      | (None, Some stxn) \<Rightarrow> Inr stxn
      | (Some stxn, None) \<Rightarrow> Inr stxn
      | (None, None) \<Rightarrow> Inl (ErrMsg ''transaction bytes missing''))"

definition row_extra :: "TxnRow \<Rightarrow> rowData" where
  "row_extra row =
     \<lparr>rd_Round = tr_Round row, rd_RoundTime = unix_seconds (tr_RoundTime row),
      rd_Intra = (if Present (RootIntra (tr_Extra row)) then Value (RootIntra (tr_Extra row)) else tr_Intra row),
      rd_AssetID = tr_AssetID row, rd_AssetCloseAmount = AssetCloseAmount (tr_Extra row)\<rparr>"

definition row_txid :: "sdk \<Rightarrow> TxnRow \<Rightarrow> SignedTxnWithAD \<Rightarrow> string" where
  "row_txid env row stxn =
     (if Present (RootIntra (tr_Extra row)) then RootTxid (tr_Extra row) else TransactionIDString env (stxn_Txn stxn))"

definition transaction_signature :: "sdk \<Rightarrow> SignedTxn \<Rightarrow> TransactionSignature" where
  "transaction_signature env st =
     \<lparr>msg_Logicsig = lsigToTransactionLsig env (Lsig st), msg_Multisig = msigToTransactionMsig env (Msig st),
      msg_Sig = sigToTransactionSig (Sig st)\<rparr>"

definition set_id_signature :: "string \<Rightarrow> TransactionSignature \<Rightarrow> model_Transaction \<Rightarrow> model_Transaction" where
  "set_id_signature txid sig txn =
     MkTransaction ((transaction_fields txn)\<lparr>mt_Id := Some txid, mt_Signature := Some sig\<rparr>) (mt_InnerTxns txn)"

definition txnRowToTransaction :: "sdk \<Rightarrow> (nat \<Rightarrow> bool) \<Rightarrow> TxnRow \<Rightarrow> model_Transaction result" where
  "txnRowToTransaction env isPrint row =
     (case tr_Error row of
        Some e \<Rightarrow> Inl e
      | None \<Rightarrow>
          res_bind (row_txn row) (\<lambda>stxn.
          res_bind (res_wrap ''txnRowToTransaction(): failure converting signed transaction to response''
            (signedTxnWithAdToTransaction env isPrint stxn (row_extra row))) (\<lambda>txn.
          Inr (set_id_signature (row_txid env row stxn) (transaction_signature env (SignedTxn stxn)) txn))))"

section \<open>Blocks\<close>

definition participation_updates :: "sdk \<Rightarrow> BlockHeader \<Rightarrow> ParticipationUpdates option" where
  "participation_updates env h =
     (let part =
        \<lparr>mpu_AbsentParticipationAccounts = strArrayPtr (map (AddressString env) (AbsentParticipationAccounts h)),
         mpu_ExpiredParticipationAccounts = strArrayPtr (map (AddressString env) (ExpiredParticipationAccounts h))\<rparr>
      in if part = \<lparr>mpu_AbsentParticipationAccounts = None, mpu_ExpiredParticipationAccounts = None\<rparr> then None else Some part)"

definition tracking_model :: "uint64 \<Rightarrow> StateProofTrackingData \<Rightarrow> model_StateProofTracking" where
  "tracking_model type t =
     \<lparr>mpk_NextRound = Some (StateProofNextRound t), mpk_OnlineTotalWeight = Some (StateProofOnlineTotalWeight t),
      mpk_Type = Some type, mpk_VotersCommitment = byteSliceOmitZeroPtr (StateProofVotersCommitment t)\<rparr>"

text \<open>The tracking data go into an array with as many elements as there are types, each at the index
  that is its type.\<close>

fun place_tracking ::
  "(uint64 \<times> StateProofTrackingData) list \<Rightarrow> model_StateProofTracking list \<Rightarrow> model_StateProofTracking list result" where
  "place_tracking [] arr = Inr arr"
| "place_tracking ((type, t) # ts) arr =
     (if unat type < length arr then place_tracking ts (arr[unat type := tracking_model type t]) else Inl out_of_range)"

definition tracking_array :: "(uint64, StateProofTrackingData) fmap \<Rightarrow> model_StateProofTracking list result" where
  "tracking_array m =
     place_tracking (sorted_list_of_fmap m)
       (replicate (length (sorted_list_of_fmap m))
          \<lparr>mpk_NextRound = None, mpk_OnlineTotalWeight = None, mpk_Type = None, mpk_VotersCommitment = None\<rparr>)"

definition hdrRowToBlock :: "sdk \<Rightarrow> BlockHeader \<Rightarrow> model_Block result" where
  "hdrRowToBlock env h =
     res_bind (tracking_array (StateProofTracking h)) (\<lambda>trackingArray.
     Inr \<lparr>mb_Bonus = uint64PtrOrNil (Bonus h), mb_FeesCollected = uint64PtrOrNil (FeesCollected h),
          mb_GenesisHash = bh_GenesisHash h, mb_GenesisId = bh_GenesisID h,
          mb_ParticipationUpdates = participation_updates env h, mb_PreviousBlockHash = Branch h,
          mb_PreviousBlockHash512 = byteSliceOmitZeroPtr (Branch512 h), mb_Proposer = addrPtr env (Proposer h),
          mb_ProposerPayout = uint64PtrOrNil (ProposerPayout h),
          mb_Rewards = Some \<lparr>mbw_FeeSink = AddressString env (FeeSink h), mbw_RewardsCalculationRound = RewardsRecalculationRound h,
            mbw_RewardsLevel = RewardsLevel h, mbw_RewardsPool = AddressString env (RewardsPool h),
            mbw_RewardsRate = RewardsRate h, mbw_RewardsResidue = RewardsResidue h\<rparr>,
          mb_Round = bh_Round h, mb_Seed = Seed h, mb_StateProofTracking = Some trackingArray, mb_Timestamp = TimeStamp h,
          mb_Transactions = None, mb_TransactionsRoot = NativeSha512_256Commitment h,
          mb_TransactionsRootSha256 = Sha256Commitment h,
          mb_TransactionsRootSha512 = byteSliceOmitZeroPtr (Sha512Commitment h), mb_TxnCounter = Some (TxnCounter h),
          mb_UpgradeState = Some \<lparr>mbu_CurrentProtocol = CurrentProtocol h, mbu_NextProtocol = strPtr (NextProtocol h),
            mbu_NextProtocolApprovals = Some (NextProtocolApprovals h), mbu_NextProtocolSwitchOn = Some (NextProtocolSwitchOn h),
            mbu_NextProtocolVoteBefore = Some (NextProtocolVoteBefore h)\<rparr>,
          mb_UpgradeVote = Some \<lparr>mbv_UpgradeApprove = Some (UpgradeApprove h), mbv_UpgradeDelay = Some (UpgradeDelay h),
            mbv_UpgradePropose = strPtr (UpgradePropose h)\<rparr>\<rparr>)"

end
