(* ===== verification/Migration.thy ===== *)
theory Migration
  imports Indexer_Prelude
begin

text \<open>
  The migration manager (\<^verbatim>\<open>idb/migration/migration.go\<close>): a list of tasks, run one after the other in
  a goroutine that publishes its status and closes a channel when the blocking tasks have succeeded.

  The state of a \<open>Migration\<close> is a record; a handler is a function on a state \<open>'s\<close> that may fail or not
  return (\<open>None\<close>). A run is the sequence of its visible actions, in the order in which other
  goroutines can observe them, with its result.
\<close>

section \<open>Tasks and state\<close>

record 's Task =
  MigrationID :: int
  Handler :: "'s \<Rightarrow> (unit result \<times> 's) option"
  DBUnavailable :: bool
  Description :: string

text \<open>The field \<open>Time\<close> is the time of the call; it is not part of the state.\<close>

record State =
  st_Err :: "err option"
  TaskID :: int
  st_Status :: string
  Running :: bool
  Blocking :: bool

record 's Migration =
  tasks :: "'s Task list"
  blockUntil :: int
  mig_state :: State

definition ErrDuplicateID :: err where
  "ErrDuplicateID = ErrMsg ''duplicate ID detected''"

definition ErrUnorderedID :: err where
  "ErrUnorderedID = ErrMsg ''migration IDs must be in ascending order''"

definition StatusPending :: string where "StatusPending = ''Migration pending''"
definition StatusComplete :: string where "StatusComplete = ''Migrations Complete''"
definition StatusActivePrefix :: string where "StatusActivePrefix = ''Active migration: ''"
definition StatusErrorPrefix :: string where "StatusErrorPrefix = ''error during migration ''"

section \<open>Loading the tasks\<close>

fun setTasks_loop :: "int list \<Rightarrow> int \<Rightarrow> 's Task list \<Rightarrow> int \<Rightarrow> err option \<times> int" where
  "setTasks_loop ids lastID [] until = (None, until)"
| "setTasks_loop ids lastID (migration # migrations) until =
     (if lastID > MigrationID migration then (Some ErrUnorderedID, until)
      else if MigrationID migration \<in> set ids then (Some ErrDuplicateID, until)
      else setTasks_loop (MigrationID migration # ids) (MigrationID migration) migrations
             (if DBUnavailable migration then MigrationID migration else until))"

definition setTasks :: "'s Task list \<Rightarrow> 's Migration \<Rightarrow> err option \<times> 's Migration" where
  "setTasks migrationTasks m =
     (case setTasks_loop [] 0 migrationTasks 0 of
        (Some e, until) \<Rightarrow> (Some e, m\<lparr>blockUntil := until\<rparr>)
      | (None, until) \<Rightarrow> (None, m\<lparr>blockUntil := until, tasks := migrationTasks\<rparr>))"

definition MakeMigration :: "'s Task list \<Rightarrow> err option \<times> 's Migration" where
  "MakeMigration migrationTasks =
     setTasks migrationTasks
       \<lparr>tasks = migrationTasks, blockUntil = 0,
        mig_state = \<lparr>st_Err = None, TaskID = 0, st_Status = StatusPending, Running = False, Blocking = True\<rparr>\<rparr>"

definition zero_State :: State where
  "zero_State = \<lparr>st_Err = None, TaskID = 0, st_Status = [], Running = False, Blocking = False\<rparr>"

definition GetStatus :: "'s Migration option \<Rightarrow> State" where
  "GetStatus m = (case m of None \<Rightarrow> zero_State | Some m \<Rightarrow> mig_state m)"

definition update :: "err option \<Rightarrow> string \<Rightarrow> bool \<Rightarrow> bool \<Rightarrow> int \<Rightarrow> State \<Rightarrow> State" where
  "update e status running blocking i s =
     (let s = (if e \<noteq> st_Err s then s\<lparr>st_Err := e\<rparr> else s);
          s = (if status \<noteq> st_Status s then s\<lparr>st_Status := status\<rparr> else s);
          s = (if running \<noteq> Running s then s\<lparr>Running := running\<rparr> else s);
          s = (if blocking \<noteq> Blocking s then s\<lparr>Blocking := blocking\<rparr> else s)
      in if i \<noteq> TaskID s then s\<lparr>TaskID := i\<rparr> else s)"

lemma update_eq:
  "update e status running blocking i s =
     \<lparr>st_Err = e, TaskID = i, st_Status = status, Running = running, Blocking = blocking\<rparr>"
  by (cases s) (auto simp: update_def Let_def)

section \<open>Running the tasks\<close>

text \<open>The visible actions: the channel is closed, the state is updated, a handler has returned.\<close>

datatype action = CloseCh | Updated State | Returned int bool

definition format_int :: "int \<Rightarrow> string" where
  "format_int i = (if i < 0 then ''-'' @ format_nat (nat (- i)) else format_nat (nat i))"

definition taskErr :: "'s Task \<Rightarrow> err \<Rightarrow> err" where
  "taskErr task e = Wrap (StatusErrorPrefix @ format_int (MigrationID task) @ '' ('' @ Description task @ '')'') e"

text \<open>The loop of \<open>runMigrations\<close>; \<open>errText\<close> is the method \<open>Error\<close> of errors, whose text becomes the status.\<close>

fun run_tasks ::
  "(err \<Rightarrow> string) \<Rightarrow> int \<Rightarrow> 's Task list \<Rightarrow> bool \<Rightarrow> State \<Rightarrow> 's \<Rightarrow> action list \<times> (State \<times> 's) option" where
  "run_tasks errText until [] blocking st s =
     (let st = update None StatusComplete False False (-1) st in
      (Updated st # (if blocking then [CloseCh] else []), Some (st, s)))"
| "run_tasks errText until (task # ts) blocking st s =
     (let opening = blocking \<and> MigrationID task > until;
          blocking = (if opening then False else blocking);
          st = update None (StatusActivePrefix @ Description task) True blocking (MigrationID task) st;
          before = (if opening then [CloseCh] else []) @ [Updated st]
      in case Handler task s of
           None \<Rightarrow> (before, None)
         | Some (Inl e, s) \<Rightarrow>
             (let e = taskErr task e;
                  st = update (Some e) (errText e) False True (MigrationID task) st
              in (before @ [Returned (MigrationID task) False, Updated st], Some (st, s)))
         | Some (Inr _, s) \<Rightarrow>
             (case run_tasks errText until ts blocking st s of
                (rest, r) \<Rightarrow> (before @ Returned (MigrationID task) True # rest, r)))"

definition runMigrations ::
  "(err \<Rightarrow> string) \<Rightarrow> 's Migration \<Rightarrow> 's \<Rightarrow> action list \<times> ('s Migration \<times> 's) option" where
  "runMigrations errText m s =
     (case run_tasks errText (blockUntil m) (tasks m) True (mig_state m) s of
        (trace, r) \<Rightarrow> (trace, map_option (\<lambda>(st, s). (m\<lparr>mig_state := st\<rparr>, s)) r))"

section \<open>Which task lists are accepted\<close>

definition last_blocking :: "'s Task list \<Rightarrow> int \<Rightarrow> int" where
  "last_blocking ts dflt = (case filter DBUnavailable ts of [] \<Rightarrow> dflt | bs \<Rightarrow> MigrationID (last bs))"

lemma last_blocking_Cons:
  "last_blocking (t # ts) d = last_blocking ts (if DBUnavailable t then MigrationID t else d)"
  by (simp add: last_blocking_def split: list.split)

lemma setTasks_loop_spec:
  assumes "\<forall>i \<in> set ids. i \<le> lastID"
  shows "(fst (setTasks_loop ids lastID ts u) = None \<longleftrightarrow>
      sorted_wrt (<) (map MigrationID ts) \<and> (\<forall>t \<in> set ts. MigrationID t \<ge> lastID \<and> MigrationID t \<notin> set ids)) \<and>
    (fst (setTasks_loop ids lastID ts u) = None \<longrightarrow> snd (setTasks_loop ids lastID ts u) = last_blocking ts u)"
  using assms
proof (induction ids lastID ts u rule: setTasks_loop.induct)
  case (2 ids lastID t ts u)
  show ?case
  proof (cases "lastID > MigrationID t \<or> MigrationID t \<in> set ids")
    case True
    then show ?thesis by auto
  next
    case False
    let ?u = "if DBUnavailable t then MigrationID t else u"
    let ?r = "setTasks_loop (MigrationID t # ids) (MigrationID t) ts ?u"
    have "\<forall>i \<in> set (MigrationID t # ids). i \<le> MigrationID t" using 2(2) False by force
    with 2(1) False have ih: "(fst ?r = None \<longleftrightarrow> sorted_wrt (<) (map MigrationID ts) \<and>
        (\<forall>t' \<in> set ts. MigrationID t' \<ge> MigrationID t \<and> MigrationID t' \<notin> set (MigrationID t # ids))) \<and>
      (fst ?r = None \<longrightarrow> snd ?r = last_blocking ts ?u)" by simp
    have "(\<forall>t' \<in> set ts. MigrationID t' \<ge> MigrationID t \<and> MigrationID t' \<notin> set (MigrationID t # ids)) \<longleftrightarrow>
        (\<forall>t' \<in> set ts. MigrationID t < MigrationID t' \<and> MigrationID t' \<ge> lastID \<and> MigrationID t' \<notin> set ids)"
      using False by force
    with ih False show ?thesis by (auto simp: last_blocking_Cons simp del: setTasks_loop.simps(1))
  qed
qed (simp add: last_blocking_def)

text \<open>A migration is made exactly for tasks whose ids are non-negative and strictly ascending; then
  the id up to which it blocks is that of the last blocking task, 0 if there is none.\<close>

theorem MakeMigration_accepts:
  "(fst (MakeMigration ts) = None \<longleftrightarrow>
      sorted_wrt (<) (map MigrationID ts) \<and> list_all (\<lambda>t. 0 \<le> MigrationID t) ts) \<and>
   (case MakeMigration ts of
      (Some e, _) \<Rightarrow> e = ErrUnorderedID \<or> e = ErrDuplicateID
    | (None, m) \<Rightarrow> tasks m = ts \<and>
        blockUntil m = (case filter DBUnavailable ts of [] \<Rightarrow> 0 | bs \<Rightarrow> MigrationID (last bs)))"
proof -
  have e: "fst (setTasks_loop ids l ts u) \<in> {None, Some ErrUnorderedID, Some ErrDuplicateID}" for ids l ts u
    by (induction ids l ts u rule: setTasks_loop.induct) auto
  show ?thesis
    using setTasks_loop_spec [of "[]" 0 ts 0] e [of "[]" 0 ts 0]
    by (cases "setTasks_loop [] 0 ts 0")
      (auto simp: MakeMigration_def setTasks_def last_blocking_def list_all_iff split: option.splits)
qed

section \<open>What a run shows\<close>

text \<open>The actions that make the database available to others: closing the channel, and publishing a
  state that does not block.\<close>

fun opens :: "action \<Rightarrow> bool" where
  "opens CloseCh = True"
| "opens (Updated st) = (\<not> Blocking st)"
| "opens (Returned i ok) = False"

lemma run_tasks_opens:
  assumes "run_tasks errText until ts blocking st s = (before @ a # after, r)" "opens a"
    and "sorted_wrt (<) (map MigrationID ts)" "\<not> blocking \<longrightarrow> (\<forall>t \<in> set ts. until < MigrationID t)"
    and "t \<in> set ts" "MigrationID t \<le> until"
  shows "Returned (MigrationID t) True \<in> set before"
  using assms
proof (induction ts arbitrary: blocking st s before r)
  case (Cons task ts)
  have b: blocking and le: "MigrationID task \<le> until"
    using Cons.prems(3-6) by force+
  let ?st = "update None (StatusActivePrefix @ Description task) True True (MigrationID task) st"
  show ?case
  proof (cases "Handler task s")
    case None
    with Cons.prems(1,2) b le show ?thesis by (auto simp: update_eq Cons_eq_append_conv)
  next
    case (Some res)
    obtain x s1 where res: "res = (x, s1)" by fastforce
    show ?thesis
    proof (cases x)
      case (Inl e)
      with Cons.prems(1,2) b le Some res show ?thesis
        by (auto simp: update_eq Cons_eq_append_conv Let_def)
    next
      case (Inr u)
      obtain rest r1 where rest: "run_tasks errText until ts True ?st s1 = (rest, r1)" by fastforce
      with Cons.prems(1) b le Some res Inr
      have tr: "before @ a # after = Updated ?st # Returned (MigrationID task) True # rest"
        by (simp add: Let_def)
      with Cons.prems(2) obtain before' where
        before: "before = Updated ?st # Returned (MigrationID task) True # before'" "rest = before' @ a # after"
        by (cases before; cases "tl before") (auto simp: update_eq)
      show ?thesis
      proof (cases "t = task")
        case False
        with Cons.IH [OF rest [unfolded before(2)] Cons.prems(2)] Cons.prems(3,5,6) before(1)
        show ?thesis by simp
      qed (simp add: before(1))
    qed
  qed
qed simp

lemma run_tasks_close:
  assumes "run_tasks errText until ts blocking st s = (trace, r)"
  shows "count_list trace CloseCh \<le> (if blocking then 1 else 0)"
  using assms
proof (induction ts arbitrary: blocking st s trace r)
  case (Cons task ts)
  let ?b = "blocking \<and> \<not> MigrationID task > until"
  let ?st = "update None (StatusActivePrefix @ Description task) True ?b (MigrationID task) st"
  show ?case
  proof (cases "Handler task s")
    case (Some res)
    obtain x s1 where res: "res = (x, s1)" by fastforce
    obtain rest r1 where rest: "run_tasks errText until ts ?b ?st s1 = (rest, r1)" by fastforce
    from Cons.IH [OF this] Cons.prems Some res rest show ?thesis
      by (cases x) (auto simp: Let_def split: if_splits)
  qed (use Cons.prems in \<open>auto simp: Let_def\<close>)
qed (auto simp: Let_def split: if_splits)

lemma run_tasks_closes:
  assumes "run_tasks errText until ts True st s = (trace, r)" "sorted_wrt (<) (map MigrationID ts)"
    and "\<forall>t \<in> set ts. MigrationID t \<le> until \<longrightarrow> Returned (MigrationID t) True \<in> set trace"
  shows "CloseCh \<in> set trace"
  using assms
proof (induction ts arbitrary: st s trace r)
  case (Cons task ts)
  let ?st = "update None (StatusActivePrefix @ Description task) True True (MigrationID task) st"
  show ?case
  proof (cases "MigrationID task > until")
    case True
    with Cons.prems(1) show ?thesis by (auto simp: Let_def split: option.splits sum.splits prod.splits)
  next
    case False
    with Cons.prems(1,3) obtain s1 u where h: "Handler task s = Some (Inr u, s1)"
      by (auto simp: Let_def split: option.splits sum.splits prod.splits)
    obtain rest r1 where rest: "run_tasks errText until ts True ?st s1 = (rest, r1)" by fastforce
    with h False Cons.prems(1) have tr: "trace = Updated ?st # Returned (MigrationID task) True # rest"
      by (simp add: Let_def)
    from Cons.IH [OF rest] Cons.prems(2,3) tr show ?thesis by force
  qed
qed (simp add: Let_def)

lemma MakeMigration_ok:
  assumes "MakeMigration ts = (None, m)"
  shows "tasks m = ts" "sorted_wrt (<) (map MigrationID ts)" "blockUntil m = last_blocking ts 0"
    "mig_state m = \<lparr>st_Err = None, TaskID = 0, st_Status = StatusPending, Running = False, Blocking = True\<rparr>"
  using assms setTasks_loop_spec [of "[]" 0 ts 0]
  by (auto simp: MakeMigration_def setTasks_def split: prod.splits option.splits)

lemma blocking_before_last:
  assumes "sorted_wrt (<) (map MigrationID ts)" "t \<in> set ts" "DBUnavailable t"
  shows "MigrationID t \<le> last_blocking ts d"
proof -
  let ?bs = "filter DBUnavailable ts"
  have t: "t \<in> set ?bs" using assms(2,3) by simp
  have s: "sorted_wrt (\<lambda>x y. MigrationID x < MigrationID y) ?bs"
    using assms(1) by (simp add: sorted_wrt_map sorted_wrt_filter)
  then have "MigrationID t \<le> MigrationID (last ?bs)"
    using t by (cases ?bs rule: rev_cases) (auto simp: sorted_wrt_append)
  moreover have "?bs \<noteq> []" using t by (metis empty_iff empty_set)
  ultimately show ?thesis by (cases ?bs) (simp_all add: last_blocking_def)
qed

text \<open>C36: while an accepted list of migrations runs, the channel is closed at most once. Whatever makes
  the database available, closing the channel or publishing a status that does not block, happens
  only after every blocking task has returned successfully. The channel is closed as soon as the
  tasks up to the last blocking one have succeeded.\<close>

theorem runMigrations_available:
  assumes "MakeMigration ts = (None, m)" "runMigrations errText m s = (trace, r)"
  shows "count_list trace CloseCh \<le> 1 \<and>
    (\<forall>before a after t. trace = before @ a # after \<and> opens a \<and> t \<in> set ts \<and> DBUnavailable t \<longrightarrow>
       Returned (MigrationID t) True \<in> set before) \<and>
    ((\<forall>t \<in> set ts. MigrationID t \<le> blockUntil m \<longrightarrow> Returned (MigrationID t) True \<in> set trace) \<longrightarrow>
       CloseCh \<in> set trace)"
proof -
  note ok = MakeMigration_ok [OF assms(1)]
  obtain r1 where run: "run_tasks errText (last_blocking ts 0) ts True (mig_state m) s = (trace, r1)"
    using assms(2) ok by (auto simp: runMigrations_def split: prod.splits)
  have "Returned (MigrationID t) True \<in> set before"
    if "trace = before @ a # after" "opens a" "t \<in> set ts" "DBUnavailable t" for before a after t
    using run_tasks_opens [OF run [unfolded that(1)] that(2) ok(2) _ that(3)]
      blocking_before_last [OF ok(2) that(3,4)] by simp
  with run_tasks_close [OF run] run_tasks_closes [OF run ok(2)] ok(3) show ?thesis by auto
qed

text \<open>The handlers run on the state, in order, until one fails: how many succeeded, and the state.\<close>

fun run_handlers :: "'s Task list \<Rightarrow> 's \<Rightarrow> ('s Task option \<times> err \<times> 's) option" where
  "run_handlers [] s = Some (None, ErrMsg [], s)"
| "run_handlers (t # ts) s =
     (case Handler t s of
        None \<Rightarrow> None
      | Some (Inl e, s) \<Rightarrow> Some (Some t, e, s)
      | Some (Inr _, s) \<Rightarrow> run_handlers ts s)"

lemma run_tasks_result:
  "snd (run_tasks errText until ts blocking st s) =
     map_option (\<lambda>(failed, e, s).
       (case failed of
          None \<Rightarrow> \<lparr>st_Err = None, TaskID = -1, st_Status = StatusComplete, Running = False, Blocking = False\<rparr>
        | Some t \<Rightarrow> \<lparr>st_Err = Some (taskErr t e), TaskID = MigrationID t, st_Status = errText (taskErr t e),
                     Running = False, Blocking = True\<rparr>, s)) (run_handlers ts s)"
proof (induction ts arbitrary: blocking st s)
  case (Cons t ts)
  show ?case
  proof (cases "Handler t s")
    case (Some res)
    obtain x s1 where "res = (x, s1)" by fastforce
    with Some Cons show ?thesis by (cases x) (simp_all add: update_eq Let_def case_prod_beta)
  qed (simp add: Let_def)
qed (simp add: update_eq Let_def)

text \<open>A run executes the tasks in order up to the first that fails, and none after it. Its final
  status is complete, not running and not blocking when all succeeded; otherwise it is the failed
  task's error, not running, and blocking.\<close>

theorem runMigrations_status:
  "map_option (\<lambda>(m', s'). (mig_state m', s')) (snd (runMigrations errText m s)) =
     map_option (\<lambda>(failed, e, s).
       (case failed of
          None \<Rightarrow> \<lparr>st_Err = None, TaskID = -1, st_Status = StatusComplete, Running = False, Blocking = False\<rparr>
        | Some t \<Rightarrow> \<lparr>st_Err = Some (taskErr t e), TaskID = MigrationID t, st_Status = errText (taskErr t e),
                     Running = False, Blocking = True\<rparr>, s)) (run_handlers (tasks m) s)"
  using run_tasks_result [of errText "blockUntil m" "tasks m" True "mig_state m" s]
  by (cases "run_handlers (tasks m) s") (auto simp: runMigrations_def split: prod.splits)

text \<open>Two tasks of which the first blocks and the second fails.\<close>

definition example_tasks :: "nat Task list" where
  "example_tasks =
     [\<lparr>MigrationID = 3, Handler = (\<lambda>s. Some (Inr (), s + 1)), DBUnavailable = True, Description = ''first''\<rparr>,
      \<lparr>MigrationID = 4, Handler = (\<lambda>s. Some (Inl ErrTimeout, s + 1)), DBUnavailable = False, Description = ''second''\<rparr>]"

theorem runMigrations_available_witness:
  "\<exists>m trace r. MakeMigration example_tasks = (None, m) \<and> runMigrations (\<lambda>_. ''failed'') m 0 = (trace, r) \<and>
    count_list trace CloseCh \<le> 1 \<and> CloseCh \<in> set trace"
proof -
  obtain m where m: "MakeMigration example_tasks = (None, m)"
    by (simp add: MakeMigration_def setTasks_def example_tasks_def)
  obtain trace r where r: "runMigrations (\<lambda>_. ''failed'') m 0 = (trace, r)" by fastforce
  note ok = MakeMigration_ok [OF m]
  have "Returned 3 True \<in> set trace"
    using r by (auto simp: runMigrations_def ok example_tasks_def last_blocking_def Let_def)
  with runMigrations_available [OF m r] m r show ?thesis
    by (auto simp: example_tasks_def ok(3) last_blocking_def)
qed

end
