(* ===== verification/ConvertAccountData.thy ===== *)
theory ConvertAccountData
  imports WriterLaws "HOL-Library.List_Lexorder" "HOL-Library.Char_ord"
begin

text \<open>
  The migration that rewrites the column \<open>account.account_data\<close> with the totals of the account's
  assets and applications (\<^verbatim>\<open>idb/postgres/internal/migrations/convert_account_data/m.go\<close>), in batches
  of accounts ordered by address. Addresses are compared as the server compares \<open>bytea\<close> values:
  lexicographically by byte.
\<close>

section \<open>The operations\<close>

record aad =
  aad_address :: Address
  aad_trimmedAccountData :: AccountData

definition decode_account :: "'j codec \<Rightarrow> 'j account_row \<Rightarrow> aad result" where
  "decode_account c r =
     res_bind (res_wrap ''getAccounts() decode err'' (DecodeTrimmedAccountData c (acc_account_data r)))
       (\<lambda>ad. Inr \<lparr>aad_address = copy_array 32 (acc_addr r), aad_trimmedAccountData = ad\<rparr>)"

definition getAccounts ::
  "'j codec \<Rightarrow> nat \<Rightarrow> Address option \<Rightarrow> 'j main_tables \<Rightarrow> aad list result" where
  "getAccounts c batchSize lastAddress db =
     (let selected =
        (case lastAddress of
           None \<Rightarrow> filter (\<lambda>r. \<not> acc_deleted r) (tbl_account db)
         | Some a \<Rightarrow> filter (\<lambda>r. \<not> acc_deleted r \<and> acc_addr r > a) (tbl_account db))
      in res_map (decode_account c) (take batchSize (sort_key acc_addr selected)))"

definition count_rows :: "('r \<Rightarrow> bool) \<Rightarrow> 'r list \<Rightarrow> uint64" where
  "count_rows P t = of_nat (length (filter P t))"

definition with_totals :: "'j main_tables \<Rightarrow> Address \<Rightarrow> AccountData \<Rightarrow> AccountData" where
  "with_totals db a ad =
     ad\<lparr>TotalAssets := count_rows (\<lambda>r. \<not> aa_deleted r \<and> aa_addr r = a) (tbl_account_asset db),
        TotalAssetParams := count_rows (\<lambda>r. \<not> as_deleted r \<and> as_creator_addr r = a) (tbl_asset db),
        TotalAppParams := count_rows (\<lambda>r. \<not> app_deleted r \<and> app_creator r = a) (tbl_app db),
        TotalAppLocalStates := count_rows (\<lambda>r. \<not> al_deleted r \<and> al_addr r = a) (tbl_account_app db)\<rparr>"

definition computeLcAccountData :: "'j main_tables \<Rightarrow> aad list \<Rightarrow> AccountData list" where
  "computeLcAccountData db accounts =
     map (\<lambda>a. with_totals db (aad_address a) (aad_trimmedAccountData a)) accounts"

definition update_account_data :: "Address \<Rightarrow> 'j \<Rightarrow> 'j account_row list \<Rightarrow> 'j account_row list" where
  "update_account_data a j t = map (\<lambda>r. if acc_addr r = a then r\<lparr>acc_account_data := j\<rparr> else r) t"

definition writeLcAccountData ::
  "'j codec \<Rightarrow> aad list \<Rightarrow> AccountData list \<Rightarrow> 'j main_tables \<Rightarrow> 'j main_tables" where
  "writeLcAccountData c accounts sdkAccountData db =
     db\<lparr>tbl_account :=
         fold (\<lambda>(a, ad). update_account_data (aad_address a) (EncodeTrimmedLcAccountData c ad))
           (zip accounts sdkAccountData) (tbl_account db)\<rparr>"

definition processAccounts :: "'j codec \<Rightarrow> aad list \<Rightarrow> 'j main_tables \<Rightarrow> 'j main_tables" where
  "processAccounts c accounts db = writeLcAccountData c accounts (computeLcAccountData db accounts) db"

text \<open>The loop of \<open>RunMigration\<close>. With no accounts in the batch the index of the last one is out of
  range, which panics.\<close>

partial_function (option) migrate_loop ::
  "'j codec \<Rightarrow> nat \<Rightarrow> aad list \<Rightarrow> 'j main_tables \<Rightarrow> 'j main_tables result option" where
  "migrate_loop c batchSize accounts db =
     (if length accounts \<ge> batchSize then
        if accounts = [] then Some (Inl (ErrMsg ''panic: index out of range''))
        else case getAccounts c batchSize (Some (aad_address (last accounts))) db of
               Inl e \<Rightarrow> Some (Inl (Wrap ''RunMigration() err'' e))
             | Inr accounts \<Rightarrow> migrate_loop c batchSize accounts (processAccounts c accounts db)
      else Some (Inr db))"

definition RunMigration :: "'j codec \<Rightarrow> nat \<Rightarrow> 'j main_tables \<Rightarrow> 'j main_tables result option" where
  "RunMigration c batchSize db =
     (case getAccounts c batchSize None db of
        Inl e \<Rightarrow> Some (Inl (Wrap ''RunMigration() err'' e))
      | Inr accounts \<Rightarrow> migrate_loop c batchSize accounts (processAccounts c accounts db))"

section \<open>One pass\<close>

text \<open>The row the migration writes.\<close>

definition converted :: "'j codec \<Rightarrow> 'j main_tables \<Rightarrow> 'j account_row \<Rightarrow> 'j account_row" where
  "converted c db r =
     (case DecodeTrimmedAccountData c (acc_account_data r) of
        Inl _ \<Rightarrow> r
      | Inr ad \<Rightarrow> r\<lparr>acc_account_data := EncodeTrimmedLcAccountData c (with_totals db (acc_addr r) ad)\<rparr>)"

text \<open>The rows of the live accounts, in the order in which they are visited, and the tables after the
  first \<open>n\<close> of them have been written.\<close>

definition live_rows :: "'j main_tables \<Rightarrow> 'j account_row list" where
  "live_rows db = sort_key acc_addr (filter (\<lambda>r. \<not> acc_deleted r) (tbl_account db))"

definition converted_upto :: "'j codec \<Rightarrow> 'j main_tables \<Rightarrow> nat \<Rightarrow> 'j main_tables" where
  "converted_upto c db n =
     db\<lparr>tbl_account :=
         map (\<lambda>r. if r \<in> set (take n (live_rows db)) then converted c db r else r) (tbl_account db)\<rparr>"

definition convertible :: "'j codec \<Rightarrow> 'j main_tables \<Rightarrow> bool" where
  "convertible c db \<longleftrightarrow>
     key_unique acc_addr (tbl_account db) \<and> (\<forall>r \<in> set (tbl_account db). length (acc_addr r) = 32) \<and>
     (\<forall>r \<in> set (tbl_account db). \<not> acc_deleted r \<longrightarrow>
        (\<exists>ad. DecodeTrimmedAccountData c (acc_account_data r) = Inr ad))"

definition aad_of :: "'j codec \<Rightarrow> 'j account_row \<Rightarrow> aad" where
  "aad_of c r =
     \<lparr>aad_address = acc_addr r,
      aad_trimmedAccountData =
        (case DecodeTrimmedAccountData c (acc_account_data r) of Inr ad \<Rightarrow> ad | Inl _ \<Rightarrow> zero_AccountData)\<rparr>"

lemma set_live_rows [simp]: "set (live_rows db) = {r \<in> set (tbl_account db). \<not> acc_deleted r}"
  by (auto simp: live_rows_def)

lemma decode_accounts:
  assumes "convertible c db" "set rows \<subseteq> set (live_rows db)"
  shows "res_map (decode_account c) rows = Inr (map (aad_of c) rows)"
  using assms(2)
proof (induction rows)
  case (Cons r rows)
  then have "r \<in> set (tbl_account db)" "\<not> acc_deleted r" by auto
  with assms(1) obtain ad where "DecodeTrimmedAccountData c (acc_account_data r) = Inr ad"
    "length (acc_addr r) = 32" by (auto simp: convertible_def)
  with Cons show ?case by (simp add: decode_account_def aad_of_def copy_array_def zero_bytes_def)
qed simp

lemma converted_same [simp]:
  "acc_addr (converted c db r) = acc_addr r" "acc_deleted (converted c db r) = acc_deleted r"
  by (simp_all add: converted_def split: sum.split)

lemma live_rows_keys:
  assumes "convertible c db"
  shows "sorted_wrt (<) (map acc_addr (live_rows db))" "distinct (live_rows db)"
proof -
  have "distinct (map acc_addr (filter (\<lambda>r. \<not> acc_deleted r) (tbl_account db)))"
    using assms by (simp add: convertible_def key_unique_def distinct_map_filter)
  then have d: "distinct (map acc_addr (live_rows db))"
    by (simp add: live_rows_def distinct_map inj_on_def)
  moreover have "sorted (map acc_addr (live_rows db))" by (simp add: live_rows_def)
  ultimately show "sorted_wrt (<) (map acc_addr (live_rows db))"
    by (simp add: strict_sorted_iff)
  show "distinct (live_rows db)" using d by (simp add: distinct_map)
qed

lemma same_addr:
  "convertible c db \<Longrightarrow> r \<in> set (tbl_account db) \<Longrightarrow> r' \<in> set (tbl_account db) \<Longrightarrow>
    acc_addr r = acc_addr r' \<Longrightarrow> r = r'"
  by (auto simp: convertible_def key_unique_def distinct_map inj_on_def)

lemma fold_update:
  "fold (\<lambda>r. update_account_data (k r) (v r)) rows t =
     map (\<lambda>x. fold (\<lambda>r x. if acc_addr x = k r then x\<lparr>acc_account_data := v r\<rparr> else x) rows x) t"
  by (induction rows arbitrary: t) (simp_all add: update_account_data_def)

lemma fold_update_row:
  assumes "distinct (map acc_addr rows)"
  shows "fold (\<lambda>r x. if acc_addr x = acc_addr r then x\<lparr>acc_account_data := v r\<rparr> else x) rows x =
    (case find (\<lambda>r. acc_addr r = acc_addr x) rows of None \<Rightarrow> x | Some r \<Rightarrow> x\<lparr>acc_account_data := v r\<rparr>)"
  using assms
proof (induction rows arbitrary: x)
  case (Cons r rows)
  have "find (\<lambda>r'. acc_addr r' = acc_addr r) rows = None"
    using Cons.prems by (simp add: find_None_iff) (metis image_eqI)
  with Cons show ?case by auto
qed simp

lemma find_by_key: "distinct (map f xs) \<Longrightarrow> x \<in> set xs \<Longrightarrow> find (\<lambda>r. f r = f x) xs = Some x"
  by (induction xs) auto

lemma with_totals_account [simp]:
  "with_totals (db\<lparr>tbl_account := t\<rparr>) = with_totals db"
  by (simp add: with_totals_def fun_eq_iff)

lemma process_next:
  assumes "convertible c db"
  shows "processAccounts c (map (aad_of c) (take b (drop n (live_rows db)))) (converted_upto c db n) =
    converted_upto c db (n + b)"
proof -
  let ?L = "live_rows db" and ?C = "take b (drop n (live_rows db))"
  define v where "v r = EncodeTrimmedLcAccountData c (with_totals db (acc_addr r)
    (aad_trimmedAccountData (aad_of c r)))" for r
  note keys = live_rows_keys [OF assms]
  have sub: "set ?C \<subseteq> set (tbl_account db)" and live: "\<forall>r \<in> set ?C. \<not> acc_deleted r"
    using set_live_rows [of db] by (auto dest!: in_set_takeD in_set_dropD)
  have C: "distinct (map acc_addr ?C)"
    using keys(1) by (simp add: strict_sorted_iff flip: take_map drop_map)
  have v: "x\<lparr>acc_account_data := v x\<rparr> = converted c db x" if x: "x \<in> set ?C" for x
  proof -
    obtain ad where "DecodeTrimmedAccountData c (acc_account_data x) = Inr ad"
      using assms sub live x unfolding convertible_def by blast
    then show ?thesis by (simp add: v_def converted_def aad_of_def)
  qed
  have split: "set (take (n + b) ?L) = set (take n ?L) \<union> set ?C"
    by (simp add: take_add)
  have disj: "set (take n ?L) \<inter> set ?C = {}"
    using keys(2) set_take_disj_set_drop_if_distinct [of ?L n n] by (auto dest: in_set_takeD)
  let ?g = "\<lambda>r. if r \<in> set (take n ?L) then converted c db r else r"
  have row: "fold (\<lambda>r x. if acc_addr x = acc_addr r then x\<lparr>acc_account_data := v r\<rparr> else x) ?C (?g x) =
      (if x \<in> set (take (n + b) ?L) then converted c db x else x)" if "x \<in> set (tbl_account db)" for x
  proof (cases "x \<in> set ?C")
    case True
    then have "find (\<lambda>r. acc_addr r = acc_addr x) ?C = Some x"
      by (rule find_by_key [OF C])
    then show ?thesis using True disj v [OF True] split
      by (auto simp: fold_update_row [OF C])
  next
    case False
    then have "find (\<lambda>r. acc_addr r = acc_addr x) ?C = None"
      using same_addr [OF assms that] sub by (simp add: find_None_iff) (metis subsetD)
    then show ?thesis using False split by (auto simp: fold_update_row [OF C])
  qed
  have "zip (map (aad_of c) ?C) (computeLcAccountData (converted_upto c db n) (map (aad_of c) ?C)) =
      map (\<lambda>r. (aad_of c r, with_totals db (acc_addr r) (aad_trimmedAccountData (aad_of c r)))) ?C"
    by (simp add: computeLcAccountData_def converted_upto_def zip_map_map zip_same_conv_map aad_of_def)
  then have "tbl_account (processAccounts c (map (aad_of c) ?C) (converted_upto c db n)) =
      fold (\<lambda>r. update_account_data (acc_addr r) (v r)) ?C (map ?g (tbl_account db))"
    by (simp add: processAccounts_def writeLcAccountData_def fold_map comp_def v_def converted_upto_def
        aad_of_def)
  with row show ?thesis
    by (simp add: fold_update processAccounts_def writeLcAccountData_def converted_upto_def)
qed

lemma accounts_after:
  assumes "convertible c db" "0 < n" "n \<le> length (live_rows db)"
  shows "getAccounts c b (Some (acc_addr (live_rows db ! (n - 1)))) (converted_upto c db n) =
    Inr (map (aad_of c) (take b (drop n (live_rows db))))"
proof -
  let ?L = "live_rows db" and ?a = "acc_addr (live_rows db ! (n - 1))"
  let ?g = "\<lambda>r. if r \<in> set (take n ?L) then converted c db r else r"
  note keys = live_rows_keys(1) [OF assms(1)]
  have less: "i < j \<Longrightarrow> j < length ?L \<Longrightarrow> acc_addr (?L ! i) < acc_addr (?L ! j)" for i j
    using keys by (simp add: sorted_wrt_map sorted_wrt_iff_nth_less)
  have low: "acc_addr r \<le> ?a" if r: "r \<in> set (take n ?L)" for r
  proof -
    obtain i where i: "i < n" "r = ?L ! i" using r assms(3) by (auto simp: in_set_conv_nth)
    show ?thesis
    proof (cases "i = n - 1")
      case False
      then have "i < n - 1" "n - 1 < length ?L" using i(1) assms(2,3) by auto
      from less [OF this] i(2) show ?thesis by (simp add: order_less_imp_le)
    qed (simp add: i(2))
  qed
  have high: "?a < acc_addr r" if r: "r \<in> set (drop n ?L)" for r
  proof -
    obtain i where i: "i < length ?L - n" "r = ?L ! (n + i)" using r by (auto simp: in_set_conv_nth)
    have "n - 1 < n + i" "n + i < length ?L" using i(1) assms(2) by auto
    from less [OF this] i(2) show ?thesis by simp
  qed
  have new: "filter (\<lambda>r. ?a < acc_addr r) ?L = drop n ?L"
  proof -
    have "filter (\<lambda>r. ?a < acc_addr r) (take n ?L) = []" "filter (\<lambda>r. ?a < acc_addr r) (drop n ?L) = drop n ?L"
      using low high by (auto simp: filter_empty_conv filter_id_conv dest: leD)
    then have "filter (\<lambda>r. ?a < acc_addr r) (take n ?L @ drop n ?L) = drop n ?L"
      by (simp only: filter_append append_Nil)
    then show ?thesis by simp
  qed
  have "filter (\<lambda>r. \<not> acc_deleted r \<and> ?a < acc_addr r) (map ?g (tbl_account db)) =
      map ?g (filter (\<lambda>r. \<not> acc_deleted r \<and> ?a < acc_addr r) (tbl_account db))"
    by (simp add: filter_map comp_def if_distrib cong: if_cong)
  also have "\<dots> = filter (\<lambda>r. \<not> acc_deleted r \<and> ?a < acc_addr r) (tbl_account db)"
    using low by (intro map_idI) force
  also have "\<dots> = filter (\<lambda>r. ?a < acc_addr r) (filter (\<lambda>r. \<not> acc_deleted r) (tbl_account db))"
    by (simp add: conj_commute)
  finally have "sort_key acc_addr (filter (\<lambda>r. \<not> acc_deleted r \<and> ?a < acc_addr r)
      (tbl_account (converted_upto c db n))) = drop n ?L"
    using new by (simp add: converted_upto_def live_rows_def filter_sort)
  moreover have "set (take b (drop n ?L)) \<subseteq> set ?L" by (meson set_take_subset set_drop_subset subset_trans)
  ultimately show ?thesis
    using decode_accounts [OF assms(1)] by (simp add: getAccounts_def del: set_live_rows)
qed

lemma migrate_loop_correct:
  assumes "convertible c db" "0 < b" "m \<le> length (live_rows db)"
  shows "migrate_loop c b (map (aad_of c) (take b (drop m (live_rows db)))) (converted_upto c db (m + b)) =
    Some (Inr (converted_upto c db (length (live_rows db))))"
  using assms(3)
proof (induction "length (live_rows db) - m" arbitrary: m rule: less_induct)
  case less
  let ?L = "live_rows db"
  show ?case
  proof (cases "m + b \<le> length ?L")
    case False
    then have "converted_upto c db (m + b) = converted_upto c db (length ?L)"
      by (simp add: converted_upto_def)
    moreover have "\<not> b \<le> length ?L - m" using False less.prems by arith
    ultimately show ?thesis by (subst migrate_loop.simps) simp
  next
    case True
    have "last (take b (drop m ?L)) = ?L ! (m + b - 1)"
      using True assms(2) by (simp add: last_conv_nth)
    moreover have "take b (drop m ?L) \<noteq> []" using True assms(2) by simp
    ultimately have lst: "aad_address (last (map (aad_of c) (take b (drop m ?L)))) = acc_addr (?L ! (m + b - 1))"
      by (simp add: last_map aad_of_def)
    have ne: "map (aad_of c) (take b (drop m ?L)) \<noteq> []" "b \<le> length (map (aad_of c) (take b (drop m ?L)))"
      using True assms(2) by auto
    have "migrate_loop c b (map (aad_of c) (take b (drop (m + b) ?L))) (converted_upto c db (m + b + b)) =
        Some (Inr (converted_upto c db (length ?L)))"
      by (rule less.hyps) (use True assms(2) in auto)
    moreover have "0 < m + b" using assms(2) by simp
    ultimately show ?thesis
      using ne
      by (subst migrate_loop.simps)
        (simp only: lst accounts_after [OF assms(1) _ True] process_next [OF assms(1)] sum.case if_True if_False)
  qed
qed

lemma converted_upto_0 [simp]: "converted_upto c db 0 = db"
  by (simp add: converted_upto_def)

text \<open>C35: with a positive batch size, on a table whose addresses are unique and whose live accounts
  decode, the migration terminates without error and rewrites exactly the live accounts, each with the
  numbers of its assets and applications that are not deleted; deleted accounts and every other table
  stay as they were. In particular the result does not depend on the batch size.\<close>

theorem RunMigration_correct:
  assumes "0 < batchSize" "convertible c db"
  shows "RunMigration c batchSize db =
    Some (Inr (db\<lparr>tbl_account := map (\<lambda>r. if acc_deleted r then r else converted c db r) (tbl_account db)\<rparr>))"
proof -
  have "getAccounts c batchSize None db = Inr (map (aad_of c) (take batchSize (drop 0 (live_rows db))))"
    using decode_accounts [OF assms(2), of "take batchSize (live_rows db)"]
    by (simp add: getAccounts_def set_take_subset flip: live_rows_def del: set_live_rows)
  moreover have "map (\<lambda>r. if r \<in> set (live_rows db) then converted c db r else r) (tbl_account db) =
      map (\<lambda>r. if acc_deleted r then r else converted c db r) (tbl_account db)"
    by (intro map_cong) auto
  ultimately show ?thesis
    using process_next [OF assms(2), of batchSize 0] migrate_loop_correct [OF assms(2,1), of 0]
    by (simp add: RunMigration_def converted_upto_def [of _ _ "length (live_rows db)"] del: set_live_rows)
qed

text \<open>Two live accounts and a deleted one, with batches of one account; the first account holds an asset.\<close>

definition example_old_account :: "char \<Rightarrow> bool \<Rightarrow> document account_row" where
  "example_old_account x gone =
     \<lparr>acc_addr = replicate 32 x, acc_microalgos = 5, acc_rewardsbase = 0, acc_rewards_total = 0,
      acc_deleted = gone, acc_created_at = 1, acc_closed_at = None, acc_keytype = None,
      acc_account_data =
        (if gone then JNull
         else JTrimmed \<lparr>ta_baseAccountData = convertTrimmedLcAccountData zero_AccountData,
                ta_MicroAlgos = 0, ta_RewardsBase = 0, ta_RewardedMicroAlgos = 0\<rparr>)\<rparr>"

definition example_old_tables :: "document main_tables" where
  "example_old_tables = empty_tables
     \<lparr>tbl_account := [example_old_account (CHR ''b'') False, example_old_account (CHR ''c'') True,
        example_old_account (CHR ''a'') False],
      tbl_account_asset := [\<lparr>aa_addr = replicate 32 (CHR ''a''), aa_assetid = 7, aa_amount = 1,
        aa_frozen = False, aa_deleted = False, aa_created_at = 1, aa_closed_at = None\<rparr>]\<rparr>"

theorem RunMigration_correct_witness:
  "\<exists>db'. RunMigration example_codec 1 example_old_tables = Some (Inr db') \<and>
    map acc_account_data (tbl_account db') =
      [JAccount (convertTrimmedLcAccountData zero_AccountData), JNull,
       JAccount (convertTrimmedLcAccountData (zero_AccountData\<lparr>TotalAssets := 1\<rparr>))]"
proof -
  have "convertible example_codec example_old_tables"
    by (simp add: convertible_def key_unique_def example_old_tables_def empty_tables_def
        example_old_account_def DecodeTrimmedAccountData_def example_codec_def replicate_eq_replicate)
  from RunMigration_correct [OF _ this, of 1] show ?thesis
    by (simp add: example_old_tables_def empty_tables_def example_old_account_def converted_def
        DecodeTrimmedAccountData_def EncodeTrimmedLcAccountData_def example_codec_def with_totals_def
        count_rows_def unconvertTrimmedAccountData_def convertTrimmedLcAccountData_def zero_AccountData_def
        replicate_eq_replicate)
qed

end
