(* ===== verification/PgMigrations.thy ===== *)
theory PgMigrations
  imports Migration ConvertAccountData ImportLaws
begin

text \<open>
  The migrations of the Postgres database (\<^verbatim>\<open>idb/postgres/postgres_migrations.go\<close>), the start of the
  database (\<open>init\<close>) and its health report (\<open>Health\<close>, both in \<^verbatim>\<open>idb/postgres/postgres.go\<close>).

  The state of a migration is the pair of the database and the variable \<open>state\<close> that all handlers of a
  run share. The schema commands are run by the server; what they do to the tables is a parameter.
\<close>

section \<open>The migration state\<close>

definition getMigrationState :: "'j codec \<Rightarrow> 'j main_tables \<Rightarrow> MigrationState result" where
  "getMigrationState c db =
     (case GetMetastate db MigrationMetastateKey of
        Inl e \<Rightarrow> if e = ErrorNotInitialized then Inl ErrorNotInitialized
                 else Inl (Wrap ''getMigrationState() get state err'' e)
      | Inr migrationStateJSON \<Rightarrow>
          res_wrap ''getMigrationState() decode state err'' (DecodeMigrationState c migrationStateJSON))"

definition setMigrationState :: "'j codec \<Rightarrow> MigrationState \<Rightarrow> 'j main_tables \<Rightarrow> 'j main_tables" where
  "setMigrationState c state db = SetMetastate MigrationMetastateKey (EncodeMigrationState c state) db"

definition zero_MigrationState :: MigrationState where
  "zero_MigrationState =
     \<lparr>NextMigration = 0, ms_NextRound = 0, ms_NextAssetID = 0, ms_PointerRound = None, ms_PointerIntra = None\<rparr>"

section \<open>Handlers\<close>

text \<open>The server during one migration: the effect of a command, the attempts of the transaction, and
  the answer to a statement outside of a transaction.\<close>

record 'j mig_env =
  exec_sql :: "string \<Rightarrow> 'j main_tables \<Rightarrow> 'j main_tables result"
  mig_tx :: "nat \<Rightarrow> tx_env"
  stmt_err :: "err option"

type_synonym 'j mig_state = "'j main_tables \<times> MigrationState"
type_synonym 'j handler = "'j mig_state \<Rightarrow> (unit result \<times> 'j mig_state) option"

text \<open>A migration in one transaction: its body, and the step of the state when it has committed.\<close>

definition tx_migration ::
  "(nat \<Rightarrow> tx_env) \<Rightarrow> string \<Rightarrow> ('j main_tables \<Rightarrow> 'j main_tables result option) \<Rightarrow> MigrationState \<Rightarrow> 'j handler" where
  "tx_migration tenv msg f nextState s =
     (case s of (db, state) \<Rightarrow>
        map_option (\<lambda>(r, db, _).
            case r of
              Inl e \<Rightarrow> (Inl (Wrap msg e), (db, state))
            | Inr _ \<Rightarrow> (Inr (), (db, nextState)))
          (TxWithRetry tenv (\<lambda>_ db _. map_option (\<lambda>r. (r, ())) (f db)) 0 db ()))"

definition sqlMigration :: "'j codec \<Rightarrow> 'j mig_env \<Rightarrow> string list \<Rightarrow> 'j handler" where
  "sqlMigration c menv sqlLines s =
     (case s of (db, state) \<Rightarrow>
        let nextState = state\<lparr>NextMigration := NextMigration state + 1\<rparr>
        in tx_migration (mig_tx menv) ''migration commit err''
             (\<lambda>db. Some (res_bind
                (res_wrap ''migration exec cmd err'' (res_fold (exec_sql menv) sqlLines db))
                (\<lambda>db. Inr (SetMetastate MigrationMetastateKey (EncodeMigrationState c nextState) db))))
             nextState s)"

definition upgradeNotSupported :: "'j handler" where
  "upgradeNotSupported s =
     Some (Inl (ErrMsg ''upgrading from this version is not supported; create a new database''), s)"

definition dropTxnBytesColumn :: "'j codec \<Rightarrow> 'j mig_env \<Rightarrow> 'j handler" where
  "dropTxnBytesColumn c menv s = sqlMigration c menv [''ALTER TABLE txn DROP COLUMN txnbytes''] s"

definition convertAccountData :: "'j codec \<Rightarrow> 'j mig_env \<Rightarrow> 'j handler" where
  "convertAccountData c menv s =
     (case s of (db, migrationState) \<Rightarrow>
        let newMigrationState = migrationState\<lparr>NextMigration := NextMigration migrationState + 1\<rparr>
        in tx_migration (mig_tx menv) ''convertAccountData() err''
             (\<lambda>db. map_option (\<lambda>r. res_bind (res_wrap ''convertAccountData() err'' r)
                (\<lambda>db. Inr (setMigrationState c newMigrationState db))) (RunMigration c 10000 db))
             newMigrationState s)"

definition createAppBoxTable :: "'j codec \<Rightarrow> 'j mig_env \<Rightarrow> 'j handler" where
  "createAppBoxTable c menv s =
     sqlMigration c menv
       [''CREATE TABLE IF NOT EXISTS app_box (app bigint NOT NULL, name bytea NOT NULL, value bytea NOT NULL, PRIMARY KEY (app, name))''] s"

section \<open>The list of migrations\<close>

record 'j migrationStruct =
  migrate :: "'j codec \<Rightarrow> 'j mig_env \<Rightarrow> 'j handler"
  m_blocking :: bool
  m_description :: string

abbreviation unsupported :: "bool \<Rightarrow> string \<Rightarrow> 'j migrationStruct" where
  "unsupported b d \<equiv> \<lparr>migrate = (\<lambda>_ _. upgradeNotSupported), m_blocking = b, m_description = d\<rparr>"

definition migrations :: "'j migrationStruct list" where
  "migrations =
     [unsupported False ''Recompute the txid with corrected algorithm.'',
      unsupported True ''Adjust block time to UTC timezone.'',
      unsupported True ''Update DB Schema for Algorand application support.'',
      unsupported False ''Recompute asset configurations with corrected merge function.'',
      unsupported True ''Add indices to make sure account lookups remain fast when there are a lot of apps or assets.'',
      unsupported True ''record round at which txn json recording changes, for future migration to fixup prior records'',
      unsupported True ''Update DB Schema for cumulative account reward support and creation dates.'',
      unsupported False ''Compute cumulative account rewards for all accounts.'',
      unsupported False ''clear some stale data from closed accounts'',
      unsupported False ''some txn JSON encodings need app keys base64 encoded'',
      unsupported False ''The initial m7 implementation would miss special accounts.'',
      unsupported True ''Fix asset holding freeze states.'',
      unsupported False ''Fix search by asset freeze address.'',
      unsupported False ''clear account data for accounts that have been closed'',
      unsupported False ''make all \"deleted\" columns NOT NULL'',
      unsupported True ''change import state format'',
      unsupported True ''notify the user that upgrade is not supported'',
      \<lparr>migrate = dropTxnBytesColumn, m_blocking = True, m_description = ''drop txnbytes column''\<rparr>,
      \<lparr>migrate = convertAccountData, m_blocking = True, m_description = ''convert account.account_data column''\<rparr>,
      \<lparr>migrate = createAppBoxTable, m_blocking = True,
        m_description = ''add new table app_box for application boxes''\<rparr>]"

text \<open>\<open>NextMigration\<close> is a signed integer.\<close>

abbreviation next_migration :: "MigrationState \<Rightarrow> int" where
  "next_migration state \<equiv> sint (NextMigration state)"

text \<open>The loop over \<open>migrations[i]\<close> from the next migration on; a negative index panics.\<close>

definition index_panic :: err where
  "index_panic = ErrMsg ''panic: index out of range''"

definition migrationStateBlocked :: "MigrationState \<Rightarrow> bool result" where
  "migrationStateBlocked state =
     (if next_migration state < 0 then Inl index_panic
      else Inr (list_ex m_blocking (drop (nat (next_migration state)) (migrations :: unit migrationStruct list))))"

definition needsMigration :: "MigrationState \<Rightarrow> bool" where
  "needsMigration state \<longleftrightarrow> next_migration state < int (length (migrations :: unit migrationStruct list))"

definition markMigrationsAsDone :: "'j codec \<Rightarrow> err option \<Rightarrow> 'j main_tables \<Rightarrow> unit result \<times> 'j main_tables" where
  "markMigrationsAsDone c e db =
     (case e of
        Some e \<Rightarrow> (Inl e, db)
      | None \<Rightarrow>
          (Inr (), SetMetastate MigrationMetastateKey
             (EncodeMigrationState c
                (zero_MigrationState\<lparr>NextMigration := of_nat (length (migrations :: unit migrationStruct list))\<rparr>)) db))"

section \<open>Running the available migrations\<close>

text \<open>The server during a run, by migration id.\<close>

type_synonym 'j run_env = "int \<Rightarrow> 'j mig_env"

definition migration_task :: "'j codec \<Rightarrow> 'j run_env \<Rightarrow> nat \<times> 'j migrationStruct \<Rightarrow> 'j mig_state Task" where
  "migration_task c renv im =
     (case im of (i, m) \<Rightarrow>
        \<lparr>MigrationID = int i, Handler = migrate m c (renv (int i)), DBUnavailable = m_blocking m,
         Description = m_description m\<rparr>)"

lemma migration_task_simps [simp]:
  "MigrationID (migration_task c renv (i, m)) = int i"
  "Handler (migration_task c renv (i, m)) = migrate m c (renv (int i))"
  "DBUnavailable (migration_task c renv (i, m)) = m_blocking m"
  by (simp_all add: migration_task_def)

definition done_task :: "'j codec \<Rightarrow> 'j run_env \<Rightarrow> 'j mig_state Task" where
  "done_task c renv =
     \<lparr>MigrationID = 9999999,
      Handler = (\<lambda>(db, state).
        case markMigrationsAsDone c (stmt_err (renv 9999999)) db of (r, db) \<Rightarrow> Some (r, (db, state))),
      DBUnavailable = False, Description = ''Mark migrations done''\<rparr>"

definition available_tasks :: "'j codec \<Rightarrow> 'j run_env \<Rightarrow> nat \<Rightarrow> 'j mig_state Task list" where
  "available_tasks c renv k =
     (let ts = map (migration_task c renv) (List.enumerate k (drop k migrations))
      in if length ts > 0 then ts @ [done_task c renv] else ts)"

text \<open>The result is an error, or the migration with the run of its goroutine.\<close>

type_synonym 'j mig_run =
  "'j mig_state Migration \<times> action list \<times> ('j mig_state Migration \<times> 'j mig_state) option"

definition runAvailableMigrations ::
  "(err \<Rightarrow> string) \<Rightarrow> 'j codec \<Rightarrow> 'j run_env \<Rightarrow> 'j main_tables \<Rightarrow> 'j mig_run result" where
  "runAvailableMigrations errText c renv db =
     res_bind
       (case getMigrationState c db of
          Inl e \<Rightarrow> if e = ErrorNotInitialized then Inr zero_MigrationState
                   else Inl (Wrap ''runAvailableMigrations() err'' e)
        | Inr state \<Rightarrow> Inr state) (\<lambda>state.
      if next_migration state < 0 then Inl index_panic
      else case MakeMigration (available_tasks c renv (nat (next_migration state))) of
             (Some e, _) \<Rightarrow> Inl e
           | (None, m) \<Rightarrow> Inr (m, runMigrations errText m (db, state)))"

text \<open>\<open>init\<close>: \<open>None\<close> is a database without tables. The result has the migration manager, the actions
  seen on the returned channel, and the database, which is \<open>None\<close> when a handler did not return.\<close>

definition new_tables :: "'j main_tables" where
  "new_tables =
     \<lparr>tbl_block_header = [], tbl_metastate = [], tbl_account = [], tbl_asset = [],
      tbl_account_asset = [], tbl_app = [], tbl_account_app = [], tbl_app_box = []\<rparr>"

definition init_db ::
  "(err \<Rightarrow> string) \<Rightarrow> 'j codec \<Rightarrow> 'j run_env \<Rightarrow> err option \<Rightarrow> 'j main_tables option \<Rightarrow>
   ('j mig_state Migration option \<times> action list \<times> 'j main_tables option) result" where
  "init_db errText c renv setup_err dbo =
     (case dbo of
        None \<Rightarrow>
          (case setup_err of
             Some _ \<Rightarrow> Inl (ErrMsg ''unable to setup postgres'')
           | None \<Rightarrow>
               (case markMigrationsAsDone c (stmt_err (renv 0)) new_tables of
                  (Inl _, _) \<Rightarrow> Inl (ErrMsg ''unable to confirm migration'')
                | (Inr _, db) \<Rightarrow> Inr (None, [CloseCh], Some db)))
      | Some db \<Rightarrow>
          res_bind (runAvailableMigrations errText c renv db) (\<lambda>(m, trace, r).
            Inr (Some (case r of None \<Rightarrow> m | Some (m', _) \<Rightarrow> m'), trace,
                 map_option (\<lambda>(m', (db, state)). db) r)))"

section \<open>Health\<close>

text \<open>The entries of the map \<open>data\<close> are fields; absent entries are \<open>None\<close>.\<close>

record idb_Health =
  data_read_only_mode :: "bool option"
  data_migration_status :: "string option"
  data_migration_required :: bool
  hl_Round :: uint64
  IsMigrating :: bool
  DBAvailable :: bool
  hl_Error :: string

definition Health ::
  "(err \<Rightarrow> string) \<Rightarrow> 'j codec \<Rightarrow> bool \<Rightarrow> 'j mig_state Migration option \<Rightarrow> 'j main_tables \<Rightarrow> idb_Health result" where
  "Health errText c readonly migration db =
     res_bind
       (case migration of
          Some m \<Rightarrow>
            (let state = GetStatus (Some m) in
             Inr (Running state, Running state, Blocking state,
                  case st_Err state of None \<Rightarrow> [] | Some e \<Rightarrow> errText e,
                  if st_Status state \<noteq> [] then Some (st_Status state) else None))
        | None \<Rightarrow>
            res_bind (getMigrationState c db) (\<lambda>state.
            res_bind (migrationStateBlocked state) (\<lambda>blocking.
              Inr (needsMigration state, False, blocking, [], None))))
       (\<lambda>(required, migrating, blocking, errString, status).
          case (case getMaxRoundAccounted c db of
                  Inl e \<Rightarrow> if e = ErrorNotInitialized then Inr 0 else Inl e
                | Inr rnd \<Rightarrow> Inr rnd) of
            Inl e \<Rightarrow> Inl e
          | Inr rnd \<Rightarrow>
              Inr \<lparr>data_read_only_mode = (if readonly then Some True else None), data_migration_status = status,
                   data_migration_required = required, hl_Round = rnd, IsMigrating = migrating,
                   DBAvailable = (\<not> blocking), hl_Error = errString\<rparr>)"

section \<open>Laws\<close>

lemma length_migrations [simp]: "length migrations = 20"
  by (simp add: migrations_def)

text \<open>The metastate of migrations survives storage.\<close>

definition migration_codec :: "'j codec \<Rightarrow> bool" where
  "migration_codec c \<longleftrightarrow> (\<forall>x. dec_MigrationState c (enc_MigrationState c x) = Inr x)"

definition honest_mig :: "'j mig_env \<Rightarrow> bool" where
  "honest_mig menv \<longleftrightarrow> (\<forall>n. honest_tx (mig_tx menv n))"

lemma getMigrationState_set:
  "migration_codec c \<Longrightarrow> getMigrationState c (setMigrationState c st db) = Inr st"
  by (simp add: getMigrationState_def setMigrationState_def GetMetastate_Set DecodeMigrationState_def
      EncodeMigrationState_def migration_codec_def result_simps)

text \<open>What a handler promises on a database whose stored state is the shared one: on success both have
  advanced by one; on failure the shared state is as it was, and the stored one is too unless the
  transaction had committed.\<close>

definition advances :: "'j codec \<Rightarrow> 'j handler \<Rightarrow> bool" where
  "advances c h \<longleftrightarrow>
     (\<forall>db st r db' st'. h (db, st) = Some (r, (db', st')) \<and> getMigrationState c db = Inr st \<longrightarrow>
        (case r of
           Inr _ \<Rightarrow> st' = st\<lparr>NextMigration := NextMigration st + 1\<rparr> \<and> getMigrationState c db' = Inr st'
         | Inl _ \<Rightarrow> st' = st \<and>
             (db' = db \<or> getMigrationState c db' = Inr (st\<lparr>NextMigration := NextMigration st + 1\<rparr>))))"

lemma tx_migration_advances:
  assumes "\<forall>n. honest_tx (tenv n)"
    and "\<And>db db'. f db = Some (Inr db') \<Longrightarrow> getMigrationState c db' = Inr next"
    and "tx_migration tenv msg f next (db, st) = Some (r, (db', st'))"
  shows "case r of
      Inr _ \<Rightarrow> st' = next \<and> getMigrationState c db' = Inr next
    | Inl _ \<Rightarrow> st' = st \<and> (db' = db \<or> getMigrationState c db' = Inr next)"
proof -
  from assms(3) obtain r0 db0 where t:
    "TxWithRetry tenv (\<lambda>_ db _. map_option (\<lambda>r. (r, ())) (f db)) 0 db () = Some (r0, db0, ())"
    and r: "(case r0 of Inl e \<Rightarrow> (Inl (Wrap msg e), (db0, st)) | Inr _ \<Rightarrow> (Inr (), (db0, next))) = (r, (db', st'))"
    by (auto simp: tx_migration_def)
  from TxWithRetry_outcome [where I = "\<lambda>_. True", OF t assms(1)] r assms(2)
  show ?thesis by (cases r0) (auto simp: retry_outcome_def)
qed

lemma sqlMigration_advances:
  assumes "migration_codec c" "honest_mig menv"
  shows "advances c (sqlMigration c menv cmds)"
  unfolding advances_def
proof clarify
  fix db st r db' st'
  assume a: "sqlMigration c menv cmds (db, st) = Some (r, (db', st'))"
  let ?n = "st\<lparr>NextMigration := NextMigration st + 1\<rparr>"
  have h: "\<forall>n. honest_tx (mig_tx menv n)" using assms(2) by (simp add: honest_mig_def)
  have f: "getMigrationState c db2 = Inr ?n"
    if "Some (res_bind (res_wrap ''migration exec cmd err'' (res_fold (exec_sql menv) cmds db1))
      (\<lambda>db. Inr (SetMetastate MigrationMetastateKey (EncodeMigrationState c ?n) db))) = Some (Inr db2)" for db1 db2
    using that getMigrationState_set [OF assms(1), unfolded setMigrationState_def]
    by (auto simp: res_bind_def split: sum.splits)
  from tx_migration_advances [OF h f a [unfolded sqlMigration_def Let_def prod.case]]
  show "case r of Inl _ \<Rightarrow> st' = st \<and> (db' = db \<or> getMigrationState c db' = Inr ?n)
    | Inr _ \<Rightarrow> st' = ?n \<and> getMigrationState c db' = Inr st'"
    by (auto split: sum.splits)
qed

lemma convertAccountData_advances:
  assumes "migration_codec c" "honest_mig menv"
  shows "advances c (convertAccountData c menv)"
  unfolding advances_def
proof clarify
  fix db st r db' st'
  assume a: "convertAccountData c menv (db, st) = Some (r, (db', st'))"
  let ?n = "st\<lparr>NextMigration := NextMigration st + 1\<rparr>"
  have h: "\<forall>n. honest_tx (mig_tx menv n)" using assms(2) by (simp add: honest_mig_def)
  have f: "getMigrationState c db2 = Inr ?n"
    if "map_option (\<lambda>r. res_bind (res_wrap ''convertAccountData() err'' r)
      (\<lambda>db. Inr (setMigrationState c ?n db))) (RunMigration c 10000 db1) = Some (Inr db2)" for db1 db2
    using that getMigrationState_set [OF assms(1)]
    by (auto simp: res_bind_def res_wrap_def split: sum.splits)
  from tx_migration_advances [OF h f a [unfolded convertAccountData_def Let_def prod.case]]
  show "case r of Inl _ \<Rightarrow> st' = st \<and> (db' = db \<or> getMigrationState c db' = Inr ?n)
    | Inr _ \<Rightarrow> st' = ?n \<and> getMigrationState c db' = Inr st'"
    by (auto split: sum.splits)
qed

lemma migrations_advance:
  assumes "migration_codec c" "honest_mig menv" "m \<in> set migrations"
  shows "advances c (migrate m c menv)"
  using assms(3) sqlMigration_advances [OF assms(1,2)] convertAccountData_advances [OF assms(1,2)]
  by (auto simp: migrations_def advances_def upgradeNotSupported_def dropTxnBytesColumn_def
      createAppBoxTable_def)

text \<open>The stored position after running the handlers from position \<open>k\<close>.\<close>

definition stored_at :: "'j codec \<Rightarrow> 'j main_tables \<Rightarrow> nat \<Rightarrow> bool" where
  "stored_at c db n \<longleftrightarrow> (\<exists>st. getMigrationState c db = Inr st \<and> NextMigration st = of_nat n)"

definition run_position :: "'j codec \<Rightarrow> nat \<Rightarrow> 'j mig_state Task option \<Rightarrow> 'j main_tables \<Rightarrow> bool" where
  "run_position c k failed db' \<longleftrightarrow>
     (case failed of
        None \<Rightarrow> stored_at c db' 20
      | Some t \<Rightarrow> \<exists>n. stored_at c db' n \<and> k \<le> n \<and> n \<le> 20 \<and>
          (MigrationID t = int n \<or> MigrationID t + 1 = int n \<or> MigrationID t = 9999999 \<and> n = 20))"

lemma run_position_mono: "run_position c (Suc k) failed db \<Longrightarrow> run_position c k failed db"
  by (force simp: run_position_def split: option.splits)

lemma run_handlers_position:
  assumes "migration_codec c" "\<forall>i. honest_mig (renv i)"
    and "run_handlers (map (migration_task c renv) (List.enumerate k ms) @ [done_task c renv]) (db, st) =
      Some (failed, e, (db', st'))"
    and "set ms \<subseteq> set migrations" "k + length ms = 20"
    and "getMigrationState c db = Inr st" "NextMigration st = of_nat k"
  shows "run_position c k failed db'"
  using assms(3-)
proof (induction ms arbitrary: k db st)
  case Nil
  have "getMigrationState c (SetMetastate MigrationMetastateKey (EncodeMigrationState c x) db) = Inr x" for x
    using getMigrationState_set [OF assms(1), of x db] by (simp add: setMigrationState_def)
  then have set: "stored_at c (SetMetastate MigrationMetastateKey (EncodeMigrationState c
      (zero_MigrationState\<lparr>NextMigration := 20\<rparr>)) db) 20"
    by (simp add: stored_at_def)
  have at: "stored_at c db 20" and k: "k = 20" using Nil.prems(3-5) by (simp_all add: stored_at_def)
  show ?case
  proof (cases "stmt_err (renv 9999999)")
    case None
    with Nil.prems(1) set show ?thesis
      by (auto simp: done_task_def markMigrationsAsDone_def run_position_def)
  next
    case (Some er)
    with Nil.prems(1) have "failed = Some (done_task c renv)" "db' = db"
      by (auto simp: done_task_def markMigrationsAsDone_def)
    with at k show ?thesis by (auto simp: run_position_def done_task_def)
  qed
next
  case (Cons m ms)
  let ?h = "migrate m c (renv (int k))"
  have adv: "advances c ?h"
    using migrations_advance [OF assms(1)] assms(2) Cons.prems(2) by auto
  from Cons.prems(1) obtain r db1 st1 where h: "?h (db, st) = Some (r, (db1, st1))"
    by (cases "?h (db, st)") auto
  note a = adv [unfolded advances_def, rule_format, OF conjI, OF h Cons.prems(4)]
  have k: "k < 20" using Cons.prems(3) by simp
  show ?case
  proof (cases r)
    case (Inl er)
    have f: "failed = Some (migration_task c renv (k, m))" "db' = db1"
      using Cons.prems(1) h Inl by auto
    from a Inl Cons.prems(4,5) have "stored_at c db1 k \<or> stored_at c db1 (Suc k)"
      by (auto simp: stored_at_def add.commute)
    then show ?thesis
    proof
      assume "stored_at c db1 k"
      then show ?thesis using k by (auto simp: run_position_def f intro!: exI [of _ k])
    next
      assume "stored_at c db1 (Suc k)"
      then show ?thesis using k by (auto simp: run_position_def f intro!: exI [of _ "Suc k"])
    qed
  next
    case (Inr u)
    have st1: "getMigrationState c db1 = Inr st1" "NextMigration st1 = of_nat (Suc k)"
      using a Inr Cons.prems(5) by auto
    have rest: "run_handlers (map (migration_task c renv) (List.enumerate (Suc k) ms) @ [done_task c renv]) (db1, st1) =
        Some (failed, e, (db', st'))"
      using Cons.prems(1) h Inr by simp
    show ?thesis
      by (rule run_position_mono, rule Cons.IH [OF rest])
        (use Cons.prems(2,3) st1 in \<open>auto simp del: of_nat_Suc\<close>)
  qed
qed

lemma sint_small: "n \<le> 20 \<Longrightarrow> sint (of_nat n :: 64 word) = int n"
  using int_word_sint [where 'a = 64, of "int n"] by simp

lemma next_migration_at:
  "0 \<le> next_migration st \<Longrightarrow> NextMigration st = of_nat (nat (next_migration st))"
proof -
  assume "0 \<le> next_migration st"
  then have "(of_nat (nat (next_migration st)) :: 64 word) = of_int (next_migration st)" by simp
  then show ?thesis by simp
qed

lemma map_enumerate_fst: "map (\<lambda>x. f (fst x)) (List.enumerate k xs) = map f [k..<k + length xs]"
  by (induction xs arbitrary: k) (simp_all add: upt_conv_Cons del: upt_Suc)

lemma available_tasks_ids:
  assumes "k \<le> 20"
  shows "map MigrationID (available_tasks c renv k) = map int [k..<20] @ (if k < 20 then [9999999] else [])"
proof -
  have "map MigrationID (map (migration_task c renv) (List.enumerate k (drop k migrations))) =
      map (\<lambda>x. int (fst x)) (List.enumerate k (drop k migrations :: 'a migrationStruct list))"
    by (auto simp: comp_def split_beta)
  then show ?thesis
    using assms by (auto simp: available_tasks_def Let_def done_task_def map_enumerate_fst)
qed

lemma available_tasks_lt:
  assumes "k < 20"
  shows "available_tasks c renv k =
    map (migration_task c renv) (List.enumerate k (drop k migrations)) @ [done_task c renv]"
proof -
  have "length (List.enumerate k (drop k (migrations :: 'a migrationStruct list))) = 20 - k" by simp
  then show ?thesis using assms unfolding available_tasks_def Let_def by (simp only: length_map) simp
qed

lemma MakeMigration_available:
  assumes "k \<le> 20"
  shows "\<exists>m. MakeMigration (available_tasks c renv k) = (None, m)"
proof -
  let ?ts = "available_tasks c renv k"
  have "sorted_wrt (<) (map int [k..<20])" by (simp add: sorted_wrt_map)
  then have "sorted_wrt (<) (map int [k..<20] @ (if k < 20 then [9999999] else []))"
    by (simp add: sorted_wrt_append)
  then have s: "sorted_wrt (<) (map MigrationID ?ts)" by (simp only: available_tasks_ids [OF assms])
  have "set (map MigrationID ?ts) \<subseteq> {0..}" unfolding available_tasks_ids [OF assms] by auto
  then have "\<forall>t \<in> set ?ts. 0 \<le> MigrationID t" by auto
  with s show ?thesis
    using setTasks_loop_spec [of "[]" 0 ?ts 0]
    by (auto simp: MakeMigration_def setTasks_def split: prod.splits option.splits)
qed

lemma run_status:
  assumes "runMigrations errText m s = (trace, Some (m', s'))"
  obtains failed e where "run_handlers (tasks m) s = Some (failed, e, s')"
    "st_Err (mig_state m') = map_option (\<lambda>t. taskErr t e) failed"
    "TaskID (mig_state m') = (case failed of None \<Rightarrow> -1 | Some t \<Rightarrow> MigrationID t)"
    "Blocking (mig_state m') \<longleftrightarrow> failed \<noteq> None"
proof -
  from assms obtain st where run: "run_tasks errText (blockUntil m) (tasks m) True (mig_state m) s = (trace, Some (st, s'))"
    and m': "m' = m\<lparr>mig_state := st\<rparr>"
    by (auto simp: runMigrations_def split: prod.splits)
  from run_tasks_result [of errText "blockUntil m" "tasks m" True "mig_state m" s] run
  obtain failed e where "run_handlers (tasks m) s = Some (failed, e, s')"
    "st = (case failed of
          None \<Rightarrow> \<lparr>st_Err = None, TaskID = -1, st_Status = StatusComplete, Running = False, Blocking = False\<rparr>
        | Some t \<Rightarrow> \<lparr>st_Err = Some (taskErr t e), TaskID = MigrationID t, st_Status = errText (taskErr t e),
                     Running = False, Blocking = True\<rparr>)"
    by (cases "run_handlers (tasks m) s") auto
  with m' show thesis using that [of failed e] by (cases failed) auto
qed


section \<open>Old, new and read-only databases\<close>

lemma unsupported_migrations:
  assumes "k < 17"
  shows "migrate (migrations ! k :: 'j migrationStruct) = (\<lambda>_ _. upgradeNotSupported)"
proof -
  have "\<forall>m \<in> set (take 17 (migrations :: 'j migrationStruct list)). migrate m = (\<lambda>_ _. upgradeNotSupported)"
    by (simp add: migrations_def)
  moreover have "take 17 migrations ! k \<in> set (take 17 (migrations :: 'j migrationStruct list))"
    using assms by (intro nth_mem) simp
  ultimately show ?thesis using assms by simp
qed

lemma last_migration: "m_blocking (migrations ! 19)"
  by (simp add: migrations_def)

lemma last_blocking_available:
  assumes "k < 20"
  shows "19 \<le> last_blocking (available_tasks c renv k) 0"
proof -
  let ?ts = "available_tasks c renv k"
  obtain m where m: "MakeMigration ?ts = (None, m)" using MakeMigration_available [of k] assms by auto
  have "(19, migrations ! 19) \<in> set (List.enumerate k (drop k migrations))"
    using assms by (auto simp: in_set_enumerate_eq)
  then have "migration_task c renv (19, migrations ! 19) \<in> set ?ts"
    unfolding available_tasks_lt [OF assms] by auto
  from blocking_before_last [OF MakeMigration_ok(2) [OF m] this, of 0] last_migration show ?thesis by simp
qed

lemma old_run:
  assumes "k < 17" "MakeMigration (available_tasks c renv k) = (None, m)"
  shows "\<exists>trace m'. runMigrations errText m s = (trace, Some (m', s)) \<and> CloseCh \<notin> set trace \<and>
    Blocking (mig_state m') \<and> st_Err (mig_state m') \<noteq> None"
proof -
  let ?t = "migration_task c renv (k, migrations ! k)"
  have k: "k < 20" using assms(1) by simp
  have "drop k migrations = migrations ! k # drop (Suc k) (migrations :: 'a migrationStruct list)"
    using k by (simp add: Cons_nth_drop_Suc)
  then obtain ts where ts: "available_tasks c renv k = ?t # ts"
    using available_tasks_lt [OF k, of c renv] by simp
  have h: "Handler ?t s = Some (Inl (ErrMsg ''upgrading from this version is not supported; create a new database''), s)"
    by (simp add: unsupported_migrations [OF assms(1)] upgradeNotSupported_def)
  have "\<not> MigrationID ?t > blockUntil m"
    using last_blocking_available [OF k, of c renv] assms(1) MakeMigration_ok(3) [OF assms(2)] by simp
  then show ?thesis
    by (simp add: runMigrations_def MakeMigration_ok(1) [OF assms(2)] ts h Let_def update_eq
        del: migration_task_simps)
qed

text \<open>A database without a migration state, or whose next migration is one of the unsupported ones,
  is refused and left exactly as it is: the run ends with an error, keeps blocking, and never closes
  the channel.\<close>

theorem old_database_refused:
  assumes "getMigrationState c db = Inl ErrorNotInitialized \<or>
    (\<exists>st. getMigrationState c db = Inr st \<and> 0 \<le> next_migration st \<and> next_migration st < 17)"
  shows "\<exists>m trace m' st. runAvailableMigrations errText c renv db = Inr (m, trace, Some (m', (db, st))) \<and>
    CloseCh \<notin> set trace \<and> Blocking (mig_state m') \<and> st_Err (mig_state m') \<noteq> None"
proof -
  obtain st where st: "0 \<le> next_migration st" "next_migration st < 17" and
    g: "getMigrationState c db = Inl ErrorNotInitialized \<and> st = zero_MigrationState \<or> getMigrationState c db = Inr st"
    using assms by (auto simp: zero_MigrationState_def)
  let ?k = "nat (next_migration st)"
  have k: "?k < 17" using st by simp
  obtain m where m: "MakeMigration (available_tasks c renv ?k) = (None, m)"
    using MakeMigration_available [of ?k c renv] k by auto
  have "runAvailableMigrations errText c renv db = Inr (m, runMigrations errText m (db, st))"
    using g st(1) m by (auto simp: runAvailableMigrations_def)
  with old_run [OF k m, of errText "(db, st)"] show ?thesis by auto
qed

theorem old_database_refused_witness:
  "\<exists>m trace m' st. runAvailableMigrations (\<lambda>_. ''failed'') example_codec
      (\<lambda>_. \<lparr>exec_sql = (\<lambda>_ db. Inr db), mig_tx = example_tx_env, stmt_err = None\<rparr>) empty_tables =
        Inr (m, trace, Some (m', (empty_tables, st))) \<and>
    CloseCh \<notin> set trace \<and> Blocking (mig_state m') \<and> st_Err (mig_state m') \<noteq> None"
  by (rule old_database_refused)
    (simp add: getMigrationState_def GetMetastate_def empty_tables_def)

lemma blocking_left: "list_ex m_blocking (drop k migrations) \<longleftrightarrow> k < 20"
proof (cases "k < 20")
  case True
  then have "drop k migrations ! (19 - k) \<in> set (drop k migrations)" by (intro nth_mem) simp
  then have "migrations ! 19 \<in> set (drop k migrations)" using True by simp
  with True show ?thesis using last_migration by (auto simp: list_ex_iff)
qed simp

lemma blocked_iff:
  assumes "0 \<le> next_migration st"
  shows "migrationStateBlocked st = Inr (needsMigration st)"
  using assms by (simp add: migrationStateBlocked_def needsMigration_def blocking_left nat_less_iff)

text \<open>Without a migration manager (a read-only connection) Health reports the database as available
  exactly when no migration is left, and reports the last accounted round, 0 before the first block.\<close>

theorem Health_without_manager:
  assumes "getMigrationState c db = Inr st" "0 \<le> next_migration st"
  shows "Health errText c readonly None db =
    (case getImportState c db of
       Inl e \<Rightarrow>
         if e = ErrorNotInitialized then
           Inr \<lparr>data_read_only_mode = (if readonly then Some True else None), data_migration_status = None,
             data_migration_required = needsMigration st, hl_Round = 0, IsMigrating = False,
             DBAvailable = (next_migration st \<ge> 20), hl_Error = []\<rparr>
         else Inl (Wrap ''getNextRoundToAccount() err'' e)
     | Inr is \<Rightarrow>
         Inr \<lparr>data_read_only_mode = (if readonly then Some True else None), data_migration_status = None,
           data_migration_required = needsMigration st,
           hl_Round = of_nat (unat (NextRoundToAccount is) - 1), IsMigrating = False,
           DBAvailable = (next_migration st \<ge> 20), hl_Error = []\<rparr>)"
proof -
  have r: "(if 0 < n then n - 1 else n) = of_nat (unat n - 1)" for n :: uint64
  proof (cases "n = 0")
    case False
    then have "1 \<le> unat n" by (simp add: unat_gt_0 Suc_leI)
    then have "(of_nat (unat n - 1) :: uint64) = of_nat (unat n) - of_nat 1" by (rule of_nat_diff)
    with False show ?thesis by (simp add: word_gt_0)
  qed simp
  show ?thesis
    using assms blocked_iff [OF assms(2)]
    by (simp add: Health_def getMaxRoundAccounted_def getNextRoundToAccount_def needsMigration_def
        result_simps r not_less split: sum.split)
qed

definition example_migration_tables :: "nat \<Rightarrow> document main_tables" where
  "example_migration_tables k =
     setMigrationState example_codec (zero_MigrationState\<lparr>NextMigration := of_nat k\<rparr>) empty_tables"

lemma example_migration_codec: "migration_codec example_codec"
  by (simp add: migration_codec_def example_codec_def)

lemma example_migration_state:
  "getMigrationState example_codec (example_migration_tables k) =
     Inr (zero_MigrationState\<lparr>NextMigration := of_nat k\<rparr>)"
  by (simp add: example_migration_tables_def getMigrationState_set [OF example_migration_codec])

theorem Health_without_manager_witness:
  "Health (\<lambda>_. []) example_codec True None (example_migration_tables 20) =
    Inr \<lparr>data_read_only_mode = Some True, data_migration_status = None, data_migration_required = False,
      hl_Round = 0, IsMigrating = False, DBAvailable = True, hl_Error = []\<rparr>"
proof -
  have "getImportState example_codec (example_migration_tables 20) = Inl ErrorNotInitialized"
    by (simp add: getImportState_def example_migration_tables_def setMigrationState_def GetMetastate_Set
        metastate_key_defs) (simp add: GetMetastate_def empty_tables_def)
  with Health_without_manager [OF example_migration_state [of 20], of "\<lambda>_. []" True] show ?thesis
    by (simp add: needsMigration_def)
qed

text \<open>Starting on an empty database creates it with no migration left and closes the channel at once;
  the next start on it runs no migration, changes nothing, and makes it available immediately.\<close>

theorem init_db_new:
  assumes "migration_codec c" "stmt_err (renv 0) = None"
  shows "\<exists>db m. init_db errText c renv None None = Inr (None, [CloseCh], Some db) \<and>
    init_db errText c renv' None (Some db) = Inr (Some m, [Updated (mig_state m), CloseCh], Some db) \<and>
    st_Err (mig_state m) = None \<and> \<not> Blocking (mig_state m)"
proof -
  let ?st = "zero_MigrationState\<lparr>NextMigration := 20\<rparr>"
  let ?db = "setMigrationState c ?st new_tables"
  obtain m where m: "MakeMigration (available_tasks c renv' 20) = (None, m)"
    using MakeMigration_available [of 20 c renv'] by auto
  have "available_tasks c renv' 20 = []" by (simp add: available_tasks_def)
  with MakeMigration_ok(1) [OF m] have tasks: "tasks m = []" by simp
  have "runAvailableMigrations errText c renv' ?db = Inr (m, runMigrations errText m (?db, ?st))"
    using m by (simp add: runAvailableMigrations_def getMigrationState_set [OF assms(1)])
  moreover have "init_db errText c renv None None = Inr (None, [CloseCh], Some ?db)"
    using assms(2) by (simp add: init_db_def markMigrationsAsDone_def setMigrationState_def)
  ultimately show ?thesis
    by (simp add: init_db_def runMigrations_def tasks Let_def update_eq)
qed

definition example_run_env :: "document run_env" where
  "example_run_env =
     (\<lambda>_. \<lparr>exec_sql = (\<lambda>_ db. Inr db), mig_tx = (\<lambda>_. quiet_tx), stmt_err = None\<rparr>)"

theorem init_db_new_witness:
  "\<exists>db m. init_db (\<lambda>_. []) example_codec example_run_env None None = Inr (None, [CloseCh], Some db) \<and>
    init_db (\<lambda>_. []) example_codec example_run_env None (Some db) =
      Inr (Some m, [Updated (mig_state m), CloseCh], Some db) \<and>
    st_Err (mig_state m) = None \<and> \<not> Blocking (mig_state m)"
  by (rule init_db_new [OF example_migration_codec]) (simp add: example_run_env_def)


end
