(* ===== verification/TxnHandlers.thy ===== *)
theory TxnHandlers
  imports ResourceHandlers Render PgMigrations
begin

text \<open>
  The endpoints for transactions, blocks and the health of the server (\<^verbatim>\<open>api/handlers.go\<close>): fetching rows
  and rendering them, the tokens of the pages, and the handlers around them.
\<close>

definition errTransactionSearch :: string where "errTransactionSearch = ''error while searching for transaction''"
definition errBlockHeaderSearch :: string where "errBlockHeaderSearch = ''error while searching for block headers''"
definition errLookingUpBlockForRound :: string where "errLookingUpBlockForRound = ''error while looking up block for round''"
definition errTransactionsLimitReached :: string where
  "errTransactionsLimitReached = ''Max transactions limit exceeded. header-only flag should be enabled''"
definition errNoTransactionFound :: string where "errNoTransactionFound = ''no transaction found for transaction id''"
definition errMultipleTransactions :: string where
  "errMultipleTransactions = ''multiple transactions found for this txid, please contact us, this shouldn't happen''"
definition errFailedLookingUpHealth :: string where "errFailedLookingUpHealth = ''failed while getting indexer health''"

section \<open>Transactions\<close>

definition txn_id :: "model_Transaction \<Rightarrow> string" where
  "txn_id tx = the (mt_Id (transaction_fields tx))"

text \<open>The loop over the rows: the transactions so far, the identifiers that were seen, and the row of the
  last transaction that was added. A transaction that was seen is left out, unless inner transactions
  are returned as they are.\<close>

fun transactions_loop ::
  "(TxnRow \<Rightarrow> model_Transaction result) \<Rightarrow> bool \<Rightarrow> TxnRow list \<Rightarrow> string set \<Rightarrow> model_Transaction list \<Rightarrow> TxnRow option \<Rightarrow>
   (model_Transaction list \<times> TxnRow option) result" where
  "transactions_loop render skipConversion [] seen results lastTxrow = Inr (results, lastTxrow)"
| "transactions_loop render skipConversion (txrow # rows) seen results lastTxrow =
     res_bind (render txrow) (\<lambda>tx.
       if txn_id tx \<in> seen \<and> \<not> skipConversion then transactions_loop render skipConversion rows seen results lastTxrow
       else transactions_loop render skipConversion rows (insert (txn_id tx) seen) (results @ [tx]) (Some txrow))"

definition render_row :: "'j api_env \<Rightarrow> TxnRow \<Rightarrow> model_Transaction result" where
  "render_row si = txnRowToTransaction (si_sdk si) (IsPrint (si_codec si))"

definition fetchTransactions :: "'j api_env \<Rightarrow> TransactionFilter \<Rightarrow> (model_Transaction list \<times> string \<times> uint64) result" where
  "fetchTransactions si tf =
     (case Transactions (si_sql si) (si_query si) (si_codec si) (si_tables si) (si_txns si) tf of
        (txchan, rnd) \<Rightarrow>
          res_bind (callWithTimeout (si_call si)
            (res_bind (transactions_loop (render_row si) (tf_SkipInnerTransactionConversion tf) txchan {} [] None)
               (\<lambda>(results, lastTxrow).
                  if length results = 0 then Inr (results, [])
                  else res_bind (TxnRow_Next (the lastTxrow) (tf_Address tf = None)) (\<lambda>nextToken. Inr (results, nextToken)))))
            (\<lambda>(results, nextToken). Inr (results, nextToken, rnd)))"

definition SearchForTransactions ::
  "'j api_env \<Rightarrow> request \<Rightarrow> SearchForTransactionsParams \<Rightarrow> http_error + model_Transaction page_response" where
  "SearchForTransactions si ctx params =
     http_bind (verifyHandler si ''SearchForTransactions'' ctx) (\<lambda>_.
     http_bind (SearchForTransactions_filter (si_sdk si) (si_opts si) params) (\<lambda>tf.
     http_bind (indexer_result errTransactionSearch (fetchTransactions si tf)) (\<lambda>(txns, nextToken, rnd).
     Inr \<lparr>pr_CurrentRound = rnd, pr_NextToken = strPtr nextToken, pr_Items = txns\<rparr>)))"

definition LookupAccountTransactions ::
  "'j api_env \<Rightarrow> request \<Rightarrow> string \<Rightarrow> LookupAccountTransactionsParams \<Rightarrow> http_error + model_Transaction page_response" where
  "LookupAccountTransactions si ctx accountID params =
     http_bind (verifyHandler si ''LookupAccountTransactions'' ctx) (\<lambda>_.
     http_bind (http_guard (exceeds (lat_AssetId params) \<or> exceeds (lat_Round params)) (NotFound errValueExceedingInt64)) (\<lambda>_.
     case DecodeAddress (si_sdk si) accountID of
       Inl _ \<Rightarrow> Inl (BadRequest errUnableToParseAddress)
     | Inr _ \<Rightarrow> SearchForTransactions si ctx (account_transaction_params accountID params)))"

definition LookupAssetTransactions ::
  "'j api_env \<Rightarrow> request \<Rightarrow> uint64 \<Rightarrow> LookupAssetTransactionsParams \<Rightarrow> http_error + model_Transaction page_response" where
  "LookupAssetTransactions si ctx assetID params =
     http_bind (verifyHandler si ''LookupAssetTransactions'' ctx) (\<lambda>_.
     http_bind (http_guard (assetID > MaxInt64 \<or> exceeds (lst_Round params)) (NotFound errValueExceedingInt64)) (\<lambda>_.
     SearchForTransactions si ctx (asset_transaction_params assetID params)))"

definition LookupTransaction :: "'j api_env \<Rightarrow> request \<Rightarrow> string \<Rightarrow> http_error + model_Transaction \<times> uint64" where
  "LookupTransaction si ctx txid =
     http_bind (verifyHandler si ''LookupTransaction'' ctx) (\<lambda>_.
     http_bind (LookupTransaction_filter (si_sdk si) (si_opts si) txid) (\<lambda>tf.
     http_bind (indexer_result errTransactionSearch (fetchTransactions si tf)) (\<lambda>(txns, _, rnd).
     http_bind (single errNoTransactionFound errMultipleTransactions txns) (\<lambda>txn. Inr (txn, rnd)))))"

definition log_data :: "model_Transaction list \<Rightarrow> ApplicationLogData list" where
  "log_data txns =
     concat (map (\<lambda>txn.
       case mt_Logs (transaction_fields txn) of
         None \<Rightarrow> []
       | Some logs \<Rightarrow> if length logs > 0 then [\<lparr>mld_Logs = logs, mld_Txid = txn_id txn\<rparr>] else []) txns)"

definition LookupApplicationLogsByID ::
  "'j api_env \<Rightarrow> request \<Rightarrow> uint64 \<Rightarrow> LookupApplicationLogsByIDParams \<Rightarrow> http_error + ApplicationLogsResponse" where
  "LookupApplicationLogsByID si ctx applicationID params =
     http_bind (verifyHandler si ''LookupApplicationLogsByID'' ctx) (\<lambda>_.
     http_bind (LookupApplicationLogsByID_filter (si_sdk si) (si_opts si) applicationID params) (\<lambda>tf.
     http_bind (indexer_result errTransactionSearch (fetchTransactions si tf)) (\<lambda>(txns, nextToken, rnd).
     Inr \<lparr>lgr_ApplicationId = applicationID, lgr_CurrentRound = rnd,
          lgr_LogData = (if length (log_data txns) > 0 then Some (log_data txns) else None),
          lgr_NextToken = strPtr nextToken\<rparr>)))"

section \<open>Blocks\<close>

fun headers_loop ::
  "sdk \<Rightarrow> BlockRow list \<Rightarrow> model_Block list \<Rightarrow> BlockRow option \<Rightarrow> (model_Block list \<times> BlockRow option) result" where
  "headers_loop env [] results lastRow = Inr (results, lastRow)"
| "headers_loop env (row # rows) results lastRow =
     (case br_Error row of
        Some e \<Rightarrow> Inl e
      | None \<Rightarrow>
          res_bind (hdrRowToBlock env (br_BlockHeader row)) (\<lambda>block.
            headers_loop env rows (results @ [block]) (Some row)))"

definition fetchBlockHeaders :: "'j api_env \<Rightarrow> BlockHeaderFilter \<Rightarrow> (model_Block list \<times> string \<times> uint64) result" where
  "fetchBlockHeaders si bf =
     (case BlockHeaders (si_sdk si) (si_headers si) (si_query si) (si_codec si) (si_tables si) bf of
        (rows, rnd) \<Rightarrow>
          res_bind (callWithTimeout (si_call si)
            (res_bind (headers_loop (si_sdk si) rows [] None) (\<lambda>(results, lastRow).
               if length results = 0 then Inr (results, [])
               else res_bind (BlockRow_Next (the lastRow)) (\<lambda>nextToken. Inr (results, nextToken)))))
            (\<lambda>(results, nextToken). Inr (results, nextToken, rnd)))"

definition SearchForBlockHeaders ::
  "'j api_env \<Rightarrow> request \<Rightarrow> SearchForBlockHeadersParams \<Rightarrow> http_error + model_Block page_response" where
  "SearchForBlockHeaders si ctx params =
     http_bind (verifyHandler si ''SearchForBlockHeaders'' ctx) (\<lambda>_.
     http_bind (SearchForBlockHeaders_filter (si_sdk si) (si_opts si) params) (\<lambda>tf.
     http_bind (indexer_result errBlockHeaderSearch (fetchBlockHeaders si tf)) (\<lambda>(blocks, nextToken, rnd).
     Inr \<lparr>pr_CurrentRound = rnd, pr_NextToken = strPtr nextToken, pr_Items = blocks\<rparr>)))"

text \<open>\<open>fetchBlock\<close> repeats the code of \<open>hdrRowToBlock\<close> for the header.\<close>

definition fetchBlock :: "'j api_env \<Rightarrow> uint64 \<Rightarrow> GetBlockOptions \<Rightarrow> model_Block result" where
  "fetchBlock si rnd options =
     callWithTimeout (si_call si)
       (res_bind (GetBlock (si_sql si) (si_query si) (si_codec si) (si_tables si) (si_txns si) rnd options)
          (\<lambda>(blockHeader, transactions).
             res_bind (hdrRowToBlock (si_sdk si) blockHeader) (\<lambda>ret.
             res_bind (res_map (render_row si) transactions) (\<lambda>results.
             Inr (ret\<lparr>mb_Transactions := Some results\<rparr>)))))"

definition LookupBlock :: "'j api_env \<Rightarrow> request \<Rightarrow> uint64 \<Rightarrow> bool option \<Rightarrow> http_error + model_Block" where
  "LookupBlock si ctx roundNumber headerOnly =
     http_bind (verifyHandler si ''LookupBlock'' ctx) (\<lambda>_.
     http_bind (http_guard (roundNumber > MaxInt64) (NotFound errValueExceedingInt64)) (\<lambda>_.
     case fetchBlock si roundNumber
       \<lparr>gbo_Transactions = (\<not> boolOrDefault headerOnly), MaxTransactionsLimit = eo_MaxTransactionsLimit (si_opts si)\<rparr> of
       Inl e \<Rightarrow>
         if err_cause e = MaxTransactionsError then Inl (BadRequest errTransactionsLimitReached)
         else if errors_Is e ErrorBlockNotFound then Inl (NotFound errLookingUpBlockForRound)
         else Inl (indexerError (Wrap errLookingUpBlockForRound e))
     | Inr blk \<Rightarrow> Inr blk))"

section \<open>Health\<close>

record HealthCheck =
  hc_Data :: "bool option \<times> string option \<times> bool"
  hc_DbAvailable :: bool
  hc_Errors :: "string list option"
  hc_IsMigrating :: bool
  hc_Message :: string
  hc_Round :: uint64
  hc_Version :: string

text \<open>The data of the health are its read-only mode, migration status and whether a migration is required;
  \<open>dataError\<close> is the server's function for errors of the import, if it has one. The text of an error and
  the version are parameters.\<close>

definition MakeHealthCheck ::
  "(err \<Rightarrow> string) \<Rightarrow> string \<Rightarrow> 'j api_env \<Rightarrow> bool \<Rightarrow> 'j mig_state Migration option \<Rightarrow> err option option \<Rightarrow> http_error + HealthCheck" where
  "MakeHealthCheck errText version si readonly migration dataError =
     http_bind (indexer_result errFailedLookingUpHealth
       (callWithTimeout (si_call si) (Health errText (si_codec si) readonly migration (si_tables si)))) (\<lambda>health.
     let errors = (if hl_Error health \<noteq> [] then [''database error: '' @ hl_Error health] else []) @
           (case dataError of Some (Some e) \<Rightarrow> [''data error: '' @ errText e] | _ \<Rightarrow> []) in
     Inr \<lparr>hc_Data = (data_read_only_mode health, data_migration_status health, data_migration_required health),
          hc_DbAvailable = DBAvailable health, hc_Errors = strArrayPtr errors, hc_IsMigrating = IsMigrating health,
          hc_Message = FormatUint (hl_Round health), hc_Round = hl_Round health, hc_Version = version\<rparr>)"

end
