(* ===== verification/RenderLaws.thy ===== *)
theory RenderLaws
  imports Render WriteTxnLaws
begin

text \<open>
  What rendering promises: a transaction is shown with exactly the part of its type, inner transactions
  in the order of the call tree; which transactions and block headers cannot be shown; what changes
  when a transaction is shown because one of its inner transactions was found.
\<close>

section \<open>Indices\<close>

lemma sint_of_unat: "sint (x :: uint64) = (if unat x < 2 ^ 63 then int (unat x) else int (unat x) - 2 ^ 64)"
proof -
  define n where "n = uint x"
  define h where "h = (2 :: int) ^ 63"
  have s: "sint x = (n + h) mod (2 * h) - h" using int_word_sint [of "uint x", where 'a = 64] by (simp add: n_def h_def)
  have b: "0 \<le> n" "n < 2 * h" using uint_lt2p [of x] by (simp_all add: n_def h_def)
  have u: "int (unat x) = n" by (simp add: n_def)
  have c: "unat x < 2 ^ 63 \<longleftrightarrow> n < h" unfolding u [symmetric] h_def by (metis of_nat_less_iff of_nat_numeral of_nat_power)
  have "(n + h) mod (2 * h) = (if n < h then n + h else n - h)"
  proof (cases "n < h")
    case True
    then show ?thesis using b by (simp add: mod_pos_pos_trivial)
  next
    case False
    then have "(n + h) mod (2 * h) = (n + h - 2 * h) mod (2 * h)" using b by (intro mod_pos_geq) linarith+
    also have "\<dots> = n - h" using b False by (simp add: mod_pos_pos_trivial)
    finally show ?thesis using False by simp
  qed
  with s c u show ?thesis by (simp add: h_def)
qed

lemma unat_pred: "x \<noteq> 0 \<Longrightarrow> unat (x - 1 :: uint64) = unat x - 1"
  by (metis unat_minus_one)

text \<open>An index into \<open>n\<close> accounts and \<open>m\<close> shared ones, 0 being the sender, and an index that a reference
  may have into \<open>n\<close> elements: those above \<open>2 ^ 63\<close> panic.\<close>

definition index_ok :: "nat \<Rightarrow> nat \<Rightarrow> uint64 \<Rightarrow> bool" where
  "index_ok n m index \<longleftrightarrow> unat index \<le> n \<or> unat index \<le> n + m \<and> unat index \<le> 2 ^ 63"

definition reference_ok :: "nat \<Rightarrow> uint64 \<Rightarrow> bool" where
  "reference_ok n index \<longleftrightarrow> unat index \<le> n \<or> unat index \<le> 2 ^ 63"

lemma index_pred:
  fixes index :: uint64
  assumes "index \<noteq> 0"
  obtains u where "unat index = Suc u" "unat (index - 1) = u" "u < 2 ^ 64"
    "sint (index - 1) = (if u < 2 ^ 63 then int u else int u - 2 ^ 64)"
proof -
  have "unat index \<noteq> 0" using assms by (simp add: unat_eq_0)
  then have "unat index = Suc (unat (index - 1))" using unat_pred [OF assms] by simp
  moreover have "unat (index - 1) < 2 ^ 64" using unsigned_less [of "index - 1", where ?'a = nat] by simp
  ultimately show thesis by (intro that) (simp_all only: sint_of_unat)
qed

lemma edIndexToAddress_ok:
  "isl (edIndexToAddress index txn shared) \<longleftrightarrow>
     \<not> index_ok (length (Accounts (ApplicationCallTxnFields txn))) (length shared) index"
proof (cases "index = 0")
  case False
  then obtain u where u: "unat index = Suc u" "unat (index - 1) = u" "u < 2 ^ 64"
    "sint (index - 1) = (if u < 2 ^ 63 then int u else int u - 2 ^ 64)"
    by (rule index_pred)
  define n m where "n = length (Accounts (ApplicationCallTxnFields txn))" and "m = length shared"
  show ?thesis
    unfolding edIndexToAddress_def index_ok_def Let_def u n_def [symmetric] m_def [symmetric]
    using False u(3) by (cases "u < 2 ^ 63"; cases "u < n") auto
qed (simp add: edIndexToAddress_def index_ok_def)

lemma referenced_ok:
  assumes "index \<noteq> 0"
  shows "isl (referenced xs index) \<longleftrightarrow> \<not> reference_ok (length xs) index"
proof -
  obtain u where u: "unat index = Suc u" "unat (index - 1) = u" "u < 2 ^ 64"
    "sint (index - 1) = (if u < 2 ^ 63 then int u else int u - 2 ^ 64)"
    by (rule index_pred [OF assms])
  show ?thesis
    unfolding referenced_def reference_ok_def u using u(3) by (cases "u < 2 ^ 63"; cases "u < length xs") auto
qed

section \<open>Application calls\<close>

lemma isl_res_bind: "isl (res_bind r f) \<longleftrightarrow> isl r \<or> isl (f (projr r))"
  by (cases r) (simp_all add: res_bind_def)

lemma isl_res_map: "isl (res_map f xs) \<longleftrightarrow> list_ex (\<lambda>x. isl (f x)) xs"
  by (induction xs) (auto simp: isl_res_bind)

text \<open>An application call whose references do not panic, with the cases of the code.\<close>

definition access_ok :: "nat \<Rightarrow> ResourceRef \<Rightarrow> bool" where
  "access_ok n v \<longleftrightarrow>
     (if rref_Address v \<noteq> zero_Address \<or> rref_App v \<noteq> 0 \<or> rref_Asset v \<noteq> 0 then True
      else if href_Asset (rref_Holding v) \<noteq> 0
      then reference_ok n (href_Address (rref_Holding v)) \<and> reference_ok n (href_Asset (rref_Holding v))
      else if lref_Address (rref_Locals v) \<noteq> 0 \<or> lref_App (rref_Locals v) \<noteq> 0
      then reference_ok n (lref_Address (rref_Locals v)) \<and> reference_ok n (lref_App (rref_Locals v))
      else reference_ok n (ForeignAppIdx (rref_Box v)))"

definition call_ok :: "ApplicationCallTxnFields \<Rightarrow> bool" where
  "call_ok a \<longleftrightarrow>
     list_all (\<lambda>b. reference_ok (length (ForeignApps a)) (ForeignAppIdx b)) (BoxReferences a) \<and>
     list_all (access_ok (length (Access a))) (Access a)"

lemma reference_ok_0 [simp]: "reference_ok n 0"
  by (simp add: reference_ok_def)

lemma referenced_parts_ok:
  fixes txn defines "n \<equiv> length (Access (ApplicationCallTxnFields txn))"
  shows "isl (referenced_address txn index) \<longleftrightarrow> \<not> reference_ok n index"
    "isl (referenced_app txn index) \<longleftrightarrow> \<not> reference_ok n index"
    "index \<noteq> 0 \<Longrightarrow> isl (referenced_asset txn index) \<longleftrightarrow> \<not> reference_ok n index"
  unfolding n_def referenced_address_def referenced_app_def referenced_asset_def
  by (auto simp: isl_res_bind referenced_ok)

lemma application_model_ok: "isl (application_model env txn) \<longleftrightarrow> \<not> call_ok (ApplicationCallTxnFields txn)"
proof -
  let ?a = "ApplicationCallTxnFields txn"
  have "isl (box_reference apps b) \<longleftrightarrow> \<not> reference_ok (length apps) (ForeignAppIdx b)" for apps b
    by (auto simp: box_reference_def isl_res_bind referenced_ok)
  moreover have "isl (access_model env txn v) \<longleftrightarrow> \<not> access_ok (length (Access ?a)) v" for v
    by (auto simp: access_model_def access_ok_def isl_res_bind referenced_parts_ok)
  ultimately show ?thesis
    by (auto simp: application_model_def call_ok_def Let_def isl_res_bind isl_res_map list_ex_iff list_all_iff)
qed

section \<open>Transactions\<close>

text \<open>A transaction that can be shown: the references of its call do not panic and the accounts of its local
  deltas exist.\<close>

definition renderable :: "SignedTxnWithAD \<Rightarrow> bool" where
  "renderable s \<longleftrightarrow>
     (txn_Type (stxn_Txn s) = ApplicationCallTx \<longrightarrow> call_ok (ApplicationCallTxnFields (stxn_Txn s))) \<and>
     fBall (fmdom (LocalDeltas (EvalDelta (ApplyData s))))
       (index_ok (length (Accounts (ApplicationCallTxnFields (stxn_Txn s)))) (length (SharedAccts (EvalDelta (ApplyData s)))))"

lemma application_part_ok:
  "isl (application_part env txn) \<longleftrightarrow>
     txn_Type txn = ApplicationCallTx \<and> \<not> call_ok (ApplicationCallTxnFields txn)"
  by (auto simp: application_part_def isl_res_bind application_model_ok)

lemma set_sorted_list_of_fmap: "fst ` set (sorted_list_of_fmap m) = fset (fmdom m)"
  by (force simp: sorted_list_of_fmap_def)

lemma local_deltas_ok:
  "isl (local_deltas env txn shared deltas) \<longleftrightarrow>
     \<not> fBall (fmdom deltas) (index_ok (length (Accounts (ApplicationCallTxnFields txn))) (length shared))"
proof -
  let ?ok = "index_ok (length (Accounts (ApplicationCallTxnFields txn))) (length shared)"
  have "isl (local_deltas env txn shared deltas) \<longleftrightarrow> list_ex (\<lambda>(k, v). \<not> ?ok k) (sorted_list_of_fmap deltas)"
    by (auto simp: local_deltas_def isl_res_bind isl_res_map list_ex_iff edIndexToAddress_ok sorted_list_of_fmap_def)
  also have "\<dots> \<longleftrightarrow> (\<exists>k \<in> fst ` set (sorted_list_of_fmap deltas). \<not> ?ok k)" by (force simp: list_ex_iff)
  finally show ?thesis by (simp add: set_sorted_list_of_fmap)
qed

text \<open>The transactions of a response, each before its inner transactions.\<close>

primrec flatten :: "model_Transaction \<Rightarrow> transaction_fields list" where
  "flatten (MkTransaction f inner) =
     f # (case map_option (map flatten) inner of None \<Rightarrow> [] | Some fss \<Rightarrow> concat fss)"

text \<open>Which parts a transaction has; exactly the one of its type.\<close>

definition parts :: "transaction_fields \<Rightarrow> string list" where
  "parts f = map fst (filter snd
     [(PaymentTx, mt_PaymentTransaction f \<noteq> None), (KeyRegistrationTx, mt_KeyregTransaction f \<noteq> None),
      (AssetConfigTx, mt_AssetConfigTransaction f \<noteq> None), (AssetTransferTx, mt_AssetTransferTransaction f \<noteq> None),
      (AssetFreezeTx, mt_AssetFreezeTransaction f \<noteq> None), (ApplicationCallTx, mt_ApplicationTransaction f \<noteq> None),
      (StateProofTx, mt_StateProofTransaction f \<noteq> None), (HeartbeatTx, mt_HeartbeatTransaction f \<noteq> None)])"

definition tx_types :: "string list" where
  "tx_types = [PaymentTx, KeyRegistrationTx, AssetConfigTx, AssetTransferTx, AssetFreezeTx, ApplicationCallTx, StateProofTx, HeartbeatTx]"

text \<open>The response for a transaction \<open>s\<close> that created \<open>newID\<close>, if it created something.\<close>

definition renders :: "sdk \<Rightarrow> SignedTxnWithAD \<Rightarrow> uint64 \<Rightarrow> transaction_fields \<Rightarrow> bool" where
  "renders env s newID f \<longleftrightarrow>
     (let txn = stxn_Txn s; type = txn_Type txn in
      mt_TxType f = type \<and> parts f = (if type \<in> set tx_types then [type] else []) \<and>
      mt_Sender f = AddressString env (Sender (Header txn)) \<and> mt_Fee f = Fee (Header txn) \<and>
      mt_Logs f = (if Logs (EvalDelta (ApplyData s)) = [] then None else Some (Logs (EvalDelta (ApplyData s)))) \<and>
      mt_CreatedAssetIndex f = (if type = AssetConfigTx \<and> ConfigAsset (AssetConfigTxnFields txn) = 0 then Some newID else None) \<and>
      mt_CreatedApplicationIndex f =
        (if type = ApplicationCallTx \<and> ApplicationID (ApplicationCallTxnFields txn) = 0 then Some newID else None))"

definition created_id :: "SignedTxnWithAD \<Rightarrow> uint64" where
  "created_id s =
     (if txn_Type (stxn_Txn s) = ApplicationCallTx then ad_ApplicationID (ApplyData s)
      else if txn_Type (stxn_Txn s) = AssetConfigTx then ad_ConfigAsset (ApplyData s) else 0)"

lemma application_part_Inr:
  assumes "application_part env txn = Inr a"
  shows "(a \<noteq> None \<longleftrightarrow> txn_Type txn = ApplicationCallTx) \<and>
    (\<forall>x. a = Some x \<longrightarrow> mta_ApplicationId x = ApplicationID (ApplicationCallTxnFields txn))"
  using assms by (auto simp: application_part_def application_model_def Let_def result_simps split: if_splits)

lemma transaction_model_renders:
  assumes "application_part env (stxn_Txn s) = Inr a"
  shows "renders env s (rd_AssetID extra) (transaction_model env isPrint s extra a d)"
  using application_part_Inr [OF assms]
  by (cases a) (auto simp: renders_def transaction_model_def parts_def tx_types_def Let_def TxType_defs)

text \<open>What rendering one transaction, and a list of inner ones, gives.\<close>

definition rendered :: "sdk \<Rightarrow> SignedTxnWithAD \<Rightarrow> uint64 \<Rightarrow> model_Transaction result \<Rightarrow> bool" where
  "rendered env s newID r \<longleftrightarrow>
     (case r of
        Inl _ \<Rightarrow> \<not> list_all renderable (s # descendants s)
      | Inr t \<Rightarrow> list_all renderable (s # descendants s) \<and>
          (\<exists>f fs. flatten t = f # fs \<and> renders env s newID f \<and> list_all2 (\<lambda>d. renders env d (created_id d)) (descendants s) fs))"

definition rendered_inners :: "sdk \<Rightarrow> SignedTxnWithAD list \<Rightarrow> model_Transaction list result \<Rightarrow> bool" where
  "rendered_inners env its r \<longleftrightarrow>
     (case r of
        Inl _ \<Rightarrow> \<not> list_all renderable (descendants_of its)
      | Inr ts \<Rightarrow> list_all renderable (descendants_of its) \<and>
          list_all2 (\<lambda>d. renders env d (created_id d)) (descendants_of its) (concat (map flatten ts)))"

lemma isl_cases: "(case r of Inl _ \<Rightarrow> A | Inr x \<Rightarrow> B x) = (if isl r then A else B (projr r))"
  by (cases r) simp_all

lemma render_transaction:
  "rendered env s (rd_AssetID extra) (signedTxnWithAdToTransaction env isPrint s extra)"
  "rendered_inners env its (inner_transactions env isPrint its extra)"
proof (induction env isPrint s extra and env isPrint its extra rule: signedTxnWithAdToTransaction_inner_transactions.induct)
  case (1 env isPrint st ca aca sr rr cr gd ld sa lg its cfg app extra)
  define s where "s = MkSignedTxnWithAD st (MkApplyData ca aca sr rr cr (MkEvalDelta gd ld sa lg its) cfg app)"
  have sel: "stxn_Txn s = Txn st" "LocalDeltas (EvalDelta (ApplyData s)) = ld" "SharedAccts (EvalDelta (ApplyData s)) = sa"
    "descendants s = descendants_of its"
    by (simp_all add: s_def)
  have ok: "renderable s \<longleftrightarrow> \<not> isl (application_part env (Txn st)) \<and> \<not> isl (local_deltas env (Txn st) sa ld)"
    by (auto simp: renderable_def sel application_part_ok local_deltas_ok)
  have r: "signedTxnWithAdToTransaction env isPrint s extra =
      res_bind (application_part env (Txn st)) (\<lambda>a. res_bind (local_deltas env (Txn st) sa ld) (\<lambda>d.
      res_bind (inner_transactions env isPrint its extra) (\<lambda>ts.
      Inr (MkTransaction (transaction_model env isPrint s extra a d) (if length its > 0 then Some ts else None)))))"
    unfolding s_def by (rule signedTxnWithAdToTransaction.simps)
  show ?case
  proof (cases "application_part env (Txn st)")
    case (Inl e)
    then show ?thesis using ok unfolding s_def [symmetric] r by (simp add: rendered_def res_bind_def)
  next
    case a: (Inr a)
    show ?thesis
    proof (cases "local_deltas env (Txn st) sa ld")
      case (Inl e)
      then show ?thesis using ok unfolding s_def [symmetric] r by (simp add: rendered_def res_bind_def a)
    next
      case d: (Inr d)
      have ih: "rendered_inners env its (inner_transactions env isPrint its extra)" using "1.IH" a d by blast
      have m: "renders env s (rd_AssetID extra) (transaction_model env isPrint s extra a d)"
        by (rule transaction_model_renders) (simp add: sel a)
      show ?thesis
        using ih ok m unfolding s_def [symmetric] r
        by (cases "inner_transactions env isPrint its extra"; cases its)
          (auto simp: rendered_def rendered_inners_def res_bind_def a d sel)
    qed
  qed
next
  case (2 env isPrint extra)
  then show ?case by (simp add: rendered_inners_def)
next
  case (3 env isPrint t ts extra)
  have id: "rd_AssetID (inner_extra t extra) = created_id t" by (simp add: inner_extra_def created_id_def)
  show ?case
  proof (cases "signedTxnWithAdToTransaction env isPrint t (inner_extra t extra)")
    case (Inl e)
    then show ?thesis using "3.IH"(1) by (auto simp: rendered_def rendered_inners_def res_bind_def)
  next
    case x: (Inr x)
    with "3.IH"(2) have "rendered_inners env ts (inner_transactions env isPrint ts extra)" by blast
    with x "3.IH"(1) show ?thesis
      by (cases "inner_transactions env isPrint ts extra")
        (auto simp: rendered_def rendered_inners_def res_bind_def id intro: list_all2_appendI)
  qed
qed

text \<open>C6: every transaction is shown with exactly the object of its type, no other, together with all
  its inner transactions in the order of the call tree, each with its sender, fee and logs; the
  identifier of a new asset or application is shown exactly for the transactions that create one. A
  transaction cannot be shown exactly when a local delta of its tree refers to an account that is
  not there or a reference of a call is above \<open>2 ^ 63\<close>.\<close>

theorem signedTxnWithAdToTransaction_typed:
  "case signedTxnWithAdToTransaction env isPrint s extra of
     Inl _ \<Rightarrow> \<not> list_all renderable (s # descendants s)
   | Inr t \<Rightarrow> list_all renderable (s # descendants s) \<and>
       (\<exists>f fs. flatten t = f # fs \<and> renders env s (rd_AssetID extra) f \<and>
          list_all2 (\<lambda>d. renders env d (created_id d)) (descendants s) fs)"
  using render_transaction(1) [of env s extra isPrint] by (simp add: rendered_def)

section \<open>Rows\<close>

text \<open>A row that can be shown: it has one transaction, and that is renderable with its inner ones.\<close>

definition row_renderable :: "TxnRow \<Rightarrow> bool" where
  "row_renderable row \<longleftrightarrow>
     tr_Error row = None \<and>
     (case row_txn row of Inl _ \<Rightarrow> False | Inr s \<Rightarrow> list_all renderable (s # descendants s))"

definition render_txn :: "sdk \<Rightarrow> (nat \<Rightarrow> bool) \<Rightarrow> TxnRow \<Rightarrow> model_Transaction" where
  "render_txn env isPrint row = projr (txnRowToTransaction env isPrint row)"

lemma txnRowToTransaction_renderable:
  assumes "row_renderable row"
  shows "txnRowToTransaction env isPrint row = Inr (render_txn env isPrint row)"
    and "mt_Id (transaction_fields (render_txn env isPrint row)) = Some (row_txid env row (projr (row_txn row)))"
proof -
  from assms obtain s where s: "tr_Error row = None" "row_txn row = Inr s" "list_all renderable (s # descendants s)"
    by (cases "row_txn row") (auto simp: row_renderable_def)
  then obtain t where t: "signedTxnWithAdToTransaction env isPrint s (row_extra row) = Inr t"
    using render_transaction(1) [of env s "row_extra row" isPrint]
    by (cases "signedTxnWithAdToTransaction env isPrint s (row_extra row)") (simp_all add: rendered_def)
  show "txnRowToTransaction env isPrint row = Inr (render_txn env isPrint row)"
    and "mt_Id (transaction_fields (render_txn env isPrint row)) = Some (row_txid env row (projr (row_txn row)))"
    using s t by (simp_all add: render_txn_def txnRowToTransaction_def res_wrap_def set_id_signature_def)
qed

text \<open>An application call that is shown because an inner transaction was found is shown with the asset
  column of the inner transaction's row as the identifier of the application it created.\<close>

lemma inner_match_created_index:
  assumes "txnRowToTransaction env isPrint row = Inr t" "tr_RootTxn row = Some s"
    and "txn_Type (stxn_Txn s) = ApplicationCallTx" "ApplicationID (ApplicationCallTxnFields (stxn_Txn s)) = 0"
  shows "mt_CreatedApplicationIndex (transaction_fields t) = Some (tr_AssetID row)"
proof -
  from assms(1,2) obtain x where x: "signedTxnWithAdToTransaction env isPrint s (row_extra row) = Inr x"
      "t = set_id_signature (row_txid env row s) (transaction_signature env (SignedTxn s)) x"
    by (auto simp: txnRowToTransaction_def row_txn_def result_simps split: option.splits)
  then obtain f fs where "flatten x = f # fs" "renders env s (tr_AssetID row) f"
    using render_transaction(1) [of env s "row_extra row" isPrint] by (auto simp: rendered_def row_extra_def)
  moreover from this have "transaction_fields x = f" by (cases x) simp
  ultimately show ?thesis using assms(3,4) x(2) by (simp add: renders_def set_id_signature_def Let_def)
qed

section \<open>Blocks\<close>

lemma place_tracking_ok: "isl (place_tracking ts arr) \<longleftrightarrow> \<not> list_all (\<lambda>(k, t). unat k < length arr) ts"
  by (induction ts arr rule: place_tracking.induct) auto

text \<open>A header can be shown exactly when the types of its state proofs are 0, 1, 2 and so on.\<close>

definition header_renderable :: "BlockHeader \<Rightarrow> bool" where
  "header_renderable h \<longleftrightarrow>
     fBall (fmdom (StateProofTracking h)) (\<lambda>type. unat type < fcard (fmdom (StateProofTracking h)))"

lemma length_sorted_list_of_fmap: "length (sorted_list_of_fmap m) = fcard (fmdom m)"
  by (simp add: sorted_list_of_fmap_def sorted_list_of_fset.rep_eq fcard.rep_eq)

lemma hdrRowToBlock_ok: "isl (hdrRowToBlock env h) \<longleftrightarrow> \<not> header_renderable h"
proof -
  have "fmpred (\<lambda>k t. P k) m \<longleftrightarrow> fBall (fmdom m) P" for P :: "uint64 \<Rightarrow> bool" and m :: "(uint64, StateProofTrackingData) fmap"
    by (auto simp: fmpred_iff fmlookup_dom_iff)
  then show ?thesis
    by (simp add: hdrRowToBlock_def isl_res_bind tracking_array_def place_tracking_ok header_renderable_def length_sorted_list_of_fmap)
qed

definition render_header :: "sdk \<Rightarrow> BlockHeader \<Rightarrow> model_Block" where
  "render_header env h = projr (hdrRowToBlock env h)"

lemma hdrRowToBlock_renderable: "header_renderable h \<Longrightarrow> hdrRowToBlock env h = Inr (render_header env h)"
  using hdrRowToBlock_ok [of env h] by (cases "hdrRowToBlock env h") (auto simp: render_header_def)

end
