(* ===== verification/TxnPaging.thy ===== *)
theory TxnPaging
  imports TxnHandlers RenderLaws EndpointLaws
begin

text \<open>
  Searches for transactions page by page. A row of an inner transaction is shown as its root, so that
  several rows of one call tree are one transaction of the answer: the contract \<open>grouped_search\<close> is that
  of a search whose pages consist of groups of rows. Its first row stands for a group. The search for
  transactions interprets it, with the call trees as groups.
\<close>

section \<open>Groups of rows\<close>

text \<open>The rows that are not in the group of the row before.\<close>

fun firsts :: "('r \<Rightarrow> 'k) \<Rightarrow> 'k option \<Rightarrow> 'r list \<Rightarrow> 'r list" where
  "firsts grp prev [] = []"
| "firsts grp prev (r # rs) =
     (if prev = Some (grp r) then firsts grp prev rs else r # firsts grp (Some (grp r)) rs)"

definition group_firsts :: "('r \<Rightarrow> 'k) \<Rightarrow> 'r list \<Rightarrow> 'r list" where
  "group_firsts grp rs = firsts grp None rs"

definition group_page :: "('r \<Rightarrow> 'o) \<Rightarrow> ('r \<Rightarrow> string) \<Rightarrow> ('r \<Rightarrow> 'k) \<Rightarrow> uint64 \<Rightarrow> 'r list \<Rightarrow> 'o list \<times> string option" where
  "group_page render token grp limit rs =
     (let fs = group_firsts grp (limit_or_all limit rs) in
      (map render fs, if rs = [] then None else Some (token (last fs))))"

lemma firsts_append:
  "firsts grp prev (xs @ ys) = firsts grp prev xs @ firsts grp (if xs = [] then prev else Some (grp (last xs))) ys"
  by (induction xs arbitrary: prev) auto

lemma set_firsts: "set (firsts grp prev rs) \<subseteq> set rs"
  by (induction rs arbitrary: prev) auto

lemma firsts_new: "(\<And>y. y \<in> set ys \<Longrightarrow> grp y \<noteq> k) \<Longrightarrow> firsts grp (Some k) ys = firsts grp None ys"
  by (cases ys) auto

lemma firsts_beyond:
  fixes grp :: "'r \<Rightarrow> 'k :: linorder"
  assumes "sorted (map grp ys)" and "\<And>y. y \<in> set ys \<Longrightarrow> k \<le> grp y"
  shows "firsts grp (Some k) ys = firsts grp None (filter (\<lambda>y. k < grp y) ys)"
  using assms
proof (induction ys)
  case (Cons y ys)
  show ?case
  proof (cases "grp y = k")
    case True
    with Cons show ?thesis by simp
  next
    case False
    with Cons.prems have "k < grp z" if "z \<in> set (y # ys)" for z using that by force
    then have "filter (\<lambda>y. k < grp y) (y # ys) = y # ys" by (simp add: filter_True)
    with False show ?thesis by simp
  qed
qed simp

lemma last_firsts:
  assumes "sorted (map grp rs)" and "firsts grp prev rs \<noteq> []"
  shows "grp (last (firsts grp prev rs)) = grp (last rs)"
  using assms
proof (induction rs arbitrary: prev)
  case (Cons r rs)
  show ?case
  proof (cases "rs = []")
    case False
    show ?thesis
    proof (cases "firsts grp (Some (grp r)) rs = []")
      case True
      have same: "firsts grp (Some k) xs = [] \<Longrightarrow> x \<in> set xs \<Longrightarrow> grp x = k" for k xs x
        by (induction xs) (auto split: if_splits)
      have "grp (last rs) = grp r" by (rule same [OF True]) (simp add: False)
      then show ?thesis using True Cons.prems False by (auto split: if_splits)
    next
      case False': False
      then show ?thesis using Cons.IH [of "Some (grp r)"] Cons.prems False by (auto split: if_splits)
    qed
  qed (use Cons.prems in \<open>auto split: if_splits\<close>)
qed simp

lemma sorted_le_last:
  fixes grp :: "'r \<Rightarrow> 'k :: linorder"
  shows "sorted (map grp xs) \<Longrightarrow> x \<in> set xs \<Longrightarrow> grp x \<le> grp (last xs)"
  by (induction xs) auto

lemma sorted_split:
  fixes grp :: "'r \<Rightarrow> 'k :: linorder"
  shows "sorted (map grp xs) \<Longrightarrow> xs = filter (\<lambda>r. \<not> k < grp r) xs @ filter (\<lambda>r. k < grp r) xs"
proof (induction xs)
  case (Cons x xs)
  show ?case
  proof (cases "k < grp x")
    case True
    with Cons.prems have "\<forall>y \<in> set (x # xs). k < grp y" by auto
    then show ?thesis by (simp add: filter_True filter_False)
  next
    case False
    with Cons show ?thesis by simp
  qed
qed simp

text \<open>The groups of ordered rows: each of them once.\<close>

lemma firsts_strict:
  fixes grp :: "'r \<Rightarrow> 'k :: linorder"
  assumes "sorted (map grp rs)" "\<And>p r. prev = Some p \<Longrightarrow> r \<in> set rs \<Longrightarrow> p \<le> grp r"
  shows "sorted_wrt (<) (map grp (firsts grp prev rs)) \<and> (\<forall>p r. prev = Some p \<longrightarrow> r \<in> set (firsts grp prev rs) \<longrightarrow> p < grp r)"
  using assms
proof (induction rs arbitrary: prev)
  case (Cons r rs)
  show ?case
  proof (cases "prev = Some (grp r)")
    case True
    then show ?thesis using Cons.IH [of prev] Cons.prems by simp
  next
    case False
    have ih: "sorted_wrt (<) (map grp (firsts grp (Some (grp r)) rs))" "\<forall>x \<in> set (firsts grp (Some (grp r)) rs). grp r < grp x"
      using Cons.IH [of "Some (grp r)"] Cons.prems(1) by auto
    have "p < grp r" if "prev = Some p" for p using Cons.prems(2) [OF that, of r] False that by force
    with False ih show ?thesis by (auto intro: order.strict_trans)
  qed
qed simp

lemma set_grp_firsts: "insert k (grp ` set (firsts grp (Some k) rs)) = insert k (grp ` set rs)"
  by (induction rs arbitrary: k) auto

lemma group_firsts_once:
  fixes grp :: "'r \<Rightarrow> 'k :: linorder"
  shows "sorted (map grp rs) \<Longrightarrow> distinct (map grp (group_firsts grp rs))"
    and "grp ` set (group_firsts grp rs) = grp ` set rs"
proof -
  show "distinct (map grp (group_firsts grp rs))" if "sorted (map grp rs)"
    using firsts_strict [OF that, of None] by (simp add: group_firsts_def strict_sorted_iff)
  show "grp ` set (group_firsts grp rs) = grp ` set rs"
    by (cases rs) (simp_all add: group_firsts_def set_grp_firsts)
qed

section \<open>The contract\<close>

locale grouped_search =
  fixes invar :: "'s \<Rightarrow> bool"
    and request :: "'s \<Rightarrow> string option \<Rightarrow> 'e + 'o list \<times> string option"
    and rows :: "'s \<Rightarrow> 'r list"
    and grp :: "'s \<Rightarrow> 'r \<Rightarrow> 'k :: linorder"
    and render :: "'s \<Rightarrow> 'r \<Rightarrow> 'o"
    and token :: "'s \<Rightarrow> 'r \<Rightarrow> string"
    and limit :: "'s \<Rightarrow> uint64"
  assumes ascending: "invar s \<Longrightarrow> sorted (map (grp s) (rows s))"
    and first: "invar s \<Longrightarrow> request s None = Inr (group_page (render s) (token s) (grp s) (limit s) (rows s))"
    and later: "invar s \<Longrightarrow> r \<in> set (rows s) \<Longrightarrow>
      request s (Some (token s r)) =
        Inr (group_page (render s) (token s) (grp s) (limit s) (filter (\<lambda>r'. grp s r < grp s r') (rows s)))"
begin

lemma follow_from:
  assumes "invar s" and "request s next = Inr (group_page (render s) (token s) (grp s) (limit s) rest)"
    and "rows s = before @ rest" and "\<And>b r. b \<in> set before \<Longrightarrow> r \<in> set rest \<Longrightarrow> grp s b < grp s r"
    and "length rest < fuel"
  shows "follow_pages (request s) fuel next = Some (Inr (map (render s) (group_firsts (grp s) rest)))"
  using assms(2-5)
proof (induction fuel arbitrary: before rest "next")
  case (Suc fuel)
  let ?g = "grp s"
  show ?case
  proof (cases "rest = []")
    case True
    with Suc.prems(1) show ?thesis by (simp add: group_page_def group_firsts_def limit_or_all_def)
  next
    case False
    obtain n where n: "n < length rest" "limit_or_all (limit s) rest = take (Suc n) rest"
      by (rule limit_or_all_cases [OF False, of "limit s"])
    define page where "page = take (Suc n) rest"
    define fs where "fs = firsts ?g None page"
    have pne: "page \<noteq> []" using False by (simp add: page_def)
    then have fne: "fs \<noteq> []" by (cases page) (simp_all add: fs_def)
    have "sorted (map ?g before @ map ?g rest)" using ascending [OF assms(1)] Suc.prems(2) by simp
    then have so: "sorted (map ?g rest)" by (simp add: sorted_append)
    have split: "rest = page @ drop (Suc n) rest" by (simp add: page_def)
    have "sorted (map ?g (page @ drop (Suc n) rest))" using so by (simp only: split [symmetric])
    then have sp: "sorted (map ?g page)" "sorted (map ?g (drop (Suc n) rest))"
      and le: "\<And>x y. x \<in> set page \<Longrightarrow> y \<in> set (drop (Suc n) rest) \<Longrightarrow> ?g x \<le> ?g y"
      by (auto simp: sorted_append)
    define k where "k = ?g (last fs)"
    have k: "k = ?g (last page)" unfolding k_def fs_def by (rule last_firsts [OF sp(1)]) (use fne in \<open>simp add: fs_def\<close>)
    have lf: "last fs \<in> set rest" using fne set_firsts [of ?g None page] by (auto simp: fs_def page_def dest: in_set_takeD last_in_set)
    have "?g x \<le> k" if "x \<in> set page" for x
      unfolding k by (rule sorted_le_last [OF sp(1) that])
    then have fp: "filter (\<lambda>r. k < ?g r) page = []" by (fastforce simp: filter_empty_conv)
    have fb: "filter (\<lambda>r. k < ?g r) before = []" using Suc.prems(3) [OF _ lf] by (fastforce simp: filter_empty_conv k_def)
    define rest' where "rest' = filter (\<lambda>r. k < ?g r) (drop (Suc n) rest)"
    have rf: "filter (\<lambda>r. k < ?g r) (rows s) = rest'"
      unfolding rest'_def Suc.prems(2) by (subst split) (simp add: fp fb)
    have "last fs \<in> set (rows s)" using lf Suc.prems(2) by simp
    from later [OF assms(1) this] have nxt: "request s (Some (token s (last fs))) = Inr (group_page (render s) (token s) ?g (limit s) rest')"
      by (simp add: rf [symmetric] k_def)
    have rest: "follow_pages (request s) fuel (Some (token s (last fs))) = Some (Inr (map (render s) (group_firsts ?g rest')))"
    proof (rule Suc.IH [OF nxt])
      let ?b = "filter (\<lambda>r. \<not> k < ?g r) (rows s)"
      show "rows s = ?b @ rest'" using sorted_split [OF ascending [OF assms(1)], of k] by (simp only: rf)
      show "?g b < ?g r" if "b \<in> set ?b" "r \<in> set rest'" for b r using that by (auto simp: rest'_def)
      show "length rest' < fuel"
        using Suc.prems(4) n(1) length_filter_le [of "\<lambda>r. k < ?g r" "drop (Suc n) rest"] by (simp add: rest'_def)
    qed
    have "group_firsts ?g rest = fs @ group_firsts ?g rest'"
    proof -
      have "group_firsts ?g rest = fs @ firsts ?g (Some k) (drop (Suc n) rest)"
        unfolding group_firsts_def fs_def by (subst split) (simp add: firsts_append pne k)
      also have "firsts ?g (Some k) (drop (Suc n) rest) = firsts ?g None rest'"
        unfolding rest'_def by (rule firsts_beyond [OF sp(2)]) (use le pne in \<open>auto simp: k\<close>)
      finally show ?thesis by (simp add: group_firsts_def)
    qed
    then show ?thesis
      using Suc.prems(1) rest False n(2) by (simp add: group_page_def Let_def group_firsts_def fs_def [symmetric] page_def [symmetric])
  qed
qed simp

theorem follow_all:
  assumes "invar s" and "length (rows s) < fuel"
  shows "follow_pages (request s) fuel None = Some (Inr (map (render s) (group_firsts (grp s) (rows s))))"
  using follow_from [OF assms(1) first [OF assms(1)], of "[]" fuel] assms(2) by simp

end

section \<open>Fetching a page\<close>

text \<open>The loop over the rows of a page whose identifiers tell groups apart adds the first row of each group.\<close>

lemma transactions_loop_groups:
  fixes grp :: "'t \<Rightarrow> 'k :: linorder"
  assumes "\<And>t. t \<in> set ts \<Longrightarrow> render (row t) = Inr (f t) \<and> txn_id (f t) = ident (grp t)"
    and "inj_on ident (S \<union> grp ` set ts)" and "sorted (map grp ts)" and "\<And>k t. k \<in> S \<Longrightarrow> t \<in> set ts \<Longrightarrow> k \<le> grp t"
    and "case prev of None \<Rightarrow> S = {} | Some p \<Rightarrow> p \<in> S \<and> (\<forall>k \<in> S. k \<le> p)"
  shows "transactions_loop render False (map row ts) (ident ` S) results lastr =
    Inr (results @ map f (firsts grp prev ts),
      if firsts grp prev ts = [] then lastr else Some (row (last (firsts grp prev ts))))"
  using assms
proof (induction ts arbitrary: S prev results lastr)
  case (Cons t ts)
  have inj: "ident (grp t) \<in> ident ` S \<longleftrightarrow> grp t \<in> S"
    by (rule inj_on_image_mem_iff [OF Cons.prems(2)]) auto
  have mem: "grp t \<in> S \<longleftrightarrow> prev = Some (grp t)"
    using Cons.prems(4) [of _ t] Cons.prems(5) by (cases prev) (auto intro: order.antisym)
  show ?case
  proof (cases "prev = Some (grp t)")
    case True
    have "transactions_loop render False (map row ts) (ident ` S) results lastr =
      Inr (results @ map f (firsts grp prev ts),
        if firsts grp prev ts = [] then lastr else Some (row (last (firsts grp prev ts))))"
      by (rule Cons.IH) (use Cons.prems in \<open>auto intro: inj_on_subset\<close>)
    with True mem inj Cons.prems(1) [of t] show ?thesis by (simp add: res_bind_def)
  next
    case False
    have "transactions_loop render False (map row ts) (ident ` insert (grp t) S) (results @ [f t]) (Some (row t)) =
      Inr ((results @ [f t]) @ map f (firsts grp (Some (grp t)) ts),
        if firsts grp (Some (grp t)) ts = [] then Some (row t) else Some (row (last (firsts grp (Some (grp t)) ts))))"
      by (rule Cons.IH) (use Cons.prems in \<open>auto intro: inj_on_subset\<close>)
    with False mem inj Cons.prems(1) [of t] show ?thesis by (simp add: res_bind_def)
  qed
qed simp

section \<open>Call trees\<close>

text \<open>What a stored row is shown as: the transaction of its root, which is itself unless it is an inner
  transaction, the offset of the root and of the last row of its tree, and the identifier.\<close>

definition txn_extra :: "'j codec \<Rightarrow> 'j txn_row \<Rightarrow> TxnExtra" where
  "txn_extra c t = projr (DecodeTxnExtra c (t_extra t))"

definition root_intra :: "'j codec \<Rightarrow> 'j txn_row \<Rightarrow> uint64" where
  "root_intra c t = (if Present (RootIntra (txn_extra c t)) then Value (RootIntra (txn_extra c t)) else t_intra t)"

definition shown_txn :: "'j sql_server \<Rightarrow> 'j codec \<Rightarrow> 'j txn_tables \<Rightarrow> 'j txn_row \<Rightarrow> SignedTxnWithAD" where
  "shown_txn srv c db t = projr (DecodeSignedTxnWithAD c (snd (reported srv db t)))"

definition tree_end :: "'j sql_server \<Rightarrow> 'j codec \<Rightarrow> 'j txn_tables \<Rightarrow> 'j txn_row \<Rightarrow> uint64" where
  "tree_end srv c db t = root_intra c t + countInner (shown_txn srv c db t)"

definition shown_id :: "sdk \<Rightarrow> 'j sql_server \<Rightarrow> 'j codec \<Rightarrow> 'j txn_tables \<Rightarrow> 'j txn_row \<Rightarrow> string" where
  "shown_id env srv c db t =
     (if Present (RootIntra (txn_extra c t)) then RootTxid (txn_extra c t)
      else TransactionIDString env (stxn_Txn (shown_txn srv c db t)))"

text \<open>The rows of a tree lie between its root and its end, which is below \<open>2 ^ 32\<close>; trees of a round do not
  overlap, and different trees have different identifiers.\<close>

definition trees_apart :: "sdk \<Rightarrow> 'j sql_server \<Rightarrow> 'j codec \<Rightarrow> 'j txn_tables \<Rightarrow> 'j txn_row \<Rightarrow> 'j txn_row \<Rightarrow> bool" where
  "trees_apart env srv c db t t' \<longleftrightarrow>
     (shown_id env srv c db t = shown_id env srv c db t' \<longleftrightarrow> t_round t = t_round t' \<and> root_intra c t = root_intra c t') \<and>
     (t_round t = t_round t' \<longrightarrow>
        (root_intra c t = root_intra c t' \<longrightarrow> tree_end srv c db t = tree_end srv c db t') \<and>
        (root_intra c t < root_intra c t' \<longrightarrow> tree_end srv c db t < root_intra c t'))"

definition call_trees :: "sdk \<Rightarrow> 'j sql_server \<Rightarrow> 'j codec \<Rightarrow> 'j txn_tables \<Rightarrow> bool" where
  "call_trees env srv c db \<longleftrightarrow>
     list_all (\<lambda>t.
       root_intra c t \<le> t_intra t \<and> t_intra t \<le> tree_end srv c db t \<and> tree_end srv c db t < 2 ^ 32 \<and>
       list_all (trees_apart env srv c db t) (tbl_txn db)) (tbl_txn db)"

text \<open>The order of the trees in a search.\<close>

definition tree_key :: "bool \<Rightarrow> 'j codec \<Rightarrow> 'j txn_row \<Rightarrow> int \<times> int" where
  "tree_key descending c t =
     (if descending then (- uint (t_round t), - uint (root_intra c t)) else (uint (t_round t), uint (root_intra c t)))"

lemma tree_key_eq: "tree_key desc c t = tree_key desc c t' \<longleftrightarrow> t_round t = t_round t' \<and> root_intra c t = root_intra c t'"
  unfolding tree_key_def word_uint_eq_iff by auto

lemma tree_key_less:
  "tree_key False c t < tree_key False c t' \<longleftrightarrow>
     t_round t < t_round t' \<or> t_round t = t_round t' \<and> root_intra c t < root_intra c t'"
  "tree_key True c t < tree_key True c t' \<longleftrightarrow>
     t_round t' < t_round t \<or> t_round t = t_round t' \<and> root_intra c t' < root_intra c t"
  unfolding tree_key_def word_less_alt word_uint_eq_iff less_prod_def by auto

lemma call_trees_row:
  assumes "call_trees env srv c db" "t \<in> set (tbl_txn db)"
  shows "root_intra c t \<le> t_intra t" "t_intra t \<le> tree_end srv c db t" "tree_end srv c db t < 2 ^ 32"
    "t' \<in> set (tbl_txn db) \<Longrightarrow> trees_apart env srv c db t t'"
  using assms unfolding call_trees_def list_all_iff by blast+

lemma call_trees_pair:
  assumes "call_trees env srv c db" "t \<in> set (tbl_txn db)" "t' \<in> set (tbl_txn db)"
  shows "shown_id env srv c db t = shown_id env srv c db t' \<longleftrightarrow> tree_key desc c t = tree_key desc c t'"
    and "t_round t = t_round t' \<Longrightarrow> tree_end srv c db t < t_intra t' \<longleftrightarrow> root_intra c t < root_intra c t'"
    and "t_round t = t_round t' \<Longrightarrow> t_intra t' < root_intra c t \<longleftrightarrow> root_intra c t' < root_intra c t"
proof -
  have p: "trees_apart env srv c db t t'" "trees_apart env srv c db t' t" using call_trees_row(4) [OF assms(1)] assms(2,3) by blast+
  note r = call_trees_row(1,2) [OF assms(1,2)] call_trees_row(1,2) [OF assms(1,3)]
  show "shown_id env srv c db t = shown_id env srv c db t' \<longleftrightarrow> tree_key desc c t = tree_key desc c t'"
    using p(1) unfolding tree_key_eq trees_apart_def by blast
  define a b e a' b' e' where "a = root_intra c t" and "b = t_intra t" and "e = tree_end srv c db t"
    and "a' = root_intra c t'" and "b' = t_intra t'" and "e' = tree_end srv c db t'"
  note d = a_def [symmetric] b_def [symmetric] e_def [symmetric] a'_def [symmetric] b'_def [symmetric] e'_def [symmetric]
  have q: "a = a' \<Longrightarrow> e = e'" "a < a' \<Longrightarrow> e < a'" "a' < a \<Longrightarrow> e' < a" if "t_round t = t_round t'"
    using p that that [symmetric] unfolding trees_apart_def d by blast+
  have o: "a \<le> b" "b \<le> e" "a' \<le> b'" "b' \<le> e'" using r unfolding d .
  show "tree_end srv c db t < t_intra t' \<longleftrightarrow> root_intra c t < root_intra c t'" if "t_round t = t_round t'"
    unfolding d using q [OF that] o by (cases a a' rule: linorder_cases) (force dest: order.strict_trans2 order.trans)+
  show "t_intra t' < root_intra c t \<longleftrightarrow> root_intra c t' < root_intra c t" if "t_round t = t_round t'"
    unfolding d using q [OF that] o by (cases a a' rule: linorder_cases) (force dest: order.strict_trans2 order.trans)+
qed

text \<open>A page token that stands for a row selects the trees after the row's.\<close>

lemma after_tree:
  assumes "call_trees env srv c db" "t \<in> set (tbl_txn db)" "t' \<in> set (tbl_txn db)"
  shows "after_token tf (t_round t) (if tf_Address tf = None then tree_end srv c db t else root_intra c t) t' \<longleftrightarrow>
    tree_key (tf_Address tf \<noteq> None) c t < tree_key (tf_Address tf \<noteq> None) c t'"
proof (cases "t_round t = t_round t'")
  case True
  show ?thesis using True call_trees_pair(2,3) [OF assms True] by (simp add: after_token_def tree_key_less)
next
  case False
  then show ?thesis by (auto simp: after_token_def tree_key_less)
qed

section \<open>The rows of a search\<close>

lemma root_has_no_root:
  assumes "rooted srv db" "t \<in> set (tbl_txn db)" "t_txid t \<noteq> None"
  shows "root_of srv db t = None"
proof -
  have "json_num srv [''root-intra''] (t_extra t) = None" using assms by (auto simp: rooted_def list_all_iff)
  then show ?thesis by (simp add: root_of_def find_None_iff)
qed

lemma shown_row:
  fixes srv c hs db tf t defines "row \<equiv> row_of_txn srv c hs db tf t"
  assumes "readable c db" "rooted srv db" "t \<in> set (tbl_txn db)"
    and "\<not> tf_SkipInnerTransactionConversion tf" "tf_SkipInnerTransactions tf \<Longrightarrow> t_txid t \<noteq> None"
  shows "tr_Error row = None" "row_txn row = Inr (shown_txn srv c db t)" "tr_Extra row = txn_extra c t"
    "tr_Round row = t_round t" "tr_Intra row = t_intra t" "tr_AssetID row = t_asset t"
    "next_intra row True = Some (tree_end srv c db t)" "next_intra row False = Some (root_intra c t)"
    "row_txid env row (shown_txn srv c db t) = shown_id env srv c db t"
proof -
  obtain y where y: "DecodeTxnExtra c (t_extra t) = Inr y"
    using assms(2,4) by (auto simp: readable_def list_all_iff isl_def) (metis obj_sumE)
  obtain x where x: "DecodeSignedTxnWithAD c (t_txn t) = Inr x"
    using assms(2,4) by (auto simp: readable_def list_all_iff isl_def) (metis obj_sumE)
  have root: "(if tf_SkipInnerTransactionConversion tf \<or> tf_SkipInnerTransactions tf then None else root_of srv db t) = root_of srv db t"
    using assms(5,6) root_has_no_root [OF assms(3,4)] by auto
  define mk where "mk = (\<lambda>txn rt. \<lparr>tr_Round = t_round t, tr_RoundTime = block_time hs (t_round t), tr_Intra = t_intra t,
    tr_Txn = txn, tr_RootTxn = rt, tr_AssetID = t_asset t, tr_Extra = y, tr_Error = None\<rparr>)"
  have row: "row = (case root_of srv db t of None \<Rightarrow> mk (Some (shown_txn srv c db t)) None | Some r \<Rightarrow> mk None (Some (shown_txn srv c db t)))"
  proof (cases "root_of srv db t")
    case None
    then show ?thesis
      unfolding row_def row_of_txn_def txn_answer_def root
      by (simp add: decode_row_def x y Let_def zero_TxnRow_def mk_def shown_txn_def reported_def)
  next
    case (Some r)
    obtain z where "DecodeSignedTxnWithAD c r = Inr z" using root_of_readable [OF assms(2) Some] by blast
    with Some show ?thesis
      unfolding row_def row_of_txn_def txn_answer_def root
      by (simp add: decode_row_def y Let_def zero_TxnRow_def mk_def shown_txn_def reported_def)
  qed
  have e: "txn_extra c t = y" by (simp add: txn_extra_def y)
  show "tr_Error row = None" "row_txn row = Inr (shown_txn srv c db t)" "tr_Extra row = txn_extra c t"
    "tr_Round row = t_round t" "tr_Intra row = t_intra t" "tr_AssetID row = t_asset t"
    "next_intra row True = Some (tree_end srv c db t)" "next_intra row False = Some (root_intra c t)"
    "row_txid env row (shown_txn srv c db t) = shown_id env srv c db t"
    by (simp_all add: row mk_def row_txn_def next_intra_def tree_end_def root_intra_def e Let_def row_txid_def shown_id_def
        split: option.split)
qed

text \<open>The token of a row decodes to the row's round and the end of its tree, or its root when the search goes
  backwards.\<close>

definition tree_token :: "bool \<Rightarrow> 'j sql_server \<Rightarrow> 'j codec \<Rightarrow> 'j txn_tables \<Rightarrow> 'j txn_row \<Rightarrow> string" where
  "tree_token descending srv c db t =
     b64_encode url_alphabet (PutUint64 (t_round t) @
       PutUint32 (ucast (if descending then root_intra c t else tree_end srv c db t)))"

lemma tree_token_row:
  assumes "readable c db" "rooted srv db" "t \<in> set (tbl_txn db)"
    and "\<not> tf_SkipInnerTransactionConversion tf" "tf_SkipInnerTransactions tf \<Longrightarrow> t_txid t \<noteq> None"
  shows "TxnRow_Next (row_of_txn srv c hs db tf t) (\<not> desc) = Inr (tree_token desc srv c db t)"
  using shown_row [OF assms] by (cases desc) (simp_all add: TxnRow_Next_eq tree_token_def)

lemma ucast_32_64: "x < 2 ^ 32 \<Longrightarrow> ucast (ucast (x :: uint64) :: uint32) = x"
  by (simp add: word_unat_eq_iff word_less_nat_alt unsigned_ucast_eq unsigned_take_bit_eq take_bit_nat_eq_self)

lemma tree_token_decodes:
  assumes "call_trees env srv c db" "t \<in> set (tbl_txn db)"
  shows "DecodeTxnRowNext (tree_token desc srv c db t) =
    Inr (t_round t, ucast (if desc then root_intra c t else tree_end srv c db t))"
    and "ucast (ucast (if desc then root_intra c t else tree_end srv c db t) :: uint32) =
      (if desc then root_intra c t else tree_end srv c db t)"
    and "tree_token desc srv c db t \<noteq> []"
proof -
  have "tree_end srv c db t < 2 ^ 32" "root_intra c t < 2 ^ 32"
    using call_trees_row(1-3) [OF assms] by auto
  then show "ucast (ucast (if desc then root_intra c t else tree_end srv c db t) :: uint32) =
      (if desc then root_intra c t else tree_end srv c db t)" by (simp add: ucast_32_64)
  show d: "DecodeTxnRowNext (tree_token desc srv c db t) =
    Inr (t_round t, ucast (if desc then root_intra c t else tree_end srv c db t))"
    by (simp add: DecodeTxnRowNext_def tree_token_def)
  have "isl (DecodeTxnRowNext [])"
    by (simp add: DecodeTxnRowNext_def b64_decode_def res_bind_def res_wrap_def split: sum.split)
  with d show "tree_token desc srv c db t \<noteq> []" by (metis sum.disc(2))
qed

lemma tree_key_mono:
  assumes "call_trees env srv c db" "t \<in> set (tbl_txn db)" "t' \<in> set (tbl_txn db)"
    and "if desc then txn_key t' \<le> txn_key t else txn_key t \<le> txn_key t'"
  shows "tree_key desc c t \<le> tree_key desc c t'"
proof -
  have before: "t_intra x < t_intra y"
    if "x \<in> set (tbl_txn db)" "y \<in> set (tbl_txn db)" "t_round x = t_round y" "root_intra c x < root_intra c y" for x y
    using call_trees_pair(2) [OF assms(1) that(1,2,3)] that(4) call_trees_row(2) [OF assms(1) that(1)] by auto
  show ?thesis
  proof (rule ccontr)
    assume "\<not> ?thesis"
    then have "tree_key desc c t' < tree_key desc c t" by simp
    with before [OF assms(2,3)] before [OF assms(3,2)] assms(4) show False
      by (cases desc) (auto simp: tree_key_less less_eq_prod_def)
  qed
qed

lemma search_trees_sorted:
  assumes "call_trees env srv c db"
  shows "sorted (map (tree_key (tf_Address tf \<noteq> None) c) (search srv hs db tf))"
  unfolding sorted_wrt_map
proof (rule sorted_wrt_mono_rel [OF _ search_sorted])
  fix x y assume "x \<in> set (search srv hs db tf)" "y \<in> set (search srv hs db tf)"
  then have "x \<in> set (tbl_txn db)" "y \<in> set (tbl_txn db)" by (auto simp: set_search)
  moreover assume "if tf_Address tf = None then txn_key x \<le> txn_key y else txn_key y \<le> txn_key x"
  ultimately show "tree_key (tf_Address tf \<noteq> None) c x \<le> tree_key (tf_Address tf \<noteq> None) c y"
    by (intro tree_key_mono [OF assms]) (auto split: if_splits)
qed

section \<open>Fetching transactions\<close>

text \<open>The tables of the server are those of an import: rounds that are neither the first nor the last
  number, readable rows in call trees, and transactions that can be shown.\<close>

definition serves_trees :: "'j api_env \<Rightarrow> bool" where
  "serves_trees si \<longleftrightarrow>
     (let c = si_codec si; srv = si_sql si; db = si_txns si in
      searchable (tbl_block_header (si_tables si)) db \<and> readable c db \<and> rooted srv db \<and> call_trees (si_sdk si) srv c db \<and>
      list_all (\<lambda>t. 0 < t_round t \<and> t_round t < - 1 \<and>
        list_all renderable (shown_txn srv c db t # descendants (shown_txn srv c db t))) (tbl_txn db))"

definition tree_row :: "'j api_env \<Rightarrow> TransactionFilter \<Rightarrow> 'j txn_row \<Rightarrow> TxnRow" where
  "tree_row si tf = row_of_txn (si_sql si) (si_codec si) (tbl_block_header (si_tables si)) (si_txns si) tf"

definition tree_shown :: "'j api_env \<Rightarrow> TransactionFilter \<Rightarrow> 'j txn_row \<Rightarrow> model_Transaction" where
  "tree_shown si tf t = render_txn (si_sdk si) (IsPrint (si_codec si)) (tree_row si tf t)"

definition found_trees :: "'j api_env \<Rightarrow> TransactionFilter \<Rightarrow> 'j txn_row list" where
  "found_trees si tf = search (si_sql si) (tbl_block_header (si_tables si)) (si_txns si) (txnFilterOptimization tf)"

lemma tree_shown_id:
  assumes "serves_trees si" "t \<in> set (tbl_txn (si_txns si))"
    and "\<not> tf_SkipInnerTransactionConversion tf" "tf_SkipInnerTransactions tf \<Longrightarrow> t_txid t \<noteq> None"
  shows "render_row si (tree_row si tf t) = Inr (tree_shown si tf t)"
    and "txn_id (tree_shown si tf t) = shown_id (si_sdk si) (si_sql si) (si_codec si) (si_txns si) t"
proof -
  have s: "readable (si_codec si) (si_txns si)" "rooted (si_sql si) (si_txns si)"
    and r: "list_all renderable (shown_txn (si_sql si) (si_codec si) (si_txns si) t #
        descendants (shown_txn (si_sql si) (si_codec si) (si_txns si) t))"
    using assms(1,2) by (auto simp: serves_trees_def Let_def list_all_iff)
  note row = shown_row [OF s assms(2-4), where hs = "tbl_block_header (si_tables si)", folded tree_row_def]
  have "row_renderable (tree_row si tf t)" using row r by (simp add: row_renderable_def)
  from txnRowToTransaction_renderable [OF this] row
  show "render_row si (tree_row si tf t) = Inr (tree_shown si tf t)"
    and "txn_id (tree_shown si tf t) = shown_id (si_sdk si) (si_sql si) (si_codec si) (si_txns si) t"
    by (simp_all add: render_row_def tree_shown_def txn_id_def)
qed

text \<open>A page of rows is fetched as the trees of the rows.\<close>

lemma fetch_trees:
  fixes si :: "'j api_env" and tf tf' and ts defines "key \<equiv> tree_key (tf_Address tf \<noteq> None) (si_codec si)"
  assumes "serves_trees si" "answers si rnd"
    and "Transactions (si_sql si) (si_query si) (si_codec si) (si_tables si) (si_txns si) tf = (map (tree_row si tf') ts, rnd)"
    and "\<not> tf_SkipInnerTransactionConversion tf" "\<not> tf_SkipInnerTransactionConversion tf'"
    and "\<And>t. t \<in> set ts \<Longrightarrow> t \<in> set (tbl_txn (si_txns si)) \<and> (tf_SkipInnerTransactions tf' \<longrightarrow> t_txid t \<noteq> None)"
    and "sorted (map key ts)"
  shows "fetchTransactions si tf =
    Inr (map (tree_shown si tf') (group_firsts key ts),
      if ts = [] then [] else tree_token (tf_Address tf \<noteq> None) (si_sql si) (si_codec si) (si_txns si) (last (group_firsts key ts)), rnd)"
proof -
  let ?id = "shown_id (si_sdk si) (si_sql si) (si_codec si) (si_txns si)"
  have ct: "call_trees (si_sdk si) (si_sql si) (si_codec si) (si_txns si)"
    and rd: "readable (si_codec si) (si_txns si)" "rooted (si_sql si) (si_txns si)"
    using assms(2) by (simp_all add: serves_trees_def Let_def)
  have same: "?id t = ?id t' \<longleftrightarrow> key t = key t'" if "t \<in> set ts" "t' \<in> set ts" for t t'
    unfolding key_def by (rule call_trees_pair(1) [OF ct]) (use assms(7) that in blast)+
  define ident where "ident k = ?id (the (find (\<lambda>t. key t = k) ts))" for k
  have ident: "ident (key t) = ?id t" if t: "t \<in> set ts" for t
  proof -
    have "find (\<lambda>u. key u = key t) ts \<noteq> None" using t by (auto simp: find_None_iff)
    then obtain u where "find (\<lambda>u. key u = key t) ts = Some u" by blast
    moreover from this have "u \<in> set ts" "key u = key t" by (auto simp: find_Some_iff)
    ultimately show ?thesis using same t by (simp add: ident_def)
  qed
  have inj: "inj_on ident ({} \<union> key ` set ts)" by (simp add: inj_on_def ident same)
  have "transactions_loop (render_row si) False (map (tree_row si tf') ts) (ident ` {}) [] None =
    Inr ([] @ map (tree_shown si tf') (firsts key None ts),
      if firsts key None ts = [] then None else Some (tree_row si tf' (last (firsts key None ts))))"
  proof (rule transactions_loop_groups [OF _ inj assms(8)])
    fix t assume t: "t \<in> set ts"
    show "render_row si (tree_row si tf' t) = Inr (tree_shown si tf' t) \<and> txn_id (tree_shown si tf' t) = ident (key t)"
      using tree_shown_id [OF assms(2) _ assms(6), of t] assms(7) [OF t] ident [OF t] by simp
  qed simp_all
  then have loop: "transactions_loop (render_row si) False (map (tree_row si tf') ts) {} [] None =
    Inr (map (tree_shown si tf') (group_firsts key ts),
      if ts = [] then None else Some (tree_row si tf' (last (group_firsts key ts))))"
    by (cases ts) (simp_all add: group_firsts_def)
  show ?thesis
  proof (cases "ts = []")
    case True
    with loop show ?thesis
      using assms(5) unfolding fetchTransactions_def assms(4) prod.case answers_call [OF assms(3)]
      by (simp add: group_firsts_def)
  next
    case False
    then have ne: "group_firsts key ts \<noteq> []" by (cases ts) (simp_all add: group_firsts_def)
    then have l: "last (group_firsts key ts) \<in> set ts"
      using set_firsts [of key None ts] last_in_set [OF ne] by (auto simp: group_firsts_def)
    have tok: "TxnRow_Next (tree_row si tf' (last (group_firsts key ts))) (tf_Address tf = None) =
        Inr (tree_token (tf_Address tf \<noteq> None) (si_sql si) (si_codec si) (si_txns si) (last (group_firsts key ts)))"
      using tree_token_row [OF rd _ assms(6), of "last (group_firsts key ts)" "tbl_block_header (si_tables si)" "tf_Address tf \<noteq> None"]
        assms(7) [OF l] by (simp add: tree_row_def)
    from loop False show ?thesis
      using assms(5) ne tok unfolding fetchTransactions_def assms(4) prod.case answers_call [OF assms(3)]
      by simp
  qed
qed

section \<open>The search for transactions\<close>

type_synonym 'j transactions_search = "'j api_env \<times> request \<times> SearchForTransactionsParams"

definition transactions_filter :: "'j transactions_search \<Rightarrow> TransactionFilter" where
  "transactions_filter = (\<lambda>(si, ctx, params). params_filter (si_sdk si) (si_opts si) (params\<lparr>stp_Next := None\<rparr>))"

definition transactions_invar :: "'j transactions_search \<Rightarrow> bool" where
  "transactions_invar = (\<lambda>(si, ctx, params).
     (\<exists>rnd. answers si rnd) \<and> si_query si = quiet_query_env \<and> enabled si ''SearchForTransactions'' ctx \<and> serves_trees si \<and>
     (let tf = transactions_filter (si, ctx, params) in
      SearchForTransactions_filter (si_sdk si) (si_opts si) (params\<lparr>stp_Next := None\<rparr>) = Inr tf \<and>
      tf_Limit tf \<noteq> 0 \<and> tf_GroupID tf = [] \<and> \<not> id_conflict tf))"

definition transactions_request ::
  "'j transactions_search \<Rightarrow> string option \<Rightarrow> http_error + model_Transaction list \<times> string option" where
  "transactions_request = (\<lambda>(si, ctx, params) next. page_pair (SearchForTransactions si ctx (params\<lparr>stp_Next := next\<rparr>)))"

abbreviation transactions_rows :: "'j transactions_search \<Rightarrow> 'j txn_row list" where
  "transactions_rows s \<equiv> found_trees (fst s) (transactions_filter s)"

abbreviation transactions_key :: "'j transactions_search \<Rightarrow> 'j txn_row \<Rightarrow> int \<times> int" where
  "transactions_key s \<equiv> tree_key (tf_Address (transactions_filter s) \<noteq> None) (si_codec (fst s))"

abbreviation transactions_token :: "'j transactions_search \<Rightarrow> 'j txn_row \<Rightarrow> string" where
  "transactions_token s \<equiv>
     tree_token (tf_Address (transactions_filter s) \<noteq> None) (si_sql (fst s)) (si_codec (fst s)) (si_txns (fst s))"

lemma params_filter_next:
  "params_filter env opts (params\<lparr>stp_Next := next\<rparr>) =
     (params_filter env opts (params\<lparr>stp_Next := None\<rparr>))\<lparr>tf_NextToken := strOrDefault next\<rparr>"
  by (simp add: params_filter_def zero_TransactionFilter_def Let_def)

lemma params_filter_plain:
  "tf_OffsetLT (params_filter env opts params) = None" "tf_OffsetGT (params_filter env opts params) = None"
  "\<not> tf_SkipInnerTransactionConversion (params_filter env opts params)"
  by (simp_all add: params_filter_def zero_TransactionFilter_def Let_def)

lemma SearchForTransactions_filter_next:
  assumes "SearchForTransactions_filter env opts (params\<lparr>stp_Next := None\<rparr>) = Inr tf"
  shows "SearchForTransactions_filter env opts (params\<lparr>stp_Next := next\<rparr>) = Inr (tf\<lparr>tf_NextToken := strOrDefault next\<rparr>)"
proof -
  have w: "well_formed env (params\<lparr>stp_Next := n\<rparr>) = well_formed env params" for n by (simp add: well_formed_def)
  have f: "database_safe (tf\<lparr>tf_NextToken := x\<rparr>) = database_safe tf" "rounds_consistent (tf\<lparr>tf_NextToken := x\<rparr>) = rounds_consistent tf"
    "address_consistent (tf\<lparr>tf_NextToken := x\<rparr>) = address_consistent tf" for x
    by (simp_all add: database_safe_def rounds_consistent_def address_consistent_def)
  show ?thesis
    using assms unfolding SearchForTransactions_filter_step params_filter_next [of env opts "next" params] w f by blast
qed

lemma txnFilterOptimization_token:
  "txnFilterOptimization (tf\<lparr>tf_NextToken := x\<rparr>) = (txnFilterOptimization tf)\<lparr>tf_NextToken := x\<rparr>"
  by (cases tf) (simp add: txnFilterOptimization_def zero_TransactionFilter_def Let_def)

lemma token_unchanged:
  "selected srv hs db (tf\<lparr>tf_NextToken := x\<rparr>) = selected srv hs db tf"
  "search_order (tf\<lparr>tf_NextToken := x\<rparr>) = search_order tf"
  "row_of_txn srv c hs db (tf\<lparr>tf_NextToken := x\<rparr>) = row_of_txn srv c hs db tf"
  "id_conflict (tf\<lparr>tf_NextToken := x\<rparr>) = id_conflict tf"
  "token_fits (tf\<lparr>tf_NextToken := x\<rparr>) r i = token_fits tf r i"
  "after_token (tf\<lparr>tf_NextToken := x\<rparr>) r i = after_token tf r i"
  by (auto simp: fun_eq_iff selected_def in_range_def of_account_def has_contents_def search_order_def row_of_txn_def
      txn_answer_def id_conflict_def token_fits_def after_token_def)

lemma found_row:
  assumes "t \<in> set (found_trees si tf)"
  shows "t \<in> set (tbl_txn (si_txns si))" "tf_SkipInnerTransactions (txnFilterOptimization tf) \<Longrightarrow> t_txid t \<noteq> None"
    "in_range (txnFilterOptimization tf) (tbl_block_header (si_tables si)) t"
  using assms by (auto simp: found_trees_def set_search selected_def has_contents_def)

lemma found_token_fits:
  assumes "t \<in> set (found_trees si tf)" "serves_trees si" "tf_OffsetLT tf = None" "tf_OffsetGT tf = None"
  shows "token_fits tf (t_round t) i"
proof -
  have "t_round t < - 1" using found_row(1) [OF assms(1)] assms(2) by (auto simp: serves_trees_def Let_def list_all_iff)
  moreover have "in_range tf (tbl_block_header (si_tables si)) t"
    using found_row(3) [OF assms(1)] by (auto simp: in_range_def txnFilterOptimization_def Let_def split: if_splits)
  ultimately show ?thesis using assms(3,4) by (auto simp: token_fits_def in_range_def given_def split: option.splits)
qed

text \<open>The rows of one page: the first ones, or those after the tree that a token stands for.\<close>

lemma transactions_rows_page:
  fixes si :: "'j api_env" and tf defines "key \<equiv> tree_key (tf_Address tf \<noteq> None) (si_codec si)"
  assumes "answers si rnd" "si_query si = quiet_query_env" "serves_trees si"
    and "tf_Limit tf \<noteq> 0" "tf_GroupID tf = []" "\<not> id_conflict tf" "tf_OffsetLT tf = None" "tf_OffsetGT tf = None"
    and "case next of None \<Rightarrow> rows = found_trees si tf
      | Some tok \<Rightarrow> \<exists>t \<in> set (found_trees si tf).
          tok = tree_token (tf_Address tf \<noteq> None) (si_sql si) (si_codec si) (si_txns si) t \<and>
          rows = filter (\<lambda>r. key t < key r) (found_trees si tf)"
  shows "Transactions (si_sql si) (si_query si) (si_codec si) (si_tables si) (si_txns si) (tf\<lparr>tf_NextToken := strOrDefault next\<rparr>) =
    (map (tree_row si (txnFilterOptimization tf)) (limit_or_all (tf_Limit tf) rows), rnd)"
proof -
  have sv: "searchable (tbl_block_header (si_tables si)) (si_txns si)" "readable (si_codec si) (si_txns si)"
    "list_all (\<lambda>t. t_round t \<noteq> 0) (tbl_txn (si_txns si))"
    and ct: "call_trees (si_sdk si) (si_sql si) (si_codec si) (si_txns si)"
    using assms(4) by (auto simp: serves_trees_def Let_def list_all_iff)
  have rnd: "getMaxRoundAccounted (si_codec si) (si_tables si) = Inr rnd" using assms(2) by (simp add: answers_def)
  let ?tf = "tf\<lparr>tf_NextToken := strOrDefault next\<rparr>"
  have fd: "found_trees si tf = search_order ?tf (filter (selected (si_sql si) (tbl_block_header (si_tables si)) (si_txns si)
      (txnFilterOptimization ?tf)) (tbl_txn (si_txns si)))"
    by (simp add: found_trees_def search_def txnFilterOptimization_token token_unchanged search_order_def optimized_unchanged)
  have tok: "\<exists>r i. (strOrDefault next \<noteq> [] \<longrightarrow> DecodeTxnRowNext (strOrDefault next) = Inr (r, i) \<and> token_fits ?tf r (ucast i)) \<and>
      (if strOrDefault next = [] then found_trees si tf else filter (after_token ?tf r (ucast i)) (found_trees si tf)) = rows"
  proof (cases "next")
    case None
    then show ?thesis using assms(10) by (simp add: strOrDefault_def)
  next
    case (Some n)
    then obtain t where t: "t \<in> set (found_trees si tf)" "n = tree_token (tf_Address tf \<noteq> None) (si_sql si) (si_codec si) (si_txns si) t"
      "rows = filter (\<lambda>r. key t < key r) (found_trees si tf)" using assms(10) by auto
    note dec = tree_token_decodes [OF ct found_row(1) [OF t(1)], of "tf_Address tf \<noteq> None"]
    let ?p = "if tf_Address tf \<noteq> None then root_intra (si_codec si) t else tree_end (si_sql si) (si_codec si) (si_txns si) t"
    have "after_token tf (t_round t) ?p r \<longleftrightarrow> key t < key r" if "r \<in> set (found_trees si tf)" for r
      using after_tree [OF ct found_row(1) [OF t(1)] found_row(1) [OF that], of tf]
      by (cases "tf_Address tf") (simp_all add: key_def)
    then have "filter (after_token tf (t_round t) ?p) (found_trees si tf) = rows" unfolding t(3) by (intro filter_cong) auto
    with dec found_token_fits [OF t(1) assms(4,8,9)] Some t(2) show ?thesis
      by (intro exI [of _ "t_round t"] exI [of _ "ucast ?p"]) (simp add: strOrDefault_def token_unchanged)
  qed
  then obtain r i where tok: "strOrDefault next \<noteq> [] \<longrightarrow> DecodeTxnRowNext (strOrDefault next) = Inr (r, i) \<and> token_fits ?tf r (ucast i)"
    "(if strOrDefault next = [] then found_trees si tf else filter (after_token ?tf r (ucast i)) (found_trees si tf)) = rows" by blast
  have "Transactions (si_sql si) quiet_query_env (si_codec si) (si_tables si) (si_txns si) ?tf =
    (map (row_of_txn (si_sql si) (si_codec si) (tbl_block_header (si_tables si)) (si_txns si) (txnFilterOptimization ?tf))
       (take (unat (tf_Limit tf)) rows), rnd)"
    using Transactions_page [OF sv(1,2) rnd, of ?tf r i "si_sql si"] assms(5-7) sv(3) tok(1)
    unfolding Let_def fd [symmetric] by (simp add: token_unchanged tok(2) [symmetric])
  then show ?thesis using assms(3,5) by (simp add: limit_or_all_def tree_row_def txnFilterOptimization_token token_unchanged)
qed

lemma transactions_page:
  fixes s :: "'j transactions_search"
  assumes "transactions_invar s"
    and "case next of None \<Rightarrow> rows = transactions_rows s
      | Some tok \<Rightarrow> \<exists>t \<in> set (transactions_rows s). tok = transactions_token s t \<and>
          rows = filter (\<lambda>r. transactions_key s t < transactions_key s r) (transactions_rows s)"
  shows "transactions_request s next =
    Inr (group_page (tree_shown (fst s) (txnFilterOptimization (transactions_filter s))) (transactions_token s) (transactions_key s)
      (tf_Limit (transactions_filter s)) rows)"
proof -
  obtain si ctx params where s: "s = (si, ctx, params)" by (cases s)
  define tf where "tf = transactions_filter s"
  let ?key = "tree_key (tf_Address tf \<noteq> None) (si_codec si)" and ?opt = "txnFilterOptimization tf"
  obtain rnd where inv: "answers si rnd" "si_query si = quiet_query_env" "enabled si ''SearchForTransactions'' ctx" "serves_trees si"
    "SearchForTransactions_filter (si_sdk si) (si_opts si) (params\<lparr>stp_Next := None\<rparr>) = Inr tf"
    "tf_Limit tf \<noteq> 0" "tf_GroupID tf = []" "\<not> id_conflict tf"
    using assms(1) by (auto simp: transactions_invar_def s tf_def Let_def)
  have plain: "tf_OffsetLT tf = None" "tf_OffsetGT tf = None" "\<not> tf_SkipInnerTransactionConversion tf"
    by (simp_all add: tf_def s transactions_filter_def params_filter_plain)
  have sub: "set rows \<subseteq> set (found_trees si tf)" and so: "sorted (map ?key rows)"
  proof -
    have ct: "call_trees (si_sdk si) (si_sql si) (si_codec si) (si_txns si)" using inv(4) by (simp add: serves_trees_def Let_def)
    have all: "sorted (map ?key (found_trees si tf))"
      using search_trees_sorted [OF ct, of ?opt] by (simp add: found_trees_def optimized_unchanged)
    then have "sorted (map ?key (filter P (found_trees si tf)))" for P by (rule sorted_filter)
    with assms(2) all show "set rows \<subseteq> set (found_trees si tf)" "sorted (map ?key rows)"
      by (auto simp: s tf_def split: option.splits)
  qed
  let ?ts = "limit_or_all (tf_Limit tf) rows" and ?tf = "tf\<lparr>tf_NextToken := strOrDefault next\<rparr>"
  have tr: "Transactions (si_sql si) (si_query si) (si_codec si) (si_tables si) (si_txns si) ?tf = (map (tree_row si ?opt) ?ts, rnd)"
    by (rule transactions_rows_page [OF inv(1,2,4,6,7,8) plain(1,2)]) (insert assms(2), unfold tf_def s fst_conv)
  have so': "sorted (map ?key ?ts)" using so by (simp add: limit_or_all_def take_map [symmetric] sorted_wrt_take)
  have found: "t \<in> set (tbl_txn (si_txns si)) \<and> (tf_SkipInnerTransactions ?opt \<longrightarrow> t_txid t \<noteq> None)" if "t \<in> set ?ts" for t
    using found_row(1,2) [OF subsetD [OF sub subsetD [OF set_limit_or_all that]]] by blast
  have opt: "\<not> tf_SkipInnerTransactionConversion ?opt" using plain(3) by (auto simp: txnFilterOptimization_def Let_def)
  have fetch: "fetchTransactions si ?tf =
    Inr (map (tree_shown si ?opt) (group_firsts ?key ?ts),
      if ?ts = [] then [] else tree_token (tf_Address tf \<noteq> None) (si_sql si) (si_codec si) (si_txns si) (last (group_firsts ?key ?ts)), rnd)"
    using fetch_trees [OF inv(4,1) tr _ opt found] plain(3) so' by simp
  have tokne: "tree_token d (si_sql si) (si_codec si) (si_txns si) t \<noteq> []" if "t \<in> set ?ts" for t d
    by (rule tree_token_decodes(3)) (use inv(4) found [OF that] in \<open>auto simp: serves_trees_def Let_def\<close>)
  have last: "last (group_firsts ?key ?ts) \<in> set ?ts" if "?ts \<noteq> []"
    using that set_firsts [of ?key None ?ts] last_in_set [of "group_firsts ?key ?ts"] by (cases ?ts) (auto simp: group_firsts_def)
  show ?thesis
    using SearchForTransactions_filter_next [OF inv(5), of "next"] fetch tokne last inv(3)
    by (auto simp: transactions_request_def s SearchForTransactions_def enabled_verify http_bind_def indexer_result_def page_pair_def
        group_page_def Let_def strPtr_def tf_def [unfolded s, symmetric])
qed

interpretation transactions_pages: grouped_search transactions_invar transactions_request transactions_rows transactions_key
  "\<lambda>s. tree_shown (fst s) (txnFilterOptimization (transactions_filter s))" transactions_token "\<lambda>s. tf_Limit (transactions_filter s)"
proof
  fix s :: "'a transactions_search" and r :: "'a txn_row" assume inv: "transactions_invar s"
  then have "call_trees (si_sdk (fst s)) (si_sql (fst s)) (si_codec (fst s)) (si_txns (fst s))"
    by (cases s) (simp add: transactions_invar_def serves_trees_def Let_def)
  from search_trees_sorted [OF this, of "txnFilterOptimization (transactions_filter s)"]
  show "sorted (map (transactions_key s) (transactions_rows s))" by (simp add: found_trees_def optimized_unchanged)
  show "transactions_request s None = Inr (group_page (tree_shown (fst s) (txnFilterOptimization (transactions_filter s)))
      (transactions_token s) (transactions_key s) (tf_Limit (transactions_filter s)) (transactions_rows s))"
    by (rule transactions_page [OF inv]) simp
  assume "r \<in> set (transactions_rows s)"
  then show "transactions_request s (Some (transactions_token s r)) =
    Inr (group_page (tree_shown (fst s) (txnFilterOptimization (transactions_filter s))) (transactions_token s) (transactions_key s)
      (tf_Limit (transactions_filter s)) (filter (\<lambda>r'. transactions_key s r < transactions_key s r') (transactions_rows s)))"
    by (intro transactions_page [OF inv]) auto
qed

lemma found_trees_sorted:
  assumes "serves_trees si"
  shows "sorted (map (tree_key (tf_Address tf \<noteq> None) (si_codec si)) (found_trees si tf))"
proof -
  have "call_trees (si_sdk si) (si_sql si) (si_codec si) (si_txns si)" using assms by (simp add: serves_trees_def Let_def)
  from search_trees_sorted [OF this, of "txnFilterOptimization tf"] show ?thesis by (simp add: found_trees_def optimized_unchanged)
qed

text \<open>A client that follows the tokens reads the trees of the rows that were found.\<close>

lemma follow_transactions:
  assumes "answers si rnd" "si_query si = quiet_query_env" "enabled si ''SearchForTransactions'' ctx" "serves_trees si"
    and "SearchForTransactions_filter (si_sdk si) (si_opts si) (params\<lparr>stp_Next := None\<rparr>) = Inr tf"
    and "tf_Limit tf \<noteq> 0" "tf_GroupID tf = []" "\<not> id_conflict tf" and "length (found_trees si tf) < fuel"
  shows "follow_pages (\<lambda>next. page_pair (SearchForTransactions si ctx (params\<lparr>stp_Next := next\<rparr>))) fuel None =
      Some (Inr (map (tree_shown si (txnFilterOptimization tf))
        (group_firsts (tree_key (tf_Address tf \<noteq> None) (si_codec si)) (found_trees si tf))))"
    and "t \<in> set (found_trees si tf) \<Longrightarrow>
      txn_id (tree_shown si (txnFilterOptimization tf) t) = shown_id (si_sdk si) (si_sql si) (si_codec si) (si_txns si) t"
proof -
  let ?s = "(si, ctx, params)"
  have f: "transactions_filter ?s = tf" using assms(5) by (simp add: transactions_filter_def SearchForTransactions_filter_step)
  have "transactions_invar ?s" using assms by (auto simp: transactions_invar_def f Let_def)
  from transactions_pages.follow_all [OF this, of fuel] assms(9)
  show "follow_pages (\<lambda>next. page_pair (SearchForTransactions si ctx (params\<lparr>stp_Next := next\<rparr>))) fuel None =
      Some (Inr (map (tree_shown si (txnFilterOptimization tf))
        (group_firsts (tree_key (tf_Address tf \<noteq> None) (si_codec si)) (found_trees si tf))))"
    by (simp add: f transactions_request_def)
  have "\<not> tf_SkipInnerTransactionConversion (txnFilterOptimization tf)"
    using params_filter_plain(3) f [symmetric] by (auto simp: txnFilterOptimization_def Let_def transactions_filter_def)
  then show "t \<in> set (found_trees si tf) \<Longrightarrow>
      txn_id (tree_shown si (txnFilterOptimization tf) t) = shown_id (si_sdk si) (si_sql si) (si_codec si) (si_txns si) t"
    using tree_shown_id(2) [OF assms(4) found_row(1) _ found_row(2)] by blast
qed

text \<open>C4: whoever searches for transactions page by page, following the tokens, gets every call tree with a
  matching transaction exactly once, as its root, oldest first, or newest first in the transactions of
  an account; a tree whose rows are spread over several pages is not repeated, and one request more
  than there are matching rows always suffices.\<close>

theorem SearchForTransactions_pages:
  assumes "answers si rnd" "si_query si = quiet_query_env" "enabled si ''SearchForTransactions'' ctx" "serves_trees si"
    and "SearchForTransactions_filter (si_sdk si) (si_opts si) (params\<lparr>stp_Next := None\<rparr>) = Inr tf"
    and "tf_Limit tf \<noteq> 0" "tf_GroupID tf = []" "\<not> id_conflict tf" and "length (found_trees si tf) < fuel"
  shows "\<exists>txns. follow_pages (\<lambda>next. page_pair (SearchForTransactions si ctx (params\<lparr>stp_Next := next\<rparr>))) fuel None = Some (Inr txns) \<and>
    txns = map (tree_shown si (txnFilterOptimization tf))
      (group_firsts (tree_key (tf_Address tf \<noteq> None) (si_codec si)) (found_trees si tf)) \<and>
    distinct (map txn_id txns) \<and>
    set (map txn_id txns) = shown_id (si_sdk si) (si_sql si) (si_codec si) (si_txns si) ` set (found_trees si tf)"
proof -
  let ?key = "tree_key (tf_Address tf \<noteq> None) (si_codec si)"
  let ?id = "shown_id (si_sdk si) (si_sql si) (si_codec si) (si_txns si)"
  let ?fs = "group_firsts ?key (found_trees si tf)"
  let ?txns = "map (tree_shown si (txnFilterOptimization tf)) ?fs"
  note follow = follow_transactions [OF assms]
  have ct: "call_trees (si_sdk si) (si_sql si) (si_codec si) (si_txns si)" using assms(4) by (simp add: serves_trees_def Let_def)
  have sub: "set ?fs \<subseteq> set (found_trees si tf)" by (simp add: group_firsts_def set_firsts)
  have same: "?id t = ?id t' \<longleftrightarrow> ?key t = ?key t'" if "t \<in> set (found_trees si tf)" "t' \<in> set (found_trees si tf)" for t t'
    by (rule call_trees_pair(1) [OF ct]) (use found_row(1) that in blast)+
  have ids: "map txn_id ?txns = map ?id ?fs" using follow(2) sub by auto
  note once = group_firsts_once(1) [OF found_trees_sorted [OF assms(4), of tf]] group_firsts_once(2) [of ?key "found_trees si tf"]
  have "distinct (map ?id ?fs)"
    using once(1) sub same unfolding distinct_map inj_on_def by (meson subsetD)
  moreover have "?id ` set ?fs = ?id ` set (found_trees si tf)"
  proof
    show "?id ` set (found_trees si tf) \<subseteq> ?id ` set ?fs"
    proof
      fix x assume "x \<in> ?id ` set (found_trees si tf)"
      then obtain t where t: "t \<in> set (found_trees si tf)" "x = ?id t" by blast
      then have "?key t \<in> ?key ` set ?fs" unfolding once(2) by blast
      then obtain u where u: "u \<in> set ?fs" "?key t = ?key u" by blast
      with same [OF t(1) subsetD [OF sub u(1)]] t(2) show "x \<in> ?id ` set ?fs" by blast
    qed
  qed (use sub in blast)
  ultimately show ?thesis using follow(1) ids by (metis list.set_map)
qed

section \<open>Examples\<close>

text \<open>Two blocks of an account: a call with an inner transaction, both of them the account's, then one
  transaction. Transactions are named by their genesis identifier.\<close>

definition named_txn :: "string \<Rightarrow> SignedTxnWithAD list \<Rightarrow> SignedTxnWithAD" where
  "named_txn name its =
     MkSignedTxnWithAD (zero_SignedTxn\<lparr>Txn := zero_Transaction\<lparr>Header := zero_Header\<lparr>GenesisID := name\<rparr>\<rparr>\<rparr>)
       (MkApplyData 0 0 0 0 0 (MkEvalDelta fmempty fmempty [] [] its) 0 0)"

definition named_row :: "uint64 \<Rightarrow> uint64 \<Rightarrow> string option \<Rightarrow> SignedTxnWithAD \<Rightarrow> TxnExtra \<Rightarrow> document txn_row" where
  "named_row r i txid txn extra =
     \<lparr>t_round = r, t_intra = i, t_typeenum = TypeEnumPay, t_asset = 0, t_txid = txid,
      t_txn = EncodeSignedTxnWithAD example_codec txn, t_extra = EncodeTxnExtra example_codec extra\<rparr>"

definition holder :: Address where "holder = replicate 32 (CHR ''a'')"

definition row_A :: "document txn_row" where
  "row_A = named_row 1 0 (Some ''A'') (named_txn ''A'' [named_txn ''I'' []]) zero_TxnExtra"

definition row_I :: "document txn_row" where
  "row_I = named_row 1 1 None (named_txn ''I'' []) (zero_TxnExtra\<lparr>RootIntra := \<lparr>Present = True, Value = 0\<rparr>, RootTxid := ''A''\<rparr>)"

definition row_B :: "document txn_row" where
  "row_B = named_row 2 0 (Some ''B'') (named_txn ''B'' []) zero_TxnExtra"

definition trees_db :: "document txn_tables" where
  "trees_db =
     \<lparr>tbl_txn = [row_A, row_I, row_B],
      tbl_txn_participation = map (\<lambda>(r, i). \<lparr>tp_addr = holder, tp_round = r, tp_intra = i\<rparr>) [(1, 0), (1, 1), (2, 0)]\<rparr>"

definition trees_sdk :: sdk where
  "trees_sdk = example_sdk\<lparr>TransactionIDString := (\<lambda>txn. GenesisID (Header txn))\<rparr>"

definition trees_api :: "document api_env" where
  "trees_api = example_api\<lparr>si_sdk := trees_sdk, si_tables := example_search_tables, si_txns := trees_db\<rparr>"

lemma trees_api_simps:
  "si_sdk trees_api = trees_sdk" "si_codec trees_api = example_codec" "si_sql trees_api = example_server"
  "si_txns trees_api = trees_db" "si_tables trees_api = example_search_tables" "si_query trees_api = quiet_query_env"
  "si_opts trees_api = example_options" "si_disabledParams trees_api = None" "si_call trees_api = si_call example_api"
  by (simp_all add: trees_api_def example_api_def)

lemma trees_api_answers: "answers trees_api 2"
  using example_api_answers by (simp add: answers_def trees_api_simps quiet_query_env_def example_search_round)

lemma example_decodes [simp]:
  "DecodeSignedTxnWithAD example_codec (EncodeSignedTxnWithAD example_codec s) = Inr s"
  "DecodeTxnExtra example_codec (EncodeTxnExtra example_codec x) = Inr x"
  by (simp_all add: EncodeSignedTxnWithAD_def DecodeSignedTxnWithAD_def EncodeTxnExtra_def DecodeTxnExtra_def example_codec_def
      unconvert_convertSignedTxnWithAD)

lemma example_root_intra [simp]:
  "json_num example_server [''root-intra''] (EncodeTxnExtra example_codec x) =
     (if Present (RootIntra x) then Some (uint (Value (RootIntra x))) else None)"
  by (simp add: example_server_def EncodeTxnExtra_def example_codec_def)

lemmas tree_rows = row_A_def row_I_def row_B_def named_row_def zero_TxnExtra_def zero_OptionalUint_def

lemma trees_rows: "tbl_txn trees_db = [row_A, row_I, row_B]" by (simp add: trees_db_def)

lemma trees_root_of:
  "root_of example_server trees_db row_A = None" "root_of example_server trees_db row_B = None"
  "root_of example_server trees_db row_I = Some (t_txn row_A)"
  by (simp_all add: root_of_def trees_db_def tree_rows)

lemma trees_shown:
  "shown_txn example_server example_codec trees_db row_A = named_txn ''A'' [named_txn ''I'' []]"
  "shown_txn example_server example_codec trees_db row_I = named_txn ''A'' [named_txn ''I'' []]"
  "shown_txn example_server example_codec trees_db row_B = named_txn ''B'' []"
  by (simp_all add: shown_txn_def reported_def trees_root_of) (simp_all add: tree_rows)

lemma trees_offsets:
  "root_intra example_codec row_A = 0" "root_intra example_codec row_I = 0" "root_intra example_codec row_B = 0"
  "tree_end example_server example_codec trees_db row_A = 1" "tree_end example_server example_codec trees_db row_I = 1"
  "tree_end example_server example_codec trees_db row_B = 0"
  "t_round row_A = 1" "t_round row_I = 1" "t_round row_B = 2" "t_intra row_A = 0" "t_intra row_I = 1" "t_intra row_B = 0"
  "shown_id trees_sdk example_server example_codec trees_db row_A = ''A''"
  "shown_id trees_sdk example_server example_codec trees_db row_I = ''A''"
  "shown_id trees_sdk example_server example_codec trees_db row_B = ''B''"
proof -
  show r: "root_intra example_codec row_A = 0" "root_intra example_codec row_I = 0" "root_intra example_codec row_B = 0"
    by (simp_all add: root_intra_def txn_extra_def tree_rows)
  show "tree_end example_server example_codec trees_db row_A = 1" "tree_end example_server example_codec trees_db row_I = 1"
    "tree_end example_server example_codec trees_db row_B = 0"
    by (simp_all add: tree_end_def r trees_shown named_txn_def)
  show "shown_id trees_sdk example_server example_codec trees_db row_A = ''A''"
    "shown_id trees_sdk example_server example_codec trees_db row_I = ''A''"
    "shown_id trees_sdk example_server example_codec trees_db row_B = ''B''"
    by (simp_all add: shown_id_def trees_shown) (simp_all add: txn_extra_def tree_rows trees_sdk_def named_txn_def)
qed (simp_all add: tree_rows)

lemma trees_served: "serves_trees trees_api"
proof -
  have "searchable example_header_rows trees_db"
    by (simp add: searchable_def key_unique_def trees_db_def tree_rows example_header_rows_def)
  moreover have "readable example_codec trees_db" "rooted example_server trees_db"
    by (simp_all add: readable_def rooted_def trees_db_def tree_rows)
  moreover have "call_trees trees_sdk example_server example_codec trees_db"
    unfolding call_trees_def trees_rows by (simp add: trees_offsets trees_apart_def)
  moreover have "renderable (named_txn name its)" for name its
    by (simp add: renderable_def named_txn_def zero_Transaction_def ApplicationCallTx_def)
  moreover have "descendants (named_txn ''A'' [named_txn ''I'' []]) = [named_txn ''I'' []]" "descendants (named_txn ''B'' []) = []"
    by (simp_all add: named_txn_def)
  moreover have "(1 :: uint64) < - 1" "(2 :: uint64) < - 1" by code_simp+
  ultimately show ?thesis
    unfolding serves_trees_def Let_def trees_api_simps example_search_headers
    by (simp add: trees_rows trees_offsets trees_shown)
qed

definition holder_search :: SearchForTransactionsParams where
  "holder_search = no_params\<lparr>stp_Address := Some holder, stp_Limit := Some 1\<rparr>"

definition holder_filter :: TransactionFilter where
  "holder_filter = zero_TransactionFilter\<lparr>tf_Address := Some holder, tf_Limit := 1\<rparr>"

lemma holder_params_filter: "params_filter trees_sdk example_options holder_search = holder_filter"
  by (simp add: params_filter_def holder_search_def holder_filter_def no_params_def zero_TransactionFilter_def trees_sdk_def
      example_sdk_def strOrDefault_def uintOrDefault_def uintOrDefaultValue_def min_u64_def example_options_def role_mask_def
      decodeAddressRole_def type_value_def decodeType_def base64_value_def decodeBase64Byte_def group_value_def decodeGroupID_def
      timeOrZero_def Let_def)

lemma holder_search_filter:
  "SearchForTransactions_filter trees_sdk example_options (holder_search\<lparr>stp_Next := None\<rparr>) = Inr holder_filter"
proof -
  have "holder_search\<lparr>stp_Next := None\<rparr> = holder_search" by (simp add: holder_search_def no_params_def)
  moreover have "well_formed trees_sdk holder_search"
    by (simp add: well_formed_def holder_search_def no_params_def address_ok_def trees_sdk_def example_sdk_def)
  moreover have "database_safe holder_filter" "rounds_consistent holder_filter" "address_consistent holder_filter"
    by (simp_all add: holder_filter_def zero_TransactionFilter_def database_safe_def rounds_consistent_def address_consistent_def)
  ultimately show ?thesis unfolding SearchForTransactions_filter_step by (simp add: holder_params_filter)
qed

lemma holder_filter_opt: "txnFilterOptimization holder_filter = holder_filter"
  by (simp add: txnFilterOptimization_def holder_filter_def zero_TransactionFilter_def Let_def)

lemma holder_found: "found_trees trees_api holder_filter = [row_B, row_I, row_A]"
proof -
  have "selected srv hs trees_db holder_filter t \<longleftrightarrow> (holder, t_round t, t_intra t) \<in> {(holder, 1, 0), (holder, 1, 1), (holder, 2, 0)}" for srv hs t
    by (simp add: selected_def in_range_def of_account_def has_contents_def holder_filter_def zero_TransactionFilter_def
        time_IsZero_def trees_db_def)
  then have "filter (selected srv hs trees_db holder_filter) [row_A, row_I, row_B] = [row_A, row_I, row_B]" for srv hs
    by (simp add: trees_offsets)
  moreover have "tf_Address holder_filter = Some holder" by (simp add: holder_filter_def)
  ultimately show ?thesis
    unfolding found_trees_def holder_filter_opt search_def trees_api_simps trees_rows search_order_def by (simp add: trees_offsets)
qed

theorem SearchForTransactions_pages_witness:
  "\<exists>txns. follow_pages (\<lambda>next. page_pair (SearchForTransactions trees_api (example_request ''x'') (holder_search\<lparr>stp_Next := next\<rparr>))) 4 None =
     Some (Inr txns) \<and> map txn_id txns = [''B'', ''A'']"
proof -
  have e: "enabled trees_api ''SearchForTransactions'' ctx" for ctx by (simp add: enabled_def Verify_def trees_api_simps)
  have g: "group_firsts (tree_key True example_codec) [row_B, row_I, row_A] = [row_B, row_I]"
    by (simp add: group_firsts_def tree_key_def trees_offsets)
  have i: "txn_id (tree_shown trees_api holder_filter t) = shown_id trees_sdk example_server example_codec trees_db t"
    if "t \<in> {row_B, row_I}" for t
    using that tree_shown_id(2) [OF trees_served, of t holder_filter]
    by (auto simp: trees_api_simps trees_rows holder_filter_def zero_TransactionFilter_def)
  show ?thesis
    using SearchForTransactions_pages [OF trees_api_answers _ e trees_served, of holder_search holder_filter 4 "example_request ''x''"]
      holder_search_filter i [of row_B] i [of row_I]
    by (simp add: trees_api_simps holder_found holder_filter_opt g trees_offsets)
      (simp add: holder_filter_def zero_TransactionFilter_def id_conflict_def g trees_offsets)
qed

end
