(* ===== verification/BlockLaws.thy ===== *)
theory BlockLaws
  imports TxnPaging
begin

text \<open>
  What the endpoints for blocks and for one transaction answer: a block with its transactions, the search
  for block headers page by page, a transaction by its identifier. The last section is about the page
  tokens of application logs.
\<close>

section \<open>A block\<close>

lemma block_error_cause [simp]:
  "err_cause MaxTransactionsError = MaxTransactionsError" "err_cause ErrorBlockNotFound = ErrorBlockNotFound"
  "errors_Is ErrorBlockNotFound ErrorBlockNotFound"
  by (simp_all add: errors_Is_def)

lemma res_map_all: "(\<And>x. x \<in> set xs \<Longrightarrow> f x = Inr (g x)) \<Longrightarrow> res_map f xs = Inr (map g xs)"
  by (induction xs) simp_all

lemma block_txn_row_renderable:
  assumes "s = projr (DecodeSignedTxnWithAD c (t_txn t))" "list_all renderable (s # descendants s)"
  shows "row_renderable (block_txn_row c hs t)"
  using assms by (simp add: row_renderable_def block_txn_row_def row_txn_def)

text \<open>The transactions and the header of the block can be shown.\<close>

definition block_renderable :: "'j api_env \<Rightarrow> uint64 \<Rightarrow> BlockHeader \<Rightarrow> bool" where
  "block_renderable si rnd hdr \<longleftrightarrow>
     header_renderable hdr \<and>
     list_all (\<lambda>t. let s = projr (DecodeSignedTxnWithAD (si_codec si) (t_txn t)) in list_all renderable (s # descendants s))
       (block_roots (si_txns si) rnd)"

text \<open>C7: a block is answered with its header and exactly its root transactions in the order of the block,
  each shown with its inner transactions, or with no transactions when only the header is asked for; a
  block that is not there is not found, one with more transactions than the server allows is refused,
  and so is a round beyond the range of the database.\<close>

theorem LookupBlock_correct:
  assumes "answers si acc" "si_query si = quiet_query_env" "enabled si ''LookupBlock'' ctx"
    and "searchable (tbl_block_header (si_tables si)) (si_txns si)" "readable (si_codec si) (si_txns si)"
    and "eo_MaxTransactionsLimit (si_opts si) < - 1"
    and "\<forall>h. lookup_row bhr_round rnd (tbl_block_header (si_tables si)) = Some h \<longrightarrow>
      DecodeBlockHeader (si_codec si) (bhr_header h) = Inr hdr"
    and "block_renderable si rnd hdr"
  shows "LookupBlock si ctx rnd headerOnly =
    (if rnd > MaxInt64 then Inl (NotFound errValueExceedingInt64)
     else if lookup_row bhr_round rnd (tbl_block_header (si_tables si)) = None then Inl (NotFound errLookingUpBlockForRound)
     else if headerOnly = Some True then Inr ((render_header (si_sdk si) hdr)\<lparr>mb_Transactions := Some []\<rparr>)
     else if length (block_roots (si_txns si) rnd) > unat (eo_MaxTransactionsLimit (si_opts si))
     then Inl (BadRequest errTransactionsLimitReached)
     else Inr ((render_header (si_sdk si) hdr)
       \<lparr>mb_Transactions := Some (map (\<lambda>t. render_txn (si_sdk si) (IsPrint (si_codec si))
          (block_txn_row (si_codec si) (tbl_block_header (si_tables si)) t)) (block_roots (si_txns si) rnd))\<rparr>))"
proof -
  let ?opts = "\<lparr>gbo_Transactions = (\<not> boolOrDefault headerOnly), MaxTransactionsLimit = eo_MaxTransactionsLimit (si_opts si)\<rparr>"
  let ?row = "block_txn_row (si_codec si) (tbl_block_header (si_tables si))"
  have h: "boolOrDefault headerOnly \<longleftrightarrow> headerOnly = Some True" "boolOrDefault (Some True)"
    by (cases headerOnly; simp add: boolOrDefault_def)+
  note block = GetBlock_correct [OF assms(4,5), of ?opts rnd hdr "si_sql si", simplified, OF assms(6,7)]
  have hdr: "hdrRowToBlock (si_sdk si) hdr = Inr (render_header (si_sdk si) hdr)"
    using assms(8) by (simp add: block_renderable_def hdrRowToBlock_renderable)
  have "render_row si (?row t) = Inr (render_txn (si_sdk si) (IsPrint (si_codec si)) (?row t))"
    if "t \<in> set (block_roots (si_txns si) rnd)" for t
    unfolding render_row_def
    by (rule txnRowToTransaction_renderable(1), rule block_txn_row_renderable [OF refl])
      (use assms(8) that in \<open>auto simp: block_renderable_def list_all_iff Let_def\<close>)
  then have rows: "res_map (render_row si) (map ?row (block_roots (si_txns si) rnd)) =
      Inr (map (\<lambda>t. render_txn (si_sdk si) (IsPrint (si_codec si)) (?row t)) (block_roots (si_txns si) rnd))"
    using res_map_all [of "map ?row (block_roots (si_txns si) rnd)" "render_row si"
        "render_txn (si_sdk si) (IsPrint (si_codec si))"] by (auto simp: comp_def)
  show ?thesis
    unfolding LookupBlock_def fetchBlock_def answers_call [OF assms(1)] assms(2) block enabled_verify [OF assms(3)]
    by (auto simp: hdr rows h)
qed

lemma trees_block_roots: "block_roots trees_db 1 = [row_A]"
  by (simp add: block_roots_def trees_rows) (simp add: tree_rows)

theorem LookupBlock_correct_witness:
  "case LookupBlock trees_api (example_request ''x'') 1 None of
     Inl _ \<Rightarrow> False
   | Inr b \<Rightarrow> map_option (map txn_id) (mb_Transactions b) = Some [''A'']"
proof -
  have h: "\<exists>h. lookup_row bhr_round 1 example_header_rows = Some h" "\<forall>h. lookup_row bhr_round 1 example_header_rows = Some h \<longrightarrow>
      DecodeBlockHeader example_codec (bhr_header h) = Inr zero_BlockHeader"
    by (simp_all add: example_header_rows_def example_header_decodes)
  have sv: "searchable example_header_rows trees_db" "readable example_codec trees_db"
    using trees_served unfolding serves_trees_def Let_def trees_api_simps example_search_headers by blast+
  have a: "projr (DecodeSignedTxnWithAD example_codec (t_txn row_A)) = named_txn ''A'' [named_txn ''I'' []]"
    by (simp add: tree_rows)
  have r: "list_all renderable (named_txn ''A'' [named_txn ''I'' []] # descendants (named_txn ''A'' [named_txn ''I'' []]))"
    by (simp add: renderable_def named_txn_def zero_Transaction_def ApplicationCallTx_def)
  have b: "block_renderable trees_api 1 zero_BlockHeader"
    using r by (simp add: block_renderable_def trees_api_simps trees_block_roots a header_renderable_def zero_BlockHeader_def)
  have i: "txn_id (render_txn trees_sdk (IsPrint example_codec) (block_txn_row example_codec hs row_A)) = ''A''" for hs
    using txnRowToTransaction_renderable(2) [OF block_txn_row_renderable [OF a [symmetric] r]]
    by (simp add: txn_id_def block_txn_row_def row_txn_def row_txid_def a) (simp add: tree_rows trees_sdk_def named_txn_def)
  have m: "(1000 :: uint64) < - 1" "\<not> MaxInt64 < (1 :: uint64)" by code_simp+
  show ?thesis
    using LookupBlock_correct [OF trees_api_answers, of "example_request ''x''" 1 zero_BlockHeader None] h sv b i m
    unfolding trees_api_simps example_search_headers trees_block_roots
    by (simp add: enabled_def Verify_def trees_api_simps example_options_def)
qed

section \<open>Block headers\<close>

text \<open>A page token raises the lower bound of the rounds and leaves the rest of the filter alone.\<close>

lemma blockParamsToBlockFilter_next:
  assumes "DecodeBlockRowNext tok = Inr n"
  shows "blockParamsToBlockFilter env opts (params\<lparr>sbh_Next := Some tok\<rparr>) =
    map_sum id (\<lambda>bf. bf\<lparr>bf_MinRound := fst (merge_next (params\<lparr>sbh_Next := Some tok\<rparr>))\<rparr>)
      (blockParamsToBlockFilter env opts (params\<lparr>sbh_Next := None\<rparr>))"
proof -
  have "snd (merge_next (params\<lparr>sbh_Next := Some tok\<rparr>)) = []" using assms by (simp add: merge_next_def)
  then obtain mr where m: "merge_next (params\<lparr>sbh_Next := Some tok\<rparr>) = (mr, [])" by (metis surjective_pairing)
  have m0: "merge_next (params\<lparr>sbh_Next := None\<rparr>) = (sbh_MinRound params, [])" by (simp add: merge_next_def)
  have o: "round_order_errors (params\<lparr>sbh_Next := x\<rparr>) = round_order_errors params"
    "participation_errors opts (params\<lparr>sbh_Next := x\<rparr>) = participation_errors opts params" for x
    by (simp_all add: round_order_errors_def participation_errors_def)
  show ?thesis
    unfolding blockParamsToBlockFilter_def Let_def m m0 o by (simp split: prod.split)
qed

lemma SearchForBlockHeaders_filter_next:
  assumes "SearchForBlockHeaders_filter env opts (params\<lparr>sbh_Next := None\<rparr>) = Inr bf"
    and "DecodeBlockRowNext tok = Inr n" "n < MaxInt64"
  shows "\<exists>bf'. SearchForBlockHeaders_filter env opts (params\<lparr>sbh_Next := Some tok\<rparr>) = Inr bf'"
proof -
  have b: "blockParamsToBlockFilter env opts (params\<lparr>sbh_Next := None\<rparr>) = Inr bf" "validateBlockFilter bf = Inr ()"
    using assms(1) by (auto simp: SearchForBlockHeaders_filter_def bad_request_def res_bind_def split: sum.splits)
  have "bf_MinRound bf = sbh_MinRound params"
    using blockParamsToBlockFilter_Inr(1) [OF b(1)] by (simp add: filter_of_params_def merge_next_def)
  moreover have "\<not> exceeds (bf_MinRound bf)" using b(2) by (auto simp: validateBlockFilter_def Let_def split: if_splits)
  moreover have "n + 1 \<le> MaxInt64" using assms(3) by uint_arith
  ultimately have "\<not> exceeds (fst (merge_next (params\<lparr>sbh_Next := Some tok\<rparr>)))"
    using assms(2) by (auto simp: merge_next_def exceeds_def not_less max_def split: option.splits)
  with b(2) have "validateBlockFilter (bf\<lparr>bf_MinRound := fst (merge_next (params\<lparr>sbh_Next := Some tok\<rparr>))\<rparr>) = Inr ()"
    by (simp add: validateBlockFilter_def Let_def split: if_splits)
  then show ?thesis
    unfolding SearchForBlockHeaders_filter_def blockParamsToBlockFilter_next [OF assms(2)] b(1)
    by (simp add: bad_request_def)
qed

type_synonym 'j headers_search = "'j api_env \<times> request \<times> SearchForBlockHeadersParams"

abbreviation headers_limit :: "'j headers_search \<Rightarrow> uint64" where
  "headers_limit s \<equiv> (case s of (si, ctx, params) \<Rightarrow>
     min_u64 (uintOrDefaultValue (sbh_Limit params) (DefaultBlocksLimit (si_opts si))) (MaxBlocksLimit (si_opts si)))"

definition headers_rows :: "'j headers_search \<Rightarrow> 'j block_header_row list" where
  "headers_rows = (\<lambda>(si, ctx, params).
     sort_key bhr_round (filter (requested (si_sdk si) (si_codec si) (params\<lparr>sbh_Next := None\<rparr>)) (tbl_block_header (si_tables si))))"

definition header_shown :: "'j api_env \<Rightarrow> 'j block_header_row \<Rightarrow> model_Block" where
  "header_shown si h = render_header (si_sdk si) (header_of (si_codec si) h)"

definition header_token :: "'j block_header_row \<Rightarrow> string" where
  "header_token h = b64_encode url_alphabet (PutUint64 (bhr_round h))"

text \<open>The stored headers: readable, each in the row of its round, in the range of the database, and with
  state proofs that can be shown.\<close>

definition headers_served :: "'j api_env \<Rightarrow> bool" where
  "headers_served si \<longleftrightarrow>
     (let hs = tbl_block_header (si_tables si) in
      headers_ordered hs \<and> reads_headers (si_headers si) (si_sdk si) (si_codec si) hs \<and> inj (AddressString (si_sdk si)) \<and>
      list_all (\<lambda>h. bhr_round h < MaxInt64 \<and> bh_Round (header_of (si_codec si) h) = bhr_round h \<and>
        header_renderable (header_of (si_codec si) h)) hs)"

definition headers_invar :: "'j headers_search \<Rightarrow> bool" where
  "headers_invar = (\<lambda>(si, ctx, params).
     (\<exists>rnd. answers si rnd) \<and> si_query si = quiet_query_env \<and> enabled si ''SearchForBlockHeaders'' ctx \<and> headers_served si \<and>
     headers_limit (si, ctx, params) \<noteq> 0 \<and>
     (\<exists>bf. SearchForBlockHeaders_filter (si_sdk si) (si_opts si) (params\<lparr>sbh_Next := None\<rparr>) = Inr bf))"

definition headers_request :: "'j headers_search \<Rightarrow> string option \<Rightarrow> http_error + model_Block list \<times> string option" where
  "headers_request = (\<lambda>(si, ctx, params) next. page_pair (SearchForBlockHeaders si ctx (params\<lparr>sbh_Next := next\<rparr>)))"

lemma headers_loop_all:
  assumes "\<And>h. h \<in> set hs \<Longrightarrow> hdrRowToBlock env (header h) = Inr (f h)"
  shows "headers_loop env (map (\<lambda>h. \<lparr>br_BlockHeader = header h, br_Error = None\<rparr>) hs) results lastRow =
    Inr (results @ map f hs, if hs = [] then lastRow else Some \<lparr>br_BlockHeader = header (last hs), br_Error = None\<rparr>)"
  using assms by (induction hs arbitrary: results lastRow) auto

lemma header_token_decodes: "DecodeBlockRowNext (header_token h) = Inr (bhr_round h)" "header_token h \<noteq> []"
proof -
  show d: "DecodeBlockRowNext (header_token h) = Inr (bhr_round h)" by (simp add: DecodeBlockRowNext_def header_token_def)
  have "isl (DecodeBlockRowNext [])"
    by (simp add: DecodeBlockRowNext_def b64_decode_def res_bind_def res_wrap_def split: sum.split)
  with d show "header_token h \<noteq> []" by (metis sum.disc(2))
qed

lemma headers_page:
  fixes s :: "'j headers_search"
  assumes "headers_invar s"
    and "case next of None \<Rightarrow> rows = headers_rows s
      | Some tok \<Rightarrow> \<exists>h \<in> set (headers_rows s). tok = header_token h \<and> rows = filter (\<lambda>r. bhr_round h < bhr_round r) (headers_rows s)"
  shows "headers_request s next = Inr (first_page (header_shown (fst s)) header_token (headers_limit s) rows)"
proof -
  obtain si ctx params where s: "s = (si, ctx, params)" by (cases s)
  let ?l = "headers_limit s" and ?p = "params\<lparr>sbh_Next := next\<rparr>" and ?hs = "tbl_block_header (si_tables si)"
  let ?ts = "limit_or_all ?l rows"
  obtain rnd bf where inv: "answers si rnd" "si_query si = quiet_query_env" "enabled si ''SearchForBlockHeaders'' ctx" "headers_served si"
    "?l \<noteq> 0" "SearchForBlockHeaders_filter (si_sdk si) (si_opts si) (params\<lparr>sbh_Next := None\<rparr>) = Inr bf"
    using assms(1) by (auto simp: headers_invar_def s)
  have sv: "headers_ordered ?hs" "reads_headers (si_headers si) (si_sdk si) (si_codec si) ?hs" "inj (AddressString (si_sdk si))"
    and row: "\<And>h. h \<in> set ?hs \<Longrightarrow> bhr_round h < MaxInt64 \<and> bh_Round (header_of (si_codec si) h) = bhr_round h \<and>
        header_renderable (header_of (si_codec si) h)"
    using inv(4) by (auto simp: headers_served_def Let_def list_all_iff)
  have rnd: "getMaxRoundAccounted (si_codec si) (si_tables si) = Inr rnd" using inv(1) by (simp add: answers_def)
  have all: "set (headers_rows s) \<subseteq> set ?hs" by (auto simp: headers_rows_def s)
  have req: "requested env c (params\<lparr>sbh_Next := Some (header_token h)\<rparr>) =
      (\<lambda>r. requested env c (params\<lparr>sbh_Next := None\<rparr>) r \<and> bhr_round h < bhr_round r)" for env and c :: "'j codec" and h :: "'j block_header_row"
    by (auto simp: fun_eq_iff requested_def header_token_decodes)
  have found: "\<exists>bf'. SearchForBlockHeaders_filter (si_sdk si) (si_opts si) ?p = Inr bf' \<and>
      given (\<lambda>s. DecodeBlockRowNext s \<noteq> Inr (- 1)) (sbh_Next ?p) \<and>
      sort_key bhr_round (filter (requested (si_sdk si) (si_codec si) ?p) ?hs) = rows"
  proof (cases "next")
    case None
    then show ?thesis using assms(2) inv(6) by (simp add: headers_rows_def s)
  next
    case (Some tok)
    then obtain h where h: "h \<in> set (headers_rows s)" "tok = header_token h" "rows = filter (\<lambda>r. bhr_round h < bhr_round r) (headers_rows s)"
      using assms(2) by auto
    have "bhr_round h < MaxInt64" using row h(1) all by blast
    then have "bhr_round h \<noteq> - 1" by (auto simp: MaxInt64_def)
    moreover obtain bf' where "SearchForBlockHeaders_filter (si_sdk si) (si_opts si) (params\<lparr>sbh_Next := Some tok\<rparr>) = Inr bf'"
      using SearchForBlockHeaders_filter_next [OF inv(6) header_token_decodes(1) \<open>bhr_round h < MaxInt64\<close>] h(2) by blast
    ultimately show ?thesis
      using Some h(2,3) by (auto simp: header_token_decodes req sort_filter_conj headers_rows_def s)
  qed
  then obtain bf' where bf': "SearchForBlockHeaders_filter (si_sdk si) (si_opts si) ?p = Inr bf'"
    "given (\<lambda>s. DecodeBlockRowNext s \<noteq> Inr (- 1)) (sbh_Next ?p)"
    "sort_key bhr_round (filter (requested (si_sdk si) (si_codec si) ?p) ?hs) = rows" by blast
  have sub: "set rows \<subseteq> set ?hs" using bf'(3) by auto
  have page: "BlockHeaders (si_sdk si) (si_headers si) (si_query si) (si_codec si) (si_tables si) bf' =
      (map (\<lambda>h. \<lparr>br_BlockHeader = header_of (si_codec si) h, br_Error = None\<rparr>) ?ts, rnd)"
    using SearchForBlockHeaders_page [OF bf'(1) sv rnd bf'(2)] inv(2,5) by (simp add: bf'(3) limit_or_all_def s)
  have ts: "h \<in> set ?hs" if "h \<in> set ?ts" for h using subsetD [OF sub subsetD [OF set_limit_or_all that]] .
  have loop: "headers_loop (si_sdk si) (map (\<lambda>h. \<lparr>br_BlockHeader = header_of (si_codec si) h, br_Error = None\<rparr>) ?ts) [] None =
      Inr ([] @ map (header_shown si) ?ts, if ?ts = [] then None else Some \<lparr>br_BlockHeader = header_of (si_codec si) (last ?ts), br_Error = None\<rparr>)"
    by (rule headers_loop_all) (use row ts in \<open>simp add: header_shown_def hdrRowToBlock_renderable\<close>)
  have last: "bh_Round (header_of (si_codec si) (last ?ts)) = bhr_round (last ?ts)" if "rows \<noteq> []"
    using row ts last_in_set [of ?ts] that by simp
  have fetch: "fetchBlockHeaders si bf' = Inr (map (header_shown si) ?ts, if rows = [] then [] else header_token (last ?ts), rnd)"
    unfolding fetchBlockHeaders_def page prod.case answers_call [OF inv(1)] loop
    by (simp add: BlockRow_Next_def header_token_def last)
  show ?thesis
    using bf'(1) fetch enabled_verify [OF inv(3)]
    by (simp add: headers_request_def s SearchForBlockHeaders_def page_pair_def first_page_def strPtr_def header_token_decodes(2))
qed

interpretation headers_pages: paged_search headers_invar headers_request headers_rows bhr_round
  "\<lambda>s. header_shown (fst s)" "\<lambda>s. header_token" headers_limit
proof
  fix s :: "'a headers_search" and r :: "'a block_header_row" assume inv: "headers_invar s"
  then show "sorted_wrt (<) (map bhr_round (headers_rows s))"
    by (cases s) (auto simp: headers_invar_def headers_served_def headers_ordered_def headers_rows_def Let_def
        intro: key_unique_filter_ascending)
  show "headers_request s None = Inr (first_page (header_shown (fst s)) header_token (headers_limit s) (headers_rows s))"
    by (rule headers_page [OF inv]) simp
  assume "r \<in> set (headers_rows s)"
  then show "headers_request s (Some (header_token r)) =
    Inr (first_page (header_shown (fst s)) header_token (headers_limit s) (filter (\<lambda>r'. bhr_round r < bhr_round r') (headers_rows s)))"
    by (intro headers_page [OF inv]) auto
qed


definition round_header :: "uint64 \<Rightarrow> document block_header_row" where
  "round_header r =
     \<lparr>bhr_round = r, bhr_realtime = uint r, bhr_rewardslevel = 0,
      bhr_header = EncodeBlockHeader example_codec (zero_BlockHeader\<lparr>bh_Round := r\<rparr>)\<rparr>"

definition headers_api :: "document api_env" where
  "headers_api = trees_api\<lparr>si_tables := example_search_tables\<lparr>tbl_block_header := map round_header [3, 1, 2]\<rparr>\<rparr>"

definition from_round_2 :: SearchForBlockHeadersParams where
  "from_round_2 =
     \<lparr>sbh_Limit = Some 1, sbh_Next = None, sbh_MinRound = Some 2, sbh_MaxRound = None,
      sbh_BeforeTime = None, sbh_AfterTime = None, sbh_Proposers = None, sbh_Expired = None, sbh_Absent = None\<rparr>"

lemma round_header_decodes: "header_of example_codec (round_header r) = zero_BlockHeader\<lparr>bh_Round := r\<rparr>"
  "\<not> isl (DecodeBlockHeader example_codec (bhr_header (round_header r)))"
  by (simp_all add: round_header_def DecodeBlockHeader_def EncodeBlockHeader_def example_codec_def convertBlockHeader_def
      unconvertBlockHeader_def erase_blockHeader_def zero_BlockHeader_def convertExpiredAccounts_def
      unconvertExpiredAccounts_def)

lemma headers_api_served: "headers_served headers_api"
proof -
  have "IsZero (Proposer zero_BlockHeader)" "ExpiredParticipationAccounts zero_BlockHeader = []"
    "AbsentParticipationAccounts zero_BlockHeader = []" "header_renderable (zero_BlockHeader\<lparr>bh_Round := r\<rparr>)" for r
    by (simp_all add: zero_BlockHeader_def IsZero_def header_renderable_def)
  moreover have "headers_ordered (map round_header [3, 1, 2])" by (simp add: headers_ordered_def key_unique_def round_header_def)
  moreover have "si_headers headers_api = example_header_server" "si_sdk headers_api = trees_sdk" "si_codec headers_api = example_codec"
    "tbl_block_header (si_tables headers_api) = map round_header [3, 1, 2]"
    by (simp_all add: headers_api_def trees_api_def example_api_def)
  moreover have "bhr_round (round_header r) = r" for r by (simp add: round_header_def)
  ultimately show ?thesis
    by (simp add: headers_served_def reads_headers_def round_header_decodes example_header_server_def stored_list_def
        trees_sdk_def example_sdk_def MaxInt64_def)
qed


section \<open>A transaction\<close>

definition id_filter :: "ExtraOptions \<Rightarrow> string \<Rightarrow> TransactionFilter" where
  "id_filter opts txid =
     zero_TransactionFilter\<lparr>tf_Limit := min_u64 (DefaultTransactionsLimit opts) (eo_MaxTransactionsLimit opts), tf_Txid := txid\<rparr>"

lemma LookupTransaction_filter_step:
  assumes "txid \<noteq> []"
  shows "LookupTransaction_filter env opts txid =
    (if base32_valid txid then Inr (id_filter opts txid)
     else Inl (BadRequest (''invalid input: '' @ errUnableToParseDigest @ '' txid'')))"
proof -
  let ?p = "no_params\<lparr>stp_Txid := strPtr txid\<rparr>"
  have "transactionParamsToTransactionFilter env opts ?p =
      (if base32_valid txid then Inr (id_filter opts txid) else Inl (ErrMsg (''invalid input: '' @ errUnableToParseDigest @ '' txid'')))"
    using assms
    by (simp add: transactionParamsToTransactionFilter_def no_params_def strPtr_def decodeAddressRole_def decodeDigest_def
        decodeBase64Byte_def decodeGroupID_def decodeSigType_def decodeType_def strOrDefault_def uintOrDefault_def
        uintOrDefaultValue_def timeOrZero_def id_filter_def zero_TransactionFilter_def TypeEnumAssetTransfer_def Let_def)
  moreover have "validateTransactionFilter (id_filter opts txid) = Inr ()"
    by (simp add: validateTransactionFilter_iff database_safe_def rounds_consistent_def address_consistent_def id_filter_def
        zero_TransactionFilter_def)
  ultimately show ?thesis by (simp add: LookupTransaction_filter_def bad_request_def err_text_def)
qed

lemma id_filter_simps:
  "tf_Address (id_filter opts txid) = None" "tf_GroupID (id_filter opts txid) = []" "\<not> id_conflict (id_filter opts txid)"
  "tf_OffsetLT (id_filter opts txid) = None" "tf_OffsetGT (id_filter opts txid) = None"
  "\<not> tf_SkipInnerTransactionConversion (id_filter opts txid)" "(id_filter opts txid)\<lparr>tf_NextToken := []\<rparr> = id_filter opts txid"
  "txid \<noteq> [] \<Longrightarrow> txnFilterOptimization (id_filter opts txid) = id_filter opts txid"
  "tree_shown si (id_filter opts txid) = tree_shown si zero_TransactionFilter"
  by (simp_all add: id_filter_def zero_TransactionFilter_def id_conflict_def txnFilterOptimization_def Let_def fun_eq_iff
      tree_shown_def tree_row_def row_of_txn_def txn_answer_def)

lemma found_id:
  assumes "txid \<noteq> []"
  shows "found_trees si (id_filter opts txid) = sort_key txn_key (filter (\<lambda>t. t_txid t = Some txid) (tbl_txn (si_txns si)))"
proof -
  have "selected srv hs db (id_filter opts txid) t \<longleftrightarrow> t_txid t = Some txid" for srv hs db and t :: "'a txn_row"
    using assms by (auto simp: selected_def in_range_def of_account_def has_contents_def id_filter_def zero_TransactionFilter_def
        time_IsZero_def)
  then have "selected srv hs db (id_filter opts txid) = (\<lambda>t :: 'a txn_row. t_txid t = Some txid)" for srv hs db
    by (simp only: fun_eq_iff simp_thms)
  with assms show ?thesis unfolding found_trees_def search_def search_order_def by (simp add: id_filter_simps)
qed

lemma filter_unique:
  assumes "distinct xs" "\<And>x y. x \<in> set xs \<Longrightarrow> y \<in> set xs \<Longrightarrow> P x \<Longrightarrow> P y \<Longrightarrow> x = y"
  shows "filter P xs = (case find P xs of None \<Rightarrow> [] | Some x \<Rightarrow> [x])"
  using assms
proof (induction xs)
  case (Cons x xs)
  show ?case
  proof (cases "P x")
    case True
    then have "filter P xs = []" using Cons.prems by (auto simp: filter_empty_conv)
    with True show ?thesis by simp
  qed (use Cons in auto)
qed simp

text \<open>C29: a transaction that is looked up by its identifier is found exactly when a row has this identifier,
  and then it is answered with its inner transactions and the last round accounted for; a malformed
  identifier is refused.\<close>

theorem LookupTransaction_correct:
  assumes "answers si rnd" "si_query si = quiet_query_env" "enabled si ''LookupTransaction'' ctx" "serves_trees si"
    and "txid \<noteq> []" "DefaultTransactionsLimit (si_opts si) \<noteq> 0" "eo_MaxTransactionsLimit (si_opts si) \<noteq> 0"
    and "\<forall>t \<in> set (tbl_txn (si_txns si)). \<forall>t' \<in> set (tbl_txn (si_txns si)). t_txid t = Some txid \<longrightarrow> t_txid t' = Some txid \<longrightarrow> t = t'"
  shows "LookupTransaction si ctx txid =
    (if \<not> base32_valid txid then Inl (BadRequest (''invalid input: '' @ errUnableToParseDigest @ '' txid''))
     else case find (\<lambda>t. t_txid t = Some txid) (tbl_txn (si_txns si)) of
       None \<Rightarrow> Inl (NotFound errNoTransactionFound)
     | Some t \<Rightarrow> Inr (tree_shown si zero_TransactionFilter t, rnd))"
proof (cases "base32_valid txid")
  case True
  let ?tf = "id_filter (si_opts si) txid" and ?r = "find (\<lambda>t. t_txid t = Some txid) (tbl_txn (si_txns si))"
  let ?ts = "case ?r of None \<Rightarrow> [] | Some t \<Rightarrow> [t]"
  have "distinct (tbl_txn (si_txns si))"
    using assms(4) by (auto simp: serves_trees_def searchable_def key_unique_def Let_def distinct_map)
  then have found: "found_trees si ?tf = ?ts"
    using assms(8) by (simp add: found_id [OF assms(5)] filter_unique split: option.split)
  have lim: "tf_Limit ?tf \<noteq> 0" using assms(6,7) by (simp add: id_filter_def min_u64_def)
  then have l: "limit_or_all (tf_Limit ?tf) ?ts = ?ts"
    using unat_gt_0 [of "tf_Limit ?tf"] by (simp add: limit_or_all_def Suc_le_eq split: option.split)
  have "Transactions (si_sql si) (si_query si) (si_codec si) (si_tables si) (si_txns si) (?tf\<lparr>tf_NextToken := strOrDefault None\<rparr>) =
      (map (tree_row si (txnFilterOptimization ?tf)) (limit_or_all (tf_Limit ?tf) ?ts), rnd)"
    by (rule transactions_rows_page [OF assms(1,2,4) lim]) (simp_all add: id_filter_simps found)
  then have tr: "Transactions (si_sql si) (si_query si) (si_codec si) (si_tables si) (si_txns si) ?tf = (map (tree_row si ?tf) ?ts, rnd)"
    using l by (simp add: id_filter_simps assms(5) strOrDefault_def)
  have s: "t \<in> set (tbl_txn (si_txns si)) \<and> (tf_SkipInnerTransactions ?tf \<longrightarrow> t_txid t \<noteq> None)" if "t \<in> set ?ts" for t
    using found_row(1,2) [of t si ?tf] that by (simp add: found id_filter_simps assms(5))
  have "\<exists>tok. fetchTransactions si ?tf = Inr (map (tree_shown si zero_TransactionFilter) ?ts, tok, rnd)"
    using fetch_trees [OF assms(4,1) tr _ _ s] by (cases ?r) (simp_all add: id_filter_simps group_firsts_def)
  with True show ?thesis
    unfolding LookupTransaction_def LookupTransaction_filter_step [OF assms(5)] enabled_verify [OF assms(3)]
    by (cases ?r) (auto simp: single_def)
next
  case False
  then show ?thesis
    unfolding LookupTransaction_def LookupTransaction_filter_step [OF assms(5)] enabled_verify [OF assms(3)] by simp
qed

theorem LookupTransaction_correct_witness:
  "\<exists>tx. LookupTransaction trees_api (example_request ''x'') ''A'' = Inr (tx, 2) \<and> txn_id tx = ''A''"
proof -
  have v: "base32_valid ''A''" by code_simp
  have f: "find (\<lambda>t. t_txid t = Some ''A'') [row_A, row_I, row_B] = Some row_A"
    and u: "t_txid row_A = Some ''A''" "t_txid row_I = None" "t_txid row_B = Some ''B''" by (simp_all add: tree_rows)
  have "txn_id (tree_shown trees_api zero_TransactionFilter row_A) = ''A''"
    using tree_shown_id(2) [OF trees_served, of row_A zero_TransactionFilter]
    by (simp add: trees_api_simps trees_rows trees_offsets zero_TransactionFilter_def)
  then show ?thesis
    using LookupTransaction_correct [OF trees_api_answers _ _ trees_served, of "example_request ''x''" "''A''"]
    by (simp add: trees_api_simps trees_rows f u v example_options_def enabled_def Verify_def)
qed

section \<open>Page tokens of application logs\<close>

text \<open>The search for application logs returns inner transactions as they are. The token of such a row is
  the offset of its root plus the number of its own inner transactions, none in a row as it is
  stored: a position before the row itself. The next page starts with the same row again.\<close>

lemma inner_log_token:
  assumes "DecodeSignedTxnWithAD c (t_txn t) = Inr s" "DecodeTxnExtra c (t_extra t) = Inr x"
    and "tf_SkipInnerTransactionConversion tf" "tf_Address tf = None" "Present (RootIntra x)" "countInner s = 0"
  shows "next_intra (row_of_txn srv c hs db tf t) True = Some (Value (RootIntra x))"
    and "Value (RootIntra x) < t_intra t \<Longrightarrow> after_token tf (t_round t) (Value (RootIntra x)) t"
proof -
  show "next_intra (row_of_txn srv c hs db tf t) True = Some (Value (RootIntra x))"
    using assms by (simp add: row_of_txn_def txn_answer_def decode_row_def next_intra_def zero_TxnRow_def Let_def)
  show "after_token tf (t_round t) (Value (RootIntra x)) t" if "Value (RootIntra x) < t_intra t"
    using that assms(4) by (simp add: after_token_def)
qed

end
