(* ===== verification/TreeLaws.thy ===== *)
theory TreeLaws
  imports BlockLaws ImportLaws
begin

text \<open>
  From the import to the search: the rows that \<open>AddTransactions\<close> writes for a chain of blocks form the
  call trees that the search for transactions relies on, so that a client that reads the search page by
  page gets exactly the transactions of the blocks that were imported.
\<close>

section \<open>The rows of a block\<close>

lemma entries_members:
  "Root i stib \<in> set (entries env block idx intra stibs) \<Longrightarrow> stib \<in> set stibs"
  "Inner off txid d \<in> set (entries env block idx intra stibs) \<Longrightarrow>
     \<exists>stib \<in> set stibs. d \<in> set (descendants (stib_SignedTxnWithAD stib))"
  by (induction stibs arbitrary: idx intra) (auto simp: Let_def)

lemma root_row_contents:
  assumes "root_row env c block mods idx i stib = Inr row"
  obtains st ad a where "DecodeSignedTxn env (BlockHeader block) stib = Inr (st, ad)"
    and "t_txn row = EncodeSignedTxnWithAD c (MkSignedTxnWithAD st ad)" and "t_txid row = Some (TransactionIDString env (Txn st))"
    and "t_extra row = EncodeTxnExtra c (zero_TxnExtra\<lparr>AssetCloseAmount := a\<rparr>)"
  using assms by (auto simp: root_row_def result_simps Let_def split: option.splits if_splits)

lemma inner_row_contents:
  "inner_row c rnd i root txid d = Inr row \<Longrightarrow> t_txn row = EncodeSignedTxnWithAD c (set_InnerTxns [] d)"
  by (auto simp: inner_row_def result_simps Let_def split: option.splits)

lemma payout_row_contents:
  "payout_row env c block i = Inr row \<Longrightarrow>
     t_txid row = Some (TransactionIDString env (stxn_Txn (SignedTransactionFromBlockPayout block))) \<and>
     t_txn row = EncodeSignedTxnWithAD c (SignedTransactionFromBlockPayout block) \<and> t_extra row = EncodeTxnExtra c zero_TxnExtra"
  by (auto simp: payout_row_total)

lemma countInner_apply: "countInner (MkSignedTxnWithAD st (ApplyData x)) = of_nat (length (descendants x))"
proof -
  have "countInner (MkSignedTxnWithAD st (ApplyData x)) = countInner x"
    by (cases x; cases "ApplyData x"; cases "EvalDelta (ApplyData x)") simp
  then show ?thesis by (simp add: countInner_descendants)
qed

text \<open>A block whose transactions keep their apply data, can be stored and can be shown.\<close>

definition block_ok :: "sdk \<Rightarrow> Block \<Rightarrow> bool" where
  "block_ok env b \<longleftrightarrow>
     valid_utf8 (bh_GenesisID (BlockHeader b)) \<and>
     list_all (\<lambda>stib.
       case DecodeSignedTxn env (BlockHeader b) stib of
         Inl _ \<Rightarrow> False
       | Inr (st, ad) \<Rightarrow>
           ad = ApplyData (stib_SignedTxnWithAD stib) \<and> stxn_utf8 (MkSignedTxnWithAD st ad) \<and>
           list_all renderable (MkSignedTxnWithAD st ad # descendants (MkSignedTxnWithAD st ad))) (Payset b)"

lemma block_ok_stib:
  assumes "block_ok env b" "stib \<in> set (Payset b)"
  obtains st where "DecodeSignedTxn env (BlockHeader b) stib = Inr (st, ApplyData (stib_SignedTxnWithAD stib))"
    and "stxn_utf8 (MkSignedTxnWithAD st (ApplyData (stib_SignedTxnWithAD stib)))"
    and "list_all renderable (MkSignedTxnWithAD st (ApplyData (stib_SignedTxnWithAD stib)) #
      descendants (MkSignedTxnWithAD st (ApplyData (stib_SignedTxnWithAD stib))))"
proof -
  let ?x = "DecodeSignedTxn env (BlockHeader b) stib"
  have "case ?x of
      Inl _ \<Rightarrow> False
    | Inr (st, ad) \<Rightarrow>
        ad = ApplyData (stib_SignedTxnWithAD stib) \<and> stxn_utf8 (MkSignedTxnWithAD st ad) \<and>
        list_all renderable (MkSignedTxnWithAD st ad # descendants (MkSignedTxnWithAD st ad))"
    using assms unfolding block_ok_def list.pred_set by blast
  then show thesis by (cases ?x) (use that in \<open>auto simp del: list.pred_inject\<close>)
qed

text \<open>The root of a tree at an offset, with the number of its inner transactions.\<close>

definition tree_at :: "sdk \<Rightarrow> 'j codec \<Rightarrow> 'j txn_row list \<Rightarrow> nat \<Rightarrow> nat \<Rightarrow> SignedTxnWithAD \<Rightarrow> bool" where
  "tree_at env c rows j n s \<longleftrightarrow>
     j + n < length rows \<and> countInner s = of_nat n \<and> stxn_utf8 s \<and> list_all renderable (s # descendants s) \<and>
     t_txid (rows ! j) = Some (TransactionIDString env (stxn_Txn s)) \<and> t_txn (rows ! j) = EncodeSignedTxnWithAD c s \<and>
     (\<forall>i. j < i \<and> i \<le> j + n \<longrightarrow> t_txid (rows ! i) = None) \<and>
     (j + n + 1 < length rows \<longrightarrow> t_txid (rows ! (j + n + 1)) \<noteq> None)"

lemma trees_disjoint:
  assumes "tree_at env c rows j n s" "tree_at env c rows j' n' s'" "j < j'"
  shows "j + n < j'"
  using assms by (force simp: tree_at_def not_less)

text \<open>The root of the entry at an offset.\<close>

lemma entry_root:
  assumes "k < length (entries env block idx intra stibs)"
  obtains j i stib where "j \<le> k" and "entries env block idx intra stibs ! j = Root i stib"
    and "k \<le> j + length (descendants (stib_SignedTxnWithAD stib))"
    and "if j = k then is_Root (entries env block idx intra stibs ! k)
      else \<exists>d. entries env block idx intra stibs ! k = Inner (intra + of_nat j) (root_txid env block stib) d"
proof (cases "entries env block idx intra stibs ! k")
  case (Root i stib)
  then show thesis using that [of k i stib] by simp
next
  case (Inner off txid d)
  from entries_inner [OF assms this] obtain j i stib where j: "j < k" "off = intra + of_nat j"
    "entries env block idx intra stibs ! j = Root i stib" "txid = root_txid env block stib"
    "\<And>l. j < l \<Longrightarrow> l \<le> k \<Longrightarrow> \<not> is_Root (entries env block idx intra stibs ! l)" by blast
  have "j < length (entries env block idx intra stibs)" using j(1) assms by simp
  note tree = entries_tree [OF this j(3)]
  have "k \<le> j + length (descendants (stib_SignedTxnWithAD stib))"
  proof (rule ccontr)
    assume "\<not> ?thesis"
    then have "j + length (descendants (stib_SignedTxnWithAD stib)) + 1 \<le> k" by simp
    with tree j(5) [of "j + length (descendants (stib_SignedTxnWithAD stib)) + 1"] assms show False by auto
  qed
  with that [of j i stib] j Inner show thesis by simp
qed

lemma tree_of_entry:
  assumes "yieldTransactions env c block (Payset block) = (rows, Inr ())" "block_ok env block"
    and "j < length (block_entries env block)" "block_entries env block ! j = Root i stib"
  obtains s where "tree_at env c rows j (length (descendants (stib_SignedTxnWithAD stib))) s"
    and "TransactionIDString env (stxn_Txn s) = root_txid env block stib"
proof -
  let ?es = "block_entries env block" and ?n = "length (descendants (stib_SignedTxnWithAD stib))"
  note r = yieldTransactions_rows [OF assms(1)]
  have "stib \<in> set (Payset block)" using assms(3,4) entries_members(1) by (metis block_entries_def nth_mem)
  then obtain st where st: "DecodeSignedTxn env (BlockHeader block) stib = Inr (st, ApplyData (stib_SignedTxnWithAD stib))"
    "stxn_utf8 (MkSignedTxnWithAD st (ApplyData (stib_SignedTxnWithAD stib)))"
    "list_all renderable (MkSignedTxnWithAD st (ApplyData (stib_SignedTxnWithAD stib)) #
      descendants (MkSignedTxnWithAD st (ApplyData (stib_SignedTxnWithAD stib))))"
    by (rule block_ok_stib [OF assms(2)])
  define s where "s = MkSignedTxnWithAD st (ApplyData (stib_SignedTxnWithAD stib))"
  have id: "TransactionIDString env (stxn_Txn s) = root_txid env block stib" by (simp add: s_def root_txid_def st(1))
  have "root_row env c block (Payset block) i (of_nat j) stib = Inr (rows ! j)" using r(2) [OF assms(3)] assms(4) by simp
  then have row: "t_txn (rows ! j) = EncodeSignedTxnWithAD c s" "t_txid (rows ! j) = Some (TransactionIDString env (stxn_Txn s))"
    by (rule root_row_contents, simp add: st(1) s_def)+
  note tree = entries_tree [OF assms(3,4) [unfolded block_entries_def], folded block_entries_def]
  have len: "j + ?n < length ?es" using tree assms(3) by (cases ?n) auto
  have inner: "t_txid (rows ! l) = None" if "j < l" "l \<le> j + ?n" for l
    using entry_row_position [OF r(2) [of l]] tree that by auto
  have following: "t_txid (rows ! (j + ?n + 1)) \<noteq> None" if "j + ?n + 1 < length rows"
  proof (cases "j + ?n + 1 < length ?es")
    case True
    then show ?thesis using entry_row_position [OF r(2) [OF True]] tree by auto
  next
    case False
    with that r(1) len have h: "has_payout block" and "j + ?n + 1 = length rows - 1" by (auto split: if_splits)
    moreover from that have "rows \<noteq> []" by auto
    ultimately show ?thesis using payout_row_position [OF r(3) [OF h]] by (simp add: last_conv_nth)
  qed
  have "tree_at env c rows j ?n s"
    using len r(1) st(2,3) row inner following by (auto simp: tree_at_def s_def countInner_apply)
  with id that show thesis by blast
qed

text \<open>The transaction of a block payout has no inner transactions.\<close>

lemma runes_ascii: "list_all (\<lambda>ch. (of_char ch :: nat) < 128) s \<Longrightarrow> runes s = map of_char s"
  by (induction s) (simp_all add: runes.simps [of "_ # _"] decode_rune_def)

lemma valid_utf8_ascii: "list_all (\<lambda>ch. (of_char ch :: nat) < 128) s \<Longrightarrow> valid_utf8 s"
  by (auto simp: valid_utf8_def runes_ascii RuneError_def list_all_iff)

lemma pay_utf8: "valid_utf8 ''pay''"
  by (rule valid_utf8_ascii) simp

lemma payout_stxn:
  "countInner (SignedTransactionFromBlockPayout block) = 0"
  "block_ok env block \<Longrightarrow> stxn_utf8 (SignedTransactionFromBlockPayout block)"
  "block_ok env block \<Longrightarrow>
     list_all renderable (SignedTransactionFromBlockPayout block # descendants (SignedTransactionFromBlockPayout block))"
proof -
  show "countInner (SignedTransactionFromBlockPayout block) = 0"
    by (simp add: SignedTransactionFromBlockPayout_def zero_ApplyData_def zero_EvalDelta_def Let_def)
  assume "block_ok env block"
  then have g: "valid_utf8 (bh_GenesisID (BlockHeader block))" by (simp only: block_ok_def)
  show "stxn_utf8 (SignedTransactionFromBlockPayout block)"
    by (simp add: SignedTransactionFromBlockPayout_def zero_ApplyData_def zero_EvalDelta_def zero_SignedTxn_def PaymentTx_def
        Let_def pay_utf8 g)
  show "list_all renderable (SignedTransactionFromBlockPayout block # descendants (SignedTransactionFromBlockPayout block))"
    by (simp add: SignedTransactionFromBlockPayout_def zero_ApplyData_def zero_EvalDelta_def zero_SignedTxn_def PaymentTx_def
        renderable_def ApplicationCallTx_def Let_def)
qed

text \<open>Every row of a block belongs to one tree, and says so.\<close>

lemma row_in_tree:
  assumes "yieldTransactions env c block (Payset block) = (rows, Inr ())" "block_ok env block" "k < length rows"
  obtains j n s x where "tree_at env c rows j n s" "j \<le> k" "k \<le> j + n" "t_extra (rows ! k) = EncodeTxnExtra c x"
    and "if j = k then RootIntra x = zero_OptionalUint \<and> RootTxid x = []
      else RootIntra x = \<lparr>Present = True, Value = of_nat j\<rparr> \<and> RootTxid x = TransactionIDString env (stxn_Txn s)"
proof (cases "k < length (block_entries env block)")
  case True
  note r = yieldTransactions_rows [OF assms(1)]
  obtain j i stib where j: "j \<le> k" "block_entries env block ! j = Root i stib"
    "k \<le> j + length (descendants (stib_SignedTxnWithAD stib))"
    "if j = k then is_Root (block_entries env block ! k)
      else \<exists>d. block_entries env block ! k = Inner (of_nat j) (root_txid env block stib) d"
    by (rule entry_root [OF True [unfolded block_entries_def], folded block_entries_def, unfolded add_0_left])
  obtain s where s: "tree_at env c rows j (length (descendants (stib_SignedTxnWithAD stib))) s"
    "TransactionIDString env (stxn_Txn s) = root_txid env block stib"
    by (rule tree_of_entry [OF assms(1,2) _ j(2)]) (use j(1) True in simp)
  show thesis
  proof (cases "j = k")
    case eq: True
    have "root_row env c block (Payset block) i (of_nat k) stib = Inr (rows ! k)" using r(2) [OF True] j(2) eq by simp
    then obtain a where "t_extra (rows ! k) = EncodeTxnExtra c (zero_TxnExtra\<lparr>AssetCloseAmount := a\<rparr>)"
      by (rule root_row_contents)
    with that [OF s(1) j(1,3)] eq show thesis by (simp add: zero_TxnExtra_def zero_OptionalUint_def)
  next
    case False
    then obtain d where "block_entries env block ! k = Inner (of_nat j) (root_txid env block stib) d" using j(4) by auto
    then have "inner_row c (bh_Round (BlockHeader block)) (of_nat k) (of_nat j) (root_txid env block stib) d = Inr (rows ! k)"
      using r(2) [OF True] by (auto simp: result_simps)
    from inner_row_extra [OF this] that [OF s(1) j(1,3)] False s(2) show thesis by simp
  qed
next
  case False
  note r = yieldTransactions_rows [OF assms(1)]
  from False assms(3) r(1) have h: "has_payout block" and k: "k = length rows - 1" "k + 0 < length rows" by (auto split: if_splits)
  let ?s = "SignedTransactionFromBlockPayout block"
  have "rows \<noteq> []" using assms(3) by auto
  then have "rows ! k = last rows" using k(1) by (simp add: last_conv_nth)
  then have row: "t_txid (rows ! k) = Some (TransactionIDString env (stxn_Txn ?s))" "t_txn (rows ! k) = EncodeSignedTxnWithAD c ?s"
    "t_extra (rows ! k) = EncodeTxnExtra c zero_TxnExtra"
    using payout_row_contents [OF r(3) [OF h]] by simp_all
  have "tree_at env c rows k 0 ?s"
    unfolding tree_at_def using k row payout_stxn(1) payout_stxn(2-) [OF assms(2)] by (intro conjI allI impI; (elim conjE)?; simp)
  with that [of k 0 ?s zero_TxnExtra] row(3) show thesis by (simp add: zero_TxnExtra_def zero_OptionalUint_def)
qed

text \<open>Every row can be decoded.\<close>

lemma decode_stored:
  "faithful_codec c \<Longrightarrow> stxn_utf8 s \<Longrightarrow> DecodeSignedTxnWithAD c (EncodeSignedTxnWithAD c s) = Inr s"
  using txn_document.decode_encode [of "dec_signedTxnWithAD c" "enc_signedTxnWithAD c" s]
  by (simp add: faithful_codec_def DecodeSignedTxnWithAD_def EncodeSignedTxnWithAD_def)

lemma stripped_utf8: "stxn_utf8 s \<Longrightarrow> stxn_utf8 (set_InnerTxns [] s)"
  by (cases s rule: stxn_utf8.cases) (simp add: set_InnerTxns_def)

lemma descendants_utf8:
  "stxn_utf8 s \<Longrightarrow> d \<in> set (descendants s) \<Longrightarrow> stxn_utf8 d"
  "stxns_utf8 its \<Longrightarrow> d \<in> set (descendants_of its) \<Longrightarrow> stxn_utf8 d"
  by (induction s and its rule: descendants_descendants_of.induct) auto

lemma descendants_apply: "descendants (MkSignedTxnWithAD st (ApplyData s)) = descendants s"
  by (cases s; cases "ApplyData s"; cases "EvalDelta (ApplyData s)") simp

lemma rows_decodable:
  assumes "yieldTransactions env c block (Payset block) = (rows, Inr ())" "block_ok env block" "faithful_codec c" "row \<in> set rows"
  shows "\<not> isl (DecodeSignedTxnWithAD c (t_txn row))"
proof -
  note r = yieldTransactions_rows [OF assms(1)]
  obtain k where k: "k < length rows" "row = rows ! k" using assms(4) by (auto simp: in_set_conv_nth)
  have "\<exists>s. t_txn row = EncodeSignedTxnWithAD c s \<and> stxn_utf8 s"
  proof (cases "k < length (block_entries env block)")
    case True
    then have e: "entry_row env c block (Payset block) (of_nat k) (block_entries env block ! k) = Inr row"
      "block_entries env block ! k \<in> set (block_entries env block)" using r(2) k(2) by auto
    show ?thesis
    proof (cases "block_entries env block ! k")
      case (Root i stib)
      with e(2) have "stib \<in> set (Payset block)" unfolding block_entries_def using entries_members(1) by metis
      then obtain st where "DecodeSignedTxn env (BlockHeader block) stib = Inr (st, ApplyData (stib_SignedTxnWithAD stib))"
        "stxn_utf8 (MkSignedTxnWithAD st (ApplyData (stib_SignedTxnWithAD stib)))"
        by (rule block_ok_stib [OF assms(2)])
      with e(1) Root show ?thesis by (auto elim!: root_row_contents)
    next
      case (Inner off txid d)
      with e(2) obtain stib where "stib \<in> set (Payset block)" and d: "d \<in> set (descendants (stib_SignedTxnWithAD stib))"
        unfolding block_entries_def using entries_members(2) by metis
      then obtain st where "stxn_utf8 (MkSignedTxnWithAD st (ApplyData (stib_SignedTxnWithAD stib)))"
        by (metis block_ok_stib [OF assms(2)])
      from stripped_utf8 [OF descendants_utf8(1) [OF this]] d have "stxn_utf8 (set_InnerTxns [] d)" by (simp add: descendants_apply)
      with e(1) Inner inner_row_contents show ?thesis by (fastforce simp: result_simps)
    qed
  next
    case False
    with k r(1) have h: "has_payout block" and "k = length rows - 1" by (auto split: if_splits)
    moreover have "rows \<noteq> []" using assms(4) by auto
    ultimately have "row = last rows" using k(2) by (simp add: last_conv_nth)
    then show ?thesis using payout_row_contents [OF r(3) [OF h]] payout_stxn(2) [OF assms(2)] by blast
  qed
  then show ?thesis using decode_stored [OF assms(3)] by auto
qed

section \<open>The transactions of a block\<close>

text \<open>The identifiers of the transactions of a block, in their order; the payout is the last one.\<close>

definition block_ids :: "sdk \<Rightarrow> Block \<Rightarrow> string list" where
  "block_ids env b =
     map (root_txid env b) (Payset b) @
     (if has_payout b then [TransactionIDString env (stxn_Txn (SignedTransactionFromBlockPayout b))] else [])"

fun entry_id :: "sdk \<Rightarrow> Block \<Rightarrow> entry \<Rightarrow> string option" where
  "entry_id env b (Root _ stib) = Some (root_txid env b stib)"
| "entry_id env b (Inner _ _ _) = None"

lemma map_filter_append: "List.map_filter f (xs @ ys) = List.map_filter f xs @ List.map_filter f ys"
  by (simp add: List.map_filter_def)

lemma map_filter_map: "List.map_filter f xs = List.map_filter id (map f xs)"
  by (induction xs) (simp_all add: map_filter_simps split: option.split)

lemma entries_ids: "List.map_filter (entry_id env b) (entries env b idx intra stibs) = map (root_txid env b) stibs"
proof -
  have "List.map_filter (entry_id env b) (map (Inner off txid) ds) = []" for off txid ds
    by (induction ds) (simp_all add: map_filter_simps)
  then show ?thesis
    by (induction stibs arbitrary: idx intra) (simp_all add: Let_def map_filter_append map_filter_simps)
qed

lemma entry_row_id: "entry_row env c b mods i e = Inr row \<Longrightarrow> t_txid row = entry_id env b e"
  by (cases e) (auto simp: root_row_def inner_row_def result_simps Let_def root_txid_def split: option.splits if_splits)

lemma row_ids:
  assumes "yieldTransactions env c block mods = (rows, Inr ())"
  shows "List.map_filter t_txid rows = block_ids env block"
proof -
  let ?es = "block_entries env block"
  note r = yieldTransactions_rows [OF assms]
  have "map t_txid (take (length ?es) rows) = map (entry_id env block) ?es"
    using r(1) entry_row_id [OF r(2)] by (intro nth_equalityI) auto
  then have front: "List.map_filter t_txid (take (length ?es) rows) = map (root_txid env block) (Payset block)"
    using entries_ids [of env block 0 0 "Payset block"]
    unfolding map_filter_map [of t_txid] map_filter_map [of "entry_id env block"] block_entries_def by simp
  show ?thesis
  proof (cases "has_payout block")
    case True
    with r(1) have "rows = take (length ?es) rows @ [last rows]"
      by (metis Suc_eq_plus1 append_butlast_last_id butlast_conv_take diff_Suc_1 length_0_conv nat.distinct(1))
    then have "List.map_filter t_txid rows = List.map_filter t_txid (take (length ?es) rows) @ List.map_filter t_txid [last rows]"
      by (metis map_filter_append)
    with front True payout_row_contents [OF r(3) [OF True]] show ?thesis by (simp add: block_ids_def map_filter_simps)
  qed (use front r(1) in \<open>simp add: block_ids_def\<close>)
qed

section \<open>The tables of a chain\<close>

lemma nat64_less: "a < 2 ^ 64 \<Longrightarrow> b < 2 ^ 64 \<Longrightarrow> (of_nat a :: uint64) < of_nat b \<longleftrightarrow> a < b"
  by (simp add: word_less_nat_alt unat_of_nat64)

lemma nat64_le: "a < 2 ^ 64 \<Longrightarrow> b < 2 ^ 64 \<Longrightarrow> (of_nat a :: uint64) \<le> of_nat b \<longleftrightarrow> a \<le> b"
  by (simp add: word_le_nat_alt unat_of_nat64)

abbreviation chain_rows :: "sdk \<Rightarrow> 'j codec \<Rightarrow> (uint64 \<Rightarrow> ValidatedBlock) \<Rightarrow> nat \<Rightarrow> 'j txn_row list" where
  "chain_rows env c chain r \<equiv> txn_rows env c (vb_Block (chain (of_nat r)))"

definition chain_ids :: "sdk \<Rightarrow> (uint64 \<Rightarrow> ValidatedBlock) \<Rightarrow> nat \<Rightarrow> string list" where
  "chain_ids env chain k = concat (map (\<lambda>r. block_ids env (vb_Block (chain (of_nat r)))) [1..<Suc k])"

lemma chain_table: "tbl_txn (txns_upto env c chain k) = concat (map (chain_rows env c chain) [1..<Suc k])"
  by (induction k) (simp_all add: Let_def del: of_nat_Suc)

lemma chain_row_ids:
  assumes "importable env c chain"
  shows "List.map_filter t_txid (tbl_txn (txns_upto env c chain k)) = chain_ids env chain k"
proof (induction k)
  case (Suc k)
  then show ?case
    using row_ids [OF importable_block(1) [OF assms, of "of_nat (Suc k)"]]
    by (simp add: chain_ids_def Let_def map_filter_append del: of_nat_Suc)
qed (simp add: chain_ids_def map_filter_simps)

lemma chain_position:
  assumes "importable env c chain" "i < length (chain_rows env c chain r)"
  shows "t_round (chain_rows env c chain r ! i) = of_nat r" "t_intra (chain_rows env c chain r ! i) = of_nat i"
proof -
  note y = importable_block [OF assms(1), of "of_nat r"]
  show "t_round (chain_rows env c chain r ! i) = of_nat r"
    using yieldTransactions_positions(2) [OF y(1)] y(2) assms(2) by simp
  from yieldTransactions_positions(1) [OF y(1)] have
    "map t_intra (chain_rows env c chain r) ! i = map of_nat [0..<length (chain_rows env c chain r)] ! i" by simp
  then show "t_intra (chain_rows env c chain r ! i) = of_nat i" using assms(2) by simp
qed

lemma chain_row:
  "t \<in> set (tbl_txn (txns_upto env c chain k)) \<longleftrightarrow>
     (\<exists>r i. 1 \<le> r \<and> r \<le> k \<and> i < length (chain_rows env c chain r) \<and> t = chain_rows env c chain r ! i)"
  unfolding chain_table by (auto simp: in_set_conv_nth [of t "chain_rows env c chain _"] less_Suc_eq_le)

text \<open>The rows of a chain are in the order of their keys.\<close>

lemma sorted_wrt_concat:
  assumes "sorted_wrt (\<lambda>xs ys. \<forall>x \<in> set xs. \<forall>y \<in> set ys. P x y) xss" "\<forall>xs \<in> set xss. sorted_wrt P xs"
  shows "sorted_wrt P (concat xss)"
  using assms by (induction xss) (auto simp: sorted_wrt_append)

lemma chain_sorted:
  assumes "importable env c chain" "k < 2 ^ 64"
  shows "sorted_wrt (\<lambda>t t'. txn_key t < txn_key t') (tbl_txn (txns_upto env c chain k))"
  unfolding chain_table
proof (rule sorted_wrt_concat)
  show "sorted_wrt (\<lambda>xs ys. \<forall>x \<in> set xs. \<forall>y \<in> set ys. txn_key x < txn_key y) (map (chain_rows env c chain) [1..<Suc k])"
    unfolding sorted_wrt_map
  proof (rule sorted_wrt_mono_rel [OF _ sorted_wrt_upt], intro ballI)
    fix r r' x y
    assume a: "r \<in> set [1..<Suc k]" "r' \<in> set [1..<Suc k]" "r < r'" "x \<in> set (chain_rows env c chain r)" "y \<in> set (chain_rows env c chain r')"
    then have "t_round x = of_nat r" "t_round y = of_nat r'" using txn_rows_keys(2) [OF assms(1)] by blast+
    moreover have "(of_nat r :: uint64) < of_nat r'" using a(2,3) assms(2) by (auto simp: nat64_less)
    ultimately show "txn_key x < txn_key y" by (simp add: less_prod_def)
  qed
  show "\<forall>xs \<in> set (map (chain_rows env c chain) [1..<Suc k]). sorted_wrt (\<lambda>t t'. txn_key t < txn_key t') xs"
  proof
    fix xs assume "xs \<in> set (map (chain_rows env c chain) [1..<Suc k])"
    then obtain r where xs: "xs = chain_rows env c chain r" by auto
    have "length xs < 2 ^ 64" using importable_block(3) [OF assms(1)] xs by simp
    then show "sorted_wrt (\<lambda>t t'. txn_key t < txn_key t') xs"
      unfolding sorted_wrt_iff_nth_less using chain_position [OF assms(1), of _ r] by (simp add: xs less_prod_def nat64_less)
  qed
qed

section \<open>The call trees of a chain\<close>

text \<open>What the server and the codec keep of the extra document of a row: the document is restored, and its
  root offset, when it has one, is read as a 32 bit number.\<close>

definition stores_extra :: "'j sql_server \<Rightarrow> 'j codec \<Rightarrow> bool" where
  "stores_extra srv c \<longleftrightarrow>
     (\<forall>x. valid_utf8 (RootTxid x) \<longrightarrow>
        (if Present (RootIntra x) then Value (RootIntra x) < 2 ^ 31 else RootIntra x = zero_OptionalUint) \<longrightarrow>
        DecodeTxnExtra c (EncodeTxnExtra c x) = Inr x \<and>
        json_num srv [''root-intra''] (EncodeTxnExtra c x) =
          (if Present (RootIntra x) then Some (uint (Value (RootIntra x))) else None))"

text \<open>The first \<open>k\<close> blocks after genesis are imported: they can be stored and shown, the offsets in a block
  fit the column, and the identifiers of the transactions are different.\<close>

definition imported :: "sdk \<Rightarrow> 'j sql_server \<Rightarrow> 'j codec \<Rightarrow> (uint64 \<Rightarrow> ValidatedBlock) \<Rightarrow> nat \<Rightarrow> bool" where
  "imported env srv c chain k \<longleftrightarrow>
     importable env c chain \<and> faithful_codec c \<and> stores_extra srv c \<and> k < 2 ^ 64 - 1 \<and>
     (\<forall>r \<in> {1..k}. block_ok env (vb_Block (chain (of_nat r))) \<and> length (chain_rows env c chain r) \<le> 2 ^ 31) \<and>
     distinct (chain_ids env chain k) \<and> list_all valid_utf8 (chain_ids env chain k)"

lemma imported_chain:
  assumes "imported env srv c chain k"
  shows "importable env c chain" "faithful_codec c" "stores_extra srv c" "k < 2 ^ 64 - 1"
    "distinct (chain_ids env chain k)" "list_all valid_utf8 (chain_ids env chain k)"
    "1 \<le> r \<Longrightarrow> r \<le> k \<Longrightarrow> block_ok env (vb_Block (chain (of_nat r)))"
    "1 \<le> r \<Longrightarrow> r \<le> k \<Longrightarrow> length (chain_rows env c chain r) \<le> 2 ^ 31"
  using assms unfolding imported_def Ball_def atLeastAtMost_iff by blast+

text \<open>The identifier that a row was stored with, its own or that of its root.\<close>

definition stored_id :: "'j codec \<Rightarrow> 'j txn_row \<Rightarrow> string" where
  "stored_id c t = (case t_txid t of Some txid \<Rightarrow> txid | None \<Rightarrow> RootTxid (txn_extra c t))"

text \<open>A row of the table is the row at an offset of a block, in a tree of the block.\<close>

definition placed ::
  "sdk \<Rightarrow> 'j sql_server \<Rightarrow> 'j codec \<Rightarrow> (uint64 \<Rightarrow> ValidatedBlock) \<Rightarrow> nat \<Rightarrow> nat \<Rightarrow> nat \<Rightarrow> nat \<Rightarrow> nat \<Rightarrow> SignedTxnWithAD \<Rightarrow>
   'j txn_row \<Rightarrow> bool" where
  "placed env srv c chain k r i j n s t \<longleftrightarrow>
     1 \<le> r \<and> r \<le> k \<and> i < length (chain_rows env c chain r) \<and> t = chain_rows env c chain r ! i \<and>
     tree_at env c (chain_rows env c chain r) j n s \<and> j \<le> i \<and> i \<le> j + n \<and> j + n < 2 ^ 31 \<and>
     t_round t = of_nat r \<and> t_intra t = of_nat i \<and> \<not> isl (DecodeTxnExtra c (t_extra t)) \<and>
     (if j = i then RootIntra (txn_extra c t) = zero_OptionalUint
      else RootIntra (txn_extra c t) = \<lparr>Present = True, Value = of_nat j\<rparr> \<and> RootTxid (txn_extra c t) = TransactionIDString env (stxn_Txn s)) \<and>
     json_num srv [''root-intra''] (t_extra t) = (if j = i then None else Some (int j))"

lemma tree_at_root:
  assumes "tree_at env c rows j n s"
  shows "j < length rows" "t_txid (rows ! j) = Some (TransactionIDString env (stxn_Txn s))"
    "t_txn (rows ! j) = EncodeSignedTxnWithAD c s"
  using assms by (simp_all add: tree_at_def)

lemma root_in_table:
  assumes "1 \<le> r" "r \<le> k" "tree_at env c (chain_rows env c chain r) j n s"
  shows "chain_rows env c chain r ! j \<in> set (tbl_txn (txns_upto env c chain k))"
  unfolding chain_row using assms(1,2) tree_at_root(1) [OF assms(3)] by blast

lemma tree_at_id:
  assumes "imported env srv c chain k" "1 \<le> r" "r \<le> k" "tree_at env c (chain_rows env c chain r) j n s"
  shows "TransactionIDString env (stxn_Txn s) \<in> set (chain_ids env chain k)"
proof -
  have "TransactionIDString env (stxn_Txn s) \<in> set (List.map_filter t_txid (tbl_txn (txns_upto env c chain k)))"
    using root_in_table [where chain = chain, OF assms(2-4)] tree_at_root(2) [OF assms(4)] by (force simp: List.map_filter_def)
  then show ?thesis unfolding chain_row_ids [OF imported_chain(1) [OF assms(1)]] .
qed

lemma imported_placed:
  assumes "imported env srv c chain k" "t \<in> set (tbl_txn (txns_upto env c chain k))"
  obtains r i j n s where "placed env srv c chain k r i j n s t"
proof -
  obtain r i where r: "1 \<le> r" "r \<le> k" "i < length (chain_rows env c chain r)" "t = chain_rows env c chain r ! i"
    using assms(2) unfolding chain_row by blast
  note im = imported_chain(1,3) [OF assms(1)] imported_chain(7,8) [OF assms(1) r(1,2)] imported_chain(6) [OF assms(1)]
  obtain j n s x where x: "tree_at env c (chain_rows env c chain r) j n s" "j \<le> i" "i \<le> j + n"
    "t_extra t = EncodeTxnExtra c x"
    "if j = i then RootIntra x = zero_OptionalUint \<and> RootTxid x = []
      else RootIntra x = \<lparr>Present = True, Value = of_nat j\<rparr> \<and> RootTxid x = TransactionIDString env (stxn_Txn s)"
    unfolding r(4) by (rule row_in_tree [OF importable_block(1) [OF im(1)] im(3) r(3)])
  have n: "j + n < 2 ^ 31" using x(1) im(4) by (simp add: tree_at_def)
  have v: "valid_utf8 (RootTxid x)"
    using x(5) tree_at_id [OF assms(1) r(1,2), of j n s] x(1) im(5) by (auto simp: list_all_iff split: if_splits)
  have j: "(of_nat j :: uint64) < 2 ^ 31" "uint (of_nat j :: uint64) = int j"
    using n by (simp_all add: word_less_nat_alt unat_of_nat64 uint_nat)
  have e: "DecodeTxnExtra c (t_extra t) = Inr x" "json_num srv [''root-intra''] (t_extra t) = (if j = i then None else Some (int j))"
    using im(2) [unfolded stores_extra_def, rule_format, OF v] x(5) j by (auto simp: x(4) zero_OptionalUint_def split: if_splits)
  have "placed env srv c chain k r i j n s t"
    unfolding placed_def using r x(1-3,5) n e chain_position [OF im(1) r(3)] by (auto simp: txn_extra_def)
  with that show thesis by blast
qed

lemma find_only:
  assumes "x \<in> set xs" "P x" "\<And>y. y \<in> set xs \<Longrightarrow> P y \<Longrightarrow> y = x"
  shows "find P xs = Some x"
proof -
  have "find P xs \<noteq> None" using assms(1,2) by (auto simp: find_None_iff)
  then obtain y where y: "find P xs = Some y" by blast
  from assms(3) find_map_Some [OF this] have "y = x" by blast
  with y show ?thesis by simp
qed

lemma chain_keys:
  assumes "imported env srv c chain k"
  shows "distinct (map txn_key (tbl_txn (txns_upto env c chain k)))"
proof -
  have "sorted_wrt (<) (map txn_key (tbl_txn (txns_upto env c chain k)))"
    unfolding sorted_wrt_map by (rule chain_sorted) (use imported_chain(1,4) [OF assms] in auto)
  then show ?thesis by (simp only: strict_sorted_iff)
qed

lemma placed_simps:
  assumes "placed env srv c chain k r i j n s t"
  shows "t_round t = of_nat r" "t_intra t = of_nat i" "root_intra c t = of_nat j"
    and "stored_id c t = TransactionIDString env (stxn_Txn s)"
    and "t_txid t \<noteq> None \<longleftrightarrow> j = i"
    and "tree_at env c (chain_rows env c chain r) j n s"
    and "json_num srv [''root-intra''] (t_extra t) = (if j = i then None else Some (int j))"
proof -
  note p = assms [unfolded placed_def]
  show "t_round t = of_nat r" "t_intra t = of_nat i" "tree_at env c (chain_rows env c chain r) j n s"
    "json_num srv [''root-intra''] (t_extra t) = (if j = i then None else Some (int j))" using p by blast+
  show "root_intra c t = of_nat j" using p by (auto simp: root_intra_def zero_OptionalUint_def split: if_splits)
  have "t_txid t = (if j = i then Some (TransactionIDString env (stxn_Txn s)) else None)"
    using p tree_at_root(2) [of env c "chain_rows env c chain r" j n s] by (auto simp: tree_at_def)
  with p show "stored_id c t = TransactionIDString env (stxn_Txn s)" "t_txid t \<noteq> None \<longleftrightarrow> j = i"
    by (auto simp: stored_id_def split: if_splits)
qed

lemma placed_root_of:
  assumes "imported env srv c chain k" "placed env srv c chain k r i j n s t"
  shows "root_of srv (txns_upto env c chain k) t = (if j = i then None else Some (EncodeSignedTxnWithAD c s))"
proof (cases "j = i")
  case False
  note p = assms(2) [unfolded placed_def] and q = placed_simps(1,7) [OF assms(2)]
  let ?r = "chain_rows env c chain r ! j"
  have r: "?r \<in> set (tbl_txn (txns_upto env c chain k))" using p by (intro root_in_table) blast+
  have pos: "t_round ?r = of_nat r" "t_intra ?r = of_nat j"
    using chain_position [OF imported_chain(1) [OF assms(1)]] p tree_at_root(1) by blast+
  have j: "uint (of_nat j :: uint64) = int j" using p by (simp add: unat_of_nat64 uint_nat)
  have "find (\<lambda>r'. t_round t = t_round r' \<and> json_num srv [''root-intra''] (t_extra t) = Some (uint (t_intra r')))
      (tbl_txn (txns_upto env c chain k)) = Some ?r"
  proof (rule find_only [OF r])
    show "t_round t = t_round ?r \<and> json_num srv [''root-intra''] (t_extra t) = Some (uint (t_intra ?r))"
      using q pos j False by simp
    fix y assume y: "y \<in> set (tbl_txn (txns_upto env c chain k))"
      "t_round t = t_round y \<and> json_num srv [''root-intra''] (t_extra t) = Some (uint (t_intra y))"
    then have "txn_key y = txn_key ?r" using q pos j False by (simp add: word_uint_eq_iff)
    with chain_keys [OF assms(1)] y(1) r show "y = ?r" by (auto simp: distinct_map inj_on_def)
  qed
  with False tree_at_root(3) [OF placed_simps(6) [OF assms(2)]] show ?thesis by (simp add: root_of_def)
qed (simp add: root_of_def find_None_iff placed_simps(7) [OF assms(2)])

lemma placed_shown:
  assumes "imported env srv c chain k" "placed env srv c chain k r i j n s t"
  shows "shown_txn srv c (txns_upto env c chain k) t = s"
    and "tree_end srv c (txns_upto env c chain k) t = of_nat (j + n)"
    and "shown_id env srv c (txns_upto env c chain k) t = TransactionIDString env (stxn_Txn s)"
proof -
  note p = assms(2) [unfolded placed_def]
  have s: "DecodeSignedTxnWithAD c (EncodeSignedTxnWithAD c s) = Inr s" "countInner s = of_nat n"
    using p decode_stored [OF imported_chain(2) [OF assms(1)]] by (auto simp: tree_at_def)
  have "j = i \<Longrightarrow> t_txn t = EncodeSignedTxnWithAD c s" using p tree_at_root(3) by blast
  then show st: "shown_txn srv c (txns_upto env c chain k) t = s"
    using s(1) by (simp add: shown_txn_def reported_def placed_root_of [OF assms])
  show "tree_end srv c (txns_upto env c chain k) t = of_nat (j + n)"
    by (simp add: tree_end_def st s(2) placed_simps(3) [OF assms(2)])
  show "shown_id env srv c (txns_upto env c chain k) t = TransactionIDString env (stxn_Txn s)"
  proof -
    have "if j = i then RootIntra (txn_extra c t) = zero_OptionalUint
      else RootIntra (txn_extra c t) = \<lparr>Present = True, Value = of_nat j\<rparr> \<and> RootTxid (txn_extra c t) = TransactionIDString env (stxn_Txn s)"
      using p by blast
    then show ?thesis by (cases "j = i") (simp_all add: shown_id_def st zero_OptionalUint_def)
  qed
qed

lemma placed_bounds:
  assumes "imported env srv c chain k" "placed env srv c chain k r i j n s t"
  shows "1 \<le> r" "r \<le> k" "r < 2 ^ 64 - 1" "r < 2 ^ 64" "j \<le> i" "i \<le> j + n" "j + n < 2 ^ 31" "j + n < 2 ^ 64" "j < 2 ^ 64"
proof -
  show b: "1 \<le> r" "r \<le> k" "j \<le> i" "i \<le> j + n" "j + n < 2 ^ 31" using assms(2) unfolding placed_def by blast+
  show "r < 2 ^ 64 - 1" "r < 2 ^ 64" using b(2) imported_chain(4) [OF assms(1)] by linarith+
  show "j + n < 2 ^ 64" "j < 2 ^ 64" using b(5) by simp_all
qed

text \<open>Rows have the same identifier when they are in the same tree.\<close>

lemma same_tree:
  assumes "imported env srv c chain k" "placed env srv c chain k r i j n s t" "placed env srv c chain k r' i' j' n' s' t'"
  shows "TransactionIDString env (stxn_Txn s) = TransactionIDString env (stxn_Txn s') \<longleftrightarrow> r = r' \<and> j = j'"
    and "r = r' \<Longrightarrow> j = j' \<Longrightarrow> n = n'"
proof -
  note p = assms(2) [unfolded placed_def] and p' = assms(3) [unfolded placed_def]
  let ?t = "tbl_txn (txns_upto env c chain k)" and ?u = "chain_rows env c chain r ! j" and ?u' = "chain_rows env c chain r' ! j'"
  note im = imported_chain [OF assms(1)]
  note tr = placed_simps(6) [OF assms(2)] and tr' = placed_simps(6) [OF assms(3)]
  have pos: "t_round ?u = of_nat r" "t_intra ?u = of_nat j" "t_round ?u' = of_nat r'" "t_intra ?u' = of_nat j'"
    using chain_position [OF im(1) tree_at_root(1) [OF tr]] chain_position [OF im(1) tree_at_root(1) [OF tr']] by simp_all
  have u: "?u \<in> set ?t" "?u' \<in> set ?t"
    by (rule root_in_table; use p p' in blast)+
  have "distinct (List.map_filter t_txid ?t)" using im(5) chain_row_ids [OF im(1)] by simp
  then have inj: "inj_on (the \<circ> t_txid) {t \<in> set ?t. t_txid t \<noteq> None}" by (simp add: List.map_filter_def distinct_map)
  show "TransactionIDString env (stxn_Txn s) = TransactionIDString env (stxn_Txn s') \<longleftrightarrow> r = r' \<and> j = j'"
  proof
    assume "TransactionIDString env (stxn_Txn s) = TransactionIDString env (stxn_Txn s')"
    then have "?u = ?u'" using inj u tree_at_root(2) [OF tr] tree_at_root(2) [OF tr'] by (auto simp: inj_on_def)
    then have "(of_nat r :: uint64) = of_nat r'" "(of_nat j :: uint64) = of_nat j'" using pos by simp_all
    then show "r = r' \<and> j = j'"
      using of_nat64_eq placed_bounds(4,9) [OF assms(1,2)] placed_bounds(4,9) [OF assms(1,3)] by blast
  next
    assume "r = r' \<and> j = j'"
    then show "TransactionIDString env (stxn_Txn s) = TransactionIDString env (stxn_Txn s')"
      using tree_at_root(2) [OF tr] tree_at_root(2) [OF tr'] by simp
  qed
  show "n = n'" if "r = r'" "j = j'"
  proof (rule ccontr)
    assume "n \<noteq> n'"
    then consider "n < n'" | "n' < n" by linarith
    then show False using tr tr' that by cases (auto simp: tree_at_def)
  qed
qed

lemma imported_call_trees:
  assumes "imported env srv c chain k"
  shows "call_trees env srv c (txns_upto env c chain k)"
proof -
  let ?db = "txns_upto env c chain k"
  have "root_intra c t \<le> t_intra t \<and> t_intra t \<le> tree_end srv c ?db t \<and> tree_end srv c ?db t < 2 ^ 32"
    if "t \<in> set (tbl_txn ?db)" for t
  proof -
    from imported_placed [OF assms that] obtain r i j n s where p: "placed env srv c chain k r i j n s t" by blast
    note b = placed_bounds(5,6,7) [OF assms p]
    moreover have "(of_nat (j + n) :: uint64) < 2 ^ 32"
      using b(3) by (simp add: word_less_nat_alt unat_of_nat64 del: of_nat_add)
    ultimately show ?thesis
      by (simp add: placed_simps(2,3) [OF p] placed_shown(2) [OF assms p] nat64_le del: of_nat_add)
  qed
  moreover have "trees_apart env srv c ?db t t'" if t: "t \<in> set (tbl_txn ?db)" "t' \<in> set (tbl_txn ?db)" for t t'
  proof -
    from imported_placed [OF assms t(1)] obtain r i j n s where p: "placed env srv c chain k r i j n s t" by blast
    from imported_placed [OF assms t(2)] obtain r' i' j' n' s' where p': "placed env srv c chain k r' i' j' n' s' t'" by blast
    note b = placed_bounds(4,8,9) [OF assms p] placed_bounds(4,8,9) [OF assms p']
    have eq: "(of_nat r :: uint64) = of_nat r' \<longleftrightarrow> r = r'" "(of_nat j :: uint64) = of_nat j' \<longleftrightarrow> j = j'"
      using of_nat64_eq b by blast+
    have "j + n < j'" if "r = r'" "j < j'"
      using trees_disjoint [OF placed_simps(6) [OF p]] placed_simps(6) [OF p'] that by blast
    then show ?thesis
      unfolding trees_apart_def placed_shown(2,3) [OF assms p] placed_shown(2,3) [OF assms p'] placed_simps(1,3) [OF p]
        placed_simps(1,3) [OF p'] same_tree(1) [OF assms p p'] eq
      using same_tree(2) [OF assms p p'] b by (auto simp: nat64_less simp del: of_nat_add)
  qed
  ultimately show ?thesis unfolding call_trees_def list.pred_set by blast
qed

section \<open>What an import serves\<close>

lemma chain_participation:
  assumes "importable env c chain" "k < 2 ^ 64"
  shows "distinct (map tp_key (tbl_txn_participation (txns_upto env c chain k)))"
  using assms(2)
proof (induction k)
  case (Suc k)
  let ?b = "vb_Block (chain (of_nat (Suc k)))"
  note y = importable_block(2,4) [OF assms(1), of "of_nat (Suc k)"]
  have new: "(of_nat j :: uint64) \<noteq> of_nat (Suc k)" if "j \<le> k" for j
    using of_nat64_eq [of j "Suc k"] that Suc.prems by force
  have "tp_key ` set (transactionParticipation ?b) \<inter> tp_key ` set (tbl_txn_participation (txns_upto env c chain k)) = {}"
    using participation_round [of _ ?b] y(1) txns_upto_rounds(2) [OF assms(1)] new by fastforce
  moreover have "distinct (map tp_key (transactionParticipation ?b))"
    using y(2) by (auto simp: distinct_map inj_on_def intro: txn_participation_row.equality)
  ultimately show ?case using Suc by (auto simp: Let_def simp del: of_nat_Suc)
qed simp

text \<open>The headers of the blocks are stored, with times that grow with the round.\<close>

definition headers_stored :: "'j block_header_row list \<Rightarrow> nat \<Rightarrow> bool" where
  "headers_stored hs k \<longleftrightarrow>
     key_unique bhr_round hs \<and> (\<forall>r \<in> {1..k}. list_ex (\<lambda>h. bhr_round h = of_nat r) hs) \<and>
     list_all (\<lambda>h. list_all (\<lambda>h'. bhr_round h < bhr_round h' \<longrightarrow> bhr_realtime h < bhr_realtime h') hs) hs"

lemma imported_searchable:
  assumes "imported env srv c chain k" "headers_stored hs k"
  shows "searchable hs (txns_upto env c chain k)"
proof -
  have "list_ex (\<lambda>h. bhr_round h = t_round t) hs" if t: "t \<in> set (tbl_txn (txns_upto env c chain k))" for t
  proof -
    from imported_placed [OF assms(1) t] obtain r i j n s where p: "placed env srv c chain k r i j n s t" by blast
    with placed_bounds(1,2) [OF assms(1) p] assms(2) show ?thesis by (simp add: headers_stored_def placed_simps(1) [OF p])
  qed
  moreover have "k < 2 ^ 64" using imported_chain(4) [OF assms(1)] by linarith
  ultimately show ?thesis
    using assms(2) chain_keys [OF assms(1)] chain_participation [OF imported_chain(1) [OF assms(1)]]
    unfolding searchable_def headers_stored_def key_unique_def list.pred_set by blast
qed

lemma imported_readable:
  assumes "imported env srv c chain k"
  shows "readable c (txns_upto env c chain k)"
  unfolding readable_def list.pred_set
proof
  fix t assume t: "t \<in> set (tbl_txn (txns_upto env c chain k))"
  from imported_placed [OF assms t] obtain r i j n s where p: "placed env srv c chain k r i j n s t" by blast
  then have e: "\<not> isl (DecodeTxnExtra c (t_extra t))" "t \<in> set (chain_rows env c chain r)" by (auto simp: placed_def)
  moreover have "\<not> isl (DecodeSignedTxnWithAD c (t_txn t))"
    by (rule rows_decodable [OF importable_block(1) [OF imported_chain(1) [OF assms]]
          imported_chain(7) [OF assms placed_bounds(1,2) [OF assms p]] imported_chain(2) [OF assms] e(2)])
  ultimately show "\<not> isl (DecodeSignedTxnWithAD c (t_txn t)) \<and> \<not> isl (DecodeTxnExtra c (t_extra t))" by blast
qed

lemma imported_rooted:
  assumes "imported env srv c chain k"
  shows "rooted srv (txns_upto env c chain k)"
  unfolding rooted_def list.pred_set list_ex_iff
proof
  let ?db = "txns_upto env c chain k"
  fix t assume t: "t \<in> set (tbl_txn ?db)"
  from imported_placed [OF assms t] obtain r i j n s where p: "placed env srv c chain k r i j n s t" by blast
  let ?r = "chain_rows env c chain r ! j"
  note tr = placed_simps(6) [OF p] and num = placed_simps(7) [OF p]
  show "if t_txid t \<noteq> None then json_num srv [''root-intra''] (t_extra t) = None
    else \<exists>u \<in> set (tbl_txn ?db). t_txid u \<noteq> None \<and> t_round u = t_round t \<and>
      json_num srv [''root-intra''] (t_extra t) = Some (uint (t_intra u))"
  proof (cases "j = i")
    case False
    have r: "?r \<in> set (tbl_txn ?db)" by (rule root_in_table [where chain = chain, OF placed_bounds(1,2) [OF assms p] tr])
    have pos: "t_round ?r = of_nat r" "t_intra ?r = of_nat j"
      using chain_position [OF imported_chain(1) [OF assms] tree_at_root(1) [OF tr]] by blast+
    have "uint (of_nat j :: uint64) = int j" using placed_bounds(9) [OF assms p] by (simp add: uint_nat unat_of_nat64)
    then have "t_txid ?r \<noteq> None \<and> t_round ?r = t_round t \<and> json_num srv [''root-intra''] (t_extra t) = Some (uint (t_intra ?r))"
      using False by (simp only: num pos tree_at_root(2) [OF tr] placed_simps(1) [OF p]) simp
    with r show ?thesis using False placed_simps(5) [OF p] by (simp only: if_False) blast
  qed (use num placed_simps(5) [OF p] in simp)
qed

text \<open>The tables of an import are tables that the search for transactions can serve.\<close>

lemma imported_serves_trees:
  assumes "imported (si_sdk si) (si_sql si) (si_codec si) chain k"
    and "si_txns si = txns_upto (si_sdk si) (si_codec si) chain k" "headers_stored (tbl_block_header (si_tables si)) k"
  shows "serves_trees si"
proof -
  have "0 < t_round t \<and> t_round t < - 1 \<and>
      list_all renderable (shown_txn (si_sql si) (si_codec si) (si_txns si) t # descendants (shown_txn (si_sql si) (si_codec si) (si_txns si) t))"
    if t: "t \<in> set (tbl_txn (si_txns si))" for t
  proof -
    from imported_placed [OF assms(1) t [unfolded assms(2)]] obtain r i j n s
      where p: "placed (si_sdk si) (si_sql si) (si_codec si) chain k r i j n s t" by blast
    note b = placed_bounds(1-4) [OF assms(1) p]
    have m: "(- 1 :: uint64) = 18446744073709551615" by simp
    have "0 < (of_nat r :: uint64)" "(of_nat r :: uint64) < - 1"
      unfolding m using b nat64_less [of 0 r] nat64_less [of r "2 ^ 64 - 1"] by simp_all
    with placed_simps(6) [OF p] show ?thesis
      by (simp only: assms(2) placed_shown(1) [OF assms(1) p] placed_simps(1) [OF p] tree_at_def)
  qed
  then show ?thesis
    using imported_searchable [OF assms(1,3)] imported_readable [OF assms(1)] imported_rooted [OF assms(1)]
      imported_call_trees [OF assms(1)]
    unfolding serves_trees_def Let_def assms(2) list.pred_set by blast
qed

section \<open>From the import to the search\<close>

lemma imported_id:
  assumes "imported env srv c chain k" "t \<in> set (tbl_txn (txns_upto env c chain k))"
  shows "shown_id env srv c (txns_upto env c chain k) t = stored_id c t"
proof -
  from imported_placed [OF assms] obtain r i j n s where p: "placed env srv c chain k r i j n s t" by blast
  show ?thesis by (simp only: placed_shown(3) [OF assms(1) p] placed_simps(4) [OF p])
qed

lemma imported_root:
  assumes "imported env srv c chain k" "t \<in> set (tbl_txn (txns_upto env c chain k))"
  obtains u where "u \<in> set (tbl_txn (txns_upto env c chain k))" "t_txid u \<noteq> None" "t_round u = t_round t" "stored_id c u = stored_id c t"
proof -
  from imported_placed [OF assms] obtain r i j n s where p: "placed env srv c chain k r i j n s t" by blast
  let ?u = "chain_rows env c chain r ! j"
  note tr = placed_simps(6) [OF p]
  show thesis
  proof (rule that [of ?u])
    show "?u \<in> set (tbl_txn (txns_upto env c chain k))"
      by (rule root_in_table [where chain = chain, OF placed_bounds(1,2) [OF assms(1) p] tr])
    show "t_txid ?u \<noteq> None" "stored_id c ?u = stored_id c t"
      by (simp_all add: stored_id_def [of c ?u] tree_at_root(2) [OF tr] placed_simps(4) [OF p])
    show "t_round ?u = t_round t"
      by (simp only: chain_position(1) [OF imported_chain(1) [OF assms(1)] tree_at_root(1) [OF tr]] placed_simps(1) [OF p])
  qed
qed

lemma root_row_intra:
  assumes "imported env srv c chain k" "t \<in> set (tbl_txn (txns_upto env c chain k))" "t_txid t \<noteq> None"
  shows "root_intra c t = t_intra t"
proof -
  from imported_placed [OF assms(1,2)] obtain r i j n s where p: "placed env srv c chain k r i j n s t" by blast
  show ?thesis using assms(3) placed_simps(2,3,5) [OF p] by simp
qed

text \<open>The trees with a row that a filter selects are the trees with a row that the optimized filter selects.\<close>

lemma optimized_ids:
  assumes "imported env srv c chain k" "tf_Offset tf = None" "tf_OffsetLT tf = None" "tf_OffsetGT tf = None"
  shows "stored_id c ` {t \<in> set (tbl_txn (txns_upto env c chain k)). selected srv hs db (txnFilterOptimization tf) t} =
    stored_id c ` {t \<in> set (tbl_txn (txns_upto env c chain k)). selected srv hs db tf t}"
proof (cases "txnFilterOptimization tf = tf")
  case False
  note opt = optimized_selects [OF assms(2-4) False]
  show ?thesis
  proof (intro equalityI subsetI)
    fix x assume "x \<in> stored_id c ` {t \<in> set (tbl_txn (txns_upto env c chain k)). selected srv hs db tf t}"
    then obtain t where t: "t \<in> set (tbl_txn (txns_upto env c chain k))" "selected srv hs db tf t" "x = stored_id c t" by blast
    from imported_root [OF assms(1) t(1)] obtain u where u: "u \<in> set (tbl_txn (txns_upto env c chain k))" "t_txid u \<noteq> None"
      "t_round u = t_round t" "stored_id c u = stored_id c t" by blast
    have "selected srv hs db (txnFilterOptimization tf) u" using opt(1) opt(2) [OF u(3)] u(2) t(2) by blast
    with u t(3) show "x \<in> stored_id c ` {t \<in> set (tbl_txn (txns_upto env c chain k)). selected srv hs db (txnFilterOptimization tf) t}"
      by (intro image_eqI [of _ _ u]) auto
  qed (use opt(1) in blast)
qed simp

text \<open>The roots of some trees, in the order of a search.\<close>

definition tree_roots :: "bool \<Rightarrow> 'j codec \<Rightarrow> 'j txn_tables \<Rightarrow> string set \<Rightarrow> 'j txn_row list" where
  "tree_roots descending c db ids =
     (let rs = filter (\<lambda>t. t_txid t \<noteq> None \<and> stored_id c t \<in> ids) (tbl_txn db) in if descending then rev rs else rs)"

lemma tree_roots_ids:
  assumes "importable env c chain"
  shows "map (stored_id c) (tree_roots desc c (txns_upto env c chain k) ids) =
    (if desc then rev (filter (\<lambda>x. x \<in> ids) (chain_ids env chain k)) else filter (\<lambda>x. x \<in> ids) (chain_ids env chain k))"
proof -
  have "map (stored_id c) (filter (\<lambda>t. t_txid t \<noteq> None \<and> stored_id c t \<in> ids) ts) = filter (\<lambda>x. x \<in> ids) (List.map_filter t_txid ts)" for ts
    by (induction ts) (auto simp: map_filter_simps stored_id_def split: option.splits)
  from this [of "tbl_txn (txns_upto env c chain k)"] show ?thesis
    unfolding chain_row_ids [OF assms] by (simp add: tree_roots_def Let_def flip: rev_map)
qed

lemma tree_roots_sorted:
  assumes "imported env srv c chain k"
  shows "sorted_wrt (<) (map (tree_key desc c) (tree_roots desc c (txns_upto env c chain k) ids))"
proof -
  let ?t = "tbl_txn (txns_upto env c chain k)"
  let ?rs = "filter (\<lambda>t. t_txid t \<noteq> None \<and> stored_id c t \<in> ids) ?t"
  have "sorted_wrt (\<lambda>t t'. txn_key t < txn_key t') ?rs"
    by (intro sorted_wrt_filter chain_sorted) (use imported_chain(1,4) [OF assms] in linarith)+
  then have "sorted_wrt (\<lambda>t t'. if desc then tree_key desc c t' < tree_key desc c t else tree_key desc c t < tree_key desc c t') ?rs"
  proof (rule sorted_wrt_mono_rel [rotated])
    fix t t' assume "t \<in> set ?rs" "t' \<in> set ?rs" and less: "txn_key t < txn_key t'"
    then have "root_intra c t = t_intra t" "root_intra c t' = t_intra t'" using root_row_intra [OF assms] by auto
    moreover have "t_round t < t_round t' \<or> t_round t = t_round t' \<and> t_intra t < t_intra t'" using less by (auto simp: less_prod_def)
    ultimately show "if desc then tree_key desc c t' < tree_key desc c t else tree_key desc c t < tree_key desc c t'"
      by (cases desc) (auto simp: tree_key_less)
  qed
  then show ?thesis by (cases desc) (simp_all add: tree_roots_def Let_def sorted_wrt_map sorted_wrt_rev)
qed

lemma map_eq_transfer:
  assumes "map f xs = map f ys" "\<And>x y. x \<in> set xs \<Longrightarrow> y \<in> set ys \<Longrightarrow> f x = f y \<Longrightarrow> g x = g y"
  shows "map g xs = map g ys"
proof -
  have "length xs = length ys" using assms(1) map_eq_imp_length_eq by blast
  then show ?thesis using assms by (induction xs ys rule: list_induct2) auto
qed

lemma search_ids:
  fixes si :: "'j api_env" and chain k tf
  defines "db \<equiv> txns_upto (si_sdk si) (si_codec si) chain k" and "desc \<equiv> tf_Address tf \<noteq> None"
  assumes "imported (si_sdk si) (si_sql si) (si_codec si) chain k" "si_txns si = db" "serves_trees si"
  shows "map (stored_id (si_codec si)) (group_firsts (tree_key desc (si_codec si)) (found_trees si tf)) =
    map (stored_id (si_codec si)) (tree_roots desc (si_codec si) db (stored_id (si_codec si) ` set (found_trees si tf)))"
proof (rule map_eq_transfer)
  let ?c = "si_codec si" and ?key = "tree_key desc (si_codec si)"
  let ?fs = "group_firsts ?key (found_trees si tf)"
  let ?rs = "tree_roots desc ?c db (stored_id ?c ` set (found_trees si tf))"
  have found: "t \<in> set (tbl_txn db)" if "t \<in> set (found_trees si tf)" for t using found_row(1) [OF that] assms(4) by simp
  have sub: "set ?fs \<subseteq> set (found_trees si tf)" "set ?rs \<subseteq> set (tbl_txn db)"
    by (auto simp: group_firsts_def set_firsts tree_roots_def Let_def dest: subsetD [OF set_firsts])
  have same: "stored_id ?c t = stored_id ?c t' \<longleftrightarrow> ?key t = ?key t'" if "t \<in> set (tbl_txn db)" "t' \<in> set (tbl_txn db)" for t t'
    using call_trees_pair(1) [OF imported_call_trees [OF assms(3)]] imported_id [OF assms(3)] that unfolding db_def by metis
  have so: "sorted (map ?key (found_trees si tf))" unfolding desc_def by (rule found_trees_sorted [OF assms(5)])
  have "?key ` set ?rs = ?key ` set (found_trees si tf)"
  proof (intro equalityI subsetI)
    fix x assume "x \<in> ?key ` set ?rs"
    then obtain t where t: "t \<in> set ?rs" "x = ?key t" by blast
    then obtain u where u: "u \<in> set (found_trees si tf)" "stored_id ?c t = stored_id ?c u"
      by (auto simp: tree_roots_def Let_def split: if_splits)
    then have "?key t = ?key u" using same [OF subsetD [OF sub(2) t(1)] found [OF u(1)]] by blast
    then show "x \<in> ?key ` set (found_trees si tf)" using u(1) t(2) by blast
  next
    fix x assume "x \<in> ?key ` set (found_trees si tf)"
    then obtain u where u: "u \<in> set (found_trees si tf)" "x = ?key u" by blast
    obtain t where t: "t \<in> set (tbl_txn db)" "t_txid t \<noteq> None" "stored_id ?c t = stored_id ?c u"
      using imported_root [OF assms(3) found [OF u(1), unfolded db_def]] unfolding db_def by blast
    have "t \<in> set ?rs" using t u(1) by (auto simp: tree_roots_def Let_def)
    moreover have "?key t = x" using same [OF t(1) found [OF u(1)]] t(3) u(2) by blast
    ultimately show "x \<in> ?key ` set ?rs" by blast
  qed
  then have "set (map ?key ?fs) = set (map ?key ?rs)" using group_firsts_once(2) [of ?key "found_trees si tf"] by simp
  moreover have "sorted (map ?key ?fs)" "distinct (map ?key ?fs)"
    using firsts_strict [OF so, of None] by (simp_all add: group_firsts_def strict_sorted_iff)
  moreover have "sorted (map ?key ?rs)" "distinct (map ?key ?rs)"
    using tree_roots_sorted [OF assms(3), of desc] unfolding db_def strict_sorted_iff by blast+
  ultimately show "map ?key ?fs = map ?key ?rs" by (intro sorted_distinct_set_unique)
  show "stored_id ?c x = stored_id ?c y" if "x \<in> set ?fs" "y \<in> set ?rs" "?key x = ?key y" for x y
    using same [OF found [OF subsetD [OF sub(1) that(1)]] subsetD [OF sub(2) that(2)]] that(3) by blast
qed

text \<open>C5: the search returns what was imported. Over the tables that the import of the first \<open>k\<close> blocks
  leaves, a client that follows the page tokens of a search gets exactly the transactions of these blocks
  that satisfy the filter, or have an inner transaction at any depth that does: each of them once, in the
  order of the blocks, or backwards in the transactions of an account, the payout of a block last in its
  block, whatever the page size.\<close>

theorem import_then_search:
  assumes "imported (si_sdk si) (si_sql si) (si_codec si) chain k"
    and "si_txns si = txns_upto (si_sdk si) (si_codec si) chain k" "headers_stored (tbl_block_header (si_tables si)) k"
    and "answers si rnd" "si_query si = quiet_query_env" "enabled si ''SearchForTransactions'' ctx"
    and "SearchForTransactions_filter (si_sdk si) (si_opts si) (params\<lparr>stp_Next := None\<rparr>) = Inr tf"
    and "tf_Limit tf \<noteq> 0" "tf_GroupID tf = []" "tf_Offset tf = None" "\<not> id_conflict tf" and "length (tbl_txn (si_txns si)) < fuel"
  shows "\<exists>txns. follow_pages (\<lambda>next. page_pair (SearchForTransactions si ctx (params\<lparr>stp_Next := next\<rparr>))) fuel None = Some (Inr txns) \<and>
    map txn_id txns =
      (if tf_Address tf = None then (\<lambda>ids. ids) else rev)
        (filter (\<lambda>x. \<exists>t \<in> set (tbl_txn (si_txns si)).
             selected (si_sql si) (tbl_block_header (si_tables si)) (si_txns si) tf t \<and> stored_id (si_codec si) t = x)
           (chain_ids (si_sdk si) chain k))"
proof -
  let ?c = "si_codec si" and ?sel = "selected (si_sql si) (tbl_block_header (si_tables si)) (si_txns si)"
  let ?fs = "group_firsts (tree_key (tf_Address tf \<noteq> None) ?c) (found_trees si tf)"
  have sv: "serves_trees si" by (rule imported_serves_trees [OF assms(1-3)])
  have fl: "length (found_trees si tf) < fuel"
    by (rule le_less_trans [OF _ assms(12)]) (simp add: found_trees_def search_def search_order_def)
  note follow = follow_transactions [OF assms(4-6) sv assms(7-9,11) fl]
  have "tf = params_filter (si_sdk si) (si_opts si) (params\<lparr>stp_Next := None\<rparr>)" using assms(7) SearchForTransactions_filter_step by metis
  then have off: "tf_OffsetLT tf = None" "tf_OffsetGT tf = None" by (simp_all add: params_filter_plain)
  have id: "txn_id (tree_shown si (txnFilterOptimization tf) t) = stored_id ?c t" if "t \<in> set (found_trees si tf)" for t
    using follow(2) [OF that] imported_id [OF assms(1) found_row(1) [OF that, unfolded assms(2)]] by (simp only: assms(2))
  have "set ?fs \<subseteq> set (found_trees si tf)" by (simp add: group_firsts_def set_firsts)
  with id have "map txn_id (map (tree_shown si (txnFilterOptimization tf)) ?fs) = map (stored_id ?c) ?fs"
    unfolding map_map by (intro map_cong) auto
  also have "\<dots> = map (stored_id ?c) (tree_roots (tf_Address tf \<noteq> None) ?c (si_txns si) (stored_id ?c ` set (found_trees si tf)))"
    unfolding assms(2) by (rule search_ids [OF assms(1,2) sv])
  also have "stored_id ?c ` set (found_trees si tf) = stored_id ?c ` {t \<in> set (tbl_txn (si_txns si)). ?sel tf t}"
    using optimized_ids [OF assms(1,10) off] by (simp add: found_trees_def set_search assms(2))
  finally have "map txn_id (map (tree_shown si (txnFilterOptimization tf)) ?fs) =
    (if tf_Address tf = None then (\<lambda>ids. ids) else rev)
      (filter (\<lambda>x. x \<in> stored_id ?c ` {t \<in> set (tbl_txn (si_txns si)). ?sel tf t}) (chain_ids (si_sdk si) chain k))"
    unfolding assms(2) tree_roots_ids [OF imported_chain(1) [OF assms(1)]] by simp
  moreover have "(\<lambda>x. x \<in> stored_id ?c ` {t \<in> set (tbl_txn (si_txns si)). ?sel tf t}) =
    (\<lambda>x. \<exists>t \<in> set (tbl_txn (si_txns si)). ?sel tf t \<and> stored_id ?c t = x)" by blast
  ultimately show ?thesis using follow(1) by auto
qed

section \<open>Examples\<close>

text \<open>A chain whose first block has a call with an inner transaction and a second transaction, while the
  other blocks have one transaction. Transactions are named by their notes.\<close>

definition noted :: "string \<Rightarrow> SignedTxnWithAD list \<Rightarrow> SignedTxnWithAD" where
  "noted name its =
     MkSignedTxnWithAD
       (zero_SignedTxn\<lparr>Txn := zero_Transaction\<lparr>txn_Type := PaymentTx, Header := zero_Header\<lparr>Note := name\<rparr>\<rparr>\<rparr>)
       (MkApplyData 0 0 0 0 0 (MkEvalDelta fmempty fmempty [] [] its) 0 0)"

definition notes_chain :: "uint64 \<Rightarrow> ValidatedBlock" where
  "notes_chain r =
     \<lparr>vb_Block =
        \<lparr>BlockHeader = example_header\<lparr>bh_Round := r\<rparr>,
         Payset = (if r = 1 then [in_block (noted ''A'' [noted ''I'' []]), in_block (noted ''B'' [])] else [in_block (noted ''C'' [])])\<rparr>,
      vb_Delta = example_delta\<rparr>"

definition notes_sdk :: sdk where
  "notes_sdk = example_sdk\<lparr>TransactionIDString := (\<lambda>txn. Note (Header txn))\<rparr>"

lemmas notes_defs = notes_chain_def notes_sdk_def noted_def in_block_def example_sdk_def example_header_def zero_BlockHeader_def
  example_proto_def set_GenesisID_def set_GenesisHash_def zero_SignedTxn_def zero_Transaction_def zero_Header_def PaymentTx_def

lemma notes_decoded:
  "DecodeSignedTxn notes_sdk (BlockHeader (vb_Block (notes_chain r))) (in_block (noted name its)) =
     Inr (set_GenesisHash (replicate 32 (CHR 0x01)) (set_GenesisID ''net'' (SignedTxn (noted name its))), ApplyData (noted name its))"
  by (simp add: DecodeSignedTxn_def notes_defs Let_def)

lemma notes_importable:
  "importable notes_sdk example_codec notes_chain"
  "length (txn_rows notes_sdk example_codec (vb_Block (notes_chain r))) = (if r = 1 then 3 else 1)"
  by (simp_all add: importable_def txn_rows_def yieldTransactions_def root_row_def inner_row_def has_payout_def
      transactionAssetID_def DecodeSignedTxn_def GetTypeEnum_def typeEnumMap_def notes_defs TxType_defs
      set_InnerTxns_def Let_def producer_wrap_def producer_bind_def result_simps)

lemma notes_block_ok: "block_ok notes_sdk (vb_Block (notes_chain r))"
proof -
  have u: "valid_utf8 ''net''" "valid_utf8 ''pay''" by (rule valid_utf8_ascii, simp)+
  have "renderable (MkSignedTxnWithAD st (ApplyData (noted name its)))"
    if "txn_Type (Txn st) = PaymentTx" for st name its
    using that by (simp add: renderable_def noted_def ApplicationCallTx_def PaymentTx_def)
  moreover have "renderable (noted ''I'' [])" by (simp add: renderable_def noted_def ApplicationCallTx_def PaymentTx_def)
  moreover have "descendants (MkSignedTxnWithAD st (ApplyData (noted name its))) = descendants_of its" for st name its
    by (simp add: noted_def)
  moreover have "descendants_of [noted ''I'' []] = [noted ''I'' []]" by (simp add: noted_def)
  moreover have "stxn_utf8 (MkSignedTxnWithAD (set_GenesisHash h (set_GenesisID ''net'' (SignedTxn (noted name its)))) (ApplyData (noted name its)))
      \<longleftrightarrow> stxns_utf8 its" for h name its
    using u by (simp add: notes_defs)
  moreover have "stxns_utf8 [noted ''I'' []]" "valid_utf8 (bh_GenesisID (BlockHeader (vb_Block (notes_chain r))))"
    using u by (simp_all add: notes_defs)
  moreover have "txn_Type (Txn (set_GenesisHash h (set_GenesisID g (SignedTxn (noted name its))))) = PaymentTx" for h g name its
    by (simp add: notes_defs)
  moreover have "Payset (vb_Block (notes_chain r)) =
      (if r = 1 then [in_block (noted ''A'' [noted ''I'' []]), in_block (noted ''B'' [])] else [in_block (noted ''C'' [])])"
    by (simp add: notes_chain_def)
  moreover have "stib_SignedTxnWithAD (in_block s) = s" for s by (simp add: in_block_def)
  ultimately show ?thesis by (simp add: block_ok_def notes_decoded)
qed

lemma notes_ids: "chain_ids notes_sdk notes_chain 2 = [''A'', ''B'', ''C'']"
proof -
  have "block_ids notes_sdk (vb_Block (notes_chain 1)) = [''A'', ''B'']" "block_ids notes_sdk (vb_Block (notes_chain 2)) = [''C'']"
    by (simp_all add: block_ids_def root_txid_def DecodeSignedTxn_def has_payout_def notes_defs Let_def)
  then show ?thesis by (simp add: chain_ids_def numeral_2_eq_2)
qed

lemma example_stores_extra: "stores_extra example_server example_codec"
  by (simp add: stores_extra_def)

lemma notes_imported: "imported notes_sdk example_server example_codec notes_chain 2"
proof -
  have "valid_utf8 ''A''" "valid_utf8 ''B''" "valid_utf8 ''C''" by (rule valid_utf8_ascii, simp)+
  then show ?thesis
    by (simp add: imported_def notes_importable notes_block_ok notes_ids example_stores_extra)
qed

lemma notes_headers: "headers_stored example_header_rows 2"
proof -
  have "{1..2 :: nat} = {1, 2}" by auto
  then show ?thesis by (simp add: headers_stored_def key_unique_def example_header_rows_def)
qed

definition notes_api :: "document api_env" where
  "notes_api = trees_api\<lparr>si_sdk := notes_sdk, si_txns := txns_upto notes_sdk example_codec notes_chain 2\<rparr>"

lemma notes_api_simps:
  "si_sdk notes_api = notes_sdk" "si_codec notes_api = example_codec" "si_sql notes_api = example_server"
  "si_txns notes_api = txns_upto notes_sdk example_codec notes_chain 2" "si_tables notes_api = example_search_tables"
  "si_query notes_api = quiet_query_env" "si_opts notes_api = example_options" "si_disabledParams notes_api = None"
  by (simp_all add: notes_api_def trees_api_simps)

lemma notes_api_answers: "answers notes_api 2"
  using trees_api_answers by (simp add: answers_def notes_api_def)

definition one_by_one :: SearchForTransactionsParams where
  "one_by_one = no_params\<lparr>stp_Limit := Some 1\<rparr>"

definition any_filter :: TransactionFilter where
  "any_filter = zero_TransactionFilter\<lparr>tf_Limit := 1\<rparr>"

lemma one_by_one_filter:
  "SearchForTransactions_filter notes_sdk example_options (one_by_one\<lparr>stp_Next := None\<rparr>) = Inr any_filter"
proof -
  have "one_by_one\<lparr>stp_Next := None\<rparr> = one_by_one" by (simp add: one_by_one_def no_params_def)
  moreover have "well_formed notes_sdk one_by_one"
    by (simp add: well_formed_def one_by_one_def no_params_def address_ok_def notes_sdk_def example_sdk_def)
  moreover have "params_filter notes_sdk example_options one_by_one = any_filter"
    by (simp add: params_filter_def one_by_one_def any_filter_def no_params_def zero_TransactionFilter_def notes_sdk_def
        example_sdk_def strOrDefault_def uintOrDefault_def uintOrDefaultValue_def min_u64_def example_options_def role_mask_def
        decodeAddressRole_def type_value_def decodeType_def base64_value_def decodeBase64Byte_def group_value_def decodeGroupID_def
        timeOrZero_def Let_def)
  moreover have "database_safe any_filter" "rounds_consistent any_filter" "address_consistent any_filter"
    by (simp_all add: any_filter_def zero_TransactionFilter_def database_safe_def rounds_consistent_def address_consistent_def)
  ultimately show ?thesis unfolding SearchForTransactions_filter_step by simp
qed

lemma any_filter_selects: "selected srv hs db any_filter t"
  by (simp add: selected_def in_range_def of_account_def has_contents_def any_filter_def zero_TransactionFilter_def time_IsZero_def)

lemma chain_ids_stored:
  assumes "importable env c chain" "x \<in> set (chain_ids env chain k)"
  shows "\<exists>t \<in> set (tbl_txn (txns_upto env c chain k)). stored_id c t = x"
  using assms(2) unfolding chain_row_ids [OF assms(1), symmetric]
  by (force simp: List.map_filter_def stored_id_def)

theorem import_then_search_witness:
  "\<exists>txns. follow_pages (\<lambda>next. page_pair (SearchForTransactions notes_api (example_request ''x'') (one_by_one\<lparr>stp_Next := next\<rparr>))) 5 None =
     Some (Inr txns) \<and> map txn_id txns = [''A'', ''B'', ''C'']"
proof -
  have e: "enabled notes_api ''SearchForTransactions'' ctx" for ctx by (simp add: enabled_def Verify_def notes_api_simps)
  have l: "length (tbl_txn (txns_upto notes_sdk example_codec notes_chain 2)) = 4"
    unfolding chain_table by (simp add: notes_importable(2) numeral_2_eq_2)
  have "\<exists>t \<in> set (tbl_txn (txns_upto notes_sdk example_codec notes_chain 2)). stored_id example_codec t = x"
    if "x \<in> {''A'', ''B'', ''C''}" for x
    by (rule chain_ids_stored [OF notes_importable(1)]) (use that in \<open>simp add: notes_ids\<close>)
  then have "filter (\<lambda>x. \<exists>t \<in> set (tbl_txn (txns_upto notes_sdk example_codec notes_chain 2)). stored_id example_codec t = x)
      [''A'', ''B'', ''C''] = [''A'', ''B'', ''C'']" by simp
  then show ?thesis
    using import_then_search [of notes_api notes_chain 2 2 "example_request ''x''" one_by_one any_filter 5] e l
      notes_imported notes_headers notes_api_answers one_by_one_filter
    by (simp add: notes_api_simps example_search_headers any_filter_selects notes_ids)
      (simp add: any_filter_def zero_TransactionFilter_def id_conflict_def)
qed

end
